(* ===== verification/Prelude.thy ===== *)
theory Prelude
  imports Main "HOL-Library.Sublist" "HOL-Library.Char_ord" "HOL-Library.List_Lexorder"
    "HOL-Library.Product_Lexorder"
begin

text \<open>
  Shared notions of the development: JavaScript values and the standard-library
  functions the sources use on them (truthiness, \<^verbatim>\<open>trim\<close>, insertion-ordered
  \<^verbatim>\<open>Set\<close>, \<^verbatim>\<open>JSON.stringify\<close>), the result type of the services, the
  SQL statements on tables kept as lists of rows, and three interfaces as locales:
  tables whose rows evolve along a preorder, transition systems with an invariant,
  and key-value stores.
\<close>

named_theorems db_simps "frame and evaluation rules of table and state operations"

section \<open>JavaScript values\<close>

text \<open>Strings are byte strings (UTF-8); numbers that the sources persist are integers.\<close>

datatype json =
    JNull
  | JBool bool
  | JNum int
  | JStr string
  | JArr "json list"
  | JObj "(string \<times> json) list"

text \<open>An optional string that is absent or empty is falsy.\<close>

definition truthy :: "string option \<Rightarrow> bool" where
  "truthy x = (case x of None \<Rightarrow> False | Some v \<Rightarrow> v \<noteq> [])"

text \<open>\<^verbatim>\<open>...(x ? { x } : {})\<close>: the empty string is dropped.\<close>

definition keep_truthy :: "string option \<Rightarrow> string option" where
  "keep_truthy x = (if truthy x then x else None)"

definition or_else :: "'a option \<Rightarrow> 'a \<Rightarrow> 'a" where
  "or_else x d = (case x of None \<Rightarrow> d | Some v \<Rightarrow> v)"

definition js_space :: "char \<Rightarrow> bool" where
  "js_space c = (c = CHR '' '' \<or> c = CHR 0x09 \<or> c = CHR 0x0A \<or> c = CHR 0x0B \<or> c = CHR 0x0C \<or> c = CHR 0x0D)"

definition trim :: "string \<Rightarrow> string" where
  "trim s = rev (dropWhile js_space (rev (dropWhile js_space s)))"

text \<open>\<^verbatim>\<open>new Set(xs)\<close> iterated: first occurrences, in order.\<close>

definition js_set :: "'a list \<Rightarrow> 'a list" where
  "js_set xs = rev (remdups (rev xs))"

lemma set_js_set [simp]: "set (js_set xs) = set xs"
  by (simp add: js_set_def)

lemma distinct_js_set [simp]: "distinct (js_set xs)"
  by (simp add: js_set_def)

lemma js_set_Nil [simp]: "js_set [] = []"
  by (simp add: js_set_def)

lemma truthy_simps [simp]:
  "truthy None = False"
  "truthy (Some v) = (v \<noteq> [])"
  by (simp_all add: truthy_def)

lemma keep_truthy_simps [simp]:
  "keep_truthy None = None"
  "keep_truthy (Some v) = (if v = [] then None else Some v)"
  by (simp_all add: keep_truthy_def)

lemma keep_truthy_Some_iff: "keep_truthy x = Some v \<longleftrightarrow> x = Some v \<and> v \<noteq> []"
  by (cases x) auto

lemma or_else_simps [simp]:
  "or_else None d = d"
  "or_else (Some v) d = v"
  by (simp_all add: or_else_def)

section \<open>JSON text\<close>

text \<open>Decimal numerals and \<^verbatim>\<open>JSON.stringify\<close> on the values above.\<close>

fun dec_nat :: "nat \<Rightarrow> string" where
  "dec_nat n = (if n < 10 then [char_of (48 + n)] else dec_nat (n div 10) @ [char_of (48 + n mod 10)])"

declare dec_nat.simps [simp del]

definition dec_int :: "int \<Rightarrow> string" where
  "dec_int i = (if i < 0 then ''-'' @ dec_nat (nat (- i)) else dec_nat (nat i))"

definition hex_digit :: "nat \<Rightarrow> char" where
  "hex_digit n = (if n < 10 then char_of (48 + n) else char_of (87 + n))"

definition json_escape :: "char \<Rightarrow> string" where
  "json_escape c =
     (if c = CHR 0x22 then [CHR 0x5C, CHR 0x22]
      else if c = CHR 0x5C then [CHR 0x5C, CHR 0x5C]
      else if c = CHR 0x08 then [CHR 0x5C, CHR ''b'']
      else if c = CHR 0x0C then [CHR 0x5C, CHR ''f'']
      else if c = CHR 0x0A then [CHR 0x5C, CHR ''n'']
      else if c = CHR 0x0D then [CHR 0x5C, CHR ''r'']
      else if c = CHR 0x09 then [CHR 0x5C, CHR ''t'']
      else if (of_char c :: nat) < 32
      then [CHR 0x5C, CHR ''u'', CHR ''0'', CHR ''0'', hex_digit (of_char c div 16), hex_digit (of_char c mod 16)]
      else [c])"

definition json_string :: "string \<Rightarrow> string" where
  "json_string s = CHR 0x22 # concat (map json_escape s) @ [CHR 0x22]"

fun join :: "string \<Rightarrow> string list \<Rightarrow> string" where
  "join sep [] = []"
| "join sep [x] = x"
| "join sep (x # y # r) = x @ sep @ join sep (y # r)"

fun stringify :: "json \<Rightarrow> string"
  and stringify_fields :: "(string \<times> json) list \<Rightarrow> string list" where
  "stringify JNull = ''null''"
| "stringify (JBool b) = (if b then ''true'' else ''false'')"
| "stringify (JNum i) = dec_int i"
| "stringify (JStr s) = json_string s"
| "stringify (JArr xs) = ''['' @ join '','' (map stringify xs) @ '']''"
| "stringify (JObj kvs) = ''{'' @ join '','' (stringify_fields kvs) @ ''}''"
| "stringify_fields [] = []"
| "stringify_fields ((k, v) # r) = (json_string k @ '':'' @ stringify v) # stringify_fields r"

text \<open>An optional field: \<^verbatim>\<open>undefined\<close> members are left out of the text.\<close>

definition opt_field :: "string \<Rightarrow> ('a \<Rightarrow> json) \<Rightarrow> 'a option \<Rightarrow> (string \<times> json) list" where
  "opt_field k f x = (case x of None \<Rightarrow> [] | Some v \<Rightarrow> [(k, f v)])"

text \<open>\<^verbatim>\<open>Number.parseInt(s, 10)\<close>: \<open>None\<close> is \<^verbatim>\<open>NaN\<close>.\<close>

definition is_digit :: "char \<Rightarrow> bool" where
  "is_digit c = (48 \<le> (of_char c :: nat) \<and> (of_char c :: nat) \<le> 57)"

definition digits_value :: "string \<Rightarrow> int" where
  "digits_value ds = foldl (\<lambda>n c. 10 * n + (int (of_char c) - 48)) 0 ds"

definition parse_int :: "string \<Rightarrow> int option" where
  "parse_int s =
     (let t = dropWhile js_space s;
          neg = (t \<noteq> [] \<and> hd t = CHR ''-'');
          u = (if t \<noteq> [] \<and> (hd t = CHR ''-'' \<or> hd t = CHR ''+'') then tl t else t);
          ds = takeWhile is_digit u
      in if ds = [] then None else Some (if neg then - digits_value ds else digits_value ds))"

section \<open>Results\<close>

text \<open>\<^verbatim>\<open>ServiceResult<T>\<close> is defined with the contracts; here the generic part of a lookup that may throw.\<close>

definition the_or :: "'e \<Rightarrow> 'a option \<Rightarrow> 'e + 'a" where
  "the_or e x = (case x of None \<Rightarrow> Inl e | Some v \<Rightarrow> Inr v)"

section \<open>SQL statements on tables\<close>

text \<open>
  A table is the list of its rows in \<^verbatim>\<open>rowid\<close> order. \<^verbatim>\<open>SELECT ... .get()\<close> is
  \<^const>\<open>List.find\<close>, \<^verbatim>\<open>.all()\<close> a \<^const>\<open>filter\<close>, \<^verbatim>\<open>ORDER BY\<close> a stable
  \<^const>\<open>sort_key\<close>, \<^verbatim>\<open>UPDATE\<close> maps the rows that match, \<^verbatim>\<open>INSERT\<close> appends,
  \<^verbatim>\<open>INSERT OR IGNORE\<close> appends unless the key is taken.
\<close>

definition update_where :: "('r \<Rightarrow> bool) \<Rightarrow> ('r \<Rightarrow> 'r) \<Rightarrow> 'r list \<Rightarrow> 'r list" where
  "update_where P f t = map (\<lambda>r. if P r then f r else r) t"

definition changes :: "('r \<Rightarrow> bool) \<Rightarrow> 'r list \<Rightarrow> nat" where
  "changes P t = length (filter P t)"

definition insert_or_ignore :: "('r \<Rightarrow> 'k) \<Rightarrow> 'r \<Rightarrow> 'r list \<Rightarrow> 'r list" where
  "insert_or_ignore key r t = (if key r \<in> key ` set t then t else t @ [r])"

definition upsert :: "('r \<Rightarrow> 'k) \<Rightarrow> ('r \<Rightarrow> 'r) \<Rightarrow> 'r \<Rightarrow> 'r list \<Rightarrow> 'r list" where
  "upsert key f r t =
     (if key r \<in> key ` set t then update_where (\<lambda>q. key q = key r) f t else t @ [r])"

lemma length_update_where [simp]: "length (update_where P f t) = length t"
  by (simp add: update_where_def)

lemma update_where_Nil [simp]: "update_where P f [] = []"
  by (simp add: update_where_def)

lemma update_where_append [simp]:
  "update_where P f (t @ u) = update_where P f t @ update_where P f u"
  by (simp add: update_where_def)

lemma update_where_Cons [simp]:
  "update_where P f (r # t) = (if P r then f r else r) # update_where P f t"
  by (simp add: update_where_def)

lemma map_update_where:
  "(\<And>r. P r \<Longrightarrow> key (f r) = key r) \<Longrightarrow> map key (update_where P f t) = map key t"
  by (simp add: update_where_def)

lemma image_update_where:
  "(\<And>r. P r \<Longrightarrow> key (f r) = key r) \<Longrightarrow> key ` set (update_where P f t) = key ` set t"
  by (metis list.set_map map_update_where)

lemma set_update_where:
  "set (update_where P f t) = {f r | r. r \<in> set t \<and> P r} \<union> {r \<in> set t. \<not> P r}"
  by (auto simp: update_where_def)

lemma in_update_where:
  assumes "x \<in> set (update_where P f t)"
  obtains q where "q \<in> set t" "x = (if P q then f q else q)"
  using assms by (auto simp: update_where_def)

lemma update_where_in: "q \<in> set t \<Longrightarrow> (if P q then f q else q) \<in> set (update_where P f t)"
  by (auto simp: update_where_def)

lemma update_where_nochange: "(\<And>r. r \<in> set t \<Longrightarrow> \<not> P r) \<Longrightarrow> update_where P f t = t"
  by (induction t) auto

lemma changes_zero_iff: "changes P t = 0 \<longleftrightarrow> (\<forall>r \<in> set t. \<not> P r)"
  by (simp add: changes_def filter_empty_conv)

lemma find_SomeD: "List.find P t = Some r \<Longrightarrow> r \<in> set t \<and> P r"
  by (auto simp: find_Some_iff) 

lemma find_key_unique:
  "distinct (map key t) \<Longrightarrow> r \<in> set t \<Longrightarrow> key r = k \<Longrightarrow> List.find (\<lambda>q. key q = k) t = Some r"
  by (induction t) (auto simp: image_iff)

lemma find_isSome: "(\<exists>r. List.find P t = Some r) \<longleftrightarrow> (\<exists>r \<in> set t. P r)"
  by (cases "List.find P t") (auto simp: find_None_iff dest: find_SomeD)

lemma distinct_key_eq:
  "distinct (map key t) \<Longrightarrow> r \<in> set t \<Longrightarrow> q \<in> set t \<Longrightarrow> key r = key q \<Longrightarrow> r = q"
  by (induction t) (auto simp: image_iff)

lemma find_append: "List.find P (xs @ ys) = (case List.find P xs of None \<Rightarrow> List.find P ys | Some x \<Rightarrow> Some x)"
  by (induction xs) auto

lemma find_update_where_same:
  assumes "\<And>r. P r \<Longrightarrow> key (f r) = key r"
  shows "List.find (\<lambda>r. key r = k) (update_where P f t)
       = map_option (\<lambda>r. if P r then f r else r) (List.find (\<lambda>r. key r = k) t)"
  using assms by (induction t) auto

lemma find_insert_or_ignore_key:
  "\<exists>r. List.find (\<lambda>q. key q = key x) (insert_or_ignore key x t) = Some r"
  unfolding find_isSome by (auto simp: insert_or_ignore_def image_iff intro: sym)

section \<open>Tables that evolve\<close>

text \<open>
  Most tables of the program only grow and rewrite rows in place. \<open>evolves key R old new\<close>:
  the rows of the old table are still there, in order, each related by \<open>R\<close> to what it has
  become, and new rows follow.
\<close>

definition evolves :: "('r \<Rightarrow> 'k) \<Rightarrow> ('r \<Rightarrow> 'r \<Rightarrow> bool) \<Rightarrow> 'r list \<Rightarrow> 'r list \<Rightarrow> bool" where
  "evolves key R old new \<longleftrightarrow>
     (\<exists>ups extra. new = ups @ extra \<and> list_all2 (\<lambda>r r'. key r' = key r \<and> R r r') old ups)"

locale row_evolution =
  fixes key :: "'r \<Rightarrow> 'k"
    and R :: "'r \<Rightarrow> 'r \<Rightarrow> bool"
  assumes R_refl: "R r r"
    and R_trans: "R r s \<Longrightarrow> R s t \<Longrightarrow> R r t"
begin

lemma refl: "evolves key R t t"
  unfolding evolves_def by (intro exI[of _ t] exI[of _ "[]"]) (simp add: list_all2_same R_refl)

lemma trans:
  assumes "evolves key R t u" "evolves key R u v"
  shows "evolves key R t v"
proof -
  let ?Q = "\<lambda>r r'. key r' = key r \<and> R r r'"
  from assms obtain a x b y where
    u: "u = a @ x" and ta: "list_all2 ?Q t a" and v: "v = b @ y" and ub: "list_all2 ?Q u b"
    by (auto simp: evolves_def)
  from ub u obtain b1 b2 where b: "b = b1 @ b2" and ab: "list_all2 ?Q a b1"
    by (auto simp: list_all2_append1)
  have "list_all2 ?Q t b1"
    by (rule list_all2_trans[OF _ ta ab]) (auto intro: R_trans)
  with v b show ?thesis
    unfolding evolves_def by (intro exI[of _ b1] exI[of _ "b2 @ y"]) simp
qed

lemma append: "evolves key R t (t @ u)"
  unfolding evolves_def by (intro exI[of _ t] exI[of _ u]) (simp add: list_all2_same R_refl)

lemma insert_or_ignore: "evolves key R t (insert_or_ignore key r t)"
  by (simp add: insert_or_ignore_def refl append)

lemma update:
  assumes "\<And>r. P r \<Longrightarrow> key (f r) = key r" "\<And>r. P r \<Longrightarrow> R r (f r)"
  shows "evolves key R t (update_where P f t)"
  unfolding evolves_def update_where_def
  by (intro exI[of _ "map (\<lambda>r. if P r then f r else r) t"] exI[of _ "[]"])
     (auto simp: list_all2_conv_all_nth R_refl assms)

lemma row:
  assumes "evolves key R t u" "r \<in> set t"
  obtains r' where "r' \<in> set u" "key r' = key r" "R r r'"
proof -
  from assms(1) obtain a x where u: "u = a @ x"
    and ta: "list_all2 (\<lambda>r r'. key r' = key r \<and> R r r') t a"
    by (auto simp: evolves_def)
  from assms(2) obtain i where "i < length t" "t ! i = r" by (auto simp: in_set_conv_nth)
  with ta have "a ! i \<in> set a" "key (a ! i) = key r" "R r (a ! i)"
    by (auto simp: list_all2_conv_all_nth)
  with u that show ?thesis by auto
qed

lemma keys: "evolves key R t u \<Longrightarrow> key ` set t \<subseteq> key ` set u"
  by (auto elim!: row) (metis image_eqI)

lemma keys_prefix: "evolves key R t u \<Longrightarrow> prefix (map key t) (map key u)"
proof -
  assume "evolves key R t u"
  then obtain a x where u: "u = a @ x"
    and ta: "list_all2 (\<lambda>r r'. key r' = key r \<and> R r r') t a"
    by (auto simp: evolves_def)
  from ta have "map key a = map key t"
    by (auto simp: list_all2_conv_all_nth intro: nth_equalityI)
  with u show ?thesis by (auto simp: prefix_def)
qed

lemma lookup:
  assumes "evolves key R t u" "List.find (\<lambda>r. key r = k) t = Some r"
  obtains r' where "List.find (\<lambda>r. key r = k) u = Some r'" "R r r'"
proof -
  from assms(1) obtain a x where u: "u = a @ x"
    and ta: "list_all2 (\<lambda>r r'. key r' = key r \<and> R r r') t a"
    by (auto simp: evolves_def)
  from ta assms(2) have "\<exists>r'. List.find (\<lambda>r. key r = k) a = Some r' \<and> R r r'"
    by (induction rule: list_all2_induct) (auto split: if_splits)
  with u that show ?thesis by (auto simp: find_append)
qed

end

text \<open>Rows that never change: the log tables.\<close>

interpretation frozen_rows: row_evolution key "(=)" for key :: "'r \<Rightarrow> 'k"
  by unfold_locales auto

lemma evolves_eq_prefix: "evolves key (=) t u \<longleftrightarrow> prefix t u"
proof
  assume "evolves key (=) t u"
  then obtain a x where "u = a @ x" "list_all2 (\<lambda>r r'. key r' = key r \<and> r = r') t a"
    by (auto simp: evolves_def)
  moreover from this(2) have "t = a"
    by (auto simp: list_all2_conv_all_nth intro: nth_equalityI)
  ultimately show "prefix t u" by simp
next
  assume "prefix t u"
  then show "evolves key (=) t u" by (auto simp: prefix_def frozen_rows.append)
qed

section \<open>Transition systems with an invariant\<close>

locale invariant_system =
  fixes step :: "'e \<Rightarrow> 's \<Rightarrow> 's"
    and inv :: "'s \<Rightarrow> bool"
  assumes inv_step: "inv s \<Longrightarrow> inv (step e s)"
begin

lemma inv_run: "inv s \<Longrightarrow> inv (fold step es s)"
  by (induction es arbitrary: s) (auto intro: inv_step)

end

text \<open>A relation between the states before and after that every step keeps, and so every run.\<close>

locale step_preorder =
  fixes step :: "'e \<Rightarrow> 's \<Rightarrow> 's"
    and le :: "'s \<Rightarrow> 's \<Rightarrow> bool"
  assumes le_refl: "le s s"
    and le_trans: "le s t \<Longrightarrow> le t u \<Longrightarrow> le s u"
    and le_step: "le s (step e s)"
begin

lemma le_run: "le s (fold step es s)"
proof (induction es arbitrary: s)
  case Nil
  show ?case by (simp add: le_refl)
next
  case (Cons e es)
  show ?case using le_trans[OF le_step Cons.IH] by simp
qed

end

section \<open>Key-value stores\<close>

text \<open>The contract of the small tables that are read by key and upserted by key.\<close>

locale kv_store =
  fixes get :: "'k \<Rightarrow> 's \<Rightarrow> 'v option"
    and put :: "'k \<Rightarrow> 'v \<Rightarrow> 's \<Rightarrow> 's"
  assumes get_put_same: "get k (put k v s) = Some v"
    and get_put_other: "k \<noteq> k' \<Longrightarrow> get k' (put k v s) = get k' s"
begin

lemma get_put: "get k' (put k v s) = (if k' = k then Some v else get k' s)"
  by (cases "k' = k") (auto simp: get_put_same get_put_other)

lemma put_overwrites: "get k' (put k w (put k v s)) = get k' (put k w s)"
  by (simp add: get_put)

lemma puts_commute:
  "k \<noteq> l \<Longrightarrow> get k' (put k v (put l w s)) = get k' (put l w (put k v s))"
  by (auto simp: get_put)

lemma get_fold_puts:
  "get k (fold (\<lambda>(k, v). put k v) kvs s) =
     (case map_of (rev kvs) k of None \<Rightarrow> get k s | Some v \<Rightarrow> Some v)"
  by (induction kvs arbitrary: s) (auto simp: get_put map_add_def split: option.splits)

end

section \<open>Decimal numbers\<close>

lemma dec_nat_digits: "dec_nat n \<noteq> [] \<and> list_all is_digit (dec_nat n) \<and> digits_value (dec_nat n) = int n"
proof (induction n rule: dec_nat.induct)
  case (1 n)
  have digit: "is_digit (char_of (48 + d))" "int (of_char (char_of (48 + d) :: char)) = 48 + int d" if "d < 10" for d :: nat
    using that by (simp_all add: is_digit_def)
  show ?case
  proof (cases "n < 10")
    case True
    then show ?thesis using digit[of n] by (subst (1 2 3) dec_nat.simps) (simp add: digits_value_def)
  next
    case False
    with 1 have IH: "list_all is_digit (dec_nat (n div 10))" "digits_value (dec_nat (n div 10)) = int (n div 10)" by simp_all
    have "10 * int (n div 10) + int (n mod 10) = int n"
      by (metis div_mult_mod_eq mult.commute of_nat_add of_nat_mult of_nat_numeral)
    with False IH digit[of "n mod 10"] show ?thesis
      by (subst (1 2 3) dec_nat.simps) (simp add: digits_value_def)
  qed
qed

lemma parse_dec_nat: "parse_int (dec_nat n) = Some (int n)"
proof -
  obtain c cs where d: "dec_nat n = c # cs" "is_digit c" using dec_nat_digits[of n] by (cases "dec_nat n") auto
  have "\<not> js_space c" "c \<noteq> CHR ''-''" "c \<noteq> CHR ''+''" using d(2) by (auto simp: is_digit_def js_space_def)
  moreover have all: "list_all is_digit (c # cs)" "digits_value (c # cs) = int n"
    using dec_nat_digits[of n] unfolding d(1) by blast+
  moreover have digits: "takeWhile is_digit (c # cs) = c # cs"
    using all(1) by (simp only: takeWhile_eq_all_conv list_all_iff)
  ultimately show ?thesis
    unfolding parse_int_def Let_def d(1) by (simp del: takeWhile.simps add: digits)
qed

end
