(* ===== verification/Contracts.thy ===== *)
theory Contracts
  imports Prelude
begin

text \<open>
  The protocol types of \<^verbatim>\<open>src/shared/contracts.ts\<close>, the reason codes of
  \<^verbatim>\<open>reason-codes.ts\<close> and the clock arithmetic of \<^verbatim>\<open>time.ts\<close>. Field names are
  the source's with a prefix per type (Isabelle selectors are global); optional members
  are \<open>option\<close>. Timestamps are milliseconds since the epoch: ISO-8601 strings
  in UTC with millisecond precision compare as the instants they denote.
\<close>

type_synonym time = int

section \<open>Enumerations\<close>

datatype RuntimeKind = Claude_code | Codex

datatype TargetKind = Human_inbox | Person_default_runtime | Runtime_session

datatype MessageKind = Text | Task_invite | Resource_request | Control

datatype CommunicationStatus =
  Comm_pending | Comm_active | Comm_declined | Comm_revoked | Comm_expired

datatype DeliveryStatus =
    Queued | Dispatched | Device_acked | Runtime_pending | Runtime_acked | Handled | Replied
  | Inbox_persisted | Rejected | Failed | Del_expired | Del_revoked

datatype Presence = Online | Draining | Offline

datatype SessionState = Idle | Busy | Closed

datatype AckPhase = Device_ack | Runtime_pending_phase | Runtime_ack | Runtime_failed

datatype ReasonCode =
    Unauthorized | Forbidden | Not_found | Invalid_request | Invalid_target_kind
  | Invalid_message_kind | Payload_too_large | Endpoint_not_owned | Session_not_owned
  | Session_not_found | Session_closed | Inbound_disabled | No_default_route
  | Offer_not_found | Offer_expired | Offer_revoked | Offer_audience_mismatch
  | Communication_session_not_active | Communication_session_expired
  | Communication_session_revoked | Communication_session_declined | Request_expired
  | Wrong_participant | Wrong_target | Message_expired | Delivery_terminal
  | Client_message_id_conflict | Ack_not_applicable | Queued_busy | Runtime_unavailable
  | Runtime_session_already_granted | Unsupported | Permission_required
  | Steer_not_allowed | Control_plane_unavailable

text \<open>The spelling of the codes on the wire.\<close>

fun reason_text :: "ReasonCode \<Rightarrow> string" where
  "reason_text Unauthorized = ''unauthorized''"
| "reason_text Forbidden = ''forbidden''"
| "reason_text Not_found = ''not_found''"
| "reason_text Invalid_request = ''invalid_request''"
| "reason_text Invalid_target_kind = ''invalid_target_kind''"
| "reason_text Invalid_message_kind = ''invalid_message_kind''"
| "reason_text Payload_too_large = ''payload_too_large''"
| "reason_text Endpoint_not_owned = ''endpoint_not_owned''"
| "reason_text Session_not_owned = ''session_not_owned''"
| "reason_text Session_not_found = ''session_not_found''"
| "reason_text Session_closed = ''session_closed''"
| "reason_text Inbound_disabled = ''inbound_disabled''"
| "reason_text No_default_route = ''no_default_route''"
| "reason_text Offer_not_found = ''offer_not_found''"
| "reason_text Offer_expired = ''offer_expired''"
| "reason_text Offer_revoked = ''offer_revoked''"
| "reason_text Offer_audience_mismatch = ''offer_audience_mismatch''"
| "reason_text Communication_session_not_active = ''communication_session_not_active''"
| "reason_text Communication_session_expired = ''communication_session_expired''"
| "reason_text Communication_session_revoked = ''communication_session_revoked''"
| "reason_text Communication_session_declined = ''communication_session_declined''"
| "reason_text Request_expired = ''request_expired''"
| "reason_text Wrong_participant = ''wrong_participant''"
| "reason_text Wrong_target = ''wrong_target''"
| "reason_text Message_expired = ''message_expired''"
| "reason_text Delivery_terminal = ''delivery_terminal''"
| "reason_text Client_message_id_conflict = ''client_message_id_conflict''"
| "reason_text Ack_not_applicable = ''ack_not_applicable''"
| "reason_text Queued_busy = ''queued_busy''"
| "reason_text Runtime_unavailable = ''runtime_unavailable''"
| "reason_text Runtime_session_already_granted = ''runtime_session_already_granted''"
| "reason_text Unsupported = ''unsupported''"
| "reason_text Permission_required = ''permission_required''"
| "reason_text Steer_not_allowed = ''steer_not_allowed''"
| "reason_text Control_plane_unavailable = ''control_plane_unavailable''"

text \<open>\<^verbatim>\<open>ServiceResult<T>\<close>: a value, or a reason code with an HTTP status.\<close>

datatype 'a ServiceResult = Ok 'a | Failure ReasonCode nat

definition is_ok :: "'a ServiceResult \<Rightarrow> bool" where
  "is_ok r = (case r of Ok _ \<Rightarrow> True | Failure _ _ \<Rightarrow> False)"

lemma is_ok_simps [simp]: "is_ok (Ok v)" "\<not> is_ok (Failure c h)"
  by (simp_all add: is_ok_def)

section \<open>Time\<close>

definition addSeconds :: "time \<Rightarrow> int \<Rightarrow> time" where
  "addSeconds t seconds = t + seconds * 1000"

definition addMinutes :: "time \<Rightarrow> int \<Rightarrow> time" where
  "addMinutes t minutes = addSeconds t (minutes * 60)"

text \<open>\<^verbatim>\<open>9999-12-31T23:59:59.999Z\<close>, the expiry of inbox messages.\<close>

definition far_future :: time where
  "far_future = 253402300799999"

section \<open>Entities\<close>

record AuthContext =
  au_principalId :: string
  au_deviceId :: string
  au_token :: string

record RuntimeEndpoint =
  re_endpointId :: string
  re_principalId :: string
  re_deviceId :: string
  re_runtime :: RuntimeKind
  re_bridgeVersion :: string
  re_adapterVersion :: string
  re_capabilities :: "string list"
  re_presence :: Presence
  re_lastSeenAt :: time

record SessionCapabilities =
  sc_liveInject :: bool
  sc_midTurnSteer :: bool
  sc_replyEvents :: bool

text \<open>\<^verbatim>\<open>deliveryMode\<close> is always \<^verbatim>\<open>managed_stream\<close> in what the control plane accepts.\<close>

record RuntimeSessionBinding =
  rb_sessionHandle :: string
  rb_endpointId :: string
  rb_principalId :: string
  rb_label :: string
  rb_state :: SessionState
  rb_deliveryMode :: string
  rb_capabilities :: SessionCapabilities
  rb_allowInbound :: bool
  rb_allowMidTurnSteer :: bool
  rb_createdAt :: time
  rb_lastActiveAt :: time

record CommunicationSession =
  co_id :: string
  co_requesterPrincipalId :: string
  co_requesterDeviceId :: "string option"
  co_replyEndpointId :: string
  co_replySessionHandle :: string
  co_recipientPrincipalId :: string
  co_targetKind :: TargetKind
  co_targetOfferId :: "string option"
  co_endpointId :: "string option"
  co_sessionHandle :: "string option"
  co_status :: CommunicationStatus
  co_requestedAt :: time
  co_requestExpiresAt :: time
  co_activatedAt :: "time option"
  co_grantExpiresAt :: "time option"
  co_revokedAt :: "time option"

record MessageTarget =
  mt_kind :: TargetKind
  mt_principalId :: string
  mt_endpointId :: "string option"
  mt_sessionHandle :: "string option"

datatype CollaborationTurnType = Turn_task | Turn_question | Turn_response | Turn_result | Turn_control

datatype CollaborationTurnOutcome = Respond | Needs_owner | Propose_complete | Turn_failed

record CollaborationTurnInput =
  ct_clientTurnId :: string
  ct_parentTurnId :: "string option"
  ct_type :: CollaborationTurnType
  ct_expectsReply :: bool
  ct_outcome :: "CollaborationTurnOutcome option"

record CollaborationTurnEnvelope = CollaborationTurnInput +
  ct_turnId :: string
  ct_sequence :: int

record MessageEnvelope =
  me_id :: string
  me_clientMessageId :: string
  me_communicationSessionId :: "string option"
  me_collaborationId :: "string option"
  me_collaborationTurn :: "CollaborationTurnEnvelope option"
  me_senderPrincipalId :: string
  me_senderDeviceId :: "string option"
  me_target :: MessageTarget
  me_kind :: MessageKind
  me_payload :: "(string \<times> json) list"
  me_replyTo :: "string option"
  me_correlationId :: "string option"
  me_sequence :: nat
  me_createdAt :: time
  me_expiresAt :: time

record DeliveryAttempt =
  at_attemptId :: string
  at_phase :: AckPhase
  at_resultCode :: "string option"
  at_retryable :: bool
  at_runtimeAckId :: "string option"
  at_createdAt :: time

record MessageDelivery =
  md_messageId :: string
  md_deliveryId :: string
  md_status :: DeliveryStatus
  md_queuedAt :: time
  md_dispatchedAt :: "time option"
  md_deviceAckReceivedAt :: "time option"
  md_runtimePendingAt :: "time option"
  md_runtimeAckReceivedAt :: "time option"
  md_terminalAt :: "time option"
  md_resultCode :: "string option"
  md_runtimeAckId :: "string option"
  md_adapterLabel :: "string option"
  md_attempts :: "DeliveryAttempt list"

record MessageReceipt =
  mr_messageId :: string
  mr_deliveryId :: string
  mr_status :: DeliveryStatus
  mr_duplicate :: bool
  mr_queuedAt :: time

datatype RuntimeEventType =
    Message_dispatch | Comm_request_event | Comm_activated_event | Comm_declined_event
  | Comm_revoked_event | Comm_expired_event | Collaboration_completed | Collaboration_revoked
  | Collaboration_expired | Relationship_policy_update | Trusted_tool_policy_upserted
  | Trusted_tool_policy_revoked

text \<open>
  Event data is JSON; the dispatch event's \<^verbatim>\<open>{ envelope, deliveryId }\<close> is kept
  typed, both members optional as the bridge reads them.
\<close>

datatype EventData =
    Dispatch_data "MessageEnvelope option" "string option"
  | Object_data "(string \<times> json) list"

record RuntimeEvent =
  rv_cursor :: nat
  rv_type :: RuntimeEventType
  rv_endpointId :: string
  rv_createdAt :: time
  rv_data :: EventData

record ReachableTarget =
  rt_kind :: TargetKind
  rt_principalId :: string
  rt_label :: string
  rt_targetOfferId :: "string option"
  rt_expiresAt :: "time option"
  rt_available :: bool

section \<open>Inputs of the operations\<close>

record RegisterEndpointInput =
  ri_runtime :: RuntimeKind
  ri_bridgeVersion :: string
  ri_adapterVersion :: string
  ri_capabilities :: "string list"

record RegisterRuntimeSessionInput =
  si_label :: string
  si_state :: SessionState
  si_deliveryMode :: string
  si_capabilities :: SessionCapabilities
  si_allowInbound :: bool
  si_allowMidTurnSteer :: bool

record RequestTarget =
  qt_kind :: TargetKind
  qt_principalId :: string
  qt_targetOfferId :: "string option"

record RequestCommunicationSessionInput =
  rq_target :: RequestTarget
  rq_replyEndpointId :: string
  rq_replySessionHandle :: string
  rq_requestedTtlMinutes :: "int option"

text \<open>A task is text or a JSON object.\<close>

datatype Task = Task_text string | Task_object "(string \<times> json) list"

record LocalAgentDelegationInput =
  dg_target :: RequestTarget
  dg_task :: Task
  dg_sessionHandle :: string
  dg_clientMessageId :: string
  dg_correlationId :: "string option"
  dg_requestedTtlMinutes :: "int option"

text \<open>\<^verbatim>\<open>GrantScopedSendMessageInput | HumanInboxSendMessageInput\<close>, told apart by the member \<^verbatim>\<open>target\<close>.\<close>

datatype SendScope =
    Grant_scoped string
  | To_target TargetKind string

record SendMessageInput =
  sm_scope :: SendScope
  sm_clientMessageId :: string
  sm_kind :: MessageKind
  sm_payload :: "(string \<times> json) list"
  sm_replyTo :: "string option"
  sm_correlationId :: "string option"

record DeliveryAckInput =
  ak_phase :: AckPhase
  ak_attemptId :: string
  ak_resultCode :: "string option"
  ak_retryable :: "bool option"
  ak_runtimeAckId :: "string option"

datatype LocalAgentDelegationResponse =
    Grant_requested CommunicationSession string "string option" bool
  | Delegated CommunicationSession MessageReceipt string "string option" bool

end
