(* ===== verification/Db.thy ===== *)
theory Db
  imports Contracts
begin

text \<open>
  The reference control plane's database (\<^verbatim>\<open>src/control-plane/db.ts\<close>): one record per
  table of the schema, the state \<open>cp\<close> that holds the tables, the clock and the source
  of random identifiers, and the constraints the schema declares. Columns that the code
  stores as JSON text hold the value, since parsing what was printed gives it back;
  INTEGER columns that hold 0 or 1 are booleans.
\<close>

section \<open>Rows\<close>

record PrincipalRow =
  pr_principal_id :: string
  pr_display_name :: string

record CredentialRow =
  dc_token :: string
  dc_principal_id :: string
  dc_device_id :: string
  dc_active :: bool

record EndpointRow =
  ep_endpoint_id :: string
  ep_principal_id :: string
  ep_device_id :: string
  ep_runtime :: RuntimeKind
  ep_bridge_version :: string
  ep_adapter_version :: string
  ep_capabilities :: "string list"
  ep_presence :: Presence
  ep_last_seen_at :: time
  ep_created_at :: time

record SessionRow =
  rs_session_handle :: string
  rs_endpoint_id :: string
  rs_principal_id :: string
  rs_label :: string
  rs_state :: SessionState
  rs_delivery_mode :: string
  rs_capabilities :: SessionCapabilities
  rs_allow_inbound :: bool
  rs_allow_mid_turn_steer :: bool
  rs_created_at :: time
  rs_last_active_at :: time

record RouteRow =
  dr_principal_id :: string
  dr_endpoint_id :: string
  dr_session_handle :: string
  dr_updated_at :: time

record OfferRow =
  of_offer_id :: string
  of_owner_principal_id :: string
  of_audience_principal_id :: string
  of_endpoint_id :: string
  of_session_handle :: string
  of_label :: string
  of_expires_at :: time
  of_revoked_at :: "time option"
  of_created_at :: time

record CommRow =
  cs_comm_session_id :: string
  cs_requester_principal_id :: string
  cs_requester_device_id :: "string option"
  cs_requester_reply_endpoint_id :: string
  cs_requester_reply_session_handle :: string
  cs_recipient_principal_id :: string
  cs_target_kind :: TargetKind
  cs_target_offer_id :: "string option"
  cs_frozen_endpoint_id :: "string option"
  cs_frozen_session_handle :: "string option"
  cs_requested_ttl_minutes :: int
  cs_status :: CommunicationStatus
  cs_requested_at :: time
  cs_request_expires_at :: time
  cs_activated_at :: "time option"
  cs_grant_expires_at :: "time option"
  cs_revoked_at :: "time option"

record MessageRow =
  ms_message_id :: string
  ms_client_message_id :: string
  ms_request_hash :: string
  ms_comm_session_id :: "string option"
  ms_sender_principal_id :: string
  ms_sender_device_id :: "string option"
  ms_target_kind :: TargetKind
  ms_target_principal_id :: string
  ms_target_endpoint_id :: "string option"
  ms_target_session_handle :: "string option"
  ms_kind :: MessageKind
  ms_payload :: "(string \<times> json) list"
  ms_reply_to :: "string option"
  ms_correlation_id :: "string option"
  ms_sequence :: nat
  ms_created_at :: time
  ms_expires_at :: time

record DeliveryRow =
  dl_delivery_id :: string
  dl_message_id :: string
  dl_endpoint_id :: "string option"
  dl_status :: DeliveryStatus
  dl_queued_at :: time
  dl_dispatched_at :: "time option"
  dl_device_ack_received_at :: "time option"
  dl_runtime_pending_at :: "time option"
  dl_runtime_ack_received_at :: "time option"
  dl_terminal_at :: "time option"
  dl_result_code :: "string option"
  dl_runtime_ack_id :: "string option"
  dl_adapter_label :: "string option"

datatype DelegationStatus = Del_grant_requested | Del_delegated

record DelegationRow =
  ld_requester_principal_id :: string
  ld_client_message_id :: string
  ld_request_hash :: string
  ld_comm_session_id :: "string option"
  ld_message_id :: "string option"
  ld_correlation_id :: "string option"
  ld_status :: DelegationStatus
  ld_created_at :: time
  ld_updated_at :: time

record AttemptRow =
  da_attempt_id :: string
  da_delivery_id :: string
  da_phase :: AckPhase
  da_result_code :: "string option"
  da_retryable :: bool
  da_runtime_ack_id :: "string option"
  da_created_at :: time

record EventRow =
  ev_endpoint_id :: string
  ev_seq :: nat
  ev_event_type :: RuntimeEventType
  ev_data :: EventData
  ev_created_at :: time

record InboxRow =
  ib_inbox_item_id :: string
  ib_principal_id :: string
  ib_message_id :: string
  ib_created_at :: time

text \<open>Audit actions and entity types are strings; metadata is a JSON object.\<close>

record AuditRow =
  ad_id :: nat
  ad_actor_principal_id :: string
  ad_action :: string
  ad_entity_type :: string
  ad_entity_id :: string
  ad_metadata :: "(string \<times> json) list"
  ad_created_at :: time

section \<open>The state\<close>

text \<open>
  \<open>clk k\<close> is the \<open>k\<close>-th reading of \<^verbatim>\<open>Date.now()\<close> and \<open>rnd k\<close> the \<open>k\<close>-th result of
  \<^verbatim>\<open>randomBytes(8).toString("hex")\<close>: every call of the source that reads the clock or
  draws an identifier consumes the next one, so nothing is assumed about how the clock
  moves. \<open>sha256\<close> stands for the hash of \<^verbatim>\<open>node:crypto\<close>. \<open>woken\<close> records the
  wake-ups emitted to the event-stream listeners, in order.
\<close>

record cp =
  principals :: "PrincipalRow list"
  device_credentials :: "CredentialRow list"
  endpoints :: "EndpointRow list"
  runtime_sessions :: "SessionRow list"
  default_routes :: "RouteRow list"
  target_offers :: "OfferRow list"
  comm_sessions :: "CommRow list"
  messages :: "MessageRow list"
  deliveries :: "DeliveryRow list"
  local_agent_delegations :: "DelegationRow list"
  delivery_attempts :: "AttemptRow list"
  events :: "EventRow list"
  inbox_items :: "InboxRow list"
  audit_log :: "AuditRow list"
  clk :: "nat \<Rightarrow> time"
  ticks :: nat
  rnd :: "nat \<Rightarrow> string"
  draws :: nat
  sha256 :: "string \<Rightarrow> string"
  woken :: "string list"

text \<open>\<^verbatim>\<open>nowIso()\<close>: the reading, and the state after it.\<close>

definition nowIso :: "cp \<Rightarrow> time" where
  "nowIso s = clk s (ticks s)"

definition tick :: "cp \<Rightarrow> cp" where
  "tick s = s\<lparr>ticks := Suc (ticks s)\<rparr>"

text \<open>\<^verbatim>\<open>id(prefix)\<close>: the identifier, and the state after drawing it.\<close>

definition new_id :: "string \<Rightarrow> cp \<Rightarrow> string" where
  "new_id pre s = pre @ ''_'' @ rnd s (draws s)"

definition drawn :: "cp \<Rightarrow> cp" where
  "drawn s = s\<lparr>draws := Suc (draws s)\<rparr>"

definition stableHash :: "cp \<Rightarrow> json \<Rightarrow> string" where
  "stableHash s v = sha256 s (stringify v)"

definition insert_credential :: "CredentialRow \<Rightarrow> CredentialRow list \<Rightarrow> CredentialRow list" where
  "insert_credential r t = (if dc_token r \<in> dc_token ` set t
            \<or> (dc_principal_id r, dc_device_id r) \<in> (\<lambda>q. (dc_principal_id q, dc_device_id q)) ` set t
          then t else t @ [r])"

text \<open>\<open>env\<close> is the process environment. The schema right after \<^verbatim>\<open>openDb\<close>: empty tables and the three mock identities.\<close>

definition seedMockIdentities :: "(string \<Rightarrow> string option) \<Rightarrow> cp \<Rightarrow> cp" where
  "seedMockIdentities env s = s\<lparr>
     principals := fold (insert_or_ignore pr_principal_id)
       [\<lparr>pr_principal_id = ''prn_a'', pr_display_name = ''Principal A''\<rparr>,
        \<lparr>pr_principal_id = ''prn_b'', pr_display_name = ''Principal B''\<rparr>,
        \<lparr>pr_principal_id = ''prn_c'', pr_display_name = ''Principal C''\<rparr>] (principals s),
     device_credentials := fold insert_credential
       [\<lparr>dc_token = or_else (env ''CCD_TOKEN_A'') ''ccd-token-a1'', dc_principal_id = ''prn_a'', dc_device_id = ''device-a1'', dc_active = True\<rparr>,
        \<lparr>dc_token = or_else (env ''CCD_TOKEN_B'') ''ccd-token-b1'', dc_principal_id = ''prn_b'', dc_device_id = ''device-b1'', dc_active = True\<rparr>,
        \<lparr>dc_token = or_else (env ''CCD_TOKEN_C'') ''ccd-token-c1'', dc_principal_id = ''prn_c'', dc_device_id = ''device-c1'', dc_active = True\<rparr>]
       (device_credentials s)\<rparr>"

definition openDb :: "(string \<Rightarrow> string option) \<Rightarrow> (nat \<Rightarrow> time) \<Rightarrow> (nat \<Rightarrow> string) \<Rightarrow> (string \<Rightarrow> string) \<Rightarrow> cp" where
  "openDb env clock random hash = seedMockIdentities env
     \<lparr>principals = [], device_credentials = [], endpoints = [], runtime_sessions = [],
      default_routes = [], target_offers = [], comm_sessions = [], messages = [],
      deliveries = [], local_agent_delegations = [], delivery_attempts = [], events = [],
      inbox_items = [], audit_log = [], clk = clock, ticks = 0, rnd = random, draws = 0,
      sha256 = hash, woken = []\<rparr>"

end
