(* ===== verification/Events.thy ===== *)
theory Events
  imports Db
begin

text \<open>
  The event log, the audit trail and bearer authentication of the control plane
  (\<^verbatim>\<open>events.ts\<close>, \<^verbatim>\<open>audit.ts\<close>, \<^verbatim>\<open>auth.ts\<close>).
\<close>

section \<open>EventStore\<close>

definition max_seq :: "string \<Rightarrow> EventRow list \<Rightarrow> nat" where
  "max_seq ep t = foldr max (map ev_seq (filter (\<lambda>r. ev_endpoint_id r = ep) t)) 0"

definition append_event :: "string \<Rightarrow> RuntimeEventType \<Rightarrow> EventData \<Rightarrow> cp \<Rightarrow> cp" where
  "append_event ep ty d s =
     (let seq = max_seq ep (events s) + 1;
          createdAt = nowIso s;
          s = tick s
      in events_update (\<lambda>t. t @
             [\<lparr>ev_endpoint_id = ep, ev_seq = seq, ev_event_type = ty, ev_data = d,
               ev_created_at = createdAt\<rparr>]) s)"

definition wake :: "string list \<Rightarrow> cp \<Rightarrow> cp" where
  "wake eps s = woken_update (\<lambda>t. t @ js_set eps) s"

definition mapEvent :: "EventRow \<Rightarrow> RuntimeEvent" where
  "mapEvent r = \<lparr>rv_cursor = ev_seq r, rv_type = ev_event_type r, rv_endpointId = ev_endpoint_id r,
     rv_createdAt = ev_created_at r, rv_data = ev_data r\<rparr>"

definition list_events :: "string \<Rightarrow> string \<Rightarrow> nat \<Rightarrow> cp \<Rightarrow> RuntimeEvent list" where
  "list_events ep afterCursor limit s =
     (let cursor = parse_int afterCursor;
          safeCursor = (case cursor of None \<Rightarrow> 0 | Some n \<Rightarrow> if n \<ge> 0 then nat n else 0);
          rows = take limit (sort_key ev_seq
                   (filter (\<lambda>r. ev_endpoint_id r = ep \<and> ev_seq r > safeCursor) (events s)))
      in map mapEvent rows)"

section \<open>Audit\<close>

definition next_audit_id :: "AuditRow list \<Rightarrow> nat" where
  "next_audit_id t = foldr max (map ad_id t) 0 + 1"

definition audit :: "string \<Rightarrow> string \<Rightarrow> string \<Rightarrow> string \<Rightarrow> (string \<times> json) list \<Rightarrow> cp \<Rightarrow> cp" where
  "audit actor action etype eid meta s =
     (let now = nowIso s;
          s = tick s
      in audit_log_update (\<lambda>t. t @
             [\<lparr>ad_id = next_audit_id (audit_log s), ad_actor_principal_id = actor, ad_action = action,
               ad_entity_type = etype, ad_entity_id = eid, ad_metadata = meta, ad_created_at = now\<rparr>]) s)"

definition listAudit :: "string \<Rightarrow> string option \<Rightarrow> string option \<Rightarrow> cp \<Rightarrow> AuditRow list" where
  "listAudit principalId entityType entityId s =
     (if entityType = Some ''communication_session'' \<and> truthy entityId then
        (let eid = or_else entityId [] in
         if \<not> (\<exists>c \<in> set (comm_sessions s). cs_comm_session_id c = eid
                \<and> (cs_requester_principal_id c = principalId \<or> cs_recipient_principal_id c = principalId))
         then []
         else sort_key ad_id (filter (\<lambda>a.
                (ad_entity_type a = ''communication_session'' \<and> ad_entity_id a = eid)
                \<or> map_of (ad_metadata a) ''communicationSessionId'' = Some (JStr eid)
                \<or> (ad_entity_type a = ''message''
                   \<and> (\<exists>m \<in> set (messages s). ms_comm_session_id m = Some eid \<and> ms_message_id m = ad_entity_id a)))
              (audit_log s)))
      else sort_key ad_id (filter (\<lambda>a. ad_actor_principal_id a = principalId) (audit_log s)))"

section \<open>Authentication\<close>

definition resolveBearer :: "cp \<Rightarrow> string option \<Rightarrow> AuthContext option" where
  "resolveBearer s authorization =
     (case authorization of
        None \<Rightarrow> None
      | Some h \<Rightarrow>
          if \<not> prefix ''Bearer '' h then None
          else (let token = trim (drop 7 h) in
            if token = [] then None
            else (case List.find (\<lambda>r. dc_token r = token \<and> dc_active r) (device_credentials s) of
                    None \<Rightarrow> None
                  | Some r \<Rightarrow> Some \<lparr>au_principalId = dc_principal_id r, au_deviceId = dc_device_id r,
                                    au_token = dc_token r\<rparr>)))"

end
