(* ===== verification/Endpoints.thy ===== *)
theory Endpoints
  imports Events
begin

text \<open>
  \<^verbatim>\<open>EndpointService\<close> (\<^verbatim>\<open>services/endpoints.ts\<close>): endpoints, their runtime sessions and
  the default routes. Every operation takes the caller's identity and returns its result
  with the state after it.
\<close>

section \<open>Views of the rows\<close>

definition mapEndpoint :: "EndpointRow \<Rightarrow> RuntimeEndpoint" where
  "mapEndpoint r = \<lparr>re_endpointId = ep_endpoint_id r, re_principalId = ep_principal_id r,
     re_deviceId = ep_device_id r, re_runtime = ep_runtime r, re_bridgeVersion = ep_bridge_version r,
     re_adapterVersion = ep_adapter_version r, re_capabilities = ep_capabilities r,
     re_presence = ep_presence r, re_lastSeenAt = ep_last_seen_at r\<rparr>"

definition mapSession :: "SessionRow \<Rightarrow> RuntimeSessionBinding" where
  "mapSession r = \<lparr>rb_sessionHandle = rs_session_handle r, rb_endpointId = rs_endpoint_id r,
     rb_principalId = rs_principal_id r, rb_label = rs_label r, rb_state = rs_state r,
     rb_deliveryMode = rs_delivery_mode r, rb_capabilities = rs_capabilities r,
     rb_allowInbound = rs_allow_inbound r, rb_allowMidTurnSteer = rs_allow_mid_turn_steer r,
     rb_createdAt = rs_created_at r, rb_lastActiveAt = rs_last_active_at r\<rparr>"

section \<open>Reads\<close>

definition getOwned :: "AuthContext \<Rightarrow> string \<Rightarrow> cp \<Rightarrow> RuntimeEndpoint ServiceResult" where
  "getOwned auth endpointId s =
     (case List.find (\<lambda>r. ep_endpoint_id r = endpointId \<and> ep_principal_id r = au_principalId auth
                        \<and> ep_device_id r = au_deviceId auth) (endpoints s) of
        None \<Rightarrow> Failure Endpoint_not_owned 404
      | Some r \<Rightarrow> Ok (mapEndpoint r))"

text \<open>The join of a session with its endpoint, restricted to the caller's principal and device.\<close>

definition getSessionOwned :: "AuthContext \<Rightarrow> string \<Rightarrow> string \<Rightarrow> cp \<Rightarrow> RuntimeSessionBinding ServiceResult" where
  "getSessionOwned auth endpointId handle s =
     (case List.find (\<lambda>r. rs_session_handle r = handle \<and> rs_endpoint_id r = endpointId
                        \<and> rs_principal_id r = au_principalId auth
                        \<and> (\<exists>e \<in> set (endpoints s). ep_endpoint_id e = rs_endpoint_id r
                             \<and> ep_device_id e = au_deviceId auth)) (runtime_sessions s) of
        None \<Rightarrow> Failure Session_not_owned 404
      | Some r \<Rightarrow> Ok (mapSession r))"

definition getSession :: "string \<Rightarrow> cp \<Rightarrow> RuntimeSessionBinding option" where
  "getSession handle s =
     map_option mapSession (List.find (\<lambda>r. rs_session_handle r = handle) (runtime_sessions s))"

definition getDefaultRoute :: "string \<Rightarrow> cp \<Rightarrow> RouteRow option" where
  "getDefaultRoute principalId s = List.find (\<lambda>r. dr_principal_id r = principalId) (default_routes s)"

section \<open>Endpoints\<close>

text \<open>\<open>None\<close> is the exception \<^verbatim>\<open>could not be read back\<close>.\<close>

definition register_endpoint :: "AuthContext \<Rightarrow> RegisterEndpointInput \<Rightarrow> cp \<Rightarrow> RuntimeEndpoint option \<times> cp" where
  "register_endpoint auth input s =
     (let now = nowIso s;
          s = tick s;
          existing = List.find (\<lambda>r. ep_principal_id r = au_principalId auth
                       \<and> ep_device_id r = au_deviceId auth \<and> ep_runtime r = ri_runtime input) (endpoints s);
          (endpointId, s) = (case existing of
             Some r \<Rightarrow> (ep_endpoint_id r, s)
           | None \<Rightarrow> (new_id ''ep'' s, drawn s));
          s = (case existing of
             Some _ \<Rightarrow> endpoints_update (update_where (\<lambda>r. ep_endpoint_id r = endpointId)
                 (\<lambda>r. r\<lparr>ep_bridge_version := ri_bridgeVersion input, ep_adapter_version := ri_adapterVersion input,
                        ep_capabilities := ri_capabilities input, ep_presence := Online,
                        ep_last_seen_at := now\<rparr>)) s
           | None \<Rightarrow> endpoints_update (\<lambda>t. t @
                 [\<lparr>ep_endpoint_id = endpointId, ep_principal_id = au_principalId auth,
                   ep_device_id = au_deviceId auth, ep_runtime = ri_runtime input,
                   ep_bridge_version = ri_bridgeVersion input, ep_adapter_version = ri_adapterVersion input,
                   ep_capabilities = ri_capabilities input, ep_presence = Online,
                   ep_last_seen_at = now, ep_created_at = now\<rparr>]) s);
          s = audit (au_principalId auth)
                (if existing \<noteq> None then ''endpoint.reregistered'' else ''endpoint.registered'')
                ''endpoint'' endpointId
                [(''deviceId'', JStr (au_deviceId auth)),
                 (''runtime'', JStr (case ri_runtime input of Claude_code \<Rightarrow> ''claude-code'' | Codex \<Rightarrow> ''codex''))] s
      in (case getOwned auth endpointId s of
            Failure _ _ \<Rightarrow> (None, s)
          | Ok e \<Rightarrow> (Some e, s)))"

definition heartbeat :: "AuthContext \<Rightarrow> string \<Rightarrow> cp \<Rightarrow> unit ServiceResult \<times> cp" where
  "heartbeat auth endpointId s =
     (let now = nowIso s;
          s = tick s;
          P = (\<lambda>r. ep_endpoint_id r = endpointId \<and> ep_principal_id r = au_principalId auth
                 \<and> ep_device_id r = au_deviceId auth);
          n = changes P (endpoints s);
          s = endpoints_update (update_where P (\<lambda>r. r\<lparr>ep_presence := Online, ep_last_seen_at := now\<rparr>)) s
      in if n = 0 then (Failure Endpoint_not_owned 404, s) else (Ok (), s))"

definition listForPrincipal :: "string \<Rightarrow> cp \<Rightarrow> RuntimeEndpoint list \<times> cp" where
  "listForPrincipal principalId s =
     (let staleBefore = nowIso s - 60000;
          s = tick s;
          s = endpoints_update (update_where
                 (\<lambda>r. ep_principal_id r = principalId \<and> ep_last_seen_at r < staleBefore \<and> ep_presence r = Online)
                 (\<lambda>r. r\<lparr>ep_presence := Offline\<rparr>)) s
      in (map mapEndpoint (sort_key ep_created_at
            (filter (\<lambda>r. ep_principal_id r = principalId) (endpoints s))), s))"

section \<open>Runtime sessions\<close>

definition registerSession ::
    "AuthContext \<Rightarrow> string \<Rightarrow> RegisterRuntimeSessionInput \<Rightarrow> cp \<Rightarrow> RuntimeSessionBinding ServiceResult \<times> cp" where
  "registerSession auth endpointId input s =
     (case getOwned auth endpointId s of
        Failure c h \<Rightarrow> (Failure c h, s)
      | Ok _ \<Rightarrow>
         (let handle = new_id ''rs'' s;
              s = drawn s;
              now = nowIso s;
              s = tick s;
              s = runtime_sessions_update (\<lambda>t. t @
                 [\<lparr>rs_session_handle = handle, rs_endpoint_id = endpointId, rs_principal_id = au_principalId auth,
                   rs_label = si_label input, rs_state = si_state input, rs_delivery_mode = si_deliveryMode input,
                   rs_capabilities = si_capabilities input, rs_allow_inbound = si_allowInbound input,
                   rs_allow_mid_turn_steer = si_allowMidTurnSteer input, rs_created_at = now,
                   rs_last_active_at = now\<rparr>]) s;
              s = audit (au_principalId auth) ''runtime_session.registered'' ''runtime_session'' handle
                    [(''endpointId'', JStr endpointId), (''label'', JStr (si_label input))] s
          in (getSessionOwned auth endpointId handle s, s)))"

record SessionPatch =
  sp_state :: "SessionState option"
  sp_allowInbound :: "bool option"
  sp_allowMidTurnSteer :: "bool option"

definition state_text :: "SessionState \<Rightarrow> string" where
  "state_text st = (case st of Idle \<Rightarrow> ''idle'' | Busy \<Rightarrow> ''busy'' | Closed \<Rightarrow> ''closed'')"

definition updateSession ::
    "AuthContext \<Rightarrow> string \<Rightarrow> string \<Rightarrow> SessionPatch \<Rightarrow> cp \<Rightarrow> RuntimeSessionBinding ServiceResult \<times> cp" where
  "updateSession auth endpointId handle input s =
     (case getSessionOwned auth endpointId handle s of
        Failure c h \<Rightarrow> (Failure c h, s)
      | Ok current \<Rightarrow>
         (let st = or_else (sp_state input) (rb_state current);
              inb = or_else (sp_allowInbound input) (rb_allowInbound current);
              steer = or_else (sp_allowMidTurnSteer input) (rb_allowMidTurnSteer current);
              now = nowIso s;
              s = tick s;
              s = runtime_sessions_update (update_where
                    (\<lambda>r. rs_session_handle r = handle \<and> rs_endpoint_id r = endpointId
                       \<and> rs_principal_id r = au_principalId auth)
                    (\<lambda>r. r\<lparr>rs_state := st, rs_allow_inbound := inb, rs_allow_mid_turn_steer := steer,
                           rs_last_active_at := now\<rparr>)) s;
              s = audit (au_principalId auth) ''runtime_session.updated'' ''runtime_session'' handle
                    [(''state'', JStr (state_text st)), (''allowInbound'', JBool inb),
                     (''allowMidTurnSteer'', JBool steer)] s
          in (getSessionOwned auth endpointId handle s, s)))"

definition closeSession :: "AuthContext \<Rightarrow> string \<Rightarrow> string \<Rightarrow> cp \<Rightarrow> unit ServiceResult \<times> cp" where
  "closeSession auth endpointId handle s =
     (let (r, s) = updateSession auth endpointId handle
            \<lparr>sp_state = Some Closed, sp_allowInbound = Some False, sp_allowMidTurnSteer = None\<rparr> s
      in (case r of Ok _ \<Rightarrow> (Ok (), s) | Failure c h \<Rightarrow> (Failure c h, s)))"

section \<open>Default routes\<close>

definition setDefaultRoute :: "AuthContext \<Rightarrow> string \<Rightarrow> string \<Rightarrow> cp \<Rightarrow> RouteRow ServiceResult \<times> cp" where
  "setDefaultRoute auth endpointId sessionHandle s =
     (case getSessionOwned auth endpointId sessionHandle s of
        Failure c h \<Rightarrow> (Failure c h, s)
      | Ok session \<Rightarrow>
         if rb_state session = Closed then (Failure Session_closed 409, s)
         else if \<not> rb_allowInbound session then (Failure Inbound_disabled 409, s)
         else
         (let updatedAt = nowIso s;
              s = tick s;
              row = \<lparr>dr_principal_id = au_principalId auth, dr_endpoint_id = endpointId,
                     dr_session_handle = sessionHandle, dr_updated_at = updatedAt\<rparr>;
              s = default_routes_update (upsert dr_principal_id
                     (\<lambda>r. r\<lparr>dr_endpoint_id := endpointId, dr_session_handle := sessionHandle,
                            dr_updated_at := updatedAt\<rparr>) row) s;
              s = audit (au_principalId auth) ''default_route.set'' ''principal'' (au_principalId auth)
                    [(''endpointId'', JStr endpointId), (''sessionHandle'', JStr sessionHandle)] s
          in (Ok row, s)))"

definition clearDefaultRoute :: "AuthContext \<Rightarrow> cp \<Rightarrow> unit ServiceResult \<times> cp" where
  "clearDefaultRoute auth s =
     (let s = default_routes_update (filter (\<lambda>r. dr_principal_id r \<noteq> au_principalId auth)) s;
          s = audit (au_principalId auth) ''default_route.cleared'' ''principal'' (au_principalId auth) [] s
      in (Ok (), s))"

end
