(* ===== verification/Offers.thy ===== *)
theory Offers
  imports Endpoints
begin

text \<open>\<^verbatim>\<open>OfferService\<close> (\<^verbatim>\<open>services/offers.ts\<close>): published, time-boxed, revocable targets.\<close>

record TargetOffer =
  to_targetOfferId :: string
  to_endpointId :: string
  to_sessionHandle :: string
  to_audiencePrincipalId :: string
  to_label :: string
  to_expiresAt :: time

definition principal_exists :: "string \<Rightarrow> cp \<Rightarrow> bool" where
  "principal_exists p s = (\<exists>r \<in> set (principals s). pr_principal_id r = p)"

definition create_offer ::
    "AuthContext \<Rightarrow> string \<Rightarrow> string \<Rightarrow> string \<Rightarrow> int option \<Rightarrow> cp \<Rightarrow> TargetOffer ServiceResult \<times> cp" where
  "create_offer auth endpointId sessionHandle audience ttlSeconds s =
     (case getSessionOwned auth endpointId sessionHandle s of
        Failure c h \<Rightarrow> (Failure c h, s)
      | Ok session \<Rightarrow>
         if rb_state session = Closed then (Failure Session_closed 409, s)
         else if \<not> rb_allowInbound session then (Failure Inbound_disabled 409, s)
         else if \<not> principal_exists audience s then (Failure Not_found 404, s)
         else
         (let offerId = new_id ''offer'' s;
              s = drawn s;
              now = nowIso s;
              s = tick s;
              expiresAt = addSeconds now (or_else ttlSeconds 600);
              s = target_offers_update (\<lambda>t. t @
                 [\<lparr>of_offer_id = offerId, of_owner_principal_id = au_principalId auth,
                   of_audience_principal_id = audience, of_endpoint_id = endpointId,
                   of_session_handle = sessionHandle, of_label = rb_label session,
                   of_expires_at = expiresAt, of_revoked_at = None, of_created_at = now\<rparr>]) s;
              s = audit (au_principalId auth) ''target_offer.created'' ''target_offer'' offerId
                    [(''audiencePrincipalId'', JStr audience), (''expiresAt'', JNum expiresAt)] s
          in (Ok \<lparr>to_targetOfferId = offerId, to_endpointId = endpointId, to_sessionHandle = sessionHandle,
                  to_audiencePrincipalId = audience, to_label = rb_label session,
                  to_expiresAt = expiresAt\<rparr>, s)))"

definition revoke_offer :: "AuthContext \<Rightarrow> string \<Rightarrow> cp \<Rightarrow> unit ServiceResult \<times> cp" where
  "revoke_offer auth offerId s =
     (let now = nowIso s;
          s = tick s;
          P = (\<lambda>r. of_offer_id r = offerId \<and> of_owner_principal_id r = au_principalId auth
                 \<and> of_revoked_at r = None);
          n = changes P (target_offers s);
          s = target_offers_update (update_where P (\<lambda>r. r\<lparr>of_revoked_at := Some now\<rparr>)) s
      in if n = 0 then (Failure Offer_not_found 404, s)
         else (Ok (), audit (au_principalId auth) ''target_offer.revoked'' ''target_offer'' offerId [] s))"

definition resolve_offer ::
    "string \<Rightarrow> string \<Rightarrow> string \<Rightarrow> cp \<Rightarrow> (string \<times> string) ServiceResult \<times> cp" where
  "resolve_offer offerId owner audience s =
     (case List.find (\<lambda>r. of_offer_id r = offerId \<and> of_owner_principal_id r = owner) (target_offers s) of
        None \<Rightarrow> (Failure Offer_not_found 404, s)
      | Some row \<Rightarrow>
          if of_audience_principal_id row \<noteq> audience then (Failure Offer_audience_mismatch 403, s)
          else if of_revoked_at row \<noteq> None then (Failure Offer_revoked 409, s)
          else (let now = nowIso s; s = tick s in
                if of_expires_at row \<le> now then (Failure Offer_expired 409, s)
                else (Ok (of_endpoint_id row, of_session_handle row), s)))"

definition listReachable :: "string \<Rightarrow> string \<Rightarrow> cp \<Rightarrow> ReachableTarget list \<times> cp" where
  "listReachable viewer person s =
     (if \<not> principal_exists person s then ([], s)
      else
      (let route = getDefaultRoute person s;
           default = \<lparr>rt_kind = Person_default_runtime, rt_principalId = person,
                      rt_label = ''Default local runtime'', rt_targetOfferId = None,
                      rt_expiresAt = None, rt_available = (route \<noteq> None)\<rparr>;
           now = nowIso s;
           s = tick s;
           rows = sort_key of_created_at (filter (\<lambda>r. of_owner_principal_id r = person
                    \<and> of_audience_principal_id r = viewer \<and> of_revoked_at r = None
                    \<and> of_expires_at r > now) (target_offers s))
       in (default # map (\<lambda>r. \<lparr>rt_kind = Runtime_session, rt_principalId = person, rt_label = of_label r,
                      rt_targetOfferId = Some (of_offer_id r), rt_expiresAt = Some (of_expires_at r),
                      rt_available = True\<rparr>) rows, s)))"

end
