(* ===== verification/Comms.thy ===== *)
theory Comms
  imports Offers
begin

text \<open>
  \<^verbatim>\<open>CommunicationSessionService\<close> (\<^verbatim>\<open>services/comm-sessions.ts\<close>): the request, accept,
  decline, revoke and expiry of a communication grant, its deliveries and its events.
\<close>

section \<open>Rows and views\<close>

definition mapCommunication :: "CommRow \<Rightarrow> CommunicationSession" where
  "mapCommunication r = \<lparr>co_id = cs_comm_session_id r,
     co_requesterPrincipalId = cs_requester_principal_id r,
     co_requesterDeviceId = keep_truthy (cs_requester_device_id r),
     co_replyEndpointId = cs_requester_reply_endpoint_id r,
     co_replySessionHandle = cs_requester_reply_session_handle r,
     co_recipientPrincipalId = cs_recipient_principal_id r,
     co_targetKind = cs_target_kind r,
     co_targetOfferId = keep_truthy (cs_target_offer_id r),
     co_endpointId = keep_truthy (cs_frozen_endpoint_id r),
     co_sessionHandle = keep_truthy (cs_frozen_session_handle r),
     co_status = cs_status r, co_requestedAt = cs_requested_at r,
     co_requestExpiresAt = cs_request_expires_at r, co_activatedAt = cs_activated_at r,
     co_grantExpiresAt = cs_grant_expires_at r, co_revokedAt = cs_revoked_at r\<rparr>"

definition statusReason :: "CommunicationStatus \<Rightarrow> ReasonCode" where
  "statusReason st = (case st of
       Comm_expired \<Rightarrow> Communication_session_expired
     | Comm_revoked \<Rightarrow> Communication_session_revoked
     | Comm_declined \<Rightarrow> Communication_session_declined
     | _ \<Rightarrow> Communication_session_not_active)"

definition find_comm :: "string \<Rightarrow> cp \<Rightarrow> CommRow option" where
  "find_comm sid s = List.find (\<lambda>r. cs_comm_session_id r = sid) (comm_sessions s)"

section \<open>Notifications and deliveries\<close>

text \<open>The deliveries a grant's end closes: those not yet settled.\<close>

definition open_delivery :: "DeliveryStatus \<Rightarrow> bool" where
  "open_delivery st = (st \<in> {Queued, Dispatched, Device_acked, Runtime_pending})"

definition end_deliveries :: "string \<Rightarrow> DeliveryStatus \<Rightarrow> string \<Rightarrow> time \<Rightarrow> cp \<Rightarrow> cp" where
  "end_deliveries sid st code now s =
     deliveries_update (update_where
         (\<lambda>d. (\<exists>m \<in> set (messages s). ms_comm_session_id m = Some sid \<and> ms_message_id m = dl_message_id d)
            \<and> open_delivery (dl_status d))
         (\<lambda>d. d\<lparr>dl_status := st, dl_terminal_at := Some now, dl_result_code := Some code\<rparr>)) s"

text \<open>The loops \<^verbatim>\<open>for (endpoint of listForPrincipal(p)) events.append(...)\<close>: the ids to wake, in order.\<close>

definition notify_principal :: "RuntimeEventType \<Rightarrow> EventData \<Rightarrow> string \<Rightarrow> string list \<times> cp \<Rightarrow> string list \<times> cp" where
  "notify_principal ty d p = (\<lambda>(w, s).
     (let (eps, s) = listForPrincipal p s;
          ids = map re_endpointId eps
      in (w @ ids, fold (\<lambda>ep. append_event ep ty d) ids s)))"

definition notify_all :: "RuntimeEventType \<Rightarrow> EventData \<Rightarrow> string list \<Rightarrow> cp \<Rightarrow> string list \<times> cp" where
  "notify_all ty d ps s = fold (notify_principal ty d) ps ([], s)"

definition expired_data :: "string \<Rightarrow> string option \<Rightarrow> string option \<Rightarrow> time \<Rightarrow> EventData" where
  "expired_data sid ep sh now = Object_data
     ([(''communicationSessionId'', JStr sid)] @ opt_field ''endpointId'' JStr ep
      @ opt_field ''sessionHandle'' JStr sh @ [(''expiredAt'', JNum now)])"

definition expired_meta :: "CommRow \<Rightarrow> (string \<times> json) list" where
  "expired_meta r = [(''requesterPrincipalId'', JStr (cs_requester_principal_id r)),
     (''recipientPrincipalId'', JStr (cs_recipient_principal_id r))]"

section \<open>Expiry\<close>

definition grant_over :: "CommRow \<Rightarrow> time \<Rightarrow> bool" where
  "grant_over r now = (case cs_grant_expires_at r of None \<Rightarrow> False | Some t \<Rightarrow> t \<le> now)"

definition comm_lapsed :: "CommRow \<Rightarrow> time \<Rightarrow> bool" where
  "comm_lapsed r now =
     ((cs_status r = Comm_pending \<and> cs_request_expires_at r \<le> now)
      \<or> (cs_status r = Comm_active \<and> grant_over r now))"

definition expireIfNeeded :: "string \<Rightarrow> cp \<Rightarrow> cp" where
  "expireIfNeeded sid s =
     (case find_comm sid s of
        None \<Rightarrow> s
      | Some row \<Rightarrow>
         (let now = nowIso s; s = tick s in
          if \<not> comm_lapsed row now then s
          else
          (let P = (\<lambda>r. cs_comm_session_id r = sid \<and> cs_status r = cs_status row);
               n = changes P (comm_sessions s);
               s = comm_sessions_update (update_where P (\<lambda>r. r\<lparr>cs_status := Comm_expired\<rparr>)) s
           in if n = 0 then wake [] s
              else
              (let s = end_deliveries sid Del_expired ''communication_session_expired'' now s;
                   (w, s) = notify_all Comm_expired_event
                       (expired_data sid (cs_frozen_endpoint_id row) (cs_frozen_session_handle row) now)
                       [cs_requester_principal_id row, cs_recipient_principal_id row] s;
                   s = audit ''system'' ''comm.expired'' ''communication_session'' sid (expired_meta row) s
               in wake w s))))"

definition expire_route_row ::
    "string \<Rightarrow> string \<Rightarrow> time \<Rightarrow> CommRow \<Rightarrow> string list \<times> cp \<Rightarrow> string list \<times> cp" where
  "expire_route_row endpointId sessionHandle now row = (\<lambda>(w, s).
     (let sid = cs_comm_session_id row;
          P = (\<lambda>r. cs_comm_session_id r = sid \<and> cs_status r = Comm_active);
          n = changes P (comm_sessions s);
          s = comm_sessions_update (update_where P (\<lambda>r. r\<lparr>cs_status := Comm_expired\<rparr>)) s
      in if n = 0 then (w, s)
         else
         (let s = end_deliveries sid Del_expired ''communication_session_expired'' now s;
              (w', s) = notify_all Comm_expired_event
                  (expired_data sid (Some endpointId) (Some sessionHandle) now)
                  [cs_requester_principal_id row, cs_recipient_principal_id row] s;
              s = audit ''system'' ''comm.expired'' ''communication_session'' sid (expired_meta row) s
          in (w @ w', s))))"

definition expireActiveGrantsForRoute :: "string \<Rightarrow> string \<Rightarrow> string \<Rightarrow> cp \<Rightarrow> cp" where
  "expireActiveGrantsForRoute principalId endpointId sessionHandle s =
     (let now = nowIso s;
          s = tick s;
          rows = filter (\<lambda>r. cs_recipient_principal_id r = principalId
                   \<and> cs_frozen_endpoint_id r = Some endpointId
                   \<and> cs_frozen_session_handle r = Some sessionHandle
                   \<and> cs_status r = Comm_active
                   \<and> grant_over r now) (comm_sessions s)
      in if rows = [] then s
         else (let (w, s) = fold (expire_route_row endpointId sessionHandle now) rows ([], s)
               in wake w s))"

section \<open>Reads\<close>

definition getVisible :: "string \<Rightarrow> string \<Rightarrow> cp \<Rightarrow> CommunicationSession ServiceResult \<times> cp" where
  "getVisible principalId sid s =
     (let s = expireIfNeeded sid s in
      case find_comm sid s of
        None \<Rightarrow> (Failure Not_found 404, s)
      | Some row \<Rightarrow>
          if cs_requester_principal_id row \<noteq> principalId \<and> cs_recipient_principal_id row \<noteq> principalId
          then (Failure Not_found 404, s)
          else (Ok (mapCommunication row), s))"

definition list_comms :: "string \<Rightarrow> cp \<Rightarrow> CommunicationSession list \<times> cp" where
  "list_comms principalId s =
     (let rows = sort_key cs_requested_at (filter (\<lambda>r. cs_requester_principal_id r = principalId
                   \<or> cs_recipient_principal_id r = principalId) (comm_sessions s))
      in fold (\<lambda>row (acc, s). (let (r, s) = getVisible principalId (cs_comm_session_id row) s in
                (acc @ (case r of Ok v \<Rightarrow> [v] | Failure _ _ \<Rightarrow> []), s))) rows ([], s))"

definition requireActive :: "string \<Rightarrow> string \<Rightarrow> cp \<Rightarrow> CommunicationSession ServiceResult \<times> cp" where
  "requireActive principalId sid s =
     (case getVisible principalId sid s of
        (Failure c h, s) \<Rightarrow> (Failure c h, s)
      | (Ok v, s) \<Rightarrow> if co_status v \<noteq> Comm_active then (Failure (statusReason (co_status v)) 403, s)
                     else (Ok v, s))"

section \<open>Request\<close>

definition target_kind_text :: "TargetKind \<Rightarrow> string" where
  "target_kind_text k = (case k of Human_inbox \<Rightarrow> ''human_inbox''
     | Person_default_runtime \<Rightarrow> ''person_default_runtime'' | Runtime_session \<Rightarrow> ''runtime_session'')"

definition request_offer_check :: "AuthContext \<Rightarrow> RequestTarget \<Rightarrow> cp \<Rightarrow> unit ServiceResult \<times> cp" where
  "request_offer_check auth target s =
     (if qt_kind target = Runtime_session then
        (if \<not> truthy (qt_targetOfferId target) then (Failure Invalid_request 400, s)
         else (case resolve_offer (or_else (qt_targetOfferId target) []) (qt_principalId target)
                      (au_principalId auth) s of
                 (Failure c h, s) \<Rightarrow> (Failure c h, s)
               | (Ok _, s) \<Rightarrow> (Ok (), s)))
      else (Ok (), s))"

definition comm_request ::
    "AuthContext \<Rightarrow> RequestCommunicationSessionInput \<Rightarrow> cp \<Rightarrow> CommunicationSession ServiceResult \<times> cp" where
  "comm_request auth input s =
     (case getSessionOwned auth (rq_replyEndpointId input) (rq_replySessionHandle input) s of
        Failure c h \<Rightarrow> (Failure c h, s)
      | Ok replySession \<Rightarrow>
         if rb_state replySession = Closed then (Failure Session_closed 409, s)
         else if \<not> principal_exists (qt_principalId (rq_target input)) s then (Failure Not_found 404, s)
         else (case request_offer_check auth (rq_target input) s of
           (Failure c h, s) \<Rightarrow> (Failure c h, s)
         | (Ok _, s) \<Rightarrow>
          (let requestedAt = nowIso s;
               s = tick s;
               sid = new_id ''comm'' s;
               s = drawn s;
               ttl = min (or_else (rq_requestedTtlMinutes input) 30) 30;
               requestExpiresAt = addMinutes requestedAt 10;
               s = comm_sessions_update (\<lambda>t. t @
                  [\<lparr>cs_comm_session_id = sid, cs_requester_principal_id = au_principalId auth,
                    cs_requester_device_id = Some (au_deviceId auth),
                    cs_requester_reply_endpoint_id = rq_replyEndpointId input,
                    cs_requester_reply_session_handle = rq_replySessionHandle input,
                    cs_recipient_principal_id = qt_principalId (rq_target input),
                    cs_target_kind = qt_kind (rq_target input),
                    cs_target_offer_id = qt_targetOfferId (rq_target input),
                    cs_frozen_endpoint_id = None, cs_frozen_session_handle = None,
                    cs_requested_ttl_minutes = ttl, cs_status = Comm_pending,
                    cs_requested_at = requestedAt, cs_request_expires_at = requestExpiresAt,
                    cs_activated_at = None, cs_grant_expires_at = None, cs_revoked_at = None\<rparr>]) s;
               (w, s) = notify_all Comm_request_event (Object_data
                   [(''communicationSessionId'', JStr sid),
                    (''requesterPrincipalId'', JStr (au_principalId auth)),
                    (''requesterDeviceId'', JStr (au_deviceId auth)),
                    (''targetKind'', JStr (target_kind_text (qt_kind (rq_target input)))),
                    (''requestedAt'', JNum requestedAt), (''requestExpiresAt'', JNum requestExpiresAt)])
                   [qt_principalId (rq_target input)] s;
               s = audit (au_principalId auth) ''comm.requested'' ''communication_session'' sid
                   [(''requesterPrincipalId'', JStr (au_principalId auth)),
                    (''requesterDeviceId'', JStr (au_deviceId auth)),
                    (''recipientPrincipalId'', JStr (qt_principalId (rq_target input))),
                    (''targetKind'', JStr (target_kind_text (qt_kind (rq_target input)))),
                    (''requestExpiresAt'', JNum requestExpiresAt)] s;
               s = wake w s
           in getVisible (au_principalId auth) sid s)))"

section \<open>Accept\<close>

text \<open>The route the recipient grants: the default route, or the offer's.\<close>

definition accept_route ::
    "AuthContext \<Rightarrow> CommunicationSession \<Rightarrow> cp \<Rightarrow> (string \<times> string) ServiceResult \<times> cp" where
  "accept_route auth current s =
     (case co_targetKind current of
        Person_default_runtime \<Rightarrow>
          (case getDefaultRoute (au_principalId auth) s of
             None \<Rightarrow> (Failure No_default_route 409, s)
           | Some route \<Rightarrow> (Ok (dr_endpoint_id route, dr_session_handle route), s))
      | Runtime_session \<Rightarrow>
          (case co_targetOfferId current of
             None \<Rightarrow> (Failure Offer_not_found 409, s)
           | Some offerId \<Rightarrow> resolve_offer offerId (au_principalId auth) (co_requesterPrincipalId current) s)
      | Human_inbox \<Rightarrow> (Failure Invalid_target_kind 400, s))"

text \<open>The target session must be the recipient's, open and accepting inbound messages.\<close>

definition accept_target_check :: "AuthContext \<Rightarrow> string \<Rightarrow> string \<Rightarrow> cp \<Rightarrow> unit ServiceResult" where
  "accept_target_check auth endpointId sessionHandle s =
     (case getSession sessionHandle s of
        None \<Rightarrow> Failure Session_not_found 409
      | Some t \<Rightarrow>
          if rb_endpointId t \<noteq> endpointId \<or> rb_principalId t \<noteq> au_principalId auth
          then Failure Session_not_found 409
          else if rb_state t = Closed then Failure Session_closed 409
          else if \<not> rb_allowInbound t then Failure Inbound_disabled 409
          else Ok ())"

definition competing_grant :: "AuthContext \<Rightarrow> string \<Rightarrow> string \<Rightarrow> time \<Rightarrow> string \<Rightarrow> cp \<Rightarrow> bool" where
  "competing_grant auth endpointId sessionHandle now sid s =
     (\<exists>r \<in> set (comm_sessions s). cs_recipient_principal_id r = au_principalId auth
        \<and> cs_frozen_endpoint_id r = Some endpointId \<and> cs_frozen_session_handle r = Some sessionHandle
        \<and> cs_status r = Comm_active
        \<and> \<not> grant_over r now
        \<and> cs_comm_session_id r \<noteq> sid)"

text \<open>\<^verbatim>\<open>rowFor\<close> throws when the row is missing: the outer \<open>None\<close>.\<close>

definition activate ::
    "AuthContext \<Rightarrow> CommunicationSession \<Rightarrow> string \<Rightarrow> string \<Rightarrow> string \<Rightarrow> cp \<Rightarrow> CommunicationSession ServiceResult option \<times> cp" where
  "activate auth current sid endpointId sessionHandle s =
     (let activatedAt = nowIso s; s = tick s in
      case find_comm sid s of
        None \<Rightarrow> (None, s)
      | Some row \<Rightarrow>
         (let grantExpiresAt = addMinutes activatedAt (min (cs_requested_ttl_minutes row) 30);
              P = (\<lambda>r. cs_comm_session_id r = sid \<and> cs_status r = Comm_pending);
              n = changes P (comm_sessions s);
              s = comm_sessions_update (update_where P
                    (\<lambda>r. r\<lparr>cs_status := Comm_active, cs_frozen_endpoint_id := Some endpointId,
                           cs_frozen_session_handle := Some sessionHandle,
                           cs_activated_at := Some activatedAt,
                           cs_grant_expires_at := Some grantExpiresAt\<rparr>)) s
          in if n = 0 then (Some (Failure Communication_session_not_active 409), s)
             else
             (let (w, s) = notify_all Comm_activated_event (Object_data
                    [(''communicationSessionId'', JStr sid), (''endpointId'', JStr endpointId),
                     (''sessionHandle'', JStr sessionHandle), (''activatedAt'', JNum activatedAt),
                     (''grantExpiresAt'', JNum grantExpiresAt)])
                    [co_requesterPrincipalId current, co_recipientPrincipalId current] s;
                  s = audit (au_principalId auth) ''comm.activated'' ''communication_session'' sid
                    [(''requesterPrincipalId'', JStr (co_requesterPrincipalId current)),
                     (''recipientPrincipalId'', JStr (co_recipientPrincipalId current)),
                     (''endpointId'', JStr endpointId), (''sessionHandle'', JStr sessionHandle),
                     (''grantExpiresAt'', JNum grantExpiresAt)] s;
                  s = wake w s;
                  (r, s) = getVisible (au_principalId auth) sid s
              in (Some r, s))))"

definition accept :: "AuthContext \<Rightarrow> string \<Rightarrow> cp \<Rightarrow> CommunicationSession ServiceResult option \<times> cp" where
  "accept auth sid s =
     (case getVisible (au_principalId auth) sid s of
        (Failure c h, s) \<Rightarrow> (Some (Failure c h), s)
      | (Ok current, s) \<Rightarrow>
         if co_recipientPrincipalId current \<noteq> au_principalId auth then (Some (Failure Wrong_participant 403), s)
         else if co_status current \<noteq> Comm_pending then (Some (Failure (statusReason (co_status current)) 409), s)
         else (case accept_route auth current s of
           (Failure c h, s) \<Rightarrow> (Some (Failure c h), s)
         | (Ok (endpointId, sessionHandle), s) \<Rightarrow>
             (case accept_target_check auth endpointId sessionHandle s of
                Failure c h \<Rightarrow> (Some (Failure c h), s)
              | Ok _ \<Rightarrow>
                 (let s = expireActiveGrantsForRoute (au_principalId auth) endpointId sessionHandle s;
                      now = nowIso s;
                      s = tick s
                  in if competing_grant auth endpointId sessionHandle now sid s
                     then (Some (Failure Runtime_session_already_granted 409), s)
                     else activate auth current sid endpointId sessionHandle s))))"

section \<open>Decline and revoke\<close>

definition decline :: "AuthContext \<Rightarrow> string \<Rightarrow> cp \<Rightarrow> unit ServiceResult \<times> cp" where
  "decline auth sid s =
     (case getVisible (au_principalId auth) sid s of
        (Failure c h, s) \<Rightarrow> (Failure c h, s)
      | (Ok current, s) \<Rightarrow>
         if co_recipientPrincipalId current \<noteq> au_principalId auth then (Failure Wrong_participant 403, s)
         else if co_status current \<noteq> Comm_pending then (Failure (statusReason (co_status current)) 409, s)
         else
         (let s = comm_sessions_update (update_where (\<lambda>r. cs_comm_session_id r = sid \<and> cs_status r = Comm_pending)
                    (\<lambda>r. r\<lparr>cs_status := Comm_declined\<rparr>)) s;
              (w, s) = notify_all Comm_declined_event (Object_data [(''communicationSessionId'', JStr sid)])
                    [co_requesterPrincipalId current] s;
              s = audit (au_principalId auth) ''comm.declined'' ''communication_session'' sid
                    [(''requesterPrincipalId'', JStr (co_requesterPrincipalId current)),
                     (''recipientPrincipalId'', JStr (co_recipientPrincipalId current))] s
          in (Ok (), wake w s)))"

definition revoke :: "AuthContext \<Rightarrow> string \<Rightarrow> cp \<Rightarrow> unit ServiceResult \<times> cp" where
  "revoke auth sid s =
     (case getVisible (au_principalId auth) sid s of
        (Failure c h, s) \<Rightarrow> (Failure c h, s)
      | (Ok current, s) \<Rightarrow>
         if au_principalId auth \<notin> {co_requesterPrincipalId current, co_recipientPrincipalId current}
         then (Failure Wrong_participant 403, s)
         else if co_status current \<noteq> Comm_active then (Failure (statusReason (co_status current)) 409, s)
         else
         (let revokedAt = nowIso s;
              s = tick s;
              s = comm_sessions_update (update_where (\<lambda>r. cs_comm_session_id r = sid \<and> cs_status r = Comm_active)
                    (\<lambda>r. r\<lparr>cs_status := Comm_revoked, cs_revoked_at := Some revokedAt\<rparr>)) s;
              s = end_deliveries sid Del_revoked ''communication_session_revoked'' revokedAt s;
              (w, s) = notify_all Comm_revoked_event (Object_data
                    ([(''communicationSessionId'', JStr sid)] @ opt_field ''endpointId'' JStr (co_endpointId current)
                     @ opt_field ''sessionHandle'' JStr (co_sessionHandle current)
                     @ [(''revokedAt'', JNum revokedAt)]))
                    [co_requesterPrincipalId current, co_recipientPrincipalId current] s;
              s = audit (au_principalId auth) ''comm.revoked'' ''communication_session'' sid
                    [(''requesterPrincipalId'', JStr (co_requesterPrincipalId current)),
                     (''recipientPrincipalId'', JStr (co_recipientPrincipalId current)),
                     (''revokedAt'', JNum revokedAt)] s
          in (Ok (), wake w s)))"

end
