(* ===== verification/Messages.thy ===== *)
theory Messages
  imports Comms
begin

text \<open>
  \<^verbatim>\<open>MessageService\<close> (\<^verbatim>\<open>services/messages.ts\<close>): sending, acknowledging and
  re-validating messages. \<open>None\<close> as a result is an exception of the source (a row it
  reads back is missing).
\<close>

section \<open>JSON of an input\<close>

definition kind_text :: "MessageKind \<Rightarrow> string" where
  "kind_text k = (case k of Text \<Rightarrow> ''text'' | Task_invite \<Rightarrow> ''task_invite''
     | Resource_request \<Rightarrow> ''resource_request'' | Control \<Rightarrow> ''control'')"

definition send_input_json :: "SendMessageInput \<Rightarrow> json" where
  "send_input_json i = JObj
     ((case sm_scope i of
         Grant_scoped sid \<Rightarrow> [(''communicationSessionId'', JStr sid)]
       | To_target k p \<Rightarrow> [(''target'', JObj [(''kind'', JStr (target_kind_text k)), (''principalId'', JStr p)])])
      @ [(''clientMessageId'', JStr (sm_clientMessageId i)), (''kind'', JStr (kind_text (sm_kind i))),
         (''payload'', JObj (sm_payload i))]
      @ opt_field ''replyTo'' JStr (sm_replyTo i)
      @ opt_field ''correlationId'' JStr (sm_correlationId i))"

section \<open>Views\<close>

definition mapAttempt :: "AttemptRow \<Rightarrow> DeliveryAttempt" where
  "mapAttempt r = \<lparr>at_attemptId = da_attempt_id r, at_phase = da_phase r,
     at_resultCode = keep_truthy (da_result_code r), at_retryable = da_retryable r,
     at_runtimeAckId = keep_truthy (da_runtime_ack_id r), at_createdAt = da_created_at r\<rparr>"

definition mapDelivery :: "string \<Rightarrow> cp \<Rightarrow> MessageDelivery option" where
  "mapDelivery messageId s =
     (case List.find (\<lambda>d. dl_message_id d = messageId) (deliveries s) of
        None \<Rightarrow> None
      | Some r \<Rightarrow> Some \<lparr>md_messageId = messageId, md_deliveryId = dl_delivery_id r, md_status = dl_status r,
          md_queuedAt = dl_queued_at r, md_dispatchedAt = dl_dispatched_at r,
          md_deviceAckReceivedAt = dl_device_ack_received_at r,
          md_runtimePendingAt = dl_runtime_pending_at r,
          md_runtimeAckReceivedAt = dl_runtime_ack_received_at r, md_terminalAt = dl_terminal_at r,
          md_resultCode = keep_truthy (dl_result_code r),
          md_runtimeAckId = keep_truthy (dl_runtime_ack_id r),
          md_adapterLabel = keep_truthy (dl_adapter_label r),
          md_attempts = map mapAttempt (sort_key (\<lambda>a. (da_created_at a, da_attempt_id a))
             (filter (\<lambda>a. da_delivery_id a = dl_delivery_id r) (delivery_attempts s)))\<rparr>)"

definition receiptFor :: "string \<Rightarrow> bool \<Rightarrow> cp \<Rightarrow> MessageReceipt option" where
  "receiptFor messageId duplicate s =
     map_option (\<lambda>d. \<lparr>mr_messageId = messageId, mr_deliveryId = md_deliveryId d, mr_status = md_status d,
        mr_duplicate = duplicate, mr_queuedAt = md_queuedAt d\<rparr>) (mapDelivery messageId s)"

definition envelopeFor :: "string \<Rightarrow> cp \<Rightarrow> MessageEnvelope option" where
  "envelopeFor messageId s =
     (case List.find (\<lambda>m. ms_message_id m = messageId) (messages s) of
        None \<Rightarrow> None
      | Some r \<Rightarrow> Some \<lparr>me_id = ms_message_id r, me_clientMessageId = ms_client_message_id r,
          me_communicationSessionId = keep_truthy (ms_comm_session_id r), me_collaborationId = None,
          me_collaborationTurn = None, me_senderPrincipalId = ms_sender_principal_id r,
          me_senderDeviceId = keep_truthy (ms_sender_device_id r),
          me_target = \<lparr>mt_kind = ms_target_kind r, mt_principalId = ms_target_principal_id r,
             mt_endpointId = keep_truthy (ms_target_endpoint_id r),
             mt_sessionHandle = keep_truthy (ms_target_session_handle r)\<rparr>,
          me_kind = ms_kind r, me_payload = ms_payload r, me_replyTo = keep_truthy (ms_reply_to r),
          me_correlationId = keep_truthy (ms_correlation_id r), me_sequence = ms_sequence r,
          me_createdAt = ms_created_at r, me_expiresAt = ms_expires_at r\<rparr>)"

definition findDuplicate :: "string \<Rightarrow> string \<Rightarrow> cp \<Rightarrow> MessageRow option" where
  "findDuplicate principalId clientMessageId s =
     List.find (\<lambda>m. ms_sender_principal_id m = principalId \<and> ms_client_message_id m = clientMessageId) (messages s)"

section \<open>Send\<close>

definition sendInbox ::
    "AuthContext \<Rightarrow> SendMessageInput \<Rightarrow> TargetKind \<Rightarrow> string \<Rightarrow> string \<Rightarrow> cp \<Rightarrow> MessageReceipt ServiceResult option \<times> cp" where
  "sendInbox auth input kind recipient requestHash s =
     (if kind \<noteq> Human_inbox then (Some (Failure Invalid_target_kind 400), s)
      else if \<not> principal_exists recipient s then (Some (Failure Not_found 404), s)
      else
      (let messageId = new_id ''msg'' s; s = drawn s;
           deliveryId = new_id ''del'' s; s = drawn s;
           createdAt = nowIso s; s = tick s;
           s = messages_update (\<lambda>t. t @
              [\<lparr>ms_message_id = messageId, ms_client_message_id = sm_clientMessageId input,
                ms_request_hash = requestHash, ms_comm_session_id = None,
                ms_sender_principal_id = au_principalId auth, ms_sender_device_id = Some (au_deviceId auth),
                ms_target_kind = Human_inbox, ms_target_principal_id = recipient,
                ms_target_endpoint_id = None, ms_target_session_handle = None, ms_kind = sm_kind input,
                ms_payload = sm_payload input, ms_reply_to = sm_replyTo input,
                ms_correlation_id = sm_correlationId input, ms_sequence = 1, ms_created_at = createdAt,
                ms_expires_at = far_future\<rparr>]) s;
           s = deliveries_update (\<lambda>t. t @
              [\<lparr>dl_delivery_id = deliveryId, dl_message_id = messageId, dl_endpoint_id = None,
                dl_status = Inbox_persisted, dl_queued_at = createdAt, dl_dispatched_at = None,
                dl_device_ack_received_at = None, dl_runtime_pending_at = None,
                dl_runtime_ack_received_at = None, dl_terminal_at = None, dl_result_code = None,
                dl_runtime_ack_id = None, dl_adapter_label = None\<rparr>]) s;
           inboxId = new_id ''inbox'' s; s = drawn s;
           s = inbox_items_update (\<lambda>t. t @
              [\<lparr>ib_inbox_item_id = inboxId, ib_principal_id = recipient, ib_message_id = messageId,
                ib_created_at = createdAt\<rparr>]) s;
           s = audit (au_principalId auth) ''message.inbox_persisted'' ''message'' messageId
                 [(''recipientPrincipalId'', JStr recipient), (''deliveryId'', JStr deliveryId)] s
       in (map_option Ok (receiptFor messageId False s), s)))"

text \<open>The reverse direction replies to the requester's frozen reply route.\<close>

definition grant_target :: "AuthContext \<Rightarrow> CommunicationSession \<Rightarrow> MessageTarget" where
  "grant_target auth comm =
     (if au_principalId auth = co_requesterPrincipalId comm
      then \<lparr>mt_kind = co_targetKind comm, mt_principalId = co_recipientPrincipalId comm,
            mt_endpointId = co_endpointId comm, mt_sessionHandle = co_sessionHandle comm\<rparr>
      else \<lparr>mt_kind = Runtime_session, mt_principalId = co_requesterPrincipalId comm,
            mt_endpointId = Some (co_replyEndpointId comm),
            mt_sessionHandle = Some (co_replySessionHandle comm)\<rparr>)"

definition reply_in_session :: "string option \<Rightarrow> string \<Rightarrow> cp \<Rightarrow> bool" where
  "reply_in_session replyTo sid s =
     (\<not> truthy replyTo
      \<or> (case List.find (\<lambda>m. ms_message_id m = or_else replyTo []) (messages s) of
           None \<Rightarrow> False
         | Some m \<Rightarrow> ms_comm_session_id m = Some sid))"

definition next_sequence :: "string \<Rightarrow> cp \<Rightarrow> nat" where
  "next_sequence sid s =
     foldr max (map ms_sequence (filter (\<lambda>m. ms_comm_session_id m = Some sid) (messages s))) 0 + 1"

definition queue_message ::
    "AuthContext \<Rightarrow> SendMessageInput \<Rightarrow> CommunicationSession \<Rightarrow> MessageTarget \<Rightarrow> string \<Rightarrow> string \<Rightarrow> string \<Rightarrow> cp
      \<Rightarrow> MessageReceipt ServiceResult option \<times> cp" where
  "queue_message auth input comm target ep sh requestHash s =
     (let messageId = new_id ''msg'' s; s = drawn s;
          deliveryId = new_id ''del'' s; s = drawn s;
          createdAt = nowIso s; s = tick s
      in case co_grantExpiresAt comm of None \<Rightarrow> (None, s) | Some expiresAt \<Rightarrow>
     (let seq = next_sequence (co_id comm) s;
          envelope = \<lparr>me_id = messageId, me_clientMessageId = sm_clientMessageId input,
             me_communicationSessionId = Some (co_id comm), me_collaborationId = None,
             me_collaborationTurn = None, me_senderPrincipalId = au_principalId auth,
             me_senderDeviceId = Some (au_deviceId auth),
             me_target = \<lparr>mt_kind = mt_kind target, mt_principalId = mt_principalId target,
                mt_endpointId = Some ep, mt_sessionHandle = Some sh\<rparr>,
             me_kind = sm_kind input, me_payload = sm_payload input,
             me_replyTo = keep_truthy (sm_replyTo input),
             me_correlationId = keep_truthy (sm_correlationId input), me_sequence = seq,
             me_createdAt = createdAt, me_expiresAt = expiresAt\<rparr>;
          s = messages_update (\<lambda>t. t @
              [\<lparr>ms_message_id = messageId, ms_client_message_id = sm_clientMessageId input,
                ms_request_hash = requestHash, ms_comm_session_id = Some (co_id comm),
                ms_sender_principal_id = au_principalId auth, ms_sender_device_id = Some (au_deviceId auth),
                ms_target_kind = mt_kind target, ms_target_principal_id = mt_principalId target,
                ms_target_endpoint_id = Some ep, ms_target_session_handle = Some sh,
                ms_kind = sm_kind input, ms_payload = sm_payload input, ms_reply_to = sm_replyTo input,
                ms_correlation_id = sm_correlationId input, ms_sequence = seq, ms_created_at = createdAt,
                ms_expires_at = expiresAt\<rparr>]) s;
          s = deliveries_update (\<lambda>t. t @
              [\<lparr>dl_delivery_id = deliveryId, dl_message_id = messageId, dl_endpoint_id = Some ep,
                dl_status = Queued, dl_queued_at = createdAt, dl_dispatched_at = None,
                dl_device_ack_received_at = None, dl_runtime_pending_at = None,
                dl_runtime_ack_received_at = None, dl_terminal_at = None, dl_result_code = None,
                dl_runtime_ack_id = None, dl_adapter_label = None\<rparr>]) s;
          s = append_event ep Message_dispatch (Dispatch_data (Some envelope) (Some deliveryId)) s;
          s = audit (au_principalId auth) ''message.queued'' ''message'' messageId
                [(''communicationSessionId'', JStr (co_id comm)),
                 (''recipientPrincipalId'', JStr (mt_principalId target)), (''endpointId'', JStr ep),
                 (''sessionHandle'', JStr sh), (''deliveryId'', JStr deliveryId),
                 (''sequence'', JNum (int seq))] s;
          s = wake [ep] s
      in (map_option Ok (receiptFor messageId False s), s)))"

definition sendGrantScoped ::
    "AuthContext \<Rightarrow> SendMessageInput \<Rightarrow> string \<Rightarrow> string \<Rightarrow> cp \<Rightarrow> MessageReceipt ServiceResult option \<times> cp" where
  "sendGrantScoped auth input sid requestHash s =
     (case requireActive (au_principalId auth) sid s of
        (Failure c h, s) \<Rightarrow> (Some (Failure c h), s)
      | (Ok comm, s) \<Rightarrow>
         if \<not> reply_in_session (sm_replyTo input) (co_id comm) s then (Some (Failure Wrong_target 409), s)
         else if au_principalId auth \<noteq> co_requesterPrincipalId comm
               \<and> au_principalId auth \<noteq> co_recipientPrincipalId comm
         then (Some (Failure Wrong_participant 403), s)
         else
         (let target = grant_target auth comm in
          if \<not> truthy (mt_endpointId target) \<or> \<not> truthy (mt_sessionHandle target)
          then (Some (Failure Wrong_target 409), s)
          else queue_message auth input comm target (or_else (mt_endpointId target) [])
                 (or_else (mt_sessionHandle target) []) requestHash s))"

definition send :: "AuthContext \<Rightarrow> SendMessageInput \<Rightarrow> cp \<Rightarrow> MessageReceipt ServiceResult option \<times> cp" where
  "send auth input s =
     (let requestHash = stableHash s (send_input_json input) in
      case findDuplicate (au_principalId auth) (sm_clientMessageId input) s of
        Some m \<Rightarrow>
          if ms_request_hash m \<noteq> requestHash then (Some (Failure Client_message_id_conflict 409), s)
          else (map_option Ok (receiptFor (ms_message_id m) True s), s)
      | None \<Rightarrow>
          if length (stringify (JObj (sm_payload input))) > 32 * 1024
          then (Some (Failure Payload_too_large 400), s)
          else (case sm_scope input of
                  To_target k p \<Rightarrow> sendInbox auth input k p requestHash s
                | Grant_scoped sid \<Rightarrow> sendGrantScoped auth input sid requestHash s))"

section \<open>Acknowledgement\<close>

definition ended_delivery :: "DeliveryStatus \<Rightarrow> bool" where
  "ended_delivery st = (st \<in> {Del_expired, Del_revoked, Rejected, Failed})"

datatype AckRecord = Ack_state | Audit_only

definition phase_text :: "AckPhase \<Rightarrow> string" where
  "phase_text p = (case p of Device_ack \<Rightarrow> ''device_ack'' | Runtime_pending_phase \<Rightarrow> ''runtime_pending''
     | Runtime_ack \<Rightarrow> ''runtime_ack'' | Runtime_failed \<Rightarrow> ''runtime_failed'')"

text \<open>The UPDATE of one delivery for an acknowledged phase: guard and assignment per branch.\<close>

definition ack_update :: "DeliveryAckInput \<Rightarrow> string \<Rightarrow> time \<Rightarrow> DeliveryRow \<Rightarrow> DeliveryRow" where
  "ack_update input adapterVersion now d =
     (case ak_phase input of
        Device_ack \<Rightarrow>
          if dl_status d \<in> {Queued, Dispatched}
          then d\<lparr>dl_status := Device_acked, dl_device_ack_received_at := Some now\<rparr> else d
      | Runtime_pending_phase \<Rightarrow>
          if dl_status d \<in> {Device_acked, Runtime_pending}
          then d\<lparr>dl_status := Runtime_pending, dl_runtime_pending_at := Some now,
                 dl_result_code := Some (or_else (ak_resultCode input) ''queued_busy'')\<rparr> else d
      | Runtime_ack \<Rightarrow>
          if dl_status d \<in> {Device_acked, Runtime_pending}
          then d\<lparr>dl_status := Runtime_acked, dl_runtime_ack_received_at := Some now,
                 dl_runtime_ack_id := ak_runtimeAckId input, dl_result_code := None,
                 dl_adapter_label := (if prefix ''fake-'' adapterVersion
                    then Some ''[MOCK: FakeRuntimeAdapter]'' else None)\<rparr> else d
      | Runtime_failed \<Rightarrow>
          if open_delivery (dl_status d)
          then d\<lparr>dl_status := Failed, dl_terminal_at := Some now,
                 dl_result_code := Some (or_else (ak_resultCode input) ''runtime_unavailable'')\<rparr> else d)"

definition acknowledge ::
    "AuthContext \<Rightarrow> string \<Rightarrow> DeliveryAckInput \<Rightarrow> cp \<Rightarrow> AckRecord ServiceResult \<times> cp" where
  "acknowledge auth messageId input s =
     (case List.find (\<lambda>d. dl_message_id d = messageId
              \<and> (\<exists>m \<in> set (messages s). ms_message_id m = dl_message_id d)) (deliveries s) of
        None \<Rightarrow> (Failure Not_found 404, s)
      | Some row \<Rightarrow>
         (case dl_endpoint_id row of
            None \<Rightarrow> (Failure Ack_not_applicable 409, s)
          | Some epid \<Rightarrow>
             if epid = [] then (Failure Ack_not_applicable 409, s)
             else
             (case List.find (\<lambda>e. ep_endpoint_id e = epid) (endpoints s) of
                None \<Rightarrow> (Failure Endpoint_not_owned 403, s)
              | Some e \<Rightarrow>
                 if ep_principal_id e \<noteq> au_principalId auth \<or> ep_device_id e \<noteq> au_deviceId auth
                 then (Failure Endpoint_not_owned 403, s)
                 else
                 (let now = nowIso s; s = tick s;
                      s = delivery_attempts_update (insert_or_ignore da_attempt_id
                            \<lparr>da_attempt_id = ak_attemptId input, da_delivery_id = dl_delivery_id row,
                             da_phase = ak_phase input, da_result_code = ak_resultCode input,
                             da_retryable = or_else (ak_retryable input) False,
                             da_runtime_ack_id = ak_runtimeAckId input, da_created_at = now\<rparr>) s;
                      recorded = (if ended_delivery (dl_status row) then Audit_only else Ack_state);
                      s = (if ended_delivery (dl_status row) then s
                           else deliveries_update (update_where (\<lambda>d. dl_delivery_id d = dl_delivery_id row)
                                   (ack_update input (ep_adapter_version e) now)) s);
                      s = audit (au_principalId auth)
                            (if recorded = Audit_only then ''delivery.late_ack''
                             else ''delivery.'' @ phase_text (ak_phase input)) ''message'' messageId
                            [(''deliveryId'', JStr (dl_delivery_id row)),
                             (''attemptId'', JStr (ak_attemptId input)),
                             (''resultCode'', case ak_resultCode input of None \<Rightarrow> JNull | Some c \<Rightarrow> JStr c),
                             (''recorded'', JStr (case recorded of Ack_state \<Rightarrow> ''state'' | Audit_only \<Rightarrow> ''audit_only''))] s
                  in (Ok recorded, s)))))"

section \<open>Re-validation at delivery time\<close>

datatype Validation = Valid | Invalid ReasonCode

record ValidateInput =
  vi_messageId :: string
  vi_communicationSessionId :: string
  vi_endpointId :: string
  vi_sessionHandle :: "string option"

definition validate_target :: "ValidateInput \<Rightarrow> MessageRow \<Rightarrow> cp \<Rightarrow> Validation" where
  "validate_target input message s =
     (if \<not> truthy (vi_sessionHandle input) \<or> ms_target_session_handle message \<noteq> vi_sessionHandle input
      then Invalid Wrong_target
      else (case getSession (or_else (vi_sessionHandle input) []) s of
              None \<Rightarrow> Invalid Session_not_found
            | Some session \<Rightarrow>
                if rb_endpointId session \<noteq> vi_endpointId input then Invalid Session_not_found
                else if rb_state session = Closed then Invalid Session_closed
                else if \<not> rb_allowInbound session then Invalid Inbound_disabled
                else Valid))"

definition validate_message :: "AuthContext \<Rightarrow> ValidateInput \<Rightarrow> cp \<Rightarrow> Validation \<times> cp" where
  "validate_message auth input s =
     (case List.find (\<lambda>m. ms_message_id m = vi_messageId input
              \<and> (\<exists>d \<in> set (deliveries s). dl_message_id d = ms_message_id m)) (messages s) of
        None \<Rightarrow> (Invalid Wrong_target, s)
      | Some message \<Rightarrow>
         if ms_comm_session_id message \<noteq> Some (vi_communicationSessionId input) then (Invalid Wrong_target, s)
         else
         (case List.find (\<lambda>d. dl_message_id d = ms_message_id message) (deliveries s) of
            None \<Rightarrow> (Invalid Wrong_target, s)
          | Some d \<Rightarrow>
             if \<not> is_ok (getOwned auth (vi_endpointId input) s) \<or> dl_endpoint_id d \<noteq> Some (vi_endpointId input)
             then (Invalid Endpoint_not_owned, s)
             else
             (case requireActive (au_principalId auth) (vi_communicationSessionId input) s of
                (Failure c h, s) \<Rightarrow> (Invalid c, s)
              | (Ok _, s) \<Rightarrow>
                 if ended_delivery (dl_status d) then (Invalid Delivery_terminal, s)
                 else
                 (let now = nowIso s; s = tick s in
                  if ms_expires_at message \<le> now then (Invalid Message_expired, s)
                  else (validate_target input message s, s)))))"

definition validateInjection :: "AuthContext \<Rightarrow> ValidateInput \<Rightarrow> cp \<Rightarrow> Validation \<times> cp" where
  "validateInjection auth input s =
     (let (result, s) = validate_message auth input s;
          s = audit (au_principalId auth)
                (case result of Valid \<Rightarrow> ''injection.validated'' | Invalid _ \<Rightarrow> ''injection.rejected'')
                ''message'' (vi_messageId input)
                ([(''endpointId'', JStr (vi_endpointId input)),
                  (''sessionHandle'', case vi_sessionHandle input of None \<Rightarrow> JNull | Some h \<Rightarrow> JStr h)]
                 @ (case result of Valid \<Rightarrow> [(''valid'', JBool True)]
                    | Invalid c \<Rightarrow> [(''valid'', JBool False), (''reason'', JStr (reason_text c))])) s
      in (result, s))"

section \<open>Dispatch, status and inbox\<close>

text \<open>\<open>None\<close>: the message row of an updated delivery is missing and the source throws.\<close>

definition markDispatched :: "string \<Rightarrow> cp \<Rightarrow> unit option \<times> cp" where
  "markDispatched messageId s =
     (let now = nowIso s; s = tick s;
          P = (\<lambda>d. dl_message_id d = messageId \<and> dl_status d = Queued);
          n = changes P (deliveries s);
          s = deliveries_update (update_where P (\<lambda>d. d\<lparr>dl_status := Dispatched, dl_dispatched_at := Some now\<rparr>)) s
      in if n = 0 then (Some (), s)
         else (case List.find (\<lambda>m. ms_message_id m = messageId) (messages s) of
                 None \<Rightarrow> (None, s)
               | Some m \<Rightarrow> (Some (), audit ''system'' ''delivery.dispatched'' ''message'' messageId
                     [(''senderPrincipalId'', JStr (ms_sender_principal_id m))] s)))"

definition getStatus :: "string \<Rightarrow> string \<Rightarrow> cp \<Rightarrow> MessageDelivery ServiceResult option" where
  "getStatus principalId messageId s =
     (case List.find (\<lambda>m. ms_message_id m = messageId) (messages s) of
        None \<Rightarrow> Some (Failure Not_found 404)
      | Some owner \<Rightarrow>
          if ms_sender_principal_id owner \<noteq> principalId then Some (Failure Not_found 404)
          else map_option Ok (mapDelivery messageId s))"

definition listInbox :: "string \<Rightarrow> cp \<Rightarrow> (MessageEnvelope option \<times> MessageDelivery option) list" where
  "listInbox principalId s =
     map (\<lambda>i. (envelopeFor (ib_message_id i) s, mapDelivery (ib_message_id i) s))
       (sort_key ib_created_at (filter (\<lambda>i. ib_principal_id i = principalId
           \<and> (\<exists>m \<in> set (messages s). ms_message_id m = ib_message_id i)) (inbox_items s)))"

end
