(* ===== verification/Delegations.thy ===== *)
theory Delegations
  imports Messages
begin

text \<open>
  \<^verbatim>\<open>DelegationService\<close> (\<^verbatim>\<open>services/delegations.ts\<close>): a task handed to a peer's agent,
  over an active grant when there is one, else over a grant it requests. \<open>None\<close> is an
  exception of the source.
\<close>

section \<open>JSON of a delegation\<close>

definition target_json :: "RequestTarget \<Rightarrow> json" where
  "target_json t = JObj ([(''kind'', JStr (target_kind_text (qt_kind t))),
     (''principalId'', JStr (qt_principalId t))] @ opt_field ''targetOfferId'' JStr (qt_targetOfferId t))"

definition task_json :: "Task \<Rightarrow> json" where
  "task_json t = (case t of Task_text x \<Rightarrow> JStr x | Task_object kvs \<Rightarrow> JObj kvs)"

definition delegation_input_json :: "LocalAgentDelegationInput \<Rightarrow> json" where
  "delegation_input_json i = JObj
     ([(''target'', target_json (dg_target i)), (''task'', task_json (dg_task i)),
       (''sessionHandle'', JStr (dg_sessionHandle i)), (''clientMessageId'', JStr (dg_clientMessageId i))]
      @ opt_field ''correlationId'' JStr (dg_correlationId i)
      @ opt_field ''requestedTtlMinutes'' JNum (dg_requestedTtlMinutes i))"

section \<open>Rows\<close>

text \<open>The table's primary key.\<close>

definition delegation_key :: "DelegationRow \<Rightarrow> string \<times> string" where
  "delegation_key d = (ld_requester_principal_id d, ld_client_message_id d)"

definition find_delegation :: "string \<Rightarrow> string \<Rightarrow> cp \<Rightarrow> DelegationRow option" where
  "find_delegation requester clientMessageId s =
     List.find (\<lambda>d. ld_requester_principal_id d = requester \<and> ld_client_message_id d = clientMessageId)
       (local_agent_delegations s)"

definition insert_delegation ::
    "string \<Rightarrow> LocalAgentDelegationInput \<Rightarrow> string \<Rightarrow> string \<Rightarrow> cp \<Rightarrow> cp" where
  "insert_delegation requester input requestHash sid s =
     (let now = nowIso s; s = tick s in
      local_agent_delegations_update (\<lambda>t. t @
         [\<lparr>ld_requester_principal_id = requester, ld_client_message_id = dg_clientMessageId input,
           ld_request_hash = requestHash, ld_comm_session_id = Some sid, ld_message_id = None,
           ld_correlation_id = dg_correlationId input, ld_status = Del_grant_requested,
           ld_created_at = now, ld_updated_at = now\<rparr>]) s)"

definition upsertDelegated ::
    "string \<Rightarrow> LocalAgentDelegationInput \<Rightarrow> string \<Rightarrow> string \<Rightarrow> string \<Rightarrow> cp \<Rightarrow> cp" where
  "upsertDelegated requester input requestHash sid messageId s =
     (let now = nowIso s; s = tick s in
      local_agent_delegations_update (upsert delegation_key
         (\<lambda>d. d\<lparr>ld_comm_session_id := Some sid, ld_message_id := Some messageId,
                ld_status := Del_delegated, ld_updated_at := now\<rparr>)
         \<lparr>ld_requester_principal_id = requester, ld_client_message_id = dg_clientMessageId input,
           ld_request_hash = requestHash, ld_comm_session_id = Some sid, ld_message_id = Some messageId,
           ld_correlation_id = dg_correlationId input, ld_status = Del_delegated,
           ld_created_at = now, ld_updated_at = now\<rparr>) s)"

definition delegation_receipt :: "string \<Rightarrow> bool \<Rightarrow> cp \<Rightarrow> MessageReceipt option" where
  "delegation_receipt messageId duplicate s =
     map_option (\<lambda>d. \<lparr>mr_messageId = messageId, mr_deliveryId = dl_delivery_id d, mr_status = dl_status d,
         mr_duplicate = duplicate, mr_queuedAt = dl_queued_at d\<rparr>)
       (List.find (\<lambda>d. dl_message_id d = messageId) (deliveries s))"

definition grantRequested ::
    "LocalAgentDelegationInput \<Rightarrow> CommunicationSession \<Rightarrow> bool \<Rightarrow> LocalAgentDelegationResponse" where
  "grantRequested input comm duplicate =
     Grant_requested comm (dg_clientMessageId input) (keep_truthy (dg_correlationId input)) duplicate"

definition delegated ::
    "LocalAgentDelegationInput \<Rightarrow> CommunicationSession \<Rightarrow> MessageReceipt \<Rightarrow> bool \<Rightarrow> LocalAgentDelegationResponse" where
  "delegated input comm receipt duplicate =
     Delegated comm receipt (dg_clientMessageId input) (keep_truthy (dg_correlationId input)) duplicate"

section \<open>Operations\<close>

definition resolveOwnedSession :: "AuthContext \<Rightarrow> string \<Rightarrow> cp \<Rightarrow> (string \<times> string) ServiceResult" where
  "resolveOwnedSession auth sessionHandle s =
     (case getSession sessionHandle s of
        None \<Rightarrow> Failure Session_not_owned 404
      | Some session \<Rightarrow>
          if rb_principalId session \<noteq> au_principalId auth then Failure Session_not_owned 404
          else (case getOwned auth (rb_endpointId session) s of
                  Failure c h \<Rightarrow> Failure c h
                | Ok _ \<Rightarrow> if rb_state session = Closed then Failure Session_closed 409
                          else Ok (rb_endpointId session, rb_sessionHandle session)))"

definition findActiveGrant ::
    "string \<Rightarrow> LocalAgentDelegationInput \<Rightarrow> cp \<Rightarrow> CommunicationSession option \<times> cp" where
  "findActiveGrant principalId input s =
     (let (all, s) = list_comms principalId s in
      (List.find (\<lambda>comm. co_status comm = Comm_active
          \<and> co_requesterPrincipalId comm = principalId
          \<and> co_replySessionHandle comm = dg_sessionHandle input
          \<and> co_recipientPrincipalId comm = qt_principalId (dg_target input)
          \<and> co_targetKind comm = qt_kind (dg_target input)
          \<and> (qt_kind (dg_target input) \<noteq> Runtime_session
             \<or> co_targetOfferId comm = qt_targetOfferId (dg_target input))) all, s))"

definition invite_of :: "LocalAgentDelegationInput \<Rightarrow> string \<Rightarrow> SendMessageInput" where
  "invite_of input sid = \<lparr>sm_scope = Grant_scoped sid, sm_clientMessageId = dg_clientMessageId input,
     sm_kind = Task_invite,
     sm_payload = [(''task'', task_json (dg_task input)),
        (''delegation'', JObj
          [(''clientMessageId'', JStr (dg_clientMessageId input)),
           (''correlationId'', JStr (or_else (dg_correlationId input) (dg_clientMessageId input))),
           (''requestedSessionHandle'', JStr (dg_sessionHandle input)),
           (''untrustedExternalContent'', JBool True)])],
     sm_replyTo = None, sm_correlationId = dg_correlationId input\<rparr>"

definition sendInvite ::
    "AuthContext \<Rightarrow> LocalAgentDelegationInput \<Rightarrow> CommunicationSession \<Rightarrow> string \<Rightarrow> bool \<Rightarrow> cp
      \<Rightarrow> LocalAgentDelegationResponse ServiceResult option \<times> cp" where
  "sendInvite auth input comm requestHash duplicateDelegation s =
     (case send auth (invite_of input (co_id comm)) s of
        (None, s) \<Rightarrow> (None, s)
      | (Some (Failure c h), s) \<Rightarrow> (Some (Failure c h), s)
      | (Some (Ok receipt), s) \<Rightarrow>
         (let s = upsertDelegated (au_principalId auth) input requestHash (co_id comm) (mr_messageId receipt) s
          in (Some (Ok (delegated input comm receipt (duplicateDelegation \<or> mr_duplicate receipt))), s)))"

definition resumeExisting ::
    "AuthContext \<Rightarrow> LocalAgentDelegationInput \<Rightarrow> DelegationRow \<Rightarrow> cp
      \<Rightarrow> LocalAgentDelegationResponse ServiceResult option \<times> cp" where
  "resumeExisting auth input existing s =
     (if truthy (ld_message_id existing) then
        (if \<not> truthy (ld_comm_session_id existing) then (Some (Failure Not_found 404), s)
         else (case getVisible (au_principalId auth) (or_else (ld_comm_session_id existing) []) s of
                 (Failure c h, s) \<Rightarrow> (Some (Failure Not_found 404), s)
               | (Ok comm, s) \<Rightarrow>
                   (map_option (\<lambda>receipt. Ok (delegated input comm receipt True))
                      (delegation_receipt (or_else (ld_message_id existing) []) True s), s)))
      else if \<not> truthy (ld_comm_session_id existing) then (Some (Failure Invalid_request 400), s)
      else (case getVisible (au_principalId auth) (or_else (ld_comm_session_id existing) []) s of
              (Failure c h, s) \<Rightarrow> (Some (Failure c h), s)
            | (Ok comm, s) \<Rightarrow>
                if co_status comm = Comm_active
                then sendInvite auth input comm (ld_request_hash existing) True s
                else if co_status comm = Comm_pending
                then (Some (Ok (grantRequested input comm True)), s)
                else (Some (Failure (statusReason (co_status comm)) 409), s)))"

definition delegate ::
    "AuthContext \<Rightarrow> LocalAgentDelegationInput \<Rightarrow> cp \<Rightarrow> LocalAgentDelegationResponse ServiceResult option \<times> cp" where
  "delegate auth input s =
     (let requestHash = stableHash s (delegation_input_json input) in
      case find_delegation (au_principalId auth) (dg_clientMessageId input) s of
        Some existing \<Rightarrow>
          if ld_request_hash existing \<noteq> requestHash then (Some (Failure Client_message_id_conflict 409), s)
          else resumeExisting auth input existing s
      | None \<Rightarrow>
         (case resolveOwnedSession auth (dg_sessionHandle input) s of
            Failure c h \<Rightarrow> (Some (Failure c h), s)
          | Ok (replyEndpoint, replySession) \<Rightarrow>
             (case findActiveGrant (au_principalId auth) input s of
                (Some active, s) \<Rightarrow> sendInvite auth input active requestHash False s
              | (None, s) \<Rightarrow>
                 (case comm_request auth
                     \<lparr>rq_target = dg_target input, rq_replyEndpointId = replyEndpoint,
                      rq_replySessionHandle = replySession,
                      rq_requestedTtlMinutes = dg_requestedTtlMinutes input\<rparr> s of
                    (Failure c h, s) \<Rightarrow> (Some (Failure c h), s)
                  | (Ok comm, s) \<Rightarrow>
                     (let s = insert_delegation (au_principalId auth) input requestHash (co_id comm) s
                      in (Some (Ok (grantRequested input comm False)), s))))))"

end
