(* ===== verification/Evolution.thy ===== *)
theory Evolution
  imports Delegations
begin

text \<open>
  How the control plane's state may evolve, whatever operation runs: the relation
  \<open>cp_le\<close> says row by row what an operation may change. Log tables only grow,
  identities never change, a settled delivery and an ended communication session are
  final, and a grant's route and expiry are frozen when it is activated. Every
  operation of the services is proved to stay within it.
\<close>

named_theorems le_intros "peeling rules: an operation leads from a state to a later one"

section \<open>What may happen to a row\<close>

definition ended_comm :: "CommunicationStatus \<Rightarrow> bool" where
  "ended_comm st = (st \<in> {Comm_declined, Comm_revoked, Comm_expired})"

definition comm_edge :: "CommunicationStatus \<Rightarrow> CommunicationStatus \<Rightarrow> bool" where
  "comm_edge a b = (a = b \<or> a = Comm_pending \<or> (a = Comm_active \<and> b \<in> {Comm_revoked, Comm_expired}))"

definition comm_identity ::
    "CommRow \<Rightarrow> string \<times> string \<times> string option \<times> string \<times> string \<times> string \<times> TargetKind \<times> string option \<times> int \<times> time \<times> time" where
  "comm_identity r = (cs_comm_session_id r, cs_requester_principal_id r, cs_requester_device_id r,
     cs_requester_reply_endpoint_id r, cs_requester_reply_session_handle r, cs_recipient_principal_id r,
     cs_target_kind r, cs_target_offer_id r, cs_requested_ttl_minutes r, cs_requested_at r,
     cs_request_expires_at r)"

definition comm_grant :: "CommRow \<Rightarrow> string option \<times> string option \<times> time option \<times> time option" where
  "comm_grant r = (cs_frozen_endpoint_id r, cs_frozen_session_handle r, cs_activated_at r, cs_grant_expires_at r)"

definition comm_rel :: "CommRow \<Rightarrow> CommRow \<Rightarrow> bool" where
  "comm_rel r r' = (comm_identity r' = comm_identity r
     \<and> comm_edge (cs_status r) (cs_status r')
     \<and> (cs_status r \<noteq> Comm_pending \<longrightarrow> comm_grant r' = comm_grant r)
     \<and> (ended_comm (cs_status r) \<longrightarrow> r' = r))"

definition delivery_rank :: "DeliveryStatus \<Rightarrow> nat" where
  "delivery_rank st = (case st of Queued \<Rightarrow> 0 | Dispatched \<Rightarrow> 1 | Device_acked \<Rightarrow> 2 | Runtime_pending \<Rightarrow> 3 | _ \<Rightarrow> 4)"

definition delivery_rel :: "DeliveryRow \<Rightarrow> DeliveryRow \<Rightarrow> bool" where
  "delivery_rel d d' = (dl_message_id d' = dl_message_id d \<and> dl_endpoint_id d' = dl_endpoint_id d
     \<and> dl_queued_at d' = dl_queued_at d
     \<and> delivery_rank (dl_status d) \<le> delivery_rank (dl_status d')
     \<and> (\<not> open_delivery (dl_status d) \<longrightarrow> d' = d))"

definition endpoint_rel :: "EndpointRow \<Rightarrow> EndpointRow \<Rightarrow> bool" where
  "endpoint_rel r r' = (ep_principal_id r' = ep_principal_id r \<and> ep_device_id r' = ep_device_id r
     \<and> ep_runtime r' = ep_runtime r \<and> ep_created_at r' = ep_created_at r)"

definition session_rel :: "SessionRow \<Rightarrow> SessionRow \<Rightarrow> bool" where
  "session_rel r r' = (rs_endpoint_id r' = rs_endpoint_id r \<and> rs_principal_id r' = rs_principal_id r
     \<and> rs_label r' = rs_label r \<and> rs_delivery_mode r' = rs_delivery_mode r
     \<and> rs_capabilities r' = rs_capabilities r \<and> rs_created_at r' = rs_created_at r)"

definition offer_rel :: "OfferRow \<Rightarrow> OfferRow \<Rightarrow> bool" where
  "offer_rel r r' = ((of_revoked_at r = None \<and> r' = r\<lparr>of_revoked_at := of_revoked_at r'\<rparr>) \<or> r' = r)"

definition delegation_rel :: "DelegationRow \<Rightarrow> DelegationRow \<Rightarrow> bool" where
  "delegation_rel r r' = (ld_request_hash r' = ld_request_hash r \<and> ld_correlation_id r' = ld_correlation_id r
     \<and> ld_created_at r' = ld_created_at r
     \<and> (ld_status r = Del_delegated \<longrightarrow> ld_status r' = Del_delegated))"

interpretation comm_rows: row_evolution cs_comm_session_id comm_rel
proof
  fix r s t
  show "comm_rel r r" by (auto simp: comm_rel_def comm_edge_def)
  assume "comm_rel r s" "comm_rel s t"
  then show "comm_rel r t"
    by (auto simp: comm_rel_def comm_edge_def ended_comm_def)
qed

interpretation delivery_rows: row_evolution dl_delivery_id delivery_rel
  by unfold_locales (auto simp: delivery_rel_def)

interpretation endpoint_rows: row_evolution ep_endpoint_id endpoint_rel
  by unfold_locales (auto simp: endpoint_rel_def)

interpretation session_rows: row_evolution rs_session_handle session_rel
  by unfold_locales (auto simp: session_rel_def)

interpretation offer_rows: row_evolution of_offer_id offer_rel
proof
  fix r s t
  show "offer_rel r r" by (simp add: offer_rel_def)
  assume "offer_rel r s" "offer_rel s t"
  then show "offer_rel r t"
    by (cases r; cases s; cases t) (auto simp: offer_rel_def)
qed

interpretation delegation_rows: row_evolution delegation_key delegation_rel
  by unfold_locales (auto simp: delegation_rel_def)

section \<open>The state's evolution\<close>

definition cp_le :: "cp \<Rightarrow> cp \<Rightarrow> bool" where
  "cp_le s s' =
     (clk s' = clk s \<and> rnd s' = rnd s \<and> sha256 s' = sha256 s \<and> ticks s \<le> ticks s' \<and> draws s \<le> draws s'
      \<and> principals s' = principals s \<and> device_credentials s' = device_credentials s
      \<and> evolves ep_endpoint_id endpoint_rel (endpoints s) (endpoints s')
      \<and> evolves rs_session_handle session_rel (runtime_sessions s) (runtime_sessions s')
      \<and> evolves of_offer_id offer_rel (target_offers s) (target_offers s')
      \<and> evolves cs_comm_session_id comm_rel (comm_sessions s) (comm_sessions s')
      \<and> prefix (messages s) (messages s')
      \<and> evolves dl_delivery_id delivery_rel (deliveries s) (deliveries s')
      \<and> evolves delegation_key delegation_rel (local_agent_delegations s) (local_agent_delegations s')
      \<and> prefix (delivery_attempts s) (delivery_attempts s')
      \<and> prefix (events s) (events s') \<and> prefix (inbox_items s) (inbox_items s')
      \<and> prefix (audit_log s) (audit_log s') \<and> prefix (woken s) (woken s'))"

lemma cp_le_refl [simp, intro!]: "cp_le s s"
  by (simp add: cp_le_def endpoint_rows.refl session_rows.refl offer_rows.refl comm_rows.refl
      delivery_rows.refl delegation_rows.refl)

lemma cp_le_trans: "cp_le s t \<Longrightarrow> cp_le t u \<Longrightarrow> cp_le s u"
  unfolding cp_le_def
  by (intro conjI; (elim conjE)?)
     (auto intro: endpoint_rows.trans session_rows.trans offer_rows.trans comm_rows.trans
        delivery_rows.trans delegation_rows.trans prefix_order.trans)

text \<open>The primitive changes.\<close>

lemma cp_le_steps:
  "cp_le s (tick s)" "cp_le s (drawn s)" "cp_le s (wake eps s)"
  "cp_le s (messages_update (\<lambda>t. t @ u) s)"
  "cp_le s (events_update (\<lambda>t. t @ eu) s)"
  "cp_le s (inbox_items_update (\<lambda>t. t @ iu) s)"
  "cp_le s (audit_log_update (\<lambda>t. t @ au) s)"
  "cp_le s (endpoints_update (\<lambda>t. t @ epu) s)"
  "cp_le s (runtime_sessions_update (\<lambda>t. t @ su) s)"
  "cp_le s (target_offers_update (\<lambda>t. t @ ou) s)"
  "cp_le s (comm_sessions_update (\<lambda>t. t @ cu) s)"
  "cp_le s (deliveries_update (\<lambda>t. t @ du) s)"
  "cp_le s (local_agent_delegations_update (\<lambda>t. t @ lu) s)"
  "cp_le s (default_routes_update f s)"
  by (simp_all add: cp_le_def tick_def drawn_def wake_def endpoint_rows.refl session_rows.refl
      offer_rows.refl comm_rows.refl delivery_rows.refl delegation_rows.refl endpoint_rows.append
      session_rows.append offer_rows.append comm_rows.append delivery_rows.append delegation_rows.append)

lemma cp_le_attempts: "cp_le s (delivery_attempts_update (insert_or_ignore k r) s)"
  by (simp add: cp_le_def insert_or_ignore_def endpoint_rows.refl session_rows.refl
      offer_rows.refl comm_rows.refl delivery_rows.refl delegation_rows.refl)

lemma cp_le_row_updates:
  "(\<And>r. P1 r \<Longrightarrow> ep_endpoint_id (f1 r) = ep_endpoint_id r \<and> endpoint_rel r (f1 r)) \<Longrightarrow>
     cp_le s (endpoints_update (update_where P1 f1) s)"
  "(\<And>r. P2 r \<Longrightarrow> rs_session_handle (f2 r) = rs_session_handle r \<and> session_rel r (f2 r)) \<Longrightarrow>
     cp_le s (runtime_sessions_update (update_where P2 f2) s)"
  "(\<And>r. P3 r \<Longrightarrow> of_offer_id (f3 r) = of_offer_id r \<and> offer_rel r (f3 r)) \<Longrightarrow>
     cp_le s (target_offers_update (update_where P3 f3) s)"
  "(\<And>r. P4 r \<Longrightarrow> cs_comm_session_id (f4 r) = cs_comm_session_id r \<and> comm_rel r (f4 r)) \<Longrightarrow>
     cp_le s (comm_sessions_update (update_where P4 f4) s)"
  "(\<And>r. P5 r \<Longrightarrow> dl_delivery_id (f5 r) = dl_delivery_id r \<and> delivery_rel r (f5 r)) \<Longrightarrow>
     cp_le s (deliveries_update (update_where P5 f5) s)"
  by (simp_all add: cp_le_def endpoint_rows.refl session_rows.refl offer_rows.refl comm_rows.refl
      delivery_rows.refl delegation_rows.refl endpoint_rows.update session_rows.update
      offer_rows.update comm_rows.update delivery_rows.update)

lemmas cp_le_peel [le_intros] = cp_le_steps[THEN [2] cp_le_trans] cp_le_attempts[THEN [2] cp_le_trans]
lemmas cp_le_peel_rows = cp_le_row_updates[THEN [2] cp_le_trans]

lemma cp_le_delegations_upsert [le_intros]:
  assumes "cp_le s0 s" "\<And>d. delegation_key (f d) = delegation_key d \<and> delegation_rel d (f d)"
  shows "cp_le s0 (local_agent_delegations_update (upsert delegation_key f r) s)"
proof (rule cp_le_trans[OF assms(1)])
  show "cp_le s (local_agent_delegations_update (upsert delegation_key f r) s)"
    by (simp add: cp_le_def upsert_def endpoint_rows.refl session_rows.refl offer_rows.refl
        comm_rows.refl delivery_rows.refl delegation_rows.refl assms(2)
        delegation_rows.append delegation_rows.update)
qed

lemma cp_le_fold:
  assumes "cp_le s0 (g a)" "\<And>x a. cp_le (g a) (g (f x a))"
  shows "cp_le s0 (g (fold f xs a))"
  using assms(1) by (induction xs arbitrary: a) (simp_all add: cp_le_trans[OF _ assms(2)])

section \<open>Every operation\<close>

lemmas op_split = option.splits ServiceResult.splits if_splits

lemma le_append_event [le_intros]: "cp_le s0 s \<Longrightarrow> cp_le s0 (append_event ep ty d s)"
  by (simp add: append_event_def Let_def le_intros)

lemma le_audit [le_intros]: "cp_le s0 s \<Longrightarrow> cp_le s0 (audit a b c d e s)"
  by (simp add: audit_def Let_def le_intros)

lemma le_register_endpoint [le_intros]: "cp_le s0 s \<Longrightarrow> cp_le s0 (snd (register_endpoint auth i s))"
  by (auto simp: register_endpoint_def Let_def split_def endpoint_rel_def
      split: op_split intro!: le_intros cp_le_peel_rows)

lemma le_heartbeat [le_intros]: "cp_le s0 s \<Longrightarrow> cp_le s0 (snd (heartbeat auth e s))"
  by (auto simp: heartbeat_def Let_def split_def endpoint_rel_def
      split: op_split intro!: le_intros cp_le_peel_rows)

lemma le_listForPrincipal [le_intros]: "cp_le s0 s \<Longrightarrow> cp_le s0 (snd (listForPrincipal p s))"
  by (auto simp: listForPrincipal_def Let_def split_def endpoint_rel_def
      split: op_split intro!: le_intros cp_le_peel_rows)

lemma le_registerSession [le_intros]: "cp_le s0 s \<Longrightarrow> cp_le s0 (snd (registerSession auth e i s))"
  by (auto simp: registerSession_def Let_def split_def
      split: op_split intro!: le_intros cp_le_peel_rows)

lemma le_updateSession [le_intros]: "cp_le s0 s \<Longrightarrow> cp_le s0 (snd (updateSession auth e h i s))"
  by (auto simp: updateSession_def Let_def split_def session_rel_def
      split: op_split intro!: le_intros cp_le_peel_rows)

lemma le_closeSession [le_intros]: "cp_le s0 s \<Longrightarrow> cp_le s0 (snd (closeSession auth e h s))"
  by (auto simp: closeSession_def Let_def split_def split: op_split intro!: le_intros)

lemma le_setDefaultRoute [le_intros]: "cp_le s0 s \<Longrightarrow> cp_le s0 (snd (setDefaultRoute auth e h s))"
  by (auto simp: setDefaultRoute_def Let_def split_def split: op_split intro!: le_intros)

lemma le_clearDefaultRoute [le_intros]: "cp_le s0 s \<Longrightarrow> cp_le s0 (snd (clearDefaultRoute auth s))"
  by (auto simp: clearDefaultRoute_def Let_def split_def split: op_split intro!: le_intros)

lemma le_create_offer [le_intros]: "cp_le s0 s \<Longrightarrow> cp_le s0 (snd (create_offer auth e h a t s))"
  by (auto simp: create_offer_def Let_def split_def split: op_split intro!: le_intros)

lemma le_revoke_offer [le_intros]: "cp_le s0 s \<Longrightarrow> cp_le s0 (snd (revoke_offer auth oid s))"
  by (auto simp: revoke_offer_def Let_def split_def offer_rel_def
      split: op_split intro!: le_intros cp_le_peel_rows)

lemma le_resolve_offer [le_intros]: "cp_le s0 s \<Longrightarrow> cp_le s0 (snd (resolve_offer oid ow au s))"
  by (auto simp: resolve_offer_def Let_def split_def split: op_split intro!: le_intros)

lemma le_listReachable [le_intros]: "cp_le s0 s \<Longrightarrow> cp_le s0 (snd (listReachable v p s))"
  by (auto simp: listReachable_def Let_def split_def split: op_split intro!: le_intros)

lemma le_end_deliveries [le_intros]:
  "cp_le s0 s \<Longrightarrow> \<not> open_delivery st \<Longrightarrow> cp_le s0 (end_deliveries sid st code now s)"
  unfolding end_deliveries_def
  by (rule cp_le_peel_rows)
     (auto simp: delivery_rel_def open_delivery_def delivery_rank_def split: DeliveryStatus.splits)

lemma le_notify_all [le_intros]: "cp_le s0 s \<Longrightarrow> cp_le s0 (snd (notify_all ty d ps s))"
  unfolding notify_all_def
  by (rule cp_le_fold[where g = snd])
     (auto simp: notify_principal_def split_def Let_def intro!: le_intros cp_le_fold[where g = "\<lambda>s. s"])

lemma comm_expire_rel:
  "cs_status r \<in> {Comm_pending, Comm_active} \<Longrightarrow>
     cs_comm_session_id (r\<lparr>cs_status := Comm_expired\<rparr>) = cs_comm_session_id r
     \<and> comm_rel r (r\<lparr>cs_status := Comm_expired\<rparr>)"
  by (auto simp: comm_rel_def comm_identity_def comm_grant_def comm_edge_def ended_comm_def)

lemma le_expireIfNeeded [le_intros]: "cp_le s0 s \<Longrightarrow> cp_le s0 (expireIfNeeded sid s)"
  by (auto simp: expireIfNeeded_def Let_def split_def comm_expire_rel comm_lapsed_def open_delivery_def
      split: op_split intro!: le_intros cp_le_peel_rows)

lemma le_expireActiveGrantsForRoute [le_intros]:
  "cp_le s0 s \<Longrightarrow> cp_le s0 (expireActiveGrantsForRoute p e h s)"
  by (auto simp: expireActiveGrantsForRoute_def expire_route_row_def Let_def split_def comm_expire_rel
      open_delivery_def split: op_split intro!: le_intros cp_le_peel_rows cp_le_fold[where g = snd])

lemma le_getVisible [le_intros]: "cp_le s0 s \<Longrightarrow> cp_le s0 (snd (getVisible p sid s))"
  by (auto simp: getVisible_def Let_def split_def split: op_split intro!: le_intros)

lemma le_list_comms [le_intros]: "cp_le s0 s \<Longrightarrow> cp_le s0 (snd (list_comms p s))"
  by (auto simp: list_comms_def Let_def split_def intro!: le_intros cp_le_fold[where g = snd])

lemma le_requireActive [le_intros]: "cp_le s0 s \<Longrightarrow> cp_le s0 (snd (requireActive p sid s))"
  by (auto simp: requireActive_def Let_def split_def split: op_split intro!: le_intros)

lemma le_comm_request [le_intros]: "cp_le s0 s \<Longrightarrow> cp_le s0 (snd (comm_request auth i s))"
  by (auto simp: comm_request_def request_offer_check_def Let_def split_def split: op_split intro!: le_intros)

lemma le_activate [le_intros]: "cp_le s0 s \<Longrightarrow> cp_le s0 (snd (activate auth c sid e h s))"
  by (auto simp: activate_def Let_def split_def comm_rel_def comm_identity_def comm_edge_def ended_comm_def
      split: op_split intro!: le_intros cp_le_peel_rows)

lemma le_accept_route [le_intros]: "cp_le s0 s \<Longrightarrow> cp_le s0 (snd (accept_route auth c s))"
  by (auto simp: accept_route_def split: op_split TargetKind.splits intro!: le_intros)

lemma le_accept [le_intros]: "cp_le s0 s \<Longrightarrow> cp_le s0 (snd (accept auth sid s))"
  by (auto simp: accept_def Let_def split_def split: op_split intro!: le_intros)

lemma le_decline [le_intros]: "cp_le s0 s \<Longrightarrow> cp_le s0 (snd (decline auth sid s))"
  by (auto simp: decline_def Let_def split_def comm_rel_def comm_identity_def comm_edge_def ended_comm_def
      split: op_split intro!: le_intros cp_le_peel_rows)

lemma le_revoke [le_intros]: "cp_le s0 s \<Longrightarrow> cp_le s0 (snd (revoke auth sid s))"
  by (auto simp: revoke_def Let_def split_def comm_rel_def comm_identity_def comm_grant_def comm_edge_def
      ended_comm_def open_delivery_def split: op_split intro!: le_intros cp_le_peel_rows)

lemma le_sendInbox [le_intros]: "cp_le s0 s \<Longrightarrow> cp_le s0 (snd (sendInbox auth i k r h s))"
  by (auto simp: sendInbox_def Let_def split_def split: op_split intro!: le_intros)

lemma le_queue_message [le_intros]: "cp_le s0 s \<Longrightarrow> cp_le s0 (snd (queue_message auth i c t ep sh h s))"
  by (auto simp: queue_message_def Let_def split_def split: op_split intro!: le_intros)

lemma le_sendGrantScoped [le_intros]: "cp_le s0 s \<Longrightarrow> cp_le s0 (snd (sendGrantScoped auth i sid h s))"
  by (auto simp: sendGrantScoped_def Let_def split_def split: op_split intro!: le_intros)

lemma le_send [le_intros]: "cp_le s0 s \<Longrightarrow> cp_le s0 (snd (send auth i s))"
  by (auto simp: send_def Let_def split: op_split SendScope.splits intro!: le_intros)

lemma ack_update_rel:
  "dl_delivery_id (ack_update i v now d) = dl_delivery_id d \<and> delivery_rel d (ack_update i v now d)"
  by (auto simp: ack_update_def delivery_rel_def delivery_rank_def open_delivery_def split: AckPhase.splits)

lemma le_acknowledge [le_intros]: "cp_le s0 s \<Longrightarrow> cp_le s0 (snd (acknowledge auth m i s))"
  by (auto simp: acknowledge_def Let_def split_def ack_update_rel split: op_split intro!: le_intros cp_le_peel_rows)

lemma le_validateInjection [le_intros]: "cp_le s0 s \<Longrightarrow> cp_le s0 (snd (validateInjection auth i s))"
  by (auto simp: validateInjection_def validate_message_def Let_def split_def split: op_split intro!: le_intros)

lemma le_markDispatched [le_intros]: "cp_le s0 s \<Longrightarrow> cp_le s0 (snd (markDispatched m s))"
  by (auto simp: markDispatched_def Let_def split_def delivery_rel_def delivery_rank_def open_delivery_def
      split: op_split intro!: le_intros cp_le_peel_rows)

lemma le_upsertDelegated [le_intros]: "cp_le s0 s \<Longrightarrow> cp_le s0 (upsertDelegated r i h sid m s)"
  unfolding upsertDelegated_def Let_def
  by (rule cp_le_delegations_upsert) (auto simp: delegation_key_def delegation_rel_def intro!: le_intros)

lemma le_sendInvite [le_intros]: "cp_le s0 s \<Longrightarrow> cp_le s0 (snd (sendInvite auth i c h d s))"
  by (auto simp: sendInvite_def Let_def split_def split: op_split intro!: le_intros)

lemma le_resumeExisting [le_intros]: "cp_le s0 s \<Longrightarrow> cp_le s0 (snd (resumeExisting auth i e s))"
  by (auto simp: resumeExisting_def Let_def split_def split: op_split intro!: le_intros)

lemma le_insert_delegation [le_intros]: "cp_le s0 s \<Longrightarrow> cp_le s0 (insert_delegation r i h sid s)"
  by (auto simp: insert_delegation_def Let_def intro!: le_intros)

lemma le_findActiveGrant [le_intros]: "cp_le s0 s \<Longrightarrow> cp_le s0 (snd (findActiveGrant p i s))"
  by (auto simp: findActiveGrant_def Let_def split_def intro!: le_intros)

lemma le_delegate [le_intros]: "cp_le s0 s \<Longrightarrow> cp_le s0 (snd (delegate auth i s))"
  by (auto simp: delegate_def Let_def split_def split: op_split intro!: le_intros)

end
