(* ===== verification/Schema.thy ===== *)
theory Schema
  imports Evolution
begin

text \<open>
  The integrity of the database: the PRIMARY KEY, UNIQUE and REFERENCES constraints of
  \<^verbatim>\<open>db.ts\<close>, and what the services add to them (the shape of a grant in each
  status, one sequence per message of a session, event logs without gaps, no open
  delivery once its session has ended, one live grant per route). Every operation keeps
  it, so no INSERT of the services fails and no read-back finds a missing row, provided
  that random identifiers do not collide.
\<close>

named_theorems ok_intros "operations keep the integrity of the database"

section \<open>Keys\<close>

definition generated :: "string \<Rightarrow> (nat \<Rightarrow> string) \<Rightarrow> nat \<Rightarrow> string list \<Rightarrow> bool" where
  "generated pre rn n ids = (distinct ids \<and> (\<forall>x \<in> set ids. \<exists>k<n. x = pre @ ''_'' @ rn k))"

lemma generated_mono: "generated pre rn n ids \<Longrightarrow> n \<le> m \<Longrightarrow> generated pre rn m ids"
  unfolding generated_def by (meson order_less_le_trans)

lemma generated_snoc:
  assumes "generated pre rn n ids" "inj rn" "n \<le> k" "k < m"
  shows "generated pre rn m (ids @ [pre @ ''_'' @ rn k])"
proof -
  from assms have "pre @ ''_'' @ rn k \<notin> set ids"
    by (fastforce simp: generated_def dest: injD)
  moreover from generated_mono[OF assms(1), of m] assms have "generated pre rn m ids" by simp
  ultimately show ?thesis using assms(4) by (auto simp: generated_def)
qed

definition endpoint_key :: "EndpointRow \<Rightarrow> string \<times> string \<times> string \<times> RuntimeKind" where
  "endpoint_key r = (ep_endpoint_id r, ep_principal_id r, ep_device_id r, ep_runtime r)"

definition session_key :: "SessionRow \<Rightarrow> string \<times> string \<times> string" where
  "session_key r = (rs_session_handle r, rs_endpoint_id r, rs_principal_id r)"

definition offer_key :: "OfferRow \<Rightarrow> string \<times> string \<times> string \<times> string \<times> string" where
  "offer_key r = (of_offer_id r, of_owner_principal_id r, of_audience_principal_id r, of_endpoint_id r,
     of_session_handle r)"

definition delivery_key :: "DeliveryRow \<Rightarrow> string \<times> string \<times> string option" where
  "delivery_key d = (dl_delivery_id d, dl_message_id d, dl_endpoint_id d)"

section \<open>Tables\<close>

definition seeds_ok :: "PrincipalRow list \<Rightarrow> CredentialRow list \<Rightarrow> bool" where
  "seeds_ok P K = (distinct (map pr_principal_id P) \<and> distinct (map dc_token K)
     \<and> distinct (map (\<lambda>c. (dc_principal_id c, dc_device_id c)) K)
     \<and> (\<forall>c \<in> set K. dc_principal_id c \<in> pr_principal_id ` set P))"

definition endpoints_ok ::
    "string set \<Rightarrow> (nat \<Rightarrow> string) \<Rightarrow> nat \<Rightarrow> (string \<times> string \<times> string \<times> RuntimeKind) list \<Rightarrow> bool" where
  "endpoints_ok P rn n E = (generated ''ep'' rn n (map fst E) \<and> distinct (map snd E)
     \<and> (\<forall>(i, p, d, r) \<in> set E. p \<in> P))"

definition sessions_ok ::
    "(nat \<Rightarrow> string) \<Rightarrow> nat \<Rightarrow> (string \<times> string \<times> string \<times> RuntimeKind) set \<Rightarrow> (string \<times> string \<times> string) list \<Rightarrow> bool" where
  "sessions_ok rn n E S = (generated ''rs'' rn n (map fst S)
     \<and> (\<forall>(h, e, p) \<in> set S. \<exists>d r. (e, p, d, r) \<in> E))"

definition routes_ok :: "(string \<times> string \<times> string) set \<Rightarrow> RouteRow list \<Rightarrow> bool" where
  "routes_ok S R = (distinct (map dr_principal_id R)
     \<and> (\<forall>r \<in> set R. (dr_session_handle r, dr_endpoint_id r, dr_principal_id r) \<in> S))"

definition offers_ok ::
    "string set \<Rightarrow> (nat \<Rightarrow> string) \<Rightarrow> nat \<Rightarrow> (string \<times> string \<times> string) set
      \<Rightarrow> (string \<times> string \<times> string \<times> string \<times> string) list \<Rightarrow> bool" where
  "offers_ok P rn n S Os = (generated ''offer'' rn n (map fst Os)
     \<and> (\<forall>(i, ow, au, e, h) \<in> set Os. (h, e, ow) \<in> S \<and> au \<in> P))"

definition ungranted :: "CommRow \<Rightarrow> bool" where
  "ungranted r = (comm_grant r = (None, None, None, None))"

definition granted :: "(string \<times> string \<times> string) set \<Rightarrow> CommRow \<Rightarrow> bool" where
  "granted S r = (\<exists>e h a. (h, e, cs_recipient_principal_id r) \<in> S
     \<and> comm_grant r = (Some e, Some h, Some a, Some (addMinutes a (cs_requested_ttl_minutes r))))"

definition comm_row_ok :: "string set \<Rightarrow> (string \<times> string \<times> string) set \<Rightarrow> CommRow \<Rightarrow> bool" where
  "comm_row_ok P S r =
     (cs_requester_principal_id r \<in> P \<and> cs_recipient_principal_id r \<in> P
      \<and> (cs_requester_reply_session_handle r, cs_requester_reply_endpoint_id r, cs_requester_principal_id r) \<in> S
      \<and> cs_requested_ttl_minutes r \<le> 30
      \<and> cs_request_expires_at r = addMinutes (cs_requested_at r) 10
      \<and> (case cs_status r of
           Comm_pending \<Rightarrow> ungranted r \<and> cs_revoked_at r = None
         | Comm_declined \<Rightarrow> ungranted r \<and> cs_revoked_at r = None
         | Comm_active \<Rightarrow> granted S r \<and> cs_revoked_at r = None
         | Comm_revoked \<Rightarrow> granted S r \<and> cs_revoked_at r \<noteq> None
         | Comm_expired \<Rightarrow> (ungranted r \<or> granted S r) \<and> cs_revoked_at r = None))"

definition comms_ok ::
    "string set \<Rightarrow> (nat \<Rightarrow> string) \<Rightarrow> nat \<Rightarrow> (string \<times> string \<times> string) set \<Rightarrow> CommRow list \<Rightarrow> bool" where
  "comms_ok P rn n S C = (generated ''comm'' rn n (map cs_comm_session_id C) \<and> (\<forall>r \<in> set C. comm_row_ok P S r))"

text \<open>A message of a session goes from one participant to the other, over the route the grant froze.\<close>

definition carried_by :: "CommRow \<Rightarrow> MessageRow \<Rightarrow> bool" where
  "carried_by r m =
     (cs_grant_expires_at r = Some (ms_expires_at m)
      \<and> ((ms_sender_principal_id m = cs_requester_principal_id r
          \<and> ms_target_principal_id m = cs_recipient_principal_id r
          \<and> ms_target_endpoint_id m = cs_frozen_endpoint_id r
          \<and> ms_target_session_handle m = cs_frozen_session_handle r)
         \<or> (ms_sender_principal_id m = cs_recipient_principal_id r
          \<and> ms_target_principal_id m = cs_requester_principal_id r
          \<and> ms_target_endpoint_id m = Some (cs_requester_reply_endpoint_id r)
          \<and> ms_target_session_handle m = Some (cs_requester_reply_session_handle r))))"

definition message_row_ok :: "string set \<Rightarrow> CommRow set \<Rightarrow> MessageRow \<Rightarrow> bool" where
  "message_row_ok P C m =
     (ms_sender_principal_id m \<in> P \<and> ms_target_principal_id m \<in> P
      \<and> (case ms_comm_session_id m of
           None \<Rightarrow> ms_target_kind m = Human_inbox \<and> ms_target_endpoint_id m = None
         | Some sid \<Rightarrow> \<exists>r \<in> C. cs_comm_session_id r = sid \<and> carried_by r m))"

definition session_sequence :: "MessageRow list \<Rightarrow> (string option \<times> nat) list" where
  "session_sequence M =
     map (\<lambda>m. (ms_comm_session_id m, ms_sequence m)) (filter (\<lambda>m. ms_comm_session_id m \<noteq> None) M)"

definition messages_ok :: "string set \<Rightarrow> (nat \<Rightarrow> string) \<Rightarrow> nat \<Rightarrow> CommRow set \<Rightarrow> MessageRow list \<Rightarrow> bool" where
  "messages_ok P rn n C M = (generated ''msg'' rn n (map ms_message_id M)
     \<and> distinct (map (\<lambda>m. (ms_sender_principal_id m, ms_client_message_id m)) M)
     \<and> distinct (session_sequence M)
     \<and> (\<forall>m \<in> set M. message_row_ok P C m))"

definition deliveries_ok ::
    "(nat \<Rightarrow> string) \<Rightarrow> nat \<Rightarrow> MessageRow list \<Rightarrow> (string \<times> string \<times> string option) list \<Rightarrow> bool" where
  "deliveries_ok rn n M D = (generated ''del'' rn n (map fst D)
     \<and> map snd D = map (\<lambda>m. (ms_message_id m, ms_target_endpoint_id m)) M)"

text \<open>The end of a session has closed all its deliveries.\<close>

definition halted :: "CommRow set \<Rightarrow> MessageRow set \<Rightarrow> DeliveryRow set \<Rightarrow> bool" where
  "halted C M D = (\<forall>r \<in> C. \<forall>m \<in> M. \<forall>d \<in> D. ended_comm (cs_status r) \<longrightarrow>
     ms_comm_session_id m = Some (cs_comm_session_id r) \<longrightarrow> dl_message_id d = ms_message_id m \<longrightarrow>
     \<not> open_delivery (dl_status d))"

text \<open>Of two active grants on one route, one had run out at some reading of the clock.\<close>

definition same_route :: "CommRow \<Rightarrow> CommRow \<Rightarrow> bool" where
  "same_route r q = (cs_recipient_principal_id r = cs_recipient_principal_id q
     \<and> cs_frozen_endpoint_id r = cs_frozen_endpoint_id q
     \<and> cs_frozen_session_handle r = cs_frozen_session_handle q)"

definition exclusive :: "(nat \<Rightarrow> time) \<Rightarrow> nat \<Rightarrow> CommRow set \<Rightarrow> bool" where
  "exclusive ck n C = (\<forall>r \<in> C. \<forall>q \<in> C. cs_status r = Comm_active \<longrightarrow> cs_status q = Comm_active \<longrightarrow>
     same_route r q \<longrightarrow> cs_comm_session_id r \<noteq> cs_comm_session_id q \<longrightarrow>
     (\<exists>k<n. grant_over r (ck k) \<or> grant_over q (ck k)))"

definition delegations_ok ::
    "string set \<Rightarrow> string set \<Rightarrow> MessageRow set \<Rightarrow> DelegationRow list \<Rightarrow> bool" where
  "delegations_ok P C M L = (distinct (map delegation_key L)
     \<and> (\<forall>l \<in> set L. ld_requester_principal_id l \<in> P
        \<and> (\<exists>sid \<in> C. ld_comm_session_id l = Some sid)
        \<and> (case ld_message_id l of
             None \<Rightarrow> ld_status l = Del_grant_requested
           | Some mid \<Rightarrow> ld_status l = Del_delegated
               \<and> (\<exists>m \<in> M. ms_message_id m = mid \<and> ms_sender_principal_id m = ld_requester_principal_id l
                    \<and> ms_client_message_id m = ld_client_message_id l))))"

definition attempts_ok :: "string set \<Rightarrow> AttemptRow list \<Rightarrow> bool" where
  "attempts_ok D A = (distinct (map da_attempt_id A) \<and> (\<forall>a \<in> set A. da_delivery_id a \<in> D))"

definition seqs_of :: "string \<Rightarrow> EventRow list \<Rightarrow> nat list" where
  "seqs_of ep V = map ev_seq (filter (\<lambda>v. ev_endpoint_id v = ep) V)"

definition events_ok :: "string set \<Rightarrow> EventRow list \<Rightarrow> bool" where
  "events_ok E V = ((\<forall>v \<in> set V. ev_endpoint_id v \<in> E)
     \<and> (\<forall>ep. seqs_of ep V = [1..<Suc (length (seqs_of ep V))]))"

definition inbox_ok :: "string set \<Rightarrow> (nat \<Rightarrow> string) \<Rightarrow> nat \<Rightarrow> string set \<Rightarrow> InboxRow list \<Rightarrow> bool" where
  "inbox_ok P rn n M I = (generated ''inbox'' rn n (map ib_inbox_item_id I) \<and> distinct (map ib_message_id I)
     \<and> (\<forall>i \<in> set I. ib_principal_id i \<in> P \<and> ib_message_id i \<in> M))"

definition audit_ok :: "AuditRow list \<Rightarrow> bool" where
  "audit_ok A = (map ad_id A = [1..<Suc (length A)])"

section \<open>The invariant\<close>

definition principal_ids :: "cp \<Rightarrow> string set" where
  "principal_ids s = pr_principal_id ` set (principals s)"

definition endpoint_ids :: "cp \<Rightarrow> string set" where
  "endpoint_ids s = ep_endpoint_id ` set (endpoints s)"

definition session_keys :: "cp \<Rightarrow> (string \<times> string \<times> string) set" where
  "session_keys s = session_key ` set (runtime_sessions s)"

definition comm_ids :: "cp \<Rightarrow> string set" where
  "comm_ids s = cs_comm_session_id ` set (comm_sessions s)"

definition db_ok :: "cp \<Rightarrow> bool" where
  "db_ok s = (inj (rnd s) \<and> seeds_ok (principals s) (device_credentials s)
     \<and> endpoints_ok (principal_ids s) (rnd s) (draws s) (map endpoint_key (endpoints s))
     \<and> sessions_ok (rnd s) (draws s) (endpoint_key ` set (endpoints s)) (map session_key (runtime_sessions s))
     \<and> routes_ok (session_keys s) (default_routes s)
     \<and> offers_ok (principal_ids s) (rnd s) (draws s) (session_keys s) (map offer_key (target_offers s))
     \<and> comms_ok (principal_ids s) (rnd s) (draws s) (session_keys s) (comm_sessions s)
     \<and> messages_ok (principal_ids s) (rnd s) (draws s) (set (comm_sessions s)) (messages s)
     \<and> deliveries_ok (rnd s) (draws s) (messages s) (map delivery_key (deliveries s))
     \<and> halted (set (comm_sessions s)) (set (messages s)) (set (deliveries s))
     \<and> exclusive (clk s) (ticks s) (set (comm_sessions s))
     \<and> delegations_ok (principal_ids s) (comm_ids s) (set (messages s)) (local_agent_delegations s)
     \<and> attempts_ok (dl_delivery_id ` set (deliveries s)) (delivery_attempts s)
     \<and> events_ok (endpoint_ids s) (events s)
     \<and> inbox_ok (principal_ids s) (rnd s) (draws s) (ms_message_id ` set (messages s)) (inbox_items s)
     \<and> audit_ok (audit_log s))"

lemmas table_ids = principal_ids_def endpoint_ids_def session_keys_def comm_ids_def

lemma table_ids_mono:
  "endpoints_ok P rn n E \<Longrightarrow> n \<le> m \<Longrightarrow> endpoints_ok P rn m E"
  "sessions_ok rn n Es S \<Longrightarrow> n \<le> m \<Longrightarrow> sessions_ok rn m Es S"
  "offers_ok P rn n Ss Os \<Longrightarrow> n \<le> m \<Longrightarrow> offers_ok P rn m Ss Os"
  "comms_ok P rn n Ss C \<Longrightarrow> n \<le> m \<Longrightarrow> comms_ok P rn m Ss C"
  "messages_ok P rn n Cs M \<Longrightarrow> n \<le> m \<Longrightarrow> messages_ok P rn m Cs M"
  "deliveries_ok rn n M D \<Longrightarrow> n \<le> m \<Longrightarrow> deliveries_ok rn m M D"
  "inbox_ok P rn n Ms I \<Longrightarrow> n \<le> m \<Longrightarrow> inbox_ok P rn m Ms I"
  by (auto simp: endpoints_ok_def sessions_ok_def offers_ok_def comms_ok_def messages_ok_def
      deliveries_ok_def inbox_ok_def intro: generated_mono)

lemma exclusive_mono: "exclusive ck n C \<Longrightarrow> n \<le> m \<Longrightarrow> exclusive ck m C"
  unfolding exclusive_def by (meson order_less_le_trans)

lemma granted_mono: "granted S r \<Longrightarrow> S \<subseteq> S' \<Longrightarrow> granted S' r"
  by (fastforce simp: granted_def)

lemma comm_row_ok_mono: "comm_row_ok P S r \<Longrightarrow> S \<subseteq> S' \<Longrightarrow> comm_row_ok P S' r"
  by (auto simp: comm_row_ok_def dest: granted_mono split: CommunicationStatus.splits)

text \<open>Reading the clock, drawing an identifier, waking listeners, auditing.\<close>

lemma ok_tick [ok_intros]: "db_ok s \<Longrightarrow> db_ok (tick s)"
  by (simp add: db_ok_def tick_def table_ids exclusive_mono[OF _ le_SucI[OF order.refl]])

lemma ok_drawn [ok_intros]: "db_ok s \<Longrightarrow> db_ok (drawn s)"
  by (simp add: db_ok_def drawn_def table_ids table_ids_mono[OF _ le_SucI[OF order.refl]])

lemma ok_wake [ok_intros]: "db_ok s \<Longrightarrow> db_ok (wake eps s)"
  by (simp add: db_ok_def wake_def table_ids)

section \<open>Rows written\<close>

text \<open>Rows appended or rewritten, table by table.\<close>

lemma foldr_max_upt: "foldr max [Suc 0..<Suc n] m = max n m"
  by (induction n arbitrary: m) (auto simp: max_def)

lemma next_audit_id_ok: "audit_ok A \<Longrightarrow> next_audit_id A = Suc (length A)"
  unfolding next_audit_id_def audit_ok_def by (simp add: foldr_max_upt del: upt_Suc)

lemma max_seq_ok: "events_ok E V \<Longrightarrow> max_seq ep V = length (seqs_of ep V)"
proof -
  assume "events_ok E V"
  then have s: "seqs_of ep V = [1..<Suc (length (seqs_of ep V))]" by (simp only: events_ok_def)
  have "max_seq ep V = foldr max (seqs_of ep V) 0" by (simp add: max_seq_def seqs_of_def)
  also have "\<dots> = foldr max [1..<Suc (length (seqs_of ep V))] 0" by (subst s) (rule refl)
  also have "\<dots> = length (seqs_of ep V)" by (simp add: foldr_max_upt del: upt_Suc)
  finally show ?thesis .
qed

lemma seqs_of_snoc:
  "seqs_of ep (V @ [v]) = seqs_of ep V @ (if ev_endpoint_id v = ep then [ev_seq v] else [])"
  by (simp add: seqs_of_def)

lemma events_ok_snoc:
  assumes "events_ok E V" "ev_endpoint_id v \<in> E" "ev_seq v = max_seq (ev_endpoint_id v) V + 1"
  shows "events_ok E (V @ [v])"
proof -
  from assms(1) have s: "seqs_of ep V = [1..<Suc (length (seqs_of ep V))]" for ep
    by (simp only: events_ok_def)
  have "seqs_of ep (V @ [v]) = [1..<Suc (length (seqs_of ep (V @ [v])))]" for ep
    using s[of ep] assms(3) max_seq_ok[OF assms(1)]
    by (cases "ev_endpoint_id v = ep") (simp_all only: seqs_of_snoc if_True if_False length_append
        append_Nil2 list.size add_0 add_Suc_right add_0_right upt_Suc_append[of 1] One_nat_def, simp_all)
  with assms(1,2) show ?thesis by (simp add: events_ok_def)
qed

lemma ok_audit [ok_intros]: "db_ok s \<Longrightarrow> db_ok (audit a b c d e s)"
  by (drule ok_tick)
     (simp add: db_ok_def audit_def Let_def table_ids next_audit_id_ok audit_ok_def)

lemma ok_append_event [ok_intros]:
  assumes "db_ok s" "ep \<in> endpoint_ids s" shows "db_ok (append_event ep ty d s)"
proof -
  from ok_tick[OF assms(1)] have ok: "db_ok (tick s)" .
  then have "events_ok (endpoint_ids s) (events s)" by (simp add: db_ok_def tick_def table_ids)
  then have "events_ok (endpoint_ids s) (events s @ [\<lparr>ev_endpoint_id = ep, ev_seq = max_seq ep (events s) + 1,
      ev_event_type = ty, ev_data = d, ev_created_at = nowIso s\<rparr>])"
    by (rule events_ok_snoc) (simp_all add: assms(2))
  with ok show ?thesis by (simp add: db_ok_def append_event_def Let_def table_ids tick_def)
qed

lemma endpoint_ids_eq: "endpoint_ids s = fst ` endpoint_key ` set (endpoints s)"
  by (auto simp: endpoint_ids_def endpoint_key_def image_image)

lemma ok_endpoints_update:
  assumes "db_ok s" "\<And>r. P r \<Longrightarrow> endpoint_key (f r) = endpoint_key r"
  shows "db_ok (endpoints_update (update_where P f) s)"
proof -
  have m: "map endpoint_key (update_where P f t) = map endpoint_key t" for t
    by (rule map_update_where) (rule assms(2))
  have "endpoint_key ` set (update_where P f (endpoints s)) = endpoint_key ` set (endpoints s)"
    by (rule image_update_where) (rule assms(2))
  with assms show ?thesis
    by (simp add: db_ok_def endpoint_ids_eq table_ids(1) table_ids(3,4) m)
qed

lemma sessions_ok_E: "sessions_ok rn n E S \<Longrightarrow> E \<subseteq> E' \<Longrightarrow> sessions_ok rn n E' S"
  by (fastforce simp: sessions_ok_def)

lemma events_ok_E: "events_ok E V \<Longrightarrow> E \<subseteq> E' \<Longrightarrow> events_ok E' V"
  by (auto simp: events_ok_def)

lemma ok_endpoint_insert:
  assumes "db_ok s" "generated ''ep'' (rnd s) (draws s) (map ep_endpoint_id (endpoints s) @ [ep_endpoint_id r])"
    "ep_principal_id r \<in> principal_ids s"
    "\<forall>e \<in> set (endpoints s). \<not> (ep_principal_id e = ep_principal_id r \<and> ep_device_id e = ep_device_id r
        \<and> ep_runtime e = ep_runtime r)"
  shows "db_ok (endpoints_update (\<lambda>t. t @ [r]) s)"
proof -
  from assms(1) have 1: "sessions_ok (rnd s) (draws s) (endpoint_key ` set (endpoints s @ [r]))
      (map session_key (runtime_sessions s))"
    by (auto simp: db_ok_def elim!: sessions_ok_E)
  from assms(1) have 2: "events_ok (endpoint_ids (endpoints_update (\<lambda>t. t @ [r]) s)) (events s)"
    by (auto simp: db_ok_def endpoint_ids_def elim!: events_ok_E)
  have k: "map fst (map endpoint_key t) = map ep_endpoint_id t" for t
    by (simp add: endpoint_key_def)
  from assms have "endpoints_ok (principal_ids s) (rnd s) (draws s) (map endpoint_key (endpoints s @ [r]))"
    unfolding db_ok_def endpoints_ok_def k by (auto simp: endpoint_key_def)
  with assms(1) 1 2 show ?thesis by (simp add: db_ok_def table_ids)
qed

lemma session_key_mono:
  assumes "db_ok s"
  shows "routes_ok (insert k (session_keys s)) (default_routes s)"
    "offers_ok (principal_ids s) (rnd s) (draws s) (insert k (session_keys s)) (map offer_key (target_offers s))"
    "comms_ok (principal_ids s) (rnd s) (draws s) (insert k (session_keys s)) (comm_sessions s)"
  using assms by (fastforce simp: db_ok_def routes_ok_def offers_ok_def comms_ok_def intro: comm_row_ok_mono)+

lemma ok_session_insert:
  assumes "db_ok s" "generated ''rs'' (rnd s) (draws s) (map rs_session_handle (runtime_sessions s) @ [rs_session_handle r])"
    "\<exists>e \<in> set (endpoints s). ep_endpoint_id e = rs_endpoint_id r \<and> ep_principal_id e = rs_principal_id r"
  shows "db_ok (runtime_sessions_update (\<lambda>t. t @ [r]) s)"
proof -
  have k: "map fst (map session_key t) = map rs_session_handle t" for t
    by (simp add: session_key_def)
  from assms have "sessions_ok (rnd s) (draws s) (endpoint_key ` set (endpoints s)) (map session_key (runtime_sessions s @ [r]))"
    unfolding db_ok_def sessions_ok_def k
    by (auto simp: session_key_def endpoint_key_def image_iff) metis
  with assms(1) session_key_mono[OF assms(1), of "session_key r"] show ?thesis
    by (simp add: db_ok_def table_ids)
qed

lemma ok_sessions_update:
  assumes "db_ok s" "\<And>r. P r \<Longrightarrow> session_key (f r) = session_key r"
  shows "db_ok (runtime_sessions_update (update_where P f) s)"
proof -
  have m: "map session_key (update_where P f t) = map session_key t" for t
    by (rule map_update_where) (rule assms(2))
  have "session_key ` set (update_where P f (runtime_sessions s)) = session_key ` set (runtime_sessions s)"
    by (rule image_update_where) (rule assms(2))
  with assms show ?thesis by (simp add: db_ok_def table_ids m)
qed

lemma ok_routes:
  "db_ok s \<Longrightarrow> routes_ok (session_keys s) (f (default_routes s)) \<Longrightarrow> db_ok (default_routes_update f s)"
  by (simp add: db_ok_def table_ids)

lemma ok_offer_insert:
  assumes "db_ok s" "generated ''offer'' (rnd s) (draws s) (map of_offer_id (target_offers s) @ [of_offer_id r])"
    "(of_session_handle r, of_endpoint_id r, of_owner_principal_id r) \<in> session_keys s"
    "of_audience_principal_id r \<in> principal_ids s"
  shows "db_ok (target_offers_update (\<lambda>t. t @ [r]) s)"
proof -
  have k: "map fst (map offer_key t) = map of_offer_id t" for t by (simp add: offer_key_def)
  from assms have "offers_ok (principal_ids s) (rnd s) (draws s) (session_keys s) (map offer_key (target_offers s @ [r]))"
    unfolding db_ok_def offers_ok_def k by (auto simp: offer_key_def)
  with assms(1) show ?thesis by (simp add: db_ok_def table_ids)
qed

lemma ok_offers_update:
  assumes "db_ok s" "\<And>r. P r \<Longrightarrow> offer_key (f r) = offer_key r"
  shows "db_ok (target_offers_update (update_where P f) s)"
proof -
  have m: "map offer_key (update_where P f t) = map offer_key t" for t
    by (rule map_update_where) (rule assms(2))
  with assms(1) show ?thesis by (simp add: db_ok_def table_ids)
qed

text \<open>Communication sessions.\<close>

lemma message_row_ok_mono: "message_row_ok P C m \<Longrightarrow> C \<subseteq> C' \<Longrightarrow> message_row_ok P C' m"
  by (fastforce simp: message_row_ok_def split: option.splits)

lemma comm_row_unique:
  assumes "db_ok s" "r \<in> set (comm_sessions s)" "q \<in> set (comm_sessions s)"
    "cs_comm_session_id r = cs_comm_session_id q"
  shows "r = q"
  using assms by (auto simp: db_ok_def comms_ok_def generated_def dest: distinct_key_eq)

lemma message_comm_known:
  assumes "db_ok s" "m \<in> set (messages s)" "ms_comm_session_id m = Some sid"
  shows "\<exists>r \<in> set (comm_sessions s). cs_comm_session_id r = sid \<and> carried_by r m"
  using assms by (fastforce simp: db_ok_def messages_ok_def message_row_ok_def)

lemma ok_comm_insert:
  assumes ok: "db_ok s"
    and gen: "generated ''comm'' (rnd s) (draws s) (map cs_comm_session_id (comm_sessions s) @ [cs_comm_session_id r])"
    and row: "comm_row_ok (principal_ids s) (session_keys s) r" and st: "cs_status r = Comm_pending"
  shows "db_ok (comm_sessions_update (\<lambda>t. t @ [r]) s)"
proof -
  let ?C = "set (comm_sessions s)"
  from ok gen row have "comms_ok (principal_ids s) (rnd s) (draws s) (session_keys s) (comm_sessions s @ [r])"
    by (auto simp: db_ok_def comms_ok_def)
  moreover from ok have "messages_ok (principal_ids s) (rnd s) (draws s) (insert r ?C) (messages s)"
    by (auto simp: db_ok_def messages_ok_def intro: message_row_ok_mono)
  moreover from ok st have "halted (insert r ?C) (set (messages s)) (set (deliveries s))"
    by (auto simp: db_ok_def halted_def ended_comm_def)
  moreover from ok st have "exclusive (clk s) (ticks s) (insert r ?C)"
    by (auto simp: db_ok_def exclusive_def)
  moreover from ok have "delegations_ok (principal_ids s) (insert (cs_comm_session_id r) (comm_ids s)) (set (messages s))
      (local_agent_delegations s)"
    by (auto simp: db_ok_def delegations_ok_def)
  ultimately show ?thesis using ok by (simp add: db_ok_def table_ids)
qed

text \<open>
  Rewriting rows of sessions: each changed row follows \<^const>\<open>comm_rel\<close>, and the
  deliveries of those that end are closed in the same transaction.
\<close>

lemma carried_by_rel:
  "comm_rel r r' \<Longrightarrow> cs_status r \<noteq> Comm_pending \<Longrightarrow> carried_by r m \<Longrightarrow> carried_by r' m"
  by (auto simp: comm_rel_def comm_identity_def comm_grant_def carried_by_def)

lemma carried_by_not_pending:
  "comm_row_ok P S r \<Longrightarrow> carried_by r m \<Longrightarrow> cs_status r \<noteq> Comm_pending"
  by (auto simp: comm_row_ok_def carried_by_def ungranted_def comm_grant_def split: CommunicationStatus.splits)

definition comm_upd :: "(CommRow \<Rightarrow> bool) \<Rightarrow> (CommRow \<Rightarrow> CommRow) \<Rightarrow> cp \<Rightarrow> CommRow set" where
  "comm_upd P f s = set (update_where P f (comm_sessions s))"

lemma ok_comms_change:
  assumes ok: "db_ok s"
    and rel: "\<And>r. P r \<Longrightarrow> cs_comm_session_id (f r) = cs_comm_session_id r \<and> comm_rel r (f r)"
    and rows: "\<And>r. r \<in> set (comm_sessions s) \<Longrightarrow> P r \<Longrightarrow> comm_row_ok (principal_ids s) (session_keys s) (f r)"
    and ex: "exclusive (clk s) (ticks s) (set (update_where P f (comm_sessions s)))"
    and sane: "map delivery_key D = map delivery_key (deliveries s)"
    and halt: "halted (set (update_where P f (comm_sessions s))) (set (messages s)) (set D)"
  shows "db_ok (deliveries_update (\<lambda>_. D) (comm_sessions_update (update_where P f) s))"
proof -
  have ids: "map cs_comm_session_id (update_where P f t) = map cs_comm_session_id t" for t
    by (rule map_update_where) (simp add: rel)
  have idset: "cs_comm_session_id ` set (update_where P f t) = cs_comm_session_id ` set t" for t
    by (rule image_update_where) (simp add: rel)
  have dset: "dl_delivery_id ` set D = dl_delivery_id ` set (deliveries s)"
  proof -
    have "map fst (map delivery_key D) = map fst (map delivery_key (deliveries s))" by (simp only: sane)
    then have "map dl_delivery_id D = map dl_delivery_id (deliveries s)"
      by (simp add: delivery_key_def comp_def)
    then show ?thesis by (metis list.set_map)
  qed
  from ok rows ids have "comms_ok (principal_ids s) (rnd s) (draws s) (session_keys s) (update_where P f (comm_sessions s))"
    by (auto simp: db_ok_def comms_ok_def set_update_where)
  moreover have "messages_ok (principal_ids s) (rnd s) (draws s) (set (update_where P f (comm_sessions s))) (messages s)"
  proof -
    { fix m sid assume m: "m \<in> set (messages s)" "ms_comm_session_id m = Some sid"
      from message_comm_known[OF ok m] obtain r where
        r: "r \<in> set (comm_sessions s)" "cs_comm_session_id r = sid" "carried_by r m" by blast
      from ok r have "cs_status r \<noteq> Comm_pending"
        by (auto simp: db_ok_def comms_ok_def dest!: bspec carried_by_not_pending)
      with r rel[of r] carried_by_rel[of r "f r" m]
      have "carried_by (if P r then f r else r) m \<and> cs_comm_session_id (if P r then f r else r) = sid" by simp
      moreover have "(if P r then f r else r) \<in> set (update_where P f (comm_sessions s))"
        using r(1) by (auto simp: update_where_def)
      ultimately have "\<exists>r \<in> set (update_where P f (comm_sessions s)). cs_comm_session_id r = sid \<and> carried_by r m"
        by blast }
    with ok show ?thesis
      by (auto simp: db_ok_def messages_ok_def message_row_ok_def split: option.splits)
  qed
  ultimately show ?thesis using ok ex halt sane dset
    by (simp add: db_ok_def table_ids idset)
qed

lemma exclusive_shrink:
  assumes "exclusive ck n C"
    "\<And>r. r \<in> C' \<Longrightarrow> cs_status r = Comm_active \<Longrightarrow> r \<in> C"
  shows "exclusive ck n C'"
  using assms unfolding exclusive_def by blast

text \<open>A session ends: its row changes, then its open deliveries are closed.\<close>

lemma ok_comm_end:
  assumes ok: "db_ok s"
    and rel: "\<And>r. P r \<Longrightarrow> cs_comm_session_id (f r) = cs_comm_session_id r \<and> comm_rel r (f r)"
    and rows: "\<And>r. r \<in> set (comm_sessions s) \<Longrightarrow> P r \<Longrightarrow> comm_row_ok (principal_ids s) (session_keys s) (f r)"
    and ended: "\<And>r. P r \<Longrightarrow> ended_comm (cs_status (f r)) \<and> cs_comm_session_id r = sid"
    and st: "\<not> open_delivery st"
  shows "db_ok (end_deliveries sid st code now (comm_sessions_update (update_where P f) s))"
proof -
  let ?U = "set (update_where P f (comm_sessions s))"
  let ?D = "update_where (\<lambda>d. (\<exists>m \<in> set (messages s). ms_comm_session_id m = Some sid \<and> ms_message_id m = dl_message_id d)
            \<and> open_delivery (dl_status d))
         (\<lambda>d. d\<lparr>dl_status := st, dl_terminal_at := Some now, dl_result_code := Some code\<rparr>) (deliveries s)"
  have ex: "exclusive (clk s) (ticks s) ?U"
  proof (rule exclusive_shrink[of _ _ "set (comm_sessions s)"])
    show "exclusive (clk s) (ticks s) (set (comm_sessions s))" using ok by (simp add: db_ok_def)
  qed (auto simp: set_update_where ended_comm_def dest: ended)
  have key: "map delivery_key ?D = map delivery_key (deliveries s)"
    by (rule map_update_where) (simp add: delivery_key_def)
  have halt: "halted ?U (set (messages s)) (set ?D)"
    unfolding halted_def
  proof (intro ballI impI)
    fix r m d assume r: "r \<in> ?U" and m: "m \<in> set (messages s)" and d: "d \<in> set ?D"
      and e: "ended_comm (cs_status r)" "ms_comm_session_id m = Some (cs_comm_session_id r)"
      and dm: "dl_message_id d = ms_message_id m"
    from d obtain d0 where d0: "d0 \<in> set (deliveries s)" "dl_message_id d0 = dl_message_id d"
      and dd: "d = d0 \<or> dl_status d = st"
      and cl: "(\<exists>m \<in> set (messages s). ms_comm_session_id m = Some sid \<and> ms_message_id m = dl_message_id d) \<Longrightarrow>
         \<not> open_delivery (dl_status d)"
      by (auto simp: set_update_where st)
    show "\<not> open_delivery (dl_status d)"
    proof (cases "cs_comm_session_id r = sid")
      case True with cl m e dm show ?thesis by auto
    next
      case False
      with r ended rel have "r \<in> set (comm_sessions s)" by (auto simp: set_update_where)
      with ok d0 m e dm have "\<not> open_delivery (dl_status d0)" by (auto simp: db_ok_def halted_def)
      with dd st show ?thesis by auto
    qed
  qed
  have "end_deliveries sid st code now (comm_sessions_update (update_where P f) s)
      = deliveries_update (\<lambda>_. ?D) (comm_sessions_update (update_where P f) s)"
    unfolding end_deliveries_def by (cases s) simp
  with ok_comms_change[OF ok rel rows ex key halt] show ?thesis by simp
qed

text \<open>A session that never was active ends or is activated: it has no messages.\<close>

lemma ok_pending_change:
  assumes ok: "db_ok s"
    and rel: "\<And>r. P r \<Longrightarrow> cs_comm_session_id (f r) = cs_comm_session_id r \<and> comm_rel r (f r)"
    and rows: "\<And>r. r \<in> set (comm_sessions s) \<Longrightarrow> P r \<Longrightarrow> comm_row_ok (principal_ids s) (session_keys s) (f r)"
    and pend: "\<And>r. P r \<Longrightarrow> cs_status r = Comm_pending"
    and ex: "exclusive (clk s) (ticks s) (set (update_where P f (comm_sessions s)))"
  shows "db_ok (comm_sessions_update (update_where P f) s)"
proof -
  have nomsg: "ms_comm_session_id m \<noteq> Some (cs_comm_session_id r)"
    if "r \<in> set (comm_sessions s)" "P r" "m \<in> set (messages s)" for r m
  proof
    assume "ms_comm_session_id m = Some (cs_comm_session_id r)"
    from message_comm_known[OF ok that(3) this] obtain q where
      q: "q \<in> set (comm_sessions s)" "cs_comm_session_id q = cs_comm_session_id r" "carried_by q m" by blast
    with comm_row_unique[OF ok q(1) that(1)] have "carried_by r m" by simp
    moreover from ok that(1) have "comm_row_ok (principal_ids s) (session_keys s) r"
      by (auto simp: db_ok_def comms_ok_def)
    ultimately show False using pend[OF that(2)] carried_by_not_pending by blast
  qed
  have halt: "halted (set (update_where P f (comm_sessions s))) (set (messages s)) (set (deliveries s))"
    using ok nomsg rel by (auto simp: db_ok_def halted_def set_update_where)
  from ok_comms_change[OF ok rel rows ex refl halt] show ?thesis by simp
qed

text \<open>Messages with their deliveries.\<close>

lemma delivery_message_iff:
  assumes "db_ok s"
  shows "dl_message_id ` set (deliveries s) = ms_message_id ` set (messages s)"
proof -
  from assms have "map fst (map snd (map delivery_key (deliveries s)))
      = map fst (map (\<lambda>m. (ms_message_id m, ms_target_endpoint_id m)) (messages s))"
    by (simp only: db_ok_def deliveries_ok_def)
  then have "map dl_message_id (deliveries s) = map ms_message_id (messages s)"
    by (simp add: delivery_key_def comp_def)
  then show ?thesis by (metis list.set_map)
qed

lemma ok_message_insert:
  assumes ok: "db_ok s"
    and gm: "generated ''msg'' (rnd s) (draws s) (map ms_message_id (messages s) @ [ms_message_id m])"
    and gd: "generated ''del'' (rnd s) (draws s) (map dl_delivery_id (deliveries s) @ [dl_delivery_id d])"
    and new: "\<forall>q \<in> set (messages s). \<not> (ms_sender_principal_id q = ms_sender_principal_id m
        \<and> ms_client_message_id q = ms_client_message_id m)"
    and seq: "ms_comm_session_id m \<noteq> None \<Longrightarrow> (ms_comm_session_id m, ms_sequence m) \<notin> set (session_sequence (messages s))"
    and row: "message_row_ok (principal_ids s) (set (comm_sessions s)) m"
    and dk: "dl_message_id d = ms_message_id m" "dl_endpoint_id d = ms_target_endpoint_id m"
    and live: "\<forall>r \<in> set (comm_sessions s). ms_comm_session_id m = Some (cs_comm_session_id r) \<longrightarrow> \<not> ended_comm (cs_status r)"
  shows "db_ok (deliveries_update (\<lambda>t. t @ [d]) (messages_update (\<lambda>t. t @ [m]) s))"
proof -
  from gm have fresh: "ms_message_id m \<notin> ms_message_id ` set (messages s)" by (auto simp: generated_def)
  from ok gm new seq row
  have "messages_ok (principal_ids s) (rnd s) (draws s) (set (comm_sessions s)) (messages s @ [m])"
    by (auto simp: db_ok_def messages_ok_def session_sequence_def)
  moreover have "deliveries_ok (rnd s) (draws s) (messages s @ [m]) (map delivery_key (deliveries s @ [d]))"
  proof -
    have k: "map fst (map delivery_key t) = map dl_delivery_id t" for t by (simp add: delivery_key_def)
    from ok gd dk show ?thesis unfolding db_ok_def deliveries_ok_def k
      by (simp add: delivery_key_def)
  qed
  moreover have "halted (set (comm_sessions s)) (set (messages s @ [m])) (set (deliveries s @ [d]))"
    unfolding halted_def
  proof (intro ballI impI)
    fix r q e assume r: "r \<in> set (comm_sessions s)" "ended_comm (cs_status r)"
      and q: "q \<in> set (messages s @ [m])" "ms_comm_session_id q = Some (cs_comm_session_id r)"
      and e: "e \<in> set (deliveries s @ [d])" "dl_message_id e = ms_message_id q"
    from live r q have "q \<in> set (messages s)" by auto
    moreover from this fresh have "ms_message_id q \<noteq> ms_message_id m" by (metis imageI)
    with dk e have "e \<in> set (deliveries s)" by auto
    ultimately show "\<not> open_delivery (dl_status e)" using ok r q e by (auto simp: db_ok_def halted_def)
  qed
  moreover from ok have "delegations_ok (principal_ids s) (comm_ids s) (insert m (set (messages s))) (local_agent_delegations s)"
    by (fastforce simp: db_ok_def delegations_ok_def split: option.splits)
  moreover from ok have "attempts_ok (insert (dl_delivery_id d) (dl_delivery_id ` set (deliveries s))) (delivery_attempts s)"
    by (auto simp: db_ok_def attempts_ok_def)
  moreover from ok have "inbox_ok (principal_ids s) (rnd s) (draws s) (insert (ms_message_id m) (ms_message_id ` set (messages s))) (inbox_items s)"
    by (auto simp: db_ok_def inbox_ok_def)
  ultimately show ?thesis using ok by (simp add: db_ok_def table_ids)
qed

lemma ok_deliveries_update:
  assumes ok: "db_ok s"
    and key: "\<And>d. P d \<Longrightarrow> delivery_key (f d) = delivery_key d"
    and st: "\<And>d. P d \<Longrightarrow> \<not> open_delivery (dl_status d) \<Longrightarrow> \<not> open_delivery (dl_status (f d))"
  shows "db_ok (deliveries_update (update_where P f) s)"
proof -
  have m: "map delivery_key (update_where P f t) = map delivery_key t" for t
    by (rule map_update_where) (rule key)
  have i: "dl_delivery_id ` set (update_where P f t) = dl_delivery_id ` set t" for t
    by (rule image_update_where) (use key in \<open>auto simp: delivery_key_def\<close>)
  have "halted (set (comm_sessions s)) (set (messages s)) (set (update_where P f (deliveries s)))"
    unfolding halted_def
  proof (intro ballI impI)
    fix r q e assume r: "r \<in> set (comm_sessions s)" "ended_comm (cs_status r)"
      and q: "q \<in> set (messages s)" "ms_comm_session_id q = Some (cs_comm_session_id r)"
      and e: "e \<in> set (update_where P f (deliveries s))" "dl_message_id e = ms_message_id q"
    from e obtain e0 where e0: "e0 \<in> set (deliveries s)" "e = (if P e0 then f e0 else e0)"
      by (auto simp: update_where_def)
    with key[of e0] e(2) have "dl_message_id e0 = ms_message_id q"
      by (auto simp: delivery_key_def split: if_splits)
    with ok r q e0(1) have "\<not> open_delivery (dl_status e0)" by (auto simp: db_ok_def halted_def)
    with st e0 show "\<not> open_delivery (dl_status e)" by simp
  qed
  with ok m i show ?thesis by (simp add: db_ok_def table_ids)
qed

lemma ok_inbox_insert:
  assumes "db_ok s" "generated ''inbox'' (rnd s) (draws s) (map ib_inbox_item_id (inbox_items s) @ [ib_inbox_item_id i])"
    "ib_message_id i \<notin> ib_message_id ` set (inbox_items s)" "ib_message_id i \<in> ms_message_id ` set (messages s)"
    "ib_principal_id i \<in> principal_ids s"
  shows "db_ok (inbox_items_update (\<lambda>t. t @ [i]) s)"
proof -
  from assms have "inbox_ok (principal_ids s) (rnd s) (draws s) (ms_message_id ` set (messages s)) (inbox_items s @ [i])"
    by (auto simp: db_ok_def inbox_ok_def)
  with assms(1) show ?thesis by (simp add: db_ok_def table_ids)
qed

lemma ok_attempt_insert:
  assumes "db_ok s" "da_delivery_id a \<in> dl_delivery_id ` set (deliveries s)"
  shows "db_ok (delivery_attempts_update (insert_or_ignore da_attempt_id a) s)"
proof -
  from assms have "attempts_ok (dl_delivery_id ` set (deliveries s)) (insert_or_ignore da_attempt_id a (delivery_attempts s))"
    by (auto simp: db_ok_def attempts_ok_def insert_or_ignore_def)
  with assms(1) show ?thesis by (simp add: db_ok_def table_ids)
qed

lemma ok_delegations_change:
  "db_ok s \<Longrightarrow> delegations_ok (principal_ids s) (comm_ids s) (set (messages s)) (f (local_agent_delegations s))
    \<Longrightarrow> db_ok (local_agent_delegations_update f s)"
  by (simp add: db_ok_def table_ids)

end
