(* ===== verification/Integrity.thy ===== *)
theory Integrity
  imports Schema
begin

text \<open>
  Every operation of the control plane's services keeps the integrity of the database
  (\<^const>\<open>db_ok\<close>), and none of them meets the exceptions the sources raise on a row
  that is missing.
\<close>

section \<open>What the primitive operations leave alone\<close>

lemma tick_frame [simp]:
  "principals (tick s) = principals s"
  "device_credentials (tick s) = device_credentials s"
  "endpoints (tick s) = endpoints s"
  "runtime_sessions (tick s) = runtime_sessions s"
  "default_routes (tick s) = default_routes s"
  "target_offers (tick s) = target_offers s"
  "comm_sessions (tick s) = comm_sessions s"
  "messages (tick s) = messages s"
  "deliveries (tick s) = deliveries s"
  "local_agent_delegations (tick s) = local_agent_delegations s"
  "delivery_attempts (tick s) = delivery_attempts s"
  "events (tick s) = events s"
  "inbox_items (tick s) = inbox_items s"
  "audit_log (tick s) = audit_log s"
  "clk (tick s) = clk s"
  "rnd (tick s) = rnd s"
  "draws (tick s) = draws s"
  "sha256 (tick s) = sha256 s"
  "woken (tick s) = woken s"
  "ticks (tick s) = Suc (ticks s)" "new_id pre (tick s) = new_id pre s"
  by (simp_all add: tick_def new_id_def)

lemma drawn_frame [simp]:
  "principals (drawn s) = principals s"
  "device_credentials (drawn s) = device_credentials s"
  "endpoints (drawn s) = endpoints s"
  "runtime_sessions (drawn s) = runtime_sessions s"
  "default_routes (drawn s) = default_routes s"
  "target_offers (drawn s) = target_offers s"
  "comm_sessions (drawn s) = comm_sessions s"
  "messages (drawn s) = messages s"
  "deliveries (drawn s) = deliveries s"
  "local_agent_delegations (drawn s) = local_agent_delegations s"
  "delivery_attempts (drawn s) = delivery_attempts s"
  "events (drawn s) = events s"
  "inbox_items (drawn s) = inbox_items s"
  "audit_log (drawn s) = audit_log s"
  "clk (drawn s) = clk s"
  "ticks (drawn s) = ticks s"
  "rnd (drawn s) = rnd s"
  "sha256 (drawn s) = sha256 s"
  "woken (drawn s) = woken s"
  "draws (drawn s) = Suc (draws s)" "nowIso (drawn s) = nowIso s"
  by (simp_all add: drawn_def nowIso_def)

lemma wake_frame [simp]:
  "principals (wake eps s) = principals s"
  "device_credentials (wake eps s) = device_credentials s"
  "endpoints (wake eps s) = endpoints s"
  "runtime_sessions (wake eps s) = runtime_sessions s"
  "default_routes (wake eps s) = default_routes s"
  "target_offers (wake eps s) = target_offers s"
  "comm_sessions (wake eps s) = comm_sessions s"
  "messages (wake eps s) = messages s"
  "deliveries (wake eps s) = deliveries s"
  "local_agent_delegations (wake eps s) = local_agent_delegations s"
  "delivery_attempts (wake eps s) = delivery_attempts s"
  "events (wake eps s) = events s"
  "inbox_items (wake eps s) = inbox_items s"
  "audit_log (wake eps s) = audit_log s"
  "clk (wake eps s) = clk s"
  "ticks (wake eps s) = ticks s"
  "rnd (wake eps s) = rnd s"
  "draws (wake eps s) = draws s"
  "sha256 (wake eps s) = sha256 s"
  by (simp_all add: wake_def)

lemma append_event_frame [simp]:
  "principals (append_event ep ty d s) = principals s"
  "device_credentials (append_event ep ty d s) = device_credentials s"
  "endpoints (append_event ep ty d s) = endpoints s"
  "runtime_sessions (append_event ep ty d s) = runtime_sessions s"
  "default_routes (append_event ep ty d s) = default_routes s"
  "target_offers (append_event ep ty d s) = target_offers s"
  "comm_sessions (append_event ep ty d s) = comm_sessions s"
  "messages (append_event ep ty d s) = messages s"
  "deliveries (append_event ep ty d s) = deliveries s"
  "local_agent_delegations (append_event ep ty d s) = local_agent_delegations s"
  "delivery_attempts (append_event ep ty d s) = delivery_attempts s"
  "inbox_items (append_event ep ty d s) = inbox_items s"
  "audit_log (append_event ep ty d s) = audit_log s"
  "clk (append_event ep ty d s) = clk s"
  "rnd (append_event ep ty d s) = rnd s"
  "draws (append_event ep ty d s) = draws s"
  "sha256 (append_event ep ty d s) = sha256 s"
  "woken (append_event ep ty d s) = woken s"
  by (simp_all add: append_event_def Let_def)

lemma audit_frame [simp]:
  "principals (audit a b c d e s) = principals s"
  "device_credentials (audit a b c d e s) = device_credentials s"
  "endpoints (audit a b c d e s) = endpoints s"
  "runtime_sessions (audit a b c d e s) = runtime_sessions s"
  "default_routes (audit a b c d e s) = default_routes s"
  "target_offers (audit a b c d e s) = target_offers s"
  "comm_sessions (audit a b c d e s) = comm_sessions s"
  "messages (audit a b c d e s) = messages s"
  "deliveries (audit a b c d e s) = deliveries s"
  "local_agent_delegations (audit a b c d e s) = local_agent_delegations s"
  "delivery_attempts (audit a b c d e s) = delivery_attempts s"
  "events (audit a b c d e s) = events s"
  "inbox_items (audit a b c d e s) = inbox_items s"
  "clk (audit a b c d e s) = clk s"
  "rnd (audit a b c d e s) = rnd s"
  "draws (audit a b c d e s) = draws s"
  "sha256 (audit a b c d e s) = sha256 s"
  "woken (audit a b c d e s) = woken s"
  by (simp_all add: audit_def Let_def)

section \<open>What the reads return\<close>

definition known_auth :: "AuthContext \<Rightarrow> cp \<Rightarrow> bool" where
  "known_auth auth s = (au_principalId auth \<in> principal_ids s)"

lemma resolveBearer_known:
  assumes "db_ok s" "resolveBearer s h = Some auth" shows "known_auth auth s"
proof -
  from assms(2) obtain c where "c \<in> set (device_credentials s)" "au_principalId auth = dc_principal_id c"
    by (auto simp: resolveBearer_def Let_def split: option.splits if_splits dest: find_SomeD)
  with assms(1) show ?thesis by (auto simp: db_ok_def seeds_ok_def known_auth_def principal_ids_def)
qed

lemma principal_exists_iff: "principal_exists p s \<longleftrightarrow> p \<in> principal_ids s"
  by (auto simp: principal_exists_def principal_ids_def)

lemma getOwned_Ok:
  "getOwned auth e s = Ok v \<Longrightarrow> \<exists>r \<in> set (endpoints s). ep_endpoint_id r = e
     \<and> ep_principal_id r = au_principalId auth \<and> ep_device_id r = au_deviceId auth \<and> v = mapEndpoint r"
  by (auto simp: getOwned_def split: option.splits dest!: find_SomeD)

lemma getSessionOwned_Ok:
  "getSessionOwned auth e h s = Ok v \<Longrightarrow> (h, e, au_principalId auth) \<in> session_keys s"
  by (auto simp: getSessionOwned_def session_keys_def session_key_def image_iff split: option.splits dest!: find_SomeD)

lemma getSession_Some:
  "getSession h s = Some v \<Longrightarrow> (h, rb_endpointId v, rb_principalId v) \<in> session_keys s"
  by (auto simp: getSession_def session_keys_def session_key_def image_iff mapSession_def dest!: find_SomeD)

lemma resolve_offer_Ok:
  assumes "db_ok s" "fst (resolve_offer oid ow au s) = Ok v"
  shows "(snd v, fst v, ow) \<in> session_keys s"
proof -
  from assms(2) obtain r where "r \<in> set (target_offers s)" "of_owner_principal_id r = ow"
    "v = (of_endpoint_id r, of_session_handle r)"
    by (auto simp: resolve_offer_def Let_def split: option.splits if_splits dest!: find_SomeD)
  with assms(1) show ?thesis by (auto simp: db_ok_def offers_ok_def offer_key_def)
qed

lemma getDefaultRoute_Some:
  assumes "db_ok s" "getDefaultRoute p s = Some r"
  shows "(dr_session_handle r, dr_endpoint_id r, p) \<in> session_keys s"
  using assms by (auto simp: getDefaultRoute_def db_ok_def routes_ok_def dest!: find_SomeD)

text \<open>Later states know at least the same identities.\<close>

lemma later_ids:
  assumes "cp_le s s'"
  shows "principal_ids s' = principal_ids s" "session_keys s \<subseteq> session_keys s'"
    "endpoint_ids s \<subseteq> endpoint_ids s'" "comm_ids s \<subseteq> comm_ids s'"
proof -
  show "principal_ids s' = principal_ids s" using assms by (simp add: cp_le_def principal_ids_def)
  show "endpoint_ids s \<subseteq> endpoint_ids s'" "comm_ids s \<subseteq> comm_ids s'"
    using assms endpoint_rows.keys comm_rows.keys
    by (simp_all add: cp_le_def endpoint_ids_def comm_ids_def)
  show "session_keys s \<subseteq> session_keys s'"
  proof
    fix k assume "k \<in> session_keys s"
    then obtain r where r: "r \<in> set (runtime_sessions s)" "k = session_key r" by (auto simp: session_keys_def)
    from assms have "evolves rs_session_handle session_rel (runtime_sessions s) (runtime_sessions s')"
      by (simp add: cp_le_def)
    from session_rows.row[OF this r(1)] obtain r' where
      "r' \<in> set (runtime_sessions s')" "rs_session_handle r' = rs_session_handle r" "session_rel r r'" .
    with r have "k = session_key r'" by (simp add: session_key_def session_rel_def)
    with \<open>r' \<in> _\<close> show "k \<in> session_keys s'" by (simp add: session_keys_def)
  qed
qed

lemma later_comm:
  assumes "cp_le s s'" "find_comm sid s = Some r"
  obtains r' where "find_comm sid s' = Some r'" "comm_rel r r'"
  using assms comm_rows.lookup[of "comm_sessions s" "comm_sessions s'" sid r] that
  unfolding cp_le_def find_comm_def by blast

lemma known_later: "cp_le s s' \<Longrightarrow> known_auth auth s \<Longrightarrow> known_auth auth s'"
  by (simp add: known_auth_def later_ids(1))

lemma frame_ids [simp]:
  "principal_ids (tick s) = principal_ids s" "session_keys (tick s) = session_keys s"
  "endpoint_ids (tick s) = endpoint_ids s" "comm_ids (tick s) = comm_ids s"
  "principal_ids (drawn s) = principal_ids s" "session_keys (drawn s) = session_keys s"
  "endpoint_ids (drawn s) = endpoint_ids s" "comm_ids (drawn s) = comm_ids s"
  "endpoint_ids (append_event ep ty d s) = endpoint_ids s"
  by (simp_all add: table_ids tick_def drawn_def append_event_def Let_def)

lemma find_comm_in: "find_comm sid s = Some r \<Longrightarrow> r \<in> set (comm_sessions s) \<and> cs_comm_session_id r = sid"
  by (auto simp: find_comm_def dest!: find_SomeD)

lemma comm_row: "db_ok s \<Longrightarrow> r \<in> set (comm_sessions s) \<Longrightarrow> comm_row_ok (principal_ids s) (session_keys s) r"
  by (simp add: db_ok_def comms_ok_def)

lemma generated_ids:
  assumes "db_ok s"
  shows "generated ''ep'' (rnd s) (draws s) (map ep_endpoint_id (endpoints s))"
    "generated ''rs'' (rnd s) (draws s) (map rs_session_handle (runtime_sessions s))"
    "generated ''offer'' (rnd s) (draws s) (map of_offer_id (target_offers s))"
    "generated ''comm'' (rnd s) (draws s) (map cs_comm_session_id (comm_sessions s))"
    "generated ''msg'' (rnd s) (draws s) (map ms_message_id (messages s))"
    "generated ''del'' (rnd s) (draws s) (map dl_delivery_id (deliveries s))"
    "generated ''inbox'' (rnd s) (draws s) (map ib_inbox_item_id (inbox_items s))"
proof -
  have k: "map fst (map endpoint_key E) = map ep_endpoint_id E" "map fst (map session_key S) = map rs_session_handle S"
    "map fst (map offer_key Os) = map of_offer_id Os" "map fst (map delivery_key D) = map dl_delivery_id D" for E S Os D
    by (simp_all add: endpoint_key_def session_key_def offer_key_def delivery_key_def)
  show "generated ''ep'' (rnd s) (draws s) (map ep_endpoint_id (endpoints s))"
    "generated ''rs'' (rnd s) (draws s) (map rs_session_handle (runtime_sessions s))"
    "generated ''offer'' (rnd s) (draws s) (map of_offer_id (target_offers s))"
    "generated ''comm'' (rnd s) (draws s) (map cs_comm_session_id (comm_sessions s))"
    "generated ''msg'' (rnd s) (draws s) (map ms_message_id (messages s))"
    "generated ''del'' (rnd s) (draws s) (map dl_delivery_id (deliveries s))"
    "generated ''inbox'' (rnd s) (draws s) (map ib_inbox_item_id (inbox_items s))"
    using assms unfolding db_ok_def endpoints_ok_def sessions_ok_def offers_ok_def comms_ok_def
      messages_ok_def deliveries_ok_def inbox_ok_def k by blast+
qed

lemma fresh_id:
  "generated pre rn n ids \<Longrightarrow> inj rn \<Longrightarrow> n \<le> k \<Longrightarrow> k < m \<Longrightarrow> generated pre rn m (ids @ [pre @ ''_'' @ rn k])"
  by (rule generated_snoc)

lemma rnd_inj: "db_ok s \<Longrightarrow> inj (rnd s)"
  by (simp add: db_ok_def)

section \<open>Endpoints, sessions, routes and offers\<close>

lemma ok_register_endpoint [ok_intros]:
  assumes ok: "db_ok s" and "known_auth auth s"
  shows "db_ok (snd (register_endpoint auth i s))"
proof (cases "List.find (\<lambda>r. ep_principal_id r = au_principalId auth
    \<and> ep_device_id r = au_deviceId auth \<and> ep_runtime r = ri_runtime i) (endpoints s)")
  case None
  have "generated ''ep'' (rnd s) (Suc (draws s)) (map ep_endpoint_id (endpoints s) @ [new_id ''ep'' s])"
    unfolding new_id_def by (rule fresh_id[OF generated_ids(1)[OF ok] rnd_inj[OF ok]]) simp_all
  then have "db_ok (endpoints_update (\<lambda>t. t @ [\<lparr>ep_endpoint_id = new_id ''ep'' s, ep_principal_id = au_principalId auth,
                   ep_device_id = au_deviceId auth, ep_runtime = ri_runtime i,
                   ep_bridge_version = ri_bridgeVersion i, ep_adapter_version = ri_adapterVersion i,
                   ep_capabilities = ri_capabilities i, ep_presence = Online,
                   ep_last_seen_at = nowIso s, ep_created_at = nowIso s\<rparr>]) (drawn (tick s)))"
    using assms None
    by (intro ok_endpoint_insert ok_intros)
       (auto simp: known_auth_def find_None_iff)
  with None show ?thesis
    by (auto simp: register_endpoint_def Let_def split_def split: op_split intro!: ok_intros)
next
  case (Some r)
  with ok show ?thesis
    by (auto simp: register_endpoint_def Let_def split_def endpoint_key_def
      split: op_split intro!: ok_intros ok_endpoints_update)
qed

lemma ok_heartbeat [ok_intros]: "db_ok s \<Longrightarrow> db_ok (snd (heartbeat auth e s))"
  by (auto simp: heartbeat_def Let_def endpoint_key_def intro!: ok_intros ok_endpoints_update)

lemma ok_listForPrincipal [ok_intros]: "db_ok s \<Longrightarrow> db_ok (snd (listForPrincipal p s))"
  by (auto simp: listForPrincipal_def Let_def endpoint_key_def intro!: ok_intros ok_endpoints_update)

lemma ok_registerSession [ok_intros]:
  assumes ok: "db_ok s" shows "db_ok (snd (registerSession auth e i s))"
proof (cases "getOwned auth e s")
  case (Ok v)
  have "generated ''rs'' (rnd s) (Suc (draws s)) (map rs_session_handle (runtime_sessions s) @ [new_id ''rs'' s])"
    unfolding new_id_def by (rule fresh_id[OF generated_ids(2)[OF ok] rnd_inj[OF ok]]) simp_all
  with Ok getOwned_Ok[OF Ok] show ?thesis
    using ok by (auto simp: registerSession_def Let_def intro!: ok_intros ok_session_insert)
qed (use ok in \<open>auto simp: registerSession_def\<close>)

lemma ok_updateSession [ok_intros]: "db_ok s \<Longrightarrow> db_ok (snd (updateSession auth e h i s))"
  by (auto simp: updateSession_def Let_def session_key_def split: op_split intro!: ok_intros ok_sessions_update)

lemma ok_closeSession [ok_intros]: "db_ok s \<Longrightarrow> db_ok (snd (closeSession auth e h s))"
  by (auto simp: closeSession_def Let_def split_def split: op_split intro!: ok_intros)

lemma ok_setDefaultRoute [ok_intros]:
  assumes ok: "db_ok s" shows "db_ok (snd (setDefaultRoute auth e h s))"
proof (cases "getSessionOwned auth e h s")
  case (Ok v)
  from ok have "routes_ok (session_keys s) (default_routes s)" by (simp add: db_ok_def)
  with getSessionOwned_Ok[OF Ok] have
    "routes_ok (session_keys s) (upsert dr_principal_id
        (\<lambda>r. r\<lparr>dr_endpoint_id := e, dr_session_handle := h, dr_updated_at := t\<rparr>)
        \<lparr>dr_principal_id = au_principalId auth, dr_endpoint_id = e, dr_session_handle = h, dr_updated_at = t\<rparr>
        (default_routes s))" for t
    by (auto simp: routes_ok_def upsert_def set_update_where map_update_where)
  with ok Ok show ?thesis
    by (auto simp: setDefaultRoute_def Let_def split: op_split intro!: ok_intros ok_routes)
qed (use ok in \<open>auto simp: setDefaultRoute_def\<close>)

lemma ok_clearDefaultRoute [ok_intros]: "db_ok s \<Longrightarrow> db_ok (snd (clearDefaultRoute auth s))"
  by (auto simp: clearDefaultRoute_def Let_def intro!: ok_intros ok_routes)
     (auto simp: db_ok_def routes_ok_def distinct_map_filter)

lemma ok_create_offer [ok_intros]:
  assumes ok: "db_ok s" shows "db_ok (snd (create_offer auth e h a t s))"
proof (cases "getSessionOwned auth e h s")
  case (Ok v)
  have "generated ''offer'' (rnd s) (Suc (draws s)) (map of_offer_id (target_offers s) @ [new_id ''offer'' s])"
    unfolding new_id_def by (rule fresh_id[OF generated_ids(3)[OF ok] rnd_inj[OF ok]]) simp_all
  with ok Ok getSessionOwned_Ok[OF Ok] show ?thesis
    by (auto simp: create_offer_def Let_def principal_exists_iff split: op_split intro!: ok_intros ok_offer_insert)
qed (use ok in \<open>auto simp: create_offer_def\<close>)

lemma ok_revoke_offer [ok_intros]: "db_ok s \<Longrightarrow> db_ok (snd (revoke_offer auth oid s))"
  by (auto simp: revoke_offer_def Let_def offer_key_def intro!: ok_intros ok_offers_update)

lemma ok_resolve_offer [ok_intros]: "db_ok s \<Longrightarrow> db_ok (snd (resolve_offer oid ow au s))"
  by (auto simp: resolve_offer_def Let_def split: op_split intro!: ok_intros)

lemma ok_listReachable [ok_intros]: "db_ok s \<Longrightarrow> db_ok (snd (listReachable v p s))"
  by (auto simp: listReachable_def Let_def intro!: ok_intros)

section \<open>Communication sessions\<close>

lemma fold_inv: "(\<And>x a. I a \<Longrightarrow> I (f x a)) \<Longrightarrow> I a \<Longrightarrow> I (fold f xs a)"
  by (induction xs arbitrary: a) simp_all

lemma ok_append_events:
  "db_ok s \<Longrightarrow> set eps \<subseteq> endpoint_ids s \<Longrightarrow> db_ok (fold (\<lambda>ep. append_event ep ty d) eps s)"
  by (induction eps arbitrary: s) (simp_all add: ok_append_event)

lemma listForPrincipal_ids:
  "x \<in> set (fst (listForPrincipal p s)) \<Longrightarrow> re_endpointId x \<in> endpoint_ids (snd (listForPrincipal p s))"
  by (auto simp: listForPrincipal_def Let_def mapEndpoint_def endpoint_ids_def)

lemma ok_notify_all [ok_intros]: "db_ok s \<Longrightarrow> db_ok (snd (notify_all ty d ps s))"
  unfolding notify_all_def
  by (rule fold_inv[where I = "\<lambda>a. db_ok (snd a)"])
     (auto simp: notify_principal_def split_def Let_def listForPrincipal_ids intro!: ok_append_events ok_intros)

lemma update_nochange:
  "changes P (comm_sessions s) = 0 \<Longrightarrow> comm_sessions_update (update_where P f) s = s"
  by (cases s) (simp add: changes_zero_iff update_where_nochange)

lemma expired_row_ok:
  "comm_row_ok P S r \<Longrightarrow> cs_status r \<in> {Comm_pending, Comm_active} \<Longrightarrow> comm_row_ok P S (r\<lparr>cs_status := Comm_expired\<rparr>)"
  by (auto simp: comm_row_ok_def granted_def ungranted_def comm_grant_def)

lemma ok_expire_row:
  assumes ok: "db_ok s" and st: "st \<in> {Comm_pending, Comm_active}"
  shows "db_ok (end_deliveries sid Del_expired code now (comm_sessions_update
     (update_where (\<lambda>r. cs_comm_session_id r = sid \<and> cs_status r = st) (\<lambda>r. r\<lparr>cs_status := Comm_expired\<rparr>)) s))"
  using st by (intro ok_comm_end[OF ok]) 
    (auto simp: comm_expire_rel expired_row_ok comm_row[OF ok] ended_comm_def open_delivery_def)

lemma ok_expireIfNeeded [ok_intros]: "db_ok s \<Longrightarrow> db_ok (expireIfNeeded sid s)"
  by (auto simp: expireIfNeeded_def Let_def split_def comm_lapsed_def update_nochange
      split: op_split intro!: ok_intros ok_expire_row)

lemma ok_expire_route_row:
  "db_ok (snd a) \<Longrightarrow> db_ok (snd (expire_route_row e h now r a))"
  by (auto simp: expire_route_row_def Let_def split_def update_nochange
      split: op_split intro!: ok_intros ok_expire_row)

lemma ok_expireActiveGrantsForRoute [ok_intros]:
  "db_ok s \<Longrightarrow> db_ok (expireActiveGrantsForRoute p e h s)"
  by (auto simp: expireActiveGrantsForRoute_def Let_def split_def
      intro!: ok_intros fold_inv[where I = "\<lambda>a. db_ok (snd a)"] ok_expire_route_row)

lemma ok_getVisible [ok_intros]: "db_ok s \<Longrightarrow> db_ok (snd (getVisible p sid s))"
  by (auto simp: getVisible_def Let_def split: op_split intro!: ok_intros)

lemma ok_list_comms [ok_intros]: "db_ok s \<Longrightarrow> db_ok (snd (list_comms p s))"
  unfolding list_comms_def Let_def split_def
  by (rule fold_inv[where I = "\<lambda>a. db_ok (snd a)"]) (simp_all add: ok_getVisible)

lemma ok_requireActive [ok_intros]: "db_ok s \<Longrightarrow> db_ok (snd (requireActive p sid s))"
  by (auto simp: requireActive_def Let_def split_def split: op_split intro!: ok_intros)

text \<open>What a successful read shows.\<close>

lemma getVisible_Ok:
  assumes "fst (getVisible p sid s) = Ok v"
  obtains r where "find_comm sid (snd (getVisible p sid s)) = Some r" "v = mapCommunication r"
    "p = cs_requester_principal_id r \<or> p = cs_recipient_principal_id r"
  using assms by (auto simp: getVisible_def Let_def split: option.splits if_splits)

lemma requireActive_Ok:
  assumes "fst (requireActive p sid s) = Ok v"
  obtains r where "find_comm sid (snd (requireActive p sid s)) = Some r" "v = mapCommunication r"
    "p = cs_requester_principal_id r \<or> p = cs_recipient_principal_id r" "cs_status r = Comm_active"
proof -
  from assms have g: "fst (getVisible p sid s) = Ok v" "co_status v = Comm_active"
    "snd (requireActive p sid s) = snd (getVisible p sid s)"
    by (auto simp: requireActive_def split_def split: ServiceResult.splits if_splits)
  from getVisible_Ok[OF g(1)] obtain r where r: "find_comm sid (snd (getVisible p sid s)) = Some r"
    "v = mapCommunication r" "p = cs_requester_principal_id r \<or> p = cs_recipient_principal_id r" .
  moreover from r(2) g(2) have "cs_status r = Comm_active" by (simp add: mapCommunication_def)
  ultimately show ?thesis using that g(3) by simp
qed

lemma ok_comm_new:
  assumes ok: "db_ok s" and "cs_comm_session_id r = new_id ''comm'' s"
    "comm_row_ok (principal_ids s) (session_keys s) r" "cs_status r = Comm_pending"
  shows "db_ok (comm_sessions_update (\<lambda>t. t @ [r]) (drawn (tick s)))"
proof -
  have "generated ''comm'' (rnd s) (Suc (draws s)) (map cs_comm_session_id (comm_sessions s) @ [new_id ''comm'' s])"
    unfolding new_id_def by (rule fresh_id[OF generated_ids(4)[OF ok] rnd_inj[OF ok]]) simp_all
  with assms show ?thesis by (intro ok_comm_insert ok_intros) simp_all
qed

lemma session_principal:
  assumes "db_ok s" "(h, e, p) \<in> session_keys s" shows "p \<in> principal_ids s" "e \<in> endpoint_ids s"
proof -
  from assms obtain d k where e: "(e, p, d, k) \<in> endpoint_key ` set (endpoints s)"
    unfolding db_ok_def sessions_ok_def session_keys_def by fastforce
  from assms(1) have "\<forall>(i, p, d, r) \<in> endpoint_key ` set (endpoints s). p \<in> principal_ids s"
    by (simp add: db_ok_def endpoints_ok_def)
  from bspec[OF this e] show "p \<in> principal_ids s" by simp
  from imageI[OF e, of fst] show "e \<in> endpoint_ids s" by (simp add: endpoint_ids_eq)
qed

lemma request_offer_check_snd:
  "snd (request_offer_check auth t s) = s \<or> snd (request_offer_check auth t s) = tick s"
  by (auto simp: request_offer_check_def resolve_offer_def Let_def split_def split: op_split)

lemma ok_comm_request [ok_intros]:
  assumes ok: "db_ok s" shows "db_ok (snd (comm_request auth i s))"
proof (cases "getSessionOwned auth (rq_replyEndpointId i) (rq_replySessionHandle i) s")
  case (Ok v)
  have *: "db_ok (snd (request_offer_check auth (rq_target i) s))"
    "principal_ids (snd (request_offer_check auth (rq_target i) s)) = principal_ids s"
    "session_keys (snd (request_offer_check auth (rq_target i) s)) = session_keys s"
    using request_offer_check_snd[of auth "rq_target i" s] ok by (auto intro: ok_tick)
  from getSessionOwned_Ok[OF Ok] ok
  have "(rq_replySessionHandle i, rq_replyEndpointId i, au_principalId auth) \<in> session_keys s"
    "au_principalId auth \<in> principal_ids s" by (auto dest: session_principal)
  with Ok ok * show ?thesis
    unfolding comm_request_def Let_def split_def
    by (auto simp: principal_exists_iff comm_row_ok_def ungranted_def comm_grant_def
        split: op_split intro!: ok_intros ok_comm_new)
qed (use ok in \<open>auto simp: comm_request_def\<close>)

text \<open>Activation: the granted route has no other grant still running.\<close>

lemma ok_activate_row:
  assumes ok: "db_ok s" and row: "find_comm sid s = Some r0" "cs_recipient_principal_id r0 = au_principalId auth"
    and key: "(h, e, au_principalId auth) \<in> session_keys s"
    and free: "\<not> competing_grant auth e h (clk s k) sid s" "k < ticks s"
    and g: "g = addMinutes a (min (cs_requested_ttl_minutes r0) 30)"
  shows "db_ok (comm_sessions_update (update_where (\<lambda>r. cs_comm_session_id r = sid \<and> cs_status r = Comm_pending)
      (\<lambda>r. r\<lparr>cs_status := Comm_active, cs_frozen_endpoint_id := Some e, cs_frozen_session_handle := Some h,
             cs_activated_at := Some a, cs_grant_expires_at := Some g\<rparr>)) s)"
    (is "db_ok (comm_sessions_update (update_where ?P ?f) s)")
proof (rule ok_pending_change[OF ok])
  have r0: "r = r0" if "r \<in> set (comm_sessions s)" "?P r" for r
    using comm_row_unique[OF ok that(1)] find_comm_in[OF row(1)] that(2) by simp
  show "cs_comm_session_id (?f r) = cs_comm_session_id r \<and> comm_rel r (?f r)" if "?P r" for r
    using that by (simp add: comm_rel_def comm_identity_def comm_edge_def ended_comm_def)
  show "comm_row_ok (principal_ids s) (session_keys s) (?f r)" if "r \<in> set (comm_sessions s)" "?P r" for r
    using comm_row[OF ok that(1)] that(2) r0[OF that] key row(2)
    by (auto simp: comm_row_ok_def granted_def comm_grant_def g min_def)
  show "cs_status r = Comm_pending" if "?P r" for r using that by simp
  have old: "exclusive (clk s) (ticks s) (set (comm_sessions s))" using ok by (simp add: db_ok_def)
  have one: "\<exists>j<ticks s. grant_over q (clk s j)"
    if "r \<in> set (comm_sessions s)" "?P r" "q \<in> set (comm_sessions s)" "cs_status q = Comm_active"
      "same_route (?f r) q" "cs_comm_session_id q \<noteq> sid" for r q
    using free that r0[OF that(1,2)] row(2)
    by (intro exI[of _ k]) (auto simp: competing_grant_def same_route_def)
  have sym: "same_route q (?f r) \<Longrightarrow> same_route (?f r) q" for q r by (auto simp: same_route_def)
  show "exclusive (clk s) (ticks s) (set (update_where ?P ?f (comm_sessions s)))"
    unfolding exclusive_def
  proof (intro ballI impI)
    fix u v assume u: "u \<in> set (update_where ?P ?f (comm_sessions s))" and v: "v \<in> set (update_where ?P ?f (comm_sessions s))"
      and act: "cs_status u = Comm_active" "cs_status v = Comm_active" and sr: "same_route u v"
      and ne: "cs_comm_session_id u \<noteq> cs_comm_session_id v"
    from u consider (new) r where "r \<in> set (comm_sessions s)" "?P r" "u = ?f r" | (old) "u \<in> set (comm_sessions s)" "\<not> ?P u"
      by (auto simp: set_update_where)
    then show "\<exists>k<ticks s. grant_over u (clk s k) \<or> grant_over v (clk s k)"
    proof cases
      case new
      with v ne have "v \<in> set (comm_sessions s)" "cs_comm_session_id v \<noteq> sid" by (auto simp: set_update_where)
      with one[OF new(1,2)] act sr new show ?thesis by blast
    next
      case old
      from v consider (new') q where "q \<in> set (comm_sessions s)" "?P q" "v = ?f q" | (old') "v \<in> set (comm_sessions s)"
        by (auto simp: set_update_where)
      then show ?thesis
      proof cases
        case new'
        with ne have "cs_comm_session_id u \<noteq> sid" by auto
        with one[OF new'(1,2) old(1)] act sr new' sym show ?thesis by blast
      next
        case old'
        with \<open>exclusive _ _ (set (comm_sessions s))\<close> old act sr ne show ?thesis unfolding exclusive_def by blast
      qed
    qed
  qed
qed

lemma activate_ok:
  assumes "db_ok s" "find_comm sid s = Some r0" "cs_recipient_principal_id r0 = au_principalId auth"
    "(h, e, au_principalId auth) \<in> session_keys s"
    "\<not> competing_grant auth e h (clk s k) sid s" "k < ticks s"
  shows "db_ok (snd (activate auth cur sid e h s))" "fst (activate auth cur sid e h s) \<noteq> None"
proof -
  have a: "find_comm sid (tick s) = Some r0"
    "competing_grant auth e h (clk s k) sid (tick s) = competing_grant auth e h (clk s k) sid s"
    using assms by (simp_all add: find_comm_def competing_grant_def)
  from a assms show "db_ok (snd (activate auth cur sid e h s))"
    by (auto simp: activate_def Let_def split_def intro!: ok_intros ok_activate_row[of "tick s" sid r0 auth h e k])
  from a show "fst (activate auth cur sid e h s) \<noteq> None"
    by (auto simp: activate_def Let_def split_def)
qed

lemma accept_route_Ok:
  assumes "db_ok s" "fst (accept_route auth c s) = Ok v"
  shows "(snd v, fst v, au_principalId auth) \<in> session_keys s"
  using assms resolve_offer_Ok[OF assms(1)]
  by (auto simp: accept_route_def split: TargetKind.splits op_split dest: getDefaultRoute_Some)

lemma ok_accept_route [ok_intros]: "db_ok s \<Longrightarrow> db_ok (snd (accept_route auth c s))"
  by (auto simp: accept_route_def split: TargetKind.splits op_split intro!: ok_intros)

lemma accept_ok:
  assumes ok: "db_ok s"
  shows "db_ok (snd (accept auth sid s))" "fst (accept auth sid s) \<noteq> None"
proof -
  let ?p = "au_principalId auth"
  let ?s1 = "snd (getVisible ?p sid s)"
  have ok1: "db_ok ?s1" by (rule ok_getVisible[OF ok])
  have "db_ok (snd (accept auth sid s)) \<and> fst (accept auth sid s) \<noteq> None"
  proof (cases "fst (getVisible ?p sid s)")
    case (Ok cur)
    from getVisible_Ok[OF Ok] obtain r where r: "find_comm sid ?s1 = Some r" "cur = mapCommunication r" by blast
    let ?s2 = "snd (accept_route auth cur ?s1)"
    have ok2: "db_ok ?s2" by (rule ok_accept_route[OF ok1])
    show ?thesis
    proof (cases "co_recipientPrincipalId cur = ?p \<and> co_status cur = Comm_pending")
      case True
      show ?thesis
      proof (cases "fst (accept_route auth cur ?s1)")
        case (Ok v)
        obtain e h where v: "v = (e, h)" by (cases v)
        have le2: "cp_le ?s1 ?s2" by (rule le_accept_route) simp
        let ?s3 = "expireActiveGrantsForRoute ?p e h ?s2"
        have ok3: "db_ok ?s3" by (rule ok_expireActiveGrantsForRoute[OF ok2])
        have le3: "cp_le ?s1 (tick ?s3)" by (intro le_intros le2)
        from later_comm[OF le3 r(1)] obtain r3 where r3: "find_comm sid (tick ?s3) = Some r3" "comm_rel r r3" .
        with True r have rec: "cs_recipient_principal_id r3 = ?p"
          by (simp add: mapCommunication_def comm_rel_def comm_identity_def)
        from accept_route_Ok[OF ok1 Ok] v later_ids(2)[OF le3]
        have key: "(h, e, ?p) \<in> session_keys (tick ?s3)" by auto
        from activate_ok[OF ok_tick[OF ok3] r3(1) rec key, of "ticks ?s3" cur]
        have "\<not> competing_grant auth e h (clk ?s3 (ticks ?s3)) sid (tick ?s3) \<Longrightarrow>
          db_ok (snd (activate auth cur sid e h (tick ?s3))) \<and> fst (activate auth cur sid e h (tick ?s3)) \<noteq> None"
          by simp
        moreover have "accept auth sid s = (case accept_target_check auth e h ?s2 of
            Failure c h \<Rightarrow> (Some (Failure c h), ?s2)
          | Ok _ \<Rightarrow> (if competing_grant auth e h (nowIso ?s3) sid (tick ?s3)
             then (Some (Failure Runtime_session_already_granted 409), tick ?s3)
             else activate auth cur sid e h (tick ?s3)))"
          using \<open>fst (getVisible ?p sid s) = Ok cur\<close> True Ok v
          by (auto simp: accept_def split_def Let_def split: ServiceResult.splits)
        ultimately show ?thesis using ok2 ok_tick[OF ok3]
          by (auto simp: nowIso_def split: ServiceResult.splits)
      next
        case (Failure c n)
        with True \<open>fst (getVisible ?p sid s) = Ok cur\<close> ok2 show ?thesis
          by (auto simp: accept_def split_def Let_def)
      qed
    next
      case False
      with Ok ok1 show ?thesis by (auto simp: accept_def split_def)
    qed
  next
    case (Failure c n)
    with ok1 show ?thesis by (simp add: accept_def split_def)
  qed
  then show "db_ok (snd (accept auth sid s))" "fst (accept auth sid s) \<noteq> None" by blast+
qed

lemma ok_decline [ok_intros]:
  assumes ok: "db_ok s" shows "db_ok (snd (decline auth sid s))"
proof -
  have row: "db_ok (comm_sessions_update (update_where (\<lambda>r. cs_comm_session_id r = sid \<and> cs_status r = Comm_pending)
                    (\<lambda>r. r\<lparr>cs_status := Comm_declined\<rparr>)) t)" if "db_ok t" for t
  proof (rule ok_pending_change[OF that])
    show "exclusive (clk t) (ticks t) (set (update_where (\<lambda>r. cs_comm_session_id r = sid \<and> cs_status r = Comm_pending)
                    (\<lambda>r. r\<lparr>cs_status := Comm_declined\<rparr>) (comm_sessions t)))"
      by (rule exclusive_shrink[where C = "set (comm_sessions t)"]) (use that in \<open>auto simp: db_ok_def set_update_where\<close>)
    show "comm_row_ok (principal_ids t) (session_keys t) (r\<lparr>cs_status := Comm_declined\<rparr>)"
      if "r \<in> set (comm_sessions t)" "cs_comm_session_id r = sid \<and> cs_status r = Comm_pending" for r
      using comm_row[OF \<open>db_ok t\<close> that(1)] that(2) by (simp add: comm_row_ok_def ungranted_def comm_grant_def)
  qed (auto simp: comm_rel_def comm_identity_def comm_edge_def ended_comm_def)
  show ?thesis
    by (auto simp: decline_def Let_def split_def split: op_split intro!: ok_intros row ok)
qed

lemma ok_revoke_row:
  assumes ok: "db_ok s"
  shows "db_ok (end_deliveries sid Del_revoked code now (comm_sessions_update
     (update_where (\<lambda>r. cs_comm_session_id r = sid \<and> cs_status r = Comm_active)
        (\<lambda>r. r\<lparr>cs_status := Comm_revoked, cs_revoked_at := Some now\<rparr>)) s))"
proof (rule ok_comm_end[OF ok])
  show "comm_row_ok (principal_ids s) (session_keys s) (r\<lparr>cs_status := Comm_revoked, cs_revoked_at := Some now\<rparr>)"
    if "r \<in> set (comm_sessions s)" "cs_comm_session_id r = sid \<and> cs_status r = Comm_active" for r
    using comm_row[OF ok that(1)] that(2) by (auto simp: comm_row_ok_def granted_def comm_grant_def)
qed (auto simp: comm_rel_def comm_identity_def comm_grant_def comm_edge_def ended_comm_def open_delivery_def)

lemma ok_revoke [ok_intros]: "db_ok s \<Longrightarrow> db_ok (snd (revoke auth sid s))"
  by (auto simp: revoke_def Let_def split_def split: op_split intro!: ok_intros ok_revoke_row)

section \<open>Messages\<close>

text \<open>Reading sessions leaves messages and delegations alone.\<close>

definition kept :: "cp \<Rightarrow> MessageRow list \<times> DelegationRow list \<times> InboxRow list" where
  "kept s = (messages s, local_agent_delegations s, inbox_items s)"

lemma kept_simps [simp]:
  "kept (tick s) = kept s" "kept (drawn s) = kept s" "kept (wake eps s) = kept s"
  "kept (append_event ep ty d s) = kept s" "kept (audit a b c e f s) = kept s"
  "kept (endpoints_update g1 s) = kept s" "kept (comm_sessions_update g2 s) = kept s"
  "kept (deliveries_update g3 s) = kept s" "kept (end_deliveries sid st code now s) = kept s"
  by (simp_all add: kept_def end_deliveries_def)

lemma kept_listForPrincipal [simp]: "kept (snd (listForPrincipal p s)) = kept s"
  by (simp add: listForPrincipal_def Let_def)

lemma kept_fold: "(\<And>x a. kept (g (f x a)) = kept (g a)) \<Longrightarrow> kept (g (fold f xs a)) = kept (g a)"
  by (induction xs arbitrary: a) simp_all

lemma kept_append_events [simp]: "kept (fold (\<lambda>ep. append_event ep ty d) eps s) = kept s"
  by (induction eps arbitrary: s) simp_all

lemma kept_notify_all [simp]: "kept (snd (notify_all ty d ps s)) = kept s"
  unfolding notify_all_def
  by (subst kept_fold) (auto simp: notify_principal_def split_def Let_def)

lemma kept_expireIfNeeded [simp]: "kept (expireIfNeeded sid s) = kept s"
  by (auto simp: expireIfNeeded_def Let_def split_def split: op_split)

lemma kept_getVisible [simp]: "kept (snd (getVisible p sid s)) = kept s"
  by (auto simp: getVisible_def Let_def split: op_split)

lemma kept_requireActive [simp]: "kept (snd (requireActive p sid s)) = kept s"
  by (auto simp: requireActive_def split_def split: op_split)

lemma kept_list_comms [simp]: "kept (snd (list_comms p s)) = kept s"
  unfolding list_comms_def Let_def split_def by (subst kept_fold) simp_all

lemma kept_comm_request [simp]: "kept (snd (comm_request auth i s)) = kept s"
  using request_offer_check_snd[of auth "rq_target i" s]
  by (auto simp: comm_request_def Let_def split_def split: op_split)

lemma kept_messages:
  "kept s' = kept s \<Longrightarrow> messages s' = messages s"
  "kept s' = kept s \<Longrightarrow> local_agent_delegations s' = local_agent_delegations s"
  "kept s' = kept s \<Longrightarrow> inbox_items s' = inbox_items s"
  by (simp_all add: kept_def)

lemma foldr_max_ge: "x \<in> set xs \<Longrightarrow> x \<le> foldr max xs (n :: nat)"
  by (induction xs) auto

lemma next_sequence_fresh: "(Some sid, next_sequence sid s) \<notin> set (session_sequence (messages s))"
proof
  assume "(Some sid, next_sequence sid s) \<in> set (session_sequence (messages s))"
  then obtain m where "m \<in> set (messages s)" "ms_comm_session_id m = Some sid" "ms_sequence m = next_sequence sid s"
    by (auto simp: session_sequence_def)
  then have "next_sequence sid s \<in> set (map ms_sequence (filter (\<lambda>m. ms_comm_session_id m = Some sid) (messages s)))"
    by force
  from foldr_max_ge[OF this, of 0] show False by (simp add: next_sequence_def)
qed

lemma mapDelivery_Some:
  assumes "db_ok s" "mid \<in> ms_message_id ` set (messages s)" shows "mapDelivery mid s \<noteq> None"
proof -
  from assms have "mid \<in> dl_message_id ` set (deliveries s)" by (simp only: delivery_message_iff)
  then have "\<exists>d \<in> set (deliveries s). dl_message_id d = mid" by auto
  then show ?thesis
    unfolding mapDelivery_def find_isSome[symmetric] by auto
qed

lemma receiptFor_Some:
  "db_ok s \<Longrightarrow> mid \<in> ms_message_id ` set (messages s) \<Longrightarrow> receiptFor mid dup s \<noteq> None"
  by (simp add: receiptFor_def mapDelivery_Some)

lemma receiptFor_id: "receiptFor mid dup s = Some rc \<Longrightarrow> mr_messageId rc = mid \<and> mr_duplicate rc = dup"
  by (auto simp: receiptFor_def)

lemma findDuplicate_None:
  "findDuplicate p c s = None \<Longrightarrow> q \<in> set (messages s) \<Longrightarrow> \<not> (ms_sender_principal_id q = p \<and> ms_client_message_id q = c)"
  by (auto simp: findDuplicate_def find_None_iff)

lemma ok_new_message:
  assumes ok: "db_ok s" and ids: "ms_message_id m = new_id ''msg'' s" "dl_delivery_id d = new_id ''del'' (drawn s)"
    and "\<forall>q \<in> set (messages s). \<not> (ms_sender_principal_id q = ms_sender_principal_id m
        \<and> ms_client_message_id q = ms_client_message_id m)"
    and "ms_comm_session_id m \<noteq> None \<Longrightarrow> (ms_comm_session_id m, ms_sequence m) \<notin> set (session_sequence (messages s))"
    and "message_row_ok (principal_ids s) (set (comm_sessions s)) m"
    and "dl_message_id d = ms_message_id m" "dl_endpoint_id d = ms_target_endpoint_id m"
    and "\<forall>r \<in> set (comm_sessions s). ms_comm_session_id m = Some (cs_comm_session_id r) \<longrightarrow> \<not> ended_comm (cs_status r)"
  shows "db_ok (deliveries_update (\<lambda>t. t @ [d]) (messages_update (\<lambda>t. t @ [m]) (tick (drawn (drawn s)))))"
proof (rule ok_message_insert)
  let ?s = "tick (drawn (drawn s))"
  show "db_ok ?s" by (intro ok_intros ok)
  show "generated ''msg'' (rnd ?s) (draws ?s) (map ms_message_id (messages ?s) @ [ms_message_id m])"
    unfolding ids new_id_def by (simp, rule fresh_id[OF generated_ids(5)[OF ok] rnd_inj[OF ok], simplified]) simp_all
  show "generated ''del'' (rnd ?s) (draws ?s) (map dl_delivery_id (deliveries ?s) @ [dl_delivery_id d])"
    unfolding ids new_id_def by (simp, rule fresh_id[OF generated_ids(6)[OF ok] rnd_inj[OF ok], simplified]) simp_all
qed (use assms in simp_all)

lemma ok_new_inbox:
  assumes ok: "db_ok s" and "ib_inbox_item_id i = new_id ''inbox'' s"
    "ib_message_id i \<notin> ib_message_id ` set (inbox_items s)" "ib_message_id i \<in> ms_message_id ` set (messages s)"
    "ib_principal_id i \<in> principal_ids s"
  shows "db_ok (inbox_items_update (\<lambda>t. t @ [i]) (drawn s))"
proof (rule ok_inbox_insert)
  show "generated ''inbox'' (rnd (drawn s)) (draws (drawn s)) (map ib_inbox_item_id (inbox_items (drawn s)) @ [ib_inbox_item_id i])"
    unfolding assms(2) new_id_def by (simp, rule fresh_id[OF generated_ids(7)[OF ok] rnd_inj[OF ok], simplified]) simp_all
qed (use assms in \<open>auto intro: ok_drawn\<close>)

lemma new_message_id: "db_ok s \<Longrightarrow> new_id ''msg'' s \<notin> ms_message_id ` set (messages s)"
  using fresh_id[OF generated_ids(5) rnd_inj, of s "draws s" "Suc (draws s)"]
  by (auto simp: generated_def new_id_def)

lemma sendInbox_ok:
  assumes ok: "db_ok s" and auth: "known_auth auth s"
    and new: "findDuplicate (au_principalId auth) (sm_clientMessageId i) s = None"
  shows "db_ok (snd (sendInbox auth i k p h s))" "fst (sendInbox auth i k p h s) \<noteq> None"
proof -
  let ?m = "\<lparr>ms_message_id = new_id ''msg'' s, ms_client_message_id = sm_clientMessageId i,
                ms_request_hash = h, ms_comm_session_id = None,
                ms_sender_principal_id = au_principalId auth, ms_sender_device_id = Some (au_deviceId auth),
                ms_target_kind = Human_inbox, ms_target_principal_id = p,
                ms_target_endpoint_id = None, ms_target_session_handle = None, ms_kind = sm_kind i,
                ms_payload = sm_payload i, ms_reply_to = sm_replyTo i,
                ms_correlation_id = sm_correlationId i, ms_sequence = 1, ms_created_at = nowIso s,
                ms_expires_at = far_future\<rparr>"
  let ?d = "\<lparr>dl_delivery_id = new_id ''del'' (drawn s), dl_message_id = new_id ''msg'' s, dl_endpoint_id = None,
                dl_status = Inbox_persisted, dl_queued_at = nowIso s, dl_dispatched_at = None,
                dl_device_ack_received_at = None, dl_runtime_pending_at = None,
                dl_runtime_ack_received_at = None, dl_terminal_at = None, dl_result_code = None,
                dl_runtime_ack_id = None, dl_adapter_label = None\<rparr>"
  let ?s = "deliveries_update (\<lambda>t. t @ [?d]) (messages_update (\<lambda>t. t @ [?m]) (tick (drawn (drawn s))))"
  let ?i = "\<lparr>ib_inbox_item_id = new_id ''inbox'' ?s, ib_principal_id = p, ib_message_id = new_id ''msg'' s,
                ib_created_at = nowIso s\<rparr>"
  let ?t = "audit (au_principalId auth) ''message.inbox_persisted'' ''message'' (new_id ''msg'' s)
     [(''recipientPrincipalId'', JStr p), (''deliveryId'', JStr (new_id ''del'' (drawn s)))]
     (inbox_items_update (\<lambda>t. t @ [?i]) (drawn ?s))"
  have "db_ok ?t \<and> receiptFor (new_id ''msg'' s) False ?t \<noteq> None" if p: "principal_exists p s"
  proof -
    have 1: "db_ok ?s"
      using auth p findDuplicate_None[OF new]
      by (intro ok_new_message ok) (simp_all add: message_row_ok_def known_auth_def principal_exists_iff)
    have "ib_message_id ` set (inbox_items s) \<subseteq> ms_message_id ` set (messages s)"
      using ok by (auto simp: db_ok_def inbox_ok_def)
    with new_message_id[OF ok] p have "db_ok (inbox_items_update (\<lambda>t. t @ [?i]) (drawn ?s))"
      by (intro ok_new_inbox 1) (auto simp: principal_exists_iff principal_ids_def)
    then have "db_ok ?t" by (rule ok_audit)
    then show ?thesis by (simp add: receiptFor_Some)
  qed
  then show "db_ok (snd (sendInbox auth i k p h s))" "fst (sendInbox auth i k p h s) \<noteq> None"
    using ok by (auto simp: sendInbox_def Let_def)
qed

lemma mapCommunication_id: "co_id (mapCommunication r) = cs_comm_session_id r"
  by (simp add: mapCommunication_def)

lemma queue_message_ok:
  assumes ok: "db_ok s" and r: "r \<in> set (comm_sessions s)" and c: "c = mapCommunication r"
    and act: "cs_status r = Comm_active"
    and part: "au_principalId auth = cs_requester_principal_id r \<or> au_principalId auth = cs_recipient_principal_id r"
    and tgt: "t = grant_target auth c" "mt_endpointId t = Some ep" "mt_sessionHandle t = Some sh"
    and new: "findDuplicate (au_principalId auth) (sm_clientMessageId i) s = None"
  shows "db_ok (snd (queue_message auth i c t ep sh h s))" "fst (queue_message auth i c t ep sh h s) \<noteq> None"
proof -
  have row: "comm_row_ok (principal_ids s) (session_keys s) r" by (rule comm_row[OF ok r])
  then obtain g where g: "cs_grant_expires_at r = Some g" "co_grantExpiresAt c = Some g"
    using act by (auto simp: comm_row_ok_def granted_def comm_grant_def c mapCommunication_def)
  let ?seq = "next_sequence (cs_comm_session_id r) (tick (drawn (drawn s)))"
  have seq: "?seq = next_sequence (cs_comm_session_id r) s" by (simp add: next_sequence_def)
  let ?m = "\<lparr>ms_message_id = new_id ''msg'' s, ms_client_message_id = sm_clientMessageId i,
                ms_request_hash = h, ms_comm_session_id = Some (cs_comm_session_id r),
                ms_sender_principal_id = au_principalId auth, ms_sender_device_id = Some (au_deviceId auth),
                ms_target_kind = mt_kind t, ms_target_principal_id = mt_principalId t,
                ms_target_endpoint_id = Some ep, ms_target_session_handle = Some sh,
                ms_kind = sm_kind i, ms_payload = sm_payload i, ms_reply_to = sm_replyTo i,
                ms_correlation_id = sm_correlationId i, ms_sequence = ?seq, ms_created_at = nowIso s,
                ms_expires_at = g\<rparr>"
  let ?d = "\<lparr>dl_delivery_id = new_id ''del'' (drawn s), dl_message_id = new_id ''msg'' s, dl_endpoint_id = Some ep,
                dl_status = Queued, dl_queued_at = nowIso s, dl_dispatched_at = None,
                dl_device_ack_received_at = None, dl_runtime_pending_at = None,
                dl_runtime_ack_received_at = None, dl_terminal_at = None, dl_result_code = None,
                dl_runtime_ack_id = None, dl_adapter_label = None\<rparr>"
  let ?s = "deliveries_update (\<lambda>t. t @ [?d]) (messages_update (\<lambda>t. t @ [?m]) (tick (drawn (drawn s))))"
  have carried: "carried_by r ?m"
    using part tgt g by (auto simp: carried_by_def grant_target_def c mapCommunication_def keep_truthy_Some_iff)
  have P: "cs_requester_principal_id r \<in> principal_ids s" "cs_recipient_principal_id r \<in> principal_ids s"
    using row by (simp_all add: comm_row_ok_def)
  have 1: "db_ok ?s"
  proof (rule ok_new_message[OF ok])
    show "message_row_ok (principal_ids s) (set (comm_sessions s)) ?m"
      using carried r P by (auto simp: message_row_ok_def carried_by_def)
    show "\<forall>q\<in>set (comm_sessions s). ms_comm_session_id ?m = Some (cs_comm_session_id q) \<longrightarrow> \<not> ended_comm (cs_status q)"
      using comm_row_unique[OF ok r] act by (auto simp: ended_comm_def)
  qed (use findDuplicate_None[OF new] next_sequence_fresh in \<open>simp_all add: seq\<close>)
  have ep: "ep \<in> endpoint_ids ?s"
  proof -
    from carried row act have "(sh, ep, cs_recipient_principal_id r) \<in> session_keys s
        \<or> (sh, ep, cs_requester_principal_id r) \<in> session_keys s"
      by (auto simp: carried_by_def comm_row_ok_def granted_def comm_grant_def)
    with ok have "ep \<in> endpoint_ids s" by (auto dest: session_principal)
    then show ?thesis by (simp add: endpoint_ids_def)
  qed
  note 2 = ok_append_event[OF 1 ep]
  have rc: "receiptFor (new_id ''msg'' s) False u \<noteq> None" if "db_ok u" "messages u = messages ?s" for u
    using that by (simp add: receiptFor_Some)
  show "db_ok (snd (queue_message auth i c t ep sh h s))" "fst (queue_message auth i c t ep sh h s) \<noteq> None"
    unfolding queue_message_def Let_def
    by (simp_all add: g(2)[unfolded c] c mapCommunication_id ok_wake ok_audit 2 rc)
qed

lemma if4: "Q x \<Longrightarrow> Q y \<Longrightarrow> Q z \<Longrightarrow> Q w \<Longrightarrow> Q (if a then x else if b then y else if c then z else w)"
  by simp

lemma sendGrantScoped_ok:
  assumes ok: "db_ok s" and new: "findDuplicate (au_principalId auth) (sm_clientMessageId i) s = None"
  shows "db_ok (snd (sendGrantScoped auth i sid h s))" "fst (sendGrantScoped auth i sid h s) \<noteq> None"
proof -
  let ?s = "snd (requireActive (au_principalId auth) sid s)"
  have ok1: "db_ok ?s" by (rule ok_requireActive[OF ok])
  have new1: "findDuplicate (au_principalId auth) (sm_clientMessageId i) ?s = None"
    using new by (simp add: findDuplicate_def kept_messages(1)[OF kept_requireActive])
  have "db_ok (snd (sendGrantScoped auth i sid h s)) \<and> fst (sendGrantScoped auth i sid h s) \<noteq> None"
  proof (cases "fst (requireActive (au_principalId auth) sid s)")
    case (Ok c)
    from requireActive_Ok[OF Ok] obtain r where r: "find_comm sid ?s = Some r" "c = mapCommunication r"
      "au_principalId auth = cs_requester_principal_id r \<or> au_principalId auth = cs_recipient_principal_id r"
      "cs_status r = Comm_active" .
    note q = queue_message_ok[OF ok1 conjunct1[OF find_comm_in[OF r(1)]] r(2,4,3) refl _ _ new1]
    have sp: "sendGrantScoped auth i sid h s =
       (if \<not> reply_in_session (sm_replyTo i) (co_id c) ?s then (Some (Failure Wrong_target 409), ?s)
        else if au_principalId auth \<noteq> co_requesterPrincipalId c \<and> au_principalId auth \<noteq> co_recipientPrincipalId c
        then (Some (Failure Wrong_participant 403), ?s)
        else if \<not> truthy (mt_endpointId (grant_target auth c)) \<or> \<not> truthy (mt_sessionHandle (grant_target auth c))
        then (Some (Failure Wrong_target 409), ?s)
        else queue_message auth i c (grant_target auth c) (or_else (mt_endpointId (grant_target auth c)) [])
                 (or_else (mt_sessionHandle (grant_target auth c)) []) h ?s)"
      using Ok by (simp add: sendGrantScoped_def split_def Let_def)
    show ?thesis
    proof (cases "truthy (mt_endpointId (grant_target auth c)) \<and> truthy (mt_sessionHandle (grant_target auth c))")
      case True
      then obtain ep sh where e: "mt_endpointId (grant_target auth c) = Some ep" "mt_sessionHandle (grant_target auth c) = Some sh"
        by (cases "mt_endpointId (grant_target auth c)"; cases "mt_sessionHandle (grant_target auth c)") auto
      show ?thesis unfolding sp e or_else_simps
        by (rule if4[where Q = "\<lambda>x. db_ok (snd x) \<and> fst x \<noteq> None"]) (simp_all only: fst_conv snd_conv ok1 q[OF e], simp_all)
    next
      case False with ok1 show ?thesis unfolding sp by simp
    qed
  qed (use ok1 in \<open>simp add: sendGrantScoped_def split_def\<close>)
  then show "db_ok (snd (sendGrantScoped auth i sid h s))" "fst (sendGrantScoped auth i sid h s) \<noteq> None" by blast+
qed

lemma findDuplicate_Some:
  "findDuplicate p c s = Some m \<Longrightarrow> m \<in> set (messages s) \<and> ms_sender_principal_id m = p \<and> ms_client_message_id m = c"
  by (auto simp: findDuplicate_def dest!: find_SomeD)

lemma send_ok:
  assumes ok: "db_ok s" and auth: "known_auth auth s"
  shows "db_ok (snd (send auth i s))" "fst (send auth i s) \<noteq> None"
proof -
  have "db_ok (snd (send auth i s)) \<and> fst (send auth i s) \<noteq> None"
  proof (cases "findDuplicate (au_principalId auth) (sm_clientMessageId i) s")
    case None
    with sendInbox_ok[OF ok auth None] sendGrantScoped_ok[OF ok None] ok show ?thesis
      by (simp add: send_def Let_def split: SendScope.split)
  next
    case (Some m)
    with findDuplicate_Some[OF Some] ok receiptFor_Some[OF ok, of "ms_message_id m" True] show ?thesis
      by (auto simp: send_def Let_def)
  qed
  then show "db_ok (snd (send auth i s))" "fst (send auth i s) \<noteq> None" by blast+
qed

lemma ack_update_ok:
  "delivery_key (ack_update i v now d) = delivery_key d"
  "\<not> open_delivery (dl_status d) \<Longrightarrow> ack_update i v now d = d"
  by (auto simp: ack_update_def delivery_key_def open_delivery_def split: AckPhase.splits)

lemma ok_acknowledge [ok_intros]: "db_ok s \<Longrightarrow> db_ok (snd (acknowledge auth mid i s))"
  by (auto simp: acknowledge_def Let_def split_def ack_update_ok dest!: find_SomeD
      split: op_split intro!: ok_intros ok_attempt_insert ok_deliveries_update)

lemma ok_validateInjection [ok_intros]: "db_ok s \<Longrightarrow> db_ok (snd (validateInjection auth i s))"
  by (auto simp: validateInjection_def validate_message_def Let_def split_def split: op_split intro!: ok_intros)

lemma markDispatched_ok:
  assumes ok: "db_ok s"
  shows "db_ok (snd (markDispatched mid s))" "fst (markDispatched mid s) \<noteq> None"
proof -
  let ?P = "\<lambda>d. dl_message_id d = mid \<and> dl_status d = Queued"
  show "db_ok (snd (markDispatched mid s))"
    using ok by (auto simp: markDispatched_def Let_def delivery_key_def open_delivery_def
        split: option.splits intro!: ok_intros ok_deliveries_update)
  have "changes ?P (deliveries s) \<noteq> 0 \<Longrightarrow> mid \<in> ms_message_id ` set (messages s)"
    using delivery_message_iff[OF ok] by (auto simp: changes_zero_iff)
  then have "changes ?P (deliveries s) = 0 \<or> (\<exists>m. List.find (\<lambda>m. ms_message_id m = mid) (messages s) = Some m)"
    unfolding find_isSome by auto
  then show "fst (markDispatched mid s) \<noteq> None"
    by (auto simp: markDispatched_def Let_def split: option.splits)
qed

lemma getStatus_ok:
  assumes "db_ok s" shows "getStatus p mid s \<noteq> None"
  using mapDelivery_Some[OF assms, of mid]
  by (auto simp: getStatus_def split: option.splits dest!: find_SomeD)

lemma envelopeFor_Some: "mid \<in> ms_message_id ` set (messages s) \<Longrightarrow> envelopeFor mid s \<noteq> None"
proof -
  assume "mid \<in> ms_message_id ` set (messages s)"
  then have "\<exists>m. List.find (\<lambda>m. ms_message_id m = mid) (messages s) = Some m" unfolding find_isSome by auto
  then show ?thesis by (auto simp: envelopeFor_def)
qed

lemma listInbox_ok:
  assumes "db_ok s" "x \<in> set (listInbox p s)" shows "fst x \<noteq> None" "snd x \<noteq> None"
proof -
  from assms(2) obtain i where "i \<in> set (inbox_items s)"
    "x = (envelopeFor (ib_message_id i) s, mapDelivery (ib_message_id i) s)"
    by (auto simp: listInbox_def)
  moreover from this(1) assms(1) have "ib_message_id i \<in> ms_message_id ` set (messages s)"
    by (auto simp: db_ok_def inbox_ok_def)
  ultimately show "fst x \<noteq> None" "snd x \<noteq> None"
    using envelopeFor_Some mapDelivery_Some[OF assms(1)] by auto
qed

section \<open>Delegations\<close>

definition sent_as :: "AuthContext \<Rightarrow> SendMessageInput \<Rightarrow> MessageReceipt ServiceResult option \<times> cp \<Rightarrow> bool" where
  "sent_as auth i x = (case fst x of
     Some (Ok rc) \<Rightarrow> (\<exists>m \<in> set (messages (snd x)). ms_message_id m = mr_messageId rc
        \<and> ms_sender_principal_id m = au_principalId auth \<and> ms_client_message_id m = sm_clientMessageId i)
   | _ \<Rightarrow> True)"

lemma sent_as_failure [simp]: "sent_as auth i (Some (Failure c n), s)" "sent_as auth i (None, s)"
  by (simp_all add: sent_as_def)

lemma sent_as_receipt:
  assumes "\<exists>m \<in> set (messages s). ms_message_id m = mid \<and> ms_sender_principal_id m = au_principalId auth
     \<and> ms_client_message_id m = sm_clientMessageId i"
  shows "sent_as auth i (map_option Ok (receiptFor mid dup s), s)"
  using assms by (auto simp: sent_as_def dest!: receiptFor_id split: option.splits ServiceResult.splits)

lemma sent_as_queue: "sent_as auth i (queue_message auth i c t ep sh h s)"
  by (cases "co_grantExpiresAt c") (auto simp: queue_message_def Let_def intro!: sent_as_receipt)

lemma sent_as_inbox: "sent_as auth i (sendInbox auth i k p h s)"
  by (auto simp: sendInbox_def Let_def intro!: sent_as_receipt)

lemma sent_as_grant: "sent_as auth i (sendGrantScoped auth i sid h s)"
  by (simp add: sendGrantScoped_def split_def Let_def sent_as_queue split: ServiceResult.split)

lemma send_Ok: "sent_as auth i (send auth i s)"
proof (cases "findDuplicate (au_principalId auth) (sm_clientMessageId i) s")
  case None
  then show ?thesis
    by (simp add: send_def Let_def sent_as_inbox sent_as_grant split: SendScope.split)
next
  case (Some m)
  with findDuplicate_Some[OF Some] show ?thesis
    by (auto simp: send_def Let_def intro!: sent_as_receipt)
qed

lemma ok_insert_delegation:
  assumes ok: "db_ok s" and "find_delegation p (dg_clientMessageId i) s = None" "p \<in> principal_ids s" "sid \<in> comm_ids s"
  shows "db_ok (insert_delegation p i h sid s)"
  using assms
  by (auto simp: insert_delegation_def Let_def delegation_key_def find_delegation_def find_None_iff
      db_ok_def[of s] delegations_ok_def intro!: ok_delegations_change ok_tick) blast

lemma ok_upsertDelegated:
  assumes ok: "db_ok s" and "p \<in> principal_ids s" "sid \<in> comm_ids s"
    and m: "\<exists>m \<in> set (messages s). ms_message_id m = mid \<and> ms_sender_principal_id m = p
       \<and> ms_client_message_id m = dg_clientMessageId i"
  shows "db_ok (upsertDelegated p i h sid mid s)"
proof -
  let ?f = "\<lambda>d. d\<lparr>ld_comm_session_id := Some sid, ld_message_id := Some mid, ld_status := Del_delegated, ld_updated_at := nowIso s\<rparr>"
  have k: "map delegation_key (update_where P ?f t) = map delegation_key t" for P t
    by (rule map_update_where) (simp add: delegation_key_def)
  from ok have L: "delegations_ok (principal_ids s) (comm_ids s) (set (messages s)) (local_agent_delegations s)"
    by (simp add: db_ok_def)
  show ?thesis unfolding upsertDelegated_def Let_def
    using L assms
    by (intro ok_delegations_change ok_tick ok)
       (auto simp: upsert_def delegations_ok_def set_update_where k delegation_key_def)
qed

lemma sendInvite_ok:
  assumes ok: "db_ok s" and auth: "known_auth auth s" and c: "co_id c \<in> comm_ids s"
  shows "db_ok (snd (sendInvite auth i c h d s))" "fst (sendInvite auth i c h d s) \<noteq> None"
proof -
  let ?s = "snd (send auth (invite_of i (co_id c)) s)"
  note ok1 = send_ok(1)[OF ok auth, of "invite_of i (co_id c)"]
  have le: "cp_le s ?s" by (rule le_send) simp
  have 1: "au_principalId auth \<in> principal_ids ?s" "co_id c \<in> comm_ids ?s"
    using auth c later_ids[OF le] by (auto simp: known_auth_def)
  have "db_ok (upsertDelegated (au_principalId auth) i h (co_id c) (mr_messageId rc) ?s)"
    if "fst (send auth (invite_of i (co_id c)) s) = Some (Ok rc)" for rc
    using that send_Ok[of auth "invite_of i (co_id c)" s]
    by (intro ok_upsertDelegated ok1 1) (simp add: invite_of_def sent_as_def)
  with ok1 send_ok(2)[OF ok auth, of "invite_of i (co_id c)"]
  show "db_ok (snd (sendInvite auth i c h d s))" "fst (sendInvite auth i c h d s) \<noteq> None"
    by (auto simp: sendInvite_def split_def Let_def split: op_split)
qed

lemma visible_comm_id:
  assumes "fst (getVisible p sid s) = Ok v" shows "co_id v \<in> comm_ids (snd (getVisible p sid s))"
proof -
  from getVisible_Ok[OF assms] obtain r where "find_comm sid (snd (getVisible p sid s)) = Some r" "v = mapCommunication r" .
  then show ?thesis by (auto simp: comm_ids_def mapCommunication_id dest: find_comm_in)
qed

lemma resumeExisting_ok:
  assumes ok: "db_ok s" and auth: "known_auth auth s" and e: "e \<in> set (local_agent_delegations s)"
  shows "db_ok (snd (resumeExisting auth i e s))" "fst (resumeExisting auth i e s) \<noteq> None"
proof -
  let ?v = "\<lambda>sid. getVisible (au_principalId auth) sid s"
  have okv: "db_ok (snd (?v sid))" for sid by (rule ok_getVisible[OF ok])
  have le: "cp_le s (snd (?v sid))" for sid by (rule le_getVisible) simp
  have receipt: "delegation_receipt mid True (snd (?v sid)) \<noteq> None" if "ld_message_id e = Some mid" for mid sid
  proof -
    from ok e that have "mid \<in> ms_message_id ` set (messages s)"
      by (auto simp: db_ok_def delegations_ok_def split: option.splits dest!: bspec)
    then have "mid \<in> dl_message_id ` set (deliveries (snd (?v sid)))"
      by (simp only: delivery_message_iff[OF okv] kept_messages(1)[OF kept_getVisible])
    then have "\<exists>d \<in> set (deliveries (snd (?v sid))). dl_message_id d = mid" by auto
    then show ?thesis unfolding delegation_receipt_def find_isSome[symmetric] by auto
  qed
  note invite = sendInvite_ok[OF okv known_later[OF le auth] visible_comm_id]
  show "db_ok (snd (resumeExisting auth i e s))"
    using ok okv invite(1) by (auto simp: resumeExisting_def split_def split: op_split)
  show "fst (resumeExisting auth i e s) \<noteq> None"
    using receipt invite(2)
    by (cases "ld_message_id e") (auto simp: resumeExisting_def split_def split: op_split)
qed

lemma list_comms_ids:
  assumes "c \<in> set (fst (list_comms p s))" shows "co_id c \<in> comm_ids (snd (list_comms p s))"
proof -
  let ?I = "\<lambda>a :: CommunicationSession list \<times> cp. \<forall>c \<in> set (fst a). co_id c \<in> comm_ids (snd a)"
  have "?I (list_comms p s)"
    unfolding list_comms_def Let_def split_def
  proof (rule fold_inv[where I = ?I])
    fix row a assume a: "?I a"
    have "comm_ids (snd a) \<subseteq> comm_ids (snd (getVisible p (cs_comm_session_id row) (snd a)))"
      by (rule later_ids(4), rule le_getVisible) simp
    with a visible_comm_id[of p "cs_comm_session_id row" "snd a"] show "?I (fst a @ (case fst (getVisible p (cs_comm_session_id row) (snd a)) of
        Ok v \<Rightarrow> [v] | Failure x xa \<Rightarrow> []), snd (getVisible p (cs_comm_session_id row) (snd a)))"
      by (auto split: ServiceResult.splits)
  qed simp
  with assms show ?thesis by blast
qed

lemma delegate_ok:
  assumes ok: "db_ok s" and auth: "known_auth auth s"
  shows "db_ok (snd (delegate auth i s))" "fst (delegate auth i s) \<noteq> None"
proof -
  let ?p = "au_principalId auth"
  have "db_ok (snd (delegate auth i s)) \<and> fst (delegate auth i s) \<noteq> None"
  proof (cases "find_delegation ?p (dg_clientMessageId i) s")
    case (Some e)
    then have "e \<in> set (local_agent_delegations s)" by (auto simp: find_delegation_def dest: find_SomeD)
    with Some ok resumeExisting_ok[OF ok auth this] show ?thesis by (simp add: delegate_def Let_def)
  next
    case None
    let ?l = "findActiveGrant ?p i s"
    have l: "db_ok (snd ?l)" "kept (snd ?l) = kept s" "cp_le s (snd ?l)"
      using ok by (auto simp: findActiveGrant_def Let_def split_def intro: ok_list_comms le_list_comms)
    have act: "co_id c \<in> comm_ids (snd ?l)" if "fst ?l = Some c" for c
      using that list_comms_ids[of c ?p s]
      by (auto simp: findActiveGrant_def Let_def split_def dest!: find_SomeD)
    note invite = sendInvite_ok[OF l(1) known_later[OF l(3) auth] act]
    have new: "db_ok (insert_delegation ?p i h (co_id c) (snd (comm_request auth r (snd ?l))))"
      if "fst (comm_request auth r (snd ?l)) = Ok c" for c r h
    proof (rule ok_insert_delegation)
      show "db_ok (snd (comm_request auth r (snd ?l)))" by (rule ok_comm_request[OF l(1)])
      have k: "kept (snd (comm_request auth r (snd ?l))) = kept s" using l(2) by simp
      show "find_delegation ?p (dg_clientMessageId i) (snd (comm_request auth r (snd ?l))) = None"
        using None by (simp add: find_delegation_def kept_messages(2)[OF k])
      have "cp_le s (snd (comm_request auth r (snd ?l)))" by (rule le_comm_request[OF l(3)])
      from known_later[OF this auth] show "?p \<in> principal_ids (snd (comm_request auth r (snd ?l)))"
        by (simp add: known_auth_def)
      from that visible_comm_id show "co_id c \<in> comm_ids (snd (comm_request auth r (snd ?l)))"
        by (fastforce simp: comm_request_def Let_def split_def split: op_split)
    qed
    have ok2: "db_ok (snd (comm_request auth r (snd ?l)))" for r by (rule ok_comm_request[OF l(1)])
    from None invite new ok ok2 show ?thesis
      by (auto simp: delegate_def Let_def split_def split: op_split)
  qed
  then show "db_ok (snd (delegate auth i s))" "fst (delegate auth i s) \<noteq> None" by blast+
qed

end
