(* ===== verification/Zod.thy ===== *)
theory Zod
  imports Prelude
begin

text \<open>
  The schema combinators of the \<^verbatim>\<open>zod\<close> library that the sources build their schemas
  from, as functions on parsed JSON; \<open>None\<close> is a rejected value. An object of parsed JSON
  has one member per key.
\<close>

definition z_string :: "nat \<Rightarrow> json \<Rightarrow> string option" where
  "z_string least j = (case j of JStr s \<Rightarrow> if least \<le> length s then Some s else None | _ \<Rightarrow> None)"

definition z_string_max :: "nat \<Rightarrow> nat \<Rightarrow> json \<Rightarrow> string option" where
  "z_string_max least most j = (case z_string least j of
     None \<Rightarrow> None | Some s \<Rightarrow> if length s \<le> most then Some s else None)"

definition z_bool :: "json \<Rightarrow> bool option" where
  "z_bool j = (case j of JBool b \<Rightarrow> Some b | _ \<Rightarrow> None)"

definition z_positive :: "int \<Rightarrow> json \<Rightarrow> int option" where
  "z_positive most j = (case j of JNum n \<Rightarrow> if 0 < n \<and> n \<le> most then Some n else None | _ \<Rightarrow> None)"

definition z_record :: "json \<Rightarrow> (string \<times> json) list option" where
  "z_record j = (case j of JObj kvs \<Rightarrow> Some kvs | _ \<Rightarrow> None)"

definition z_enum :: "(string \<times> 'a) list \<Rightarrow> json \<Rightarrow> 'a option" where
  "z_enum table j = (case j of JStr s \<Rightarrow> map_of table s | _ \<Rightarrow> None)"

fun z_array :: "(json \<Rightarrow> 'a option) \<Rightarrow> json list \<Rightarrow> 'a list option" where
  "z_array f [] = Some []"
| "z_array f (j # js) = (case f j of None \<Rightarrow> None
     | Some v \<Rightarrow> (case z_array f js of None \<Rightarrow> None | Some vs \<Rightarrow> Some (v # vs)))"

definition member_of :: "json \<Rightarrow> string \<Rightarrow> json option" where
  "member_of j k = (case j of JObj kvs \<Rightarrow> map_of kvs k | _ \<Rightarrow> None)"

definition required :: "(json \<Rightarrow> 'a option) \<Rightarrow> string \<Rightarrow> json \<Rightarrow> 'a option" where
  "required f k j = (case member_of j k of None \<Rightarrow> None | Some v \<Rightarrow> f v)"

text \<open>\<^verbatim>\<open>.optional()\<close>: an absent member is accepted.\<close>

definition optional :: "(json \<Rightarrow> 'a option) \<Rightarrow> string \<Rightarrow> json \<Rightarrow> 'a option option" where
  "optional f k j = (case member_of j k of None \<Rightarrow> Some None | Some v \<Rightarrow> map_option Some (f v))"

definition is_object :: "json \<Rightarrow> bool" where
  "is_object j = (case j of JObj _ \<Rightarrow> True | _ \<Rightarrow> False)"

text \<open>\<^verbatim>\<open>z.string().trim().min(1)\<close>: the parsed value is the trimmed one.\<close>

definition z_nonblank :: "json \<Rightarrow> string option" where
  "z_nonblank j = (case j of JStr s \<Rightarrow> if trim s = [] then None else Some (trim s) | _ \<Rightarrow> None)"

text \<open>A string on which a test holds: \<^verbatim>\<open>.regex\<close>, \<^verbatim>\<open>.datetime\<close>.\<close>

definition z_string_that :: "(string \<Rightarrow> bool) \<Rightarrow> json \<Rightarrow> string option" where
  "z_string_that P j = (case j of JStr s \<Rightarrow> if P s then Some s else None | _ \<Rightarrow> None)"

definition z_int :: "(int \<Rightarrow> bool) \<Rightarrow> json \<Rightarrow> int option" where
  "z_int P j = (case j of JNum n \<Rightarrow> if P n then Some n else None | _ \<Rightarrow> None)"

definition z_list :: "(json \<Rightarrow> 'a option) \<Rightarrow> json \<Rightarrow> 'a list option" where
  "z_list f j = (case j of JArr js \<Rightarrow> z_array f js | _ \<Rightarrow> None)"

text \<open>\<^verbatim>\<open>z.record(z.string(), f)\<close>.\<close>

fun z_members :: "(json \<Rightarrow> 'a option) \<Rightarrow> (string \<times> json) list \<Rightarrow> (string \<times> 'a) list option" where
  "z_members f [] = Some []"
| "z_members f ((k, j) # kvs) = (case f j of None \<Rightarrow> None
     | Some v \<Rightarrow> (case z_members f kvs of None \<Rightarrow> None | Some vs \<Rightarrow> Some ((k, v) # vs)))"

definition z_map :: "(json \<Rightarrow> 'a option) \<Rightarrow> json \<Rightarrow> (string \<times> 'a) list option" where
  "z_map f j = (case j of JObj kvs \<Rightarrow> z_members f kvs | _ \<Rightarrow> None)"

text \<open>\<^verbatim>\<open>.default(d)\<close>: an absent member has the value \<open>d\<close>.\<close>

definition with_default :: "'a \<Rightarrow> (json \<Rightarrow> 'a option) \<Rightarrow> string \<Rightarrow> json \<Rightarrow> 'a option" where
  "with_default d f k j = (case member_of j k of None \<Rightarrow> Some d | Some v \<Rightarrow> f v)"

text \<open>\<^verbatim>\<open>.strict()\<close>: no members but the named ones.\<close>

definition strict :: "string list \<Rightarrow> json \<Rightarrow> bool" where
  "strict ks j = (case j of JObj kvs \<Rightarrow> list_all (\<lambda>(k, v). k \<in> set ks) kvs | _ \<Rightarrow> False)"

section \<open>Accepted values\<close>

lemma trim_idem [simp]: "trim (trim s) = trim s"
proof -
  have drop: "dropWhile P (dropWhile P xs) = dropWhile P xs" for P :: "char \<Rightarrow> bool" and xs
    by (induction xs) auto
  have keep: "dropWhile P (rev (dropWhile P xs)) = rev (dropWhile P xs)"
    if "dropWhile P (rev xs) = rev xs" for P :: "char \<Rightarrow> bool" and xs
  proof (cases "dropWhile P xs = []")
    case False
    with that obtain a as where "rev xs = a # as" "\<not> P a"
      by (metis Nil_is_rev_conv dropWhile.simps(1) hd_dropWhile list.exhaust_sel)
    moreover obtain pre where "xs = pre @ dropWhile P xs" by (metis takeWhile_dropWhile_id)
    ultimately have "hd (rev (dropWhile P xs)) = a"
      using False by (metis append_is_Nil_conv hd_append2 list.sel(1) rev_append rev_is_Nil_conv)
    with \<open>\<not> P a\<close> False show ?thesis
      by (metis dropWhile.simps(2) list.exhaust_sel rev_is_Nil_conv)
  next
    case True
    show ?thesis unfolding True by simp
  qed
  show ?thesis
    unfolding trim_def using keep[of js_space "rev (dropWhile js_space s)"] drop by simp
qed

lemma z_string_that_Some: "z_string_that P j = Some s \<longleftrightarrow> j = JStr s \<and> P s"
  by (auto simp: z_string_that_def split: json.splits)

lemma z_nonblank_Some: "z_nonblank j = Some s \<longleftrightarrow> (\<exists>r. j = JStr r \<and> s = trim r \<and> s \<noteq> [])"
  by (auto simp: z_nonblank_def split: json.splits)

lemma z_int_Some: "z_int P j = Some n \<longleftrightarrow> j = JNum n \<and> P n"
  by (auto simp: z_int_def split: json.splits)

lemma z_enum_Some: "z_enum table j = Some v \<longleftrightarrow> (\<exists>s. j = JStr s \<and> map_of table s = Some v)"
  by (auto simp: z_enum_def split: json.splits)

lemma z_list_Some: "z_list f j = Some vs \<longleftrightarrow> (\<exists>js. j = JArr js \<and> z_array f js = Some vs)"
  by (auto simp: z_list_def split: json.splits)

lemma required_Some: "required f k j = Some v \<longleftrightarrow> (\<exists>x. member_of j k = Some x \<and> f x = Some v)"
  by (auto simp: required_def split: option.splits)

lemma optional_Some: "optional f k j = Some x \<longleftrightarrow>
    (member_of j k = None \<and> x = None) \<or> (\<exists>y v. member_of j k = Some y \<and> f y = Some v \<and> x = Some v)"
  by (auto simp: optional_def split: option.splits)

lemma with_default_Some: "with_default d f k j = Some v \<longleftrightarrow>
    (member_of j k = None \<and> v = d) \<or> (\<exists>y. member_of j k = Some y \<and> f y = Some v)"
  by (auto simp: with_default_def split: option.splits)

lemmas zod_Some = z_string_that_Some z_nonblank_Some z_int_Some z_enum_Some z_list_Some
  required_Some optional_Some with_default_Some

lemma z_array_all:
  "z_array f js = Some vs \<Longrightarrow> (\<And>j v. f j = Some v \<Longrightarrow> P v) \<Longrightarrow> \<forall>v \<in> set vs. P v"
  by (induction js arbitrary: vs) (auto split: option.splits)

lemma z_array_map:
  "(\<And>v. v \<in> set vs \<Longrightarrow> f (g v) = Some v) \<Longrightarrow> z_array f (map g vs) = Some vs"
  by (induction vs) auto

text \<open>Rendered members: looking a key up in a literal object.\<close>

lemma member_of_simps [simp]:
  "member_of (JObj []) k = None"
  "member_of (JObj ((k', v) # kvs)) k = (if k = k' then Some v else member_of (JObj kvs) k)"
  by (simp_all add: member_of_def)

end
