(* ===== verification/App.thy ===== *)
theory App
  imports Integrity Zod
begin

text \<open>
  The HTTP surface of the control plane (\<^verbatim>\<open>src/control-plane/app.ts\<close>): the request
  schemas, one handler per route, bearer authentication in front of them, and the
  status codes. Path matching is the router's; a route is a constructor with its path
  parameters. A service exception (\<open>None\<close>) is the framework's status 500.
\<close>

section \<open>Request schemas\<close>

text \<open>
  The schemas as functions on parsed JSON; \<open>None\<close> is a rejected body. Object members
  that the schema does not name are dropped.
\<close>

definition endpointSchema :: "json \<Rightarrow> RegisterEndpointInput option" where
  "endpointSchema j =
     (case (required (z_enum [(''claude-code'', Claude_code), (''codex'', Codex)]) ''runtime'' j,
            required (z_string 1) ''bridgeVersion'' j, required (z_string 1) ''adapterVersion'' j,
            required (\<lambda>v. case v of JArr js \<Rightarrow> z_array (z_string 0) js | _ \<Rightarrow> None) ''capabilities'' j) of
        (Some rt, Some bv, Some av, Some caps) \<Rightarrow>
          Some \<lparr>ri_runtime = rt, ri_bridgeVersion = bv, ri_adapterVersion = av, ri_capabilities = caps\<rparr>
      | _ \<Rightarrow> None)"

definition capabilitiesSchema :: "json \<Rightarrow> SessionCapabilities option" where
  "capabilitiesSchema j =
     (case (required z_bool ''liveInject'' j, required z_bool ''midTurnSteer'' j, required z_bool ''replyEvents'' j) of
        (Some l, Some m, Some r) \<Rightarrow> Some \<lparr>sc_liveInject = l, sc_midTurnSteer = m, sc_replyEvents = r\<rparr>
      | _ \<Rightarrow> None)"

definition sessionSchema :: "json \<Rightarrow> RegisterRuntimeSessionInput option" where
  "sessionSchema j =
     (case (required (z_string_max 1 200) ''label'' j,
            required (z_enum [(''idle'', Idle), (''busy'', Busy)]) ''state'' j,
            required (z_enum [(''managed_stream'', ''managed_stream'')]) ''deliveryMode'' j,
            required capabilitiesSchema ''capabilities'' j, required z_bool ''allowInbound'' j,
            required z_bool ''allowMidTurnSteer'' j) of
        (Some l, Some st, Some dm, Some c, Some inb, Some steer) \<Rightarrow>
          Some \<lparr>si_label = l, si_state = st, si_deliveryMode = dm, si_capabilities = c,
                si_allowInbound = inb, si_allowMidTurnSteer = steer\<rparr>
      | _ \<Rightarrow> None)"

definition patchSchema :: "json \<Rightarrow> SessionPatch option" where
  "patchSchema j =
     (if \<not> is_object j then None else
      case (optional (z_enum [(''idle'', Idle), (''busy'', Busy), (''closed'', Closed)]) ''state'' j,
            optional z_bool ''allowInbound'' j, optional z_bool ''allowMidTurnSteer'' j) of
        (Some st, Some inb, Some steer) \<Rightarrow>
          Some \<lparr>sp_state = st, sp_allowInbound = inb, sp_allowMidTurnSteer = steer\<rparr>
      | _ \<Rightarrow> None)"

definition routeSchema :: "json \<Rightarrow> (string \<times> string) option" where
  "routeSchema j = (case (required (z_string 0) ''endpointId'' j, required (z_string 0) ''sessionHandle'' j) of
     (Some e, Some h) \<Rightarrow> Some (e, h) | _ \<Rightarrow> None)"

definition offerSchema :: "json \<Rightarrow> (string \<times> string \<times> string \<times> int option) option" where
  "offerSchema j =
     (case (required (z_string 0) ''endpointId'' j, required (z_string 0) ''sessionHandle'' j,
            required (z_string 0) ''audiencePrincipalId'' j, optional (z_positive 3600) ''ttlSeconds'' j) of
        (Some e, Some h, Some a, Some t) \<Rightarrow> Some (e, h, a, t)
      | _ \<Rightarrow> None)"

text \<open>The discriminated union on \<^verbatim>\<open>kind\<close>.\<close>

definition targetSchema :: "json \<Rightarrow> RequestTarget option" where
  "targetSchema j =
     (case required (z_enum [(''person_default_runtime'', Person_default_runtime), (''runtime_session'', Runtime_session)])
             ''kind'' j of
        Some Person_default_runtime \<Rightarrow>
          map_option (\<lambda>p. \<lparr>qt_kind = Person_default_runtime, qt_principalId = p, qt_targetOfferId = None\<rparr>)
            (required (z_string 1) ''principalId'' j)
      | Some Runtime_session \<Rightarrow>
          (case (required (z_string 1) ''principalId'' j, required (z_string 1) ''targetOfferId'' j) of
             (Some p, Some oid) \<Rightarrow> Some \<lparr>qt_kind = Runtime_session, qt_principalId = p, qt_targetOfferId = Some oid\<rparr>
           | _ \<Rightarrow> None)
      | _ \<Rightarrow> None)"

definition requestCommSchema :: "json \<Rightarrow> RequestCommunicationSessionInput option" where
  "requestCommSchema j =
     (case (required targetSchema ''target'' j, required (z_string 1) ''replyEndpointId'' j,
            required (z_string 1) ''replySessionHandle'' j, optional (z_positive 30) ''requestedTtlMinutes'' j) of
        (Some t, Some e, Some h, Some ttl) \<Rightarrow>
          Some \<lparr>rq_target = t, rq_replyEndpointId = e, rq_replySessionHandle = h, rq_requestedTtlMinutes = ttl\<rparr>
      | _ \<Rightarrow> None)"

definition messageBase :: "SendScope \<Rightarrow> json \<Rightarrow> SendMessageInput option" where
  "messageBase scope j =
     (case (required (z_string_max 1 200) ''clientMessageId'' j,
            required (z_enum [(''text'', Text), (''task_invite'', Task_invite), (''resource_request'', Resource_request)])
              ''kind'' j,
            required z_record ''payload'' j, optional (z_string 0) ''replyTo'' j,
            optional (z_string 0) ''correlationId'' j) of
        (Some c, Some k, Some p, Some r, Some co) \<Rightarrow>
          Some \<lparr>sm_scope = scope, sm_clientMessageId = c, sm_kind = k, sm_payload = p, sm_replyTo = r,
                sm_correlationId = co\<rparr>
      | _ \<Rightarrow> None)"

definition inboxTarget :: "json \<Rightarrow> string option" where
  "inboxTarget j = (case required (z_enum [(''human_inbox'', ())]) ''kind'' j of
     None \<Rightarrow> None | Some _ \<Rightarrow> required (z_string 1) ''principalId'' j)"

text \<open>The union takes the first alternative that parses.\<close>

definition sendMessageSchema :: "json \<Rightarrow> SendMessageInput option" where
  "sendMessageSchema j =
     (case (case required (z_string 1) ''communicationSessionId'' j of
              None \<Rightarrow> None | Some sid \<Rightarrow> messageBase (Grant_scoped sid) j) of
        Some m \<Rightarrow> Some m
      | None \<Rightarrow> (case required inboxTarget ''target'' j of
                  None \<Rightarrow> None | Some p \<Rightarrow> messageBase (To_target Human_inbox p) j))"

definition taskSchema :: "json \<Rightarrow> Task option" where
  "taskSchema j = (case z_string 1 j of Some t \<Rightarrow> Some (Task_text t) | None \<Rightarrow> map_option Task_object (z_record j))"

definition delegationSchema :: "json \<Rightarrow> LocalAgentDelegationInput option" where
  "delegationSchema j =
     (case (required targetSchema ''target'' j, required taskSchema ''task'' j, required (z_string 1) ''sessionHandle'' j,
            required (z_string_max 1 200) ''clientMessageId'' j, optional (z_string 1) ''correlationId'' j,
            optional (z_positive 30) ''requestedTtlMinutes'' j) of
        (Some t, Some k, Some h, Some c, Some co, Some ttl) \<Rightarrow>
          Some \<lparr>dg_target = t, dg_task = k, dg_sessionHandle = h, dg_clientMessageId = c, dg_correlationId = co,
                dg_requestedTtlMinutes = ttl\<rparr>
      | _ \<Rightarrow> None)"

definition ackSchema :: "json \<Rightarrow> DeliveryAckInput option" where
  "ackSchema j =
     (case (required (z_enum [(''device_ack'', Device_ack), (''runtime_pending'', Runtime_pending_phase),
              (''runtime_ack'', Runtime_ack), (''runtime_failed'', Runtime_failed)]) ''phase'' j,
            required (z_string 1) ''attemptId'' j, optional (z_string 0) ''resultCode'' j,
            optional z_bool ''retryable'' j, optional (z_string 0) ''runtimeAckId'' j) of
        (Some p, Some a, Some r, Some y, Some i) \<Rightarrow>
          Some \<lparr>ak_phase = p, ak_attemptId = a, ak_resultCode = r, ak_retryable = y, ak_runtimeAckId = i\<rparr>
      | _ \<Rightarrow> None)"

definition validateSchema :: "json \<Rightarrow> ValidateInput option" where
  "validateSchema j =
     (case (required (z_string 0) ''messageId'' j, required (z_string 0) ''communicationSessionId'' j,
            required (z_string 0) ''endpointId'' j, optional (z_string 0) ''sessionHandle'' j) of
        (Some m, Some c, Some e, Some h) \<Rightarrow>
          Some \<lparr>vi_messageId = m, vi_communicationSessionId = c, vi_endpointId = e, vi_sessionHandle = h\<rparr>
      | _ \<Rightarrow> None)"

section \<open>Requests and responses\<close>

datatype Route =
    Get_health | Get_whoami | Post_endpoints | Post_heartbeat string | Post_sessions string
  | Patch_session string string | Delete_session string string
  | Put_default_route | Get_default_route | Delete_default_route
  | Post_target_offers | Post_offer_revoke string | Get_targets
  | Post_comm_sessions | Get_comm_sessions | Get_comm_session string
  | Post_accept string | Post_decline string | Post_revoke string
  | Post_messages | Post_delegations | Get_message_status string | Post_ack string
  | Post_validate | Get_inbox | Get_audit | Get_poll | Get_events | Unrouted

record Request =
  rt_route :: Route
  rt_authorization :: "string option"
  rt_query :: "string \<Rightarrow> string option"
  rt_body :: "json option"

datatype Body =
    No_body | Error_body ReasonCode | Health_body | Auth_body AuthContext
  | Endpoint_body RuntimeEndpoint | Session_body RuntimeSessionBinding | Route_body RouteRow
  | Offer_body TargetOffer | Targets_body "ReachableTarget list" | Comm_body CommunicationSession
  | Comms_body "CommunicationSession list" | Receipt_body MessageReceipt
  | Delegation_body LocalAgentDelegationResponse | Delivery_body MessageDelivery
  | Ack_body AckRecord | Validation_body Validation
  | Inbox_body "(MessageEnvelope option \<times> MessageDelivery option) list"
  | Audit_body "AuditRow list" | Events_body "RuntimeEvent list"

type_synonym Response = "nat \<times> Body"

definition server_error :: Response where "server_error = (500, No_body)"

definition invalid :: Response where "invalid = (400, Error_body Invalid_request)"

definition respond :: "('a \<Rightarrow> Body) \<Rightarrow> nat \<Rightarrow> 'a ServiceResult \<Rightarrow> Response" where
  "respond f okStatus r = (case r of
     Failure c h \<Rightarrow> (h, Error_body c)
   | Ok v \<Rightarrow> if okStatus = 204 then (204, No_body) else (okStatus, f v))"

definition respond_opt :: "('a \<Rightarrow> Body) \<Rightarrow> nat \<Rightarrow> 'a ServiceResult option \<Rightarrow> Response" where
  "respond_opt f okStatus r = (case r of None \<Rightarrow> server_error | Some x \<Rightarrow> respond f okStatus x)"

text \<open>A handler that parses a body first.\<close>

definition with_body :: "(json \<Rightarrow> 'i option) \<Rightarrow> json option \<Rightarrow> ('i \<Rightarrow> cp \<Rightarrow> Response \<times> cp) \<Rightarrow> cp \<Rightarrow> Response \<times> cp" where
  "with_body schema body k s = (case Option.bind body schema of None \<Rightarrow> (invalid, s) | Some i \<Rightarrow> k i s)"

section \<open>Event delivery\<close>

definition markDispatch :: "RuntimeEvent \<Rightarrow> cp \<Rightarrow> unit option \<times> cp" where
  "markDispatch ev s =
     (if rv_type ev \<noteq> Message_dispatch then (Some (), s)
      else (case rv_data ev of
              Dispatch_data (Some env) _ \<Rightarrow> if me_id env = [] then (Some (), s) else markDispatched (me_id env) s
            | _ \<Rightarrow> (Some (), s)))"

fun mark_events :: "RuntimeEvent list \<Rightarrow> cp \<Rightarrow> unit option \<times> cp" where
  "mark_events [] s = (Some (), s)"
| "mark_events (ev # evs) s = (case markDispatch ev s of
     (None, s) \<Rightarrow> (None, s) | (Some _, s) \<Rightarrow> mark_events evs s)"

definition owned_endpoint :: "AuthContext \<Rightarrow> string option \<Rightarrow> cp \<Rightarrow> string option" where
  "owned_endpoint auth q s = (if truthy q \<and> is_ok (getOwned auth (or_else q []) s) then q else None)"

definition poll_events :: "AuthContext \<Rightarrow> string option \<Rightarrow> string option \<Rightarrow> cp \<Rightarrow> Response \<times> cp" where
  "poll_events auth endpointId cursor s =
     (case owned_endpoint auth endpointId s of
        None \<Rightarrow> ((403, Error_body Endpoint_not_owned), s)
      | Some ep \<Rightarrow>
         (let result = list_events ep (or_else cursor ''0'') 500 s in
          case mark_events result s of
            (None, s) \<Rightarrow> (server_error, s)
          | (Some _, s) \<Rightarrow> ((200, Events_body result), s)))"

definition normalizeCursor :: "string option \<Rightarrow> nat" where
  "normalizeCursor v = (case parse_int (or_else v ''0'') of None \<Rightarrow> 0 | Some n \<Rightarrow> if n \<ge> 0 then nat n else 0)"

text \<open>
  The event stream: while it is connected it writes the events after the last cursor, one
  by one, and marks each. A pass over one batch; \<open>connected k\<close> says whether the stream is
  still open after \<open>k\<close> writes, and the result is what was written with the new cursor.
\<close>

fun stream_pass :: "(nat \<Rightarrow> bool) \<Rightarrow> nat \<Rightarrow> nat \<Rightarrow> RuntimeEvent list \<Rightarrow> cp \<Rightarrow> RuntimeEvent list \<times> nat \<times> cp" where
  "stream_pass connected k lastCursor [] s = ([], lastCursor, s)"
| "stream_pass connected k lastCursor (ev # evs) s =
     (if \<not> connected k then ([], lastCursor, s)
      else if rv_cursor ev \<le> lastCursor then stream_pass connected k lastCursor evs s
      else if \<not> connected (Suc k) then ([ev], lastCursor, s)
      else (case markDispatch ev s of
              (None, s) \<Rightarrow> ([ev], rv_cursor ev, s)
            | (Some _, s) \<Rightarrow>
               (let (out, last, s) = stream_pass connected (Suc k) (rv_cursor ev) evs s
                in (ev # out, last, s))))"

definition stream_events :: "(nat \<Rightarrow> bool) \<Rightarrow> string \<Rightarrow> nat \<Rightarrow> cp \<Rightarrow> RuntimeEvent list \<times> nat \<times> cp" where
  "stream_events connected ep lastCursor s =
     stream_pass connected 0 lastCursor (list_events ep (dec_nat lastCursor) 500 s) s"

section \<open>The handlers\<close>

definition post_messages :: "AuthContext \<Rightarrow> json option \<Rightarrow> cp \<Rightarrow> Response \<times> cp" where
  "post_messages auth body s =
     (if Option.bind body (\<lambda>j. member_of j ''kind'') = Some (JStr ''control'')
      then ((403, Error_body Invalid_message_kind), s)
      else with_body sendMessageSchema body
        (\<lambda>i s. let (r, s) = send auth i s in (respond_opt Receipt_body 201 r, s)) s)"

definition post_delegations :: "AuthContext \<Rightarrow> json option \<Rightarrow> cp \<Rightarrow> Response \<times> cp" where
  "post_delegations auth body s =
     with_body delegationSchema body
       (\<lambda>i s. let (r, s) = delegate auth i s;
                  status = (case r of Some (Ok (Delegated _ _ _ _ _)) \<Rightarrow> 201 | _ \<Rightarrow> 200)
              in (respond_opt Delegation_body status r, s)) s"

definition get_audit :: "AuthContext \<Rightarrow> string option \<Rightarrow> cp \<Rightarrow> Response \<times> cp" where
  "get_audit auth commSessionId s =
     ((200, Audit_body (listAudit (au_principalId auth)
        (if truthy commSessionId then Some ''communication_session'' else None) commSessionId s)), s)"

definition get_events :: "AuthContext \<Rightarrow> string option \<Rightarrow> string option \<Rightarrow> cp \<Rightarrow> Response \<times> cp" where
  "get_events auth endpointId cursor s =
     (case owned_endpoint auth endpointId s of
        None \<Rightarrow> ((403, Error_body Endpoint_not_owned), s)
      | Some ep \<Rightarrow> (let (out, last, s) = stream_events (\<lambda>_. True) ep (normalizeCursor cursor) s
                   in ((200, Events_body out), s)))"

fun serve :: "AuthContext \<Rightarrow> Route \<Rightarrow> (string \<Rightarrow> string option) \<Rightarrow> json option \<Rightarrow> cp \<Rightarrow> Response \<times> cp" where
  "serve auth Get_whoami q b s = ((200, Auth_body auth), s)"
| "serve auth Post_endpoints q b s = with_body endpointSchema b
     (\<lambda>i s. let (r, s) = register_endpoint auth i s
            in (case r of None \<Rightarrow> server_error | Some e \<Rightarrow> (201, Endpoint_body e), s)) s"
| "serve auth (Post_heartbeat eid) q b s =
     (let (r, s) = heartbeat auth eid s in (respond (\<lambda>_. No_body) 204 r, s))"
| "serve auth (Post_sessions eid) q b s = with_body sessionSchema b
     (\<lambda>i s. let (r, s) = registerSession auth eid i s in (respond Session_body 201 r, s)) s"
| "serve auth (Patch_session eid h) q b s = with_body patchSchema b
     (\<lambda>i s. let (r, s) = updateSession auth eid h i s in (respond Session_body 200 r, s)) s"
| "serve auth (Delete_session eid h) q b s =
     (let (r, s) = closeSession auth eid h s in (respond (\<lambda>_. No_body) 204 r, s))"
| "serve auth Put_default_route q b s = with_body routeSchema b
     (\<lambda>(e, h) s. let (r, s) = setDefaultRoute auth e h s in (respond Route_body 200 r, s)) s"
| "serve auth Get_default_route q b s =
     (case getDefaultRoute (au_principalId auth) s of
        Some r \<Rightarrow> ((200, Route_body r), s) | None \<Rightarrow> ((404, Error_body No_default_route), s))"
| "serve auth Delete_default_route q b s =
     (let (r, s) = clearDefaultRoute auth s in (respond (\<lambda>_. No_body) 204 r, s))"
| "serve auth Post_target_offers q b s = with_body offerSchema b
     (\<lambda>(e, h, a, t) s. let (r, s) = create_offer auth e h a t s in (respond Offer_body 201 r, s)) s"
| "serve auth (Post_offer_revoke oid) q b s =
     (let (r, s) = revoke_offer auth oid s in (respond (\<lambda>_. No_body) 204 r, s))"
| "serve auth Get_targets q b s =
     (if \<not> truthy (q ''personId'') then (invalid, s)
      else (let (r, s) = listReachable (au_principalId auth) (or_else (q ''personId'') []) s
            in ((200, Targets_body r), s)))"
| "serve auth Post_comm_sessions q b s = with_body requestCommSchema b
     (\<lambda>i s. let (r, s) = comm_request auth i s in (respond Comm_body 201 r, s)) s"
| "serve auth Get_comm_sessions q b s =
     (let (r, s) = list_comms (au_principalId auth) s in ((200, Comms_body r), s))"
| "serve auth (Get_comm_session sid) q b s =
     (let (r, s) = getVisible (au_principalId auth) sid s in (respond Comm_body 200 r, s))"
| "serve auth (Post_accept sid) q b s =
     (let (r, s) = accept auth sid s in (respond_opt Comm_body 200 r, s))"
| "serve auth (Post_decline sid) q b s =
     (let (r, s) = decline auth sid s in (respond (\<lambda>_. No_body) 204 r, s))"
| "serve auth (Post_revoke sid) q b s =
     (let (r, s) = revoke auth sid s in (respond (\<lambda>_. No_body) 204 r, s))"
| "serve auth Post_messages q b s = post_messages auth b s"
| "serve auth Post_delegations q b s = post_delegations auth b s"
| "serve auth (Get_message_status mid) q b s =
     (respond_opt Delivery_body 200 (getStatus (au_principalId auth) mid s), s)"
| "serve auth (Post_ack mid) q b s = with_body ackSchema b
     (\<lambda>i s. let (r, s) = acknowledge auth mid i s in (respond Ack_body 200 r, s)) s"
| "serve auth Post_validate q b s = with_body validateSchema b
     (\<lambda>i s. let (r, s) = validateInjection auth i s in ((200, Validation_body r), s)) s"
| "serve auth Get_inbox q b s = ((200, Inbox_body (listInbox (au_principalId auth) s)), s)"
| "serve auth Get_audit q b s = get_audit auth (q ''commSessionId'') s"
| "serve auth Get_poll q b s = poll_events auth (q ''endpointId'') (q ''cursor'') s"
| "serve auth Get_events q b s = get_events auth (q ''endpointId'') (q ''cursor'') s"
| "serve auth Get_health q b s = ((200, Health_body), s)"
| "serve auth Unrouted q b s = ((404, Error_body Not_found), s)"

text \<open>Everything under \<^verbatim>\<open>/api/v1\<close> is behind the bearer check; \<^verbatim>\<open>/health\<close> is not.\<close>

definition handle :: "Request \<Rightarrow> cp \<Rightarrow> Response \<times> cp" where
  "handle r s =
     (if rt_route r = Get_health then ((200, Health_body), s)
      else (case resolveBearer s (rt_authorization r) of
              None \<Rightarrow> ((401, Error_body Unauthorized), s)
            | Some auth \<Rightarrow> serve auth (rt_route r) (rt_query r) (rt_body r) s))"

definition serve_request :: "Request \<Rightarrow> cp \<Rightarrow> cp" where
  "serve_request r s = snd (handle r s)"

section \<open>Every request keeps the integrity of the database\<close>

text \<open>The statuses a service may answer with.\<close>

definition client_error :: "nat \<Rightarrow> bool" where
  "client_error h = (h \<in> {400, 403, 404, 409})"

definition well_coded :: "'a ServiceResult \<Rightarrow> bool" where
  "well_coded r = (case r of Failure c h \<Rightarrow> client_error h | Ok _ \<Rightarrow> True)"

named_theorems coded

lemma well_coded_simps [simp]:
  "well_coded (Ok v)" "well_coded (Failure c h) = client_error h"
  "client_error 400" "client_error 403" "client_error 404" "client_error 409"
  by (simp_all add: well_coded_def client_error_def)

lemma coded_Failure: "well_coded r \<Longrightarrow> r = Failure c h \<Longrightarrow> client_error h"
  by simp

lemma coded_getOwned [coded]: "well_coded (getOwned auth e s)"
  by (simp add: getOwned_def split: option.split)

lemma coded_getSessionOwned [coded]: "well_coded (getSessionOwned auth e h s)"
  by (simp add: getSessionOwned_def split: option.split)

lemma coded_endpoints [coded]:
  "well_coded (fst (heartbeat auth e s))" "well_coded (fst (registerSession auth e i s))"
  "well_coded (fst (updateSession auth e h p s))"
  "well_coded (fst (setDefaultRoute auth e h s))" "well_coded (fst (clearDefaultRoute auth s))"
  by (auto simp: heartbeat_def registerSession_def updateSession_def setDefaultRoute_def clearDefaultRoute_def Let_def
      coded_getSessionOwned split: op_split dest: coded_Failure[OF coded_getOwned] coded_Failure[OF coded_getSessionOwned])

lemma coded_closeSession [coded]: "well_coded (fst (closeSession auth e h s))"
  by (auto simp: closeSession_def split_def Let_def split: ServiceResult.split dest: coded_Failure[OF coded_endpoints(3)])

lemma coded_offers [coded]:
  "well_coded (fst (create_offer auth e h a t s))" "well_coded (fst (revoke_offer auth oid s))"
  "well_coded (fst (resolve_offer oid ow au s))"
  by (auto simp: create_offer_def revoke_offer_def resolve_offer_def Let_def
      split: op_split dest: coded_Failure[OF coded_getSessionOwned])

lemma coded_getVisible [coded]: "well_coded (fst (getVisible p sid s))"
  by (simp add: getVisible_def Let_def split: op_split)

lemma coded_requireActive [coded]: "well_coded (fst (requireActive p sid s))"
  by (auto simp: requireActive_def split_def split: op_split dest: coded_Failure[OF coded_getVisible])

lemma coded_comm_request [coded]: "well_coded (fst (comm_request auth i s))"
  by (auto simp: comm_request_def request_offer_check_def Let_def split_def coded_getVisible
      split: op_split dest: coded_Failure[OF coded_getSessionOwned] coded_Failure[OF coded_offers(3)])

lemma coded_accept [coded]: "fst (accept auth sid s) = Some r \<Longrightarrow> well_coded r"
  by (auto simp: accept_def accept_route_def accept_target_check_def activate_def Let_def split_def coded_getVisible
      split: op_split TargetKind.splits dest: coded_Failure[OF coded_getVisible] coded_Failure[OF coded_offers(3)])

lemma coded_decline_revoke [coded]:
  "well_coded (fst (decline auth sid s))" "well_coded (fst (revoke auth sid s))"
  by (auto simp: decline_def revoke_def Let_def split_def split: op_split dest: coded_Failure[OF coded_getVisible])

lemma coded_send [coded]: "fst (send auth i s) = Some r \<Longrightarrow> well_coded r"
  by (auto simp: send_def sendInbox_def sendGrantScoped_def queue_message_def Let_def split_def
      split: op_split SendScope.splits dest: coded_Failure[OF coded_requireActive])

lemma coded_acknowledge [coded]: "well_coded (fst (acknowledge auth m i s))"
  by (simp add: acknowledge_def Let_def split_def split: op_split)

lemma coded_getStatus [coded]: "getStatus p m s = Some r \<Longrightarrow> well_coded r"
  by (auto simp: getStatus_def split: op_split)

lemma coded_sendInvite [coded]: "fst (sendInvite auth i c h d s) = Some r \<Longrightarrow> well_coded r"
  by (auto simp: sendInvite_def Let_def split_def split: op_split dest: coded_send)

lemma coded_resumeExisting [coded]: "fst (resumeExisting auth i e s) = Some r \<Longrightarrow> well_coded r"
  by (auto simp: resumeExisting_def Let_def split_def split: op_split
      dest: coded_sendInvite coded_Failure[OF coded_getVisible])

lemma coded_delegate [coded]: "fst (delegate auth i s) = Some r \<Longrightarrow> well_coded r"
  by (auto simp: delegate_def Let_def split_def resolveOwnedSession_def split: op_split
      dest: coded_sendInvite coded_resumeExisting coded_Failure[OF coded_comm_request] coded_Failure[OF coded_getOwned])

lemma respond_no_error:
  "well_coded r \<Longrightarrow> n \<noteq> 500 \<Longrightarrow> fst (respond f n r) \<noteq> 500"
  by (auto simp: respond_def client_error_def split: ServiceResult.split)

lemma respond_opt_no_error:
  "r \<noteq> None \<Longrightarrow> (\<And>x. r = Some x \<Longrightarrow> well_coded x) \<Longrightarrow> n \<noteq> 500 \<Longrightarrow> fst (respond_opt f n r) \<noteq> 500"
  by (auto simp: respond_opt_def respond_no_error)

lemma getOwned_isOk:
  assumes "r \<in> set (endpoints s)" "ep_endpoint_id r = e" "ep_principal_id r = au_principalId auth"
    "ep_device_id r = au_deviceId auth"
  shows "\<exists>v. getOwned auth e s = Ok v"
proof -
  have "\<exists>q. List.find (\<lambda>r. ep_endpoint_id r = e \<and> ep_principal_id r = au_principalId auth
                        \<and> ep_device_id r = au_deviceId auth) (endpoints s) = Some q"
    unfolding find_isSome using assms by blast
  then show ?thesis by (auto simp: getOwned_def)
qed

lemma register_endpoint_Some: "fst (register_endpoint auth i s) \<noteq> None"
proof (cases "List.find (\<lambda>r. ep_principal_id r = au_principalId auth
    \<and> ep_device_id r = au_deviceId auth \<and> ep_runtime r = ri_runtime i) (endpoints s)")
  case None
  have "getOwned auth e (audit a b c d m (endpoints_update (\<lambda>t. t @ [r]) u)) \<noteq> Failure x n"
    if "ep_endpoint_id r = e" "ep_principal_id r = au_principalId auth" "ep_device_id r = au_deviceId auth"
    for e r a b c d m u x n
    using getOwned_isOk[of r "audit a b c d m (endpoints_update (\<lambda>t. t @ [r]) u)" e auth] that by auto
  with None show ?thesis
    by (auto simp: register_endpoint_def Let_def split_def split: ServiceResult.splits)
next
  case (Some r)
  note r = find_SomeD[OF Some]
  have "getOwned auth (ep_endpoint_id r) (audit a b c d m (endpoints_update (update_where
      (\<lambda>q. ep_endpoint_id q = ep_endpoint_id r) f) (tick s))) \<noteq> Failure x n"
    if "ep_endpoint_id (f r) = ep_endpoint_id r" "ep_principal_id (f r) = ep_principal_id r"
      "ep_device_id (f r) = ep_device_id r" for a b c d m f x n
  proof -
    have "\<exists>v. getOwned auth (ep_endpoint_id r) (audit a b c d m (endpoints_update (update_where
      (\<lambda>q. ep_endpoint_id q = ep_endpoint_id r) f) (tick s))) = Ok v"
      by (rule getOwned_isOk[of "f r"]) (use r that in \<open>auto simp: set_update_where\<close>)
    then show ?thesis by auto
  qed
  with Some show ?thesis
    by (auto simp: register_endpoint_def Let_def split_def split: ServiceResult.splits)
qed

lemma markDispatch_ok:
  assumes "db_ok s" shows "db_ok (snd (markDispatch ev s))" "fst (markDispatch ev s) = Some ()"
  using assms markDispatched_ok[OF assms] by (auto simp: markDispatch_def split: EventData.split option.split)

lemma mark_events_ok:
  "db_ok s \<Longrightarrow> db_ok (snd (mark_events evs s)) \<and> fst (mark_events evs s) \<noteq> None"
proof (induction evs s rule: mark_events.induct)
  case (2 ev evs s)
  from markDispatch_ok[OF 2(2), of ev] 2(1) show ?case
    by (cases "markDispatch ev s") (auto split: option.split)
qed simp

lemma stream_pass_ok: "db_ok s \<Longrightarrow> db_ok (snd (snd (stream_pass con k c evs s)))"
proof (induction evs arbitrary: k c s)
  case (Cons ev evs)
  from markDispatch_ok[OF Cons.prems, of ev] Cons show ?case
    by (cases "markDispatch ev s") (auto simp: Let_def split_def split: option.split)
qed simp

definition served :: "Response \<times> cp \<Rightarrow> bool" where
  "served x = (db_ok (snd x) \<and> fst (fst x) \<noteq> 500)"

lemma served_with_body:
  "db_ok s \<Longrightarrow> (\<And>i. served (k i s)) \<Longrightarrow> served (with_body schema b k s)"
  by (auto simp: with_body_def served_def invalid_def split: option.split)

lemma served_respond: "db_ok (snd x) \<Longrightarrow> well_coded (fst x) \<Longrightarrow> n \<noteq> 500 \<Longrightarrow> served (respond f n (fst x), snd x)"
  by (simp add: served_def respond_no_error)

lemma served_respond_opt:
  "db_ok (snd x) \<Longrightarrow> fst x \<noteq> None \<Longrightarrow> (\<And>r. fst x = Some r \<Longrightarrow> well_coded r) \<Longrightarrow> n \<noteq> 500 \<Longrightarrow>
     served (respond_opt f n (fst x), snd x)"
  by (simp add: served_def respond_opt_no_error)

lemma served_delegation:
  assumes "db_ok s" "known_auth auth s" shows "served (post_delegations auth b s)"
  unfolding post_delegations_def
proof (rule served_with_body[OF assms(1)])
  fix i
  have "served (respond_opt Delegation_body n (fst (delegate auth i s)), snd (delegate auth i s))" if "n \<noteq> 500" for n
    by (rule served_respond_opt) (use that delegate_ok[OF assms] coded_delegate in auto)
  then show "served (let (r, s) = delegate auth i s;
      status = (case r of Some (Ok (Delegated _ _ _ _ _)) \<Rightarrow> 201 | _ \<Rightarrow> 200)
    in (respond_opt Delegation_body status r, s))"
    by (auto simp: Let_def split_def split: option.split ServiceResult.split LocalAgentDelegationResponse.split)
qed

lemma served_plain: "db_ok s \<Longrightarrow> fst r \<noteq> 500 \<Longrightarrow> served (r, s)"
  by (simp add: served_def)

lemma serve_ok:
  assumes ok: "db_ok s" and auth: "known_auth auth s"
  shows "served (serve auth rt q b s)"
proof (cases rt)
  case Post_endpoints
  have "served (serve auth Post_endpoints q b s)" unfolding serve.simps
  proof (rule served_with_body[OF ok])
    fix i
    from register_endpoint_Some[of auth i s] ok_register_endpoint[OF ok auth, of i]
    show "served (let (r, s) = register_endpoint auth i s
       in (case r of None \<Rightarrow> server_error | Some e \<Rightarrow> (201, Endpoint_body e), s))"
      by (auto simp: Let_def split_def served_def)
  qed
  with Post_endpoints show ?thesis by simp
next
  case (Post_heartbeat e)
  then show ?thesis by (auto simp: Let_def split_def coded ok intro!: served_respond ok_intros)
next
  case (Post_sessions e)
  then show ?thesis by (auto simp: Let_def split_def coded ok intro!: served_with_body served_respond ok_intros)
next
  case (Patch_session e h)
  then show ?thesis by (auto simp: Let_def split_def coded ok intro!: served_with_body served_respond ok_intros)
next
  case (Delete_session e h)
  then show ?thesis by (auto simp: Let_def split_def coded ok intro!: served_respond ok_intros)
next
  case Put_default_route
  then show ?thesis by (auto simp: Let_def split_def coded ok intro!: served_with_body served_respond ok_intros)
next
  case Delete_default_route
  then show ?thesis by (auto simp: Let_def split_def coded ok intro!: served_respond ok_intros)
next
  case Post_target_offers
  then show ?thesis by (auto simp: Let_def split_def coded ok intro!: served_with_body served_respond ok_intros)
next
  case (Post_offer_revoke oid)
  then show ?thesis by (auto simp: Let_def split_def coded ok intro!: served_respond ok_intros)
next
  case Get_targets
  then show ?thesis by (auto simp: Let_def split_def invalid_def ok intro!: served_plain ok_intros)
next
  case Post_comm_sessions
  then show ?thesis by (auto simp: Let_def split_def coded ok intro!: served_with_body served_respond ok_intros)
next
  case Get_comm_sessions
  then show ?thesis by (auto simp: Let_def split_def ok intro!: served_plain ok_intros)
next
  case (Get_comm_session sid)
  then show ?thesis by (auto simp: Let_def split_def coded ok intro!: served_respond ok_intros)
next
  case (Post_accept sid)
  then show ?thesis using accept_ok[OF ok, of auth sid]
    by (auto simp: Let_def split_def intro!: served_respond_opt dest: coded_accept)
next
  case (Post_decline sid)
  then show ?thesis by (auto simp: Let_def split_def coded ok intro!: served_respond ok_intros)
next
  case (Post_revoke sid)
  then show ?thesis by (auto simp: Let_def split_def coded ok intro!: served_respond ok_intros)
next
  case Post_messages
  have "served (respond_opt Receipt_body 201 (fst (send auth i s)), snd (send auth i s))" for i
    by (rule served_respond_opt) (use send_ok[OF ok auth] coded_send in auto)
  with Post_messages show ?thesis
    by (auto simp: post_messages_def Let_def split_def ok served_def[of "((403, Error_body Invalid_message_kind), s)"]
        intro!: served_with_body)
next
  case Post_delegations
  then show ?thesis by (simp add: served_delegation[OF ok auth])
next
  case (Get_message_status mid)
  have "served (respond_opt Delivery_body 200 (getStatus (au_principalId auth) mid s), s)"
    by (intro served_plain ok respond_opt_no_error getStatus_ok) (auto dest: coded_getStatus)
  with Get_message_status show ?thesis by simp
next
  case (Post_ack mid)
  then show ?thesis by (auto simp: Let_def split_def coded ok intro!: served_with_body served_respond ok_intros)
next
  case Post_validate
  then show ?thesis by (auto simp: Let_def split_def ok intro!: served_with_body served_plain ok_intros)
next
  case Get_poll
  then show ?thesis
    using mark_events_ok[OF ok]
    by (auto simp: poll_events_def Let_def split_def ok split: option.split intro!: served_plain)
next
  case Get_events
  then show ?thesis
    by (auto simp: get_events_def stream_events_def Let_def split_def ok split: option.split intro!: served_plain stream_pass_ok)
qed (auto simp: get_audit_def ok split: option.split intro!: served_plain)

lemma handle_ok:
  assumes "db_ok s" shows "db_ok (snd (handle r s))" "fst (fst (handle r s)) \<noteq> 500"
  using assms serve_ok[OF assms resolveBearer_known[OF assms]]
  by (auto simp: handle_def served_def split: option.split)

section \<open>Every request stays within the evolution relation\<close>

lemma le_markDispatch [le_intros]: "cp_le s0 s \<Longrightarrow> cp_le s0 (snd (markDispatch ev s))"
  by (auto simp: markDispatch_def split: EventData.split option.split intro!: le_intros)

lemma le_mark_events [le_intros]: "cp_le s0 s \<Longrightarrow> cp_le s0 (snd (mark_events evs s))"
proof (induction evs s rule: mark_events.induct)
  case (2 ev evs s)
  with le_markDispatch[OF 2(2), of ev] show ?case by (cases "markDispatch ev s") (auto split: option.split)
qed simp

lemma le_stream_pass: "cp_le s0 s \<Longrightarrow> cp_le s0 (snd (snd (stream_pass con k c evs s)))"
proof (induction evs arbitrary: k c s)
  case (Cons ev evs)
  with le_markDispatch[OF Cons.prems, of ev] show ?case
    by (cases "markDispatch ev s") (auto simp: Let_def split_def split: option.split)
qed simp

lemma le_with_body: "cp_le s0 s \<Longrightarrow> (\<And>i. cp_le s0 (snd (k i s))) \<Longrightarrow> cp_le s0 (snd (with_body schema b k s))"
  by (auto simp: with_body_def split: option.split)

lemma le_serve: "cp_le s (snd (serve auth rt q b s))"
  by (cases rt) (auto simp: Let_def split_def post_messages_def post_delegations_def get_audit_def poll_events_def
      get_events_def stream_events_def split: option.split intro!: le_with_body le_intros le_stream_pass)

lemma le_handle: "cp_le s (serve_request r s)"
  by (auto simp: serve_request_def handle_def le_serve split: option.split)

section \<open>Runs of requests\<close>

interpretation cp_ok: invariant_system serve_request db_ok
  by unfold_locales (simp add: serve_request_def handle_ok)

interpretation cp_order: step_preorder serve_request cp_le
  by unfold_locales (auto intro: cp_le_trans le_handle)

lemma seeds_ok_insert:
  "seeds_ok P K \<Longrightarrow> dc_principal_id r \<in> pr_principal_id ` set P \<Longrightarrow> seeds_ok P (insert_credential r K)"
  by (auto simp: seeds_ok_def insert_credential_def)

lemma openDb_ok:
  assumes "inj random" shows "db_ok (openDb env clock random hash)"
proof -
  have "seeds_ok (principals (openDb env clock random hash)) (device_credentials (openDb env clock random hash))"
    by (simp add: openDb_def seedMockIdentities_def, intro seeds_ok_insert)
       (simp_all add: seeds_ok_def insert_or_ignore_def)
  with assms show ?thesis
    by (simp add: db_ok_def openDb_def seedMockIdentities_def endpoints_ok_def sessions_ok_def routes_ok_def offers_ok_def
        comms_ok_def messages_ok_def session_sequence_def deliveries_ok_def halted_def exclusive_def
        delegations_ok_def attempts_ok_def events_ok_def seqs_of_def inbox_ok_def audit_ok_def generated_def)
qed

end
