(* ===== verification/Scenario.thy ===== *)
theory Scenario
  imports App
begin

text \<open>
  Concrete states of the control plane on which the examples of the development are
  evaluated: the empty database with its seeded identities, and a database in which two
  principals have an endpoint and a session each and a grant from the first to the second
  is active, with one message on its way. Identifiers are \<open>a\<close>, \<open>aa\<close>, ... and the clock
  advances by a second per reading.
\<close>

definition demo_clock :: "nat \<Rightarrow> time" where "demo_clock k = 1000 * int k"

definition demo_random :: "nat \<Rightarrow> string" where "demo_random n = replicate n (CHR ''a'')"

lemma demo_random_inj: "inj demo_random"
proof (rule injI)
  fix x y assume "demo_random x = demo_random y"
  then have "length (demo_random x) = length (demo_random y)" by simp
  then show "x = y" by (simp add: demo_random_def)
qed

definition demo0 :: cp where "demo0 = openDb (\<lambda>_. None) demo_clock demo_random (\<lambda>x. x)"

lemma demo0_ok: "db_ok demo0"
  unfolding demo0_def by (rule openDb_ok[OF demo_random_inj])

definition authA :: AuthContext where
  "authA = \<lparr>au_principalId = ''prn_a'', au_deviceId = ''device-a1'', au_token = ''ccd-token-a1''\<rparr>"

definition authB :: AuthContext where
  "authB = \<lparr>au_principalId = ''prn_b'', au_deviceId = ''device-b1'', au_token = ''ccd-token-b1''\<rparr>"

definition authC :: AuthContext where
  "authC = \<lparr>au_principalId = ''prn_c'', au_deviceId = ''device-c1'', au_token = ''ccd-token-c1''\<rparr>"

definition demo_endpoint :: "string \<Rightarrow> AuthContext \<Rightarrow> EndpointRow" where
  "demo_endpoint i auth = \<lparr>ep_endpoint_id = i, ep_principal_id = au_principalId auth,
     ep_device_id = au_deviceId auth, ep_runtime = Codex, ep_bridge_version = ''1'', ep_adapter_version = ''1'',
     ep_capabilities = [], ep_presence = Online, ep_last_seen_at = 0, ep_created_at = 0\<rparr>"

definition demo_session :: "string \<Rightarrow> string \<Rightarrow> AuthContext \<Rightarrow> SessionRow" where
  "demo_session h e auth = \<lparr>rs_session_handle = h, rs_endpoint_id = e, rs_principal_id = au_principalId auth,
     rs_label = ''main'', rs_state = Idle, rs_delivery_mode = ''managed_stream'',
     rs_capabilities = \<lparr>sc_liveInject = True, sc_midTurnSteer = False, sc_replyEvents = True\<rparr>,
     rs_allow_inbound = True, rs_allow_mid_turn_steer = False, rs_created_at = 0, rs_last_active_at = 0\<rparr>"

definition demo_comm :: "string \<Rightarrow> CommunicationStatus \<Rightarrow> CommRow" where
  "demo_comm i st = \<lparr>cs_comm_session_id = i, cs_requester_principal_id = ''prn_a'',
     cs_requester_device_id = Some ''device-a1'', cs_requester_reply_endpoint_id = ''ep_'',
     cs_requester_reply_session_handle = ''rs_aa'', cs_recipient_principal_id = ''prn_b'',
     cs_target_kind = Person_default_runtime, cs_target_offer_id = None,
     cs_frozen_endpoint_id = (if st = Comm_pending then None else Some ''ep_a''),
     cs_frozen_session_handle = (if st = Comm_pending then None else Some ''rs_aaa''),
     cs_requested_ttl_minutes = 30, cs_status = st, cs_requested_at = 0, cs_request_expires_at = 600000,
     cs_activated_at = (if st = Comm_pending then None else Some 2000),
     cs_grant_expires_at = (if st = Comm_pending then None else Some 1802000), cs_revoked_at = None\<rparr>"

definition demo_message :: MessageRow where
  "demo_message = \<lparr>ms_message_id = ''msg_aaaaa'', ms_client_message_id = ''c1'', ms_request_hash = ''h'',
     ms_comm_session_id = Some ''comm_aaaa'', ms_sender_principal_id = ''prn_a'',
     ms_sender_device_id = Some ''device-a1'', ms_target_kind = Person_default_runtime,
     ms_target_principal_id = ''prn_b'', ms_target_endpoint_id = Some ''ep_a'',
     ms_target_session_handle = Some ''rs_aaa'', ms_kind = Text, ms_payload = [], ms_reply_to = None,
     ms_correlation_id = None, ms_sequence = 1, ms_created_at = 3000, ms_expires_at = 1802000\<rparr>"

definition demo_delivery :: "DeliveryStatus \<Rightarrow> DeliveryRow" where
  "demo_delivery st = \<lparr>dl_delivery_id = ''del_aaaaaa'', dl_message_id = ''msg_aaaaa'', dl_endpoint_id = Some ''ep_a'',
     dl_status = st, dl_queued_at = 3000, dl_dispatched_at = None, dl_device_ack_received_at = None,
     dl_runtime_pending_at = None, dl_runtime_ack_received_at = None, dl_terminal_at = None, dl_result_code = None,
     dl_runtime_ack_id = None, dl_adapter_label = None\<rparr>"

definition demo_state :: "CommunicationStatus \<Rightarrow> DeliveryStatus list \<Rightarrow> cp" where
  "demo_state st ds = demo0\<lparr>
     endpoints := [demo_endpoint ''ep_'' authA, demo_endpoint ''ep_a'' authB],
     runtime_sessions := [demo_session ''rs_aa'' ''ep_'' authA, demo_session ''rs_aaa'' ''ep_a'' authB],
     default_routes := [\<lparr>dr_principal_id = ''prn_b'', dr_endpoint_id = ''ep_a'', dr_session_handle = ''rs_aaa'', dr_updated_at = 0\<rparr>],
     comm_sessions := [demo_comm ''comm_aaaa'' st],
     messages := (if ds = [] then [] else [demo_message]),
     deliveries := map demo_delivery ds,
     events := (if ds = [] then [] else
       [\<lparr>ev_endpoint_id = ''ep_a'', ev_seq = 1, ev_event_type = Message_dispatch, ev_data = Dispatch_data None None, ev_created_at = 3000\<rparr>]),
     ticks := 5, draws := 10\<rparr>"

definition demo_pending :: cp where "demo_pending = demo_state Comm_pending []"
definition demo_active :: cp where "demo_active = demo_state Comm_active [Queued]"

lemma db_ok_checks:
  assumes "inj (rnd s)" "seeds_ok (principals s) (device_credentials s)"
    "endpoints_ok (principal_ids s) (rnd s) (draws s) (map endpoint_key (endpoints s))"
    "sessions_ok (rnd s) (draws s) (endpoint_key ` set (endpoints s)) (map session_key (runtime_sessions s))"
    "routes_ok (session_keys s) (default_routes s)" "target_offers s = []"
    "comms_ok (principal_ids s) (rnd s) (draws s) (session_keys s) (comm_sessions s)"
    "messages_ok (principal_ids s) (rnd s) (draws s) (set (comm_sessions s)) (messages s)"
    "deliveries_ok (rnd s) (draws s) (messages s) (map delivery_key (deliveries s))"
    "halted (set (comm_sessions s)) (set (messages s)) (set (deliveries s))"
    "exclusive (clk s) (ticks s) (set (comm_sessions s))"
    "local_agent_delegations s = []" "delivery_attempts s = []"
    "events_ok (endpoint_ids s) (events s)" "inbox_items s = []" "audit_log s = []"
  shows "db_ok s"
  using assms
  by (simp add: db_ok_def offers_ok_def generated_def delegations_ok_def attempts_ok_def inbox_ok_def audit_ok_def)

lemmas demo_defs = demo_pending_def demo_active_def demo_state_def demo0_def openDb_def seedMockIdentities_def
  insert_or_ignore_def insert_credential_def demo_endpoint_def demo_session_def demo_comm_def demo_message_def
  demo_delivery_def authA_def authB_def

lemma generatedI:
  assumes "distinct ids" "list_all2 (\<lambda>x k. x = pre @ ''_'' @ rn k \<and> k < n) ids ks"
  shows "generated pre rn n ids"
  using assms by (force simp: generated_def list_all2_conv_all_nth in_set_conv_nth)

lemmas demo_gen = demo_random_def numeral_eq_Suc

lemma demo_state_ok:
  assumes "(st = Comm_pending \<and> ds = []) \<or> (st = Comm_active \<and> ds = [Queued])"
  shows "db_ok (demo_state st ds)"
proof (rule db_ok_checks)
  let ?s = "demo_state st ds"
  show "inj (rnd ?s)" by (simp add: demo_defs demo_random_inj)
  show "seeds_ok (principals ?s) (device_credentials ?s)" by (simp add: demo_defs seeds_ok_def)
  show "routes_ok (session_keys ?s) (default_routes ?s)"
    by (simp add: demo_defs routes_ok_def session_keys_def session_key_def)
  show "halted (set (comm_sessions ?s)) (set (messages ?s)) (set (deliveries ?s))"
    using assms by (auto simp: demo_defs halted_def ended_comm_def)
  show "exclusive (clk ?s) (ticks ?s) (set (comm_sessions ?s))" by (simp add: demo_defs exclusive_def)
  have "generated ''ep'' (rnd ?s) (draws ?s) [''ep_'', ''ep_a'']"
    by (rule generatedI[where ks = "[0, 1]"]) (simp_all add: demo_defs demo_gen)
  then show "endpoints_ok (principal_ids ?s) (rnd ?s) (draws ?s) (map endpoint_key (endpoints ?s))"
    by (simp add: demo_defs endpoints_ok_def endpoint_key_def principal_ids_def)
  have "generated ''rs'' (rnd ?s) (draws ?s) [''rs_aa'', ''rs_aaa'']"
    by (rule generatedI[where ks = "[2, 3]"]) (simp_all add: demo_defs demo_gen)
  then show "sessions_ok (rnd ?s) (draws ?s) (endpoint_key ` set (endpoints ?s)) (map session_key (runtime_sessions ?s))"
    by (simp add: demo_defs sessions_ok_def session_key_def endpoint_key_def)
  show "target_offers ?s = []" "local_agent_delegations ?s = []" "delivery_attempts ?s = []" "inbox_items ?s = []"
    "audit_log ?s = []" by (simp_all add: demo_defs)
  have "generated ''comm'' (rnd ?s) (draws ?s) [''comm_aaaa'']"
    by (rule generatedI[where ks = "[4]"]) (simp_all add: demo_defs demo_gen)
  with assms show "comms_ok (principal_ids ?s) (rnd ?s) (draws ?s) (session_keys ?s) (comm_sessions ?s)"
    by (auto simp: demo_defs comms_ok_def comm_row_ok_def principal_ids_def session_keys_def session_key_def
        granted_def ungranted_def comm_grant_def addMinutes_def addSeconds_def)
  have "generated ''msg'' (rnd ?s) (draws ?s) [''msg_aaaaa'']" "generated ''msg'' (rnd ?s) (draws ?s) []"
    by (rule generatedI[where ks = "[5]"] generatedI[where ks = "[]"]; simp add: demo_defs demo_gen)+
  with assms show "messages_ok (principal_ids ?s) (rnd ?s) (draws ?s) (set (comm_sessions ?s)) (messages ?s)"
    by (auto simp: demo_defs messages_ok_def message_row_ok_def principal_ids_def carried_by_def session_sequence_def)
  have "generated ''del'' (rnd ?s) (draws ?s) [''del_aaaaaa'']" "generated ''del'' (rnd ?s) (draws ?s) []"
    by (rule generatedI[where ks = "[6]"] generatedI[where ks = "[]"]; simp add: demo_defs demo_gen)+
  with assms show "deliveries_ok (rnd ?s) (draws ?s) (messages ?s) (map delivery_key (deliveries ?s))"
    by (auto simp: demo_defs deliveries_ok_def delivery_key_def)
  show "events_ok (endpoint_ids ?s) (events ?s)"
    using assms by (auto simp: demo_defs events_ok_def endpoint_ids_def seqs_of_def)
qed

lemma demo_active_ok: "db_ok demo_active" and demo_pending_ok: "db_ok demo_pending"
  by (simp_all add: demo_active_def demo_pending_def demo_state_ok)

text \<open>Requests of the two participants.\<close>

definition demo_request :: "Route \<Rightarrow> string \<Rightarrow> Request" where
  "demo_request rt token = \<lparr>rt_route = rt, rt_authorization = Some (''Bearer '' @ token),
     rt_query = (\<lambda>_. None), rt_body = None\<rparr>"

definition demo_requests :: "Request list" where
  "demo_requests = [demo_request (Post_accept ''comm_aaaa'') ''ccd-token-b1'',
     demo_request (Post_heartbeat ''ep_a'') ''ccd-token-b1'', demo_request Get_whoami ''nobody'']"

definition demo_injection :: ValidateInput where
  "demo_injection = \<lparr>vi_messageId = ''msg_aaaaa'', vi_communicationSessionId = ''comm_aaaa'',
     vi_endpointId = ''ep_a'', vi_sessionHandle = Some ''rs_aaa''\<rparr>"

definition demo_text :: "string \<Rightarrow> SendMessageInput" where
  "demo_text c = \<lparr>sm_scope = Grant_scoped ''comm_aaaa'', sm_clientMessageId = c, sm_kind = Text,
     sm_payload = [(''text'', JStr ''hello'')], sm_replyTo = None, sm_correlationId = None\<rparr>"

text \<open>What some operations answer in the example states.\<close>

lemma demo_visible: "getVisible ''prn_a'' ''comm_aaaa'' demo_active = (Ok (mapCommunication (demo_comm ''comm_aaaa'' Comm_active)), tick demo_active)"
  by (simp add: getVisible_def expireIfNeeded_def find_comm_def demo_defs comm_lapsed_def grant_over_def nowIso_def demo_clock_def)
lemma demo_payload_small: "length (stringify (JObj (sm_payload (demo_text c)))) \<le> 32 * 1024"
proof -
  have "length (stringify (JObj [(''text'', JStr ''hello'')])) \<le> 32 * 1024" by (simp add: json_string_def json_escape_def)
  then show ?thesis by (simp add: demo_text_def)
qed
lemma queue_receipt: "\<exists>rc. fst (queue_message auth i c t ep sh h s) = Some (Ok rc)" if "co_grantExpiresAt c \<noteq> None" "dl_message_id ` set (deliveries s) \<subseteq> D" "new_id ''msg'' s \<notin> D"
proof -
  from that(2,3) have "List.find (\<lambda>d. dl_message_id d = new_id ''msg'' s) (deliveries s) = None"
    by (auto simp: find_None_iff)
  with that(1) show ?thesis
    by (auto simp: queue_message_def Let_def receiptFor_def mapDelivery_def find_append)
qed
lemma demo_sends: "\<exists>rc. fst (send authA (demo_text ''c2'') demo_active) = Some (Ok rc)"
proof -
  have d: "findDuplicate ''prn_a'' ''c2'' demo_active = None" by (simp add: findDuplicate_def demo_defs)
  have a': "requireActive ''prn_a'' ''comm_aaaa'' demo_active = (Ok (mapCommunication (demo_comm ''comm_aaaa'' Comm_active)), tick demo_active)"
    by (simp add: requireActive_def demo_visible mapCommunication_def demo_comm_def)
  have q: "\<exists>rc. fst (queue_message authA (demo_text ''c2'') (mapCommunication (demo_comm ''comm_aaaa'' Comm_active))
      t ep sh h (tick demo_active)) = Some (Ok rc)" for t ep sh h
    by (rule queue_receipt[of _ _ "{''msg_aaaaa''}"])
       (simp_all add: mapCommunication_def demo_defs new_id_def demo_random_def numeral_eq_Suc)
  have au: "au_principalId authA = ''prn_a''" by (simp add: authA_def)
  have t: "truthy (mt_endpointId (grant_target authA (mapCommunication (demo_comm ''comm_aaaa'' Comm_active))))"
     "truthy (mt_sessionHandle (grant_target authA (mapCommunication (demo_comm ''comm_aaaa'' Comm_active))))"
    by (simp_all add: grant_target_def au mapCommunication_def demo_comm_def)
  show ?thesis
    using demo_payload_small[of "''c2''"] q
    by (simp add: send_def Let_def au d demo_text_def sendGrantScoped_def a' reply_in_session_def t)
       (simp add: mapCommunication_def demo_comm_def)
qed
lemma demo_revokes: "fst (revoke authA ''comm_aaaa'' demo_active) = Ok ()"
proof -
  have "au_principalId authA = ''prn_a''" by (simp add: authA_def)
  then show ?thesis by (simp add: revoke_def Let_def split_def demo_visible) (simp add: mapCommunication_def demo_comm_def)
qed

end
