(* ===== verification/Guarantees.thy ===== *)
theory Guarantees
  imports Scenario
begin

text \<open>
  What the control plane promises its callers, stated over whole runs of requests: what
  a successful answer means, what a later request can no longer change, and what is
  refused. \<open>run rs\<close> handles the requests \<open>rs\<close> in order.
\<close>

abbreviation run :: "Request list \<Rightarrow> cp \<Rightarrow> cp" where
  "run rs s \<equiv> fold serve_request rs s"

section \<open>Reading a session\<close>

lemma expireIfNeeded_open:
  assumes "find_comm sid (expireIfNeeded sid s) = Some r" "\<not> ended_comm (cs_status r)"
  shows "expireIfNeeded sid s = tick s \<and> find_comm sid s = Some r \<and> \<not> comm_lapsed r (nowIso s)"
proof (cases "find_comm sid s")
  case None
  with assms show ?thesis by (simp add: expireIfNeeded_def)
next
  case (Some row)
  show ?thesis
  proof (cases "comm_lapsed row (nowIso s)")
    case False
    with Some have e: "expireIfNeeded sid s = tick s" by (simp add: expireIfNeeded_def Let_def)
    moreover have "find_comm sid (tick s) = find_comm sid s" by (simp add: find_comm_def)
    ultimately show ?thesis using assms Some False by simp
  next
    case True
    let ?P = "\<lambda>r. cs_comm_session_id r = sid \<and> cs_status r = cs_status row"
    let ?s = "comm_sessions_update (update_where ?P (\<lambda>r. r\<lparr>cs_status := Comm_expired\<rparr>)) (tick s)"
    from find_comm_in[OF Some] have n: "changes ?P (comm_sessions (tick s)) \<noteq> 0"
      by (auto simp: changes_zero_iff)
    have "find_comm sid ?s = map_option (\<lambda>r. if ?P r then r\<lparr>cs_status := Comm_expired\<rparr> else r) (find_comm sid s)"
      unfolding find_comm_def by (simp add: find_update_where_same[where key = cs_comm_session_id])
    with Some find_comm_in[OF Some] have f: "find_comm sid ?s = Some (row\<lparr>cs_status := Comm_expired\<rparr>)" by simp
    have "cp_le ?s (expireIfNeeded sid s)"
      using Some True n by (auto simp: expireIfNeeded_def Let_def split_def open_delivery_def intro!: le_intros)
    from later_comm[OF this f] obtain r' where
      "find_comm sid (expireIfNeeded sid s) = Some r'" "comm_rel (row\<lparr>cs_status := Comm_expired\<rparr>) r'" .
    with assms show ?thesis by (auto simp: comm_rel_def ended_comm_def)
  qed
qed

lemma getVisible_open:
  assumes "fst (getVisible p sid s) = Ok v" "\<not> ended_comm (co_status v)"
  obtains r where "find_comm sid s = Some r" "v = mapCommunication r" "snd (getVisible p sid s) = tick s"
    "p = cs_requester_principal_id r \<or> p = cs_recipient_principal_id r" "\<not> comm_lapsed r (nowIso s)"
proof -
  from getVisible_Ok[OF assms(1)] obtain r where r: "find_comm sid (snd (getVisible p sid s)) = Some r"
    "v = mapCommunication r" "p = cs_requester_principal_id r \<or> p = cs_recipient_principal_id r" .
  have e: "snd (getVisible p sid s) = expireIfNeeded sid s"
    by (auto simp: getVisible_def Let_def split: option.split)
  from expireIfNeeded_open[of sid s r] r assms(2) e that show ?thesis by (simp add: mapCommunication_def)
qed

lemma requireActive_open:
  assumes "fst (requireActive p sid s) = Ok v"
  obtains r where "find_comm sid s = Some r" "v = mapCommunication r" "snd (requireActive p sid s) = tick s"
    "p = cs_requester_principal_id r \<or> p = cs_recipient_principal_id r"
    "cs_status r = Comm_active" "\<not> grant_over r (nowIso s)"
proof -
  from assms have g: "fst (getVisible p sid s) = Ok v" "co_status v = Comm_active"
    "snd (requireActive p sid s) = snd (getVisible p sid s)"
    by (auto simp: requireActive_def split_def split: ServiceResult.splits if_splits)
  from g(2) have "\<not> ended_comm (co_status v)" by (simp add: ended_comm_def)
  from getVisible_open[OF g(1) this] obtain r where r: "find_comm sid s = Some r" "v = mapCommunication r"
    "snd (getVisible p sid s) = tick s" "p = cs_requester_principal_id r \<or> p = cs_recipient_principal_id r"
    "\<not> comm_lapsed r (nowIso s)" .
  moreover from r(2) g(2) have "cs_status r = Comm_active" by (simp add: mapCommunication_def)
  ultimately show ?thesis using that g(3) by (simp add: comm_lapsed_def)
qed

section \<open>What stays\<close>

lemma later_ended:
  assumes "cp_le s s'" "find_comm sid s = Some r" "ended_comm (cs_status r)"
  shows "find_comm sid s' = Some r"
  using later_comm[OF assms(1,2)] assms(3) by (auto simp: comm_rel_def)

lemma later_delivery:
  assumes "cp_le s s'" "d \<in> set (deliveries s)"
  obtains d' where "d' \<in> set (deliveries s')" "dl_delivery_id d' = dl_delivery_id d" "delivery_rel d d'"
  using assms delivery_rows.row[of "deliveries s" "deliveries s'" d] unfolding cp_le_def by blast

lemma later_messages: "cp_le s s' \<Longrightarrow> set (messages s) \<subseteq> set (messages s')"
  by (auto simp: cp_le_def dest: set_mono_prefix)

text \<open>A session that was declined, revoked or has expired never changes again.\<close>

theorem ended_session_final:
  assumes "find_comm sid s = Some r" "ended_comm (cs_status r)"
  shows "find_comm sid (run rs s) = Some r"
  by (rule later_ended[OF cp_order.le_run assms])

theorem ended_session_final_witness:
  "\<exists>r. find_comm ''comm_aaaa'' (demo_state Comm_expired [Del_expired]) = Some r
     \<and> find_comm ''comm_aaaa'' (run demo_requests (demo_state Comm_expired [Del_expired])) = Some r"
  using ended_session_final[of "''comm_aaaa''" "demo_state Comm_expired [Del_expired]" "demo_comm ''comm_aaaa'' Comm_expired"
      demo_requests]
  by (simp add: find_comm_def demo_defs ended_comm_def)

text \<open>Once accepted, a session keeps its participants, its route and its expiry; it can only be revoked or expire.\<close>

theorem grant_frozen:
  assumes "find_comm sid s = Some r" "cs_status r = Comm_active"
  shows "\<exists>r'. find_comm sid (run rs s) = Some r' \<and> comm_identity r' = comm_identity r \<and> comm_grant r' = comm_grant r
     \<and> cs_status r' \<in> {Comm_active, Comm_revoked, Comm_expired}"
  using later_comm[OF cp_order.le_run assms(1), of rs] assms(2) by (fastforce simp: comm_rel_def comm_edge_def)

theorem grant_frozen_witness:
  "\<exists>r. find_comm ''comm_aaaa'' (run demo_requests demo_active) = Some r
     \<and> comm_grant r = (Some ''ep_a'', Some ''rs_aaa'', Some 2000, Some 1802000)"
  using grant_frozen[of "''comm_aaaa''" demo_active "demo_comm ''comm_aaaa'' Comm_active" demo_requests]
  by (auto simp: find_comm_def demo_defs comm_grant_def)

text \<open>A delivery that reached a final status keeps its row in every later state.\<close>

theorem settled_delivery_final:
  assumes "d \<in> set (deliveries s)" "\<not> open_delivery (dl_status d)"
  shows "d \<in> set (deliveries (run rs s))"
  using later_delivery[OF cp_order.le_run assms(1), of rs] assms(2) by (auto simp: delivery_rel_def)

theorem settled_delivery_final_witness:
  "demo_delivery Runtime_acked \<in> set (deliveries (run demo_requests (demo_state Comm_active [Runtime_acked])))"
  by (rule settled_delivery_final) (simp_all add: demo_state_def open_delivery_def demo_delivery_def)

section \<open>Injection is validated against the live grant\<close>

lemma validate_message_Valid:
  assumes "fst (validate_message auth i s) = Valid"
  obtains m d r where "m \<in> set (messages s)" "ms_message_id m = vi_messageId i"
    "ms_comm_session_id m = Some (vi_communicationSessionId i)"
    "List.find (\<lambda>d. dl_message_id d = ms_message_id m) (deliveries s) = Some d"
    "is_ok (getOwned auth (vi_endpointId i) s)" "dl_endpoint_id d = Some (vi_endpointId i)"
    "find_comm (vi_communicationSessionId i) s = Some r" "cs_status r = Comm_active" "\<not> grant_over r (nowIso s)"
    "au_principalId auth = cs_requester_principal_id r \<or> au_principalId auth = cs_recipient_principal_id r"
    "\<not> ended_delivery (dl_status d)" "clk s (Suc (ticks s)) < ms_expires_at m"
    "validate_target i m (tick (tick s)) = Valid"
proof -
  from assms obtain m d where m: "List.find (\<lambda>m. ms_message_id m = vi_messageId i
              \<and> (\<exists>d \<in> set (deliveries s). dl_message_id d = ms_message_id m)) (messages s) = Some m"
    "ms_comm_session_id m = Some (vi_communicationSessionId i)"
    "List.find (\<lambda>d. dl_message_id d = ms_message_id m) (deliveries s) = Some d"
    "is_ok (getOwned auth (vi_endpointId i) s)" "dl_endpoint_id d = Some (vi_endpointId i)"
    by (auto simp: validate_message_def split: option.splits if_splits)
  with assms obtain v where v: "fst (requireActive (au_principalId auth) (vi_communicationSessionId i) s) = Ok v"
    by (auto simp: validate_message_def split_def split: ServiceResult.splits)
  from requireActive_open[OF v] obtain r where r: "find_comm (vi_communicationSessionId i) s = Some r"
    "snd (requireActive (au_principalId auth) (vi_communicationSessionId i) s) = tick s"
    "au_principalId auth = cs_requester_principal_id r \<or> au_principalId auth = cs_recipient_principal_id r"
    "cs_status r = Comm_active" "\<not> grant_over r (nowIso s)" .
  from assms m v r(2) have "\<not> ended_delivery (dl_status d)" "clk s (Suc (ticks s)) < ms_expires_at m"
    "validate_target i m (tick (tick s)) = Valid"
    by (cases "requireActive (au_principalId auth) (vi_communicationSessionId i) s";
        auto simp: validate_message_def Let_def nowIso_def split: if_splits)+
  with that m r find_SomeD[OF m(1)] show ?thesis by blast
qed

lemma fst_validateInjection: "fst (validateInjection auth i s) = fst (validate_message auth i s)"
  by (simp add: validateInjection_def split_def Let_def)

lemma validate_target_Valid:
  assumes "validate_target i m s = Valid"
  obtains h q where "vi_sessionHandle i = Some h" "ms_target_session_handle m = Some h" "q \<in> set (runtime_sessions s)"
    "rs_session_handle q = h" "rs_endpoint_id q = vi_endpointId i" "rs_state q \<noteq> Closed" "rs_allow_inbound q"
proof -
  from assms obtain h where h: "vi_sessionHandle i = Some h" "ms_target_session_handle m = Some h"
    by (auto simp: validate_target_def truthy_def split: if_splits option.splits)
  with assms that show ?thesis
    by (auto simp: validate_target_def truthy_def or_else_def getSession_def mapSession_def split: option.splits if_splits
        dest!: find_SomeD)
qed

text \<open>
  C3: when the control plane approves an injection, the caller's device owns
  the endpoint the delivery is for, the session is active and its grant not over, the
  delivery is not ended, the message not expired, and the runtime session it was sent to
  is open on that endpoint and accepts inbound messages.
\<close>

theorem validated_injection:
  assumes "fst (validateInjection auth i s) = Valid"
  shows "\<exists>m \<in> set (messages s). \<exists>d \<in> set (deliveries s). \<exists>r \<in> set (comm_sessions s). \<exists>e \<in> set (endpoints s).
     \<exists>q \<in> set (runtime_sessions s).
       ms_message_id m = vi_messageId i \<and> ms_comm_session_id m = Some (vi_communicationSessionId i)
     \<and> clk s (Suc (ticks s)) < ms_expires_at m
     \<and> dl_message_id d = ms_message_id m \<and> dl_endpoint_id d = Some (vi_endpointId i) \<and> \<not> ended_delivery (dl_status d)
     \<and> cs_comm_session_id r = vi_communicationSessionId i \<and> cs_status r = Comm_active \<and> \<not> grant_over r (nowIso s)
     \<and> au_principalId auth \<in> {cs_requester_principal_id r, cs_recipient_principal_id r}
     \<and> ep_endpoint_id e = vi_endpointId i \<and> ep_principal_id e = au_principalId auth \<and> ep_device_id e = au_deviceId auth
     \<and> ms_target_session_handle m = Some (rs_session_handle q) \<and> rs_endpoint_id q = vi_endpointId i
     \<and> rs_state q \<noteq> Closed \<and> rs_allow_inbound q"
proof -
  from validate_message_Valid[OF assms[unfolded fst_validateInjection]] obtain m d r where
    m: "m \<in> set (messages s)" "ms_message_id m = vi_messageId i"
    "ms_comm_session_id m = Some (vi_communicationSessionId i)"
    and d: "List.find (\<lambda>d. dl_message_id d = ms_message_id m) (deliveries s) = Some d"
    and e: "is_ok (getOwned auth (vi_endpointId i) s)"
    and d1: "dl_endpoint_id d = Some (vi_endpointId i)"
    and r: "find_comm (vi_communicationSessionId i) s = Some r" "cs_status r = Comm_active" "\<not> grant_over r (nowIso s)"
    "au_principalId auth = cs_requester_principal_id r \<or> au_principalId auth = cs_recipient_principal_id r"
    and d2: "\<not> ended_delivery (dl_status d)" and m1: "clk s (Suc (ticks s)) < ms_expires_at m"
    and t: "validate_target i m (tick (tick s)) = Valid" .
  from e obtain v where "getOwned auth (vi_endpointId i) s = Ok v"
    by (cases "getOwned auth (vi_endpointId i) s") (auto simp: is_ok_def)
  from getOwned_Ok[OF this] obtain e where e: "e \<in> set (endpoints s)" "ep_endpoint_id e = vi_endpointId i"
    "ep_principal_id e = au_principalId auth" "ep_device_id e = au_deviceId auth" by blast
  from validate_target_Valid[OF t] obtain q where q: "q \<in> set (runtime_sessions s)"
    "ms_target_session_handle m = Some (rs_session_handle q)" "rs_endpoint_id q = vi_endpointId i"
    "rs_state q \<noteq> Closed" "rs_allow_inbound q" by auto
  from find_SomeD[OF d] have d': "d \<in> set (deliveries s)" "dl_message_id d = ms_message_id m" by simp_all
  from find_comm_in[OF r(1)] have r': "r \<in> set (comm_sessions s)" "cs_comm_session_id r = vi_communicationSessionId i"
    by simp_all
  show ?thesis
    by (intro bexI[of _ m] bexI[of _ d] bexI[of _ r] bexI[of _ e] bexI[of _ q]) (simp_all add: m m1 d1 d2 d' r(2-4) r' e q)
qed

theorem validated_injection_witness:
  "fst (validateInjection authB demo_injection demo_active) = Valid
   \<and> (\<exists>r \<in> set (comm_sessions demo_active). cs_status r = Comm_active \<and> \<not> grant_over r (nowIso demo_active))"
proof -
  have v: "fst (validateInjection authB demo_injection demo_active) = Valid" by code_simp
  with validated_injection[OF v] show ?thesis by blast
qed

section \<open>Revocation\<close>

lemma revoke_Ok:
  assumes "fst (revoke auth sid s) = Ok ()"
  obtains r where "find_comm sid (snd (revoke auth sid s)) = Some r" "cs_status r = Comm_revoked"
    "au_principalId auth \<in> {cs_requester_principal_id r, cs_recipient_principal_id r}"
proof -
  from assms obtain v where v: "fst (getVisible (au_principalId auth) sid s) = Ok v" "co_status v = Comm_active"
    by (auto simp: revoke_def split_def Let_def split: ServiceResult.splits if_splits)
  from v(2) have "\<not> ended_comm (co_status v)" by (simp add: ended_comm_def)
  from getVisible_open[OF v(1) this] obtain r where r: "find_comm sid s = Some r" "v = mapCommunication r"
    "snd (getVisible (au_principalId auth) sid s) = tick s"
    "au_principalId auth = cs_requester_principal_id r \<or> au_principalId auth = cs_recipient_principal_id r" .
  from v(2) r(2) have act: "cs_status r = Comm_active" by (simp add: mapCommunication_def)
  let ?P = "\<lambda>r. cs_comm_session_id r = sid \<and> cs_status r = Comm_active"
  let ?f = "\<lambda>r. r\<lparr>cs_status := Comm_revoked, cs_revoked_at := Some (nowIso (tick s))\<rparr>"
  let ?s = "comm_sessions_update (update_where ?P ?f) (tick (tick s))"
  have "find_comm sid ?s = map_option (\<lambda>r. if ?P r then ?f r else r) (find_comm sid s)"
    unfolding find_comm_def by (simp add: find_update_where_same[where key = cs_comm_session_id])
  with r(1) act find_comm_in[OF r(1)] have f: "find_comm sid ?s = Some (?f r)" by simp
  have "cp_le ?s (snd (revoke auth sid s))"
    using assms v r(3)
    by (cases "getVisible (au_principalId auth) sid s")
       (auto simp: revoke_def split_def Let_def open_delivery_def split: if_splits intro!: le_intros)
  from later_ended[OF this f] r(4) that[of "?f r"] show ?thesis by (simp add: ended_comm_def)
qed

text \<open>
  C2: after a participant revoked a session, whatever requests follow,
  no injection of one of its messages is approved any more.
\<close>

theorem revoked_grant_stops_injection:
  assumes "fst (revoke auth sid s) = Ok ()" "vi_communicationSessionId i = sid"
  shows "fst (validateInjection auth' i (run rs (snd (revoke auth sid s)))) \<noteq> Valid"
proof
  let ?s = "run rs (snd (revoke auth sid s))"
  assume v: "fst (validateInjection auth' i ?s) = Valid"
  from revoke_Ok[OF assms(1)] obtain r where "find_comm sid (snd (revoke auth sid s)) = Some r" "cs_status r = Comm_revoked" .
  then have "find_comm sid ?s = Some r" by (intro later_ended[OF cp_order.le_run]) (simp_all add: ended_comm_def)
  moreover from validate_message_Valid[OF v[unfolded fst_validateInjection]] obtain q where
    "find_comm sid ?s = Some q" "cs_status q = Comm_active" using assms(2) by metis
  ultimately show False using \<open>cs_status r = _\<close> by simp
qed

theorem revoked_grant_stops_injection_witness:
  "fst (validateInjection authB demo_injection demo_active) = Valid
   \<and> fst (validateInjection authB demo_injection (run demo_requests (snd (revoke authA ''comm_aaaa'' demo_active)))) \<noteq> Valid"
proof
  show "fst (validateInjection authB demo_injection demo_active) = Valid" by code_simp
  show "fst (validateInjection authB demo_injection (run demo_requests (snd (revoke authA ''comm_aaaa'' demo_active)))) \<noteq> Valid"
    by (rule revoked_grant_stops_injection[OF demo_revokes]) (simp add: demo_injection_def)
qed

text \<open>
  C9: in the state a revocation leaves, and ever after, no delivery of the
  session is still on its way.
\<close>

theorem revoked_session_halts:
  assumes "db_ok s" "fst (revoke auth sid s) = Ok ()" "m \<in> set (messages (run rs (snd (revoke auth sid s))))"
    "ms_comm_session_id m = Some sid" "d \<in> set (deliveries (run rs (snd (revoke auth sid s))))"
    "dl_message_id d = ms_message_id m"
  shows "\<not> open_delivery (dl_status d)"
proof -
  let ?s = "run rs (snd (revoke auth sid s))"
  from revoke_Ok[OF assms(2)] obtain r where r: "find_comm sid (snd (revoke auth sid s)) = Some r"
    "cs_status r = Comm_revoked" .
  then have f: "find_comm sid ?s = Some r" by (intro later_ended[OF cp_order.le_run]) (simp_all add: ended_comm_def)
  have "db_ok ?s" by (intro cp_ok.inv_run ok_revoke assms(1))
  then have "halted (set (comm_sessions ?s)) (set (messages ?s)) (set (deliveries ?s))" by (simp add: db_ok_def)
  with find_comm_in[OF f] r(2) assms(3-6) show ?thesis by (force simp: halted_def ended_comm_def)
qed

theorem revoked_session_halts_witness:
  "\<exists>d \<in> set (deliveries (run demo_requests (snd (revoke authA ''comm_aaaa'' demo_active)))). dl_message_id d = ''msg_aaaaa''
     \<and> \<not> open_delivery (dl_status d)"
proof -
  let ?s = "run demo_requests (snd (revoke authA ''comm_aaaa'' demo_active))"
  have "cp_le demo_active ?s"
    by (rule cp_le_trans[OF _ cp_order.le_run]) (simp add: le_intros)
  from later_messages[OF this] have m: "demo_message \<in> set (messages ?s)" by (auto simp: demo_active_def demo_state_def)
  have ok: "db_ok ?s" by (intro cp_ok.inv_run ok_revoke demo_active_ok)
  have "ms_message_id demo_message \<in> dl_message_id ` set (deliveries ?s)"
    unfolding delivery_message_iff[OF ok] by (rule imageI[OF m])
  then obtain d where d: "d \<in> set (deliveries ?s)" "dl_message_id d = ms_message_id demo_message"
    by (elim imageE) simp
  from revoked_session_halts[OF demo_active_ok demo_revokes m _ d] d show ?thesis by (auto simp: demo_message_def)
qed

section \<open>Acceptance\<close>

lemma activate_Ok:
  assumes ok: "db_ok s" and "fst (activate auth c sid e h s) = Some (Ok v)"
  obtains r r' where "find_comm sid s = Some r" "cs_status r = Comm_pending"
    "find_comm sid (snd (activate auth c sid e h s)) = Some r'" "v = mapCommunication r'"
    "comm_identity r' = comm_identity r"
    "comm_grant r' = (Some e, Some h, Some (nowIso s), Some (addMinutes (nowIso s) (min (cs_requested_ttl_minutes r) 30)))"
proof -
  let ?P = "\<lambda>r. cs_comm_session_id r = sid \<and> cs_status r = Comm_pending"
  from assms(2) obtain r where r: "find_comm sid (tick s) = Some r" "changes ?P (comm_sessions s) \<noteq> 0"
    by (auto simp: activate_def Let_def split: option.splits if_splits)
  from r(2) obtain q where "q \<in> set (comm_sessions s)" "?P q" by (auto simp: changes_zero_iff)
  moreover from find_comm_in[OF r(1)] have "r \<in> set (comm_sessions s)" "cs_comm_session_id r = sid" by simp_all
  ultimately have pend: "cs_status r = Comm_pending" "cs_comm_session_id r = sid"
    using comm_row_unique[OF ok, of q r] by auto
  let ?f = "\<lambda>r'. r'\<lparr>cs_status := Comm_active, cs_frozen_endpoint_id := Some e, cs_frozen_session_handle := Some h,
     cs_activated_at := Some (nowIso s),
     cs_grant_expires_at := Some (addMinutes (nowIso s) (min (cs_requested_ttl_minutes r) 30))\<rparr>"
  let ?s = "comm_sessions_update (update_where ?P ?f) (tick s)"
  have "find_comm sid ?s = map_option (\<lambda>r. if ?P r then ?f r else r) (find_comm sid (tick s))"
    unfolding find_comm_def by (simp add: find_update_where_same[where key = cs_comm_session_id])
  with r(1) pend have f: "find_comm sid ?s = Some (?f r)" by simp
  let ?t = "snd (activate auth c sid e h s)"
  have "cp_le ?s ?t" using r by (auto simp: activate_def Let_def split_def intro!: le_intros)
  from later_comm[OF this f] obtain r' where r': "find_comm sid ?t = Some r'" "comm_rel (?f r) r'" .
  have "\<exists>u. fst (getVisible (au_principalId auth) sid u) = Ok v \<and> ?t = snd (getVisible (au_principalId auth) sid u)"
    using assms(2) r by (auto simp: activate_def Let_def split_def)
  then obtain q where "find_comm sid ?t = Some q" "v = mapCommunication q" by (metis getVisible_Ok)
  moreover have "find_comm sid s = Some r" using r(1) by (simp add: find_comm_def)
  moreover have "comm_identity (?f r) = comm_identity r" by (simp add: comm_identity_def)
  ultimately show ?thesis using that[of r r'] r' pend by (simp add: comm_rel_def comm_grant_def)
qed

lemma accept_route_frame: "snd (accept_route auth c s) = s \<or> snd (accept_route auth c s) = tick s"
  by (auto simp: accept_route_def resolve_offer_def Let_def split: TargetKind.split option.split)

lemma accept_target_Ok:
  assumes "accept_target_check auth e h s = Ok x"
  obtains q where "q \<in> set (runtime_sessions s)" "rs_session_handle q = h" "rs_endpoint_id q = e"
    "rs_principal_id q = au_principalId auth" "rs_state q \<noteq> Closed" "rs_allow_inbound q"
proof -
  from assms obtain v where v: "getSession h s = Some v" "rb_endpointId v = e" "rb_principalId v = au_principalId auth"
    "rb_state v \<noteq> Closed" "rb_allowInbound v"
    by (auto simp: accept_target_check_def split: option.splits if_splits)
  from v(1) obtain q where "q \<in> set (runtime_sessions s)" "rs_session_handle q = h" "v = mapSession q"
    by (auto simp: getSession_def dest!: find_SomeD)
  with v that[of q] show ?thesis by (simp add: mapSession_def)
qed

text \<open>
  C4: an accepted request was pending and not past its deadline, the caller is its
  recipient, the route it froze is a runtime session of the caller that is open and takes
  inbound messages, and the grant runs for the requested time, thirty minutes at most.
\<close>

theorem acceptance_grants:
  assumes ok: "db_ok s" and a: "fst (accept auth sid s) = Some (Ok v)"
  shows "\<exists>r q r' t. find_comm sid s = Some r \<and> cs_status r = Comm_pending \<and> nowIso s < cs_request_expires_at r
     \<and> cs_recipient_principal_id r = au_principalId auth
     \<and> q \<in> set (runtime_sessions s) \<and> rs_principal_id q = au_principalId auth \<and> rs_state q \<noteq> Closed \<and> rs_allow_inbound q
     \<and> find_comm sid (snd (accept auth sid s)) = Some r' \<and> v = mapCommunication r' \<and> comm_identity r' = comm_identity r
     \<and> comm_grant r' = (Some (rs_endpoint_id q), Some (rs_session_handle q), Some t,
          Some (addMinutes t (min (cs_requested_ttl_minutes r) 30)))"
proof -
  let ?p = "au_principalId auth"
  from a obtain c where c: "fst (getVisible ?p sid s) = Ok c" "co_recipientPrincipalId c = ?p" "co_status c = Comm_pending"
    by (auto simp: accept_def split_def split: ServiceResult.splits if_splits)
  from c(3) have "\<not> ended_comm (co_status c)" by (simp add: ended_comm_def)
  from getVisible_open[OF c(1) this] obtain r where r: "find_comm sid s = Some r" "c = mapCommunication r"
    "snd (getVisible ?p sid s) = tick s" "\<not> comm_lapsed r (nowIso s)" .
  let ?u = "snd (accept_route auth c (tick s))"
  from a c r(3) obtain e h where route: "fst (accept_route auth c (tick s)) = Ok (e, h)"
    by (cases "getVisible ?p sid s") (auto simp: accept_def split_def split: ServiceResult.splits)
  with a c r(3) obtain x where tgt: "accept_target_check auth e h ?u = Ok x"
    by (cases "getVisible ?p sid s"; cases "accept_route auth c (tick s)")
       (auto simp: accept_def split: ServiceResult.splits)
  let ?w = "tick (expireActiveGrantsForRoute ?p e h ?u)"
  have act: "accept auth sid s = activate auth c sid e h ?w"
    using a c r(3) route tgt
    by (cases "getVisible ?p sid s"; cases "accept_route auth c (tick s)") (auto simp: accept_def Let_def split: if_splits)
  have w: "db_ok ?w" by (intro ok_intros ok)
  from activate_Ok[OF w a[unfolded act]] obtain q r' where q: "find_comm sid ?w = Some q"
    "find_comm sid (snd (accept auth sid s)) = Some r'" "v = mapCommunication r'" "comm_identity r' = comm_identity q"
    "comm_grant r' = (Some e, Some h, Some (nowIso ?w), Some (addMinutes (nowIso ?w) (min (cs_requested_ttl_minutes q) 30)))"
    unfolding act by metis
  have "cp_le s ?w" by (intro le_intros) simp
  from later_comm[OF this r(1)] q(1) have id: "comm_identity q = comm_identity r" by (auto simp: comm_rel_def)
  from accept_target_Ok[OF tgt] obtain n where n: "n \<in> set (runtime_sessions ?u)" "rs_session_handle n = h"
    "rs_endpoint_id n = e" "rs_principal_id n = ?p" "rs_state n \<noteq> Closed" "rs_allow_inbound n" .
  have "runtime_sessions ?u = runtime_sessions s" using accept_route_frame[of auth c "tick s"] by auto
  with n(1) have n': "n \<in> set (runtime_sessions s)" by simp
  from id have ttl: "cs_requested_ttl_minutes q = cs_requested_ttl_minutes r" by (simp add: comm_identity_def)
  from r(2,4) c(2,3) have p: "cs_status r = Comm_pending" "nowIso s < cs_request_expires_at r"
    "cs_recipient_principal_id r = ?p"
    by (auto simp: mapCommunication_def comm_lapsed_def)
  show ?thesis
    by (intro exI[of _ r] exI[of _ n] exI[of _ r'] exI[of _ "nowIso ?w"]) (simp add: r(1) p n n' q(2-5) id ttl)
qed

theorem acceptance_grants_witness:
  "\<exists>r. find_comm ''comm_aaaa'' (snd (accept authB ''comm_aaaa'' demo_pending)) = Some r
     \<and> (\<exists>t. comm_grant r = (Some ''ep_a'', Some ''rs_aaa'', Some t, Some (addMinutes t 30)))"
proof -
  have "case fst (accept authB ''comm_aaaa'' demo_pending) of Some (Ok v) \<Rightarrow> co_endpointId v = Some ''ep_a''
      \<and> co_sessionHandle v = Some ''rs_aaa'' | _ \<Rightarrow> False" by code_simp
  then obtain v where v: "fst (accept authB ''comm_aaaa'' demo_pending) = Some (Ok v)" "co_endpointId v = Some ''ep_a''"
    "co_sessionHandle v = Some ''rs_aaa''" by (auto split: option.splits ServiceResult.splits)
  have "find_comm ''comm_aaaa'' demo_pending = Some (demo_comm ''comm_aaaa'' Comm_pending)"
    by (simp add: find_comm_def demo_defs)
  with acceptance_grants[OF demo_pending_ok v(1)] v(2,3) show ?thesis
    by (fastforce simp: mapCommunication_def comm_grant_def keep_truthy_Some_iff demo_comm_def)
qed

lemma distinct_all_equal:
  assumes "\<And>a b. a \<in> set xs \<Longrightarrow> b \<in> set xs \<Longrightarrow> a = b" "distinct xs"
  shows "length xs \<le> 1"
proof (cases xs)
  case (Cons a ys)
  have "ys = []"
  proof (rule ccontr)
    assume "ys \<noteq> []"
    then obtain b zs where "ys = b # zs" by (cases ys) auto
    with Cons assms(1)[of a b] assms(2) show False by simp
  qed
  with Cons show ?thesis by simp
qed simp

text \<open>
  C5: in every state that requests lead to, at most one active session is granted
  on a runtime session, counting those whose expiry no reading of the clock has passed yet.
\<close>

theorem one_grant_per_route:
  assumes "inj random" "s = run rs (openDb env clock random hash)"
  shows "length (filter (\<lambda>r. cs_status r = Comm_active \<and> cs_recipient_principal_id r = p
      \<and> cs_frozen_endpoint_id r = Some e \<and> cs_frozen_session_handle r = Some h
      \<and> (\<forall>k<ticks s. \<not> grant_over r (clk s k))) (comm_sessions s)) \<le> 1"
proof -
  let ?P = "\<lambda>r. cs_status r = Comm_active \<and> cs_recipient_principal_id r = p \<and> cs_frozen_endpoint_id r = Some e
      \<and> cs_frozen_session_handle r = Some h \<and> (\<forall>k<ticks s. \<not> grant_over r (clk s k))"
  from assms have ok: "db_ok s" by (simp add: cp_ok.inv_run openDb_ok)
  have "r = q" if "r \<in> set (filter ?P (comm_sessions s))" "q \<in> set (filter ?P (comm_sessions s))" for r q
  proof -
    from ok have "exclusive (clk s) (ticks s) (set (comm_sessions s))" by (simp add: db_ok_def)
    with that have "cs_comm_session_id r = cs_comm_session_id q" by (fastforce simp: exclusive_def same_route_def)
    with comm_row_unique[OF ok] that show ?thesis by auto
  qed
  moreover from generated_ids(4)[OF ok] have "distinct (filter ?P (comm_sessions s))"
    by (simp add: generated_def distinct_map)
  ultimately show ?thesis by (intro distinct_all_equal) blast+
qed

theorem one_grant_per_route_witness:
  "length (filter (\<lambda>r. cs_status r = Comm_active \<and> cs_recipient_principal_id r = ''prn_b''
      \<and> cs_frozen_endpoint_id r = Some ''ep_a'' \<and> cs_frozen_session_handle r = Some ''rs_aaa''
      \<and> (\<forall>k<ticks (run demo_requests demo0). \<not> grant_over r (clk (run demo_requests demo0) k)))
      (comm_sessions (run demo_requests demo0))) \<le> 1"
  by (rule one_grant_per_route[OF demo_random_inj, of _ demo_requests]) (simp add: demo0_def)

section \<open>Sending once\<close>

lemma findDuplicate_later:
  assumes "cp_le s s'" "findDuplicate p c s = Some m" shows "findDuplicate p c s' = Some m"
  using assms by (auto simp: cp_le_def findDuplicate_def prefix_def find_append)

lemma findDuplicate_snoc:
  "findDuplicate p c s = None \<Longrightarrow> messages s' = messages s @ [m] \<Longrightarrow> ms_sender_principal_id m = p \<Longrightarrow>
     ms_client_message_id m = c \<Longrightarrow> findDuplicate p c s' = Some m"
  by (simp add: findDuplicate_def find_append)

lemma receipt_later:
  assumes "cp_le s s'" "receiptFor mid b s = Some rc"
  obtains rc' where "receiptFor mid b' s' = Some rc'" "mr_deliveryId rc' = mr_deliveryId rc"
    "mr_queuedAt rc' = mr_queuedAt rc" "delivery_rank (mr_status rc) \<le> delivery_rank (mr_status rc')"
proof -
  have step: "\<exists>d'. List.find (\<lambda>d. dl_message_id d = mid) ds' = Some d' \<and> dl_delivery_id d' = dl_delivery_id d \<and> delivery_rel d d'"
    if "list_all2 (\<lambda>d d'. dl_delivery_id d' = dl_delivery_id d \<and> delivery_rel d d') ds ds'"
      "List.find (\<lambda>d. dl_message_id d = mid) ds = Some d" for ds ds' d
    using that by (induction rule: list_all2_induct) (auto simp: delivery_rel_def split: if_splits)
  from assms(1) obtain ups extra where u: "deliveries s' = ups @ extra"
    "list_all2 (\<lambda>d d'. dl_delivery_id d' = dl_delivery_id d \<and> delivery_rel d d') (deliveries s) ups"
    by (auto simp: cp_le_def evolves_def)
  from assms(2) obtain d where d: "List.find (\<lambda>d. dl_message_id d = mid) (deliveries s) = Some d"
    "mr_deliveryId rc = dl_delivery_id d" "mr_status rc = dl_status d" "mr_queuedAt rc = dl_queued_at d"
    by (auto simp: receiptFor_def mapDelivery_def split: option.splits)
  from step[OF u(2) d(1)] obtain d' where "List.find (\<lambda>d. dl_message_id d = mid) ups = Some d'"
    "dl_delivery_id d' = dl_delivery_id d" "delivery_rel d d'" by blast
  moreover from this(1) have "List.find (\<lambda>d. dl_message_id d = mid) (deliveries s') = Some d'"
    by (simp add: u(1) find_append)
  ultimately show ?thesis using d that[of "\<lparr>mr_messageId = mid, mr_deliveryId = dl_delivery_id d', mr_status = dl_status d',
        mr_duplicate = b', mr_queuedAt = dl_queued_at d'\<rparr>"]
    by (simp add: receiptFor_def mapDelivery_def delivery_rel_def)
qed

definition stored :: "AuthContext \<Rightarrow> SendMessageInput \<Rightarrow> string \<Rightarrow> MessageReceipt \<Rightarrow> cp \<Rightarrow> bool" where
  "stored auth i h rc s = (\<exists>m b. findDuplicate (au_principalId auth) (sm_clientMessageId i) s = Some m
     \<and> ms_request_hash m = h \<and> ms_message_id m = mr_messageId rc \<and> receiptFor (mr_messageId rc) b s = Some rc)"

lemma stored_intro:
  assumes "findDuplicate (au_principalId auth) (sm_clientMessageId i) s = None"
    "\<exists>m. messages (snd x) = messages s @ [m] \<and> ms_sender_principal_id m = au_principalId auth
       \<and> ms_client_message_id m = sm_clientMessageId i \<and> ms_request_hash m = h \<and> ms_message_id m = mid"
    "fst x = map_option Ok (receiptFor mid b (snd x))" "fst x = Some (Ok rc)"
  shows "stored auth i h rc (snd x)"
proof -
  from assms(2) obtain m where m: "messages (snd x) = messages s @ [m]" "ms_sender_principal_id m = au_principalId auth"
    "ms_client_message_id m = sm_clientMessageId i" "ms_request_hash m = h" "ms_message_id m = mid" by blast
  from assms(3,4) have r: "receiptFor mid b (snd x) = Some rc" by (cases "receiptFor mid b (snd x)") auto
  from findDuplicate_snoc[OF assms(1) m(1-3)] m(4,5) r receiptFor_id[OF r] show ?thesis by (auto simp: stored_def)
qed

lemma queue_message_stored:
  assumes "fst (queue_message auth i c t ep sh h s) = Some (Ok rc)"
    "findDuplicate (au_principalId auth) (sm_clientMessageId i) s = None"
  shows "stored auth i h rc (snd (queue_message auth i c t ep sh h s))"
proof (cases "co_grantExpiresAt c")
  case None
  with assms show ?thesis by (simp add: queue_message_def Let_def)
next
  case (Some t0)
  show ?thesis
    by (rule stored_intro[OF assms(2) _ _ assms(1), of _ "new_id ''msg'' s" False])
       (simp_all add: queue_message_def Let_def Some)
qed

lemma sendInbox_stored:
  assumes "fst (sendInbox auth i k p h s) = Some (Ok rc)"
    "findDuplicate (au_principalId auth) (sm_clientMessageId i) s = None"
  shows "stored auth i h rc (snd (sendInbox auth i k p h s))"
proof -
  from assms(1) have "k = Human_inbox" "principal_exists p s" by (auto simp: sendInbox_def split: if_splits)
  then show ?thesis
    by (intro stored_intro[OF assms(2) _ _ assms(1), of _ "new_id ''msg'' s" False]) (simp_all add: sendInbox_def Let_def)
qed

lemma kept_findDuplicate: "kept s' = kept s \<Longrightarrow> findDuplicate p c s' = findDuplicate p c s"
  by (simp add: kept_def findDuplicate_def)

lemma send_stored:
  assumes "fst (send auth i s) = Some (Ok rc)"
  obtains m b where "findDuplicate (au_principalId auth) (sm_clientMessageId i) (snd (send auth i s)) = Some m"
    "ms_request_hash m = stableHash s (send_input_json i)" "ms_message_id m = mr_messageId rc"
    "receiptFor (mr_messageId rc) b (snd (send auth i s)) = Some rc"
proof (cases "findDuplicate (au_principalId auth) (sm_clientMessageId i) s")
  case (Some m)
  with assms have h: "ms_request_hash m = stableHash s (send_input_json i)" "snd (send auth i s) = s"
    "receiptFor (ms_message_id m) True s = Some rc" by (auto simp: send_def Let_def split: if_splits)
  from Some h receiptFor_id[OF h(3)] that[of m True] show ?thesis by simp
next
  case None
  let ?h = "stableHash s (send_input_json i)"
  show ?thesis
  proof (cases "sm_scope i")
    case (To_target k p)
    with None assms have e: "send auth i s = sendInbox auth i k p ?h s" by (auto simp: send_def Let_def split: if_splits)
    show ?thesis using sendInbox_stored[OF assms[unfolded e] None] that unfolding e stored_def by blast
  next
    case (Grant_scoped sid)
    with None assms have e: "send auth i s = sendGrantScoped auth i sid ?h s" by (auto simp: send_def Let_def split: if_splits)
    let ?u = "snd (requireActive (au_principalId auth) sid s)"
    from assms[unfolded e] obtain c t ep sh where q: "sendGrantScoped auth i sid ?h s = queue_message auth i c t ep sh ?h ?u"
      by (auto simp: sendGrantScoped_def split_def Let_def split: ServiceResult.splits if_splits)
    have n: "findDuplicate (au_principalId auth) (sm_clientMessageId i) ?u = None"
      using None by (simp add: kept_findDuplicate[OF kept_requireActive])
    show ?thesis using queue_message_stored[OF assms[unfolded e q] n] that unfolding e q stored_def by blast
  qed
qed

text \<open>
  C8: a client message id is used once. Whatever requests follow a send, repeating it
  answers with the same message and delivery as a duplicate, using the id for anything else
  is refused with a conflict, and neither changes the state.
\<close>

theorem send_once:
  assumes "fst (send auth i s) = Some (Ok rc)" "sm_clientMessageId j = sm_clientMessageId i"
    "s' = run rs (snd (send auth i s))"
  shows "snd (send auth j s') = s' \<and>
     (if sha256 s (stringify (send_input_json j)) = sha256 s (stringify (send_input_json i))
      then \<exists>rc'. fst (send auth j s') = Some (Ok rc') \<and> mr_messageId rc' = mr_messageId rc \<and> mr_duplicate rc'
             \<and> mr_deliveryId rc' = mr_deliveryId rc \<and> mr_queuedAt rc' = mr_queuedAt rc
             \<and> delivery_rank (mr_status rc) \<le> delivery_rank (mr_status rc')
      else fst (send auth j s') = Some (Failure Client_message_id_conflict 409))"
proof -
  from send_stored[OF assms(1)] obtain m b where m:
    "findDuplicate (au_principalId auth) (sm_clientMessageId i) (snd (send auth i s)) = Some m"
    "ms_request_hash m = stableHash s (send_input_json i)" "ms_message_id m = mr_messageId rc"
    "receiptFor (mr_messageId rc) b (snd (send auth i s)) = Some rc" .
  have le: "cp_le (snd (send auth i s)) s'" unfolding assms(3) by (rule cp_order.le_run)
  have "cp_le s s'" by (rule cp_le_trans[OF _ le]) (simp add: le_intros)
  then have h: "stableHash s' v = stableHash s v" for v by (simp add: cp_le_def stableHash_def)
  note d = findDuplicate_later[OF le m(1)]
  from receipt_later[OF le m(4), of True] obtain rc' where "receiptFor (mr_messageId rc) True s' = Some rc'"
    "mr_deliveryId rc' = mr_deliveryId rc" "mr_queuedAt rc' = mr_queuedAt rc"
    "delivery_rank (mr_status rc) \<le> delivery_rank (mr_status rc')" .
  with d m(2,3) assms(2) h show ?thesis
    by (auto simp: send_def Let_def stableHash_def dest: receiptFor_id)
qed

theorem send_once_witness:
  "\<exists>rc rc'. fst (send authA (demo_text ''c2'') demo_active) = Some (Ok rc)
     \<and> fst (send authA (demo_text ''c2'') (run demo_requests (snd (send authA (demo_text ''c2'') demo_active)))) = Some (Ok rc')
     \<and> mr_messageId rc' = mr_messageId rc \<and> mr_duplicate rc'"
proof -
  from demo_sends obtain rc where rc: "fst (send authA (demo_text ''c2'') demo_active) = Some (Ok rc)" ..
  from send_once[OF rc refl refl, of demo_requests] rc show ?thesis by auto
qed

section \<open>Acknowledging\<close>

text \<open>
  C10: an acknowledgement is accepted only from the device that owns the
  delivery's endpoint; once the delivery has ended it is recorded in the audit log and
  changes no delivery, otherwise it applies the phase to that delivery alone.
\<close>

theorem acknowledged_by_owner:
  "case fst (acknowledge auth mid i s) of
     Failure c h \<Rightarrow> snd (acknowledge auth mid i s) = s
   | Ok recorded \<Rightarrow> (\<exists>d \<in> set (deliveries s). \<exists>e \<in> set (endpoints s).
        dl_message_id d = mid \<and> dl_endpoint_id d = Some (ep_endpoint_id e)
      \<and> ep_principal_id e = au_principalId auth \<and> ep_device_id e = au_deviceId auth
      \<and> (recorded = Audit_only \<longleftrightarrow> ended_delivery (dl_status d))
      \<and> deliveries (snd (acknowledge auth mid i s)) =
          (if recorded = Audit_only then deliveries s
           else update_where (\<lambda>q. dl_delivery_id q = dl_delivery_id d) (ack_update i (ep_adapter_version e) (nowIso s))
                  (deliveries s)))"
proof (cases "List.find (\<lambda>d. dl_message_id d = mid
              \<and> (\<exists>m \<in> set (messages s). ms_message_id m = dl_message_id d)) (deliveries s)")
  case None
  then show ?thesis by (simp add: acknowledge_def)
next
  case (Some d)
  note d = find_SomeD[OF Some]
  show ?thesis
  proof (cases "\<exists>ep e. dl_endpoint_id d = Some ep \<and> ep \<noteq> [] \<and> List.find (\<lambda>e. ep_endpoint_id e = ep) (endpoints s) = Some e
      \<and> ep_principal_id e = au_principalId auth \<and> ep_device_id e = au_deviceId auth")
    case True
    then obtain ep e where o: "dl_endpoint_id d = Some ep" "ep \<noteq> []"
      "List.find (\<lambda>e. ep_endpoint_id e = ep) (endpoints s) = Some e"
      "ep_principal_id e = au_principalId auth" "ep_device_id e = au_deviceId auth" by blast
    define r where "r = (if ended_delivery (dl_status d) then Audit_only else Ack_state)"
    from Some o have "fst (acknowledge auth mid i s) = Ok r" "deliveries (snd (acknowledge auth mid i s)) =
          (if r = Audit_only then deliveries s
           else update_where (\<lambda>q. dl_delivery_id q = dl_delivery_id d) (ack_update i (ep_adapter_version e) (nowIso s))
                  (deliveries s))"
      by (simp_all add: acknowledge_def Let_def r_def)
    moreover have "r = Audit_only \<longleftrightarrow> ended_delivery (dl_status d)" by (simp add: r_def)
    ultimately show ?thesis using d o find_SomeD[OF o(3)] by (simp only: ServiceResult.case) blast
  next
    case False
    then have "\<exists>c h. acknowledge auth mid i s = (Failure c h, s)"
      unfolding acknowledge_def Some option.case
      by (cases "dl_endpoint_id d"; simp; cases "List.find (\<lambda>e. Some (ep_endpoint_id e) = dl_endpoint_id d) (endpoints s)"; auto)
    then show ?thesis by auto
  qed
qed

section \<open>Events\<close>

lemma filter_upt_gt: "filter (\<lambda>k. c < k) [1..<Suc n] = [Suc c..<Suc n]"
  by (induction n) auto

lemma list_events_eq:
  fixes ep a :: string
  assumes "db_ok s"
  defines "F \<equiv> filter (\<lambda>r. ev_endpoint_id r = ep \<and> ev_seq r > normalizeCursor (Some a)) (events s)"
  shows "list_events ep a limit s = map mapEvent (take limit F)"
    "map ev_seq F = [Suc (normalizeCursor (Some a))..<Suc (max_seq ep (events s))]"
proof -
  from assms have ev: "events_ok (endpoint_ids s) (events s)" by (simp add: db_ok_def)
  then have "seqs_of ep (events s) = [1..<Suc (max_seq ep (events s))]"
    unfolding max_seq_ok[OF ev] by (simp only: events_ok_def)
  moreover have "map ev_seq F = filter (\<lambda>k. normalizeCursor (Some a) < k) (seqs_of ep (events s))"
    by (simp add: F_def seqs_of_def filter_map comp_def conj_commute)
  ultimately show m: "map ev_seq F = [Suc (normalizeCursor (Some a))..<Suc (max_seq ep (events s))]"
    by (simp only: filter_upt_gt)
  then have "sort_key ev_seq F = F" by (intro sort_key_id_if_sorted) (simp del: upt_Suc)
  moreover have "(case parse_int a of None \<Rightarrow> 0 | Some n \<Rightarrow> if n \<ge> 0 then nat n else 0) = normalizeCursor (Some a)"
    by (simp add: normalizeCursor_def)
  ultimately show "list_events ep a limit s = map mapEvent (take limit F)" by (simp add: list_events_def Let_def F_def)
qed

text \<open>
  Polling with a cursor returns the endpoint's events after it, with
  consecutive cursors, none left out, and events already logged never change: a later poll
  with the same cursor returns the same events first.
\<close>

theorem events_without_gaps:
  assumes "db_ok s"
  shows "map rv_cursor (list_events ep a limit s) =
      take limit [Suc (normalizeCursor (Some a))..<Suc (max_seq ep (events s))]
    \<and> prefix (list_events ep a limit s) (list_events ep a limit (run rs s))"
proof
  from list_events_eq(2)[OF assms, of ep a] show "map rv_cursor (list_events ep a limit s) =
      take limit [Suc (normalizeCursor (Some a))..<Suc (max_seq ep (events s))]"
    by (simp add: list_events_eq(1)[OF assms] mapEvent_def comp_def take_map[symmetric] del: upt_Suc)
  have "prefix (events s) (events (run rs s))" using cp_order.le_run[of s rs] by (simp add: cp_le_def)
  then obtain u where "events (run rs s) = events s @ u" by (auto simp: prefix_def)
  moreover have "db_ok (run rs s)" by (rule cp_ok.inv_run[OF assms])
  ultimately show "prefix (list_events ep a limit s) (list_events ep a limit (run rs s))"
    by (simp add: list_events_eq(1) assms)
qed

theorem events_without_gaps_witness:
  "prefix (list_events ''ep_a'' ''0'' 500 demo_active) (list_events ''ep_a'' ''0'' 500 (run demo_requests demo_active))
   \<and> map rv_cursor (list_events ''ep_a'' ''0'' 500 demo_active) = [1]"
proof
  note w = events_without_gaps[OF demo_active_ok, of "''ep_a''" "''0''" 500 demo_requests]
  from w show "prefix (list_events ''ep_a'' ''0'' 500 demo_active) (list_events ''ep_a'' ''0'' 500 (run demo_requests demo_active))"
    by (rule conjunct2)
  show "map rv_cursor (list_events ''ep_a'' ''0'' 500 demo_active) = [1]" by code_simp
qed

section \<open>Who sees a session\<close>

lemma stranger_visible:
  assumes "find_comm sid s = Some r" "p \<notin> {cs_requester_principal_id r, cs_recipient_principal_id r}"
  shows "fst (getVisible p sid s) = Failure Not_found 404"
proof -
  have "cp_le s (expireIfNeeded sid s)" by (simp add: le_intros)
  from later_comm[OF this assms(1)] obtain r' where "find_comm sid (expireIfNeeded sid s) = Some r'" "comm_rel r r'" .
  with assms(2) show ?thesis by (auto simp: getVisible_def Let_def comm_rel_def comm_identity_def)
qed

text \<open>
  C11: a session is known to its two participants only. For anyone else reading,
  accepting, declining, revoking it or sending in it is answered like a session that does
  not exist.
\<close>

theorem strangers_refused:
  assumes "find_comm sid s = Some r" "au_principalId auth \<notin> {cs_requester_principal_id r, cs_recipient_principal_id r}"
  shows "fst (serve auth (Get_comm_session sid) q b s) = (404, Error_body Not_found)
     \<and> fst (serve auth (Post_accept sid) q b s) = (404, Error_body Not_found)
     \<and> fst (serve auth (Post_decline sid) q b s) = (404, Error_body Not_found)
     \<and> fst (serve auth (Post_revoke sid) q b s) = (404, Error_body Not_found)
     \<and> (sm_scope i = Grant_scoped sid \<and> findDuplicate (au_principalId auth) (sm_clientMessageId i) s = None
         \<and> length (stringify (JObj (sm_payload i))) \<le> 32 * 1024 \<longrightarrow> fst (send auth i s) = Some (Failure Not_found 404))"
  using stranger_visible[OF assms]
  by (auto simp: accept_def decline_def revoke_def send_def sendGrantScoped_def requireActive_def split_def Let_def
      respond_def respond_opt_def)

theorem strangers_refused_witness:
  "fst (serve authC (Post_revoke ''comm_aaaa'') (\<lambda>_. None) None demo_active) = (404, Error_body Not_found)"
  using strangers_refused[of "''comm_aaaa''" demo_active "demo_comm ''comm_aaaa'' Comm_active" authC "\<lambda>_. None" None]
  by (simp add: find_comm_def demo_defs authC_def)

text \<open>Without the token of an active device a request is refused and changes nothing.\<close>

theorem anonymous_refused:
  assumes "rt_route r \<noteq> Get_health"
    "\<forall>h. rt_authorization r = Some h \<and> prefix ''Bearer '' h \<longrightarrow>
       (\<forall>c \<in> set (device_credentials s). dc_active c \<longrightarrow> dc_token c \<noteq> trim (drop 7 h))"
  shows "handle r s = ((401, Error_body Unauthorized), s)"
proof -
  have "resolveBearer s (rt_authorization r) = None"
  proof (cases "rt_authorization r")
    case (Some h)
    show ?thesis
    proof (cases "prefix ''Bearer '' h")
      case True
      with assms(2) Some have "List.find (\<lambda>r. dc_token r = trim (drop 7 h) \<and> dc_active r) (device_credentials s) = None"
        by (auto simp: find_None_iff)
      with Some show ?thesis by (simp add: resolveBearer_def Let_def)
    qed (use Some in \<open>simp add: resolveBearer_def\<close>)
  qed (simp add: resolveBearer_def)
  with assms(1) show ?thesis by (simp add: handle_def)
qed

theorem anonymous_refused_witness:
  "handle (demo_request (Post_revoke ''comm_aaaa'') ''guess'') demo_active = ((401, Error_body Unauthorized), demo_active)"
proof (rule anonymous_refused)
  have "list_all (\<lambda>c. dc_token c \<noteq> trim (drop 7 (''Bearer '' @ ''guess''))) (device_credentials demo_active)" by code_simp
  then show "\<forall>h. rt_authorization (demo_request (Post_revoke ''comm_aaaa'') ''guess'') = Some h \<and> prefix ''Bearer '' h \<longrightarrow>
       (\<forall>c \<in> set (device_credentials demo_active). dc_active c \<longrightarrow> dc_token c \<noteq> trim (drop 7 h))"
    unfolding demo_request_def Request.select_convs option.inject list_all_iff by blast
qed (simp add: demo_request_def)

section \<open>Integrity\<close>

text \<open>
  C1: whatever requests the control plane handles after it opened its
  database, every key is unique, every reference resolves, every session has the shape its status
  asks for, the event logs have no gaps, and ended sessions have no delivery on its way.
\<close>

theorem requests_keep_integrity:
  assumes "inj random"
  shows "db_ok (run rs (openDb env clock random hash))"
  by (rule cp_ok.inv_run[OF openDb_ok[OF assms]])

theorem requests_keep_integrity_witness: "db_ok (run demo_requests demo0)"
  unfolding demo0_def by (rule requests_keep_integrity[OF demo_random_inj])



text \<open>
  Requests only append messages, attempts, events, inbox items and audit entries,
  and never change who exists or holds which token.
\<close>

theorem logs_append_only:
  "prefix (messages s) (messages (run rs s)) \<and> prefix (delivery_attempts s) (delivery_attempts (run rs s))
   \<and> prefix (events s) (events (run rs s)) \<and> prefix (inbox_items s) (inbox_items (run rs s))
   \<and> prefix (audit_log s) (audit_log (run rs s))
   \<and> principals (run rs s) = principals s \<and> device_credentials (run rs s) = device_credentials s"
  using cp_order.le_run[of s rs] by (simp add: cp_le_def)

end
