(* ===== verification/Spool.thy ===== *)
theory Spool
  imports Contracts
begin

text \<open>
  The bridge's durable spool (\<^verbatim>\<open>src/bridge/spool.ts\<close>): identity and session mappings,
  stream cursors, received messages and their injection attempts, outbound replies and
  pending delegations. One record per table, one function per method.
\<close>

section \<open>Rows and views\<close>

datatype SpoolStatus =
    Received | Sp_device_acked | Sp_runtime_pending | Injecting | Injected_unreported
  | Injected | Sp_failed | Blocked | Blocked_offline

record SpoolRow =
  sp_message_id :: string
  sp_delivery_id :: string
  sp_comm_session_id :: string
  sp_session_handle :: string
  sp_sequence :: nat
  sp_envelope :: MessageEnvelope
  sp_status :: SpoolStatus
  sp_attempt_count :: nat
  sp_last_result_code :: "string option"
  sp_runtime_ack_id :: "string option"

record SpoolMessage =
  sm_messageId :: string
  sm_deliveryId :: string
  sm_communicationSessionId :: string
  sm_sessionHandle :: string
  sm_sequence :: nat
  sm_envelope :: MessageEnvelope
  sm_status :: SpoolStatus
  sm_attemptCount :: nat
  sm_lastResultCode :: "string option"
  sm_runtimeAckId :: "string option"

datatype ReportPhase = Report_pending | Report_ack | Report_failed

record InjectionAttemptRow =
  ia_attempt_id :: string
  ia_message_id :: string
  ia_phase :: ReportPhase
  ia_result_code :: "string option"
  ia_retryable :: bool
  ia_runtime_ack_id :: "string option"
  ia_reported :: bool
  ia_created_at :: time

record PendingInjectionReport =
  pi_attemptId :: string
  pi_messageId :: string
  pi_phase :: ReportPhase
  pi_resultCode :: "string option"
  pi_retryable :: bool
  pi_runtimeAckId :: "string option"

datatype OutboundStatus = Out_pending | Out_sent | Out_failed

record OutboundRow =
  ob_event_id :: string
  ob_comm_session_id :: string
  ob_client_message_id :: string
  ob_payload :: "(string \<times> json) list"
  ob_reply_to :: string
  ob_correlation_id :: string
  ob_status :: OutboundStatus
  ob_attempt_count :: nat
  ob_last_error :: "string option"
  ob_collaboration_turn :: "CollaborationTurnInput option"

record OutboundReply =
  or_eventId :: string
  or_communicationSessionId :: string
  or_clientMessageId :: string
  or_payload :: "(string \<times> json) list"
  or_replyTo :: string
  or_correlationId :: string
  or_collaborationTurn :: "CollaborationTurnInput option"
  or_status :: OutboundStatus
  or_attemptCount :: nat
  or_lastError :: "string option"

datatype PendingDelegationStatus = Pd_grant_requested | Pd_delegated | Pd_failed

record PendingDelegation =
  pd_clientMessageId :: string
  pd_target :: RequestTarget
  pd_task :: Task
  pd_context :: "json option"
  pd_sessionHandle :: string
  pd_correlationId :: "string option"
  pd_requestedTtlMinutes :: "int option"
  pd_communicationSessionId :: "string option"
  pd_messageId :: "string option"
  pd_status :: PendingDelegationStatus
  pd_attemptCount :: nat
  pd_lastError :: "string option"
  pd_createdAt :: time
  pd_updatedAt :: time
  pd_expiresAt :: time

record GrantRow =
  gr_comm_session_id :: string
  gr_status :: string
  gr_expires_at :: "time option"

record MappingRow =
  mp_native_handle :: string
  mp_server_handle :: string
  mp_label :: string

record spool =
  bridge_identity :: "(string \<times> string) list"
  cursors :: "(string \<times> int) list"
  session_mappings :: "MappingRow list"
  spool_messages :: "SpoolRow list"
  grant_cache :: "GrantRow list"
  injection_attempts :: "InjectionAttemptRow list"
  adapter_cursors :: "(string \<times> int) list"
  outbound_replies :: "OutboundRow list"
  pending_delegations :: "PendingDelegation list"

definition new_spool :: spool where
  "new_spool = \<lparr>bridge_identity = [], cursors = [], session_mappings = [], spool_messages = [],
     grant_cache = [], injection_attempts = [], adapter_cursors = [], outbound_replies = [],
     pending_delegations = []\<rparr>"

definition mapSpool :: "SpoolRow \<Rightarrow> SpoolMessage" where
  "mapSpool r = \<lparr>sm_messageId = sp_message_id r, sm_deliveryId = sp_delivery_id r,
     sm_communicationSessionId = sp_comm_session_id r, sm_sessionHandle = sp_session_handle r,
     sm_sequence = sp_sequence r, sm_envelope = sp_envelope r, sm_status = sp_status r,
     sm_attemptCount = sp_attempt_count r, sm_lastResultCode = keep_truthy (sp_last_result_code r),
     sm_runtimeAckId = keep_truthy (sp_runtime_ack_id r)\<rparr>"

definition mapOutbound :: "OutboundRow \<Rightarrow> OutboundReply" where
  "mapOutbound r = \<lparr>or_eventId = ob_event_id r, or_communicationSessionId = ob_comm_session_id r,
     or_clientMessageId = ob_client_message_id r, or_payload = ob_payload r, or_replyTo = ob_reply_to r,
     or_correlationId = ob_correlation_id r, or_collaborationTurn = ob_collaboration_turn r,
     or_status = ob_status r, or_attemptCount = ob_attempt_count r, or_lastError = keep_truthy (ob_last_error r)\<rparr>"

definition mapPendingDelegation :: "PendingDelegation \<Rightarrow> PendingDelegation" where
  "mapPendingDelegation r = r\<lparr>pd_correlationId := keep_truthy (pd_correlationId r),
     pd_requestedTtlMinutes := (if pd_requestedTtlMinutes r = Some 0 then None else pd_requestedTtlMinutes r),
     pd_communicationSessionId := keep_truthy (pd_communicationSessionId r),
     pd_messageId := keep_truthy (pd_messageId r), pd_lastError := keep_truthy (pd_lastError r)\<rparr>"

section \<open>Identity and session mappings\<close>

definition setIdentity :: "string \<Rightarrow> string \<Rightarrow> spool \<Rightarrow> spool" where
  "setIdentity key v s = bridge_identity_update (upsert fst (\<lambda>_. (key, v)) (key, v)) s"

definition getIdentity :: "string \<Rightarrow> spool \<Rightarrow> string option" where
  "getIdentity key s = map_option snd (List.find (\<lambda>r. fst r = key) (bridge_identity s))"

definition deleteIdentity :: "string \<Rightarrow> spool \<Rightarrow> spool" where
  "deleteIdentity key s = bridge_identity_update (filter (\<lambda>r. fst r \<noteq> key)) s"

definition saveSessionMapping :: "string \<Rightarrow> string \<Rightarrow> string \<Rightarrow> spool \<Rightarrow> spool" where
  "saveSessionMapping nativeHandle serverHandle label s =
     session_mappings_update (upsert mp_native_handle
       (\<lambda>r. r\<lparr>mp_server_handle := serverHandle, mp_label := label\<rparr>)
       \<lparr>mp_native_handle = nativeHandle, mp_server_handle = serverHandle, mp_label = label\<rparr>) s"

definition getSessionMapping :: "string \<Rightarrow> spool \<Rightarrow> (string \<times> string) option" where
  "getSessionMapping nativeHandle s =
     map_option (\<lambda>r. (mp_server_handle r, mp_label r))
       (List.find (\<lambda>r. mp_native_handle r = nativeHandle) (session_mappings s))"

definition listSessionMappings :: "spool \<Rightarrow> MappingRow list" where
  "listSessionMappings s = sort_key mp_native_handle (session_mappings s)"

definition deleteSessionMapping :: "string \<Rightarrow> spool \<Rightarrow> spool" where
  "deleteSessionMapping nativeHandle s = session_mappings_update (filter (\<lambda>r. mp_native_handle r \<noteq> nativeHandle)) s"

section \<open>Cursors\<close>

definition seq_at :: "string \<Rightarrow> (string \<times> int) list \<Rightarrow> int" where
  "seq_at key t = (case List.find (\<lambda>r. fst r = key) t of None \<Rightarrow> 0 | Some r \<Rightarrow> snd r)"

definition advance :: "string \<Rightarrow> string \<Rightarrow> (string \<times> int) list \<Rightarrow> (string \<times> int) list" where
  "advance key c t =
     (let n = or_else (parse_int c) 0
      in upsert fst (\<lambda>r. (fst r, max (snd r) n)) (key, n) t)"

definition cursor :: "string \<Rightarrow> spool \<Rightarrow> string" where
  "cursor serverKey s = dec_int (seq_at serverKey (cursors s))"

definition saveCursor :: "string \<Rightarrow> string \<Rightarrow> spool \<Rightarrow> spool" where
  "saveCursor serverKey c s = cursors_update (advance serverKey c) s"

definition adapterCursor :: "string \<Rightarrow> spool \<Rightarrow> string" where
  "adapterCursor nativeHandle s = dec_int (seq_at nativeHandle (adapter_cursors s))"

definition saveAdapterCursor :: "string \<Rightarrow> string \<Rightarrow> spool \<Rightarrow> spool" where
  "saveAdapterCursor nativeHandle c s = adapter_cursors_update (advance nativeHandle c) s"

section \<open>Received messages\<close>

definition getMessage :: "string \<Rightarrow> spool \<Rightarrow> SpoolMessage option" where
  "getMessage messageId s = map_option mapSpool (List.find (\<lambda>r. sp_message_id r = messageId) (spool_messages s))"

definition received_row :: "MessageEnvelope \<Rightarrow> string \<Rightarrow> string \<Rightarrow> string \<Rightarrow> SpoolRow" where
  "received_row env deliveryId sid handle =
     \<lparr>sp_message_id = me_id env, sp_delivery_id = deliveryId, sp_comm_session_id = sid,
      sp_session_handle = handle, sp_sequence = me_sequence env, sp_envelope = env,
      sp_status = Received, sp_attempt_count = 0, sp_last_result_code = None, sp_runtime_ack_id = None\<rparr>"

text \<open>\<open>None\<close>: \<^verbatim>\<open>Invalid message.dispatch event\<close>. \<open>Some (inserted, message)\<close> otherwise.\<close>

definition storeDispatch :: "RuntimeEvent \<Rightarrow> spool \<Rightarrow> (bool \<times> SpoolMessage) option \<times> spool" where
  "storeDispatch ev s =
     (case rv_data ev of
        Dispatch_data (Some env) deliveryId \<Rightarrow>
          if \<not> truthy (me_communicationSessionId env) \<or> \<not> truthy (mt_sessionHandle (me_target env))
             \<or> \<not> truthy deliveryId
          then (None, s)
          else
          (let row = received_row env (or_else deliveryId []) (or_else (me_communicationSessionId env) [])
                 (or_else (mt_sessionHandle (me_target env)) []);
               inserted = (sp_message_id row \<notin> sp_message_id ` set (spool_messages s));
               s = spool_messages_update (insert_or_ignore sp_message_id row) s
           in (map_option (\<lambda>m. (inserted, m)) (getMessage (me_id env) s), s))
      | _ \<Rightarrow> (None, s))"

definition markDeviceAcked :: "string \<Rightarrow> spool \<Rightarrow> spool" where
  "markDeviceAcked messageId s = spool_messages_update
     (update_where (\<lambda>r. sp_message_id r = messageId \<and> sp_status r = Received)
        (\<lambda>r. r\<lparr>sp_status := Sp_device_acked\<rparr>)) s"

definition injectable_status :: "SpoolStatus \<Rightarrow> bool" where
  "injectable_status st = (st \<in> {Sp_device_acked, Sp_runtime_pending, Blocked_offline})"

definition finished_status :: "SpoolStatus \<Rightarrow> bool" where
  "finished_status st = (st \<in> {Injected, Sp_failed, Blocked})"

definition markInjecting :: "string \<Rightarrow> spool \<Rightarrow> spool" where
  "markInjecting messageId s = spool_messages_update
     (update_where (\<lambda>r. sp_message_id r = messageId \<and> injectable_status (sp_status r))
        (\<lambda>r. r\<lparr>sp_status := Injecting, sp_attempt_count := sp_attempt_count r + 1\<rparr>)) s"

definition markResult :: "string \<Rightarrow> SpoolStatus \<Rightarrow> string option \<Rightarrow> string option \<Rightarrow> spool \<Rightarrow> spool" where
  "markResult messageId st resultCode runtimeAckId s = spool_messages_update
     (update_where (\<lambda>r. sp_message_id r = messageId)
        (\<lambda>r. r\<lparr>sp_status := st, sp_last_result_code := resultCode, sp_runtime_ack_id := runtimeAckId\<rparr>)) s"

text \<open>The rows the query selects, then the first of each session.\<close>

definition injectable_row :: "SpoolRow list \<Rightarrow> SpoolRow \<Rightarrow> bool" where
  "injectable_row t m = (injectable_status (sp_status m)
     \<and> \<not> (\<exists>e \<in> set t. sp_comm_session_id e = sp_comm_session_id m \<and> sp_sequence e < sp_sequence m
            \<and> \<not> finished_status (sp_status e)))"

fun first_per_session :: "string list \<Rightarrow> SpoolRow list \<Rightarrow> SpoolRow list" where
  "first_per_session seen [] = []"
| "first_per_session seen (r # rs) =
     (if sp_comm_session_id r \<in> set seen then first_per_session seen rs
      else r # first_per_session (sp_comm_session_id r # seen) rs)"

definition listInjectable :: "spool \<Rightarrow> SpoolMessage list" where
  "listInjectable s =
     map mapSpool (first_per_session []
       (sort_key (\<lambda>r. (sp_comm_session_id r, sp_sequence r))
         (filter (injectable_row (spool_messages s)) (spool_messages s))))"

definition listReceived :: "spool \<Rightarrow> SpoolMessage list" where
  "listReceived s = map mapSpool (sort_key sp_sequence (filter (\<lambda>r. sp_status r = Received) (spool_messages s)))"

section \<open>Ending sessions\<close>

definition setGrant :: "string \<Rightarrow> string \<Rightarrow> time option \<Rightarrow> spool \<Rightarrow> spool" where
  "setGrant sid st expiresAt s = grant_cache_update (upsert gr_comm_session_id
     (\<lambda>r. r\<lparr>gr_status := st, gr_expires_at := expiresAt\<rparr>)
     \<lparr>gr_comm_session_id = sid, gr_status = st, gr_expires_at = expiresAt\<rparr>) s"

definition blockCommunicationSession :: "string \<Rightarrow> string \<Rightarrow> string \<Rightarrow> spool \<Rightarrow> spool" where
  "blockCommunicationSession sid reason grantStatus s =
     (let s = spool_messages_update (update_where
                (\<lambda>r. sp_comm_session_id r = sid \<and> \<not> finished_status (sp_status r))
                (\<lambda>r. r\<lparr>sp_status := Blocked, sp_last_result_code := Some reason\<rparr>)) s;
          s = injection_attempts_update (update_where
                (\<lambda>a. \<not> ia_reported a \<and> (\<exists>r \<in> set (spool_messages s).
                     sp_comm_session_id r = sid \<and> sp_message_id r = ia_message_id a))
                (\<lambda>a. a\<lparr>ia_reported := True\<rparr>)) s
      in setGrant sid grantStatus None s)"

definition collaboration_sessions :: "string \<Rightarrow> spool \<Rightarrow> string list" where
  "collaboration_sessions cid s = js_set (map sp_comm_session_id
     (filter (\<lambda>r. me_collaborationId (sp_envelope r) = Some cid) (spool_messages s)))"

definition block_with_replies :: "string \<Rightarrow> string \<Rightarrow> spool \<Rightarrow> spool" where
  "block_with_replies reason sid s =
     outbound_replies_update (update_where
        (\<lambda>o'. ob_comm_session_id o' = sid \<and> ob_status o' = Out_pending)
        (\<lambda>o'. o'\<lparr>ob_status := Out_failed, ob_last_error := Some reason\<rparr>))
      (blockCommunicationSession sid reason ''revoked'' s)"

definition blockCollaboration :: "string \<Rightarrow> string \<Rightarrow> spool \<Rightarrow> string list \<times> spool" where
  "blockCollaboration cid reason s =
     (let sids = collaboration_sessions cid s
      in (sids, fold (block_with_replies reason) sids s))"

section \<open>Injection attempts\<close>

definition recordAttempt ::
    "string \<Rightarrow> string \<Rightarrow> ReportPhase \<Rightarrow> string option \<Rightarrow> bool \<Rightarrow> string option \<Rightarrow> time \<Rightarrow> spool \<Rightarrow> spool" where
  "recordAttempt attemptId messageId phase resultCode retryable runtimeAckId createdAt s =
     injection_attempts_update (insert_or_ignore ia_attempt_id
       \<lparr>ia_attempt_id = attemptId, ia_message_id = messageId, ia_phase = phase, ia_result_code = resultCode,
        ia_retryable = retryable, ia_runtime_ack_id = runtimeAckId, ia_reported = False,
        ia_created_at = createdAt\<rparr>) s"

definition markAttemptReported :: "string \<Rightarrow> spool \<Rightarrow> spool" where
  "markAttemptReported attemptId s = injection_attempts_update
     (update_where (\<lambda>a. ia_attempt_id a = attemptId) (\<lambda>a. a\<lparr>ia_reported := True\<rparr>)) s"

definition mapReport :: "InjectionAttemptRow \<Rightarrow> PendingInjectionReport" where
  "mapReport a = \<lparr>pi_attemptId = ia_attempt_id a, pi_messageId = ia_message_id a, pi_phase = ia_phase a,
     pi_resultCode = keep_truthy (ia_result_code a), pi_retryable = ia_retryable a,
     pi_runtimeAckId = keep_truthy (ia_runtime_ack_id a)\<rparr>"

definition listPendingReports :: "spool \<Rightarrow> PendingInjectionReport list" where
  "listPendingReports s = map mapReport (sort_key (\<lambda>a. (ia_created_at a, ia_attempt_id a))
     (filter (\<lambda>a. \<not> ia_reported a) (injection_attempts s)))"

section \<open>Outbound replies\<close>

definition storeOutboundReply ::
    "string \<Rightarrow> string \<Rightarrow> string \<Rightarrow> (string \<times> json) list \<Rightarrow> string \<Rightarrow> string \<Rightarrow> CollaborationTurnInput option \<Rightarrow> spool \<Rightarrow> spool" where
  "storeOutboundReply eventId sid clientMessageId payload replyTo correlationId turn s =
     outbound_replies_update (insert_or_ignore ob_event_id
       \<lparr>ob_event_id = eventId, ob_comm_session_id = sid, ob_client_message_id = clientMessageId,
        ob_payload = payload, ob_reply_to = replyTo, ob_correlation_id = correlationId, ob_status = Out_pending,
        ob_attempt_count = 0, ob_last_error = None, ob_collaboration_turn = turn\<rparr>) s"

definition listPendingOutboundReplies :: "spool \<Rightarrow> OutboundReply list" where
  "listPendingOutboundReplies s = map mapOutbound (filter (\<lambda>o'. ob_status o' = Out_pending) (outbound_replies s))"

definition markOutboundSent :: "string \<Rightarrow> spool \<Rightarrow> spool" where
  "markOutboundSent eventId s = outbound_replies_update (update_where (\<lambda>o'. ob_event_id o' = eventId)
     (\<lambda>o'. o'\<lparr>ob_status := Out_sent, ob_attempt_count := ob_attempt_count o' + 1, ob_last_error := None\<rparr>)) s"

definition markOutboundAttempt :: "string \<Rightarrow> string \<Rightarrow> bool \<Rightarrow> spool \<Rightarrow> spool" where
  "markOutboundAttempt eventId err terminal s = outbound_replies_update (update_where (\<lambda>o'. ob_event_id o' = eventId)
     (\<lambda>o'. o'\<lparr>ob_status := (if terminal then Out_failed else Out_pending),
             ob_attempt_count := ob_attempt_count o' + 1, ob_last_error := Some err\<rparr>)) s"

definition getOutboundReply :: "string \<Rightarrow> spool \<Rightarrow> OutboundReply option" where
  "getOutboundReply eventId s = map_option mapOutbound (List.find (\<lambda>o'. ob_event_id o' = eventId) (outbound_replies s))"

section \<open>Pending delegations\<close>

record StoreDelegation =
  sd_clientMessageId :: string
  sd_target :: RequestTarget
  sd_task :: Task
  sd_context :: "json option"
  sd_sessionHandle :: string
  sd_correlationId :: "string option"
  sd_requestedTtlMinutes :: "int option"
  sd_communicationSessionId :: "string option"
  sd_messageId :: "string option"
  sd_status :: PendingDelegationStatus
  sd_expiresAt :: time

definition coalesce :: "'a option \<Rightarrow> 'a option \<Rightarrow> 'a option" where
  "coalesce x y = (case x of None \<Rightarrow> y | Some _ \<Rightarrow> x)"

definition storePendingDelegation :: "StoreDelegation \<Rightarrow> time \<Rightarrow> spool \<Rightarrow> spool" where
  "storePendingDelegation i now s = pending_delegations_update (upsert pd_clientMessageId
     (\<lambda>r. r\<lparr>pd_context := coalesce (sd_context i) (pd_context r),
            pd_communicationSessionId := coalesce (sd_communicationSessionId i) (pd_communicationSessionId r),
            pd_messageId := coalesce (sd_messageId i) (pd_messageId r),
            pd_status := sd_status i, pd_updatedAt := now, pd_expiresAt := sd_expiresAt i\<rparr>)
     \<lparr>pd_clientMessageId = sd_clientMessageId i, pd_target = sd_target i, pd_task = sd_task i,
      pd_context = sd_context i, pd_sessionHandle = sd_sessionHandle i, pd_correlationId = sd_correlationId i,
      pd_requestedTtlMinutes = sd_requestedTtlMinutes i,
      pd_communicationSessionId = sd_communicationSessionId i, pd_messageId = sd_messageId i,
      pd_status = sd_status i, pd_attemptCount = 0, pd_lastError = None, pd_createdAt = now,
      pd_updatedAt = now, pd_expiresAt = sd_expiresAt i\<rparr>) s"

definition listPendingDelegations :: "string option \<Rightarrow> spool \<Rightarrow> PendingDelegation list" where
  "listPendingDelegations sid s = map mapPendingDelegation (sort_key pd_createdAt
     (filter (\<lambda>r. pd_status r = Pd_grant_requested \<and> (truthy sid \<longrightarrow> pd_communicationSessionId r = sid))
       (pending_delegations s)))"

definition markDelegationAttempt :: "string \<Rightarrow> string option \<Rightarrow> time \<Rightarrow> spool \<Rightarrow> spool" where
  "markDelegationAttempt clientMessageId err now s = pending_delegations_update
     (update_where (\<lambda>r. pd_clientMessageId r = clientMessageId)
        (\<lambda>r. r\<lparr>pd_attemptCount := pd_attemptCount r + 1, pd_lastError := err, pd_updatedAt := now\<rparr>)) s"

definition markDelegationDelegated :: "string \<Rightarrow> string \<Rightarrow> string \<Rightarrow> time \<Rightarrow> spool \<Rightarrow> spool" where
  "markDelegationDelegated clientMessageId messageId sid now s = pending_delegations_update
     (update_where (\<lambda>r. pd_clientMessageId r = clientMessageId)
        (\<lambda>r. r\<lparr>pd_status := Pd_delegated, pd_messageId := Some messageId,
               pd_communicationSessionId := Some sid, pd_lastError := None, pd_updatedAt := now\<rparr>)) s"

definition markDelegationsFailed :: "string \<Rightarrow> string \<Rightarrow> time \<Rightarrow> spool \<Rightarrow> spool" where
  "markDelegationsFailed sid err now s = pending_delegations_update
     (update_where (\<lambda>r. pd_communicationSessionId r = Some sid \<and> pd_status r = Pd_grant_requested)
        (\<lambda>r. r\<lparr>pd_status := Pd_failed, pd_lastError := Some err, pd_updatedAt := now\<rparr>)) s"

text \<open>The latest reply of a correlation: highest sequence; among equals the query leaves the choice open.\<close>

definition findReplyByCorrelation :: "string \<Rightarrow> spool \<Rightarrow> SpoolMessage option" where
  "findReplyByCorrelation correlationId s =
     (case sort_key (\<lambda>r. - int (sp_sequence r)) (filter (\<lambda>r.
            me_correlationId (sp_envelope r) = Some correlationId \<and> me_replyTo (sp_envelope r) \<noteq> None)
          (spool_messages s)) of
        [] \<Rightarrow> None | r # _ \<Rightarrow> Some (mapSpool r))"

definition count :: "spool \<Rightarrow> nat" where
  "count s = length (spool_messages s)"

section \<open>Key-value tables\<close>

lemma upsert_find:
  assumes "key r = k" "\<And>q. key q = k \<Longrightarrow> key (f q) = k"
  shows "List.find (\<lambda>q. key q = k') (upsert key f r t)
       = (if k' = k then Some (case List.find (\<lambda>q. key q = k) t of None \<Rightarrow> r | Some q \<Rightarrow> f q)
          else List.find (\<lambda>q. key q = k') t)"
proof -
  have app: "List.find (\<lambda>q. key q = k') (t @ [r]) = (if k' = k then Some r else List.find (\<lambda>q. key q = k') t)"
    if "key r \<notin> key ` set t"
    using that assms(1) by (induction t) auto
  have upd: "List.find (\<lambda>q. key q = k') (update_where (\<lambda>q. key q = k) f t)
      = (if k' = k then map_option f (List.find (\<lambda>q. key q = k) t) else List.find (\<lambda>q. key q = k') t)"
    using assms(2) by (induction t) auto
  show ?thesis
  proof (cases "k \<in> key ` set t")
    case True
    then obtain q where "List.find (\<lambda>q. key q = k) t = Some q"
      using find_isSome[of "\<lambda>q. key q = k" t] by auto
    with True upd assms(1) show ?thesis by (auto simp: upsert_def)
  next
    case False
    then have "List.find (\<lambda>q. key q = k) t = None" by (auto simp: find_None_iff)
    with False app assms(1) show ?thesis by (auto simp: upsert_def)
  qed
qed

interpretation identity: kv_store getIdentity setIdentity
  by unfold_locales
     (auto simp: getIdentity_def setIdentity_def upsert_find split: option.splits)

interpretation mapping: kv_store getSessionMapping "\<lambda>k (server, label). saveSessionMapping k server label"
  by unfold_locales
     (auto simp: getSessionMapping_def saveSessionMapping_def upsert_find split: option.splits)

section \<open>Cursors only move forward\<close>

lemma seq_at_advance:
  "seq_at k (advance k' c t) = (if k = k' then
      (case List.find (\<lambda>r. fst r = k) t of None \<Rightarrow> or_else (parse_int c) 0 | Some r \<Rightarrow> max (snd r) (or_else (parse_int c) 0))
    else seq_at k t)"
  by (auto simp: seq_at_def advance_def Let_def upsert_find split: option.splits)

lemma seq_at_advance_ge: "(\<exists>r. List.find (\<lambda>r. fst r = k) t = Some r) \<or> 0 \<le> or_else (parse_int c) 0 \<Longrightarrow>
    seq_at k t \<le> seq_at k (advance k' c t)"
  by (auto simp: seq_at_advance) (auto simp: seq_at_def split: option.splits)

section \<open>Injectable messages\<close>

lemma first_per_session_subset: "set (first_per_session seen rs) \<subseteq> set rs"
  by (induction rs arbitrary: seen) (fastforce split: if_splits)+

lemma first_per_session_fresh:
  "distinct (map sp_comm_session_id (first_per_session seen rs))
   \<and> sp_comm_session_id ` set (first_per_session seen rs) \<inter> set seen = {}"
  by (induction rs arbitrary: seen) (fastforce split: if_splits)+

lemma first_per_session_cover:
  assumes "sorted (map f rs)" "r \<in> set rs" "sp_comm_session_id r \<notin> set seen"
  shows "\<exists>q \<in> set (first_per_session seen rs). sp_comm_session_id q = sp_comm_session_id r \<and> f q \<le> f r"
  using assms
proof (induction rs arbitrary: seen)
  case (Cons a rs)
  show ?case
  proof (cases "sp_comm_session_id a = sp_comm_session_id r")
    case True
    with Cons.prems show ?thesis by auto
  next
    case False
    with Cons.prems have "r \<in> set rs" by auto
    with Cons.IH[of seen] Cons.IH[of "sp_comm_session_id a # seen"] Cons.prems False show ?thesis
      by (auto split: if_splits)
  qed
qed simp

lemma listInjectable_row:
  assumes "m \<in> set (listInjectable s)"
  obtains r where "r \<in> set (spool_messages s)" "m = mapSpool r" "injectable_row (spool_messages s) r"
  using assms first_per_session_subset
  by (fastforce simp: listInjectable_def)

lemma listInjectable_distinct: "distinct (map sm_communicationSessionId (listInjectable s))"
proof -
  have "map sm_communicationSessionId (map mapSpool rs) = map sp_comm_session_id rs" for rs
    by (simp add: mapSpool_def)
  then show ?thesis unfolding listInjectable_def using first_per_session_fresh by metis
qed

lemma listInjectable_covers:
  assumes "r \<in> set (spool_messages s)" "injectable_row (spool_messages s) r"
  shows "\<exists>m \<in> set (listInjectable s). sm_communicationSessionId m = sp_comm_session_id r
     \<and> sm_sequence m \<le> sp_sequence r"
proof -
  let ?f = "\<lambda>r. (sp_comm_session_id r, sp_sequence r)"
  let ?rs = "sort_key ?f (filter (injectable_row (spool_messages s)) (spool_messages s))"
  have "\<exists>q \<in> set (first_per_session [] ?rs). sp_comm_session_id q = sp_comm_session_id r \<and> ?f q \<le> ?f r"
    by (rule first_per_session_cover[OF sorted_sort_key]) (use assms in auto)
  then obtain q where "q \<in> set (first_per_session [] ?rs)" "sp_comm_session_id q = sp_comm_session_id r"
    "sp_sequence q \<le> sp_sequence r" by (auto simp: less_eq_prod_def)
  then show ?thesis unfolding listInjectable_def by (intro bexI[of _ "mapSpool q"]) (auto simp: mapSpool_def)
qed

section \<open>Storing a dispatch\<close>

lemma getMessage_store:
  "getMessage (sp_message_id row) (spool_messages_update (insert_or_ignore sp_message_id row) s) \<noteq> None"
  using find_insert_or_ignore_key[of sp_message_id row "spool_messages s"]
  by (auto simp: getMessage_def)

lemma insert_twice: "insert_or_ignore key r \<circ> insert_or_ignore key r = insert_or_ignore key r"
  by (rule ext) (simp add: insert_or_ignore_def)

lemma insert_key_in: "key r \<in> key ` set (insert_or_ignore key r t)"
  by (simp add: insert_or_ignore_def)

lemma received_row_id [simp]: "sp_message_id (received_row env d c h) = me_id env"
  by (simp add: received_row_def)

lemma received_row_in:
  "me_id env = x \<Longrightarrow> x \<in> sp_message_id ` set (insert_or_ignore sp_message_id (received_row env d c h) t)"
  using insert_key_in[of sp_message_id "received_row env d c h" t] by simp

text \<open>A replayed event changes nothing and reports the stored message.\<close>

lemma storeDispatch_replay:
  assumes "storeDispatch ev s = (Some (b, m), s')"
  shows "storeDispatch ev s' = (Some (False, m), s')"
  using assms
  by (auto simp: storeDispatch_def Let_def insert_twice received_row_id received_row_in
      split: EventData.splits option.splits if_splits)

section \<open>Blocking a session\<close>

lemma block_messages:
  "spool_messages (blockCommunicationSession sid reason g s) =
     update_where (\<lambda>r. sp_comm_session_id r = sid \<and> \<not> finished_status (sp_status r))
                (\<lambda>r. r\<lparr>sp_status := Blocked, sp_last_result_code := Some reason\<rparr>) (spool_messages s)"
  by (simp add: blockCommunicationSession_def Let_def setGrant_def)

lemma blocked_not_injectable:
  assumes "m \<in> set (listInjectable (blockCommunicationSession sid reason g s))"
  shows "sm_communicationSessionId m \<noteq> sid"
proof -
  from assms obtain r where "r \<in> set (spool_messages (blockCommunicationSession sid reason g s))" "m = mapSpool r"
    "injectable_row (spool_messages (blockCommunicationSession sid reason g s)) r" by (rule listInjectable_row)
  then have "injectable_status (sp_status r)" "m = mapSpool r" by (simp_all add: injectable_row_def)
  moreover from \<open>r \<in> _\<close> obtain q where "r = (if sp_comm_session_id q = sid \<and> \<not> finished_status (sp_status q)
      then q\<lparr>sp_status := Blocked, sp_last_result_code := Some reason\<rparr> else q)"
    unfolding block_messages by (rule in_update_where)
  then have "sp_comm_session_id r \<noteq> sid \<or> finished_status (sp_status r)"
    by (simp add: finished_status_def)
  ultimately show ?thesis
    by (auto simp: mapSpool_def injectable_status_def finished_status_def)
qed

lemma block_attempts:
  "injection_attempts (blockCommunicationSession sid reason g s) =
     update_where (\<lambda>a. \<not> ia_reported a \<and> (\<exists>r \<in> set (spool_messages (blockCommunicationSession sid reason g s)).
                     sp_comm_session_id r = sid \<and> sp_message_id r = ia_message_id a))
                (\<lambda>a. a\<lparr>ia_reported := True\<rparr>) (injection_attempts s)"
  unfolding block_messages by (simp add: blockCommunicationSession_def Let_def setGrant_def)

lemma blocked_no_reports:
  assumes "a \<in> set (injection_attempts (blockCommunicationSession sid reason g s))" "\<not> ia_reported a"
    "r \<in> set (spool_messages (blockCommunicationSession sid reason g s))" "sp_message_id r = ia_message_id a"
  shows "sp_comm_session_id r \<noteq> sid"
proof -
  let ?M = "set (spool_messages (blockCommunicationSession sid reason g s))"
  from assms(1) obtain q where "a = (if \<not> ia_reported q \<and> (\<exists>r \<in> ?M. sp_comm_session_id r = sid \<and> sp_message_id r = ia_message_id q)
      then q\<lparr>ia_reported := True\<rparr> else q)"
    unfolding block_attempts by (rule in_update_where)
  with assms(2) have "\<not> (\<exists>r \<in> ?M. sp_comm_session_id r = sid \<and> sp_message_id r = ia_message_id a)"
    by (simp split: if_splits)
  with assms(3,4) show ?thesis by blast
qed

end
