(* ===== verification/Injector.thy ===== *)
theory Injector
  imports Spool
begin

text \<open>
  The bridge's injector (\<^verbatim>\<open>src/bridge/injector.ts\<close>): it reports pending attempts,
  acknowledges received messages and delivers injectable messages to the local runtime,
  each only after the control plane has validated it again. The control plane, the
  runtime adapter, the hooks, the clock and the other loops of the bridge, which may
  change the spool during an \<^verbatim>\<open>await\<close>, are the functions of a \<open>world\<close>, indexed by
  the number of the call.
\<close>

section \<open>The world\<close>

datatype ValidationReply = V_valid | V_invalid string | V_unreachable

text \<open>The statuses of \<^verbatim>\<open>deliverToSession\<close>; \<open>D_throws\<close> is a rejected promise.\<close>

datatype DeliverReply = D_runtime_acked string | D_queued_busy | D_status string | D_throws

datatype Action =
    Did_ack string ReportPhase string bool
  | Did_device_ack string bool
  | Did_validate string ValidationReply
  | Did_hook string bool
  | Did_deliver string string DeliverReply

record world =
  w_ack :: "nat \<Rightarrow> bool"
  w_validate :: "nat \<Rightarrow> ValidationReply"
  w_hook :: "nat \<Rightarrow> bool"
  w_deliver :: "nat \<Rightarrow> DeliverReply"
  w_other :: "nat \<Rightarrow> spool \<Rightarrow> spool"
  w_now :: "nat \<Rightarrow> time"
  w_id :: "nat \<Rightarrow> string"

record istate =
  spl :: spool
  calls :: nat
  reads :: nat
  ids :: nat
  trace :: "Action list"

text \<open>A call: its number, then whatever the other loops did before it returned.\<close>

definition called :: "world \<Rightarrow> Action \<Rightarrow> istate \<Rightarrow> istate" where
  "called w a s = s\<lparr>spl := w_other w (calls s) (spl s), calls := Suc (calls s), trace := trace s @ [a]\<rparr>"

definition on_spool :: "(spool \<Rightarrow> spool) \<Rightarrow> istate \<Rightarrow> istate" where
  "on_spool f s = s\<lparr>spl := f (spl s)\<rparr>"

definition acknowledgeDelivery :: "world \<Rightarrow> string \<Rightarrow> ReportPhase \<Rightarrow> string \<Rightarrow> istate \<Rightarrow> bool \<times> istate" where
  "acknowledgeDelivery w messageId phase attemptId s =
     (w_ack w (calls s), called w (Did_ack messageId phase attemptId (w_ack w (calls s))) s)"

definition acknowledgeDevice :: "world \<Rightarrow> string \<Rightarrow> istate \<Rightarrow> bool \<times> istate" where
  "acknowledgeDevice w messageId s =
     (w_ack w (calls s), called w (Did_device_ack messageId (w_ack w (calls s))) s)"

definition callValidate :: "world \<Rightarrow> string \<Rightarrow> istate \<Rightarrow> ValidationReply \<times> istate" where
  "callValidate w messageId s = (w_validate w (calls s), called w (Did_validate messageId (w_validate w (calls s))) s)"

definition attempt_id :: "world \<Rightarrow> istate \<Rightarrow> string" where
  "attempt_id w s = ''attempt_'' @ w_id w (ids s)"

definition attempt_time :: "world \<Rightarrow> istate \<Rightarrow> time" where
  "attempt_time w s = w_now w (reads s)"

definition fresh_attempt :: "istate \<Rightarrow> istate" where
  "fresh_attempt s = s\<lparr>ids := Suc (ids s), reads := Suc (reads s)\<rparr>"

section \<open>Reports\<close>

definition flush_report :: "world \<Rightarrow> PendingInjectionReport \<Rightarrow> istate \<Rightarrow> bool \<times> istate" where
  "flush_report w report s =
     (case getMessage (pi_messageId report) (spl s) of
        None \<Rightarrow> (True, on_spool (markAttemptReported (pi_attemptId report)) s)
      | Some message \<Rightarrow>
         if sm_status message = Blocked then (True, on_spool (markAttemptReported (pi_attemptId report)) s)
         else
         (case callValidate w (sm_messageId message) s of
            (V_unreachable, s) \<Rightarrow> (False, s)
          | (V_invalid reason, s) \<Rightarrow>
              (True, on_spool (markAttemptReported (pi_attemptId report))
                 (on_spool (markResult (sm_messageId message) Blocked (Some reason) None) s))
          | (V_valid, s) \<Rightarrow>
             (case acknowledgeDelivery w (pi_messageId report) (pi_phase report) (pi_attemptId report) s of
                (False, s) \<Rightarrow> (False, s)
              | (True, s) \<Rightarrow>
                 (let s = on_spool (markAttemptReported (pi_attemptId report)) s
                  in (True, if pi_phase report = Report_ack
                      then on_spool (markResult (pi_messageId report) Injected None (pi_runtimeAckId report)) s
                      else s)))))"

text \<open>The loop returns at the first report that cannot be sent.\<close>

fun flushPendingReports :: "world \<Rightarrow> PendingInjectionReport list \<Rightarrow> istate \<Rightarrow> istate" where
  "flushPendingReports w [] s = s"
| "flushPendingReports w (r # rs) s =
     (case flush_report w r s of (False, s) \<Rightarrow> s | (True, s) \<Rightarrow> flushPendingReports w rs s)"

section \<open>Device acknowledgements\<close>

definition ack_one :: "world \<Rightarrow> time \<Rightarrow> SpoolMessage \<Rightarrow> istate \<Rightarrow> istate" where
  "ack_one w now message s =
     (if me_expiresAt (sm_envelope message) \<le> now
      then on_spool (markResult (sm_messageId message) Blocked (Some ''expired_before_ack'') None) s
      else (case acknowledgeDevice w (sm_messageId message) s of
              (True, s) \<Rightarrow> on_spool (markDeviceAcked (sm_messageId message)) s
            | (False, s) \<Rightarrow> s))"

definition ackReceived :: "world \<Rightarrow> SpoolMessage list \<Rightarrow> istate \<Rightarrow> istate" where
  "ackReceived w ms s =
     (let now = w_now w (reads s); s = s\<lparr>reads := Suc (reads s)\<rparr>
      in fold (ack_one w now) ms s)"

section \<open>Injection\<close>

definition max_injection_attempts :: nat where "max_injection_attempts = 5"

definition reportFailure :: "world \<Rightarrow> SpoolMessage \<Rightarrow> string \<Rightarrow> bool \<Rightarrow> istate \<Rightarrow> istate" where
  "reportFailure w message resultCode retryable s =
     (let attemptId = attempt_id w s;
          phase = (if retryable then Report_pending else Report_failed);
          s = on_spool (recordAttempt attemptId (sm_messageId message) phase (Some resultCode) retryable None
                 (attempt_time w s)) (fresh_attempt s);
          s = on_spool (markResult (sm_messageId message) (if retryable then Sp_runtime_pending else Sp_failed)
                 (Some resultCode) None) s
      in (case acknowledgeDelivery w (sm_messageId message) phase attemptId s of
            (True, s) \<Rightarrow> on_spool (markAttemptReported attemptId) s
          | (False, s) \<Rightarrow>
              if retryable
              then on_spool (markResult (sm_messageId message) Blocked_offline (Some ''control_plane_unavailable'') None) s
              else s))"

definition report_acked :: "world \<Rightarrow> SpoolMessage \<Rightarrow> string \<Rightarrow> istate \<Rightarrow> istate" where
  "report_acked w message runtimeAckId s =
     (let attemptId = attempt_id w s;
          s = on_spool (recordAttempt attemptId (sm_messageId message) Report_ack None False (Some runtimeAckId)
                 (attempt_time w s)) (fresh_attempt s);
          s = on_spool (markResult (sm_messageId message) Injected_unreported None (Some runtimeAckId)) s
      in (case acknowledgeDelivery w (sm_messageId message) Report_ack attemptId s of
            (True, s) \<Rightarrow> on_spool (markResult (sm_messageId message) Injected None (Some runtimeAckId))
                          (on_spool (markAttemptReported attemptId) s)
          | (False, s) \<Rightarrow> s))"

definition report_busy :: "world \<Rightarrow> SpoolMessage \<Rightarrow> istate \<Rightarrow> istate" where
  "report_busy w message s =
     (let attemptId = attempt_id w s;
          s = on_spool (recordAttempt attemptId (sm_messageId message) Report_pending (Some ''queued_busy'') True None
                 (attempt_time w s)) (fresh_attempt s);
          s = on_spool (markResult (sm_messageId message) Sp_runtime_pending (Some ''queued_busy'') None) s
      in (case acknowledgeDelivery w (sm_messageId message) Report_pending attemptId s of
            (True, s) \<Rightarrow> on_spool (markAttemptReported attemptId) s
          | (False, s) \<Rightarrow> s))"

text \<open>The hook, then the delivery; an exception of either is \<open>D_throws\<close>.\<close>

definition deliver :: "world \<Rightarrow> string \<Rightarrow> string \<Rightarrow> istate \<Rightarrow> DeliverReply \<times> istate" where
  "deliver w nativeHandle messageId s =
     (let hook = w_hook w (calls s); s = called w (Did_hook messageId hook) s
      in if \<not> hook then (D_throws, s)
         else (w_deliver w (calls s), called w (Did_deliver nativeHandle messageId (w_deliver w (calls s))) s))"

definition inject :: "world \<Rightarrow> (string \<Rightarrow> string option) \<Rightarrow> SpoolMessage \<Rightarrow> istate \<Rightarrow> istate" where
  "inject w nativeOf message s =
     (if sm_attemptCount message \<ge> max_injection_attempts
      then reportFailure w message ''max_injection_attempts_exceeded'' False s
      else
      (case callValidate w (sm_messageId message) s of
         (V_unreachable, s) \<Rightarrow>
           on_spool (markResult (sm_messageId message) Blocked_offline (Some ''control_plane_unavailable'') None) s
       | (V_invalid reason, s) \<Rightarrow> reportFailure w message reason False s
       | (V_valid, s) \<Rightarrow>
          (case keep_truthy (nativeOf (sm_sessionHandle message)) of
             None \<Rightarrow> reportFailure w message ''session_not_found'' False s
           | Some nativeHandle \<Rightarrow>
              (let s = on_spool (markInjecting (sm_messageId message)) s in
               case deliver w nativeHandle (sm_messageId message) s of
                 (D_throws, s) \<Rightarrow> reportFailure w message ''runtime_unavailable'' True s
               | (D_runtime_acked ackId, s) \<Rightarrow> report_acked w message ackId s
               | (D_queued_busy, s) \<Rightarrow> report_busy w message s
               | (D_status st, s) \<Rightarrow> reportFailure w message st (st = ''runtime_unavailable'') s))))"

definition runOnce :: "world \<Rightarrow> (string \<Rightarrow> string option) \<Rightarrow> istate \<Rightarrow> bool \<times> istate" where
  "runOnce w nativeOf s =
     (let reports = listPendingReports (spl s);
          received = listReceived (spl s);
          injectable = listInjectable (spl s);
          s = flushPendingReports w reports s;
          s = ackReceived w received s;
          s = fold (inject w nativeOf) injectable s
      in (reports \<noteq> [] \<or> received \<noteq> [] \<or> injectable \<noteq> [], s))"

section \<open>Nothing is delivered without a fresh validation\<close>

fun guarded :: "string option \<Rightarrow> Action list \<Rightarrow> bool" where
  "guarded v [] = True"
| "guarded v (Did_validate m V_valid # r) = guarded (Some m) r"
| "guarded v (Did_validate m _ # r) = guarded None r"
| "guarded v (Did_deliver n m _ # r) = (v = Some m \<and> guarded None r)"
| "guarded v (_ # r) = guarded v r"

lemma guarded_mono: "guarded None tr \<Longrightarrow> guarded v tr"
  by (induction v tr rule: guarded.induct) auto

lemma guarded_append: "guarded v a \<Longrightarrow> guarded None b \<Longrightarrow> guarded v (a @ b)"
  by (induction v a rule: guarded.induct) (auto intro: guarded_mono)

text \<open>What a step of the injector appends to the trace.\<close>

definition adds_guarded :: "istate \<Rightarrow> istate \<Rightarrow> bool" where
  "adds_guarded s s' = (\<exists>t. trace s' = trace s @ t \<and> guarded None t)"

lemma adds_refl [simp]: "adds_guarded s s"
  by (simp add: adds_guarded_def)

lemma adds_trans: "adds_guarded s t \<Longrightarrow> adds_guarded t u \<Longrightarrow> adds_guarded s u"
  by (auto simp: adds_guarded_def intro: guarded_append)

lemma adds_called: "guarded None [a] \<Longrightarrow> adds_guarded s (called w a s)"
  by (simp add: adds_guarded_def called_def)

lemma adds_quiet: "trace s' = trace s \<Longrightarrow> adds_guarded s s'"
  by (simp add: adds_guarded_def)

lemma adds_on_spool: "adds_guarded s t \<Longrightarrow> adds_guarded s (on_spool f t)"
  by (simp add: adds_guarded_def on_spool_def)

lemma adds_ack: "adds_guarded s t \<Longrightarrow> adds_guarded s (snd (acknowledgeDelivery w m p a t))"
  unfolding acknowledgeDelivery_def snd_conv by (rule adds_trans[OF _ adds_called]) simp_all

lemma adds_fresh: "adds_guarded s t \<Longrightarrow> adds_guarded s (fresh_attempt t)"
  by (rule adds_trans[OF _ adds_quiet]) (simp_all add: fresh_attempt_def)

lemmas adds_intros = adds_on_spool adds_ack adds_fresh

lemma adds_report:
  "adds_guarded s t \<Longrightarrow> adds_guarded s (reportFailure w m c b t)"
  "adds_guarded s t \<Longrightarrow> adds_guarded s (report_acked w m a t)"
  "adds_guarded s t \<Longrightarrow> adds_guarded s (report_busy w m t)"
  by (auto simp: reportFailure_def report_acked_def report_busy_def Let_def split_def
      intro!: adds_intros split: bool.split)

lemma adds_validate: "adds_guarded s t \<Longrightarrow> adds_guarded s (snd (callValidate w m t))"
  unfolding callValidate_def
  by (cases "w_validate w (calls t)") (auto intro!: adds_trans[OF _ adds_called])

lemma adds_deliver:
  assumes "fst (callValidate w m s) = V_valid"
  shows "adds_guarded s (snd (deliver w n m (on_spool f (snd (callValidate w m s)))))"
  using assms
  by (auto simp: adds_guarded_def deliver_def callValidate_def called_def on_spool_def Let_def)

interpretation guarded_runs: step_preorder "\<lambda>m. inject w nativeOf m" adds_guarded for w nativeOf
proof
  fix s t u m
  show "adds_guarded s s" by simp
  show "adds_guarded s t \<Longrightarrow> adds_guarded t u \<Longrightarrow> adds_guarded s u" by (rule adds_trans)
  show "adds_guarded s (inject w nativeOf m s)"
    by (auto simp: inject_def split_def Let_def adds_deliver
        intro!: adds_report adds_on_spool adds_validate
        split: ValidationReply.split option.split DeliverReply.split)
qed

lemma adds_flush: "adds_guarded s (flushPendingReports w rs s)"
proof (induction rs arbitrary: s)
  case (Cons r rs)
  have "adds_guarded s (snd (flush_report w r s))"
    by (auto simp: flush_report_def split_def Let_def intro!: adds_intros adds_validate
        split: ValidationReply.split option.split bool.split)
  with Cons.IH[of "snd (flush_report w r s)"] show ?case
    by (cases "flush_report w r s") (auto split: bool.split intro: adds_trans)
qed simp

lemma adds_ackReceived: "adds_guarded s (ackReceived w ms s)"
proof -
  have one: "adds_guarded s (ack_one w now m s)" for now m s
    by (auto simp: ack_one_def acknowledgeDevice_def intro!: adds_on_spool adds_called split: bool.split)
  have "adds_guarded s (fold (ack_one w now) ms s)" for now s
    by (induction ms arbitrary: s) (auto intro: adds_trans one)
  moreover have "adds_guarded s (s\<lparr>reads := Suc (reads s)\<rparr>)" by (simp add: adds_guarded_def)
  ultimately show ?thesis unfolding ackReceived_def Let_def by (blast intro: adds_trans)
qed

lemma runOnce_guarded: "adds_guarded s (snd (runOnce w nativeOf s))"
  unfolding runOnce_def Let_def snd_conv
  by (rule adds_trans[OF adds_trans[OF adds_flush adds_ackReceived] guarded_runs.le_run])

section \<open>One message at a time\<close>

definition row_of :: "string \<Rightarrow> spool \<Rightarrow> SpoolRow option" where
  "row_of mid s = List.find (\<lambda>r. sp_message_id r = mid) (spool_messages s)"

definition status_of :: "string \<Rightarrow> spool \<Rightarrow> SpoolStatus option" where
  "status_of mid s = map_option sp_status (row_of mid s)"

definition count_of :: "string \<Rightarrow> spool \<Rightarrow> nat option" where
  "count_of mid s = map_option sp_attempt_count (row_of mid s)"

lemma row_of_markResult:
  "row_of mid (markResult m st c a s) =
     map_option (\<lambda>r. if mid = m then r\<lparr>sp_status := st, sp_last_result_code := c, sp_runtime_ack_id := a\<rparr> else r) (row_of mid s)"
proof -
  have "row_of mid (markResult m st c a s) = map_option (\<lambda>r. if sp_message_id r = m
     then r\<lparr>sp_status := st, sp_last_result_code := c, sp_runtime_ack_id := a\<rparr> else r) (row_of mid s)"
    unfolding row_of_def markResult_def by (simp add: find_update_where_same)
  then show ?thesis by (cases "row_of mid s") (auto simp: row_of_def dest: find_SomeD)
qed

lemma row_of_markInjecting:
  "row_of mid (markInjecting m s) = map_option (\<lambda>r. if mid = m \<and> injectable_status (sp_status r)
     then r\<lparr>sp_status := Injecting, sp_attempt_count := sp_attempt_count r + 1\<rparr> else r) (row_of mid s)"
proof -
  have "row_of mid (markInjecting m s) = map_option (\<lambda>r. if sp_message_id r = m \<and> injectable_status (sp_status r)
     then r\<lparr>sp_status := Injecting, sp_attempt_count := sp_attempt_count r + 1\<rparr> else r) (row_of mid s)"
    unfolding row_of_def markInjecting_def by (simp add: find_update_where_same cong: if_cong)
  then show ?thesis by (cases "row_of mid s") (auto simp: row_of_def dest: find_SomeD)
qed

lemma row_of_other [simp]:
  "row_of mid (recordAttempt i m p c b a t s) = row_of mid s"
  "row_of mid (markAttemptReported i s) = row_of mid s"
  by (simp_all add: row_of_def recordAttempt_def markAttemptReported_def)

lemma spool_of_steps [simp]:
  "spl (on_spool f s) = f (spl s)" "spl (fresh_attempt s) = spl s"
  "trace (on_spool f s) = trace s" "trace (fresh_attempt s) = trace s"
  "calls (on_spool f s) = calls s" "calls (fresh_attempt s) = calls s"
  "calls (called w a s) = Suc (calls s)" "trace (called w a s) = trace s @ [a]"
  by (simp_all add: on_spool_def fresh_attempt_def called_def)

text \<open>A world in which nothing else touches the spool while the injector waits.\<close>

definition quiet :: "world \<Rightarrow> bool" where
  "quiet w = (\<forall>k s. w_other w k s = s)"

lemma quiet_called [simp]: "quiet w \<Longrightarrow> spl (called w a s) = spl s"
  by (simp add: quiet_def called_def)

definition deliveries_in :: "string \<Rightarrow> Action list \<Rightarrow> nat" where
  "deliveries_in mid tr = length (filter (\<lambda>a. case a of Did_deliver n m r \<Rightarrow> m = mid | _ \<Rightarrow> False) tr)"

lemma deliveries_in_append [simp]: "deliveries_in mid (a @ b) = deliveries_in mid a + deliveries_in mid b"
  by (simp add: deliveries_in_def)

lemma deliveries_in_simps [simp]:
  "deliveries_in mid [] = 0" "deliveries_in mid (Did_ack m p i b # r) = deliveries_in mid r"
  "deliveries_in mid (Did_device_ack m b # r) = deliveries_in mid r"
  "deliveries_in mid (Did_validate m v # r) = deliveries_in mid r"
  "deliveries_in mid (Did_hook m b # r) = deliveries_in mid r"
  "deliveries_in mid (Did_deliver n m d # r) = (if m = mid then 1 else 0) + deliveries_in mid r"
  by (simp_all add: deliveries_in_def)

text \<open>What the three reports leave behind.\<close>

lemma reportFailure_row:
  assumes "quiet w" "row_of (sm_messageId m) (spl s) = Some r"
  shows "\<exists>r'. row_of (sm_messageId m) (spl (reportFailure w m c b s)) = Some r'
     \<and> sp_status r' = (if \<not> b then Sp_failed else if w_ack w (calls s) then Sp_runtime_pending else Blocked_offline)
     \<and> sp_attempt_count r' = sp_attempt_count r"
    "deliveries_in mid (trace (reportFailure w m c b s)) = deliveries_in mid (trace s)"
  using assms
  by (auto simp: reportFailure_def Let_def acknowledgeDelivery_def row_of_markResult split: bool.split)

lemma report_acked_row:
  assumes "quiet w" "row_of (sm_messageId m) (spl s) = Some r"
  shows "\<exists>r'. row_of (sm_messageId m) (spl (report_acked w m a s)) = Some r'
     \<and> sp_status r' = (if w_ack w (calls s) then Injected else Injected_unreported)
     \<and> sp_attempt_count r' = sp_attempt_count r"
    "deliveries_in mid (trace (report_acked w m a s)) = deliveries_in mid (trace s)"
  using assms
  by (auto simp: report_acked_def Let_def acknowledgeDelivery_def row_of_markResult split: bool.split)

lemma report_busy_row:
  assumes "quiet w" "row_of (sm_messageId m) (spl s) = Some r"
  shows "\<exists>r'. row_of (sm_messageId m) (spl (report_busy w m s)) = Some r'
     \<and> sp_status r' = Sp_runtime_pending \<and> sp_attempt_count r' = sp_attempt_count r"
    "deliveries_in mid (trace (report_busy w m s)) = deliveries_in mid (trace s)"
  using assms
  by (auto simp: report_busy_def Let_def acknowledgeDelivery_def row_of_markResult split: bool.split)

lemmas report_rows = reportFailure_row report_acked_row report_busy_row

text \<open>
  The outcome of one injection, as a contract: the status the message ends in, whether
  the attempt was counted and whether the runtime was asked to deliver. \<open>n\<close> is the number
  of the first call.
\<close>

definition retry_status :: "bool \<Rightarrow> SpoolStatus" where
  "retry_status acked = (if acked then Sp_runtime_pending else Blocked_offline)"

definition injection_outcome :: "world \<Rightarrow> nat \<Rightarrow> nat \<Rightarrow> string option \<Rightarrow> SpoolStatus \<times> bool \<times> bool" where
  "injection_outcome w n attempts native =
     (if attempts \<ge> max_injection_attempts then (Sp_failed, False, False)
      else case w_validate w n of
        V_unreachable \<Rightarrow> (Blocked_offline, False, False)
      | V_invalid _ \<Rightarrow> (Sp_failed, False, False)
      | V_valid \<Rightarrow>
          if native = None then (Sp_failed, False, False)
          else if \<not> w_hook w (n + 1) then (retry_status (w_ack w (n + 2)), True, False)
          else (case w_deliver w (n + 2) of
                  D_throws \<Rightarrow> retry_status (w_ack w (n + 3))
                | D_runtime_acked _ \<Rightarrow> if w_ack w (n + 3) then Injected else Injected_unreported
                | D_queued_busy \<Rightarrow> Sp_runtime_pending
                | D_status st \<Rightarrow> if st = ''runtime_unavailable'' then retry_status (w_ack w (n + 3)) else Sp_failed,
                True, True))"

definition observed :: "string \<Rightarrow> istate \<Rightarrow> istate \<Rightarrow> (SpoolStatus \<times> bool \<times> bool) option" where
  "observed mid s s' = (case row_of mid (spl s) of None \<Rightarrow> None | Some r \<Rightarrow>
     (case row_of mid (spl s') of None \<Rightarrow> None | Some r' \<Rightarrow>
        Some (sp_status r', sp_attempt_count r' = sp_attempt_count r + 1,
              deliveries_in mid (trace s') = deliveries_in mid (trace s) + 1)))"

lemma observed_intro:
  assumes "row_of mid (spl s) = Some r" "row_of mid (spl t) = Some q"
    "\<exists>r'. row_of mid (spl s') = Some r' \<and> sp_status r' = st \<and> sp_attempt_count r' = sp_attempt_count q"
    "deliveries_in mid (trace s') = deliveries_in mid (trace t)"
  shows "observed mid s s' = Some (st, sp_attempt_count q = sp_attempt_count r + 1,
     deliveries_in mid (trace t) = deliveries_in mid (trace s) + 1)"
  using assms by (auto simp: observed_def)

lemma inject_outcome:
  assumes q: "quiet w" and r: "row_of (sm_messageId m) (spl s) = Some r" "m = mapSpool r"
    and inj: "injectable_status (sp_status r)"
  shows "observed (sm_messageId m) s (inject w nativeOf m s)
     = Some (injection_outcome w (calls s) (sp_attempt_count r) (keep_truthy (nativeOf (sm_sessionHandle m))))"
proof -
  let ?id = "sm_messageId m" and ?n = "calls s"
  let ?v = "snd (callValidate w ?id s)"
  have cnt: "sm_attemptCount m = sp_attempt_count r" by (simp add: r(2) mapSpool_def)
  have v: "row_of ?id (spl ?v) = Some r" "calls ?v = Suc ?n" "fst (callValidate w ?id s) = w_validate w ?n"
    "deliveries_in ?id (trace ?v) = deliveries_in ?id (trace s)"
    using r(1) q by (simp_all add: callValidate_def)
  let ?j = "on_spool (markInjecting ?id) ?v"
  let ?r' = "r\<lparr>sp_status := Injecting, sp_attempt_count := sp_attempt_count r + 1\<rparr>"
  have j: "row_of ?id (spl ?j) = Some ?r'" "calls ?j = Suc ?n"
    "deliveries_in ?id (trace ?j) = deliveries_in ?id (trace s)"
    using v inj by (simp_all add: row_of_markInjecting)
  let ?d = "\<lambda>nh. snd (deliver w nh ?id ?j)"
  have d: "row_of ?id (spl (?d nh)) = Some ?r'" for nh
    using j(1) q by (simp add: deliver_def Let_def)
  have dc: "fst (deliver w nh ?id ?j) = (if w_hook w (Suc ?n) then w_deliver w (Suc (Suc ?n)) else D_throws)"
    "calls (?d nh) = (if w_hook w (Suc ?n) then Suc (Suc (Suc ?n)) else Suc (Suc ?n))"
    "deliveries_in ?id (trace (?d nh)) = deliveries_in ?id (trace s) + (if w_hook w (Suc ?n) then 1 else 0)" for nh
    using j by (simp_all add: deliver_def Let_def)
  note O = observed_intro[OF r(1)]
  note F0 = O[OF r(1) reportFailure_row[OF q r(1)]]
  note F1 = O[OF v(1) reportFailure_row[OF q v(1)]]
  note F2 = O[OF d reportFailure_row[OF q d]] O[OF d report_acked_row[OF q d]] O[OF d report_busy_row[OF q d]]
  have off: "observed ?id s (on_spool (markResult ?id Blocked_offline (Some c) None) ?v) = Some (Blocked_offline, False, False)" for c
    using r(1) v by (simp add: observed_def row_of_markResult)
  show ?thesis
    using off F0 F1 F2 v dc j cnt
    by (auto simp: inject_def injection_outcome_def split_def Let_def retry_status_def numeral_2_eq_2 numeral_3_eq_3
        split: ValidationReply.split option.split DeliverReply.split)
qed

end
