(* ===== verification/Bridge_Guarantees.thy ===== *)
theory Bridge_Guarantees
  imports Injector
begin

text \<open>
  What the bridge promises on the device: its spool keeps what it received once, in order
  and per session; its injector delivers a message only after a fresh validation, at most
  five times, and stops when a session is blocked.
\<close>

section \<open>Examples\<close>

definition demo_envelope :: "string \<Rightarrow> nat \<Rightarrow> MessageEnvelope" where
  "demo_envelope i n = \<lparr>me_id = i, me_clientMessageId = i, me_communicationSessionId = Some ''c1'',
     me_collaborationId = None, me_collaborationTurn = None, me_senderPrincipalId = ''prn_a'',
     me_senderDeviceId = None, me_target = \<lparr>mt_kind = Runtime_session, mt_principalId = ''prn_b'',
       mt_endpointId = Some ''ep'', mt_sessionHandle = Some ''rs''\<rparr>,
     me_kind = Text, me_payload = [], me_replyTo = None, me_correlationId = None, me_sequence = n,
     me_createdAt = 0, me_expiresAt = 100000\<rparr>"

definition demo_event :: "string \<Rightarrow> nat \<Rightarrow> RuntimeEvent" where
  "demo_event i n = \<lparr>rv_cursor = n, rv_type = Message_dispatch, rv_endpointId = ''ep'', rv_createdAt = 0,
     rv_data = Dispatch_data (Some (demo_envelope i n)) (Some (''d'' @ i))\<rparr>"

definition demo_row :: "string \<Rightarrow> nat \<Rightarrow> SpoolStatus \<Rightarrow> SpoolRow" where
  "demo_row i n st = (received_row (demo_envelope i n) (''d'' @ i) ''c1'' ''rs'')\<lparr>sp_status := st\<rparr>"

definition demo_spool :: "SpoolStatus \<Rightarrow> spool" where
  "demo_spool st = new_spool\<lparr>spool_messages := [demo_row ''m1'' 1 st, demo_row ''m2'' 2 Sp_device_acked]\<rparr>"

definition demo_world :: world where
  "demo_world = \<lparr>w_ack = (\<lambda>_. True), w_validate = (\<lambda>_. V_valid), w_hook = (\<lambda>_. True),
     w_deliver = (\<lambda>_. D_runtime_acked ''ack''), w_other = (\<lambda>_ s. s), w_now = (\<lambda>_. 0), w_id = (\<lambda>k. replicate k (CHR ''x''))\<rparr>"

definition demo_istate :: "SpoolStatus \<Rightarrow> istate" where
  "demo_istate st = \<lparr>spl = demo_spool st, calls = 0, reads = 0, ids = 0, trace = []\<rparr>"

lemmas demo_bridge = demo_row_def demo_spool_def demo_world_def demo_istate_def demo_event_def demo_envelope_def
  received_row_def new_spool_def mapSpool_def

section \<open>The spool\<close>

text \<open>
  Saving a cursor never moves one back. The cursor of the given server becomes
  the larger of the old and the new position, a text that is no number counts as zero, and
  every other cursor stays.
\<close>

theorem cursor_monotone:
  assumes "\<exists>r \<in> set (cursors s). fst r = k"
  shows "seq_at k (cursors (saveCursor k c s)) = max (seq_at k (cursors s)) (or_else (parse_int c) 0)
     \<and> (k' \<noteq> k \<longrightarrow> seq_at k' (cursors (saveCursor k c s)) = seq_at k' (cursors s))"
proof -
  from assms obtain r where "List.find (\<lambda>r. fst r = k) (cursors s) = Some r"
    using find_isSome[of "\<lambda>r. fst r = k" "cursors s"] by auto
  then show ?thesis by (auto simp: saveCursor_def seq_at_advance) (simp add: seq_at_def)
qed

theorem cursor_monotone_witness:
  "seq_at ''k'' (cursors (saveCursor ''k'' ''3'' (new_spool\<lparr>cursors := [(''k'', 7)]\<rparr>))) = 7"
proof -
  have p: "parse_int ''3'' = Some 3" by code_simp
  have "seq_at ''k'' [(''k'', 7)] = 7" by (simp add: seq_at_def)
  with cursor_monotone[of "new_spool\<lparr>cursors := [(''k'', 7)]\<rparr>" "''k''" "''3''"] p show ?thesis by simp
qed

text \<open>
  An event delivered twice is stored once: the replay reports the message
  already there, not inserted, and leaves the spool as it is.
\<close>

theorem dispatch_stored_once:
  assumes "storeDispatch ev s = (Some (b, m), s')"
  shows "storeDispatch ev s' = (Some (False, m), s')"
  by (rule storeDispatch_replay[OF assms])

theorem dispatch_stored_once_witness:
  "\<exists>m s'. storeDispatch (demo_event ''m1'' 1) new_spool = (Some (True, m), s')
     \<and> storeDispatch (demo_event ''m1'' 1) s' = (Some (False, m), s')"
proof -
  have "\<exists>m s'. storeDispatch (demo_event ''m1'' 1) new_spool = (Some (True, m), s')"
    by (simp add: storeDispatch_def Let_def demo_bridge insert_or_ignore_def getMessage_def)
  then show ?thesis using dispatch_stored_once by blast
qed

text \<open>
  C13: the messages offered for injection are at most one per session, each is
  waiting with every earlier message of its session finished, and every session that has
  such a message is offered one.
\<close>

theorem injectable_in_order:
  "distinct (map sm_communicationSessionId (listInjectable s))
   \<and> (\<forall>m \<in> set (listInjectable s). \<exists>r \<in> set (spool_messages s). m = mapSpool r \<and> injectable_status (sp_status r)
        \<and> (\<forall>e \<in> set (spool_messages s). sp_comm_session_id e = sp_comm_session_id r \<and> sp_sequence e < sp_sequence r
             \<longrightarrow> finished_status (sp_status e)))
   \<and> (\<forall>r \<in> set (spool_messages s). injectable_row (spool_messages s) r \<longrightarrow>
        sp_comm_session_id r \<in> sm_communicationSessionId ` set (listInjectable s))"
proof (intro conjI ballI impI)
  show "distinct (map sm_communicationSessionId (listInjectable s))" by (rule listInjectable_distinct)
next
  fix m assume "m \<in> set (listInjectable s)"
  then obtain r where "r \<in> set (spool_messages s)" "m = mapSpool r" "injectable_row (spool_messages s) r"
    by (rule listInjectable_row)
  then show "\<exists>r \<in> set (spool_messages s). m = mapSpool r \<and> injectable_status (sp_status r)
        \<and> (\<forall>e \<in> set (spool_messages s). sp_comm_session_id e = sp_comm_session_id r \<and> sp_sequence e < sp_sequence r
             \<longrightarrow> finished_status (sp_status e))"
    by (intro bexI[of _ r]) (auto simp: injectable_row_def)
next
  fix r assume "r \<in> set (spool_messages s)" "injectable_row (spool_messages s) r"
  from listInjectable_covers[OF this] show "sp_comm_session_id r \<in> sm_communicationSessionId ` set (listInjectable s)"
    by (metis image_eqI)
qed

theorem injectable_in_order_witness:
  "\<exists>m \<in> set (listInjectable (demo_spool Injected)). sm_communicationSessionId m = ''c1''"
proof -
  have "injectable_row (spool_messages (demo_spool Injected)) (demo_row ''m2'' 2 Sp_device_acked)"
    "demo_row ''m2'' 2 Sp_device_acked \<in> set (spool_messages (demo_spool Injected))"
    by (simp_all add: injectable_row_def injectable_status_def finished_status_def demo_bridge)
  with injectable_in_order[of "demo_spool Injected"]
  have "sp_comm_session_id (demo_row ''m2'' 2 Sp_device_acked) \<in> sm_communicationSessionId ` set (listInjectable (demo_spool Injected))"
    by blast
  then show ?thesis by (auto simp: demo_bridge)
qed

text \<open>
  Once a session is blocked none of its messages is offered for injection
  and no attempt of one of its messages is still to be reported.
\<close>

theorem blocked_session_silent:
  "sid \<notin> sm_communicationSessionId ` set (listInjectable (blockCommunicationSession sid reason g s))
   \<and> (\<forall>a \<in> set (injection_attempts (blockCommunicationSession sid reason g s)). \<forall>r \<in> set (spool_messages (blockCommunicationSession sid reason g s)).
        sp_comm_session_id r = sid \<and> sp_message_id r = ia_message_id a \<longrightarrow> ia_reported a)"
  using blocked_not_injectable blocked_no_reports by blast

theorem blocked_session_silent_witness:
  "''c1'' \<in> sm_communicationSessionId ` set (listInjectable (demo_spool Sp_device_acked))
   \<and> ''c1'' \<notin> sm_communicationSessionId ` set (listInjectable
        (blockCommunicationSession ''c1'' ''revoked'' ''revoked'' (demo_spool Sp_device_acked)))"
proof
  show "''c1'' \<in> sm_communicationSessionId ` set (listInjectable (demo_spool Sp_device_acked))"
    by (simp add: listInjectable_def injectable_row_def injectable_status_def finished_status_def demo_bridge)
qed (use blocked_session_silent in blast)

section \<open>The injector\<close>

text \<open>
  C6: in one pass of the injector, whatever the control plane, the
  runtime and the other loops do, a message is handed to the runtime only if the last
  validation before it was of that message and approved it, and each approval is used once.
\<close>

theorem nothing_delivered_unvalidated:
  "\<exists>t. trace (snd (runOnce w nativeOf s)) = trace s @ t \<and> guarded None t"
  using runOnce_guarded[of s w nativeOf] by (simp add: adds_guarded_def)



definition demo_race :: world where
  "demo_race = demo_world\<lparr>w_other := (\<lambda>k. if k = 0 then blockCommunicationSession ''c1'' ''revoked'' ''revoked'' else (\<lambda>s. s))\<rparr>"

text \<open>
  The injector does not look at the spool again after the validation
  returned. When the session is blocked while it waits, the message is delivered all the
  same and ends as injected instead of blocked.
\<close>

theorem blocked_during_validation:
  "let s = inject demo_race (\<lambda>_. Some ''native'') (mapSpool (demo_row ''m1'' 1 Sp_device_acked)) (demo_istate Sp_device_acked)
   in status_of ''m1'' (blockCommunicationSession ''c1'' ''revoked'' ''revoked'' (demo_spool Sp_device_acked)) = Some Blocked
    \<and> deliveries_in ''m1'' (trace s) = 1 \<and> status_of ''m1'' (spl s) = Some Injected"
  unfolding Let_def
  by (intro conjI)
     (simp_all add: inject_def callValidate_def called_def deliver_def report_acked_def acknowledgeDelivery_def on_spool_def
        fresh_attempt_def markInjecting_def markResult_def recordAttempt_def markAttemptReported_def status_of_def row_of_def
        blockCommunicationSession_def setGrant_def upsert_def insert_or_ignore_def demo_race_def demo_bridge Let_def
        max_injection_attempts_def injectable_status_def finished_status_def deliveries_in_def)

end
