(* ===== verification/Supervision.thy ===== *)
theory Supervision
  imports Contracts Zod
begin

text \<open>
  The bridge's supervision (\<^verbatim>\<open>src/bridge/health.ts\<close>, \<^verbatim>\<open>idle-backoff.ts\<close>,
  \<^verbatim>\<open>auth-failure-budget.ts\<close>, \<^verbatim>\<open>resource-monitor.ts\<close>, \<^verbatim>\<open>process-watchdog.ts\<close>):
  small machines that turn a stream of observations into delays, a health status and a
  fatal report. Every one takes the clock's reading as an argument where the code calls
  its clock. What they share, a report that is made once, is the locale \<open>latch\<close>.
\<close>

section \<open>Machines that report once\<close>

text \<open>The outputs of a machine over a list of inputs, and the state it ends in.\<close>

fun outputs :: "('e \<Rightarrow> 's \<Rightarrow> 'o \<times> 's) \<Rightarrow> 'e list \<Rightarrow> 's \<Rightarrow> 'o list" where
  "outputs f [] s = []"
| "outputs f (e # es) s = fst (f e s) # outputs f es (snd (f e s))"

fun after :: "('e \<Rightarrow> 's \<Rightarrow> 'o \<times> 's) \<Rightarrow> 'e list \<Rightarrow> 's \<Rightarrow> 's" where
  "after f [] s = s"
| "after f (e # es) s = after f es (snd (f e s))"

lemma length_outputs [simp]: "length (outputs f es s) = length es"
  by (induction es arbitrary: s) auto

lemma outputs_append: "outputs f (es @ fs) s = outputs f es s @ outputs f fs (after f es s)"
  by (induction es arbitrary: s) auto

lemma after_append: "after f (es @ fs) s = after f fs (after f es s)"
  by (induction es arbitrary: s) auto

lemma nth_outputs: "i < length es \<Longrightarrow> outputs f es s ! i = fst (f (es ! i) (after f (take i es) s))"
proof (induction es arbitrary: s i)
  case (Cons e es)
  then show ?case by (cases i) auto
qed simp

locale latch =
  fixes step :: "'e \<Rightarrow> 's \<Rightarrow> 'o \<times> 's"
    and fires :: "'o \<Rightarrow> bool"
    and armed :: "'s \<Rightarrow> bool"
  assumes fires_armed: "fires (fst (step e s)) \<Longrightarrow> armed s \<and> \<not> armed (snd (step e s))"
    and stays_down: "\<not> armed s \<Longrightarrow> \<not> armed (snd (step e s))"
begin

lemma down_silent: "\<not> armed s \<Longrightarrow> filter fires (outputs step es s) = []"
  using fires_armed stays_down by (induction es arbitrary: s) auto

lemma down_after: "\<not> armed s \<Longrightarrow> \<not> armed (after step es s)"
  using stays_down by (induction es arbitrary: s) auto

lemma fires_once: "length (filter fires (outputs step es s)) \<le> 1"
proof (induction es arbitrary: s)
  case (Cons e es)
  then show ?case
    using down_silent[of "snd (step e s)" es] fires_armed[of e s] by auto
qed simp

text \<open>A report made at one input is not made at another.\<close>

lemma fires_unique:
  assumes "i < j" "j < length es" "fires (outputs step es s ! i)"
  shows "\<not> fires (outputs step es s ! j)"
proof -
  let ?m = "after step (take (Suc i) es) s"
  have "\<not> armed (snd (step (es ! i) (after step (take i es) s)))"
    using assms fires_armed by (simp add: nth_outputs)
  then have down: "\<not> armed ?m"
    using assms by (simp add: take_Suc_conv_app_nth after_append)
  have "outputs step es s = outputs step (take (Suc i) es) s @ outputs step (drop (Suc i) es) ?m"
    by (metis append_take_drop_id outputs_append)
  then have "outputs step es s ! j = outputs step (drop (Suc i) es) ?m ! (j - Suc i)"
    using assms by (simp add: nth_append)
  moreover have "\<dots> \<in> set (outputs step (drop (Suc i) es) ?m)"
    using assms by (intro nth_mem) simp
  ultimately show ?thesis
    using down_silent[OF down] by (metis filter_empty_conv)
qed

end

section \<open>Idle polling (\<^verbatim>\<open>idle-backoff.ts\<close>)\<close>

record IdlePollBackoff =
  ib_minimumMs :: int
  ib_maximumMs :: int
  ib_currentMs :: int

definition new_backoff :: "int \<Rightarrow> int \<Rightarrow> IdlePollBackoff" where
  "new_backoff minimumMs maximumMs =
     \<lparr>ib_minimumMs = minimumMs, ib_maximumMs = max minimumMs maximumMs, ib_currentMs = minimumMs\<rparr>"

definition next_delay :: "bool \<Rightarrow> IdlePollBackoff \<Rightarrow> int \<times> IdlePollBackoff" where
  "next_delay worked b =
     (let c = (if worked then ib_minimumMs b else min (ib_currentMs b * 2) (ib_maximumMs b))
      in (c, b\<lparr>ib_currentMs := c\<rparr>))"

section \<open>Heartbeat health (\<^verbatim>\<open>health.ts\<close>)\<close>

datatype BridgeHealthStatus = H_starting | H_healthy | H_degraded | H_unhealthy | H_stopped

record BridgeHealthState =
  bh_status :: BridgeHealthStatus
  bh_consecutiveHeartbeatFailures :: nat
  bh_nextHeartbeatInMs :: int
  bh_eventLoopLagMs :: int
  bh_lastHeartbeatAttemptAt :: "time option"
  bh_lastHeartbeatSuccessAt :: "time option"
  bh_lastError :: "string option"
  bh_updatedAt :: time

record HeartbeatWatchdog =
  hw_heartbeatMs :: int
  hw_maxBackoffMs :: int
  hw_failureThreshold :: int
  hw_state :: BridgeHealthState

text \<open>\<open>Inl\<close> is the error the constructor throws.\<close>

definition new_heartbeat_watchdog :: "int \<Rightarrow> int \<Rightarrow> int \<Rightarrow> time \<Rightarrow> string + HeartbeatWatchdog" where
  "new_heartbeat_watchdog heartbeatMs maxBackoffMs failureThreshold now =
     (if failureThreshold < 1 then Inl ''heartbeat failure threshold must be a positive integer''
      else Inr \<lparr>hw_heartbeatMs = heartbeatMs, hw_maxBackoffMs = maxBackoffMs,
                hw_failureThreshold = failureThreshold,
                hw_state = \<lparr>bh_status = H_starting, bh_consecutiveHeartbeatFailures = 0,
                  bh_nextHeartbeatInMs = heartbeatMs, bh_eventLoopLagMs = 0,
                  bh_lastHeartbeatAttemptAt = None, bh_lastHeartbeatSuccessAt = None,
                  bh_lastError = None, bh_updatedAt = now\<rparr>\<rparr>)"

definition recordSuccess :: "time \<Rightarrow> int \<Rightarrow> HeartbeatWatchdog \<Rightarrow> HeartbeatWatchdog" where
  "recordSuccess now eventLoopLagMs w =
     w\<lparr>hw_state :=
       \<lparr>bh_status = (if hw_heartbeatMs w \<le> eventLoopLagMs then H_degraded else H_healthy),
        bh_consecutiveHeartbeatFailures = 0, bh_nextHeartbeatInMs = hw_heartbeatMs w,
        bh_eventLoopLagMs = eventLoopLagMs, bh_lastHeartbeatAttemptAt = Some now,
        bh_lastHeartbeatSuccessAt = Some now, bh_lastError = None, bh_updatedAt = now\<rparr>\<rparr>"

definition recordHeartbeatFailure :: "time \<Rightarrow> string \<Rightarrow> int \<Rightarrow> HeartbeatWatchdog \<Rightarrow> HeartbeatWatchdog" where
  "recordHeartbeatFailure now error eventLoopLagMs w =
     (let failures = bh_consecutiveHeartbeatFailures (hw_state w) + 1
      in w\<lparr>hw_state :=
           \<lparr>bh_status = (if hw_failureThreshold w \<le> int failures then H_unhealthy else H_degraded),
            bh_consecutiveHeartbeatFailures = failures,
            bh_nextHeartbeatInMs = min (hw_maxBackoffMs w) (hw_heartbeatMs w * 2 ^ (failures - 1)),
            bh_eventLoopLagMs = eventLoopLagMs, bh_lastHeartbeatAttemptAt = Some now,
            bh_lastHeartbeatSuccessAt = bh_lastHeartbeatSuccessAt (hw_state w),
            bh_lastError = Some error, bh_updatedAt = now\<rparr>\<rparr>)"

definition stop_watchdog :: "time \<Rightarrow> HeartbeatWatchdog \<Rightarrow> HeartbeatWatchdog" where
  "stop_watchdog now w = w\<lparr>hw_state := (hw_state w)\<lparr>bh_status := H_stopped, bh_updatedAt := now\<rparr>\<rparr>"

text \<open>
  \<open>parseBridgeHealth\<close> on the parsed text (\<open>None\<close>: the text does not parse): the value itself
  when its members have the types of the record. Anything but an object has no members, so
  every check below fails on it.
\<close>

fun is_num :: "json option \<Rightarrow> bool" where
  "is_num (Some (JNum n)) = True"
| "is_num _ = False"

fun is_str :: "json option \<Rightarrow> bool" where
  "is_str (Some (JStr n)) = True"
| "is_str _ = False"

definition parseBridgeHealth :: "(string \<Rightarrow> json option) \<Rightarrow> string option \<Rightarrow> json option" where
  "parseBridgeHealth JSON_parse value =
     (if \<not> truthy value then None
      else case JSON_parse (the value) of
             None \<Rightarrow> None
           | Some parsed \<Rightarrow>
               (if member_of parsed ''status'' \<in> Some ` JStr ` {''starting'', ''healthy'', ''degraded'', ''unhealthy'', ''stopped''}
                   \<and> is_num (member_of parsed ''consecutiveHeartbeatFailures'')
                   \<and> is_num (member_of parsed ''nextHeartbeatInMs'')
                   \<and> is_num (member_of parsed ''eventLoopLagMs'')
                   \<and> is_str (member_of parsed ''updatedAt'')
                then Some parsed else None))"

text \<open>The first argument is \<^verbatim>\<open>Date.parse(state.updatedAt)\<close>, \<open>None\<close> for \<^verbatim>\<open>NaN\<close>.\<close>

definition bridgeHealthIsFresh :: "time option \<Rightarrow> int \<Rightarrow> time \<Rightarrow> bool" where
  "bridgeHealthIsFresh updatedAt nextHeartbeatInMs nowMs =
     (case updatedAt of None \<Rightarrow> False
      | Some t \<Rightarrow> nowMs - t \<le> max 40000 (nextHeartbeatInMs * 2 + 20000))"

section \<open>Authentication failures (\<^verbatim>\<open>auth-failure-budget.ts\<close>)\<close>

record AuthenticationFailureBudget =
  ab_timeoutMs :: int
  ab_firstFailureAt :: "time option"
  ab_reported :: bool

record AuthenticationFailureDecision =
  ad_fatal :: bool
  ad_elapsedMs :: int
  ad_alreadyReported :: bool

definition new_budget :: "int \<Rightarrow> AuthenticationFailureBudget" where
  "new_budget timeoutMs = \<lparr>ab_timeoutMs = timeoutMs, ab_firstFailureAt = None, ab_reported = False\<rparr>"

definition recordFailure ::
    "time \<Rightarrow> AuthenticationFailureBudget \<Rightarrow> AuthenticationFailureDecision \<times> AuthenticationFailureBudget" where
  "recordFailure now b =
     (let first = or_else (ab_firstFailureAt b) now;
          elapsedMs = max 0 (now - first);
          b = b\<lparr>ab_firstFailureAt := Some first\<rparr>
      in if ab_reported b then (\<lparr>ad_fatal = False, ad_elapsedMs = elapsedMs, ad_alreadyReported = True\<rparr>, b)
         else if elapsedMs < ab_timeoutMs b
         then (\<lparr>ad_fatal = False, ad_elapsedMs = elapsedMs, ad_alreadyReported = False\<rparr>, b)
         else (\<lparr>ad_fatal = True, ad_elapsedMs = elapsedMs, ad_alreadyReported = False\<rparr>, b\<lparr>ab_reported := True\<rparr>))"

definition recordRecovery :: "AuthenticationFailureBudget \<Rightarrow> AuthenticationFailureBudget" where
  "recordRecovery b = b\<lparr>ab_firstFailureAt := None, ab_reported := False\<rparr>"

section \<open>Resource usage (\<^verbatim>\<open>resource-monitor.ts\<close>)\<close>

text \<open>The percentage is a floating-point number that is only compared: any linear order.\<close>

record 'n ResourceUsageSample =
  ru_cpuPercent :: 'n
  ru_rssBytes :: nat

record 'n ResourceUsageDecision = "'n ResourceUsageSample" +
  ru_fatal :: bool
  ru_consecutiveHighCpuSamples :: nat

record 'n ResourceUsageTracker =
  rk_highCpuPercent :: 'n
  rk_consecutiveLimit :: nat
  rk_consecutiveHighCpuSamples :: nat
  rk_reported :: bool

definition new_tracker :: "'n \<Rightarrow> nat \<Rightarrow> 'n ResourceUsageTracker" where
  "new_tracker highCpuPercent consecutiveLimit =
     \<lparr>rk_highCpuPercent = highCpuPercent, rk_consecutiveLimit = consecutiveLimit,
      rk_consecutiveHighCpuSamples = 0, rk_reported = False\<rparr>"

definition record_sample ::
    "'n::linorder ResourceUsageSample \<Rightarrow> 'n ResourceUsageTracker \<Rightarrow> 'n ResourceUsageDecision \<times> 'n ResourceUsageTracker" where
  "record_sample sample k =
     (let high = (if rk_highCpuPercent k \<le> ru_cpuPercent sample then rk_consecutiveHighCpuSamples k + 1 else 0);
          fatal = (\<not> rk_reported k \<and> rk_consecutiveLimit k \<le> high)
      in (\<lparr>ru_cpuPercent = ru_cpuPercent sample, ru_rssBytes = ru_rssBytes sample, ru_fatal = fatal,
           ru_consecutiveHighCpuSamples = high\<rparr>,
          k\<lparr>rk_consecutiveHighCpuSamples := high, rk_reported := (rk_reported k \<or> fatal)\<rparr>))"

section \<open>The process watchdog (\<^verbatim>\<open>process-watchdog.ts\<close>)\<close>

datatype WatchdogObservation = Progress | Waiting | Worker_suspended | Main_stalled

definition classifyWatchdogObservation :: "bool \<Rightarrow> int \<Rightarrow> int \<Rightarrow> int \<Rightarrow> int \<Rightarrow> WatchdogObservation" where
  "classifyWatchdogObservation counterChanged elapsedSinceCheckMs elapsedSinceProgressMs checkIntervalMs stallTimeoutMs =
     (if counterChanged then Progress
      else if max stallTimeoutMs (checkIntervalMs * 4) \<le> elapsedSinceCheckMs then Worker_suspended
      else if stallTimeoutMs \<le> elapsedSinceProgressMs then Main_stalled
      else Waiting)"

record watchdog_worker =
  ww_checkIntervalMs :: int
  ww_stallTimeoutMs :: int
  ww_lastCounter :: int
  ww_lastProgressAt :: time
  ww_lastCheckAt :: time
  ww_terminating :: bool

definition start_worker :: "int \<Rightarrow> int \<Rightarrow> int \<Rightarrow> time \<Rightarrow> watchdog_worker" where
  "start_worker checkIntervalMs stallTimeoutMs counter now =
     \<lparr>ww_checkIntervalMs = checkIntervalMs, ww_stallTimeoutMs = stallTimeoutMs, ww_lastCounter = counter,
      ww_lastProgressAt = now, ww_lastCheckAt = now, ww_terminating = False\<rparr>"

text \<open>
  One tick of the worker's timer at a clock reading, with the counter it loads. The answer
  is the stall it reports when it kills the process (diagnostic, message, SIGTERM, SIGKILL).
\<close>

definition worker_tick :: "time \<times> int \<Rightarrow> watchdog_worker \<Rightarrow> int option \<times> watchdog_worker" where
  "worker_tick x w =
     (let now = fst x; currentCounter = snd x;
          observation = classifyWatchdogObservation (currentCounter \<noteq> ww_lastCounter w)
            (now - ww_lastCheckAt w) (now - ww_lastProgressAt w) (ww_checkIntervalMs w) (ww_stallTimeoutMs w);
          w = w\<lparr>ww_lastCheckAt := now\<rparr>
      in if observation = Progress \<or> observation = Worker_suspended
         then (None, w\<lparr>ww_lastCounter := currentCounter, ww_lastProgressAt := now\<rparr>)
         else if ww_terminating w \<or> observation \<noteq> Main_stalled then (None, w)
         else (Some (now - ww_lastProgressAt w), w\<lparr>ww_terminating := True\<rparr>))"

definition positiveInteger :: "int option \<Rightarrow> int \<Rightarrow> string \<Rightarrow> string + int" where
  "positiveInteger value fallback label =
     (let selected = or_else value fallback
      in if 2 ^ 53 \<le> \<bar>selected\<bar> \<or> selected < 1
         then Inl (''event-loop watchdog '' @ label @ '' must be a positive integer'')
         else Inr selected)"

text \<open>The checks of \<open>startProcessWatchdog\<close> before it starts the worker, and the settings it starts it with.\<close>

definition startProcessWatchdog :: "int option \<Rightarrow> int option \<Rightarrow> int option \<Rightarrow> string + int \<times> int \<times> int" where
  "startProcessWatchdog checkInterval stallTimeout terminateGrace =
     (case positiveInteger checkInterval 5000 ''check interval'' of
        Inl e \<Rightarrow> Inl e
      | Inr checkIntervalMs \<Rightarrow>
     (case positiveInteger stallTimeout 120000 ''stall timeout'' of
        Inl e \<Rightarrow> Inl e
      | Inr stallTimeoutMs \<Rightarrow>
     (case positiveInteger terminateGrace 5000 ''termination grace'' of
        Inl e \<Rightarrow> Inl e
      | Inr terminateGraceMs \<Rightarrow>
          if stallTimeoutMs \<le> checkIntervalMs
          then Inl ''event-loop stall timeout must be greater than the watchdog check interval''
          else Inr (checkIntervalMs, stallTimeoutMs, terminateGraceMs))))"

definition readProcessWatchdogDiagnostic :: "(string \<Rightarrow> json option) \<Rightarrow> string option \<Rightarrow> json option" where
  "readProcessWatchdogDiagnostic JSON_parse file =
     (case file of None \<Rightarrow> None
      | Some text \<Rightarrow>
          (case JSON_parse text of
             None \<Rightarrow> None
           | Some value \<Rightarrow>
               (if member_of value ''status'' = Some (JStr ''terminated'')
                   \<and> member_of value ''reason'' = Some (JStr ''event_loop_stalled'')
                   \<and> (case member_of value ''pid'' of Some (JNum n) \<Rightarrow> \<bar>n\<bar> < 2 ^ 53 | _ \<Rightarrow> False)
                   \<and> is_str (member_of value ''detectedAt'')
                   \<and> is_num (member_of value ''stallMs'')
                then Some value else None)))"

section \<open>Reconnecting (\<^verbatim>\<open>bridge.ts\<close>)\<close>

definition shouldLogReconnect :: "nat \<Rightarrow> bool" where
  "shouldLogReconnect failures = (failures \<le> 3 \<or> and (int failures) (int failures - 1) = 0)"

definition reconnect_delay :: "int \<Rightarrow> int" where
  "reconnect_delay d = min (d * 2) 5000"

section \<open>Reports are made once\<close>

interpretation auth_latch: latch recordFailure ad_fatal "\<lambda>b. \<not> ab_reported b"
  by unfold_locales (auto simp: recordFailure_def Let_def split: if_splits)

interpretation cpu_latch: latch record_sample ru_fatal "\<lambda>k. \<not> rk_reported k"
  by unfold_locales (auto simp: record_sample_def Let_def split: if_splits)

interpretation kill_latch: latch worker_tick "\<lambda>o'. o' \<noteq> None" "\<lambda>w. \<not> ww_terminating w"
  by unfold_locales (auto simp: worker_tick_def Let_def split: if_splits)

section \<open>Trailing runs\<close>

text \<open>The length of the longest suffix on which a predicate holds.\<close>

definition trailing :: "('a \<Rightarrow> bool) \<Rightarrow> 'a list \<Rightarrow> nat" where
  "trailing P xs = length (takeWhile P (rev xs))"

lemma trailing_simps [simp]:
  "trailing P [] = 0"
  "trailing P (xs @ [x]) = (if P x then Suc (trailing P xs) else 0)"
  by (simp_all add: trailing_def)

lemma trailing_le: "trailing P xs \<le> length xs"
  using length_takeWhile_le[of P "rev xs"] by (simp add: trailing_def)

lemma after_snoc: "after f (es @ [e]) s = snd (f e (after f es s))"
  by (simp add: after_append)

lemma nth_output_last:
  "i < length es \<Longrightarrow> outputs f es s ! i = fst (f (es ! i) (after f (take i es) s))"
  by (rule nth_outputs)

section \<open>The delays of an idle loop\<close>

lemma next_delay_current:
  "ib_currentMs (snd (next_delay w b)) = (if w then ib_minimumMs b else min (ib_currentMs b * 2) (ib_maximumMs b))"
  "fst (next_delay w b) = ib_currentMs (snd (next_delay w b))"
  by (auto simp: next_delay_def Let_def)

lemma new_backoff_simps [simp]:
  "ib_minimumMs (new_backoff m M) = m"
  "ib_maximumMs (new_backoff m M) = max m M"
  "ib_currentMs (new_backoff m M) = m"
  by (simp_all add: new_backoff_def)

lemma backoff_bounds [simp]:
  "ib_minimumMs (after next_delay ws b) = ib_minimumMs b"
  "ib_maximumMs (after next_delay ws b) = ib_maximumMs b"
  by (induction ws arbitrary: b) (auto simp: next_delay_def Let_def)

lemma backoff_current:
  assumes "0 \<le> m"
  shows "ib_currentMs (after next_delay ws (new_backoff m M)) = min (m * 2 ^ trailing Not ws) (max m M)"
proof (induction ws rule: rev_induct)
  case Nil
  show ?case by simp
next
  case (snoc w ws)
  have double: "min (min (m * 2 ^ n) K * 2) K = min (m * 2 ^ Suc n) K" if "m \<le> K" for n K
    using that assms mult_nonneg_nonneg[of m "2 ^ n"] by (auto simp: min_def)
  show ?case
    using snoc.IH double[of "max m M"] by (auto simp: after_snoc next_delay_current)
qed

text \<open>
  The delay an idle loop sleeps after any history of polls is the minimum
  doubled once per idle poll since it last found work, and never more than the maximum.
\<close>

theorem idle_delay:
  assumes "0 \<le> minimumMs" "i < length worked"
  shows "outputs next_delay worked (new_backoff minimumMs maximumMs) ! i =
           min (minimumMs * 2 ^ trailing Not (take (Suc i) worked)) (max minimumMs maximumMs)"
proof -
  have "outputs next_delay worked (new_backoff minimumMs maximumMs) ! i =
      ib_currentMs (after next_delay (take (Suc i) worked) (new_backoff minimumMs maximumMs))"
    using assms(2) by (simp add: nth_outputs take_Suc_conv_app_nth after_append next_delay_current)
  then show ?thesis by (simp add: backoff_current[OF assms(1)])
qed

theorem idle_delay_witness:
  "outputs next_delay [False, False, True, False] (new_backoff 100 2000) ! 3 = 200"
  using idle_delay[of 100 3 "[False, False, True, False]" 2000] by (simp add: trailing_def)

section \<open>The health of the heartbeat\<close>

text \<open>A beat: the clock, the lag of the event loop, and the error of a beat that failed.\<close>

type_synonym beat = "time \<times> int \<times> string option"

definition record_beat :: "beat \<Rightarrow> HeartbeatWatchdog \<Rightarrow> HeartbeatWatchdog" where
  "record_beat b w = (case b of (now, lag, None) \<Rightarrow> recordSuccess now lag w
     | (now, lag, Some e) \<Rightarrow> recordHeartbeatFailure now e lag w)"

definition missed :: "beat \<Rightarrow> bool" where
  "missed b = (snd (snd b) \<noteq> None)"

lemma record_beat_settings [simp]:
  "hw_heartbeatMs (record_beat b w) = hw_heartbeatMs w"
  "hw_maxBackoffMs (record_beat b w) = hw_maxBackoffMs w"
  "hw_failureThreshold (record_beat b w) = hw_failureThreshold w"
  by (auto simp: record_beat_def recordSuccess_def recordHeartbeatFailure_def Let_def split: prod.splits option.splits)

lemma beats_settings [simp]:
  "hw_heartbeatMs (fold record_beat bs w) = hw_heartbeatMs w"
  "hw_maxBackoffMs (fold record_beat bs w) = hw_maxBackoffMs w"
  "hw_failureThreshold (fold record_beat bs w) = hw_failureThreshold w"
  by (induction bs arbitrary: w) auto

lemma record_beat_state:
  "bh_consecutiveHeartbeatFailures (hw_state (record_beat b w)) =
     (if missed b then Suc (bh_consecutiveHeartbeatFailures (hw_state w)) else 0)"
  "bh_nextHeartbeatInMs (hw_state (record_beat b w)) =
     (if missed b then min (hw_maxBackoffMs w) (hw_heartbeatMs w * 2 ^ bh_consecutiveHeartbeatFailures (hw_state w))
      else hw_heartbeatMs w)"
  "bh_status (hw_state (record_beat b w)) = H_unhealthy \<longleftrightarrow>
     missed b \<and> hw_failureThreshold w \<le> int (Suc (bh_consecutiveHeartbeatFailures (hw_state w)))"
  by (auto simp: record_beat_def recordSuccess_def recordHeartbeatFailure_def Let_def missed_def
      split: prod.splits option.splits)

text \<open>
  After any beats the watchdog counts exactly the failures since the
  last success, the next beat comes after the interval doubled per further failure and
  capped by the maximal backoff, and the bridge is unhealthy exactly when the failures
  have reached the threshold.
\<close>

theorem heartbeat_health:
  assumes "new_heartbeat_watchdog heartbeatMs maxBackoffMs threshold t0 = Inr w"
    and "n = trailing missed beats" and "s = hw_state (fold record_beat beats w)"
  shows "bh_consecutiveHeartbeatFailures s = n
    \<and> bh_nextHeartbeatInMs s = (if n = 0 then heartbeatMs else min maxBackoffMs (heartbeatMs * 2 ^ (n - 1)))
    \<and> (bh_status s = H_unhealthy \<longleftrightarrow> threshold \<le> int n)"
  unfolding assms(2,3)
proof (induction beats rule: rev_induct)
  case Nil
  from assms(1) show ?case by (auto simp: new_heartbeat_watchdog_def split: if_splits)
next
  case (snoc b bs)
  from assms(1) have "hw_heartbeatMs w = heartbeatMs" "hw_maxBackoffMs w = maxBackoffMs"
    "hw_failureThreshold w = threshold" "1 \<le> threshold"
    by (auto simp: new_heartbeat_watchdog_def split: if_splits)
  with snoc.IH show ?case by (simp add: record_beat_state)
qed

theorem heartbeat_health_witness:
  "\<exists>w. new_heartbeat_watchdog 10000 60000 3 0 = Inr w
     \<and> bh_status (hw_state (fold record_beat [(1, 0, None), (2, 0, Some ''x''), (3, 0, Some ''x''), (4, 0, Some ''x'')] w))
         = H_unhealthy"
proof -
  have "new_heartbeat_watchdog 10000 60000 3 0 = Inr (projr (new_heartbeat_watchdog 10000 60000 3 0))"
    by (simp add: new_heartbeat_watchdog_def)
  then show ?thesis
    using heartbeat_health[of 10000 60000 3 0 "projr (new_heartbeat_watchdog 10000 60000 3 0)" 3
        "[(1, 0, None), (2, 0, Some ''x''), (3, 0, Some ''x''), (4, 0, Some ''x'')]"]
    by (intro exI[of _ "projr (new_heartbeat_watchdog 10000 60000 3 0)"])
       (simp add: trailing_def missed_def)
qed

section \<open>The authentication budget\<close>

lemma new_budget_simps [simp]:
  "ab_timeoutMs (new_budget T) = T" "ab_firstFailureAt (new_budget T) = None" "\<not> ab_reported (new_budget T)"
  by (simp_all add: new_budget_def)

lemma recordRecovery_new: "recordRecovery b = new_budget (ab_timeoutMs b)"
  by (simp add: recordRecovery_def new_budget_def)

lemma recordFailure_state:
  "ab_timeoutMs (snd (recordFailure now b)) = ab_timeoutMs b"
  "ab_firstFailureAt (snd (recordFailure now b)) = Some (or_else (ab_firstFailureAt b) now)"
  "ab_reported (snd (recordFailure now b)) \<longleftrightarrow>
     ab_reported b \<or> ab_timeoutMs b \<le> max 0 (now - or_else (ab_firstFailureAt b) now)"
  "ad_fatal (fst (recordFailure now b)) \<longleftrightarrow>
     \<not> ab_reported b \<and> ab_timeoutMs b \<le> max 0 (now - or_else (ab_firstFailureAt b) now)"
  by (auto simp: recordFailure_def Let_def)

lemma budget_after:
  "ab_timeoutMs (after recordFailure ts (new_budget T)) = T \<and>
   ab_firstFailureAt (after recordFailure ts (new_budget T)) = (if ts = [] then None else Some (hd ts)) \<and>
   (ab_reported (after recordFailure ts (new_budget T)) \<longleftrightarrow> (\<exists>t \<in> set ts. T \<le> max 0 (t - hd ts)))"
  by (induction ts rule: rev_induct) (auto simp: after_snoc recordFailure_state)

text \<open>
  Of the authentication failures since a start or a recovery, exactly
  the first one that comes at least the timeout after the first failure is fatal.
\<close>

theorem auth_budget_exact:
  assumes "b = new_budget timeoutMs \<or> b = recordRecovery b'" and "ab_timeoutMs b = timeoutMs"
    and "i < length failures"
  shows "ad_fatal (outputs recordFailure failures b ! i) \<longleftrightarrow>
      timeoutMs \<le> max 0 (failures ! i - failures ! 0)
      \<and> (\<forall>j<i. max 0 (failures ! j - failures ! 0) < timeoutMs)"
proof -
  from assms(1,2) have b: "b = new_budget timeoutMs"
    by (auto simp: recordRecovery_def new_budget_def)
  have hd: "take i failures \<noteq> [] \<Longrightarrow> hd (take i failures) = failures ! 0"
    by (simp add: hd_conv_nth)
  show ?thesis
  proof (cases "i = 0")
    case True
    then show ?thesis using assms(3) by (simp add: b nth_outputs recordFailure_state)
  next
    case False
    have "(\<exists>t \<in> set (take i failures). P t) \<longleftrightarrow> (\<exists>j<i. P (failures ! j))" for P
      using assms(3) by (subst nth_image[symmetric]) auto
    with False assms(3) hd budget_after[of "take i failures" timeoutMs] show ?thesis
      by (simp add: b nth_outputs recordFailure_state not_le) (auto simp: not_le)
  qed
qed

theorem auth_budget_exact_witness:
  "ad_fatal (outputs recordFailure [1000, 200000, 301000, 400000] (new_budget 300000) ! 2)"
proof -
  have "\<forall>j<2. max 0 ([1000, 200000, 301000, 400000] ! j - [1000, 200000, 301000, 400000] ! 0) < (300000::int)"
    by (simp add: less_Suc_eq numeral_2_eq_2)
  then show ?thesis
    using auth_budget_exact[of "new_budget 300000" 300000 "new_budget 300000" 2 "[1000, 200000, 301000, 400000]"]
    by simp
qed

section \<open>Sustained use of the processor\<close>

lemma new_tracker_simps [simp]:
  "rk_highCpuPercent (new_tracker h l) = h" "rk_consecutiveLimit (new_tracker h l) = l"
  "rk_consecutiveHighCpuSamples (new_tracker h l) = 0" "\<not> rk_reported (new_tracker h l)"
  by (simp_all add: new_tracker_def)

lemma record_sample_state:
  "rk_highCpuPercent (snd (record_sample x k)) = rk_highCpuPercent k"
  "rk_consecutiveLimit (snd (record_sample x k)) = rk_consecutiveLimit k"
  "rk_consecutiveHighCpuSamples (snd (record_sample x k)) =
     (if rk_highCpuPercent k \<le> ru_cpuPercent x then Suc (rk_consecutiveHighCpuSamples k) else 0)"
  "rk_reported (snd (record_sample x k)) \<longleftrightarrow>
     rk_reported k \<or> rk_consecutiveLimit k \<le> rk_consecutiveHighCpuSamples (snd (record_sample x k))"
  "ru_fatal (fst (record_sample x k)) \<longleftrightarrow>
     \<not> rk_reported k \<and> rk_consecutiveLimit k \<le> rk_consecutiveHighCpuSamples (snd (record_sample x k))"
  by (auto simp: record_sample_def Let_def)

abbreviation high_run :: "'n::linorder \<Rightarrow> 'n ResourceUsageSample list \<Rightarrow> nat" where
  "high_run h xs \<equiv> trailing (\<lambda>x. h \<le> ru_cpuPercent x) xs"

lemma tracker_after:
  "rk_highCpuPercent (after record_sample xs (new_tracker h l)) = h \<and>
   rk_consecutiveLimit (after record_sample xs (new_tracker h l)) = l \<and>
   rk_consecutiveHighCpuSamples (after record_sample xs (new_tracker h l)) = high_run h xs \<and>
   (rk_reported (after record_sample xs (new_tracker h l)) \<longleftrightarrow> (\<exists>j<length xs. l \<le> high_run h (take (Suc j) xs)))"
proof (induction xs rule: rev_induct)
  case (snoc x xs)
  have "(\<exists>j<Suc n. P j) \<longleftrightarrow> (\<exists>j<n. P j) \<or> P n" for P and n :: nat by (auto simp: less_Suc_eq)
  moreover have "(\<exists>j<length xs. l \<le> high_run h (take (Suc j) (xs @ [x]))) \<longleftrightarrow>
      (\<exists>j<length xs. l \<le> high_run h (take (Suc j) xs))"
    by (intro ex_cong) simp
  ultimately show ?case using snoc.IH by (simp add: after_snoc record_sample_state del: take_append)
qed simp

text \<open>
  Sustained use of the processor is reported at the first sample that
  completes a run of the given number of consecutive high samples, and at no other.
\<close>

theorem cpu_report_exact:
  assumes "i < length samples"
  shows "ru_fatal (outputs record_sample samples (new_tracker highCpu limit) ! i) \<longleftrightarrow>
      limit \<le> high_run highCpu (take (Suc i) samples)
      \<and> (\<forall>j<i. high_run highCpu (take (Suc j) samples) < limit)"
proof -
  have "take (Suc i) samples = take i samples @ [samples ! i]"
    using assms by (simp add: take_Suc_conv_app_nth)
  moreover have "j < i \<Longrightarrow> take (Suc j) (take i samples) = take (Suc j) samples" for j
    by (simp add: min_def)
  ultimately show ?thesis
    using assms tracker_after[of "take i samples" highCpu limit]
    by (auto simp: nth_outputs record_sample_state not_le)
qed

theorem cpu_report_exact_witness:
  "ru_fatal (outputs record_sample (replicate 3 \<lparr>ru_cpuPercent = 95, ru_rssBytes = 1\<rparr>) (new_tracker (80::int) 3) ! 2)"
proof -
  have "\<forall>j<2. high_run 80 (take (Suc j) (replicate 3 \<lparr>ru_cpuPercent = 95, ru_rssBytes = 1\<rparr>)) < 3"
    by (simp add: less_Suc_eq numeral_2_eq_2 numeral_3_eq_3 trailing_def)
  then show ?thesis
    using cpu_report_exact[of 2 "replicate 3 \<lparr>ru_cpuPercent = 95, ru_rssBytes = 1\<rparr>" "80::int" 3]
    by (simp add: trailing_def numeral_3_eq_3)
qed

section \<open>Killing a stalled process\<close>

lemma worker_tick_state:
  assumes "w' = snd (worker_tick x w)"
    and "quiet = (snd x = ww_lastCounter w
      \<and> fst x - ww_lastCheckAt w < max (ww_stallTimeoutMs w) (ww_checkIntervalMs w * 4))"
  shows "ww_checkIntervalMs w' = ww_checkIntervalMs w" "ww_stallTimeoutMs w' = ww_stallTimeoutMs w"
    "ww_lastCheckAt w' = fst x"
    "ww_lastCounter w' = snd x"
    "ww_lastProgressAt w' = (if quiet then ww_lastProgressAt w else fst x)"
    "fst (worker_tick x w) = (if quiet \<and> \<not> ww_terminating w \<and> ww_stallTimeoutMs w \<le> fst x - ww_lastProgressAt w
       then Some (fst x - ww_lastProgressAt w) else None)"
    "ww_terminating w' \<longleftrightarrow> ww_terminating w \<or> fst (worker_tick x w) \<noteq> None"
  using assms by (auto simp: worker_tick_def classifyWatchdogObservation_def Let_def not_le)

text \<open>
  The ticks of a worker that started at \<open>x0\<close>: \<open>m\<close> is the last one that saw progress or
  woke up from a suspension.
\<close>

definition no_progress :: "int \<Rightarrow> (time \<times> int) list \<Rightarrow> nat \<Rightarrow> nat \<Rightarrow> bool" where
  "no_progress limit seen m n = (\<forall>k. m \<le> k \<and> k < n \<longrightarrow>
     snd (seen ! Suc k) = snd (seen ! m) \<and> fst (seen ! Suc k) - fst (seen ! k) < limit)"

lemma nth_Cons_prefix: "k \<le> length xs \<Longrightarrow> (x # xs @ ys) ! k = (x # xs) ! k"
  by (cases k) (auto simp: nth_append)

lemma no_progress_prefix:
  assumes "m \<le> n" "n \<le> length xs"
  shows "no_progress lim (x # xs @ ys) m n \<longleftrightarrow> no_progress lim (x # xs) m n"
proof -
  have "(x # xs @ ys) ! k = (x # xs) ! k" if "k \<le> n" for k
    using that assms(2) by (simp add: nth_Cons_prefix)
  then show ?thesis
    unfolding no_progress_def using assms(1) by (metis Suc_leI less_imp_le)
qed

lemma no_progress_Suc:
  assumes "m \<le> n"
  shows "no_progress lim s m (Suc n) \<longleftrightarrow> no_progress lim s m n
     \<and> snd (s ! Suc n) = snd (s ! m) \<and> fst (s ! Suc n) - fst (s ! n) < lim"
  unfolding no_progress_def using assms by (auto simp: less_Suc_eq)

lemma worker_after:
  assumes "w = after worker_tick xs (start_worker ci st (snd x0) (fst x0))"
  shows "ww_checkIntervalMs w = ci \<and> ww_stallTimeoutMs w = st \<and> ww_lastCheckAt w = fst ((x0 # xs) ! length xs) \<and>
    (\<exists>m \<le> length xs. ww_lastCounter w = snd ((x0 # xs) ! m) \<and> ww_lastProgressAt w = fst ((x0 # xs) ! m)
       \<and> no_progress (max st (ci * 4)) (x0 # xs) m (length xs))"
  using assms
proof (induction xs arbitrary: w rule: rev_induct)
  case Nil
  then show ?case by (simp add: start_worker_def no_progress_def)
next
  case (snoc x xs)
  let ?w = "after worker_tick xs (start_worker ci st (snd x0) (fst x0))"
  let ?s = "x0 # xs @ [x]"
  note IH = snoc.IH[OF refl]
  from snoc.prems have w: "w = snd (worker_tick x ?w)" by (simp add: after_snoc)
  note st = worker_tick_state[OF w refl]
  show ?case
  proof (cases "snd x = ww_lastCounter ?w \<and> fst x - ww_lastCheckAt ?w < max (ww_stallTimeoutMs ?w) (ww_checkIntervalMs ?w * 4)")
    case False
    then show ?thesis using IH st by (intro conjI exI[of _ "Suc (length xs)"]) (auto simp: no_progress_def)
  next
    case True
    from IH obtain m where m: "m \<le> length xs" "ww_lastCounter ?w = snd ((x0 # xs) ! m)"
      "ww_lastProgressAt ?w = fst ((x0 # xs) ! m)" "no_progress (max st (ci * 4)) (x0 # xs) m (length xs)"
      by auto
    with True IH have "no_progress (max st (ci * 4)) ?s m (Suc (length xs))"
      by (simp add: no_progress_Suc no_progress_prefix nth_Cons_prefix)
    with True m IH st show ?thesis
      by (intro conjI exI[of _ m]) (auto simp: nth_Cons_prefix)
  qed
qed

text \<open>
  The watchdog kills the process at a tick only when the main
  loop's counter has not moved since an earlier tick, at least the stall timeout before, and
  the worker itself has been running all the time between (no gap of a suspension). It says
  so with the length of the stall.
\<close>

theorem watchdog_kills_only_stalled:
  assumes "i < length ticks"
    and "outputs worker_tick ticks (start_worker checkInterval stallTimeout counter started) ! i = Some stallMs"
  shows "\<exists>m \<le> i. (let seen = (started, counter) # ticks in
    stallMs = fst (seen ! Suc i) - fst (seen ! m) \<and> stallTimeout \<le> stallMs
    \<and> (\<forall>k. m \<le> k \<and> k \<le> i \<longrightarrow> snd (seen ! Suc k) = snd (seen ! m)
         \<and> fst (seen ! Suc k) - fst (seen ! k) < max stallTimeout (checkInterval * 4)))"
proof -
  let ?x0 = "(started, counter)"
  let ?w = "after worker_tick (take i ticks) (start_worker checkInterval stallTimeout counter started)"
  let ?lim = "max stallTimeout (checkInterval * 4)"
  from assms have kill: "fst (worker_tick (ticks ! i) ?w) = Some stallMs"
    by (simp add: nth_outputs)
  have old: "k \<le> i \<Longrightarrow> (?x0 # take i ticks) ! k = (?x0 # ticks) ! k" for k
    by (cases k) auto
  from worker_after[of ?w "take i ticks" checkInterval stallTimeout ?x0] assms(1)
  obtain m where m: "m \<le> i" "ww_lastCounter ?w = snd ((?x0 # ticks) ! m)"
      "ww_lastProgressAt ?w = fst ((?x0 # ticks) ! m)" "no_progress ?lim (?x0 # take i ticks) m i"
      "ww_checkIntervalMs ?w = checkInterval" "ww_stallTimeoutMs ?w = stallTimeout"
      "ww_lastCheckAt ?w = fst ((?x0 # ticks) ! i)"
    by (auto simp: old)
  note tick = worker_tick_state(6)[OF refl refl, of "ticks ! i" ?w]
  have "snd ((?x0 # ticks) ! Suc k) = snd ((?x0 # ticks) ! m)
      \<and> fst ((?x0 # ticks) ! Suc k) - fst ((?x0 # ticks) ! k) < ?lim" if k: "m \<le> k" "k \<le> i" for k
  proof (cases "k = i")
    case True
    with kill tick m show ?thesis by (auto split: if_splits)
  next
    case False
    with k have "k < i" by simp
    moreover have "no_progress ?lim (?x0 # ticks) m i"
      using m(4) no_progress_prefix[OF m(1), of "take i ticks" ?lim ?x0 "drop i ticks"] assms(1) by simp
    ultimately show ?thesis using k(1) by (simp add: no_progress_def)
  qed
  with kill tick m show ?thesis
    by (intro exI[of _ m]) (auto simp: Let_def split: if_splits)
qed

theorem watchdog_kills_only_stalled_witness:
  "outputs worker_tick [(5000, 1), (10000, 1), (130000, 1)] (start_worker 60000 120000 0 0) ! 2 = Some 125000
   \<and> (\<exists>m\<le>2. fst (((0, 0) # [(5000, 1), (10000, 1), (130000, 1)]) ! m) = (5000::int))"
proof -
  have *: "outputs worker_tick [(5000, 1), (10000, 1), (130000, 1)] (start_worker 60000 120000 0 0) ! 2 = Some 125000"
    by (simp add: worker_tick_def start_worker_def classifyWatchdogObservation_def)
  from watchdog_kills_only_stalled[OF _ this] show ?thesis
    using * by (auto simp: Let_def numeral_3_eq_3 numeral_2_eq_2 intro!: exI[of _ "Suc 0"])
qed

lemma stalled_after:
  assumes "\<forall>x \<in> set xs. snd x = c" "no_progress (max st (ci * 4)) ((t0, c) # xs) 0 (length xs)"
  shows "ww_lastCounter (after worker_tick xs (start_worker ci st c t0)) = c
    \<and> ww_lastProgressAt (after worker_tick xs (start_worker ci st c t0)) = t0"
  using assms
proof (induction xs rule: rev_induct)
  case Nil
  show ?case by (simp add: start_worker_def)
next
  case (snoc x xs)
  let ?w = "after worker_tick xs (start_worker ci st c t0)"
  have "no_progress (max st (ci * 4)) ((t0, c) # xs) 0 (length xs)"
      "fst x - fst (((t0, c) # xs) ! length xs) < max st (ci * 4)"
    using snoc.prems(2) by (simp_all add: no_progress_Suc no_progress_prefix nth_Cons_prefix)
  with snoc have IH: "ww_lastCounter ?w = c \<and> ww_lastProgressAt ?w = t0"
    and gap: "fst x - fst (((t0, c) # xs) ! length xs) < max st (ci * 4)" by simp_all
  from gap worker_after[of ?w xs ci st "(t0, c)"]
  have "fst x - ww_lastCheckAt ?w < max (ww_stallTimeoutMs ?w) (ww_checkIntervalMs ?w * 4)" by simp
  with IH worker_tick_state[OF refl refl, of x ?w] snoc.prems(1) show ?case
    by (simp add: after_snoc)
qed

lemma terminating_reported:
  assumes "ww_terminating (after worker_tick ys w)" "\<not> ww_terminating w"
  shows "filter (\<lambda>o'. o' \<noteq> None) (outputs worker_tick ys w) \<noteq> []"
  using assms
proof (induction ys arbitrary: w)
  case (Cons y ys)
  then show ?case
    using worker_tick_state(7)[OF refl refl, of y w] by (cases "fst (worker_tick y w) = None") simp_all
qed simp

text \<open>
  When the main loop never advances its counter and the worker keeps
  ticking without the gap of a suspension until the stall timeout has passed, the process is
  killed, exactly once.
\<close>

theorem watchdog_kills_stalled:
  assumes "ticks \<noteq> []" "\<forall>x \<in> set ticks. snd x = counter" "stallTimeout \<le> fst (last ticks) - started"
    and "\<forall>k < length ticks. fst (ticks ! k) - fst (((started, counter) # ticks) ! k) < max stallTimeout (checkInterval * 4)"
  shows "length (filter (\<lambda>o'. o' \<noteq> None)
           (outputs worker_tick ticks (start_worker checkInterval stallTimeout counter started))) = 1"
proof -
  let ?w0 = "start_worker checkInterval stallTimeout counter started"
  from assms(1) obtain xs x where ticks: "ticks = xs @ [x]" by (metis append_butlast_last_id)
  have "no_progress (max stallTimeout (checkInterval * 4)) ((started, counter) # ticks) 0 (length ticks)"
    using assms(2,4) by (simp add: no_progress_def)
  then have np': "no_progress (max stallTimeout (checkInterval * 4)) ((started, counter) # xs) 0 (length xs)"
    by (simp add: ticks no_progress_Suc no_progress_prefix)
  have st: "ww_lastCounter (after worker_tick xs ?w0) = counter \<and> ww_lastProgressAt (after worker_tick xs ?w0) = started"
    by (rule stalled_after[OF _ np']) (use assms(2) in \<open>auto simp: ticks\<close>)
  have "fst x - ww_lastCheckAt (after worker_tick xs ?w0) < max stallTimeout (checkInterval * 4)"
    using worker_after[of _ xs checkInterval stallTimeout "(started, counter)"] assms(4)[rule_format, of "length xs"]
    by (cases "length xs") (auto simp: ticks nth_append)
  with st assms worker_after[of "after worker_tick xs ?w0" xs checkInterval stallTimeout "(started, counter)"]
    worker_tick_state(6)[OF refl refl, of x "after worker_tick xs ?w0"]
  have "ww_terminating (after worker_tick xs ?w0) \<or> fst (worker_tick x (after worker_tick xs ?w0)) \<noteq> None"
    by (simp add: ticks)
  then have down: "ww_terminating (after worker_tick ticks ?w0)"
    using worker_tick_state(7)[OF refl refl, of x "after worker_tick xs ?w0"] by (simp add: ticks after_snoc)
  have "filter (\<lambda>o'. o' \<noteq> None) (outputs worker_tick ticks ?w0) \<noteq> []"
    by (rule terminating_reported[OF down]) (simp add: start_worker_def)
  with kill_latch.fires_once[of ticks ?w0] show ?thesis
    by (metis One_nat_def le_neq_implies_less length_0_conv less_one)
qed

theorem watchdog_kills_stalled_witness:
  "length (filter (\<lambda>o'. o' \<noteq> None)
     (outputs worker_tick [(50000, 0), (100000, 0), (150000, 0), (200000, 0)] (start_worker 50000 120000 0 0))) = 1"
  by (rule watchdog_kills_stalled) (auto simp: less_Suc_eq nth_Cons')

end
