(* ===== verification/Mcp_Grants.thy ===== *)
theory Mcp_Grants
  imports Zod
begin

text \<open>
  Remote tool servers granted to a collaborator
  (\<^verbatim>\<open>src/security/mcp-capability-grant.ts\<close>): the schema of a grant, the canonical form,
  and the configuration text rendered for the Codex runtime. \<^verbatim>\<open>new URL\<close> and
  \<^verbatim>\<open>localeCompare\<close> are arguments: \<open>parse_url\<close> answers the parts of a URL or \<open>None\<close>, and
  \<open>le a b\<close> is \<^verbatim>\<open>a.localeCompare(b) <= 0\<close>.
\<close>

record URL =
  u_protocol :: string
  u_hostname :: string
  u_username :: string
  u_password :: string
  u_search :: string
  u_hash :: string

record RemoteMcpGrant =
  mg_name :: string
  mg_url :: string
  mg_enabledTools :: "string list"
  mg_bearerTokenEnvVar :: "string option"
  mg_startupTimeoutSec :: int
  mg_toolTimeoutSec :: int

section \<open>Names\<close>

definition in_chars :: "char \<Rightarrow> char \<Rightarrow> char \<Rightarrow> bool" where
  "in_chars lo hi c = ((of_char lo :: nat) \<le> of_char c \<and> (of_char c :: nat) \<le> of_char hi)"

definition alnum :: "char \<Rightarrow> bool" where
  "alnum c = (in_chars CHR ''A'' CHR ''Z'' c \<or> in_chars CHR ''a'' CHR ''z'' c \<or> is_digit c)"

definition MCP_NAME :: "string \<Rightarrow> bool" where
  "MCP_NAME s = (1 \<le> length s \<and> length s \<le> 64 \<and> list_all (\<lambda>c. alnum c \<or> c \<in> {CHR ''_'', CHR ''-''}) s)"

definition MCP_TOOL_NAME :: "string \<Rightarrow> bool" where
  "MCP_TOOL_NAME s = (1 \<le> length s \<and> length s \<le> 128
     \<and> list_all (\<lambda>c. alnum c \<or> c \<in> {CHR ''_'', CHR ''.'', CHR '':'', CHR ''/'', CHR ''-''}) s)"

definition ENVIRONMENT_NAME :: "string \<Rightarrow> bool" where
  "ENVIRONMENT_NAME s = (1 \<le> length s \<and> length s \<le> 128
     \<and> (alnum (hd s) \<and> \<not> is_digit (hd s) \<or> hd s = CHR ''_'')
     \<and> list_all (\<lambda>c. alnum c \<or> c = CHR ''_'') (tl s))"

section \<open>The schema\<close>

definition url_allowed :: "URL \<Rightarrow> bool" where
  "url_allowed endpoint =
     (let loopback = u_hostname endpoint = ''localhost'' \<or> u_hostname endpoint = ''127.0.0.1''
            \<or> u_hostname endpoint = ''[::1]''
      in (u_protocol endpoint = ''https:'' \<or> (u_protocol endpoint = ''http:'' \<and> loopback))
         \<and> u_username endpoint = [] \<and> u_password endpoint = [] \<and> u_search endpoint = [] \<and> u_hash endpoint = [])"

definition z_trimmed :: "nat \<Rightarrow> nat \<Rightarrow> json \<Rightarrow> string option" where
  "z_trimmed least most j = (case j of JStr s \<Rightarrow>
       (if least \<le> length (trim s) \<and> length (trim s) \<le> most then Some (trim s) else None) | _ \<Rightarrow> None)"

definition remoteMcpGrantSchema :: "(string \<Rightarrow> URL option) \<Rightarrow> json \<Rightarrow> RemoteMcpGrant option" where
  "remoteMcpGrantSchema parse_url j =
     (if \<not> strict [''name'', ''url'', ''enabledTools'', ''bearerTokenEnvVar'', ''startupTimeoutSec'', ''toolTimeoutSec''] j
      then None else
      case (required (z_string_that MCP_NAME) ''name'' j, required (z_trimmed 1 2048) ''url'' j,
            required (z_list (z_string_that MCP_TOOL_NAME)) ''enabledTools'' j,
            optional (z_string_that ENVIRONMENT_NAME) ''bearerTokenEnvVar'' j,
            with_default 10 (z_int (\<lambda>n. 1 \<le> n \<and> n \<le> 30)) ''startupTimeoutSec'' j,
            with_default 60 (z_int (\<lambda>n. 1 \<le> n \<and> n \<le> 120)) ''toolTimeoutSec'' j) of
        (Some n, Some u, Some ts, Some b, Some s, Some t) \<Rightarrow>
          (if 1 \<le> length ts \<and> length ts \<le> 64
              \<and> (case parse_url u of None \<Rightarrow> False | Some endpoint \<Rightarrow> url_allowed endpoint)
           then Some \<lparr>mg_name = n, mg_url = u, mg_enabledTools = ts, mg_bearerTokenEnvVar = b,
                      mg_startupTimeoutSec = s, mg_toolTimeoutSec = t\<rparr>
           else None)
      | _ \<Rightarrow> None)"

definition remoteMcpGrantsSchema :: "(string \<Rightarrow> URL option) \<Rightarrow> json \<Rightarrow> RemoteMcpGrant list option" where
  "remoteMcpGrantsSchema parse_url j =
     (case z_list (remoteMcpGrantSchema parse_url) j of
        None \<Rightarrow> None
      | Some gs \<Rightarrow> if length gs \<le> 16 \<and> distinct (map mg_name gs) then Some gs else None)"

section \<open>The canonical form\<close>

text \<open>\<^verbatim>\<open>Array.prototype.sort\<close> with a comparison: stable.\<close>

fun insert_by :: "('a \<Rightarrow> 'a \<Rightarrow> bool) \<Rightarrow> 'a \<Rightarrow> 'a list \<Rightarrow> 'a list" where
  "insert_by le x [] = [x]"
| "insert_by le x (y # ys) = (if le x y then x # y # ys else y # insert_by le x ys)"

definition sort_by :: "('a \<Rightarrow> 'a \<Rightarrow> bool) \<Rightarrow> 'a list \<Rightarrow> 'a list" where
  "sort_by le xs = foldr (insert_by le) xs []"

definition canonical_tools :: "RemoteMcpGrant \<Rightarrow> RemoteMcpGrant" where
  "canonical_tools g = g\<lparr>mg_enabledTools := sort (js_set (mg_enabledTools g))\<rparr>"

definition parseRemoteMcpGrants ::
    "(string \<Rightarrow> URL option) \<Rightarrow> (string \<Rightarrow> string \<Rightarrow> bool) \<Rightarrow> json \<Rightarrow> RemoteMcpGrant list option" where
  "parseRemoteMcpGrants parse_url le value =
     map_option (\<lambda>gs. sort_by (\<lambda>l r. le (mg_name l) (mg_name r)) (map canonical_tools gs))
       (remoteMcpGrantsSchema parse_url value)"

text \<open>A grant as it is written and sent.\<close>

definition grant_json :: "RemoteMcpGrant \<Rightarrow> json" where
  "grant_json g = JObj ([(''name'', JStr (mg_name g)), (''url'', JStr (mg_url g)),
       (''enabledTools'', JArr (map JStr (mg_enabledTools g)))]
     @ opt_field ''bearerTokenEnvVar'' JStr (mg_bearerTokenEnvVar g)
     @ [(''startupTimeoutSec'', JNum (mg_startupTimeoutSec g)), (''toolTimeoutSec'', JNum (mg_toolTimeoutSec g))])"

definition grants_json :: "RemoteMcpGrant list \<Rightarrow> json" where
  "grants_json gs = JArr (map grant_json gs)"

section \<open>The rendered configuration\<close>

definition tomlArray :: "string list \<Rightarrow> string" where
  "tomlArray values = ''['' @ join '', '' (map json_string values) @ '']''"

definition grant_lines :: "RemoteMcpGrant \<Rightarrow> string list" where
  "grant_lines g =
     [''[mcp_servers.'' @ json_string (mg_name g) @ '']'', ''url = '' @ json_string (mg_url g)]
     @ (case keep_truthy (mg_bearerTokenEnvVar g) of None \<Rightarrow> []
        | Some v \<Rightarrow> [''bearer_token_env_var = '' @ json_string v])
     @ [''enabled_tools = '' @ tomlArray (mg_enabledTools g),
        ''default_tools_approval_mode = '' @ json_string ''prompt'',
        ''startup_timeout_sec = '' @ dec_int (mg_startupTimeoutSec g),
        ''tool_timeout_sec = '' @ dec_int (mg_toolTimeoutSec g),
        ''enabled = true'', ''required = false'', []]
     @ concat (map (\<lambda>tool.
         [''[mcp_servers.'' @ json_string (mg_name g) @ ''.tools.'' @ json_string tool @ '']'',
          ''approval_mode = '' @ json_string ''approve'', []]) (mg_enabledTools g))"

definition renderCodexRemoteMcpGrants ::
    "(string \<Rightarrow> URL option) \<Rightarrow> (string \<Rightarrow> string \<Rightarrow> bool) \<Rightarrow> json \<Rightarrow> string option" where
  "renderCodexRemoteMcpGrants parse_url le value =
     map_option (\<lambda>gs. join [CHR 0x0A] (concat (map grant_lines gs))) (parseRemoteMcpGrants parse_url le value)"

section \<open>Sorting by a comparison\<close>

lemma mem_insert_by [simp]: "set (insert_by le x ys) = insert x (set ys)"
  by (induction ys) auto

lemma length_insert_by [simp]: "length (insert_by le x ys) = Suc (length ys)"
  by (induction ys) auto

lemma set_sort_by [simp]: "set (sort_by le xs) = set xs"
  unfolding sort_by_def by (induction xs) auto

lemma length_sort_by [simp]: "length (sort_by le xs) = length xs"
  unfolding sort_by_def by (induction xs) auto

lemma distinct_insert_by: "distinct (map f (insert_by le x ys)) \<longleftrightarrow> f x \<notin> f ` set ys \<and> distinct (map f ys)"
  by (induction ys) auto

lemma distinct_sort_by [simp]: "distinct (map f (sort_by le xs)) \<longleftrightarrow> distinct (map f xs)"
  unfolding sort_by_def by (induction xs) (auto simp: distinct_insert_by simp flip: sort_by_def)

definition orders :: "('a \<Rightarrow> 'a \<Rightarrow> bool) \<Rightarrow> bool" where
  "orders le = ((\<forall>a b. le a b \<or> le b a) \<and> (\<forall>a b c. le a b \<longrightarrow> le b c \<longrightarrow> le a c))"

lemma sorted_insert_by: "orders le \<Longrightarrow> sorted_wrt le ys \<Longrightarrow> sorted_wrt le (insert_by le x ys)"
  unfolding orders_def by (induction ys) auto

lemma sorted_sort_by: "orders le \<Longrightarrow> sorted_wrt le (sort_by le xs)"
  unfolding sort_by_def by (induction xs) (auto intro: sorted_insert_by)

lemma insert_by_sorted: "sorted_wrt le (x # ys) \<Longrightarrow> insert_by le x ys = x # ys"
  by (cases ys) auto

lemma sort_by_sorted: "sorted_wrt le xs \<Longrightarrow> sort_by le xs = xs"
  unfolding sort_by_def by (induction xs) (auto simp: insert_by_sorted)

section \<open>Canonical grants\<close>

definition valid_grant :: "(string \<Rightarrow> URL option) \<Rightarrow> RemoteMcpGrant \<Rightarrow> bool" where
  "valid_grant parse_url g =
     (MCP_NAME (mg_name g) \<and> trim (mg_url g) = mg_url g \<and> mg_url g \<noteq> [] \<and> length (mg_url g) \<le> 2048
      \<and> (\<exists>u. parse_url (mg_url g) = Some u \<and> url_allowed u)
      \<and> mg_enabledTools g \<noteq> [] \<and> length (mg_enabledTools g) \<le> 64 \<and> list_all MCP_TOOL_NAME (mg_enabledTools g)
      \<and> (\<forall>v. mg_bearerTokenEnvVar g = Some v \<longrightarrow> ENVIRONMENT_NAME v)
      \<and> 1 \<le> mg_startupTimeoutSec g \<and> mg_startupTimeoutSec g \<le> 30
      \<and> 1 \<le> mg_toolTimeoutSec g \<and> mg_toolTimeoutSec g \<le> 120)"

definition canonical_grant :: "(string \<Rightarrow> URL option) \<Rightarrow> RemoteMcpGrant \<Rightarrow> bool" where
  "canonical_grant parse_url g =
     (valid_grant parse_url g \<and> distinct (mg_enabledTools g) \<and> sorted (mg_enabledTools g))"

definition canonical_grants :: "(string \<Rightarrow> URL option) \<Rightarrow> (string \<Rightarrow> string \<Rightarrow> bool) \<Rightarrow> RemoteMcpGrant list \<Rightarrow> bool" where
  "canonical_grants parse_url le gs =
     (length gs \<le> 16 \<and> distinct (map mg_name gs) \<and> (\<forall>g \<in> set gs. canonical_grant parse_url g)
      \<and> sorted_wrt (\<lambda>l r. le (mg_name l) (mg_name r)) gs)"

lemma length_js_set: "length (js_set xs) \<le> length xs"
  by (simp add: js_set_def) (metis length_remdups_leq length_rev)

lemma z_trimmed_Some: "z_trimmed l m j = Some s \<longleftrightarrow> (\<exists>r. j = JStr r \<and> s = trim r \<and> l \<le> length s \<and> length s \<le> m)"
  by (auto simp: z_trimmed_def split: json.splits)

lemma z_list_that: "z_list (z_string_that Q) j = Some ts \<Longrightarrow> list_all Q ts"
  by (auto simp: z_list_Some list_all_iff z_string_that_Some dest: z_array_all[where P = Q])

lemma schema_grant:
  assumes "remoteMcpGrantSchema parse_url j = Some g"
  shows "valid_grant parse_url g \<and> canonical_grant parse_url (canonical_tools g)"
proof -
  from assms obtain n u ts b s t where
    parts: "required (z_string_that MCP_NAME) ''name'' j = Some n" "required (z_trimmed 1 2048) ''url'' j = Some u"
      "required (z_list (z_string_that MCP_TOOL_NAME)) ''enabledTools'' j = Some ts"
      "optional (z_string_that ENVIRONMENT_NAME) ''bearerTokenEnvVar'' j = Some b"
      "with_default 10 (z_int (\<lambda>n. 1 \<le> n \<and> n \<le> 30)) ''startupTimeoutSec'' j = Some s"
      "with_default 60 (z_int (\<lambda>n. 1 \<le> n \<and> n \<le> 120)) ''toolTimeoutSec'' j = Some t"
    and rest: "1 \<le> length ts" "length ts \<le> 64" "\<exists>e. parse_url u = Some e \<and> url_allowed e"
    and g: "g = \<lparr>mg_name = n, mg_url = u, mg_enabledTools = ts, mg_bearerTokenEnvVar = b,
                  mg_startupTimeoutSec = s, mg_toolTimeoutSec = t\<rparr>"
    by (auto simp: remoteMcpGrantSchema_def split: if_splits option.splits)
  from parts have "MCP_NAME n" "trim u = u" "u \<noteq> []" "length u \<le> 2048" "list_all MCP_TOOL_NAME ts"
    "\<forall>v. b = Some v \<longrightarrow> ENVIRONMENT_NAME v" "1 \<le> s \<and> s \<le> 30" "1 \<le> t \<and> t \<le> 120"
    by (auto simp: required_Some optional_Some with_default_Some z_string_that_Some z_trimmed_Some z_int_Some
        dest: z_list_that)
  moreover have "sort (js_set ts) \<noteq> []"
    using rest(1) by (metis One_nat_def list.set(1) list.size(3) not_one_le_zero set_empty set_js_set set_sort)
  ultimately show ?thesis
    using rest length_js_set[of ts] by (auto simp: canonical_grant_def valid_grant_def canonical_tools_def g list_all_iff)
qed

lemma parse_canonical:
  assumes "orders le" "parseRemoteMcpGrants parse_url le v = Some gs"
  shows "canonical_grants parse_url le gs"
proof -
  let ?le = "\<lambda>l r. le (mg_name l) (mg_name r)"
  from assms(2) obtain hs where hs: "remoteMcpGrantsSchema parse_url v = Some hs"
      "gs = sort_by ?le (map canonical_tools hs)"
    by (auto simp: parseRemoteMcpGrants_def)
  then have "length hs \<le> 16" "distinct (map mg_name hs)"
      "\<forall>g \<in> set hs. canonical_grant parse_url (canonical_tools g)"
    by (auto simp: remoteMcpGrantsSchema_def z_list_def split: option.splits if_splits json.splits
        dest: z_array_all[OF _ schema_grant])
  moreover have "mg_name \<circ> canonical_tools = mg_name" by (auto simp: canonical_tools_def)
  moreover have "orders ?le" using assms(1) unfolding orders_def by blast
  then have "sorted_wrt ?le gs" unfolding hs(2) by (rule sorted_sort_by)
  ultimately show ?thesis
    by (auto simp: canonical_grants_def hs(2))
qed

lemma schema_of_grant_json:
  assumes "valid_grant parse_url g"
  shows "remoteMcpGrantSchema parse_url (grant_json g) = Some g"
proof -
  have *: "z_list (z_string_that Q) (JArr (map JStr ts)) = Some ts" if "list_all Q ts" for Q ts
    using that by (induction ts) (auto simp: z_list_def z_string_that_def)
  show ?thesis
    using assms *[of MCP_TOOL_NAME "mg_enabledTools g"]
    by (cases "mg_bearerTokenEnvVar g"; cases "mg_enabledTools g")
      (auto simp: remoteMcpGrantSchema_def grant_json_def valid_grant_def strict_def required_def
        optional_def with_default_def opt_field_def z_trimmed_def z_string_that_def z_int_def
        Suc_le_eq)
qed

lemma canonical_tools_id: "canonical_grant parse_url g \<Longrightarrow> canonical_tools g = g"
  by (simp add: canonical_tools_def canonical_grant_def js_set_def distinct_remdups_id sorted_sort_id)

definition valid_grants :: "(string \<Rightarrow> URL option) \<Rightarrow> RemoteMcpGrant list \<Rightarrow> bool" where
  "valid_grants parse_url gs =
     (length gs \<le> 16 \<and> distinct (map mg_name gs) \<and> (\<forall>g \<in> set gs. valid_grant parse_url g))"

lemma schema_valid: "remoteMcpGrantsSchema parse_url v = Some gs \<Longrightarrow> valid_grants parse_url gs"
  by (auto simp: remoteMcpGrantsSchema_def z_list_def valid_grants_def split: option.splits if_splits json.splits
      dest: z_array_all[OF _ schema_grant])

lemma schema_of_grants_json:
  "valid_grants parse_url gs \<Longrightarrow> remoteMcpGrantsSchema parse_url (grants_json gs) = Some gs"
  by (simp add: remoteMcpGrantsSchema_def z_list_def grants_json_def valid_grants_def
      z_array_map[of gs _ grant_json] schema_of_grant_json)

lemma canonical_valid: "canonical_grants parse_url le gs \<Longrightarrow> valid_grants parse_url gs"
  by (auto simp: canonical_grants_def valid_grants_def canonical_grant_def)

lemma parse_of_grants_json:
  assumes "canonical_grants parse_url le gs"
  shows "parseRemoteMcpGrants parse_url le (grants_json gs) = Some gs"
proof -
  have "map canonical_tools gs = gs"
    using assms by (intro map_idI) (auto simp: canonical_grants_def canonical_tools_id)
  then show ?thesis
    using assms schema_of_grants_json[OF canonical_valid[OF assms]]
    by (simp add: parseRemoteMcpGrants_def canonical_grants_def sort_by_sorted)
qed

end
