(* ===== verification/Access.thy ===== *)
theory Access
  imports Prelude
begin

text \<open>
  Access presets (\<^verbatim>\<open>src/security/relationship-access.ts\<close>). A preset is an element of a
  linear order, by what it lets a collaborator do; the functions of the source are the
  comparison, the maximum and the tools of that order.
\<close>

datatype RelationshipAccessPreset = Chat_only | Read_project | Edit_project

definition RELATIONSHIP_ACCESS_PRESETS :: "(string \<times> RelationshipAccessPreset) list" where
  "RELATIONSHIP_ACCESS_PRESETS =
     [(''chat-only'', Chat_only), (''read-project'', Read_project), (''edit-project'', Edit_project)]"

fun preset_text :: "RelationshipAccessPreset \<Rightarrow> string" where
  "preset_text Chat_only = ''chat-only''"
| "preset_text Read_project = ''read-project''"
| "preset_text Edit_project = ''edit-project''"

fun PRESET_TOOLS :: "RelationshipAccessPreset \<Rightarrow> string list" where
  "PRESET_TOOLS Chat_only = []"
| "PRESET_TOOLS Read_project = [''Read'', ''Glob'', ''Grep'', ''GitStatus'', ''GitDiff'', ''GitLog'']"
| "PRESET_TOOLS Edit_project =
     [''Read'', ''Glob'', ''Grep'', ''Write'', ''Edit'', ''NotebookEdit'',
      ''GitStatus'', ''GitDiff'', ''GitLog'', ''GitAdd'', ''GitCommit'']"

definition isRelationshipAccessPreset :: "string \<Rightarrow> bool" where
  "isRelationshipAccessPreset value = (value \<in> set (map fst RELATIONSHIP_ACCESS_PRESETS))"

definition isFileAccessPreset :: "string \<Rightarrow> bool" where
  "isFileAccessPreset value = (value = ''read-project'' \<or> value = ''edit-project'')"

definition accessPresetSatisfies :: "RelationshipAccessPreset \<Rightarrow> RelationshipAccessPreset \<Rightarrow> bool" where
  "accessPresetSatisfies approved required =
     (if required = Chat_only then True else approved = Edit_project \<or> approved = required)"

definition accessPresetAllowsTool :: "RelationshipAccessPreset \<Rightarrow> string \<Rightarrow> bool" where
  "accessPresetAllowsTool preset tool = (tool \<in> set (PRESET_TOOLS preset))"

definition accessPresetForTool :: "string \<Rightarrow> RelationshipAccessPreset option" where
  "accessPresetForTool tool =
     (if tool \<in> {''Write'', ''Edit'', ''NotebookEdit'', ''GitAdd'', ''GitCommit''} then Some Edit_project
      else if tool \<in> {''Read'', ''Glob'', ''Grep'', ''GitStatus'', ''GitDiff'', ''GitLog''} then Some Read_project
      else None)"

definition strongestAccessPreset :: "RelationshipAccessPreset list \<Rightarrow> RelationshipAccessPreset" where
  "strongestAccessPreset presets =
     (if Edit_project \<in> set presets then Edit_project
      else if Read_project \<in> set presets then Read_project
      else Chat_only)"

section \<open>The order of the presets\<close>

fun preset_rank :: "RelationshipAccessPreset \<Rightarrow> nat" where
  "preset_rank Chat_only = 0"
| "preset_rank Read_project = 1"
| "preset_rank Edit_project = 2"

lemma preset_rank_inj: "preset_rank a = preset_rank b \<Longrightarrow> a = b"
  by (cases a; cases b) auto

instantiation RelationshipAccessPreset :: linorder
begin

definition less_eq_RelationshipAccessPreset :: "RelationshipAccessPreset \<Rightarrow> RelationshipAccessPreset \<Rightarrow> bool" where
  "less_eq_RelationshipAccessPreset a b = (preset_rank a \<le> preset_rank b)"

definition less_RelationshipAccessPreset :: "RelationshipAccessPreset \<Rightarrow> RelationshipAccessPreset \<Rightarrow> bool" where
  "less_RelationshipAccessPreset a b = (preset_rank a < preset_rank b)"

instance
  by intro_classes
    (auto simp: less_eq_RelationshipAccessPreset_def less_RelationshipAccessPreset_def preset_rank_inj)

end

instantiation RelationshipAccessPreset :: order_bot
begin

definition bot_RelationshipAccessPreset :: RelationshipAccessPreset where
  "bot_RelationshipAccessPreset = Chat_only"

instance
  by intro_classes (auto simp: bot_RelationshipAccessPreset_def less_eq_RelationshipAccessPreset_def)

end

lemma satisfies_is_order: "accessPresetSatisfies approved required \<longleftrightarrow> required \<le> approved"
  by (cases approved; cases required)
     (auto simp: accessPresetSatisfies_def less_eq_RelationshipAccessPreset_def)

lemma strongest_is_Max: "strongestAccessPreset ps = Max (insert bot (set ps))"
proof (rule sym, rule Max_eqI)
  fix p assume "p \<in> insert bot (set ps)"
  then show "p \<le> strongestAccessPreset ps"
    by (cases p) (auto simp: strongestAccessPreset_def less_eq_RelationshipAccessPreset_def bot_RelationshipAccessPreset_def)
qed (auto simp: strongestAccessPreset_def bot_RelationshipAccessPreset_def)

lemma preset_tools_mono: "p \<le> q \<Longrightarrow> set (PRESET_TOOLS p) \<subseteq> set (PRESET_TOOLS q)"
  by (cases p; cases q) (auto simp: less_eq_RelationshipAccessPreset_def)

lemma least_preset_for_tool:
  "accessPresetAllowsTool p tool \<longleftrightarrow> (\<exists>q. accessPresetForTool tool = Some q \<and> q \<le> p)"
  by (cases p) (auto simp: accessPresetAllowsTool_def accessPresetForTool_def less_eq_RelationshipAccessPreset_def)

text \<open>
  The presets form a linear order in which \<open>accessPresetSatisfies\<close> is
  the comparison, \<open>strongestAccessPreset\<close> the maximum, and a preset allows a tool exactly when
  it is at least the preset that \<open>accessPresetForTool\<close> names for the tool; so the strongest of
  several presets allows what one of them allows.
\<close>

theorem presets_are_ordered:
  "accessPresetSatisfies approved required = (required \<le> approved)
   \<and> strongestAccessPreset presets = Max (insert bot (set presets))
   \<and> accessPresetAllowsTool approved tool = (\<exists>q. accessPresetForTool tool = Some q \<and> accessPresetSatisfies approved q)
   \<and> accessPresetAllowsTool (strongestAccessPreset presets) tool
       = (\<exists>p \<in> set presets. accessPresetAllowsTool p tool)"
proof -
  have "accessPresetAllowsTool (strongestAccessPreset presets) tool \<longleftrightarrow>
      (\<exists>p \<in> set presets. accessPresetAllowsTool p tool)"
  proof
    assume *: "accessPresetAllowsTool (strongestAccessPreset presets) tool"
    have "strongestAccessPreset presets \<in> set presets"
      using * by (auto simp: strongestAccessPreset_def accessPresetAllowsTool_def split: if_splits)
    with * show "\<exists>p \<in> set presets. accessPresetAllowsTool p tool" by blast
  next
    assume "\<exists>p \<in> set presets. accessPresetAllowsTool p tool"
    then obtain p where "p \<in> set presets" "accessPresetAllowsTool p tool" by blast
    moreover from this have "p \<le> strongestAccessPreset presets"
      by (simp add: strongest_is_Max)
    ultimately show "accessPresetAllowsTool (strongestAccessPreset presets) tool"
      using preset_tools_mono by (auto simp: accessPresetAllowsTool_def)
  qed
  then show ?thesis by (simp add: satisfies_is_order strongest_is_Max least_preset_for_tool)
qed

end
