(* ===== verification/Paths.thy ===== *)
theory Paths
  imports Prelude
begin

text \<open>
  POSIX paths as the security code uses them: the functions of \<^verbatim>\<open>node:path\<close> on \<^verbatim>\<open>'/'\<close>
  separated texts, the file system as a function that answers \<^verbatim>\<open>realpathSync.native\<close>, and
  the path helpers of \<^verbatim>\<open>src/security/relationship-policy.ts\<close>. Letter case is kept: the
  Windows branch of \<^verbatim>\<open>normalizeCase\<close> is not modelled.
\<close>

section \<open>\<^verbatim>\<open>node:path\<close>\<close>

abbreviation slash :: char where "slash \<equiv> CHR ''/''"

definition isAbsolute :: "string \<Rightarrow> bool" where
  "isAbsolute p = (p \<noteq> [] \<and> hd p = slash)"

text \<open>\<^verbatim>\<open>parse(p).root\<close>.\<close>

definition root_of :: "string \<Rightarrow> string" where
  "root_of p = (if isAbsolute p then ''/'' else [])"

definition basename :: "string \<Rightarrow> string" where
  "basename p = rev (takeWhile (\<lambda>c. c \<noteq> slash) (dropWhile (\<lambda>c. c = slash) (rev p)))"

text \<open>
  \<^verbatim>\<open>dirname\<close> cuts at the last separator, from index 1 on, that is followed by something
  else than separators.
\<close>

definition dirname :: "string \<Rightarrow> string" where
  "dirname p =
     (let l = dropWhile (\<lambda>c. c \<noteq> slash) (dropWhile (\<lambda>c. c = slash) (rev (tl p)))
      in if l = [] then (if isAbsolute p then ''/'' else ''.'')
         else if isAbsolute p \<and> tl l = [] then ''//''
         else hd p # rev (tl l))"

fun split_slash :: "string \<Rightarrow> string list" where
  "split_slash [] = [[]]"
| "split_slash (c # cs) = (if c = slash then [] # split_slash cs
     else (case split_slash cs of s # ss \<Rightarrow> (c # s) # ss | [] \<Rightarrow> [[c]]))"

text \<open>The segments that survive normalization, last one first.\<close>

definition push_segment :: "bool \<Rightarrow> string \<Rightarrow> string list \<Rightarrow> string list" where
  "push_segment aboveRoot seg st =
     (if seg = [] \<or> seg = ''.'' then st
      else if seg = ''..'' then
        (case st of [] \<Rightarrow> (if aboveRoot then [seg] else [])
         | s # st' \<Rightarrow> (if s = ''..'' then (if aboveRoot then seg # st else st) else st'))
      else seg # st)"

definition normalizeString :: "bool \<Rightarrow> string \<Rightarrow> string" where
  "normalizeString aboveRoot p = join ''/'' (rev (fold (push_segment aboveRoot) (split_slash p) []))"

definition normalize :: "string \<Rightarrow> string" where
  "normalize p =
     (if p = [] then ''.'' else
      let trailing = (last p = slash);
          q = normalizeString (\<not> isAbsolute p) p
      in if q = [] then (if isAbsolute p then ''/'' else if trailing then ''./'' else ''.'')
         else (if isAbsolute p then ''/'' else []) @ q @ (if trailing then ''/'' else []))"

definition path_join :: "string list \<Rightarrow> string" where
  "path_join ps = (let q = join ''/'' (filter (\<lambda>p. p \<noteq> []) ps) in if q = [] then ''.'' else normalize q)"

definition resolve :: "string \<Rightarrow> string \<Rightarrow> string" where
  "resolve cwd p = ''/'' @ normalizeString False (if isAbsolute p then p else if p = [] then cwd else cwd @ ''/'' @ p)"

section \<open>The file system\<close>

text \<open>What \<^verbatim>\<open>realpathSync.native\<close> does: answer, throw \<^verbatim>\<open>ENOENT\<close>, or throw something else.\<close>

datatype realpath_result = Real string | Missing_path | Path_error

record filesystem =
  fs_realpath :: "string \<Rightarrow> realpath_result"
  fs_cwd :: string
  fs_home :: string

definition dirname_measure :: "string \<Rightarrow> nat" where
  "dirname_measure p = (if p = ''.'' then 0 else Suc (length p))"

lemma drop_runs_shorter:
  assumes "dropWhile Q (dropWhile P xs) \<noteq> []" "\<And>x. P x \<or> Q x"
  shows "length (dropWhile Q (dropWhile P xs)) < length xs"
  using assms(1)
proof (induction xs)
  case (Cons x xs)
  show ?case
  proof (cases "P x")
    case True
    with Cons have "length (dropWhile Q (dropWhile P xs)) < length xs" by simp
    with True show ?thesis by simp
  next
    case False
    with assms(2)[of x] have "Q x" by simp
    with False show ?thesis using length_dropWhile_le[of Q xs] by simp
  qed
qed simp

lemma dirname_decreases:
  assumes "dirname p \<noteq> p"
  shows "dirname_measure (dirname p) < dirname_measure p"
proof -
  define l where "l = dropWhile (\<lambda>c. c \<noteq> slash) (dropWhile (\<lambda>c. c = slash) (rev (tl p)))"
  have dir: "dirname p = (if l = [] then (if isAbsolute p then ''/'' else ''.'')
      else if isAbsolute p \<and> tl l = [] then ''//'' else hd p # rev (tl l))"
    by (simp only: dirname_def Let_def l_def)
  show ?thesis
  proof (cases "l = []")
    case True
    with dir have "dirname p = (if isAbsolute p then ''/'' else ''.'')" by simp
    moreover have "Suc (length p) > 2" if "isAbsolute p" "p \<noteq> ''/''"
      using that by (cases p; cases "tl p") (auto simp: isAbsolute_def)
    ultimately show ?thesis using assms by (auto simp: dirname_measure_def isAbsolute_def)
  next
    case False
    then have "length l < length (rev (tl p))"
      unfolding l_def by (intro drop_runs_shorter) auto
    then have len: "length l + 1 < length p" by simp
    from False have "length (hd p # rev (tl l)) = length l" "length l > 0" by simp_all
    moreover have "length l \<ge> 1" using False by (cases l) auto
    ultimately show ?thesis using dir False len by (cases l) (auto simp: dirname_measure_def)
  qed
qed

text \<open>
  \<open>canonicalPath\<close>: resolve through the file system component by component; what does not
  exist is appended to the canonical form of its directory. \<open>None\<close>: it throws.
\<close>

function canonicalPath :: "(string \<Rightarrow> realpath_result) \<Rightarrow> string \<Rightarrow> string option" where
  "canonicalPath fs p =
     (case fs p of
        Real r \<Rightarrow> Some r
      | Path_error \<Rightarrow> None
      | Missing_path \<Rightarrow>
          (if dirname p = p then None
           else map_option (\<lambda>c. path_join [c, basename p]) (canonicalPath fs (dirname p))))"
  by pat_completeness auto
termination
  by (relation "measure (\<lambda>(fs, p). dirname_measure p)") (auto simp: dirname_decreases)

declare canonicalPath.simps [simp del]

definition toLiteralAbsolute :: "string \<Rightarrow> string \<Rightarrow> string" where
  "toLiteralAbsolute cwd input = (if isAbsolute input then input else cwd @ ''/'' @ input)"

definition isWithin :: "string \<Rightarrow> string \<Rightarrow> bool" where
  "isWithin folder candidate =
     (if folder = root_of folder then prefix folder candidate
      else candidate = folder \<or> prefix (folder @ ''/'') candidate)"

text \<open>
  A relative path is resolved against the working directory, and against a granted folder
  only when that leads nowhere granted. The inner loop: \<open>None\<close> when it throws,
  \<open>Some None\<close> when no folder contains the path.
\<close>

fun folder_candidate :: "(string \<Rightarrow> realpath_result) \<Rightarrow> string \<Rightarrow> string list \<Rightarrow> string option option" where
  "folder_candidate fs input [] = Some None"
| "folder_candidate fs input (folder # folders) =
     (case canonicalPath fs (toLiteralAbsolute folder input) of
        None \<Rightarrow> None
      | Some c \<Rightarrow> if isWithin folder c then Some (Some c) else folder_candidate fs input folders)"

definition resolveRelationshipPath ::
    "(string \<Rightarrow> realpath_result) \<Rightarrow> string \<Rightarrow> string list \<Rightarrow> string \<Rightarrow> string option" where
  "resolveRelationshipPath fs cwd folders input =
     (case canonicalPath fs (toLiteralAbsolute cwd input) of
        None \<Rightarrow> None
      | Some cwdCandidate \<Rightarrow>
          if list_ex (\<lambda>f. isWithin f cwdCandidate) folders then Some cwdCandidate
          else if isAbsolute input then Some cwdCandidate
          else (case folder_candidate fs input folders of
                  None \<Rightarrow> None
                | Some (Some c) \<Rightarrow> Some c
                | Some None \<Rightarrow> Some cwdCandidate))"

section \<open>Segments\<close>

lemma split_slash_not_Nil [simp]: "split_slash s \<noteq> []"
  by (induction s) (auto split: list.splits)

lemma split_slash_none: "slash \<notin> set s \<Longrightarrow> split_slash s = [s]"
  by (induction s) auto

lemma split_slash_append: "split_slash (a @ slash # b) = split_slash a @ split_slash b"
  by (induction a) (auto split: list.splits simp: Cons_eq_append_conv)

definition segments_ok :: "string list \<Rightarrow> bool" where
  "segments_ok ss = list_all (\<lambda>s. s \<noteq> [] \<and> slash \<notin> set s) ss"

definition abs_path :: "string list \<Rightarrow> string" where
  "abs_path ss = slash # join ''/'' ss"

lemma join_Cons: "ss \<noteq> [] \<Longrightarrow> join sep (s # ss) = s @ sep @ join sep ss"
  by (cases ss) auto

lemma join_append: "ss \<noteq> [] \<Longrightarrow> ts \<noteq> [] \<Longrightarrow> join sep (ss @ ts) = join sep ss @ sep @ join sep ts"
proof (induction ss)
  case (Cons s ss)
  then show ?case by (cases "ss = []") (auto simp: join_Cons)
qed simp

lemma split_join: "ss \<noteq> [] \<Longrightarrow> segments_ok ss \<Longrightarrow> split_slash (join ''/'' ss) = ss"
proof (induction ss)
  case (Cons s ss)
  then show ?case
    by (cases ss) (auto simp: segments_ok_def split_slash_none split_slash_append)
qed simp

lemma join_eq_Nil: "segments_ok ss \<Longrightarrow> join ''/'' ss = [] \<longleftrightarrow> ss = []"
  by (cases ss; cases "tl ss") (auto simp: segments_ok_def)

lemma join_inj: "segments_ok ss \<Longrightarrow> segments_ok ts \<Longrightarrow> join ''/'' ss = join ''/'' ts \<longleftrightarrow> ss = ts"
  by (metis join_eq_Nil split_join)

lemma isWithin_refl [simp]: "isWithin f f"
  by (simp add: isWithin_def)

text \<open>
  On canonical absolute paths (\<open>abs_path\<close> of non-empty segments)
  the textual test of \<open>isWithin\<close> decides whether the folder's components are a prefix of
  the candidate's: a sibling whose name extends the folder's name is not inside it.
\<close>

theorem within_is_component_prefix:
  assumes "segments_ok folder" "segments_ok candidate"
  shows "isWithin (abs_path folder) (abs_path candidate) \<longleftrightarrow> prefix folder candidate"
proof (cases "folder = []")
  case True
  then show ?thesis by (simp add: isWithin_def abs_path_def root_of_def isAbsolute_def)
next
  case False
  then have "abs_path folder \<noteq> ''/''" using assms(1) by (simp add: abs_path_def join_eq_Nil)
  then have within: "isWithin (abs_path folder) (abs_path candidate) \<longleftrightarrow>
      candidate = folder \<or> prefix (join ''/'' folder @ ''/'') (join ''/'' candidate)"
    by (auto simp: isWithin_def abs_path_def root_of_def isAbsolute_def join_inj[OF assms(2,1)])
  show ?thesis
  proof
    assume "isWithin (abs_path folder) (abs_path candidate)"
    with within consider "candidate = folder" | r where "join ''/'' candidate = join ''/'' folder @ slash # r"
      by (auto simp: prefix_def)
    then show "prefix folder candidate"
    proof cases
      case 2
      then have "candidate \<noteq> []" by auto
      with 2 have "candidate = folder @ split_slash r"
        by (metis False assms split_join split_slash_append)
      then show ?thesis by simp
    qed simp
  next
    assume "prefix folder candidate"
    then obtain ds where "candidate = folder @ ds" by (auto simp: prefix_def)
    with within False show "isWithin (abs_path folder) (abs_path candidate)"
      by (cases "ds = []") (auto simp: join_append)
  qed
qed

theorem within_is_component_prefix_witness:
  "isWithin ''/home/app'' ''/home/app/src'' \<and> \<not> isWithin ''/home/app'' ''/home/apple''"
  using within_is_component_prefix[of "[''home'', ''app'']" "[''home'', ''app'', ''src'']"]
    within_is_component_prefix[of "[''home'', ''app'']" "[''home'', ''apple'']"]
  by (simp add: segments_ok_def abs_path_def)

section \<open>Resolution\<close>

text \<open>Where the file system answers, the candidate is its answer.\<close>

lemma canonicalPath_Real: "fs p = Real r \<Longrightarrow> canonicalPath fs p = Some r"
  by (subst canonicalPath.simps) simp

lemma folder_candidate_within:
  "folder_candidate fs input folders = Some (Some c) \<Longrightarrow> \<exists>f \<in> set folders. isWithin f c"
  by (induction folders) (auto split: option.splits if_splits)

end
