(* ===== verification/Trusted_Tools.thy ===== *)
theory Trusted_Tools
  imports Zod Access Paths "HOL-Library.AList" "HOL-Library.Monad_Syntax"
begin

text \<open>
  Trusted tool policies (\<^verbatim>\<open>src/security/trusted-tool-policy.ts\<close>): the file in which a
  bridge keeps the folders its owner has opened to a collaborator's device, the operations
  on it, and the migration of its two older versions. The state is the content of the
  file; an operation answers its value or the error it throws, and the new content.
  Timestamps are the texts the file holds, and \<open>datetime\<close> is the test of
  \<^verbatim>\<open>z.string().datetime()\<close>. Error texts end where the source appends another error's text.
\<close>

section \<open>The document\<close>

text \<open>A file that holds JSON text is the parsed value.\<close>

datatype stored = Absent | Unreadable | Holds json

datatype TrustedToolPolicyScope = Bridge_run | Persistent
datatype PolicyStatus = Policy_active | Policy_revoked | Policy_invalid
datatype PolicyOrigin = From_cli | From_settings | From_approval_prompt

record TrustedToolPolicyUse =
  tu_sequence :: int
  tu_usedAt :: string

record PolicyBase =
  tp_policyId :: string
  tp_ownerPrincipalId :: string
  tp_ownerDeviceId :: string
  tp_requesterPrincipalId :: string
  tp_requesterDeviceId :: string
  tp_canonicalFolder :: string
  tp_scope :: TrustedToolPolicyScope
  tp_bridgeInstanceId :: "string option"
  tp_status :: PolicyStatus
  tp_createdFrom :: PolicyOrigin
  tp_createdAt :: string
  tp_createdBy :: string
  tp_lastUsedAt :: "string option"
  tp_useCount :: int
  tp_pendingUses :: "TrustedToolPolicyUse list"
  tp_revokedAt :: "string option"
  tp_revokedBy :: "string option"
  tp_invalidatedReason :: "string option"

record TrustedToolPolicy = PolicyBase +
  tp_accessPreset :: RelationshipAccessPreset

record versionTwoPolicy = PolicyBase +
  tp_normalizedTool :: string

record TrustedToolPolicyDocument =
  td_revision :: int
  td_serverRevisions :: "(string \<times> int) list"
  td_policies :: "TrustedToolPolicy list"

record versionTwoDocument =
  v2_revision :: int
  v2_serverRevisions :: "(string \<times> int) list"
  v2_policies :: "versionTwoPolicy list"

record TrustedToolPolicyIdentity =
  ti_ownerPrincipalId :: string
  ti_ownerDeviceId :: string
  ti_bridgeInstanceId :: string

section \<open>Schemas\<close>

definition scope_table :: "(string \<times> TrustedToolPolicyScope) list" where
  "scope_table = [(''bridge_run'', Bridge_run), (''persistent'', Persistent)]"

definition status_table :: "(string \<times> PolicyStatus) list" where
  "status_table = [(''active'', Policy_active), (''revoked'', Policy_revoked), (''invalid'', Policy_invalid)]"

definition origin_table :: "(string \<times> PolicyOrigin) list" where
  "origin_table = [(''cli'', From_cli), (''settings'', From_settings), (''approval_prompt'', From_approval_prompt)]"

definition fileAccessPresetSchema :: "json \<Rightarrow> RelationshipAccessPreset option" where
  "fileAccessPresetSchema = z_enum [(''read-project'', Read_project), (''edit-project'', Edit_project)]"

definition pendingUseSchema :: "(string \<Rightarrow> bool) \<Rightarrow> json \<Rightarrow> TrustedToolPolicyUse option" where
  "pendingUseSchema datetime j =
     (if \<not> strict [''sequence'', ''usedAt''] j then None else do {
        n \<leftarrow> required (z_int (\<lambda>n. 0 < n)) ''sequence'' j;
        t \<leftarrow> required (z_string_that datetime) ''usedAt'' j;
        Some \<lparr>tu_sequence = n, tu_usedAt = t\<rparr>
      })"

definition base_keys :: "string list" where
  "base_keys = [''policyId'', ''ownerPrincipalId'', ''ownerDeviceId'', ''requesterPrincipalId'',
     ''requesterDeviceId'', ''canonicalFolder'', ''scope'', ''bridgeInstanceId'', ''status'', ''createdFrom'',
     ''createdAt'', ''createdBy'', ''lastUsedAt'', ''useCount'', ''pendingUses'', ''revokedAt'', ''revokedBy'',
     ''invalidatedReason'']"

text \<open>The members that the current and the older policy schema share.\<close>

definition base_members :: "(string \<Rightarrow> bool) \<Rightarrow> json \<Rightarrow> PolicyBase option" where
  "base_members datetime j = do {
     policyId \<leftarrow> required z_nonblank ''policyId'' j;
     ownerPrincipalId \<leftarrow> required z_nonblank ''ownerPrincipalId'' j;
     ownerDeviceId \<leftarrow> required z_nonblank ''ownerDeviceId'' j;
     requesterPrincipalId \<leftarrow> required z_nonblank ''requesterPrincipalId'' j;
     requesterDeviceId \<leftarrow> required z_nonblank ''requesterDeviceId'' j;
     canonicalFolder \<leftarrow> required z_nonblank ''canonicalFolder'' j;
     scope \<leftarrow> required (z_enum scope_table) ''scope'' j;
     bridgeInstanceId \<leftarrow> optional z_nonblank ''bridgeInstanceId'' j;
     status \<leftarrow> required (z_enum status_table) ''status'' j;
     createdFrom \<leftarrow> required (z_enum origin_table) ''createdFrom'' j;
     createdAt \<leftarrow> required (z_string_that datetime) ''createdAt'' j;
     createdBy \<leftarrow> required z_nonblank ''createdBy'' j;
     lastUsedAt \<leftarrow> optional (z_string_that datetime) ''lastUsedAt'' j;
     useCount \<leftarrow> required (z_int (\<lambda>n. 0 \<le> n)) ''useCount'' j;
     pendingUses \<leftarrow> with_default [] (z_list (pendingUseSchema datetime)) ''pendingUses'' j;
     revokedAt \<leftarrow> optional (z_string_that datetime) ''revokedAt'' j;
     revokedBy \<leftarrow> optional z_nonblank ''revokedBy'' j;
     invalidatedReason \<leftarrow> optional z_nonblank ''invalidatedReason'' j;
     Some \<lparr>tp_policyId = policyId, tp_ownerPrincipalId = ownerPrincipalId, tp_ownerDeviceId = ownerDeviceId,
           tp_requesterPrincipalId = requesterPrincipalId, tp_requesterDeviceId = requesterDeviceId,
           tp_canonicalFolder = canonicalFolder, tp_scope = scope, tp_bridgeInstanceId = bridgeInstanceId,
           tp_status = status, tp_createdFrom = createdFrom, tp_createdAt = createdAt, tp_createdBy = createdBy,
           tp_lastUsedAt = lastUsedAt, tp_useCount = useCount, tp_pendingUses = pendingUses,
           tp_revokedAt = revokedAt, tp_revokedBy = revokedBy, tp_invalidatedReason = invalidatedReason\<rparr>
   }"

definition policySchema :: "(string \<Rightarrow> bool) \<Rightarrow> json \<Rightarrow> TrustedToolPolicy option" where
  "policySchema datetime j =
     (if \<not> strict (''accessPreset'' # base_keys) j then None else do {
        b \<leftarrow> base_members datetime j;
        preset \<leftarrow> required fileAccessPresetSchema ''accessPreset'' j;
        Some (PolicyBase.extend b \<lparr>tp_accessPreset = preset\<rparr>)
      })"

definition normalized_tools :: "string list" where
  "normalized_tools = [''Read'', ''Write'', ''Edit'', ''GitStatus'', ''GitDiff'', ''GitLog'', ''GitAdd'', ''GitCommit'']"

definition versionTwoPolicySchema :: "(string \<Rightarrow> bool) \<Rightarrow> json \<Rightarrow> versionTwoPolicy option" where
  "versionTwoPolicySchema datetime j =
     (if \<not> strict (''normalizedTool'' # base_keys) j then None else do {
        b \<leftarrow> base_members datetime j;
        tool \<leftarrow> required (z_string_that (\<lambda>s. s \<in> set normalized_tools)) ''normalizedTool'' j;
        Some (PolicyBase.extend b \<lparr>tp_normalizedTool = tool\<rparr>)
      })"

definition version_is :: "int \<Rightarrow> json \<Rightarrow> bool" where
  "version_is n j = (member_of j ''version'' = Some (JNum n))"

definition documentSchema :: "(string \<Rightarrow> bool) \<Rightarrow> json \<Rightarrow> TrustedToolPolicyDocument option" where
  "documentSchema datetime j =
     (if \<not> strict [''version'', ''revision'', ''serverRevisions'', ''policies''] j \<or> \<not> version_is 3 j then None else do {
        r \<leftarrow> required (z_int (\<lambda>n. 0 \<le> n)) ''revision'' j;
        srs \<leftarrow> required (z_map (z_int (\<lambda>n. 0 \<le> n))) ''serverRevisions'' j;
        ps \<leftarrow> required (z_list (policySchema datetime)) ''policies'' j;
        Some \<lparr>td_revision = r, td_serverRevisions = srs, td_policies = ps\<rparr>
      })"

definition versionTwoDocumentSchema :: "(string \<Rightarrow> bool) \<Rightarrow> json \<Rightarrow> versionTwoDocument option" where
  "versionTwoDocumentSchema datetime j =
     (if \<not> strict [''version'', ''revision'', ''serverRevisions'', ''policies''] j \<or> \<not> version_is 2 j then None else do {
        r \<leftarrow> required (z_int (\<lambda>n. 0 \<le> n)) ''revision'' j;
        srs \<leftarrow> required (z_map (z_int (\<lambda>n. 0 \<le> n))) ''serverRevisions'' j;
        ps \<leftarrow> required (z_list (versionTwoPolicySchema datetime)) ''policies'' j;
        Some \<lparr>v2_revision = r, v2_serverRevisions = srs, v2_policies = ps\<rparr>
      })"

definition legacyDocumentSchema :: "(string \<Rightarrow> bool) \<Rightarrow> json \<Rightarrow> (int \<times> versionTwoPolicy list) option" where
  "legacyDocumentSchema datetime j =
     (if \<not> strict [''version'', ''revision'', ''policies''] j \<or> \<not> version_is 1 j then None else do {
        r \<leftarrow> required (z_int (\<lambda>n. 0 \<le> n)) ''revision'' j;
        ps \<leftarrow> required (z_list (versionTwoPolicySchema datetime)) ''policies'' j;
        Some (r, ps)
      })"

section \<open>Reading and writing\<close>

definition migrate_policy :: "versionTwoPolicy \<Rightarrow> TrustedToolPolicy list" where
  "migrate_policy p =
     (case accessPresetForTool (tp_normalizedTool p) of
        None \<Rightarrow> []
      | Some preset \<Rightarrow>
          (if preset = Chat_only then []
           else [PolicyBase.extend (PolicyBase.truncate p) \<lparr>tp_accessPreset = preset\<rparr>]))"

definition migrateToolPolicies :: "versionTwoDocument \<Rightarrow> TrustedToolPolicyDocument" where
  "migrateToolPolicies d =
     \<lparr>td_revision = v2_revision d, td_serverRevisions = v2_serverRevisions d,
      td_policies = concat (map migrate_policy (v2_policies d))\<rparr>"

definition empty_document :: TrustedToolPolicyDocument where
  "empty_document = \<lparr>td_revision = 0, td_serverRevisions = [], td_policies = []\<rparr>"

definition readTrustedToolPolicies :: "(string \<Rightarrow> bool) \<Rightarrow> stored \<Rightarrow> string + TrustedToolPolicyDocument" where
  "readTrustedToolPolicies datetime file =
     (case file of
        Absent \<Rightarrow> Inr empty_document
      | Unreadable \<Rightarrow> Inl ''Could not read trusted tool policies''
      | Holds raw \<Rightarrow>
          (case documentSchema datetime raw of
             Some d \<Rightarrow> Inr d
           | None \<Rightarrow>
          (case versionTwoDocumentSchema datetime raw of
             Some d \<Rightarrow> Inr (migrateToolPolicies d)
           | None \<Rightarrow>
          (case legacyDocumentSchema datetime raw of
             Some (r, ps) \<Rightarrow> Inr (migrateToolPolicies \<lparr>v2_revision = r, v2_serverRevisions = [], v2_policies = ps\<rparr>)
           | None \<Rightarrow> Inl ''Invalid trusted tool policies''))))"

definition text_of :: "(string \<times> 'a) list \<Rightarrow> 'a \<Rightarrow> json" where
  "text_of table v = JStr (case List.find (\<lambda>(s, w). w = v) table of Some (s, w) \<Rightarrow> s | None \<Rightarrow> [])"

definition use_json :: "TrustedToolPolicyUse \<Rightarrow> json" where
  "use_json u = JObj [(''sequence'', JNum (tu_sequence u)), (''usedAt'', JStr (tu_usedAt u))]"

definition policy_json :: "TrustedToolPolicy \<Rightarrow> json" where
  "policy_json p = JObj (
     [(''policyId'', JStr (tp_policyId p)), (''ownerPrincipalId'', JStr (tp_ownerPrincipalId p)),
      (''ownerDeviceId'', JStr (tp_ownerDeviceId p)), (''requesterPrincipalId'', JStr (tp_requesterPrincipalId p)),
      (''requesterDeviceId'', JStr (tp_requesterDeviceId p)), (''canonicalFolder'', JStr (tp_canonicalFolder p)),
      (''accessPreset'', JStr (preset_text (tp_accessPreset p))), (''scope'', text_of scope_table (tp_scope p))]
     @ opt_field ''bridgeInstanceId'' JStr (tp_bridgeInstanceId p)
     @ [(''status'', text_of status_table (tp_status p)), (''createdFrom'', text_of origin_table (tp_createdFrom p)),
        (''createdAt'', JStr (tp_createdAt p)), (''createdBy'', JStr (tp_createdBy p))]
     @ opt_field ''lastUsedAt'' JStr (tp_lastUsedAt p)
     @ [(''useCount'', JNum (tp_useCount p)), (''pendingUses'', JArr (map use_json (tp_pendingUses p)))]
     @ opt_field ''revokedAt'' JStr (tp_revokedAt p) @ opt_field ''revokedBy'' JStr (tp_revokedBy p)
     @ opt_field ''invalidatedReason'' JStr (tp_invalidatedReason p))"

definition document_json :: "TrustedToolPolicyDocument \<Rightarrow> json" where
  "document_json d = JObj [(''version'', JNum 3), (''revision'', JNum (td_revision d)),
     (''serverRevisions'', JObj (map (\<lambda>(k, n). (k, JNum n)) (td_serverRevisions d))),
     (''policies'', JArr (map policy_json (td_policies d)))]"

definition writeTrustedToolPolicies :: "TrustedToolPolicyDocument \<Rightarrow> stored" where
  "writeTrustedToolPolicies d = Holds (document_json d)"

section \<open>Operations\<close>

definition canonicalizePolicyFolder :: "filesystem \<Rightarrow> string \<Rightarrow> string + string" where
  "canonicalizePolicyFolder fs folder =
     (case fs_realpath fs (resolve (fs_cwd fs) folder) of
        Real r \<Rightarrow> if r = root_of r then Inl ''Filesystem roots cannot be granted to a collaborator'' else Inr r
      | _ \<Rightarrow> Inl ''The folder could not be resolved'')"

record UpsertTrustedToolPolicy =
  ui_policyId :: "string option"
  ui_ownerPrincipalId :: string
  ui_ownerDeviceId :: string
  ui_requesterPrincipalId :: string
  ui_requesterDeviceId :: string
  ui_folder :: string
  ui_accessPreset :: RelationshipAccessPreset
  ui_scope :: TrustedToolPolicyScope
  ui_bridgeInstanceId :: "string option"
  ui_createdFrom :: PolicyOrigin
  ui_createdBy :: string
  ui_createdAt :: "string option"
  ui_serverRevision :: "int option"

definition same_grant :: "UpsertTrustedToolPolicy \<Rightarrow> string \<Rightarrow> TrustedToolPolicy \<Rightarrow> bool" where
  "same_grant i canonicalFolder p =
     (tp_status p = Policy_active
      \<and> tp_ownerPrincipalId p = ui_ownerPrincipalId i \<and> tp_ownerDeviceId p = ui_ownerDeviceId i
      \<and> tp_requesterPrincipalId p = ui_requesterPrincipalId i \<and> tp_requesterDeviceId p = ui_requesterDeviceId i
      \<and> tp_canonicalFolder p = canonicalFolder \<and> tp_accessPreset p = ui_accessPreset i \<and> tp_scope p = ui_scope i
      \<and> (\<not> truthy (ui_policyId i) \<or> Some (tp_policyId p) = ui_policyId i)
      \<and> (ui_scope i \<noteq> Bridge_run \<or> tp_bridgeInstanceId p = ui_bridgeInstanceId i))"

definition granted_policy :: "string \<Rightarrow> string \<Rightarrow> UpsertTrustedToolPolicy \<Rightarrow> string \<Rightarrow> TrustedToolPolicy" where
  "granted_policy now fresh i canonicalFolder =
     \<lparr>tp_policyId = or_else (ui_policyId i) (''ttp_'' @ fresh), tp_ownerPrincipalId = ui_ownerPrincipalId i,
      tp_ownerDeviceId = ui_ownerDeviceId i, tp_requesterPrincipalId = ui_requesterPrincipalId i,
      tp_requesterDeviceId = ui_requesterDeviceId i, tp_canonicalFolder = canonicalFolder,
      tp_scope = ui_scope i, tp_bridgeInstanceId = (if ui_scope i = Bridge_run then ui_bridgeInstanceId i else None),
      tp_status = Policy_active, tp_createdFrom = ui_createdFrom i, tp_createdAt = or_else (ui_createdAt i) now,
      tp_createdBy = ui_createdBy i, tp_lastUsedAt = None, tp_useCount = 0, tp_pendingUses = [],
      tp_revokedAt = None, tp_revokedBy = None, tp_invalidatedReason = None, tp_accessPreset = ui_accessPreset i\<rparr>"

definition upsertTrustedToolPolicy ::
    "(string \<Rightarrow> bool) \<Rightarrow> filesystem \<Rightarrow> string \<Rightarrow> string \<Rightarrow> UpsertTrustedToolPolicy \<Rightarrow> stored
       \<Rightarrow> (string + TrustedToolPolicy) \<times> stored" where
  "upsertTrustedToolPolicy datetime fs now fresh i file =
     (if ui_scope i = Bridge_run \<and> \<not> truthy (ui_bridgeInstanceId i)
      then (Inl ''bridgeInstanceId is required for bridge-run trusted tool access'', file)
      else case canonicalizePolicyFolder fs (ui_folder i) of
        Inl e \<Rightarrow> (Inl e, file)
      | Inr canonicalFolder \<Rightarrow>
     (case readTrustedToolPolicies datetime file of
        Inl e \<Rightarrow> (Inl e, file)
      | Inr d \<Rightarrow>
     (let serverRevision = or_else (ui_serverRevision i) 0;
          latest = map_of (td_serverRevisions d) (or_else (ui_policyId i) []);
          sameIdActive = (if truthy (ui_policyId i)
            then List.find (\<lambda>p. Some (tp_policyId p) = ui_policyId i \<and> tp_status p = Policy_active) (td_policies d)
            else None)
      in if latest \<noteq> None \<and> serverRevision < the latest then (Inl ''Stale trusted tool policy revision'', file)
         else if latest = Some serverRevision \<and> truthy (ui_policyId i) then
           (case sameIdActive of Some p \<Rightarrow> (Inr p, file)
            | None \<Rightarrow> (Inl ''Trusted tool policy was already revoked at this revision'', file))
         else case List.find (same_grant i canonicalFolder) (td_policies d) of
           Some p \<Rightarrow> (Inr p, file)
         | None \<Rightarrow>
             (let policy = granted_policy now fresh i canonicalFolder
              in (Inr policy, writeTrustedToolPolicies
                   \<lparr>td_revision = td_revision d + 1,
                    td_serverRevisions = (if truthy (ui_policyId i)
                      then AList.update (the (ui_policyId i)) serverRevision (td_serverRevisions d)
                      else td_serverRevisions d),
                    td_policies = td_policies d @ [policy]\<rparr>)))))"

fun find_index :: "('a \<Rightarrow> bool) \<Rightarrow> 'a list \<Rightarrow> nat option" where
  "find_index P [] = None"
| "find_index P (x # xs) = (if P x then Some 0 else map_option Suc (find_index P xs))"

definition with_policy :: "string \<Rightarrow> TrustedToolPolicyDocument \<Rightarrow> nat option" where
  "with_policy policyId d = find_index (\<lambda>p. tp_policyId p = policyId) (td_policies d)"

definition revokeTrustedToolPolicy ::
    "(string \<Rightarrow> bool) \<Rightarrow> string \<Rightarrow> string \<Rightarrow> string \<Rightarrow> int option \<Rightarrow> stored
       \<Rightarrow> (string + TrustedToolPolicy option) \<times> stored" where
  "revokeTrustedToolPolicy datetime now policyId revokedBy serverRevisionInput file =
     (case readTrustedToolPolicies datetime file of
        Inl e \<Rightarrow> (Inl e, file)
      | Inr d \<Rightarrow>
     (let latest = map_of (td_serverRevisions d) policyId;
          serverRevision = or_else serverRevisionInput (or_else latest 0);
          revisions = AList.update policyId serverRevision (td_serverRevisions d)
      in if latest \<noteq> None \<and> serverRevision < the latest then (Inr None, file)
         else case with_policy policyId d of
           None \<Rightarrow> (Inr None, writeTrustedToolPolicies
             (d\<lparr>td_revision := td_revision d + 1, td_serverRevisions := revisions\<rparr>))
         | Some index \<Rightarrow>
             (let current = td_policies d ! index;
                  revoked = current\<lparr>tp_status := Policy_revoked, tp_revokedAt := Some now, tp_revokedBy := Some revokedBy\<rparr>
              in if tp_status current \<noteq> Policy_active then (Inr (Some current), file)
                 else (Inr (Some revoked), writeTrustedToolPolicies
                   \<lparr>td_revision = td_revision d + 1, td_serverRevisions = revisions,
                    td_policies = (td_policies d)[index := revoked]\<rparr>))))"

definition markTrustedToolPolicyUsed :: "(string \<Rightarrow> bool) \<Rightarrow> string \<Rightarrow> string \<Rightarrow> stored \<Rightarrow> (string + unit) \<times> stored" where
  "markTrustedToolPolicyUsed datetime now policyId file =
     (case readTrustedToolPolicies datetime file of
        Inl e \<Rightarrow> (Inl e, file)
      | Inr d \<Rightarrow>
     (case find_index (\<lambda>p. tp_policyId p = policyId \<and> tp_status p = Policy_active) (td_policies d) of
        None \<Rightarrow> (Inr (), file)
      | Some index \<Rightarrow>
          (let p = td_policies d ! index
           in (Inr (), writeTrustedToolPolicies (d\<lparr>td_revision := td_revision d + 1,
                td_policies := (td_policies d)[index :=
                  p\<lparr>tp_lastUsedAt := Some now, tp_useCount := tp_useCount p + 1,
                    tp_pendingUses := tp_pendingUses p @ [\<lparr>tu_sequence = tp_useCount p + 1, tu_usedAt = now\<rparr>]\<rparr>]\<rparr>)))))"

definition pendingTrustedToolPolicyUses ::
    "(string \<Rightarrow> bool) \<Rightarrow> string \<Rightarrow> string \<Rightarrow> nat \<Rightarrow> stored
       \<Rightarrow> string + (TrustedToolPolicy \<times> int \<times> TrustedToolPolicyUse list) list" where
  "pendingTrustedToolPolicyUses datetime ownerPrincipalId ownerDeviceId limit file =
     map_sum id (\<lambda>d. map (\<lambda>p. (p, the (map_of (td_serverRevisions d) (tp_policyId p)), take limit (tp_pendingUses p)))
         (filter (\<lambda>p. tp_ownerPrincipalId p = ownerPrincipalId \<and> tp_ownerDeviceId p = ownerDeviceId
            \<and> map_of (td_serverRevisions d) (tp_policyId p) \<noteq> None \<and> tp_pendingUses p \<noteq> []) (td_policies d)))
       (readTrustedToolPolicies datetime file)"

definition markTrustedToolPolicyUsesReported ::
    "(string \<Rightarrow> bool) \<Rightarrow> string \<Rightarrow> int \<Rightarrow> stored \<Rightarrow> (string + unit) \<times> stored" where
  "markTrustedToolPolicyUsesReported datetime policyId acceptedThroughSequence file =
     (case readTrustedToolPolicies datetime file of
        Inl e \<Rightarrow> (Inl e, file)
      | Inr d \<Rightarrow>
     (case with_policy policyId d of
        None \<Rightarrow> (Inr (), file)
      | Some index \<Rightarrow>
          (let current = td_policies d ! index;
               pendingUses = filter (\<lambda>u. acceptedThroughSequence < tu_sequence u) (tp_pendingUses current)
           in if length pendingUses = length (tp_pendingUses current) then (Inr (), file)
              else (Inr (), writeTrustedToolPolicies (d\<lparr>td_revision := td_revision d + 1,
                td_policies := (td_policies d)[index := current\<lparr>tp_pendingUses := pendingUses\<rparr>]\<rparr>)))))"

definition invalidateTrustedToolPolicy ::
    "(string \<Rightarrow> bool) \<Rightarrow> string \<Rightarrow> string \<Rightarrow> stored \<Rightarrow> (string + unit) \<times> stored" where
  "invalidateTrustedToolPolicy datetime policyId reason file =
     (case readTrustedToolPolicies datetime file of
        Inl e \<Rightarrow> (Inl e, file)
      | Inr d \<Rightarrow>
     (case with_policy policyId d of
        None \<Rightarrow> (Inr (), file)
      | Some index \<Rightarrow>
          (Inr (), writeTrustedToolPolicies (d\<lparr>td_revision := td_revision d + 1,
             td_policies := (td_policies d)[index := (td_policies d ! index)
               \<lparr>tp_status := Policy_invalid, tp_pendingUses := [], tp_invalidatedReason := Some reason\<rparr>]\<rparr>))))"

definition policyMatchesOwner :: "TrustedToolPolicy \<Rightarrow> TrustedToolPolicyIdentity \<Rightarrow> bool" where
  "policyMatchesOwner p identity =
     (tp_status p = Policy_active
      \<and> tp_ownerPrincipalId p = ti_ownerPrincipalId identity
      \<and> tp_ownerDeviceId p = ti_ownerDeviceId identity
      \<and> (tp_scope p = Persistent \<or> tp_bridgeInstanceId p = Some (ti_bridgeInstanceId identity)))"

section \<open>What is written is read back\<close>

definition clean :: "string \<Rightarrow> bool" where
  "clean s = (trim s = s \<and> s \<noteq> [])"

definition policy_ok :: "(string \<Rightarrow> bool) \<Rightarrow> TrustedToolPolicy \<Rightarrow> bool" where
  "policy_ok datetime p =
     (list_all clean [tp_policyId p, tp_ownerPrincipalId p, tp_ownerDeviceId p, tp_requesterPrincipalId p,
        tp_requesterDeviceId p, tp_canonicalFolder p, tp_createdBy p]
      \<and> pred_option clean (tp_bridgeInstanceId p) \<and> datetime (tp_createdAt p)
      \<and> pred_option datetime (tp_lastUsedAt p) \<and> 0 \<le> tp_useCount p
      \<and> list_all (\<lambda>u. 0 < tu_sequence u \<and> datetime (tu_usedAt u)) (tp_pendingUses p)
      \<and> pred_option datetime (tp_revokedAt p) \<and> pred_option clean (tp_revokedBy p)
      \<and> pred_option clean (tp_invalidatedReason p) \<and> tp_accessPreset p \<noteq> Chat_only)"

definition document_ok :: "(string \<Rightarrow> bool) \<Rightarrow> TrustedToolPolicyDocument \<Rightarrow> bool" where
  "document_ok datetime d =
     (0 \<le> td_revision d \<and> list_all (\<lambda>(k, n). 0 \<le> n) (td_serverRevisions d)
      \<and> list_all (policy_ok datetime) (td_policies d))"

lemma z_nonblank_clean: "clean s \<Longrightarrow> z_nonblank (JStr s) = Some s"
  by (simp add: clean_def z_nonblank_def)

lemma tables [simp]:
  "z_enum scope_table (text_of scope_table sc) = Some sc"
  "z_enum status_table (text_of status_table st) = Some st"
  "z_enum origin_table (text_of origin_table orig) = Some orig"
  by ((cases sc; simp add: z_enum_def text_of_def scope_table_def),
      (cases st; simp add: z_enum_def text_of_def status_table_def),
      (cases orig; simp add: z_enum_def text_of_def origin_table_def))

lemma use_round_trip:
  "0 < tu_sequence u \<and> datetime (tu_usedAt u) \<Longrightarrow> pendingUseSchema datetime (use_json u) = Some u"
  by (simp add: pendingUseSchema_def use_json_def strict_def required_def z_int_def z_string_that_def)

lemma member_of_opt [simp]:
  "member_of (JObj (opt_field k' g v @ kvs)) k =
     (if k = k' \<and> v \<noteq> None then Some (g (the v)) else member_of (JObj kvs) k)"
  by (cases v) (auto simp: opt_field_def)

lemma member_of_opt_last [simp]:
  "member_of (JObj (opt_field k' g v)) k = (if k = k' \<and> v \<noteq> None then Some (g (the v)) else None)"
  by (cases v) (auto simp: opt_field_def)

lemma strict_JObj: "strict ks (JObj kvs) \<longleftrightarrow> list_all (\<lambda>(k, v). k \<in> set ks) kvs"
  by (simp add: strict_def)

lemma list_all_opt_field [simp]:
  "list_all P (opt_field k g v) \<longleftrightarrow> (v = None \<or> P (k, g (the v)))"
  by (cases v) (auto simp: opt_field_def)

lemma optional_member: "member_of j k = map_option g v \<Longrightarrow> pred_option (\<lambda>x. f (g x) = Some x) v \<Longrightarrow> optional f k j = Some v"
  by (cases v) (auto simp: optional_def)

lemma policy_round_trip:
  assumes "policy_ok datetime p"
  shows "policySchema datetime (policy_json p) = Some p"
proof -
  have uses: "z_list (pendingUseSchema datetime) (JArr (map use_json (tp_pendingUses p))) = Some (tp_pendingUses p)"
    unfolding z_list_def json.case
    by (rule z_array_map) (use assms in \<open>auto simp: policy_ok_def list_all_iff use_round_trip\<close>)
  have opts: "optional z_nonblank ''bridgeInstanceId'' (policy_json p) = Some (tp_bridgeInstanceId p)"
    "optional (z_string_that datetime) ''lastUsedAt'' (policy_json p) = Some (tp_lastUsedAt p)"
    "optional (z_string_that datetime) ''revokedAt'' (policy_json p) = Some (tp_revokedAt p)"
    "optional z_nonblank ''revokedBy'' (policy_json p) = Some (tp_revokedBy p)"
    "optional z_nonblank ''invalidatedReason'' (policy_json p) = Some (tp_invalidatedReason p)"
    using assms
    by (auto intro!: optional_member[where g = JStr] simp: policy_json_def policy_ok_def z_nonblank_clean
        z_string_that_def option.pred_set split: option.splits)
  have preset: "fileAccessPresetSchema (JStr (preset_text (tp_accessPreset p))) = Some (tp_accessPreset p)"
    using assms by (cases "tp_accessPreset p") (auto simp: policy_ok_def fileAccessPresetSchema_def z_enum_def)
  have "strict (''accessPreset'' # base_keys) (policy_json p)"
    by (simp add: policy_json_def strict_JObj base_keys_def)
  moreover have "base_members datetime (policy_json p) = Some (PolicyBase.truncate p)"
    unfolding base_members_def opts
    using assms uses
    by (simp add: policy_ok_def policy_json_def required_def with_default_def z_nonblank_clean
        z_string_that_def z_int_def PolicyBase.truncate_def)
  moreover have "required fileAccessPresetSchema ''accessPreset'' (policy_json p) = Some (tp_accessPreset p)"
    using preset by (simp add: policy_json_def required_def)
  moreover have "PolicyBase.extend (PolicyBase.truncate p) \<lparr>tp_accessPreset = tp_accessPreset p\<rparr> = p"
    by (simp add: PolicyBase.extend_def PolicyBase.truncate_def)
  ultimately show ?thesis by (simp add: policySchema_def)
qed

lemma z_members_map:
  "list_all (\<lambda>(k, v). f (g v) = Some v) kvs \<Longrightarrow> z_members f (map (\<lambda>(k, v). (k, g v)) kvs) = Some kvs"
  by (induction kvs) auto

lemma read_write:
  assumes "document_ok datetime d"
  shows "readTrustedToolPolicies datetime (writeTrustedToolPolicies d) = Inr d"
proof -
  have "z_list (policySchema datetime) (JArr (map policy_json (td_policies d))) = Some (td_policies d)"
    unfolding z_list_def json.case
    by (rule z_array_map) (use assms in \<open>auto simp: document_ok_def list_all_iff policy_round_trip\<close>)
  moreover have "z_map (z_int (\<lambda>n. 0 \<le> n)) (JObj (map (\<lambda>(k, n). (k, JNum n)) (td_serverRevisions d)))
      = Some (td_serverRevisions d)"
    unfolding z_map_def json.case
    by (rule z_members_map) (use assms in \<open>auto simp: document_ok_def list_all_iff z_int_def\<close>)
  ultimately have "documentSchema datetime (document_json d) = Some d"
    using assms by (simp add: documentSchema_def document_json_def strict_def version_is_def required_def
        z_int_def document_ok_def)
  then show ?thesis by (simp add: readTrustedToolPolicies_def writeTrustedToolPolicies_def)
qed

lemma base_members_ok:
  assumes "base_members datetime j = Some b" "pr \<noteq> Chat_only"
  shows "policy_ok datetime (PolicyBase.extend b \<lparr>tp_accessPreset = pr\<rparr>)"
proof -
  have use: "pendingUseSchema datetime j = Some u \<Longrightarrow> 0 < tu_sequence u \<and> datetime (tu_usedAt u)" for j u
    by (auto simp: pendingUseSchema_def bind_eq_Some_conv zod_Some split: if_splits)
  have uses: "with_default [] (z_list (pendingUseSchema datetime)) k j = Some us \<Longrightarrow>
      list_all (\<lambda>u. 0 < tu_sequence u \<and> datetime (tu_usedAt u)) us" for k us
    by (auto simp: with_default_Some z_list_Some list_all_iff dest!: z_array_all[OF _ use])
  have nonblank: "required z_nonblank k j = Some s \<Longrightarrow> clean s" for k s
    by (auto simp: required_Some z_nonblank_Some clean_def)
  have nonblanks: "optional z_nonblank k j = Some s \<Longrightarrow> pred_option clean s" for k s
    by (auto simp: optional_Some z_nonblank_Some clean_def)
  have times: "optional (z_string_that datetime) k j = Some s \<Longrightarrow> pred_option datetime s" for k s
    by (auto simp: optional_Some z_string_that_Some)
  have time: "required (z_string_that datetime) k j = Some s \<Longrightarrow> datetime s" for k s
    by (auto simp: required_Some z_string_that_Some)
  have count: "required (z_int (\<lambda>n. 0 \<le> n)) k j = Some n \<Longrightarrow> 0 \<le> n" for k n
    by (auto simp: required_Some z_int_Some)
  from assms(1) show ?thesis
    unfolding base_members_def bind_eq_Some_conv
    by (elim exE conjE)
       (use assms(2) in \<open>auto simp: policy_ok_def PolicyBase.extend_def nonblank nonblanks times time count uses\<close>)
qed

lemma policySchema_ok: "policySchema datetime j = Some p \<Longrightarrow> policy_ok datetime p"
  by (auto simp: policySchema_def bind_eq_Some_conv required_Some fileAccessPresetSchema_def z_enum_Some
      split: if_splits intro!: base_members_ok)

lemma versionTwoPolicySchema_ok:
  "versionTwoPolicySchema datetime j = Some q \<Longrightarrow> \<exists>p. migrate_policy q = [p] \<and> policy_ok datetime p"
proof -
  assume "versionTwoPolicySchema datetime j = Some q"
  then obtain b tool where b: "base_members datetime j = Some b" and tool: "tool \<in> set normalized_tools"
    and q: "q = PolicyBase.extend b \<lparr>tp_normalizedTool = tool\<rparr>"
    by (auto simp: versionTwoPolicySchema_def bind_eq_Some_conv required_Some z_string_that_Some split: if_splits)
  from tool obtain pr where pr: "accessPresetForTool tool = Some pr" "pr \<noteq> Chat_only"
    by (auto simp: normalized_tools_def accessPresetForTool_def)
  then have "migrate_policy q = [PolicyBase.extend b \<lparr>tp_accessPreset = pr\<rparr>]"
    by (simp add: q migrate_policy_def PolicyBase.extend_def PolicyBase.truncate_def)
  with base_members_ok[OF b pr(2)] show ?thesis by simp
qed

lemma migrate_ok:
  assumes "z_list (versionTwoPolicySchema datetime) j = Some qs"
  shows "list_all (policy_ok datetime) (concat (map migrate_policy qs))"
proof -
  from assms have "\<forall>q \<in> set qs. \<exists>p. migrate_policy q = [p] \<and> policy_ok datetime p"
    by (auto simp: z_list_Some dest: z_array_all[OF _ versionTwoPolicySchema_ok])
  then show ?thesis by (induction qs) auto
qed

lemma revisions_ok: "z_map (z_int (\<lambda>n. 0 \<le> n)) j = Some srs \<Longrightarrow> list_all (\<lambda>(k, n). 0 \<le> n) srs"
proof -
  have "z_members (z_int (\<lambda>n. 0 \<le> n)) kvs = Some srs \<Longrightarrow> list_all (\<lambda>(k, n). 0 \<le> n) srs" for kvs
    by (induction kvs arbitrary: srs) (auto split: option.splits simp: z_int_Some)
  then show "z_map (z_int (\<lambda>n. 0 \<le> n)) j = Some srs \<Longrightarrow> list_all (\<lambda>(k, n). 0 \<le> n) srs"
    by (auto simp: z_map_def split: json.splits)
qed

lemma documentSchema_ok: "documentSchema datetime j = Some d \<Longrightarrow> document_ok datetime d"
  by (auto simp: documentSchema_def bind_eq_Some_conv required_Some z_int_Some document_ok_def z_list_Some
      list_all_iff[of "policy_ok datetime"] dest: revisions_ok z_array_all[OF _ policySchema_ok] split: if_splits)

lemma migrated_ok:
  "versionTwoDocumentSchema datetime j = Some d \<Longrightarrow> document_ok datetime (migrateToolPolicies d)"
  "legacyDocumentSchema datetime j = Some (r, qs) \<Longrightarrow>
     document_ok datetime (migrateToolPolicies \<lparr>v2_revision = r, v2_serverRevisions = [], v2_policies = qs\<rparr>)"
  by (auto simp: versionTwoDocumentSchema_def legacyDocumentSchema_def migrateToolPolicies_def bind_eq_Some_conv
      required_Some z_int_Some document_ok_def dest: revisions_ok migrate_ok split: if_splits)

lemma read_ok: "readTrustedToolPolicies datetime file = Inr d \<Longrightarrow> document_ok datetime d"
  by (auto simp: readTrustedToolPolicies_def empty_document_def document_ok_def[of _ "empty_document"]
      split: stored.splits option.splits dest: documentSchema_ok migrated_ok)
     (simp add: document_ok_def)

section \<open>Runs of operations\<close>

datatype trusted_op =
    Op_upsert string string UpsertTrustedToolPolicy
  | Op_revoke string string string "int option"
  | Op_used string string
  | Op_reported string int
  | Op_invalidate string string

definition trusted_step :: "(string \<Rightarrow> bool) \<Rightarrow> filesystem \<Rightarrow> trusted_op \<Rightarrow> stored \<Rightarrow> stored" where
  "trusted_step datetime fs x file =
     (case x of
        Op_upsert now fresh i \<Rightarrow> snd (upsertTrustedToolPolicy datetime fs now fresh i file)
      | Op_revoke now policyId by' rv \<Rightarrow> snd (revokeTrustedToolPolicy datetime now policyId by' rv file)
      | Op_used now policyId \<Rightarrow> snd (markTrustedToolPolicyUsed datetime now policyId file)
      | Op_reported policyId n \<Rightarrow> snd (markTrustedToolPolicyUsesReported datetime policyId n file)
      | Op_invalidate policyId reason \<Rightarrow> snd (invalidateTrustedToolPolicy datetime policyId reason file))"

text \<open>Arguments as the bridge passes them: trimmed texts that are not blank, timestamps, revisions.\<close>

definition upsert_ok :: "(string \<Rightarrow> bool) \<Rightarrow> UpsertTrustedToolPolicy \<Rightarrow> bool" where
  "upsert_ok datetime i =
     (list_all clean [ui_ownerPrincipalId i, ui_ownerDeviceId i, ui_requesterPrincipalId i,
        ui_requesterDeviceId i, ui_createdBy i]
      \<and> pred_option clean (ui_policyId i) \<and> pred_option clean (ui_bridgeInstanceId i)
      \<and> pred_option datetime (ui_createdAt i) \<and> pred_option (\<lambda>n. 0 \<le> n) (ui_serverRevision i)
      \<and> ui_accessPreset i \<noteq> Chat_only)"

definition op_ok :: "(string \<Rightarrow> bool) \<Rightarrow> trusted_op \<Rightarrow> bool" where
  "op_ok datetime x =
     (case x of
        Op_upsert now fresh i \<Rightarrow> datetime now \<and> clean (''ttp_'' @ fresh) \<and> upsert_ok datetime i
      | Op_revoke now policyId by' rv \<Rightarrow> datetime now \<and> clean by' \<and> pred_option (\<lambda>n. 0 \<le> n) rv
      | Op_used now policyId \<Rightarrow> datetime now
      | Op_reported policyId n \<Rightarrow> True
      | Op_invalidate policyId reason \<Rightarrow> clean reason)"

text \<open>The folders of this file system have names without leading or trailing blanks.\<close>

definition clean_folders :: "filesystem \<Rightarrow> bool" where
  "clean_folders fs = (\<forall>p r. fs_realpath fs p = Real r \<longrightarrow> clean r)"

lemma find_index_Some: "find_index P xs = Some i \<Longrightarrow> i < length xs \<and> P (xs ! i) \<and> (\<forall>j<i. \<not> P (xs ! j))"
proof (induction xs arbitrary: i)
  case (Cons x xs)
  then show ?case by (cases i) (auto split: if_splits simp: less_Suc_eq_0_disj)
qed simp

lemma find_index_None: "find_index P xs = None \<longleftrightarrow> (\<forall>x \<in> set xs. \<not> P x)"
  by (induction xs) auto

text \<open>What an operation does to a document that is read.\<close>

inductive document_step :: "TrustedToolPolicyDocument \<Rightarrow> TrustedToolPolicyDocument \<Rightarrow> bool" where
  idle: "document_step d d"
| grant: "tp_status p = Policy_active \<Longrightarrow> tp_useCount p = 0 \<Longrightarrow> tp_pendingUses p = [] \<Longrightarrow>
    (\<And>n. map_of (td_serverRevisions d) k = Some n \<Longrightarrow> n \<le> r) \<Longrightarrow>
    srs = td_serverRevisions d \<or> srs = AList.update k r (td_serverRevisions d) \<Longrightarrow>
    document_step d \<lparr>td_revision = td_revision d + 1, td_serverRevisions = srs, td_policies = td_policies d @ [p]\<rparr>"
| advance: "(\<And>n. map_of (td_serverRevisions d) k = Some n \<Longrightarrow> n \<le> r) \<Longrightarrow>
    document_step d (d\<lparr>td_revision := td_revision d + 1, td_serverRevisions := AList.update k r (td_serverRevisions d)\<rparr>)"
| revoke: "i < length (td_policies d) \<Longrightarrow> tp_status (td_policies d ! i) = Policy_active \<Longrightarrow>
    (\<And>n. map_of (td_serverRevisions d) k = Some n \<Longrightarrow> n \<le> r) \<Longrightarrow>
    document_step d \<lparr>td_revision = td_revision d + 1, td_serverRevisions = AList.update k r (td_serverRevisions d),
      td_policies = (td_policies d)[i := (td_policies d ! i)
        \<lparr>tp_status := Policy_revoked, tp_revokedAt := Some now, tp_revokedBy := Some by'\<rparr>]\<rparr>"
| used: "i < length (td_policies d) \<Longrightarrow> p = td_policies d ! i \<Longrightarrow>
    document_step d (d\<lparr>td_revision := td_revision d + 1, td_policies := (td_policies d)[i :=
      p\<lparr>tp_lastUsedAt := Some now, tp_useCount := tp_useCount p + 1,
        tp_pendingUses := tp_pendingUses p @ [\<lparr>tu_sequence = tp_useCount p + 1, tu_usedAt = now\<rparr>]\<rparr>]\<rparr>)"
| reported: "i < length (td_policies d) \<Longrightarrow>
    document_step d (d\<lparr>td_revision := td_revision d + 1, td_policies := (td_policies d)[i :=
      (td_policies d ! i)\<lparr>tp_pendingUses := filter (\<lambda>u. n < tu_sequence u) (tp_pendingUses (td_policies d ! i))\<rparr>]\<rparr>)"
| invalidate: "i < length (td_policies d) \<Longrightarrow>
    document_step d (d\<lparr>td_revision := td_revision d + 1, td_policies := (td_policies d)[i :=
      (td_policies d ! i)\<lparr>tp_status := Policy_invalid, tp_pendingUses := [], tp_invalidatedReason := Some reason\<rparr>]\<rparr>)"

lemma policies_update_ok:
  "document_ok datetime d \<Longrightarrow> i < length (td_policies d) \<Longrightarrow> policy_ok datetime p \<Longrightarrow>
   list_all (policy_ok datetime) ((td_policies d)[i := p])"
  by (auto simp: document_ok_def list_all_iff dest!: set_update_subset_insert[THEN subsetD])

lemma nth_policy_ok: "document_ok datetime d \<Longrightarrow> i < length (td_policies d) \<Longrightarrow> policy_ok datetime (td_policies d ! i)"
  by (simp add: document_ok_def list_all_length)

lemma revisions_update_ok:
  "list_all (\<lambda>(k, n). 0 \<le> n) srs \<Longrightarrow> 0 \<le> (r::int) \<Longrightarrow> list_all (\<lambda>(k, n). 0 \<le> n) (AList.update k r srs)"
  by (induction srs) auto

lemma canonical_clean: "clean_folders fs \<Longrightarrow> canonicalizePolicyFolder fs f = Inr r \<Longrightarrow> clean r"
  by (auto simp: canonicalizePolicyFolder_def clean_folders_def split: realpath_result.splits if_splits)

text \<open>\<open>steps_to\<close>: the operation leaves the file or writes the result of a document step.\<close>

definition steps_to :: "(string \<Rightarrow> bool) \<Rightarrow> TrustedToolPolicyDocument \<Rightarrow> stored \<Rightarrow> stored \<Rightarrow> bool" where
  "steps_to datetime d file file' =
     (file' = file \<or> (\<exists>d'. file' = writeTrustedToolPolicies d' \<and> document_step d d' \<and> document_ok datetime d'))"

lemma upsert_steps:
  assumes read: "readTrustedToolPolicies datetime file = Inr d" and "op_ok datetime (Op_upsert now fresh i)" "clean_folders fs"
  shows "steps_to datetime d file (snd (upsertTrustedToolPolicy datetime fs now fresh i file))"
proof (cases "snd (upsertTrustedToolPolicy datetime fs now fresh i file) = file")
  case False
  let ?sr = "or_else (ui_serverRevision i) 0"
  let ?srs = "if truthy (ui_policyId i) then AList.update (the (ui_policyId i)) ?sr (td_serverRevisions d) else td_serverRevisions d"
  note def = upsertTrustedToolPolicy_def
  from False have scope: "\<not> (ui_scope i = Bridge_run \<and> \<not> truthy (ui_bridgeInstanceId i))"
    by (simp add: def split: if_splits)
  with False obtain f where f: "canonicalizePolicyFolder fs (ui_folder i) = Inr f"
    by (cases "canonicalizePolicyFolder fs (ui_folder i)") (simp_all add: def)
  from False have ns: "\<not> (map_of (td_serverRevisions d) (or_else (ui_policyId i) []) \<noteq> None
      \<and> ?sr < the (map_of (td_serverRevisions d) (or_else (ui_policyId i) [])))"
    by (simp add: def scope f read Let_def split: if_splits)
  then have stale: "\<And>n. map_of (td_serverRevisions d) (or_else (ui_policyId i) []) = Some n \<Longrightarrow> n \<le> ?sr"
    by force
  from False have new: "\<not> (map_of (td_serverRevisions d) (or_else (ui_policyId i) []) = Some ?sr \<and> truthy (ui_policyId i))"
    by (simp add: def scope f read Let_def split: if_splits option.splits)
  from False have w: "snd (upsertTrustedToolPolicy datetime fs now fresh i file) = writeTrustedToolPolicies
        \<lparr>td_revision = td_revision d + 1, td_serverRevisions = ?srs,
         td_policies = td_policies d @ [granted_policy now fresh i f]\<rparr>"
    unfolding def read f sum.case Let_def if_not_P[OF scope] if_not_P[OF ns] if_not_P[OF new]
    by (cases "List.find (same_grant i f) (td_policies d)") simp_all
  let ?d' = "\<lparr>td_revision = td_revision d + 1, td_serverRevisions = ?srs,
         td_policies = td_policies d @ [granted_policy now fresh i f]\<rparr>"
  have "document_step d ?d'"
    by (rule document_step.grant[where k = "or_else (ui_policyId i) []" and r = ?sr])
       (use stale in \<open>auto simp: granted_policy_def truthy_def split: option.splits\<close>)
  moreover have "policy_ok datetime (granted_policy now fresh i f)"
    using assms(2) canonical_clean[OF assms(3) f]
    by (cases "ui_policyId i"; cases "ui_createdAt i"; cases "ui_bridgeInstanceId i")
       (auto simp: policy_ok_def granted_policy_def op_ok_def upsert_ok_def)
  moreover have "0 \<le> ?sr" using assms(2) by (cases "ui_serverRevision i") (auto simp: op_ok_def upsert_ok_def)
  ultimately have "document_ok datetime ?d'"
    using read_ok[OF read] by (auto simp: document_ok_def revisions_update_ok)
  with \<open>document_step d ?d'\<close> w show ?thesis by (auto simp: steps_to_def)
qed (simp add: steps_to_def)

lemma revoke_steps:
  assumes read: "readTrustedToolPolicies datetime file = Inr d" and "op_ok datetime (Op_revoke now policyId by' rv)"
  shows "steps_to datetime d file (snd (revokeTrustedToolPolicy datetime now policyId by' rv file))"
proof (cases "snd (revokeTrustedToolPolicy datetime now policyId by' rv file) = file")
  case False
  let ?sr = "or_else rv (or_else (map_of (td_serverRevisions d) policyId) 0)"
  let ?srs = "AList.update policyId ?sr (td_serverRevisions d)"
  note ok = read_ok[OF read]
  have "0 \<le> or_else (map_of (td_serverRevisions d) policyId) 0"
    using ok by (cases "map_of (td_serverRevisions d) policyId") (auto simp: document_ok_def list_all_iff dest: map_of_SomeD)
  then have sr: "0 \<le> ?sr" using assms(2) by (cases rv) (auto simp: op_ok_def)
  with ok have srs: "list_all (\<lambda>(k, n). 0 \<le> n) ?srs" by (simp add: document_ok_def revisions_update_ok)
  from False have stale: "\<And>n. map_of (td_serverRevisions d) policyId = Some n \<Longrightarrow> n \<le> ?sr"
    by (auto simp: revokeTrustedToolPolicy_def read Let_def split: if_splits)
  show ?thesis
  proof (cases "with_policy policyId d")
    case None
    let ?d' = "d\<lparr>td_revision := td_revision d + 1, td_serverRevisions := ?srs\<rparr>"
    from None False have "snd (revokeTrustedToolPolicy datetime now policyId by' rv file) = writeTrustedToolPolicies ?d'"
      by (auto simp: revokeTrustedToolPolicy_def read Let_def split: if_splits)
    moreover have "document_step d ?d'" by (rule document_step.advance) (rule stale)
    moreover have "document_ok datetime ?d'" using ok srs by (simp add: document_ok_def)
    ultimately show ?thesis by (auto simp: steps_to_def)
  next
    case (Some k)
    let ?p = "(td_policies d ! k)\<lparr>tp_status := Policy_revoked, tp_revokedAt := Some now, tp_revokedBy := Some by'\<rparr>"
    let ?d' = "\<lparr>td_revision = td_revision d + 1, td_serverRevisions = ?srs, td_policies = (td_policies d)[k := ?p]\<rparr>"
    from Some have k: "k < length (td_policies d)" by (auto simp: with_policy_def dest: find_index_Some)
    from Some False have act: "tp_status (td_policies d ! k) = Policy_active"
      and w: "snd (revokeTrustedToolPolicy datetime now policyId by' rv file) = writeTrustedToolPolicies ?d'"
      by (auto simp: revokeTrustedToolPolicy_def read Let_def split: if_splits)
    have "document_step d ?d'" by (rule document_step.revoke[OF k act stale])
    moreover have "policy_ok datetime ?p"
      using nth_policy_ok[OF ok k] assms(2) by (auto simp: policy_ok_def op_ok_def)
    then have "document_ok datetime ?d'"
      using policies_update_ok[OF ok k] ok srs by (simp add: document_ok_def)
    ultimately show ?thesis using w by (auto simp: steps_to_def)
  qed
qed (simp add: steps_to_def)

lemma policy_steps:
  assumes "document_ok datetime d" "i < length (td_policies d)" "policy_ok datetime p"
    and "document_step d (d\<lparr>td_revision := td_revision d + 1, td_policies := (td_policies d)[i := p]\<rparr>)"
  shows "steps_to datetime d file
      (writeTrustedToolPolicies (d\<lparr>td_revision := td_revision d + 1, td_policies := (td_policies d)[i := p]\<rparr>))"
proof -
  let ?d' = "d\<lparr>td_revision := td_revision d + 1, td_policies := (td_policies d)[i := p]\<rparr>"
  have "document_ok datetime ?d'" using assms(1) policies_update_ok[OF assms(1-3)] by (simp add: document_ok_def)
  with assms(4) show ?thesis unfolding steps_to_def by blast
qed

lemma used_steps:
  assumes read: "readTrustedToolPolicies datetime file = Inr d" and "op_ok datetime (Op_used now policyId)"
  shows "steps_to datetime d file (snd (markTrustedToolPolicyUsed datetime now policyId file))"
proof (cases "find_index (\<lambda>p. tp_policyId p = policyId \<and> tp_status p = Policy_active) (td_policies d)")
  case (Some i)
  then have i: "i < length (td_policies d)" by (auto dest: find_index_Some)
  show ?thesis
    unfolding markTrustedToolPolicyUsed_def read Some sum.case option.case Let_def snd_conv
    by (rule policy_steps[OF read_ok[OF read] i _ document_step.used[OF i refl]])
       (use nth_policy_ok[OF read_ok[OF read] i] assms(2) in \<open>auto simp: policy_ok_def op_ok_def\<close>)
qed (simp add: markTrustedToolPolicyUsed_def read steps_to_def)

lemma reported_steps:
  assumes read: "readTrustedToolPolicies datetime file = Inr d"
  shows "steps_to datetime d file (snd (markTrustedToolPolicyUsesReported datetime policyId n file))"
proof (cases "with_policy policyId d")
  case (Some i)
  then have i: "i < length (td_policies d)" by (auto simp: with_policy_def dest: find_index_Some)
  let ?us = "filter (\<lambda>u. n < tu_sequence u) (tp_pendingUses (td_policies d ! i))"
  show ?thesis
  proof (cases "length ?us = length (tp_pendingUses (td_policies d ! i))")
    case False
    then show ?thesis
      unfolding markTrustedToolPolicyUsesReported_def read Some sum.case option.case Let_def if_not_P[OF False] snd_conv
      by (intro policy_steps[OF read_ok[OF read] i _ document_step.reported[OF i]])
         (use nth_policy_ok[OF read_ok[OF read] i] in \<open>auto simp: policy_ok_def list_all_iff\<close>)
  qed (simp add: markTrustedToolPolicyUsesReported_def read Some steps_to_def)
qed (simp add: markTrustedToolPolicyUsesReported_def read steps_to_def)

lemma invalidate_steps:
  assumes read: "readTrustedToolPolicies datetime file = Inr d" and "op_ok datetime (Op_invalidate policyId reason)"
  shows "steps_to datetime d file (snd (invalidateTrustedToolPolicy datetime policyId reason file))"
proof (cases "with_policy policyId d")
  case (Some i)
  then have i: "i < length (td_policies d)" by (auto simp: with_policy_def dest: find_index_Some)
  show ?thesis
    unfolding invalidateTrustedToolPolicy_def read Some sum.case option.case snd_conv
    by (rule policy_steps[OF read_ok[OF read] i _ document_step.invalidate[OF i]])
       (use nth_policy_ok[OF read_ok[OF read] i] assms(2) in \<open>auto simp: policy_ok_def op_ok_def\<close>)
qed (simp add: invalidateTrustedToolPolicy_def read steps_to_def)

lemma trusted_steps:
  assumes "readTrustedToolPolicies datetime file = Inr d" "op_ok datetime x" "clean_folders fs"
  shows "\<exists>d'. readTrustedToolPolicies datetime (trusted_step datetime fs x file) = Inr d' \<and> document_step d d'"
proof -
  have "steps_to datetime d file (trusted_step datetime fs x file)"
    using assms
    by (cases x) (simp_all add: trusted_step_def upsert_steps revoke_steps used_steps reported_steps invalidate_steps)
  then show ?thesis using assms(1) document_step.idle read_write by (fastforce simp: steps_to_def)
qed

inductive_cases document_stepE: "document_step d d'"

lemma trusted_run:
  assumes "readTrustedToolPolicies datetime f = Inr d" "list_all (op_ok datetime) xs" "clean_folders fs"
  shows "\<exists>d'. readTrustedToolPolicies datetime (fold (trusted_step datetime fs) xs f) = Inr d' \<and> document_step\<^sup>*\<^sup>* d d'"
  using assms(1,2)
proof (induction xs arbitrary: f d)
  case (Cons x xs)
  from Cons.prems obtain d1 where "readTrustedToolPolicies datetime (trusted_step datetime fs x f) = Inr d1"
      "document_step d d1"
    using trusted_steps[OF Cons.prems(1) _ assms(3), of x] by auto
  with Cons.IH[of "trusted_step datetime fs x f" d1] Cons.prems(2) show ?case
    by (auto intro: converse_rtranclp_into_rtranclp)
qed auto

lemma revision_step:
  assumes "document_step d d'" "map_of (td_serverRevisions d) k = Some n"
  shows "\<exists>m. map_of (td_serverRevisions d') k = Some m \<and> n \<le> m"
  using assms by (auto elim!: document_stepE simp: update_conv')

lemma revision_run:
  assumes "document_step\<^sup>*\<^sup>* d d'" "map_of (td_serverRevisions d) k = Some n"
  shows "\<exists>m. map_of (td_serverRevisions d') k = Some m \<and> n \<le> m"
  using assms
proof (induction rule: rtranclp_induct)
  case (step d1 d2)
  then obtain m where "map_of (td_serverRevisions d1) k = Some m" "n \<le> m" by blast
  with revision_step[OF step.hyps(2)] show ?case by (meson order_trans)
qed blast

text \<open>The uses not yet reported are the last ones, numbered without a gap.\<close>

definition usage_ok :: "TrustedToolPolicy \<Rightarrow> bool" where
  "usage_ok p = (\<exists>k. 0 \<le> k \<and> k \<le> tp_useCount p \<and> map tu_sequence (tp_pendingUses p) = [k + 1..tp_useCount p])"

lemma filter_upto: "filter (\<lambda>i. n < i) [a..b] = [max a (n + 1)..(b::int)]"
proof (induction a b rule: upto.induct)
  case (1 a b)
  show ?case
  proof (cases "a \<le> b")
    case True
    show ?thesis
    proof (cases "n < a")
      case True
      then have "max a (n + 1) = a" "max (a + 1) (n + 1) = a + 1" by simp_all
      with True \<open>a \<le> b\<close> 1 show ?thesis by (simp add: upto_rec1)
    next
      case False
      with \<open>a \<le> b\<close> 1 show ?thesis by (simp add: upto_rec1 max_def)
    qed
  qed simp
qed

lemma usage_filter:
  assumes "map tu_sequence us = [k + 1..c]"
  shows "map tu_sequence (filter (\<lambda>u. n < tu_sequence u) us) = [max k n + 1..c]"
proof -
  have "map tu_sequence (filter (\<lambda>u. n < tu_sequence u) us) = filter (\<lambda>i. n < i) (map tu_sequence us)"
    by (simp add: filter_map o_def)
  also have "\<dots> = [max k n + 1..c]"
    unfolding assms filter_upto by (simp add: max_def)
  finally show ?thesis .
qed

lemma usage_step:
  assumes "document_step d d'" "\<forall>p \<in> set (td_policies d). usage_ok p"
  shows "\<forall>p \<in> set (td_policies d'). usage_ok p"
proof -
  have upd: "\<forall>p \<in> set ((td_policies d)[i := q]). usage_ok p" if "usage_ok q" for i q
    using assms(2) that by (auto dest!: set_update_subset_insert[THEN subsetD])
  have at: "usage_ok (td_policies d ! i)" if "i < length (td_policies d)" for i
    using assms(2) that by simp
  show ?thesis
    using assms(1)
  proof (cases rule: document_step.cases)
    case (grant p k r srs)
    then have "usage_ok p" by (auto simp: usage_ok_def)
    with grant assms(2) show ?thesis by auto
  next
    case (revoke i k r now by')
    with at[of i] have "usage_ok ((td_policies d ! i)
        \<lparr>tp_status := Policy_revoked, tp_revokedAt := Some by', tp_revokedBy := Some now\<rparr>)"
      by (simp add: usage_ok_def)
    from upd[OF this, of i] revoke(1) show ?thesis by simp
  next
    case (used i p now)
    with at[of i] obtain k where "0 \<le> k" "k \<le> tp_useCount p" "map tu_sequence (tp_pendingUses p) = [k + 1..tp_useCount p]"
      by (auto simp: usage_ok_def)
    then have "usage_ok (p\<lparr>tp_lastUsedAt := Some now, tp_useCount := tp_useCount p + 1,
        tp_pendingUses := tp_pendingUses p @ [\<lparr>tu_sequence = tp_useCount p + 1, tu_usedAt = now\<rparr>]\<rparr>)"
      unfolding usage_ok_def by (intro exI[of _ k]) (simp add: upto_rec2)
    from upd[OF this, of i] used(1) show ?thesis by simp
  next
    case (reported i n)
    with at[of i] obtain k where k: "0 \<le> k" "k \<le> tp_useCount (td_policies d ! i)"
        "map tu_sequence (tp_pendingUses (td_policies d ! i)) = [k + 1..tp_useCount (td_policies d ! i)]"
      by (auto simp: usage_ok_def)
    let ?p = "(td_policies d ! i)\<lparr>tp_pendingUses := filter (\<lambda>u. n < tu_sequence u) (tp_pendingUses (td_policies d ! i))\<rparr>"
    have "usage_ok ?p"
      unfolding usage_ok_def
      by (intro exI[of _ "min (max k n) (tp_useCount (td_policies d ! i))"])
         (use k in \<open>auto simp: usage_filter[OF k(3)] min_def max_def\<close>)
    from upd[OF this, of i] reported(1) show ?thesis by simp
  next
    case (invalidate i reason)
    have "usage_ok ((td_policies d ! i)
        \<lparr>tp_status := Policy_invalid, tp_pendingUses := [], tp_invalidatedReason := Some reason\<rparr>)"
      using at[OF invalidate(2)] unfolding usage_ok_def
      by (intro exI[of _ "tp_useCount (td_policies d ! i)"]) auto
    from upd[OF this, of i] invalidate(1) show ?thesis by simp
  qed (use assms(2) in auto)
qed

lemma usage_run:
  "document_step\<^sup>*\<^sup>* d d' \<Longrightarrow> \<forall>p \<in> set (td_policies d). usage_ok p \<Longrightarrow> \<forall>p \<in> set (td_policies d'). usage_ok p"
  by (induction rule: rtranclp_induct) (auto dest: usage_step)

end
