(* ===== verification/Relationship_Policy.thy ===== *)
theory Relationship_Policy
  imports Mcp_Grants Trusted_Tools Contracts
begin

text \<open>
  The relationship policy (\<^verbatim>\<open>src/security/relationship-policy.ts\<close>): which tools and
  folders a verified collaborator's device may use, the selection of projects by a
  delegated task, and the decision on every tool action. The policy file and the trusted
  tool file are \<open>stored\<close> contents; what the code asks of its environment (file system,
  URL parser, locale order, timestamp test) is the record \<open>policy_env\<close>. An exception is
  \<open>Inl\<close> of its text.
\<close>

record policy_env =
  pe_fs :: filesystem
  pe_url :: "string \<Rightarrow> URL option"
  pe_le :: "string \<Rightarrow> string \<Rightarrow> bool"
  pe_datetime :: "string \<Rightarrow> bool"

abbreviation real_of :: "policy_env \<Rightarrow> string \<Rightarrow> realpath_result" where
  "real_of E \<equiv> fs_realpath (pe_fs E)"

section \<open>The document\<close>

record RelationshipEntry =
  re_principalId :: string
  re_deviceId :: string
  re_tools :: "string list"
  re_folders :: "string list"
  re_mcpServers :: "RemoteMcpGrant list option"

definition relationshipSchema :: "policy_env \<Rightarrow> json \<Rightarrow> RelationshipEntry option" where
  "relationshipSchema E j =
     (if \<not> strict [''principalId'', ''deviceId'', ''tools'', ''folders'', ''mcpServers''] j then None else do {
        p \<leftarrow> required z_nonblank ''principalId'' j;
        d \<leftarrow> required z_nonblank ''deviceId'' j;
        ts \<leftarrow> with_default [] (z_list z_nonblank) ''tools'' j;
        fs \<leftarrow> with_default [] (z_list z_nonblank) ''folders'' j;
        m \<leftarrow> optional (remoteMcpGrantsSchema (pe_url E)) ''mcpServers'' j;
        Some \<lparr>re_principalId = p, re_deviceId = d, re_tools = ts, re_folders = fs, re_mcpServers = m\<rparr>
      })"

definition relationshipsSchema :: "policy_env \<Rightarrow> json \<Rightarrow> RelationshipEntry list option" where
  "relationshipsSchema E j =
     (if \<not> strict [''version'', ''relationships''] j \<or> \<not> version_is 1 j then None
      else required (z_list (relationshipSchema E)) ''relationships'' j)"

definition entry_json :: "RelationshipEntry \<Rightarrow> json" where
  "entry_json r = JObj ([(''principalId'', JStr (re_principalId r)), (''deviceId'', JStr (re_deviceId r)),
      (''tools'', JArr (map JStr (re_tools r))), (''folders'', JArr (map JStr (re_folders r)))]
     @ opt_field ''mcpServers'' grants_json (re_mcpServers r))"

definition readPolicyDocument :: "policy_env \<Rightarrow> stored \<Rightarrow> string + RelationshipEntry list" where
  "readPolicyDocument E file =
     (case file of
        Absent \<Rightarrow> Inr []
      | Unreadable \<Rightarrow> Inl ''Could not read relationship policy''
      | Holds raw \<Rightarrow> (case relationshipsSchema E raw of
            Some rs \<Rightarrow> Inr rs | None \<Rightarrow> Inl ''Invalid relationship policy''))"

definition writePolicyDocument :: "RelationshipEntry list \<Rightarrow> stored" where
  "writePolicyDocument rs = Holds (JObj [(''version'', JNum 1), (''relationships'', JArr (map entry_json rs))])"

section \<open>Tools and paths\<close>

definition PATH_INPUTS :: "(string \<times> string) list" where
  "PATH_INPUTS = [(''Read'', ''file_path''), (''Glob'', ''path''), (''Grep'', ''path''), (''Write'', ''file_path''),
     (''Edit'', ''file_path''), (''NotebookEdit'', ''notebook_path''), (''GitStatus'', ''repository''),
     (''GitDiff'', ''repository''), (''GitLog'', ''repository''), (''GitAdd'', ''repository''),
     (''GitCommit'', ''repository'')]"

definition WRITE_TOOLS :: "string list" where
  "WRITE_TOOLS = [''Write'', ''Edit'', ''NotebookEdit'', ''GitAdd'', ''GitCommit'']"

definition supported_tool :: "string \<Rightarrow> bool" where
  "supported_tool tool = (tool \<in> set (map fst PATH_INPUTS))"

definition CREDENTIAL_PATH_SEGMENTS :: "string list" where
  "CREDENTIAL_PATH_SEGMENTS =
     [''.aws'', ''.azure'', ''.config/gcloud'', ''.docker'', ''.gnupg'', ''.kube'', ''.ssh'']"

definition CREDENTIAL_FILE_NAMES :: "string list" where
  "CREDENTIAL_FILE_NAMES = [''.env'', ''.env.local'', ''.env.production'', ''.npmrc'', ''.netrc'', ''credentials'']"

definition EXECUTION_ON_NEXT_USE_PATHS :: "string list" where
  "EXECUTION_ON_NEXT_USE_PATHS =
     [''.gitattributes'', ''.git/config'', ''.git/hooks'', ''.vscode/tasks.json'', ''Makefile'', ''package.json'']"

definition isExecutionOnNextUsePath :: "string \<Rightarrow> bool" where
  "isExecutionOnNextUsePath p =
     list_ex (\<lambda>d. suffix (''/'' @ d) p \<or> p = d) EXECUTION_ON_NEXT_USE_PATHS"

text \<open>The segments of a credential path, consecutive anywhere in the path; or a tail of it.\<close>

definition dangerousPathDecision :: "string \<Rightarrow> string \<Rightarrow> string option" where
  "dangerousPathDecision toolName candidate =
     (let segments = filter (\<lambda>s. s \<noteq> []) (split_slash candidate);
          at = (\<lambda>parts i. i + length parts \<le> length segments \<and> take (length parts) (drop i segments) = parts);
          fileName = basename candidate
      in if list_ex (\<lambda>credential. list_ex (at (split_slash credential)) [0..<Suc (length segments)])
              CREDENTIAL_PATH_SEGMENTS
         then Some ''Credential paths cannot be accessed by a remote relationship''
         else if list_ex (\<lambda>i. join ''/'' (drop i segments) \<in> set CREDENTIAL_PATH_SEGMENTS) [0..<length segments]
         then Some ''Credential paths cannot be accessed by a remote relationship''
         else if fileName \<in> set CREDENTIAL_FILE_NAMES \<or> prefix ''.env.'' fileName
         then Some ''Credential files cannot be accessed by a remote relationship''
         else if toolName \<in> {''Write'', ''Edit'', ''NotebookEdit''} \<and> isExecutionOnNextUsePath candidate
         then Some ''Execution-on-next-use files cannot be modified by a remote relationship''
         else None)"

definition dangerousSandboxPaths :: "policy_env \<Rightarrow> string list \<Rightarrow> bool \<Rightarrow> string list option" where
  "dangerousSandboxPaths E folders writing =
     map_option (\<lambda>home. sort (js_set (concat (map (\<lambda>folder.
           map (\<lambda>c. path_join (folder # split_slash c)) CREDENTIAL_PATH_SEGMENTS
           @ map (\<lambda>c. path_join [folder, c]) CREDENTIAL_FILE_NAMES
           @ (if writing then map (\<lambda>d. path_join (folder # split_slash d)) EXECUTION_ON_NEXT_USE_PATHS else []))
          folders)
        @ map (\<lambda>c. path_join (home # split_slash c)) CREDENTIAL_PATH_SEGMENTS
        @ map (\<lambda>c. path_join [home, c]) CREDENTIAL_FILE_NAMES)))
       (canonicalPath (real_of E) (fs_home (pe_fs E)))"

definition searchPatternEscapesBoundary :: "string \<Rightarrow> (string \<times> json) list \<Rightarrow> bool" where
  "searchPatternEscapesBoundary toolName input =
     (let value = (if toolName = ''Glob'' then map_of input ''pattern''
                   else if toolName = ''Grep'' then map_of input ''glob'' else None)
      in case value of
           Some (JStr s) \<Rightarrow>
             (let portable = map (\<lambda>c. if c = CHR 0x5C then slash else c) s
              in prefix ''/'' portable
                 \<or> (3 \<le> length portable \<and> (in_chars CHR ''a'' CHR ''z'' (portable ! 0) \<or> in_chars CHR ''A'' CHR ''Z'' (portable ! 0))
                    \<and> portable ! 1 = CHR '':'' \<and> portable ! 2 = slash)
                 \<or> ''..'' \<in> set (split_slash portable))
         | _ \<Rightarrow> False)"

section \<open>Selecting projects\<close>

definition task_of :: "MessageEnvelope option \<Rightarrow> json option" where
  "task_of message = (case message of None \<Rightarrow> None | Some m \<Rightarrow> map_of (me_payload m) ''task'')"

definition invalid_selection :: string where
  "invalid_selection = CHR 0x00 # ''invalid-project-selection''"

definition selector_text :: "json \<Rightarrow> string option" where
  "selector_text j = (case j of JStr s \<Rightarrow> if trim s \<noteq> [] \<and> length s \<le> 1024 then Some (trim s) else None | _ \<Rightarrow> None)"

definition projectAccessSelectors :: "MessageEnvelope option \<Rightarrow> string list" where
  "projectAccessSelectors message =
     (case task_of message of
        Some (JObj kvs) \<Rightarrow>
          (case map_of kvs ''projectAccessIds'' of
             Some selectors \<Rightarrow>
               (case selectors of
                  JArr js \<Rightarrow> (if js = [] \<or> 16 < length js then [invalid_selection]
                    else case z_array selector_text js of
                           None \<Rightarrow> [invalid_selection] | Some ss \<Rightarrow> sort (js_set ss))
                | _ \<Rightarrow> [invalid_selection])
           | None \<Rightarrow>
          (case map_of kvs ''projectAccessId'' of
             None \<Rightarrow> []
           | Some selector \<Rightarrow> (case selector_text selector of None \<Rightarrow> [invalid_selection] | Some s \<Rightarrow> [s])))
      | _ \<Rightarrow> [])"

definition projectAccessSelector :: "MessageEnvelope option \<Rightarrow> string option" where
  "projectAccessSelector message =
     (let selectors = projectAccessSelectors message
      in if length selectors = 1 then Some (hd selectors) else None)"

definition lower :: "char \<Rightarrow> char" where
  "lower c = (if in_chars CHR ''A'' CHR ''Z'' c then char_of ((of_char c :: nat) + 32) else c)"

definition toLowerCase :: "string \<Rightarrow> string" where
  "toLowerCase s = map lower s"

definition word_char :: "char \<Rightarrow> bool" where
  "word_char c = (alnum c \<or> c = CHR ''_'')"

text \<open>An occurrence of \<open>w\<close> at position \<open>i\<close> with no character of \<open>W\<close> next to it.\<close>

definition occurs_at :: "(char \<Rightarrow> bool) \<Rightarrow> string \<Rightarrow> string \<Rightarrow> nat \<Rightarrow> bool" where
  "occurs_at W text w i =
     (prefix w (drop i text) \<and> (i = 0 \<or> \<not> W (text ! (i - 1)))
      \<and> (i + length w = length text \<or> \<not> W (text ! (i + length w))))"

definition occurs :: "(char \<Rightarrow> bool) \<Rightarrow> string \<Rightarrow> string \<Rightarrow> bool" where
  "occurs W text w = list_ex (occurs_at W text w) [0..<Suc (length text)]"

definition action_words :: "string list" where
  "action_words = [''summarize'', ''summarise'', ''inspect'', ''review'', ''analyze'', ''analyse'', ''explain'',
     ''describe'', ''read'', ''check'', ''compare'', ''modify'', ''edit'', ''fix'', ''test'', ''build'', ''run'']"

definition resource_words :: "string list" where
  "resource_words = [''project'', ''repository'', ''repo'', ''codebase'', ''source'', ''file'', ''files'', ''folder'',
     ''folders'', ''readme'', ''implementation'', ''git'', ''branch'', ''diff'']"

definition taskRequiresProjectAccess :: "MessageEnvelope option \<Rightarrow> bool" where
  "taskRequiresProjectAccess message =
     (case message of None \<Rightarrow> False
      | Some m \<Rightarrow>
         if me_kind m \<noteq> Task_invite then False
         else if projectAccessSelectors message \<noteq> [] then True
         else case (case task_of message of
                      Some (JStr s) \<Rightarrow> Some (JStr s) | Some (JObj kvs) \<Rightarrow> map_of kvs ''text'' | _ \<Rightarrow> None) of
                Some (JStr text) \<Rightarrow>
                  (if trim text = [] then False
                   else (let normalized = toLowerCase text
                         in list_ex (occurs word_char normalized) action_words
                            \<and> list_ex (occurs word_char normalized) resource_words))
              | _ \<Rightarrow> False)"

definition objective_char :: "char \<Rightarrow> bool" where
  "objective_char c = (in_chars CHR ''a'' CHR ''z'' c \<or> is_digit c \<or> c = CHR ''_'')"

definition objectiveNamesProject :: "string \<Rightarrow> string \<Rightarrow> bool" where
  "objectiveNamesProject objective projectName = occurs objective_char objective projectName"

definition objectivePreflightProjects :: "MessageEnvelope option \<Rightarrow> string list \<Rightarrow> string list" where
  "objectivePreflightProjects message availableFolders =
     (case message of None \<Rightarrow> []
      | Some m \<Rightarrow>
         if me_kind m \<noteq> Task_invite \<or> length availableFolders < 2 then []
         else case task_of message of
                Some (JObj kvs) \<Rightarrow>
                  (case map_of kvs ''text'' of
                     Some (JStr text) \<Rightarrow>
                       (if trim text = [] then []
                        else (let objective = toLowerCase text;
                                  name = (\<lambda>folder. toLowerCase (basename folder))
                              in sort (js_set (
                                   filter (\<lambda>f. objectiveNamesProject objective (toLowerCase f)) availableFolders
                                   @ filter (\<lambda>f. 3 \<le> length (name f)
                                        \<and> length (filter (\<lambda>g. name g = name f) availableFolders) = 1
                                        \<and> objectiveNamesProject objective (name f)) availableFolders))))
                   | _ \<Rightarrow> [])
              | _ \<Rightarrow> [])"

section \<open>The policy in force\<close>

record CompiledRelationship =
  cr_principalId :: string
  cr_deviceId :: string
  cr_tools :: "string list"
  cr_folders :: "string list"
  cr_mcpServers :: "RemoteMcpGrant list"

record RelationshipPolicyOptions =
  po_trustedToolPolicyFile :: "string option"
  po_ownerPrincipalId :: "string option"
  po_ownerDeviceId :: "string option"
  po_bridgeInstanceId :: "string option"

record RelationshipPolicy =
  rp_relationships :: "CompiledRelationship list"
  rp_cwd :: string
  rp_policyFile :: string
  rp_trustedToolPolicyFile :: "string option"
  rp_trustedPolicies :: "TrustedToolPolicy list"

fun traverse :: "('a \<Rightarrow> 'e + 'b) \<Rightarrow> 'a list \<Rightarrow> 'e + 'b list" where
  "traverse f [] = Inr []"
| "traverse f (x # xs) = (case f x of Inl e \<Rightarrow> Inl e
     | Inr y \<Rightarrow> (case traverse f xs of Inl e \<Rightarrow> Inl e | Inr ys \<Rightarrow> Inr (y # ys)))"

definition canonical :: "policy_env \<Rightarrow> string \<Rightarrow> string + string" where
  "canonical E p = the_or ''The path could not be resolved'' (canonicalPath (real_of E) p)"

definition mcp_of :: "policy_env \<Rightarrow> RemoteMcpGrant list \<Rightarrow> string + RemoteMcpGrant list" where
  "mcp_of E gs = the_or ''Invalid MCP grants'' (parseRemoteMcpGrants (pe_url E) (pe_le E) (grants_json gs))"

definition trustedPolicyIdentity :: "RelationshipPolicyOptions \<Rightarrow> TrustedToolPolicyIdentity option" where
  "trustedPolicyIdentity options =
     (if truthy (po_ownerPrincipalId options) \<and> truthy (po_ownerDeviceId options) \<and> truthy (po_bridgeInstanceId options)
      then Some \<lparr>ti_ownerPrincipalId = the (po_ownerPrincipalId options),
                 ti_ownerDeviceId = the (po_ownerDeviceId options),
                 ti_bridgeInstanceId = the (po_bridgeInstanceId options)\<rparr>
      else None)"

definition compile_entry :: "policy_env \<Rightarrow> string \<Rightarrow> RelationshipEntry \<Rightarrow> string + CompiledRelationship" where
  "compile_entry E cwd r =
     (case traverse (\<lambda>folder. canonical E (toLiteralAbsolute cwd folder)) (re_folders r) of
        Inl e \<Rightarrow> Inl e
      | Inr folders \<Rightarrow>
     (case mcp_of E (or_else (re_mcpServers r) []) of
        Inl e \<Rightarrow> Inl e
      | Inr servers \<Rightarrow> Inr \<lparr>cr_principalId = re_principalId r, cr_deviceId = re_deviceId r,
          cr_tools = js_set (re_tools r), cr_folders = folders, cr_mcpServers = servers\<rparr>))"

definition trusted_in_force ::
    "policy_env \<Rightarrow> RelationshipPolicyOptions \<Rightarrow> string option \<Rightarrow> stored \<Rightarrow> string + TrustedToolPolicy list" where
  "trusted_in_force E options trustedFile content =
     (case (trustedFile, trustedPolicyIdentity options) of
        (Some f, Some identity) \<Rightarrow>
          (if f = [] then Inr [] else
           map_sum id (\<lambda>d. filter (\<lambda>p. policyMatchesOwner p identity) (td_policies d))
             (readTrustedToolPolicies (pe_datetime E) content))
      | _ \<Rightarrow> Inr [])"

text \<open>The checks that no granted folder holds the files that grant it.\<close>

definition exposes :: "string \<Rightarrow> CompiledRelationship \<Rightarrow> bool" where
  "exposes file r = list_ex (\<lambda>folder. folder \<noteq> root_of folder \<and> isWithin folder file) (cr_folders r)"

fun exposed_by :: "string \<Rightarrow> string option \<Rightarrow> TrustedToolPolicy list \<Rightarrow> string option" where
  "exposed_by file trustedFile [] = None"
| "exposed_by file trustedFile (p # ps) =
     (if isWithin (tp_canonicalFolder p) file
      then Some ''Relationship policy must be stored outside every granted folder''
      else if trustedFile \<noteq> None \<and> isWithin (tp_canonicalFolder p) (the trustedFile)
      then Some ''Trusted tool policy must be stored outside every granted folder''
      else exposed_by file trustedFile ps)"

definition new_policy ::
    "policy_env \<Rightarrow> RelationshipEntry list \<Rightarrow> string \<Rightarrow> string \<Rightarrow> RelationshipPolicyOptions \<Rightarrow> stored
       \<Rightarrow> string + RelationshipPolicy" where
  "new_policy E document cwd policyFile options trustedContent =
     (case canonical E cwd of Inl e \<Rightarrow> Inl e | Inr ccwd \<Rightarrow>
     (case canonical E policyFile of Inl e \<Rightarrow> Inl e | Inr file \<Rightarrow>
     (case (if truthy (po_trustedToolPolicyFile options)
            then map_sum id Some (canonical E (the (po_trustedToolPolicyFile options))) else Inr None) of
        Inl e \<Rightarrow> Inl e | Inr trustedFile \<Rightarrow>
     (case trusted_in_force E options trustedFile trustedContent of Inl e \<Rightarrow> Inl e | Inr trusted \<Rightarrow>
     (case traverse (compile_entry E cwd) document of Inl e \<Rightarrow> Inl e | Inr relationships \<Rightarrow>
        if list_ex (exposes file) relationships
        then Inl ''Relationship policy must be stored outside every granted folder''
        else case exposed_by file trustedFile trusted of Some e \<Rightarrow> Inl e
        | None \<Rightarrow> Inr \<lparr>rp_relationships = relationships, rp_cwd = ccwd, rp_policyFile = file,
                  rp_trustedToolPolicyFile = trustedFile, rp_trustedPolicies = trusted\<rparr>)))))"

definition fromFile ::
    "policy_env \<Rightarrow> string \<Rightarrow> string \<Rightarrow> RelationshipPolicyOptions \<Rightarrow> stored \<Rightarrow> stored \<Rightarrow> string + RelationshipPolicy" where
  "fromFile E file cwd options content trustedContent =
     (case readPolicyDocument E content of
        Inl e \<Rightarrow> Inl e
      | Inr document \<Rightarrow> new_policy E document cwd file options trustedContent)"

section \<open>Who is asking\<close>

definition relationshipsFor :: "RelationshipPolicy \<Rightarrow> MessageEnvelope \<Rightarrow> CompiledRelationship list" where
  "relationshipsFor rp m =
     (if \<not> truthy (me_senderDeviceId m) then []
      else filter (\<lambda>r. cr_principalId r = me_senderPrincipalId m \<and> Some (cr_deviceId r) = me_senderDeviceId m)
        (rp_relationships rp))"

definition trustedPoliciesFor :: "RelationshipPolicy \<Rightarrow> MessageEnvelope \<Rightarrow> TrustedToolPolicy list" where
  "trustedPoliciesFor rp m =
     (if \<not> truthy (me_senderDeviceId m) then []
      else filter (\<lambda>p. tp_requesterPrincipalId p = me_senderPrincipalId m
             \<and> Some (tp_requesterDeviceId p) = me_senderDeviceId m) (rp_trustedPolicies rp))"

definition enabledTools :: "RelationshipPolicy \<Rightarrow> string list" where
  "enabledTools rp = sort (filter supported_tool (js_set (concat (map cr_tools (rp_relationships rp))
     @ concat (map (\<lambda>p. PRESET_TOOLS (tp_accessPreset p)) (rp_trustedPolicies rp)))))"

definition folders_of :: "CompiledRelationship list \<Rightarrow> TrustedToolPolicy list \<Rightarrow> string list" where
  "folders_of rs ps = sort (js_set (concat (map cr_folders rs) @ map tp_canonicalFolder ps))"

definition may_write :: "CompiledRelationship \<Rightarrow> bool" where
  "may_write r = (''Write'' \<in> set (cr_tools r) \<or> ''Edit'' \<in> set (cr_tools r))"

definition writable_of :: "CompiledRelationship list \<Rightarrow> TrustedToolPolicy list \<Rightarrow> string list" where
  "writable_of rs ps = js_set (concat (map cr_folders (filter may_write rs))
     @ map tp_canonicalFolder (filter (\<lambda>p. tp_accessPreset p = Edit_project) ps))"

definition grantedFolders :: "RelationshipPolicy \<Rightarrow> MessageEnvelope option \<Rightarrow> string list" where
  "grantedFolders rp message =
     (case message of None \<Rightarrow> folders_of (rp_relationships rp) (rp_trustedPolicies rp)
      | Some m \<Rightarrow> folders_of (relationshipsFor rp m) (trustedPoliciesFor rp m))"

definition writableFolders :: "RelationshipPolicy \<Rightarrow> MessageEnvelope option \<Rightarrow> string list" where
  "writableFolders rp message =
     (case message of None \<Rightarrow> sort (writable_of (rp_relationships rp) (rp_trustedPolicies rp))
      | Some m \<Rightarrow> sort (writable_of (relationshipsFor rp m) (trustedPoliciesFor rp m)))"

definition mcpServersFor :: "policy_env \<Rightarrow> RelationshipPolicy \<Rightarrow> MessageEnvelope option \<Rightarrow> string + RemoteMcpGrant list" where
  "mcpServersFor E rp message =
     (case message of None \<Rightarrow> Inr []
      | Some m \<Rightarrow> if \<not> truthy (me_senderDeviceId m) then Inr []
                 else mcp_of E (concat (map cr_mcpServers (relationshipsFor rp m))))"

definition hasToolAccess :: "RelationshipPolicy \<Rightarrow> MessageEnvelope option \<Rightarrow> bool" where
  "hasToolAccess rp message =
     (case message of None \<Rightarrow> False
      | Some m \<Rightarrow> truthy (me_senderDeviceId m)
          \<and> ((case List.find (\<lambda>r. cr_principalId r = me_senderPrincipalId m
                  \<and> Some (cr_deviceId r) = me_senderDeviceId m) (rp_relationships rp) of
                None \<Rightarrow> False | Some r \<Rightarrow> cr_tools r \<noteq> [])
             \<or> list_ex (\<lambda>p. tp_requesterPrincipalId p = me_senderPrincipalId m
                  \<and> Some (tp_requesterDeviceId p) = me_senderDeviceId m) (rp_trustedPolicies rp)))"

definition presetForTools :: "string list \<Rightarrow> RelationshipAccessPreset" where
  "presetForTools tools =
     (if list_ex (\<lambda>t. t \<in> set tools) [''Write'', ''Edit'', ''GitAdd'', ''GitCommit''] then Edit_project
      else if list_ex (\<lambda>t. t \<in> set tools) [''Read'', ''GitStatus'', ''GitDiff'', ''GitLog''] then Read_project
      else Chat_only)"

section \<open>Which project\<close>

datatype ProjectAccessStatus = Access_none | Access_selected | Selection_required | Not_found

datatype SelectionSource = Single_active_grant | Explicit | Objective_preflight

record ProjectAccess =
  pa_status :: ProjectAccessStatus
  pa_preset :: RelationshipAccessPreset
  pa_folders :: "string list"
  pa_writableFolders :: "string list"
  pa_selectionSource :: "SelectionSource option"
  pa_requestedProject :: "string option"
  pa_requestedProjects :: "string list option"
  pa_selectedPolicyIds :: "string list option"
  pa_selectedFolderPaths :: "string list option"

definition no_access :: "ProjectAccessStatus \<Rightarrow> string list option \<Rightarrow> ProjectAccess" where
  "no_access status requested =
     \<lparr>pa_status = status, pa_preset = Chat_only, pa_folders = [], pa_writableFolders = [],
      pa_selectionSource = None,
      pa_requestedProject = (case requested of Some [p] \<Rightarrow> Some p | _ \<Rightarrow> None),
      pa_requestedProjects = requested, pa_selectedPolicyIds = None, pa_selectedFolderPaths = None\<rparr>"

definition add_new :: "'a \<Rightarrow> 'a list \<Rightarrow> 'a list" where
  "add_new x xs = (if x \<in> set xs then xs else xs @ [x])"

text \<open>
  The loop over the requested projects: policy ids, folder paths and folders selected so
  far; \<open>None\<close> as soon as one request matches neither.
\<close>

fun select_projects ::
    "policy_env \<Rightarrow> TrustedToolPolicy list \<Rightarrow> string list \<Rightarrow> string list \<Rightarrow> string list \<times> string list \<times> string list
       \<Rightarrow> (string list \<times> string list \<times> string list) option" where
  "select_projects E trusted available [] acc = Some acc"
| "select_projects E trusted available (q # qs) (ids, paths, folders) =
     (let named = filter (\<lambda>p. tp_policyId p = q) trusted;
          ids1 = (if named = [] then ids else add_new q ids);
          folders1 = fold (\<lambda>p. add_new (tp_canonicalFolder p)) named folders;
          f = or_else (canonicalPath (real_of E) q) q;
          byPath = (isAbsolute q \<and> f \<in> set available)
      in if named = [] \<and> \<not> byPath then None
         else select_projects E trusted available qs
           (ids1, if byPath then add_new f paths else paths, if byPath then add_new f folders1 else folders1))"

definition relationship_selected :: "bool \<Rightarrow> string list \<Rightarrow> string list \<Rightarrow> CompiledRelationship \<Rightarrow> bool" where
  "relationship_selected explicit folders paths r =
     list_ex (\<lambda>folder. folder \<in> set folders \<and> (\<not> explicit \<or> folder \<in> set paths)) (cr_folders r)"

definition trusted_selected :: "bool \<Rightarrow> string list \<Rightarrow> string list \<Rightarrow> string list \<Rightarrow> TrustedToolPolicy \<Rightarrow> bool" where
  "trusted_selected explicit folders ids paths p =
     (tp_canonicalFolder p \<in> set folders
      \<and> (\<not> explicit \<or> tp_policyId p \<in> set ids \<or> tp_canonicalFolder p \<in> set paths))"

text \<open>The access and the trusted policies it selected.\<close>

definition access_of :: "policy_env \<Rightarrow> RelationshipPolicy \<Rightarrow> MessageEnvelope option \<Rightarrow> ProjectAccess \<times> TrustedToolPolicy list" where
  "access_of E rp message =
     (case message of None \<Rightarrow> (no_access Access_none None, [])
      | Some m \<Rightarrow>
     if \<not> truthy (me_senderDeviceId m) then (no_access Access_none None, []) else
     let relationships = relationshipsFor rp m;
         trusted = trustedPoliciesFor rp m;
         available = folders_of relationships trusted;
         explicitProjects = projectAccessSelectors message;
         preflightProjects = (if explicitProjects = [] then objectivePreflightProjects message available else []);
         requested = (if explicitProjects \<noteq> [] then explicitProjects else preflightProjects);
         source = (if explicitProjects \<noteq> [] then Explicit
                   else if preflightProjects \<noteq> [] then Objective_preflight else Single_active_grant);
         requestedField = (if requested \<noteq> [] then Some requested else None);
         selection = (if requested \<noteq> []
            then (case select_projects E trusted available requested ([], [], []) of
                    None \<Rightarrow> Inl (no_access Not_found requestedField)
                  | Some (ids, paths, folders) \<Rightarrow>
                      if folders = [] then Inl (no_access Not_found requestedField)
                      else Inr (ids, paths, sort folders))
            else if 1 < length available then Inl (no_access Selection_required None)
            else Inr ([], [], available))
     in case selection of
          Inl a \<Rightarrow> (a, [])
        | Inr (ids, paths, folders) \<Rightarrow>
            if folders = [] then (no_access Access_none requestedField, [])
            else
              (let explicit = (requested \<noteq> []);
                   rs = filter (relationship_selected explicit folders paths) relationships;
                   ps = filter (trusted_selected explicit folders ids paths) trusted
               in (\<lparr>pa_status = Access_selected,
                    pa_preset = strongestAccessPreset
                      (map (\<lambda>r. presetForTools (cr_tools r)) rs @ map tp_accessPreset ps),
                    pa_folders = folders,
                    pa_writableFolders = sort (filter (\<lambda>f. f \<in> set folders) (writable_of rs ps)),
                    pa_selectionSource = Some source,
                    pa_requestedProject = (case requestedField of Some [q] \<Rightarrow> Some q | _ \<Rightarrow> None),
                    pa_requestedProjects = requestedField,
                    pa_selectedPolicyIds = (if ids \<noteq> [] then Some (sort ids) else None),
                    pa_selectedFolderPaths = (if paths \<noteq> [] then Some (sort paths) else None)\<rparr>, ps)))"

fun mark_all_used :: "policy_env \<Rightarrow> string \<Rightarrow> string list \<Rightarrow> stored \<Rightarrow> (string + unit) \<times> stored" where
  "mark_all_used E now [] content = (Inr (), content)"
| "mark_all_used E now (i # is) content =
     (case markTrustedToolPolicyUsed (pe_datetime E) now i content of
        (Inl e, content') \<Rightarrow> (Inl e, content')
      | (Inr _, content') \<Rightarrow> mark_all_used E now is content')"

definition accessFor ::
    "policy_env \<Rightarrow> string \<Rightarrow> RelationshipPolicy \<Rightarrow> MessageEnvelope option \<Rightarrow> bool \<Rightarrow> stored
       \<Rightarrow> (string + ProjectAccess) \<times> stored" where
  "accessFor E now rp message recordUsage content =
     (let (access, policies) = access_of E rp message
      in if recordUsage \<and> rp_trustedToolPolicyFile rp \<noteq> None
         then (case mark_all_used E now (map tp_policyId policies) content of
                 (Inl e, content') \<Rightarrow> (Inl e, content')
               | (Inr _, content') \<Rightarrow> (Inr access, content'))
         else (Inr access, content))"

section \<open>The decision\<close>

record ToolAction =
  ta_toolName :: string
  ta_input :: "(string \<times> json) list"

datatype ToolPermissionDecision =
    Allow "(string \<times> json) list"
  | Deny string "(string \<times> json) list option"

definition deny :: "string \<Rightarrow> ToolPermissionDecision" where
  "deny message = Deny message None"

definition path_values :: "ToolAction \<Rightarrow> (string \<times> string) list" where
  "path_values action =
     (case map_of PATH_INPUTS (ta_toolName action) of
        None \<Rightarrow> []
      | Some key \<Rightarrow> (case map_of (ta_input action) key of
            Some (JStr value) \<Rightarrow> if trim value \<noteq> [] then [(key, value)] else []
          | _ \<Rightarrow> []))"

text \<open>The loop over the paths: the checked input, or the denial.\<close>

fun check_paths ::
    "policy_env \<Rightarrow> RelationshipPolicy \<Rightarrow> string \<Rightarrow> string list \<Rightarrow> (string \<times> string) list \<Rightarrow> (string \<times> json) list
       \<Rightarrow> ToolPermissionDecision" where
  "check_paths E rp tool allowed [] updatedInput = Allow updatedInput"
| "check_paths E rp tool allowed ((key, value) # paths) updatedInput =
     (case resolveRelationshipPath (real_of E) (rp_cwd rp) allowed value of
        None \<Rightarrow> deny ''Path could not be resolved safely''
      | Some candidate \<Rightarrow>
          if candidate = rp_policyFile rp then deny ''Relationship policy cannot be accessed by a remote tool''
          else case dangerousPathDecision tool candidate of
            Some dangerous \<Rightarrow> deny dangerous
          | None \<Rightarrow>
              if \<not> list_ex (\<lambda>f. isWithin f candidate) allowed
              then deny ''Path is outside the folders allowed for this relationship''
              else check_paths E rp tool allowed paths (AList.update key (JStr candidate) updatedInput))"

definition within_all :: "(string \<times> json) list \<Rightarrow> (string \<times> string) list \<Rightarrow> TrustedToolPolicy \<Rightarrow> bool" where
  "within_all updatedInput paths p =
     list_all (\<lambda>(key, value). case map_of updatedInput key of
         Some (JStr c) \<Rightarrow> isWithin (tp_canonicalFolder p) c | _ \<Rightarrow> False) paths"

text \<open>The policy whose use is counted.\<close>

definition matched_policy ::
    "(string \<times> json) list \<Rightarrow> (string \<times> string) list \<Rightarrow> TrustedToolPolicy list \<Rightarrow> TrustedToolPolicy option" where
  "matched_policy updatedInput paths ps =
     (case List.find (\<lambda>p. tp_createdFrom p \<noteq> From_cli \<and> within_all updatedInput paths p) ps of
        Some p \<Rightarrow> Some p | None \<Rightarrow> List.find (within_all updatedInput paths) ps)"

text \<open>
  The decision, with the trusted policy whose use it marks. \<open>None\<close> when the tool is not
  granted: then the source decides again without requiring a tool grant.
\<close>

definition authorize_step ::
    "policy_env \<Rightarrow> RelationshipPolicy \<Rightarrow> ToolAction \<Rightarrow> MessageEnvelope option \<Rightarrow> bool
       \<Rightarrow> (ToolPermissionDecision \<times> TrustedToolPolicy option) option" where
  "authorize_step E rp action message requireToolGrant =
     (case message of
        None \<Rightarrow> Some (deny ''No active verified c2c message'', None)
      | Some m \<Rightarrow>
     if \<not> truthy (me_senderDeviceId m) then Some (deny ''Sender device identity is unavailable'', None) else
     let access = fst (access_of E rp message)
     in if pa_status access = Selection_required
        then Some (deny ''Multiple project folders are available; the delegation must select a project'', None)
        else if pa_status access = Not_found
        then Some (deny ''The requested project is not allowed for this relationship'', None) else
     let explicit = (or_else (pa_requestedProjects access) [] \<noteq> []);
         ids = or_else (pa_selectedPolicyIds access) [];
         paths = or_else (pa_selectedFolderPaths access) [];
         folders = pa_folders access;
         relationships = filter (relationship_selected explicit folders paths) (relationshipsFor rp m);
         trusted = filter (trusted_selected explicit folders ids paths) (trustedPoliciesFor rp m);
         tool = ta_toolName action
     in if relationships = [] \<and> trusted = [] then Some (deny ''No policy for this user and device'', None)
        else if \<not> supported_tool tool \<or> prefix ''mcp__'' tool then Some (deny (''Unsupported tool '' @ tool), None) else
     let trustedTool = filter (\<lambda>p. accessPresetAllowsTool (tp_accessPreset p) tool) trusted;
         relationshipAllows = list_ex (\<lambda>r. tool \<in> set (cr_tools r)) relationships
     in if requireToolGrant \<and> \<not> relationshipAllows \<and> trustedTool = [] then None else
     let relationshipFolders = (if requireToolGrant \<and> \<not> relationshipAllows then []
            else filter (\<lambda>f. f \<in> set folders) (concat (map cr_folders relationships)));
         trustedFolders = map tp_canonicalFolder (if requireToolGrant then trustedTool else trusted);
         allowed = js_set (relationshipFolders @ trustedFolders);
         values = path_values action
     in if allowed = [] then Some (deny (''Tool '' @ tool @ '' requires an allowed folder''), None)
        else if searchPatternEscapesBoundary tool (ta_input action)
        then Some (deny ''Search patterns cannot traverse outside the selected project boundary'', None)
        else if values = [] then Some (deny (''Tool '' @ tool @ '' did not provide a path''), None)
        else case check_paths E rp tool allowed values (ta_input action) of
          Deny e i \<Rightarrow> Some (Deny e i, None)
        | Allow updatedInput \<Rightarrow>
            Some (Allow updatedInput,
              if requireToolGrant \<and> rp_trustedToolPolicyFile rp \<noteq> None
              then matched_policy updatedInput values trustedTool else None))"

definition authorize_boundary_part ::
    "policy_env \<Rightarrow> RelationshipPolicy \<Rightarrow> ToolAction \<Rightarrow> MessageEnvelope option \<Rightarrow> ToolPermissionDecision" where
  "authorize_boundary_part E rp action message =
     (case authorize_step E rp action message False of Some (decision, _) \<Rightarrow> decision
      | None \<Rightarrow> deny (''Tool '' @ ta_toolName action @ '' is not allowed''))"

definition decide ::
    "policy_env \<Rightarrow> RelationshipPolicy \<Rightarrow> ToolAction \<Rightarrow> MessageEnvelope option \<Rightarrow> bool
       \<Rightarrow> ToolPermissionDecision \<times> TrustedToolPolicy option" where
  "decide E rp action message requireToolGrant =
     (case authorize_step E rp action message requireToolGrant of
        Some d \<Rightarrow> d
      | None \<Rightarrow>
          (case authorize_boundary_part E rp action message of
             Allow updatedInput \<Rightarrow>
               (Deny (''Tool '' @ ta_toolName action @ '' is not allowed'') (Some updatedInput), None)
           | Deny e i \<Rightarrow> (Deny e i, None)))"

text \<open>With the mark on the used policy; marking may throw.\<close>

definition authorize ::
    "policy_env \<Rightarrow> string \<Rightarrow> RelationshipPolicy \<Rightarrow> ToolAction \<Rightarrow> MessageEnvelope option \<Rightarrow> stored
       \<Rightarrow> (string + ToolPermissionDecision) \<times> stored" where
  "authorize E now rp action message content =
     (case decide E rp action message True of
        (d, None) \<Rightarrow> (Inr d, content)
      | (d, Some p) \<Rightarrow>
          (case markTrustedToolPolicyUsed (pe_datetime E) now (tp_policyId p) content of
             (Inl e, content') \<Rightarrow> (Inl e, content')
           | (Inr _, content') \<Rightarrow> (Inr d, content')))"

definition authorizeBoundary ::
    "policy_env \<Rightarrow> RelationshipPolicy \<Rightarrow> ToolAction \<Rightarrow> MessageEnvelope option \<Rightarrow> ToolPermissionDecision" where
  "authorizeBoundary E rp action message = fst (decide E rp action message False)"

definition projectAccessAllowsAction :: "ProjectAccess option \<Rightarrow> ToolAction \<Rightarrow> bool" where
  "projectAccessAllowsAction access action =
     (case access of None \<Rightarrow> False
      | Some a \<Rightarrow> pa_status a = Access_selected \<and> path_values action \<noteq> []
          \<and> list_all (\<lambda>(k, candidate). list_ex (\<lambda>folder. isWithin folder candidate)
                (if ta_toolName action \<in> set WRITE_TOOLS then pa_writableFolders a else pa_folders a))
              (path_values action))"

definition canonicalToolResourceForApproval :: "policy_env \<Rightarrow> ToolAction \<Rightarrow> string \<Rightarrow> string option" where
  "canonicalToolResourceForApproval E action cwd =
     (case path_values action of
        [] \<Rightarrow> None
      | (k, value) # _ \<Rightarrow>
          (case canonicalPath (real_of E) (toLiteralAbsolute cwd value) of
             None \<Rightarrow> None
           | Some candidate \<Rightarrow>
               if dangerousPathDecision (ta_toolName action) candidate = None then Some candidate else None))"

section \<open>Changing the policy\<close>

record UpsertRelationship =
  ur_file :: string
  ur_principalId :: string
  ur_deviceId :: string
  ur_tools :: "string list"
  ur_folders :: "string list"
  ur_mcpServers :: "RemoteMcpGrant list option"

definition relationship_key :: "RelationshipEntry \<Rightarrow> string" where
  "relationship_key r = re_principalId r @ CHR 0x00 # re_deviceId r"

definition same_peer :: "string \<Rightarrow> string \<Rightarrow> RelationshipEntry \<Rightarrow> bool" where
  "same_peer principalId deviceId r = (re_principalId r = principalId \<and> re_deviceId r = deviceId)"

definition upsertRelationshipPolicy ::
    "policy_env \<Rightarrow> UpsertRelationship \<Rightarrow> stored \<Rightarrow> (string + RelationshipEntry list) \<times> stored" where
  "upsertRelationshipPolicy E i content =
     (case List.find (\<lambda>t. \<not> supported_tool t) (ur_tools i) of
        Some unsupported \<Rightarrow> (Inl (''Unsupported relationship tool '' @ unsupported), content)
      | None \<Rightarrow>
     (case readPolicyDocument E content of Inl e \<Rightarrow> (Inl e, content) | Inr existing \<Rightarrow>
     (case traverse (canonical E) (filter (\<lambda>f. f \<noteq> []) (map trim (ur_folders i))) of
        Inl e \<Rightarrow> (Inl e, content)
      | Inr resolved \<Rightarrow>
     (let folders = js_set resolved
      in case (if list_ex (\<lambda>f. f \<noteq> root_of f) folders then map_sum id Some (canonical E (ur_file i)) else Inr None) of
           Inl e \<Rightarrow> (Inl e, content)
         | Inr file \<Rightarrow>
             if list_ex (\<lambda>f. f \<noteq> root_of f \<and> isWithin f (the file)) folders
             then (Inl ''Relationship policy must be stored outside the granted folder'', content)
             else
               (let previous = List.find (same_peer (ur_principalId i) (ur_deviceId i)) existing
                in case mcp_of E (or_else (ur_mcpServers i) (case previous of None \<Rightarrow> []
                          | Some r \<Rightarrow> or_else (re_mcpServers r) [])) of
                     Inl e \<Rightarrow> (Inl e, content)
                   | Inr servers \<Rightarrow>
                       (let next = \<lparr>re_principalId = ur_principalId i, re_deviceId = ur_deviceId i,
                              re_tools = sort (js_set (ur_tools i)), re_folders = sort folders,
                              re_mcpServers = (if servers \<noteq> [] then Some servers else None)\<rparr>;
                            relationships = sort_by (\<lambda>l r. pe_le E (relationship_key l) (relationship_key r))
                              (filter (\<lambda>r. \<not> same_peer (ur_principalId i) (ur_deviceId i) r) existing @ [next])
                        in (Inr relationships, writePolicyDocument relationships)))))))"

definition upsertRelationshipPreset ::
    "policy_env \<Rightarrow> string \<Rightarrow> string \<Rightarrow> string \<Rightarrow> RelationshipAccessPreset \<Rightarrow> string option \<Rightarrow> stored
       \<Rightarrow> (string + RelationshipEntry list) \<times> stored" where
  "upsertRelationshipPreset E file principalId deviceId preset folderInput content =
     (let folder = keep_truthy (map_option trim folderInput)
      in if preset \<noteq> Chat_only \<and> folder = None
         then (Inl (''--folder is required for '' @ preset_text preset), content)
         else upsertRelationshipPolicy E \<lparr>ur_file = file, ur_principalId = principalId, ur_deviceId = deviceId,
                ur_tools = PRESET_TOOLS preset, ur_folders = (case folder of None \<Rightarrow> [] | Some f \<Rightarrow> [f]),
                ur_mcpServers = None\<rparr> content)"

definition resetRelationshipPolicy :: "stored \<Rightarrow> stored" where
  "resetRelationshipPolicy content = writePolicyDocument []"

definition setRelationshipMcpGrants ::
    "policy_env \<Rightarrow> string \<Rightarrow> string \<Rightarrow> string \<Rightarrow> json \<Rightarrow> stored \<Rightarrow> (string + RelationshipEntry list) \<times> stored" where
  "setRelationshipMcpGrants E file principalId deviceId grants content =
     (case readPolicyDocument E content of Inl e \<Rightarrow> (Inl e, content) | Inr existing \<Rightarrow>
     (let relationship = List.find (same_peer principalId deviceId) existing
      in case parseRemoteMcpGrants (pe_url E) (pe_le E) grants of
           None \<Rightarrow> (Inl ''Invalid MCP grants'', content)
         | Some gs \<Rightarrow> upsertRelationshipPolicy E \<lparr>ur_file = file, ur_principalId = principalId,
             ur_deviceId = deviceId,
             ur_tools = (case relationship of None \<Rightarrow> [] | Some r \<Rightarrow> re_tools r),
             ur_folders = (case relationship of None \<Rightarrow> [] | Some r \<Rightarrow> re_folders r),
             ur_mcpServers = Some gs\<rparr> content))"

section \<open>The file\<close>

definition entry_ok :: "policy_env \<Rightarrow> RelationshipEntry \<Rightarrow> bool" where
  "entry_ok E r = (clean (re_principalId r) \<and> clean (re_deviceId r) \<and> list_all clean (re_tools r)
     \<and> list_all clean (re_folders r) \<and> pred_option (valid_grants (pe_url E)) (re_mcpServers r))"

lemma z_list_clean: "list_all clean ss \<Longrightarrow> z_list z_nonblank (JArr (map JStr ss)) = Some ss"
  unfolding z_list_def json.case by (rule z_array_map) (auto simp: list_all_iff z_nonblank_clean)

lemma entry_round_trip: "entry_ok E r \<Longrightarrow> relationshipSchema E (entry_json r) = Some r"
  by (cases "re_mcpServers r")
     (auto simp: entry_ok_def relationshipSchema_def entry_json_def strict_JObj required_def with_default_def
        z_nonblank_clean z_list_clean optional_def schema_of_grants_json)

lemma relationshipSchema_ok: "relationshipSchema E j = Some r \<Longrightarrow> entry_ok E r"
proof -
  have one: "z_nonblank j = Some s \<Longrightarrow> clean s" for j s
    by (auto simp: z_nonblank_Some clean_def)
  have all: "z_list z_nonblank x = Some ss \<Longrightarrow> list_all clean ss" for x ss
    by (auto simp: z_list_Some list_all_iff dest: z_array_all[OF _ one])
  show "relationshipSchema E j = Some r \<Longrightarrow> entry_ok E r"
    by (auto simp: relationshipSchema_def bind_eq_Some_conv required_Some with_default_Some optional_Some
        z_nonblank_Some entry_ok_def clean_def[of "trim _"] dest: all schema_valid split: if_splits)
qed

lemma read_policy_ok: "readPolicyDocument E content = Inr rs \<Longrightarrow> list_all (entry_ok E) rs"
  by (auto simp: readPolicyDocument_def relationshipsSchema_def required_Some z_list_Some list_all_iff
      dest: z_array_all[OF _ relationshipSchema_ok] split: stored.splits option.splits if_splits)

lemma read_write_policy: "list_all (entry_ok E) rs \<Longrightarrow> readPolicyDocument E (writePolicyDocument rs) = Inr rs"
  by (simp add: readPolicyDocument_def writePolicyDocument_def relationshipsSchema_def strict_def version_is_def
      required_def z_list_def z_array_map[of rs _ entry_json] entry_round_trip list_all_iff)

section \<open>Allowed actions\<close>

lemma resolved_canonical:
  "resolveRelationshipPath fs cwd folders input = Some c \<Longrightarrow> \<exists>q. canonicalPath fs q = Some c"
proof -
  have "folder_candidate fs input folders = Some (Some c) \<Longrightarrow> \<exists>q. canonicalPath fs q = Some c"
    by (induction folders) (auto split: option.splits if_splits)
  then show "resolveRelationshipPath fs cwd folders input = Some c \<Longrightarrow> \<exists>q. canonicalPath fs q = Some c"
    by (auto simp: resolveRelationshipPath_def split: option.splits if_splits)
qed

lemma path_values_cases:
  "path_values action = [] \<or> (\<exists>key value. map_of PATH_INPUTS (ta_toolName action) = Some key
     \<and> path_values action = [(key, value)])"
  by (auto simp: path_values_def split: option.splits json.splits)

lemma check_paths_single:
  assumes "check_paths E rp tool allowed [(key, value)] input = Allow updated"
  obtains c q where "updated = AList.update key (JStr c) input" "canonicalPath (real_of E) q = Some c"
    "c \<noteq> rp_policyFile rp" "dangerousPathDecision tool c = None" "\<exists>f \<in> set allowed. isWithin f c"
  using assms resolved_canonical
  by (fastforce simp: deny_def list_ex_iff split: option.splits if_splits)

text \<open>What \<open>accessFor\<close> answers when it selects.\<close>

lemma access_statuses:
  assumes "access_of E rp message = (a, ps)"
  shows "pa_status a = Access_selected \<or> pa_folders a = []"
  using assms by (auto simp: access_of_def no_access_def Let_def split: option.splits if_splits sum.splits prod.splits)

lemma authorize_step_Allow:
  assumes "authorize_step E rp action message require = Some (Allow updated, u)"
  obtains m d key c q rels trusted where
    "message = Some m" "me_senderDeviceId m = Some d" "d \<noteq> []"
    "map_of PATH_INPUTS (ta_toolName action) = Some key" "updated = AList.update key (JStr c) (ta_input action)"
    "canonicalPath (real_of E) q = Some c" "c \<noteq> rp_policyFile rp"
    "dangerousPathDecision (ta_toolName action) c = None"
    "set rels \<subseteq> set (relationshipsFor rp m)" "set trusted \<subseteq> set (trustedPoliciesFor rp m)"
    "(\<exists>r \<in> set rels. \<exists>f \<in> set (cr_folders r). f \<in> set (pa_folders (fst (access_of E rp message))) \<and> isWithin f c)
       \<and> (require \<longrightarrow> (\<exists>r \<in> set rels. ta_toolName action \<in> set (cr_tools r)))
     \<or> (\<exists>p \<in> set trusted. tp_canonicalFolder p \<in> set (pa_folders (fst (access_of E rp message)))
          \<and> isWithin (tp_canonicalFolder p) c
          \<and> (require \<longrightarrow> accessPresetAllowsTool (tp_accessPreset p) (ta_toolName action)))"
proof -
  let ?tool = "ta_toolName action"
  let ?a = "fst (access_of E rp message)"
  from assms obtain m where m: "message = Some m" and dev: "truthy (me_senderDeviceId m)"
    by (auto simp: authorize_step_def deny_def split: option.splits if_splits)
  then obtain d where d: "me_senderDeviceId m = Some d" "d \<noteq> []" by (cases "me_senderDeviceId m") auto
  define explicit where "explicit = (or_else (pa_requestedProjects ?a) [] \<noteq> [])"
  define ids where "ids = or_else (pa_selectedPolicyIds ?a) []"
  define sel where "sel = or_else (pa_selectedFolderPaths ?a) []"
  define rels where "rels = filter (relationship_selected explicit (pa_folders ?a) sel) (relationshipsFor rp m)"
  define trusted where "trusted = filter (trusted_selected explicit (pa_folders ?a) ids sel) (trustedPoliciesFor rp m)"
  define tt where "tt = filter (\<lambda>p. accessPresetAllowsTool (tp_accessPreset p) ?tool) trusted"
  define ra where "ra = list_ex (\<lambda>r. ?tool \<in> set (cr_tools r)) rels"
  define allowed where "allowed = js_set ((if require \<and> \<not> ra then []
      else filter (\<lambda>f. f \<in> set (pa_folders ?a)) (concat (map cr_folders rels)))
      @ map tp_canonicalFolder (if require then tt else trusted))"
  have "authorize_step E rp action message require =
     (if pa_status ?a = Selection_required
      then Some (deny ''Multiple project folders are available; the delegation must select a project'', None)
      else if pa_status ?a = Not_found
      then Some (deny ''The requested project is not allowed for this relationship'', None)
      else if rels = [] \<and> trusted = [] then Some (deny ''No policy for this user and device'', None)
      else if \<not> supported_tool ?tool \<or> prefix ''mcp__'' ?tool then Some (deny (''Unsupported tool '' @ ?tool), None)
      else if require \<and> \<not> ra \<and> tt = [] then None
      else if allowed = [] then Some (deny (''Tool '' @ ?tool @ '' requires an allowed folder''), None)
      else if searchPatternEscapesBoundary ?tool (ta_input action)
      then Some (deny ''Search patterns cannot traverse outside the selected project boundary'', None)
      else if path_values action = [] then Some (deny (''Tool '' @ ?tool @ '' did not provide a path''), None)
      else case check_paths E rp ?tool allowed (path_values action) (ta_input action) of
          Deny e i \<Rightarrow> Some (Deny e i, None)
        | Allow updatedInput \<Rightarrow>
            Some (Allow updatedInput,
              if require \<and> rp_trustedToolPolicyFile rp \<noteq> None
              then matched_policy updatedInput (path_values action) tt else None))"
    unfolding authorize_step_def allowed_def ra_def tt_def trusted_def rels_def sel_def ids_def explicit_def
    by (simp only: m dev option.case Let_def not_True_eq_False if_False)
  with assms have check: "check_paths E rp ?tool allowed (path_values action) (ta_input action) = Allow updated"
      and nonempty: "path_values action \<noteq> []"
    by (simp_all add: deny_def split: if_splits ToolPermissionDecision.splits)
  from path_values_cases[of action] nonempty obtain key v where
    kv: "map_of PATH_INPUTS ?tool = Some key" "path_values action = [(key, v)]" by auto
  from check_paths_single[OF check[unfolded kv(2)]] obtain c q where
    c: "updated = AList.update key (JStr c) (ta_input action)" "canonicalPath (real_of E) q = Some c"
    "c \<noteq> rp_policyFile rp" "dangerousPathDecision ?tool c = None" "\<exists>f \<in> set allowed. isWithin f c" .
  from c(5) have "(\<exists>r \<in> set rels. \<exists>f \<in> set (cr_folders r). f \<in> set (pa_folders ?a) \<and> isWithin f c) \<and> (require \<longrightarrow> ra)
     \<or> (\<exists>p \<in> set trusted. isWithin (tp_canonicalFolder p) c
          \<and> (require \<longrightarrow> accessPresetAllowsTool (tp_accessPreset p) ?tool))"
    by (auto simp: allowed_def tt_def split: if_splits)
  moreover have "p \<in> set trusted \<Longrightarrow> tp_canonicalFolder p \<in> set (pa_folders ?a)" for p
    by (simp add: trusted_def trusted_selected_def)
  ultimately have "(\<exists>r \<in> set rels. \<exists>f \<in> set (cr_folders r). f \<in> set (pa_folders ?a) \<and> isWithin f c)
       \<and> (require \<longrightarrow> (\<exists>r \<in> set rels. ?tool \<in> set (cr_tools r)))
     \<or> (\<exists>p \<in> set trusted. tp_canonicalFolder p \<in> set (pa_folders ?a) \<and> isWithin (tp_canonicalFolder p) c
          \<and> (require \<longrightarrow> accessPresetAllowsTool (tp_accessPreset p) ?tool))"
    by (auto simp: ra_def list_ex_iff)
  moreover have "set rels \<subseteq> set (relationshipsFor rp m)" "set trusted \<subseteq> set (trustedPoliciesFor rp m)"
    by (auto simp: rels_def trusted_def)
  ultimately show thesis using that m d kv c by blast
qed

lemma decide_Allow:
  assumes "decide E rp action message require = (Allow updated, u)"
  shows "authorize_step E rp action message require = Some (Allow updated, u)"
  using assms by (auto simp: decide_def split: option.splits ToolPermissionDecision.splits)

lemma senders_for:
  "r \<in> set (relationshipsFor rp m) \<Longrightarrow> r \<in> set (rp_relationships rp) \<and> cr_principalId r = me_senderPrincipalId m
     \<and> Some (cr_deviceId r) = me_senderDeviceId m"
  "p \<in> set (trustedPoliciesFor rp m) \<Longrightarrow> p \<in> set (rp_trustedPolicies rp)
     \<and> tp_requesterPrincipalId p = me_senderPrincipalId m \<and> Some (tp_requesterDeviceId p) = me_senderDeviceId m"
  by (auto simp: relationshipsFor_def trustedPoliciesFor_def split: if_splits)

end
