(* ===== verification/Policy_Guarantees.thy ===== *)
theory Policy_Guarantees
  imports Relationship_Policy
begin

text \<open>
  Properties of the security policies: what an allowed action implies, who is refused, what
  revoking and granting do to the files, and that the files stay readable.
\<close>

section \<open>A machine to try them on\<close>

text \<open>Every path resolves to itself; the home is \<^verbatim>\<open>/home/bob\<close>.\<close>

definition plain_fs :: filesystem where
  "plain_fs = \<lparr>fs_realpath = Real, fs_cwd = ''/'', fs_home = ''/home/bob''\<rparr>"

definition plain_env :: policy_env where
  "plain_env = \<lparr>pe_fs = plain_fs, pe_url = (\<lambda>u. None), pe_le = (\<le>), pe_datetime = (\<lambda>t. t \<noteq> [])\<rparr>"

definition alice_folder :: "string \<Rightarrow> string list \<Rightarrow> CompiledRelationship" where
  "alice_folder folder tools = \<lparr>cr_principalId = ''alice'', cr_deviceId = ''laptop'', cr_tools = tools,
     cr_folders = [folder], cr_mcpServers = []\<rparr>"

definition bobs_policy :: "string option \<Rightarrow> CompiledRelationship list \<Rightarrow> RelationshipPolicy" where
  "bobs_policy trustedFile rs = \<lparr>rp_relationships = rs, rp_cwd = ''/home/bob'',
     rp_policyFile = ''/home/bob/.aicoo/relationships.json'', rp_trustedToolPolicyFile = trustedFile,
     rp_trustedPolicies = []\<rparr>"

definition from_alice :: MessageEnvelope where
  "from_alice = \<lparr>me_id = ''m1'', me_clientMessageId = ''c1'', me_communicationSessionId = Some ''s1'',
     me_collaborationId = None, me_collaborationTurn = None, me_senderPrincipalId = ''alice'',
     me_senderDeviceId = Some ''laptop'',
     me_target = \<lparr>mt_kind = Runtime_session, mt_principalId = ''bob'', mt_endpointId = None, mt_sessionHandle = None\<rparr>,
     me_kind = Text, me_payload = [], me_replyTo = None, me_correlationId = None, me_sequence = 1,
     me_createdAt = 0, me_expiresAt = 0\<rparr>"

definition write_to :: "string \<Rightarrow> ToolAction" where
  "write_to p = \<lparr>ta_toolName = ''Write'', ta_input = [(''file_path'', JStr p)]\<rparr>"

lemma decide_on_plain:
  "decide plain_env (bobs_policy None [alice_folder ''/w/app'' [''Read'', ''Write'']]) (write_to ''/w/app/a.ts'')
     (Some from_alice) True = (Allow [(''file_path'', JStr ''/w/app/a.ts'')], None)"
  by code_simp

section \<open>Tool actions\<close>



text \<open>
  Whoever is neither in a relationship nor in a trusted policy, with
  this user and this device, is denied every action, and has no project access.
\<close>

theorem unknown_device_denied:
  assumes "\<And>m. message = Some m \<Longrightarrow> relationshipsFor rp m = [] \<and> trustedPoliciesFor rp m = []"
  shows "(\<exists>e i. fst (decide E rp action message requireToolGrant) = Deny e i)
    \<and> pa_folders (fst (access_of E rp message)) = [] \<and> pa_status (fst (access_of E rp message)) \<noteq> Access_selected"
proof -
  have "fst (decide E rp action message requireToolGrant) \<noteq> Allow i" for i
  proof
    assume "fst (decide E rp action message requireToolGrant) = Allow i"
    then obtain u where "decide E rp action message requireToolGrant = (Allow i, u)"
      by (metis prod.collapse)
    from authorize_step_Allow[OF decide_Allow[OF this]] assms show False by (metis empty_iff set_empty subset_empty)
  qed
  moreover have "pa_folders (fst (access_of E rp message)) = [] \<and> pa_status (fst (access_of E rp message)) \<noteq> Access_selected"
  proof (cases message)
    case (Some m)
    have empty: "folders_of [] [] = []" "objectivePreflightProjects (Some m) [] = []"
      by (simp_all add: folders_of_def objectivePreflightProjects_def split: option.split)
    show ?thesis
      using assms[OF Some] by (cases "projectAccessSelectors (Some m)")
        (simp_all add: Some access_of_def no_access_def Let_def empty)
  qed (simp add: access_of_def no_access_def)
  ultimately show ?thesis by (metis ToolPermissionDecision.exhaust)
qed

theorem unknown_device_denied_witness:
  "pa_folders (fst (access_of plain_env
     (bobs_policy None [alice_folder ''/w/app'' [''Read'']]) (Some (from_alice\<lparr>me_senderDeviceId := Some ''phone''\<rparr>)))) = []"
  using unknown_device_denied[of "Some (from_alice\<lparr>me_senderDeviceId := Some ''phone''\<rparr>)"
      "bobs_policy None [alice_folder ''/w/app'' [''Read'']]" plain_env "write_to []" True]
  by (simp add: relationshipsFor_def trustedPoliciesFor_def bobs_policy_def alice_folder_def from_alice_def)

text \<open>
  The list of files that run on next use names the directory
  \<^verbatim>\<open>.git/hooks\<close>, but the test compares the end of the path: writing a hook inside that
  directory is allowed, though writing \<^verbatim>\<open>.git/config\<close> is refused.
\<close>

theorem git_hook_writable:
  "dangerousPathDecision ''Write'' ''/w/app/.git/hooks'' \<noteq> None
   \<and> decide plain_env (bobs_policy None [alice_folder ''/w/app'' [''Write'']]) (write_to ''/w/app/.git/hooks/pre-commit'')
       (Some from_alice) True = (Allow [(''file_path'', JStr ''/w/app/.git/hooks/pre-commit'')], None)
   \<and> fst (decide plain_env (bobs_policy None [alice_folder ''/w/app'' [''Write'']]) (write_to ''/w/app/.git/config'')
       (Some from_alice) True)
     = Deny ''Execution-on-next-use files cannot be modified by a remote relationship'' None"
  by (intro conjI; code_simp)

section \<open>The files that grant access\<close>

text \<open>
  C22: a policy in force lies outside every folder it grants, the root
  excepted, and both files lie outside every folder of a trusted policy; the trusted
  policies in force are active ones of this owner, for this run of the bridge or persistent.
\<close>

theorem policy_files_protected:
  assumes "new_policy E document cwd policyFile options content = Inr rp"
  shows "(\<forall>r \<in> set (rp_relationships rp). \<forall>f \<in> set (cr_folders r). f = root_of f \<or> \<not> isWithin f (rp_policyFile rp))
    \<and> (\<forall>p \<in> set (rp_trustedPolicies rp). \<not> isWithin (tp_canonicalFolder p) (rp_policyFile rp)
         \<and> (\<forall>t. rp_trustedToolPolicyFile rp = Some t \<longrightarrow> \<not> isWithin (tp_canonicalFolder p) t)
         \<and> (\<exists>identity. trustedPolicyIdentity options = Some identity \<and> policyMatchesOwner p identity))"
proof -
  have exposed: "exposed_by pf t ps = None \<Longrightarrow> p \<in> set ps \<Longrightarrow>
      \<not> isWithin (tp_canonicalFolder p) pf \<and> (\<forall>f. t = Some f \<longrightarrow> \<not> isWithin (tp_canonicalFolder p) f)" for pf t ps p
    by (induction ps) (auto split: if_splits)
  have force: "trusted_in_force E options t content = Inr ps \<Longrightarrow> p \<in> set ps \<Longrightarrow>
      \<exists>identity. trustedPolicyIdentity options = Some identity \<and> policyMatchesOwner p identity" for t ps p
    by (auto simp: trusted_in_force_def split: option.splits if_splits)
       (cases "readTrustedToolPolicies (pe_datetime E) content"; auto)
  from assms obtain rs where
    "\<not> list_ex (exposes (rp_policyFile rp)) (rp_relationships rp)"
    "exposed_by (rp_policyFile rp) (rp_trustedToolPolicyFile rp) (rp_trustedPolicies rp) = None"
    "trusted_in_force E options (rp_trustedToolPolicyFile rp) content = Inr (rp_trustedPolicies rp)"
    by (auto simp: new_policy_def split: sum.splits option.splits if_splits)
  with exposed force show ?thesis by (fastforce simp: list_ex_iff exposes_def)
qed

definition bobs_options :: RelationshipPolicyOptions where
  "bobs_options = \<lparr>po_trustedToolPolicyFile = Some ''/home/bob/shared/trusted.json'', po_ownerPrincipalId = Some ''bob'',
     po_ownerDeviceId = Some ''desk'', po_bridgeInstanceId = Some ''b1''\<rparr>"

definition alices_entry :: RelationshipEntry where
  "alices_entry = \<lparr>re_principalId = ''alice'', re_deviceId = ''laptop'', re_tools = [''Write''],
     re_folders = [''/home/bob/shared''], re_mcpServers = None\<rparr>"

lemma shared_policy_accepted:
  "new_policy plain_env [alices_entry] ''/home/bob'' ''/home/bob/.aicoo/relationships.json'' bobs_options Absent
     = Inr (bobs_policy (Some ''/home/bob/shared/trusted.json'') [alice_folder ''/home/bob/shared'' [''Write'']])"
  by code_simp

theorem policy_files_protected_witness:
  "\<not> isWithin ''/home/bob/shared'' ''/home/bob/.aicoo/relationships.json''"
  using policy_files_protected[OF shared_policy_accepted]
  by (simp add: bobs_policy_def alice_folder_def root_of_def isAbsolute_def)

text \<open>
  The folders of relationships are checked against the policy file
  only. A relationship whose folder holds the trusted tool file is accepted, and its
  collaborator may then write that file, that is, grant themselves any folder.
\<close>

theorem trusted_file_writable:
  "new_policy plain_env [alices_entry] ''/home/bob'' ''/home/bob/.aicoo/relationships.json'' bobs_options Absent
     = Inr (bobs_policy (Some ''/home/bob/shared/trusted.json'') [alice_folder ''/home/bob/shared'' [''Write'']])
   \<and> decide plain_env (bobs_policy (Some ''/home/bob/shared/trusted.json'') [alice_folder ''/home/bob/shared'' [''Write'']])
       (write_to ''/home/bob/shared/trusted.json'') (Some from_alice) True
     = (Allow [(''file_path'', JStr ''/home/bob/shared/trusted.json'')], None)"
  by (rule conjI[OF shared_policy_accepted]) code_simp

section \<open>Trusted tool policies\<close>


definition grant_to_alice :: "string \<Rightarrow> int \<Rightarrow> trusted_op" where
  "grant_to_alice now r = Op_upsert now ''x'' \<lparr>ui_policyId = Some ''p1'', ui_ownerPrincipalId = ''bob'',
     ui_ownerDeviceId = ''desk'', ui_requesterPrincipalId = ''alice'', ui_requesterDeviceId = ''laptop'',
     ui_folder = ''/w/app'', ui_accessPreset = Edit_project, ui_scope = Persistent, ui_bridgeInstanceId = None,
     ui_createdFrom = From_settings, ui_createdBy = ''bob'', ui_createdAt = None, ui_serverRevision = Some r\<rparr>"

definition plain_disk :: filesystem where
  "plain_disk = plain_fs\<lparr>fs_realpath := (\<lambda>p. if clean p then Real p else Missing_path)\<rparr>"

definition timestamp :: "string \<Rightarrow> bool" where
  "timestamp t = (t \<noteq> [])"

lemma clean_plain_disk: "clean_folders plain_disk"
  by (simp add: clean_folders_def plain_disk_def)

lemma grant_to_alice_ok: "0 \<le> r \<Longrightarrow> now \<noteq> [] \<Longrightarrow> op_ok timestamp (grant_to_alice now r)"
  by (simp add: op_ok_def grant_to_alice_def upsert_ok_def clean_def trim_def js_space_def timestamp_def)

lemma other_ops_ok [simp]:
  "op_ok timestamp (Op_used now policyId) \<longleftrightarrow> now \<noteq> []"
  "op_ok timestamp (Op_revoke now policyId who r) \<longleftrightarrow> now \<noteq> [] \<and> clean who \<and> pred_option (\<lambda>n. 0 \<le> n) r"
  "op_ok timestamp (Op_invalidate policyId reason) \<longleftrightarrow> clean reason"
  "clean ''gone''" "clean ''bob''"
  by (simp_all add: op_ok_def timestamp_def clean_def trim_def js_space_def)


text \<open>
  The server revision recorded for a policy never decreases, whatever
  operations run: a late event of an older revision cannot undo a newer one's record.
\<close>

theorem revisions_never_regress:
  assumes "readTrustedToolPolicies datetime content = Inr d" "list_all (op_ok datetime) ops" "clean_folders fs"
    and "map_of (td_serverRevisions d) policyId = Some n"
  shows "\<exists>d' m. readTrustedToolPolicies datetime (fold (trusted_step datetime fs) ops content) = Inr d'
    \<and> map_of (td_serverRevisions d') policyId = Some m \<and> n \<le> m"
  using trusted_run[OF assms(1-3)] revision_run[OF _ assms(4)] by blast

lemma granted_once:
  "trusted_step timestamp plain_disk (grant_to_alice ''t1'' 1) Absent = writeTrustedToolPolicies
     \<lparr>td_revision = 1, td_serverRevisions = [(''p1'', 1)],
      td_policies = [\<lparr>tp_policyId = ''p1'', tp_ownerPrincipalId = ''bob'', tp_ownerDeviceId = ''desk'',
        tp_requesterPrincipalId = ''alice'', tp_requesterDeviceId = ''laptop'', tp_canonicalFolder = ''/w/app'',
        tp_scope = Persistent, tp_bridgeInstanceId = None, tp_status = Policy_active, tp_createdFrom = From_settings,
        tp_createdAt = ''t1'', tp_createdBy = ''bob'', tp_lastUsedAt = None, tp_useCount = 0, tp_pendingUses = [],
        tp_revokedAt = None, tp_revokedBy = None, tp_invalidatedReason = None, tp_accessPreset = Edit_project\<rparr>]\<rparr>"
  by code_simp

theorem revisions_never_regress_witness:
  "\<exists>d' m. readTrustedToolPolicies timestamp (fold (trusted_step timestamp plain_disk)
     [Op_used ''t2'' ''p1'', grant_to_alice ''t3'' 0] (trusted_step timestamp plain_disk (grant_to_alice ''t1'' 1) Absent))
       = Inr d' \<and> map_of (td_serverRevisions d') ''p1'' = Some m \<and> 1 \<le> m"
proof -
  let ?f = "trusted_step timestamp plain_disk (grant_to_alice ''t1'' 1) Absent"
  have "readTrustedToolPolicies timestamp Absent = Inr empty_document" by (simp add: readTrustedToolPolicies_def)
  from trusted_steps[OF this grant_to_alice_ok[of 1 "''t1''"] clean_plain_disk] obtain d where
    d: "readTrustedToolPolicies timestamp ?f = Inr d" by auto
  moreover have "map_of (td_serverRevisions d) ''p1'' = Some 1"
  proof -
    have "projr (readTrustedToolPolicies timestamp ?f) = d" using d by simp
    moreover have "map_of (td_serverRevisions (projr (readTrustedToolPolicies timestamp ?f))) ''p1'' = Some 1"
      by code_simp
    ultimately show ?thesis by simp
  qed
  ultimately show ?thesis
    using revisions_never_regress[OF d _ clean_plain_disk, of "[Op_used ''t2'' ''p1'', grant_to_alice ''t3'' 0]" "''p1''" 1]
    by (simp add: grant_to_alice_ok)
qed

text \<open>
  Every use of a trusted policy is numbered once. After any operations the uses
  that wait to be reported are the last ones, in order and without a gap; reporting through a
  number leaves exactly the later ones of that policy.
\<close>

theorem uses_accounted:
  assumes "list_all (op_ok datetime) ops" "clean_folders fs"
    and "readTrustedToolPolicies datetime (fold (trusted_step datetime fs) ops Absent) = Inr d" "p \<in> set (td_policies d)"
  shows "\<exists>k. 0 \<le> k \<and> k \<le> tp_useCount p \<and> map tu_sequence (tp_pendingUses p) = [k + 1..tp_useCount p]
    \<and> (\<forall>i n d'. with_policy policyId d = Some i \<longrightarrow> p = td_policies d ! i \<longrightarrow>
         readTrustedToolPolicies datetime (snd (markTrustedToolPolicyUsesReported datetime policyId n
           (fold (trusted_step datetime fs) ops Absent))) = Inr d' \<longrightarrow>
         map tu_sequence (tp_pendingUses (td_policies d' ! i)) = [max k n + 1..tp_useCount p])"
proof -
  let ?f = "fold (trusted_step datetime fs) ops Absent"
  have "readTrustedToolPolicies datetime Absent = Inr empty_document" by (simp add: readTrustedToolPolicies_def)
  from trusted_run[OF this assms(1,2)] assms(3) have "document_step\<^sup>*\<^sup>* empty_document d" by simp
  from usage_run[OF this] assms(4) have "usage_ok p" by (auto simp: empty_document_def)
  then obtain k where k: "0 \<le> k" "k \<le> tp_useCount p" "map tu_sequence (tp_pendingUses p) = [k + 1..tp_useCount p]"
    by (auto simp: usage_ok_def)
  have "map tu_sequence (tp_pendingUses (td_policies d' ! i)) = [max k n + 1..tp_useCount p]"
    if i: "with_policy policyId d = Some i" "p = td_policies d ! i"
      and d': "readTrustedToolPolicies datetime (snd (markTrustedToolPolicyUsesReported datetime policyId n ?f)) = Inr d'"
    for i n d'
  proof -
    let ?us = "filter (\<lambda>u. n < tu_sequence u) (tp_pendingUses p)"
    let ?d = "d\<lparr>td_revision := td_revision d + 1, td_policies := (td_policies d)[i := p\<lparr>tp_pendingUses := ?us\<rparr>]\<rparr>"
    from i(1) have len: "i < length (td_policies d)" by (auto simp: with_policy_def dest: find_index_Some)
    show ?thesis
    proof (cases "length ?us = length (tp_pendingUses p)")
      case True
      then have "?us = tp_pendingUses p" by (metis filter_id_conv length_filter_less less_irrefl)
      moreover from True have "d' = d"
        using d' assms(3) by (simp add: markTrustedToolPolicyUsesReported_def i)
      ultimately show ?thesis using usage_filter[OF k(3), of n] i(2) by simp
    next
      case False
      have "policy_ok datetime p" using nth_policy_ok[OF read_ok[OF assms(3)] len] i(2) by simp
      then have "policy_ok datetime (p\<lparr>tp_pendingUses := ?us\<rparr>)" by (simp add: policy_ok_def list_all_iff)
      from policies_update_ok[OF read_ok[OF assms(3)] len this] read_ok[OF assms(3)]
      have "document_ok datetime ?d" by (simp add: document_ok_def)
      then have "d' = ?d"
        using d' assms(3) False by (simp add: markTrustedToolPolicyUsesReported_def i read_write Let_def)
      with len show ?thesis by (simp add: usage_filter[OF k(3)])
    qed
  qed
  with k show ?thesis by blast
qed

theorem uses_accounted_witness:
  "\<exists>(p :: TrustedToolPolicy) k. tp_policyId p = ''p1'' \<and> map tu_sequence (tp_pendingUses p) = [k + 1..tp_useCount p] \<and> tp_useCount p = 2"
proof -
  let ?ops = "[grant_to_alice ''t1'' 1, Op_used ''t2'' ''p1'', Op_used ''t3'' ''p1'']"
  let ?f = "fold (trusted_step timestamp plain_disk) ?ops Absent"
  have ok: "list_all (op_ok timestamp) ?ops" by (simp add: grant_to_alice_ok)
  have "readTrustedToolPolicies timestamp Absent = Inr empty_document" by (simp add: readTrustedToolPolicies_def)
  from trusted_run[OF this ok clean_plain_disk] obtain d where d: "readTrustedToolPolicies timestamp ?f = Inr d" by auto
  moreover have "map (\<lambda>p. (tp_policyId p, tp_useCount p)) (td_policies (projr (readTrustedToolPolicies timestamp ?f))) = [(''p1'', 2)]"
    by code_simp
  ultimately obtain p where "p \<in> set (td_policies d)" "tp_policyId p = ''p1''" "tp_useCount p = 2"
    by (cases "td_policies d") auto
  moreover from uses_accounted[OF ok clean_plain_disk d this(1)]
  obtain k where "map tu_sequence (tp_pendingUses p) = [k + 1..tp_useCount p]" by blast
  ultimately show ?thesis by blast
qed

text \<open>
  When policy ids are unique in the file, a revocation that is not of an
  older revision leaves no active policy of that id, and the policies of other ids as they
  were.
\<close>

theorem revocation_takes_effect:
  assumes "readTrustedToolPolicies datetime content = Inr d" "distinct (map tp_policyId (td_policies d))"
    and "op_ok datetime (Op_revoke now policyId revokedBy serverRevision)"
    and "\<And>n. map_of (td_serverRevisions d) policyId = Some n \<Longrightarrow> n \<le> or_else serverRevision n"
  shows "\<exists>d'. readTrustedToolPolicies datetime
        (snd (revokeTrustedToolPolicy datetime now policyId revokedBy serverRevision content)) = Inr d'
    \<and> (\<forall>p \<in> set (td_policies d'). tp_policyId p = policyId \<longrightarrow> tp_status p \<noteq> Policy_active)
    \<and> filter (\<lambda>p. tp_policyId p \<noteq> policyId) (td_policies d') = filter (\<lambda>p. tp_policyId p \<noteq> policyId) (td_policies d)"
proof -
  let ?sr = "or_else serverRevision (or_else (map_of (td_serverRevisions d) policyId) 0)"
  let ?srs = "AList.update policyId ?sr (td_serverRevisions d)"
  note ok = read_ok[OF assms(1)]
  have fresh: "\<not> (map_of (td_serverRevisions d) policyId \<noteq> None \<and> ?sr < the (map_of (td_serverRevisions d) policyId))"
    using assms(4) by (cases serverRevision; cases "map_of (td_serverRevisions d) policyId") auto
  have "0 \<le> or_else (map_of (td_serverRevisions d) policyId) 0"
    using ok by (cases "map_of (td_serverRevisions d) policyId") (auto simp: document_ok_def list_all_iff dest: map_of_SomeD)
  then have "0 \<le> ?sr" using assms(3) by (cases serverRevision) (auto simp: op_ok_def)
  with ok have srs: "list_all (\<lambda>(k, n). 0 \<le> n) ?srs" by (simp add: document_ok_def revisions_update_ok)
  note def = revokeTrustedToolPolicy_def[of datetime now policyId revokedBy serverRevision content]
  show ?thesis
  proof (cases "with_policy policyId d")
    case None
    let ?d' = "d\<lparr>td_revision := td_revision d + 1, td_serverRevisions := ?srs\<rparr>"
    have "snd (revokeTrustedToolPolicy datetime now policyId revokedBy serverRevision content) = writeTrustedToolPolicies ?d'"
      unfolding def assms(1) sum.case Let_def if_not_P[OF fresh] None option.case snd_conv ..
    moreover have "document_ok datetime ?d'" using ok srs by (simp add: document_ok_def)
    moreover have "\<forall>p \<in> set (td_policies d). tp_policyId p \<noteq> policyId"
      using None by (simp add: with_policy_def find_index_None)
    ultimately show ?thesis by (simp add: read_write)
  next
    case (Some i)
    then have i: "i < length (td_policies d)" "tp_policyId (td_policies d ! i) = policyId"
      by (auto simp: with_policy_def dest: find_index_Some)
    have only: "k = i" if "k < length (td_policies d)" "tp_policyId (td_policies d ! k) = policyId" for k
      using assms(2) that i by (simp add: distinct_conv_nth) metis
    let ?p = "(td_policies d ! i)\<lparr>tp_status := Policy_revoked, tp_revokedAt := Some now, tp_revokedBy := Some revokedBy\<rparr>"
    let ?d' = "\<lparr>td_revision = td_revision d + 1, td_serverRevisions = ?srs, td_policies = (td_policies d)[i := ?p]\<rparr>"
    have eq: "snd (revokeTrustedToolPolicy datetime now policyId revokedBy serverRevision content) =
        (if tp_status (td_policies d ! i) \<noteq> Policy_active then content else writeTrustedToolPolicies ?d')"
      unfolding def assms(1) sum.case Let_def if_not_P[OF fresh] Some option.case by simp
    have "policy_ok datetime ?p"
      using nth_policy_ok[OF ok i(1)] assms(3) by (auto simp: policy_ok_def op_ok_def)
    then have "document_ok datetime ?d'"
      using policies_update_ok[OF ok i(1)] ok srs by (simp add: document_ok_def)
    moreover have "filter (\<lambda>p. tp_policyId p \<noteq> policyId) ((td_policies d)[i := ?p])
        = filter (\<lambda>p. tp_policyId p \<noteq> policyId) (td_policies d)"
      using i by (simp add: upd_conv_take_nth_drop) (subst (3) id_take_nth_drop[OF i(1)], simp)
    moreover have "\<forall>p \<in> set ((td_policies d)[i := ?p]). tp_policyId p = policyId \<longrightarrow> tp_status p \<noteq> Policy_active"
    proof (intro ballI impI)
      fix p assume "p \<in> set ((td_policies d)[i := ?p])" "tp_policyId p = policyId"
      then obtain k where "k < length (td_policies d)" "p = (td_policies d)[i := ?p] ! k"
        by (auto simp: in_set_conv_nth)
      with only[of k] i \<open>tp_policyId p = policyId\<close> show "tp_status p \<noteq> Policy_active"
        by (cases "k = i") auto
    qed
    moreover have "\<forall>p \<in> set (td_policies d). tp_policyId p = policyId \<longrightarrow> p = td_policies d ! i"
      using only by (auto simp: in_set_conv_nth)
    ultimately show ?thesis using assms(1) by (auto simp: eq read_write)
  qed
qed

theorem revocation_takes_effect_witness:
  "\<exists>d'. readTrustedToolPolicies timestamp (snd (revokeTrustedToolPolicy timestamp ''t2'' ''p1'' ''bob'' (Some 2)
      (trusted_step timestamp plain_disk (grant_to_alice ''t1'' 1) Absent))) = Inr d'
    \<and> (\<forall>p \<in> set (td_policies d'). tp_policyId p = ''p1'' \<longrightarrow> tp_status p \<noteq> Policy_active)"
proof -
  let ?f = "trusted_step timestamp plain_disk (grant_to_alice ''t1'' 1) Absent"
  have "readTrustedToolPolicies timestamp Absent = Inr empty_document" by (simp add: readTrustedToolPolicies_def)
  from trusted_steps[OF this grant_to_alice_ok[of 1 "''t1''"] clean_plain_disk] obtain d where
    d: "readTrustedToolPolicies timestamp ?f = Inr d" by auto
  have "map tp_policyId (td_policies (projr (readTrustedToolPolicies timestamp ?f))) = [''p1'']"
    and "td_serverRevisions (projr (readTrustedToolPolicies timestamp ?f)) = [(''p1'', 1)]"
    by code_simp+
  with d have "distinct (map tp_policyId (td_policies d))" "td_serverRevisions d = [(''p1'', 1)]" by simp_all
  moreover have "op_ok timestamp (Op_revoke ''t2'' ''p1'' ''bob'' (Some 2))"
    by (simp add: op_ok_def timestamp_def clean_def trim_def js_space_def)
  ultimately show ?thesis
    using revocation_takes_effect[OF d, of "''t2''" "''p1''" "''bob''" "Some 2"] by auto
qed

text \<open>
  A policy that is revoked and granted again under the same
  id is in the file twice. A further revocation finds the first entry, sees that it is not
  active and stops: the file is unchanged and the second entry stays in force.
\<close>

theorem regranted_policy_survives_revocation:
  "(let content = fold (trusted_step timestamp plain_disk)
         [grant_to_alice ''t1'' 1, Op_revoke ''t2'' ''p1'' ''bob'' (Some 2), grant_to_alice ''t3'' 3] Absent
    in trusted_step timestamp plain_disk (Op_revoke ''t4'' ''p1'' ''bob'' (Some 4)) content = content
       \<and> map (\<lambda>p. (tp_policyId p, tp_status p)) (td_policies (projr (readTrustedToolPolicies timestamp content)))
           = [(''p1'', Policy_revoked), (''p1'', Policy_active)]
       \<and> length (projr (trusted_in_force (plain_env\<lparr>pe_datetime := timestamp\<rparr>) bobs_options
           (po_trustedToolPolicyFile bobs_options) content)) = 1)"
  by code_simp

section \<open>Granting to one device\<close>

lemma traverse_Inr: "traverse f xs = Inr ys \<Longrightarrow> list_all2 (\<lambda>x y. f x = Inr y) xs ys"
  by (induction xs arbitrary: ys) (auto split: sum.splits)

lemma traverse_set: "traverse f xs = Inr ys \<Longrightarrow> set ys = {y. \<exists>x \<in> set xs. f x = Inr y}"
  by (drule traverse_Inr) (force simp: list_all2_conv_all_nth in_set_conv_nth)

lemma canonical_Inr: "canonical E p = Inr c \<longleftrightarrow> canonicalPath (real_of E) p = Some c"
  by (auto simp: canonical_def the_or_def split: option.splits)

lemma supported_clean: "supported_tool t \<Longrightarrow> clean t"
  by (auto simp: supported_tool_def PATH_INPUTS_def clean_def trim_def js_space_def)

lemma mcp_of_valid: "orders (pe_le E) \<Longrightarrow> mcp_of E gs = Inr hs \<Longrightarrow> valid_grants (pe_url E) hs"
  by (auto simp: mcp_of_def the_or_def intro!: canonical_valid dest: parse_canonical split: option.splits)

lemma upsert_writes:
  assumes "upsertRelationshipPolicy E i content = (Inr rs, content')" and old: "readPolicyDocument E content = Inr old"
  obtains resolved servers nxt where
    "traverse (canonical E) (filter (\<lambda>f. f \<noteq> []) (map trim (ur_folders i))) = Inr resolved"
    "list_all supported_tool (ur_tools i)" "\<exists>gs. mcp_of E gs = Inr servers"
    "nxt = \<lparr>re_principalId = ur_principalId i, re_deviceId = ur_deviceId i, re_tools = sort (js_set (ur_tools i)),
       re_folders = sort (js_set resolved), re_mcpServers = (if servers \<noteq> [] then Some servers else None)\<rparr>"
    "rs = sort_by (\<lambda>l r. pe_le E (relationship_key l) (relationship_key r))
       (filter (\<lambda>r. \<not> same_peer (ur_principalId i) (ur_deviceId i) r) old @ [nxt])"
    "content' = writePolicyDocument rs"
proof -
  note def = assms(1)[unfolded upsertRelationshipPolicy_def Let_def]
  have tools: "List.find (\<lambda>t. \<not> supported_tool t) (ur_tools i) = None"
    using def by (cases "List.find (\<lambda>t. \<not> supported_tool t) (ur_tools i)") simp_all
  obtain resolved where resolved: "traverse (canonical E) (filter (\<lambda>f. f \<noteq> []) (map trim (ur_folders i))) = Inr resolved"
    using def by (cases "traverse (canonical E) (filter (\<lambda>f. f \<noteq> []) (map trim (ur_folders i)))") (simp_all add: tools old)
  let ?file = "if list_ex (\<lambda>f. f \<noteq> root_of f) (js_set resolved) then map_sum id Some (canonical E (ur_file i)) else Inr None"
  obtain pf where pf: "?file = Inr pf"
    using def by (cases ?file) (simp_all add: tools old resolved)
  have out: "\<not> list_ex (\<lambda>f. f \<noteq> root_of f \<and> isWithin f (the pf)) (js_set resolved)"
    using def by (auto simp: tools old resolved pf split: if_splits)
  let ?gs = "or_else (ur_mcpServers i) (case List.find (same_peer (ur_principalId i) (ur_deviceId i)) old of None \<Rightarrow> []
      | Some r \<Rightarrow> or_else (re_mcpServers r) [])"
  obtain servers where servers: "mcp_of E ?gs = Inr servers"
    using def out by (cases "mcp_of E ?gs") (simp_all add: tools old resolved pf)
  let ?nxt = "\<lparr>re_principalId = ur_principalId i, re_deviceId = ur_deviceId i, re_tools = sort (js_set (ur_tools i)),
       re_folders = sort (js_set resolved), re_mcpServers = (if servers \<noteq> [] then Some servers else None)\<rparr>"
  have "rs = sort_by (\<lambda>l r. pe_le E (relationship_key l) (relationship_key r))
       (filter (\<lambda>r. \<not> same_peer (ur_principalId i) (ur_deviceId i) r) old @ [?nxt]) \<and> content' = writePolicyDocument rs"
    using def out by (simp add: tools old resolved pf servers) blast
  moreover have "list_all supported_tool (ur_tools i)" using tools by (simp add: find_None_iff list_all_iff)
  ultimately show thesis using that resolved servers by blast
qed

text \<open>
  A successful update of the policy file can be read back; the device it
  names has exactly the requested tools and the canonical forms of the requested folders, the
  entries of all other devices are the ones before, and devices stay unique.
\<close>

theorem upsert_sets_one_peer:
  assumes "upsertRelationshipPolicy E i content = (Inr rs, content')" "readPolicyDocument E content = Inr old"
    and "orders (pe_le E)" "clean (ur_principalId i)" "clean (ur_deviceId i)"
    and "\<And>f c. f \<in> set (ur_folders i) \<Longrightarrow> canonicalPath (real_of E) (trim f) = Some c \<Longrightarrow> clean c"
  shows "readPolicyDocument E content' = Inr rs
    \<and> (\<exists>e \<in> set rs. same_peer (ur_principalId i) (ur_deviceId i) e \<and> set (re_tools e) = set (ur_tools i)
        \<and> set (re_folders e) = {c. \<exists>f \<in> set (ur_folders i). trim f \<noteq> [] \<and> canonicalPath (real_of E) (trim f) = Some c}
        \<and> (\<forall>e' \<in> set rs. same_peer (ur_principalId i) (ur_deviceId i) e' \<longrightarrow> e' = e))
    \<and> {r \<in> set rs. \<not> same_peer (ur_principalId i) (ur_deviceId i) r}
      = {r \<in> set old. \<not> same_peer (ur_principalId i) (ur_deviceId i) r}
    \<and> (distinct (map (\<lambda>r. (re_principalId r, re_deviceId r)) old)
        \<longrightarrow> distinct (map (\<lambda>r. (re_principalId r, re_deviceId r)) rs))"
proof -
  let ?same = "same_peer (ur_principalId i) (ur_deviceId i)"
  obtain resolved servers nxt where u:
    "traverse (canonical E) (filter (\<lambda>f. f \<noteq> []) (map trim (ur_folders i))) = Inr resolved"
    "list_all supported_tool (ur_tools i)" "\<exists>gs. mcp_of E gs = Inr servers"
    "nxt = \<lparr>re_principalId = ur_principalId i, re_deviceId = ur_deviceId i, re_tools = sort (js_set (ur_tools i)),
       re_folders = sort (js_set resolved), re_mcpServers = (if servers \<noteq> [] then Some servers else None)\<rparr>"
    "rs = sort_by (\<lambda>l r. pe_le E (relationship_key l) (relationship_key r)) (filter (\<lambda>r. \<not> ?same r) old @ [nxt])"
    "content' = writePolicyDocument rs"
    by (rule upsert_writes[OF assms(1,2)])
  have folders: "set resolved = {c. \<exists>f \<in> set (ur_folders i). trim f \<noteq> [] \<and> canonicalPath (real_of E) (trim f) = Some c}"
    unfolding traverse_set[OF u(1)] by (auto simp: canonical_Inr)
  from u(3) mcp_of_valid[OF assms(3)] have mcp: "pred_option (valid_grants (pe_url E)) (re_mcpServers nxt)"
    by (auto simp: u(4))
  have "entry_ok E nxt"
    using u(2) folders assms(4-6) mcp by (auto simp: entry_ok_def u(4) list_all_iff supported_clean)
  with read_policy_ok[OF assms(2)] have "list_all (entry_ok E) rs"
    by (auto simp: u(5) list_all_iff)
  moreover have "?same nxt" by (simp add: same_peer_def u(4))
  moreover have "distinct (map (\<lambda>r. (re_principalId r, re_deviceId r)) rs)"
    if "distinct (map (\<lambda>r. (re_principalId r, re_deviceId r)) old)"
    using that by (auto simp: u(5) same_peer_def u(4) distinct_map_filter)
  moreover have "set (re_tools nxt) = set (ur_tools i)" "set (re_folders nxt) = set resolved"
    by (simp_all add: u(4))
  ultimately show ?thesis
    unfolding folders[symmetric] u(6) by (auto simp: read_write_policy u(5) intro!: bexI[of _ nxt])
qed

theorem upsert_sets_one_peer_witness:
  "\<exists>rs content'. upsertRelationshipPolicy plain_env \<lparr>ur_file = ''/home/bob/.aicoo/relationships.json'', ur_principalId = ''alice'',
       ur_deviceId = ''laptop'', ur_tools = [''Write'', ''Read''], ur_folders = ['' /w/app''], ur_mcpServers = None\<rparr> Absent
     = (Inr rs, content') \<and> readPolicyDocument plain_env content' = Inr rs"
proof -
  let ?i = "\<lparr>ur_file = ''/home/bob/.aicoo/relationships.json'', ur_principalId = ''alice'',
       ur_deviceId = ''laptop'', ur_tools = [''Write'', ''Read''], ur_folders = ['' /w/app''], ur_mcpServers = None\<rparr>"
  have "isl (fst (upsertRelationshipPolicy plain_env ?i Absent)) = False" by code_simp
  then obtain rs content' where up: "upsertRelationshipPolicy plain_env ?i Absent = (Inr rs, content')"
    by (metis isl_def old.sum.exhaust prod.collapse)
  have "orders (pe_le plain_env)" by (auto simp: orders_def plain_env_def)
  moreover have "clean ''alice''" "clean ''laptop''" "clean ''/w/app''" "trim '' /w/app'' = ''/w/app''" by code_simp+
  moreover have "canonicalPath (real_of plain_env) ''/w/app'' = Some ''/w/app''" by code_simp
  ultimately show ?thesis
    using upsert_sets_one_peer[OF up, of "[]"] up by (auto simp: readPolicyDocument_def)
qed

section \<open>Tool servers\<close>

text \<open>
  Accepted grants of remote tool servers are in canonical form (sixteen at most,
  unique names in order, unique tools in order, a URL of HTTPS or loopback HTTP without
  credentials, query or fragment), and parsing their rendered form gives the same grants.
\<close>

theorem mcp_grants_canonical:
  assumes "orders le" "parseRemoteMcpGrants parse_url le value = Some gs"
  shows "canonical_grants parse_url le gs \<and> parseRemoteMcpGrants parse_url le (grants_json gs) = Some gs"
  using parse_canonical[OF assms] parse_of_grants_json by blast

definition local_url :: "string \<Rightarrow> URL option" where
  "local_url u = Some \<lparr>u_protocol = ''http:'', u_hostname = ''localhost'', u_username = [], u_password = [],
     u_search = [], u_hash = []\<rparr>"

definition demo_grants :: json where
  "demo_grants = JArr [JObj [(''name'', JStr ''search''), (''url'', JStr ''http://localhost/mcp ''),
     (''enabledTools'', JArr [JStr ''b'', JStr ''a'', JStr ''b''])]]"

theorem mcp_grants_canonical_witness:
  "\<exists>gs. parseRemoteMcpGrants local_url (\<le>) demo_grants = Some gs
     \<and> parseRemoteMcpGrants local_url (\<le>) (grants_json gs) = Some gs"
proof -
  have "parseRemoteMcpGrants local_url (\<le>) demo_grants \<noteq> None" by code_simp
  then obtain gs where gs: "parseRemoteMcpGrants local_url (\<le>) demo_grants = Some gs" by blast
  have "orders ((\<le>) :: string \<Rightarrow> string \<Rightarrow> bool)" by (auto simp: orders_def)
  from mcp_grants_canonical[OF this gs] gs show ?thesis by blast
qed

section \<open>Resolving paths\<close>

text \<open>
  Climbing from a path to its directory, as \<open>canonicalPath\<close> does while
  nothing exists, reaches a path that is its own directory after at most one step more than
  the path has characters; there it throws.
\<close>

theorem canonical_path_terminates:
  "\<exists>n \<le> Suc (length p). dirname ((dirname ^^ n) p) = (dirname ^^ n) p
     \<and> ((\<forall>q. fs q = Missing_path) \<longrightarrow> canonicalPath fs p = None)"
proof -
  have "\<exists>n \<le> dirname_measure p. dirname ((dirname ^^ n) p) = (dirname ^^ n) p"
  proof (induction "dirname_measure p" arbitrary: p rule: less_induct)
    case less
    show ?case
    proof (cases "dirname p = p")
      case True
      then show ?thesis by (intro exI[of _ 0]) simp
    next
      case False
      from less[OF dirname_decreases[OF False]] obtain n where
        n: "n \<le> dirname_measure (dirname p)" "dirname ((dirname ^^ n) (dirname p)) = (dirname ^^ n) (dirname p)" by blast
      with dirname_decreases[OF False] show ?thesis
        by (intro exI[of _ "Suc n"]) (simp add: funpow_swap1)
    qed
  qed
  moreover have "dirname_measure p \<le> Suc (length p)" by (simp add: dirname_measure_def)
  moreover have "canonicalPath fs p = None" if "\<forall>q. fs q = Missing_path"
    using that
  proof (induction "dirname_measure p" arbitrary: p rule: less_induct)
    case less
    then show ?case using dirname_decreases[of p] by (subst canonicalPath.simps) auto
  qed
  ultimately show ?thesis by (meson order_trans)
qed

theorem canonical_path_terminates_witness:
  "canonicalPath (\<lambda>q. Missing_path) ''/a/b'' = None"
  using canonical_path_terminates[of "''/a/b''" "\<lambda>q. Missing_path"] by auto

end
