(* ===== verification/Telemetry.thy ===== *)
theory Telemetry
  imports Contracts Mcp_Grants Complex_Main "HOL-Library.Multiset"
begin

text \<open>
  Boundary telemetry (\<^verbatim>\<open>src/adapters/boundary-telemetry.ts\<close>) and the rollout gates that read
  it (\<^verbatim>\<open>src/shared/capability-rollout.ts\<close>): which tasks ran, how often a session had to be
  rebuilt after its start, and whether the wider capability surface may be used. Rates are
  rational numbers where the source has floating-point ones.
\<close>

section \<open>The record of transitions\<close>

datatype BoundaryTransitionKind = Kind_initial | Post_start_rebuild

datatype BoundaryTransitionCause =
    Cause_initial | Sender_change | Device_change | Boundary_change | Approval_boundary_expansion

definition BOUNDARY_TRANSITION_CAUSES :: "BoundaryTransitionCause list" where
  "BOUNDARY_TRANSITION_CAUSES =
     [Cause_initial, Sender_change, Device_change, Boundary_change, Approval_boundary_expansion]"

record MetricTask =
  mk_message_id :: string
  mk_local_handle :: string
  mk_correlation_id :: string
  mk_created_at :: time

record MetricTransition =
  mx_transition_id :: string
  mx_message_id :: string
  mx_kind :: BoundaryTransitionKind
  mx_cause :: BoundaryTransitionCause
  mx_boundary_key :: string
  mx_success :: bool
  mx_latency_ms :: int
  mx_failure_code :: "string option"
  mx_created_at :: time

record telemetry =
  metric_tasks :: "MetricTask list"
  metric_transitions :: "MetricTransition list"

definition new_telemetry :: telemetry where
  "new_telemetry = \<lparr>metric_tasks = [], metric_transitions = []\<rparr>"

definition recordEligibleTask :: "string \<Rightarrow> string \<Rightarrow> string \<Rightarrow> time \<Rightarrow> telemetry \<Rightarrow> telemetry" where
  "recordEligibleTask messageId localHandle correlationId now =
     metric_tasks_update (insert_or_ignore mk_message_id
       \<lparr>mk_message_id = messageId, mk_local_handle = localHandle, mk_correlation_id = correlationId,
        mk_created_at = now\<rparr>)"

definition failure_char :: "char \<Rightarrow> bool" where
  "failure_char c = (in_chars CHR ''a'' CHR ''z'' c \<or> is_digit c \<or> c \<in> {CHR ''_'', CHR '':'', CHR ''-''})"

definition safeFailureCode :: "string option \<Rightarrow> string option" where
  "safeFailureCode v =
     (if \<not> truthy v then None
      else if length (the v) \<le> 128 \<and> list_all failure_char (the v) then v
      else Some ''unknown_failure'')"

record BoundaryTransition =
  bt_transitionId :: string
  bt_messageId :: string
  bt_kind :: BoundaryTransitionKind
  bt_cause :: BoundaryTransitionCause
  bt_boundaryKey :: string
  bt_success :: bool
  bt_latencyMs :: int
  bt_failureCode :: "string option"

definition recordTransition :: "(string \<Rightarrow> string) \<Rightarrow> BoundaryTransition \<Rightarrow> time \<Rightarrow> telemetry \<Rightarrow> telemetry" where
  "recordTransition sha256 i now =
     metric_transitions_update (insert_or_ignore mx_transition_id
       \<lparr>mx_transition_id = bt_transitionId i, mx_message_id = bt_messageId i, mx_kind = bt_kind i,
        mx_cause = bt_cause i, mx_boundary_key = sha256 (bt_boundaryKey i), mx_success = bt_success i,
        mx_latency_ms = max 0 (bt_latencyMs i), mx_failure_code = safeFailureCode (bt_failureCode i),
        mx_created_at = now\<rparr>)"

section \<open>The snapshot\<close>

text \<open>The element at index \<open>ceil (n * percent / 100) - 1\<close>.\<close>

definition percentile :: "int list \<Rightarrow> nat \<Rightarrow> int option" where
  "percentile xs percent =
     (if xs = [] then None
      else Some (xs ! min (length xs - 1) ((length xs * percent + 99) div 100 - 1)))"

record BoundaryMetricsSnapshot =
  bm_eligibleTasks :: nat
  bm_initialBoundaryBuilds :: nat
  bm_postStartRebuildTasks :: nat
  bm_totalPostStartRebuilds :: nat
  bm_postStartRebuildAttempts :: nat
  bm_failedPostStartRebuilds :: nat
  bm_failedBoundaryBuilds :: nat
  bm_rebuildRate :: rat
  bm_rebuildFailureRate :: rat
  bm_rebuildLatencyP50Ms :: "int option"
  bm_rebuildLatencyP95Ms :: "int option"
  bm_rebuildsByCause :: "(BoundaryTransitionCause \<times> nat) list"
  bm_failuresByCode :: "(string \<times> nat) list"

definition is_rebuild :: "MetricTransition \<Rightarrow> bool" where
  "is_rebuild t = (mx_kind t = Post_start_rebuild)"

definition count_code :: "string \<Rightarrow> (string \<times> nat) list \<Rightarrow> (string \<times> nat) list" where
  "count_code code t = upsert fst (\<lambda>(c, n). (c, n + 1)) (code, 1) t"

definition ratio :: "nat \<Rightarrow> nat \<Rightarrow> rat" where
  "ratio n d = (if d = 0 then 0 else of_nat n / of_nat d)"

definition snapshot :: "telemetry \<Rightarrow> BoundaryMetricsSnapshot" where
  "snapshot s =
     (let transitions = sort_key (\<lambda>t. (mx_created_at t, mx_transition_id t)) (metric_transitions s);
          rebuildAttempts = filter is_rebuild transitions;
          failedRebuilds = filter (\<lambda>t. \<not> mx_success t) rebuildAttempts;
          rebuildTasks = js_set (map mx_message_id rebuildAttempts);
          latencies = sort (map mx_latency_ms rebuildAttempts);
          eligibleTasks = length (metric_tasks s)
      in \<lparr>bm_eligibleTasks = eligibleTasks,
          bm_initialBoundaryBuilds = length (filter (\<lambda>t. mx_kind t = Kind_initial \<and> mx_success t) transitions),
          bm_postStartRebuildTasks = length rebuildTasks,
          bm_totalPostStartRebuilds = length (filter (\<lambda>t. is_rebuild t \<and> mx_success t) transitions),
          bm_postStartRebuildAttempts = length rebuildAttempts,
          bm_failedPostStartRebuilds = length failedRebuilds,
          bm_failedBoundaryBuilds = length (filter (\<lambda>t. \<not> mx_success t) transitions),
          bm_rebuildRate = ratio (length rebuildTasks) eligibleTasks,
          bm_rebuildFailureRate = ratio (length failedRebuilds) (length rebuildAttempts),
          bm_rebuildLatencyP50Ms = percentile latencies 50,
          bm_rebuildLatencyP95Ms = percentile latencies 95,
          bm_rebuildsByCause = map (\<lambda>c. (c, length (filter (\<lambda>t. mx_cause t = c) rebuildAttempts)))
            BOUNDARY_TRANSITION_CAUSES,
          bm_failuresByCode = fold (\<lambda>t. count_code (or_else (mx_failure_code t) ''unknown_failure''))
            failedRebuilds []\<rparr>)"

section \<open>The gates of the wider surface\<close>

record CapabilityRolloutThresholds =
  rl_minimumEligibleTasks :: nat
  rl_maximumRebuildRate :: rat
  rl_maximumRebuildFailureRate :: rat
  rl_maximumRebuildP95Ms :: int

definition DEFAULT_CAPABILITY_ROLLOUT_THRESHOLDS :: CapabilityRolloutThresholds where
  "DEFAULT_CAPABILITY_ROLLOUT_THRESHOLDS =
     \<lparr>rl_minimumEligibleTasks = 20, rl_maximumRebuildRate = 1 / 10, rl_maximumRebuildFailureRate = 1 / 100,
      rl_maximumRebuildP95Ms = 3000\<rparr>"

definition isLoopbackControlPlane :: "(string \<Rightarrow> URL option) \<Rightarrow> (string \<Rightarrow> string) \<Rightarrow> string \<Rightarrow> bool" where
  "isLoopbackControlPlane parse_url toLower serverUrl =
     (case parse_url serverUrl of None \<Rightarrow> False
      | Some url \<Rightarrow> toLower (u_hostname url) \<in> {''localhost'', ''127.0.0.1'', ''::1'', ''[::1]''})"

datatype CapabilityRolloutBlocker =
    Rebuild_rate_too_high | Rebuild_failure_rate_too_high | Rebuild_latency_too_high

record CapabilityRolloutDecision =
  rd_eligible :: bool
  rd_reasons :: "CapabilityRolloutBlocker list"
  rd_thresholds :: CapabilityRolloutThresholds
  rd_metrics :: BoundaryMetricsSnapshot

definition evaluateCapabilityRollout ::
    "BoundaryMetricsSnapshot \<Rightarrow> CapabilityRolloutThresholds \<Rightarrow> CapabilityRolloutDecision" where
  "evaluateCapabilityRollout metrics thresholds =
     (let reasons =
            (if rl_minimumEligibleTasks thresholds \<le> bm_eligibleTasks metrics then
               (if rl_maximumRebuildRate thresholds < bm_rebuildRate metrics then [Rebuild_rate_too_high] else [])
               @ (if rl_maximumRebuildFailureRate thresholds < bm_rebuildFailureRate metrics
                  then [Rebuild_failure_rate_too_high] else [])
               @ (case bm_rebuildLatencyP95Ms metrics of None \<Rightarrow> []
                  | Some p \<Rightarrow> if rl_maximumRebuildP95Ms thresholds < p then [Rebuild_latency_too_high] else [])
             else [])
      in \<lparr>rd_eligible = (reasons = []), rd_reasons = reasons, rd_thresholds = thresholds, rd_metrics = metrics\<rparr>)"

datatype CapabilitySurface = Restricted | Full_agent

datatype CapabilitySecurityBlocker =
    Kernel_boundary_unavailable | Owner_approval_unavailable | Interactive_approval_unavailable
  | Command_hardening_unavailable | Execution_timeout_unavailable | Credential_isolation_unavailable
  | Output_redaction_unavailable

fun blocker_text :: "CapabilitySecurityBlocker \<Rightarrow> string" where
  "blocker_text Kernel_boundary_unavailable = ''kernel_boundary_unavailable''"
| "blocker_text Owner_approval_unavailable = ''owner_approval_unavailable''"
| "blocker_text Interactive_approval_unavailable = ''interactive_approval_unavailable''"
| "blocker_text Command_hardening_unavailable = ''command_hardening_unavailable''"
| "blocker_text Execution_timeout_unavailable = ''execution_timeout_unavailable''"
| "blocker_text Credential_isolation_unavailable = ''credential_isolation_unavailable''"
| "blocker_text Output_redaction_unavailable = ''output_redaction_unavailable''"

datatype SecurityRuntime = Run_fake | Run_claude_code | Run_codex

record CapabilitySecurityContext =
  cx_runtime :: SecurityRuntime
  cx_ownerApprovalGateway :: bool
  cx_codexAppServer :: "bool option"

record CapabilitySecurityDecision =
  cd_eligible :: bool
  cd_reasons :: "CapabilitySecurityBlocker list"
  cd_controls :: "(CapabilitySecurityBlocker \<times> bool) list"

text \<open>The controls, each beside the blocker reported when it is missing.\<close>

definition evaluateCapabilitySecurity :: "CapabilitySecurityContext \<Rightarrow> CapabilitySecurityDecision" where
  "evaluateCapabilitySecurity context =
     (let real = (cx_runtime context \<noteq> Run_fake);
          controls =
            [(Kernel_boundary_unavailable, real),
             (Owner_approval_unavailable, cx_ownerApprovalGateway context),
             (Interactive_approval_unavailable,
                cx_runtime context \<noteq> Run_codex \<or> cx_codexAppServer context = Some True),
             (Command_hardening_unavailable, real), (Execution_timeout_unavailable, real),
             (Credential_isolation_unavailable, real), (Output_redaction_unavailable, real)];
          reasons = map fst (filter (\<lambda>(b, ok). \<not> ok) controls)
      in \<lparr>cd_eligible = (reasons = []), cd_reasons = reasons, cd_controls = controls\<rparr>)"

record CapabilitySurfaceActivation =
  sa_requested :: CapabilitySurface
  sa_active :: CapabilitySurface
  sa_rollout :: CapabilityRolloutDecision
  sa_security :: CapabilitySecurityDecision

definition resolveCapabilitySurface ::
    "CapabilitySurface \<Rightarrow> BoundaryMetricsSnapshot \<Rightarrow> CapabilitySecurityContext \<Rightarrow> CapabilityRolloutThresholds
       \<Rightarrow> string + CapabilitySurfaceActivation" where
  "resolveCapabilitySurface requested metrics context thresholds =
     (let rollout = evaluateCapabilityRollout metrics thresholds;
          security = evaluateCapabilitySecurity context
      in if requested \<noteq> Full_agent
         then Inr \<lparr>sa_requested = requested, sa_active = requested, sa_rollout = rollout, sa_security = security\<rparr>
         else if \<not> cd_eligible security
         then Inl (''full-agent capability is not ready: '' @ join '', '' (map blocker_text (cd_reasons security)))
         else Inr \<lparr>sa_requested = requested, sa_active = (if rd_eligible rollout then Full_agent else Restricted),
                sa_rollout = rollout, sa_security = security\<rparr>)"

section \<open>What the snapshot adds up to\<close>

lemma recordTransition_twice:
  "recordTransition h i now' (recordTransition h i now s) = recordTransition h i now s"
  by (auto simp: recordTransition_def insert_or_ignore_def)

lemma filter_sum_causes:
  "(\<Sum>c \<leftarrow> BOUNDARY_TRANSITION_CAUSES. length (filter (\<lambda>t. mx_cause t = c) ts)) = length ts"
proof (induction ts)
  case (Cons t ts)
  then show ?case by (cases "mx_cause t") (simp_all add: BOUNDARY_TRANSITION_CAUSES_def)
qed (simp add: BOUNDARY_TRANSITION_CAUSES_def)

lemma counted_up:
  "c \<in> fst ` set t \<Longrightarrow> distinct (map fst t) \<Longrightarrow>
    sum_list (map snd (update_where (\<lambda>q. fst q = c) (\<lambda>(c, n). (c, n + 1)) t)) = Suc (sum_list (map snd t))"
proof (induction t)
  case (Cons x t)
  show ?case
  proof (cases "fst x = c")
    case True
    with Cons.prems have "update_where (\<lambda>q. fst q = c) (\<lambda>(c, n). (c, n + 1)) t = t"
      by (intro update_where_nochange) (auto simp: image_iff)
    with True show ?thesis by (cases x) simp
  next
    case False
    with Cons show ?thesis by simp
  qed
qed simp

lemma count_code_sum: "distinct (map fst t) \<Longrightarrow> sum_list (map snd (count_code c t)) = Suc (sum_list (map snd t))"
  using counted_up[of c t] by (simp add: count_code_def upsert_def)

lemma count_code_distinct: "distinct (map fst t) \<Longrightarrow> distinct (map fst (count_code c t))"
proof -
  assume d: "distinct (map fst t)"
  have "map fst (update_where (\<lambda>q. fst q = c) (\<lambda>(c, n). (c, n + 1)) t) = map fst t"
    by (rule map_update_where) auto
  with d show ?thesis by (auto simp: count_code_def upsert_def)
qed

lemma failures_sum:
  "distinct (map fst acc) \<Longrightarrow>
    sum_list (map snd (fold (\<lambda>t. count_code (f t)) ts acc)) = length ts + sum_list (map snd acc)"
proof (induction ts arbitrary: acc)
  case (Cons t ts)
  then show ?case using count_code_sum[OF Cons.prems] count_code_distinct[OF Cons.prems] by simp
qed simp

lemma ratio_bounds: "n \<le> d \<Longrightarrow> 0 \<le> ratio n d \<and> ratio n d \<le> 1"
  by (auto simp: ratio_def divide_le_eq_1)

text \<open>At least the given share of the sorted values is not above the percentile, and no element lies between.\<close>

lemma percentile_rank:
  assumes "percentile (sort xs) percent = Some v" "0 < percent" "percent \<le> 100"
  shows "v \<in> set xs \<and> length xs * percent \<le> 100 * length (filter (\<lambda>x. x \<le> v) xs)"
proof -
  let ?s = "sort xs" and ?n = "length xs"
  define i where "i = min (?n - 1) ((?n * percent + 99) div 100 - 1)"
  from assms(1) have ne: "xs \<noteq> []" and v: "v = ?s ! i"
    by (auto simp: percentile_def i_def split: if_splits)
  then have i: "i < length ?s" by (cases xs) (auto simp: i_def)
  have "x \<le> v" if "x \<in> set (take (Suc i) ?s)" for x
  proof -
    from that obtain j where "j < Suc i" "j < length ?s" "x = ?s ! j" by (auto simp: in_set_conv_nth)
    with i v show ?thesis by (auto intro: sorted_nth_mono)
  qed
  then have "filter (\<lambda>x. x \<le> v) (take (Suc i) ?s) = take (Suc i) ?s" by (simp add: filter_id_conv)
  then have "Suc i \<le> length (filter (\<lambda>x. x \<le> v) (take (Suc i) ?s @ drop (Suc i) ?s))"
    using i by (simp del: append_take_drop_id)
  then have "Suc i \<le> length (filter (\<lambda>x. x \<le> v) ?s)" by simp
  also have "\<dots> = length (filter (\<lambda>x. x \<le> v) xs)"
    by (metis mset_filter mset_sort size_mset)
  finally have "Suc i \<le> length (filter (\<lambda>x. x \<le> v) xs)" .
  moreover have "?n * percent \<le> 100 * Suc i"
  proof (cases "?n - 1 \<le> (?n * percent + 99) div 100 - 1")
    case True
    with ne have "Suc i = ?n" by (cases xs) (simp_all add: i_def)
    with assms(3) show ?thesis by simp
  next
    case False
    then have "i = (?n * percent + 99) div 100 - 1" by (simp add: i_def)
    moreover have "1 \<le> ?n * percent" using ne assms(2) by (simp add: Suc_le_eq)
    moreover have "i = (k + 99) div 100 - 1 \<Longrightarrow> 1 \<le> k \<Longrightarrow> k \<le> 100 * Suc i" for k :: nat
    proof -
      assume i: "i = (k + 99) div 100 - 1" "1 \<le> k"
      have "(k + 99) mod 100 < 100" by simp
      with mult_div_mod_eq[of 100 "k + 99"] have "k \<le> 100 * ((k + 99) div 100)" by linarith
      moreover from this i(2) have "0 < (k + 99) div 100" by (cases "(k + 99) div 100") simp_all
      ultimately show "k \<le> 100 * Suc i" unfolding i(1) by (simp add: Suc_diff_1)
    qed
    ultimately show ?thesis by blast
  qed
  moreover have "v \<in> set xs" using v i by (metis nth_mem set_sort)
  ultimately show ?thesis by (meson le_trans mult_le_mono2)
qed

text \<open>
  The numbers of a snapshot agree with each other: the rebuild attempts are
  the successful and the failed ones, the counts per cause and per failure code add up, the
  failure rate lies between zero and one, and the 95th percentile is the latency of an attempt
  with at least 95 percent of the attempts at or below it.
\<close>

theorem snapshot_adds_up:
  "(let m = snapshot s; latencies = map mx_latency_ms (filter is_rebuild (metric_transitions s))
    in bm_postStartRebuildAttempts m = bm_totalPostStartRebuilds m + bm_failedPostStartRebuilds m
     \<and> sum_list (map snd (bm_rebuildsByCause m)) = bm_postStartRebuildAttempts m
     \<and> sum_list (map snd (bm_failuresByCode m)) = bm_failedPostStartRebuilds m
     \<and> 0 \<le> bm_rebuildFailureRate m \<and> bm_rebuildFailureRate m \<le> 1
     \<and> (case bm_rebuildLatencyP95Ms m of
          None \<Rightarrow> bm_postStartRebuildAttempts m = 0
        | Some v \<Rightarrow> v \<in> set latencies
            \<and> 95 * bm_postStartRebuildAttempts m \<le> 100 * length (filter (\<lambda>x. x \<le> v) latencies)))"
proof -
  let ?ts = "sort_key (\<lambda>t. (mx_created_at t, mx_transition_id t)) (metric_transitions s)"
  let ?a = "filter is_rebuild ?ts" and ?l = "map mx_latency_ms (filter is_rebuild (metric_transitions s))"
  have perm: "mset ?a = mset (filter is_rebuild (metric_transitions s))" by simp
  have lat: "sort (map mx_latency_ms ?a) = sort ?l"
  proof (rule properties_for_sort)
    show "mset (sort ?l) = mset (map mx_latency_ms ?a)" unfolding mset_sort mset_map perm ..
  qed simp
  have len: "length ?a = length ?l" using mset_eq_length[OF perm] by simp
  have ca: "length (filter (\<lambda>t. is_rebuild t \<and> mx_success t) ?ts) + length (filter (\<lambda>t. \<not> mx_success t) ?a) = length ?a"
    using sum_length_filter_compl[of mx_success ?a] by (simp add: conj_commute)
  have causes: "sum_list (map snd (map (\<lambda>c. (c, length (filter (\<lambda>t. mx_cause t = c) ?a))) BOUNDARY_TRANSITION_CAUSES)) = length ?a"
    using filter_sum_causes[of ?a] by (simp add: comp_def)
  have codes: "sum_list (map snd (fold (\<lambda>t. count_code (or_else (mx_failure_code t) ''unknown_failure''))
      (filter (\<lambda>t. \<not> mx_success t) ?a) [])) = length (filter (\<lambda>t. \<not> mx_success t) ?a)"
    by (simp add: failures_sum)
  have p95: "case percentile (sort (map mx_latency_ms ?a)) 95 of None \<Rightarrow> length ?a = 0
      | Some v \<Rightarrow> v \<in> set ?l \<and> 95 * length ?a \<le> 100 * length (filter (\<lambda>x. x \<le> v) ?l)"
  proof (cases "percentile (sort ?l) 95")
    case None
    then have "sort ?l = []" unfolding percentile_def by (simp split: if_splits)
    then have "length ?l = 0" by (metis length_sort list.size(3))
    with None lat len show ?thesis by simp
  next
    case (Some v)
    from percentile_rank[OF this] show ?thesis unfolding lat Some option.case len by (simp add: mult.commute)
  qed
  have rate: "0 \<le> ratio (length (filter (\<lambda>t. \<not> mx_success t) ?a)) (length ?a)
     \<and> ratio (length (filter (\<lambda>t. \<not> mx_success t) ?a)) (length ?a) \<le> 1"
    by (rule ratio_bounds) (rule length_filter_le)
  show ?thesis
    unfolding snapshot_def Let_def BoundaryMetricsSnapshot.simps
    using ca causes codes p95 rate by (metis add.commute)
qed

text \<open>
  The wider surface becomes active exactly when it was asked for, the runtime
  is a real one with an owner to approve (for Codex an interruptible one), and a representative
  sample, once there is one, shows rebuilds within the limits.
\<close>

theorem full_agent_gated:
  "(map_sum id sa_active (resolveCapabilitySurface requested metrics context thresholds) = Inr Full_agent)
    = (requested = Full_agent \<and> cx_ownerApprovalGateway context
       \<and> (cx_runtime context = Run_claude_code \<or> cx_runtime context = Run_codex \<and> cx_codexAppServer context = Some True)
       \<and> (bm_eligibleTasks metrics < rl_minimumEligibleTasks thresholds
          \<or> bm_rebuildRate metrics \<le> rl_maximumRebuildRate thresholds
            \<and> bm_rebuildFailureRate metrics \<le> rl_maximumRebuildFailureRate thresholds
            \<and> (case bm_rebuildLatencyP95Ms metrics of None \<Rightarrow> True | Some p \<Rightarrow> p \<le> rl_maximumRebuildP95Ms thresholds)))"
proof -
  have "rd_eligible (evaluateCapabilityRollout metrics thresholds)
    = (bm_eligibleTasks metrics < rl_minimumEligibleTasks thresholds
          \<or> bm_rebuildRate metrics \<le> rl_maximumRebuildRate thresholds
            \<and> bm_rebuildFailureRate metrics \<le> rl_maximumRebuildFailureRate thresholds
            \<and> (case bm_rebuildLatencyP95Ms metrics of None \<Rightarrow> True | Some p \<Rightarrow> p \<le> rl_maximumRebuildP95Ms thresholds))"
    by (auto simp: evaluateCapabilityRollout_def Let_def not_le not_less split: option.split)
  moreover have "cd_eligible (evaluateCapabilitySecurity context)
    = (cx_ownerApprovalGateway context
       \<and> (cx_runtime context = Run_claude_code \<or> cx_runtime context = Run_codex \<and> cx_codexAppServer context = Some True))"
    by (cases "cx_runtime context") (auto simp: evaluateCapabilitySecurity_def Let_def)
  ultimately show ?thesis by (cases requested) (simp_all add: resolveCapabilitySurface_def Let_def)
qed

end
