(* ===== verification/Continuations.thy ===== *)
theory Continuations
  imports Contracts Access
begin

text \<open>
  Durable continuations (\<^verbatim>\<open>src/shared/continuation-store.ts\<close>): the checkpoint of a paused
  tool call that waits for its owner's approval and for a session with a wider boundary. The
  table \<^verbatim>\<open>c2c_continuations\<close> is a list of rows, an exception is \<open>Inl\<close> of its text, the clock
  reading of an operation is an argument. The states form the machine \<open>may_become\<close>, and every
  operation follows it.
\<close>

section \<open>Checkpoints and rows\<close>

datatype ContinuationState =
    Awaiting_approval | Approved_pending_activation | Rebuilding_session | Resuming | Completed
  | Cont_denied | Approval_expired | Approval_delivery_failed | Activation_failed | Resume_failed

fun continuation_state_text :: "ContinuationState \<Rightarrow> string" where
  "continuation_state_text Awaiting_approval = ''awaiting_approval''"
| "continuation_state_text Approved_pending_activation = ''approved_pending_activation''"
| "continuation_state_text Rebuilding_session = ''rebuilding_session''"
| "continuation_state_text Resuming = ''resuming''"
| "continuation_state_text Completed = ''completed''"
| "continuation_state_text Cont_denied = ''denied''"
| "continuation_state_text Approval_expired = ''approval_expired''"
| "continuation_state_text Approval_delivery_failed = ''approval_delivery_failed''"
| "continuation_state_text Activation_failed = ''activation_failed''"
| "continuation_state_text Resume_failed = ''resume_failed''"

record RequestedCapability =
  rc_toolName :: string
  rc_canonicalResource :: string
  rc_summary :: string

record CreateContinuationInput =
  cc_idempotencyKey :: string
  cc_correlationId :: string
  cc_communicationSessionId :: string
  cc_messageId :: string
  cc_sessionHandle :: string
  cc_runtimeTurnId :: string
  cc_originalMessage :: json
  cc_requestedCapability :: RequestedCapability

record ContinuationCheckpoint = CreateContinuationInput +
  ck_continuationId :: string
  ck_approvalId :: "string option"
  ck_state :: ContinuationState
  ck_grantId :: "string option"
  ck_grantRevision :: "int option"
  ck_approvedCanonicalFolder :: "string option"
  ck_approvedAccessPreset :: "RelationshipAccessPreset option"
  ck_expectedBoundaryManifestHash :: "string option"
  ck_boundaryManifestHash :: "string option"
  ck_errorCode :: "string option"

record ContinuationRow = CreateContinuationInput +
  cn_continuation_id :: string
  cn_approval_id :: "string option"
  cn_request_hash :: string
  cn_state :: ContinuationState
  cn_grant_id :: "string option"
  cn_grant_revision :: "int option"
  cn_approved_canonical_folder :: "string option"
  cn_approved_access_preset :: "RelationshipAccessPreset option"
  cn_expected_boundary_manifest_hash :: "string option"
  cn_boundary_manifest_hash :: "string option"
  cn_error_code :: "string option"
  cn_created_at :: time
  cn_updated_at :: time

type_synonym continuations = "ContinuationRow list"

definition fromRow :: "ContinuationRow \<Rightarrow> ContinuationCheckpoint" where
  "fromRow r =
     \<lparr>cc_idempotencyKey = cc_idempotencyKey r, cc_correlationId = cc_correlationId r,
      cc_communicationSessionId = cc_communicationSessionId r, cc_messageId = cc_messageId r,
      cc_sessionHandle = cc_sessionHandle r, cc_runtimeTurnId = cc_runtimeTurnId r,
      cc_originalMessage = cc_originalMessage r, cc_requestedCapability = cc_requestedCapability r,
      ck_continuationId = cn_continuation_id r, ck_approvalId = keep_truthy (cn_approval_id r),
      ck_state = cn_state r, ck_grantId = keep_truthy (cn_grant_id r),
      ck_grantRevision = cn_grant_revision r,
      ck_approvedCanonicalFolder = keep_truthy (cn_approved_canonical_folder r),
      ck_approvedAccessPreset = cn_approved_access_preset r,
      ck_expectedBoundaryManifestHash = keep_truthy (cn_expected_boundary_manifest_hash r),
      ck_boundaryManifestHash = keep_truthy (cn_boundary_manifest_hash r),
      ck_errorCode = keep_truthy (cn_error_code r)\<rparr>"

section \<open>Operations\<close>

definition find_continuation :: "string \<Rightarrow> continuations \<Rightarrow> ContinuationCheckpoint option" where
  "find_continuation cid s = map_option fromRow (List.find (\<lambda>r. cn_continuation_id r = cid) s)"

definition require_checkpoint :: "string \<Rightarrow> continuations \<Rightarrow> string + ContinuationCheckpoint" where
  "require_checkpoint cid s = the_or (''unknown continuation: '' @ cid) (find_continuation cid s)"

definition rowForIdempotencyKey :: "string \<Rightarrow> continuations \<Rightarrow> ContinuationRow option" where
  "rowForIdempotencyKey key s = List.find (\<lambda>r. cc_idempotencyKey r = key) s"

definition findByIdempotencyKey :: "string \<Rightarrow> continuations \<Rightarrow> ContinuationCheckpoint option" where
  "findByIdempotencyKey key s = map_option fromRow (rowForIdempotencyKey key s)"

definition list_continuations :: "continuations \<Rightarrow> ContinuationCheckpoint list" where
  "list_continuations s = map fromRow (sort_key (\<lambda>r. (cn_created_at r, cn_continuation_id r)) s)"

definition recoverable_state :: "ContinuationState \<Rightarrow> bool" where
  "recoverable_state st = (st \<in> {Approved_pending_activation, Rebuilding_session, Resuming})"

definition listRecoverable :: "continuations \<Rightarrow> ContinuationCheckpoint list" where
  "listRecoverable s = map fromRow (sort_key (\<lambda>r. (cn_updated_at r, cn_continuation_id r))
     (filter (\<lambda>r. recoverable_state (cn_state r)) s))"

definition listAwaitingDecisions :: "continuations \<Rightarrow> ContinuationCheckpoint list" where
  "listAwaitingDecisions s = map fromRow (sort_key (\<lambda>r. (cn_updated_at r, cn_continuation_id r))
     (filter (\<lambda>r. cn_state r = Awaiting_approval \<and> cn_approval_id r \<noteq> None) s))"

definition oversized :: "string \<Rightarrow> nat \<Rightarrow> bool" where
  "oversized v limit = (trim v = [] \<or> limit < length v)"

definition validateInput :: "CreateContinuationInput \<Rightarrow> string option" where
  "validateInput i =
     (case List.find (\<lambda>(name, v, limit). oversized v limit)
         [(''idempotencyKey'', cc_idempotencyKey i, 512), (''correlationId'', cc_correlationId i, 512),
          (''communicationSessionId'', cc_communicationSessionId i, 512), (''messageId'', cc_messageId i, 512),
          (''sessionHandle'', cc_sessionHandle i, 512), (''runtimeTurnId'', cc_runtimeTurnId i, 512),
          (''toolName'', rc_toolName (cc_requestedCapability i), 128),
          (''canonicalResource'', rc_canonicalResource (cc_requestedCapability i), 4096),
          (''summary'', rc_summary (cc_requestedCapability i), 2048)] of
        Some (name, _) \<Rightarrow> Some (''invalid continuation '' @ name)
      | None \<Rightarrow> if 64 * 1024 < length (stringify (cc_originalMessage i))
               then Some ''continuation original message is too large'' else None)"

definition input_json :: "CreateContinuationInput \<Rightarrow> json" where
  "input_json i = JObj
     [(''idempotencyKey'', JStr (cc_idempotencyKey i)), (''correlationId'', JStr (cc_correlationId i)),
      (''communicationSessionId'', JStr (cc_communicationSessionId i)), (''messageId'', JStr (cc_messageId i)),
      (''sessionHandle'', JStr (cc_sessionHandle i)), (''runtimeTurnId'', JStr (cc_runtimeTurnId i)),
      (''originalMessage'', cc_originalMessage i),
      (''requestedCapability'', JObj
         [(''toolName'', JStr (rc_toolName (cc_requestedCapability i))),
          (''canonicalResource'', JStr (rc_canonicalResource (cc_requestedCapability i))),
          (''summary'', JStr (rc_summary (cc_requestedCapability i)))])]"

definition created_row :: "string \<Rightarrow> string \<Rightarrow> time \<Rightarrow> CreateContinuationInput \<Rightarrow> ContinuationRow" where
  "created_row requestHash cid now i =
     \<lparr>cc_idempotencyKey = cc_idempotencyKey i, cc_correlationId = cc_correlationId i,
      cc_communicationSessionId = cc_communicationSessionId i, cc_messageId = cc_messageId i,
      cc_sessionHandle = cc_sessionHandle i, cc_runtimeTurnId = cc_runtimeTurnId i,
      cc_originalMessage = cc_originalMessage i, cc_requestedCapability = cc_requestedCapability i,
      cn_continuation_id = cid, cn_approval_id = None, cn_request_hash = requestHash,
      cn_state = Awaiting_approval, cn_grant_id = None, cn_grant_revision = None,
      cn_approved_canonical_folder = None, cn_approved_access_preset = None,
      cn_expected_boundary_manifest_hash = None, cn_boundary_manifest_hash = None,
      cn_error_code = None, cn_created_at = now, cn_updated_at = now\<rparr>"

text \<open>\<open>sha256\<close> and the random identifier \<open>fresh\<close> come from \<^verbatim>\<open>node:crypto\<close>.\<close>

definition create ::
    "(string \<Rightarrow> string) \<Rightarrow> string \<Rightarrow> time \<Rightarrow> CreateContinuationInput \<Rightarrow> continuations
       \<Rightarrow> (string + ContinuationCheckpoint) \<times> continuations" where
  "create sha256 fresh now i s =
     (case validateInput i of
        Some e \<Rightarrow> (Inl e, s)
      | None \<Rightarrow>
         (let requestHash = sha256 (stringify (input_json i)); cid = ''cont_'' @ fresh
          in case rowForIdempotencyKey (cc_idempotencyKey i) s of
               Some row \<Rightarrow>
                 if cn_request_hash row \<noteq> requestHash then (Inl ''continuation idempotency conflict'', s)
                 else (Inr (fromRow row), s)
             | None \<Rightarrow>
                 if cid \<in> cn_continuation_id ` set s then (Inl ''UNIQUE constraint failed'', s)
                 else (let s' = s @ [created_row requestHash cid now i] in (require_checkpoint cid s', s'))))"

definition set_row :: "string \<Rightarrow> (ContinuationRow \<Rightarrow> ContinuationRow) \<Rightarrow> continuations \<Rightarrow> continuations" where
  "set_row cid f s = update_where (\<lambda>r. cn_continuation_id r = cid) f s"

definition invalidTransition :: "ContinuationState \<Rightarrow> ContinuationState \<Rightarrow> string" where
  "invalidTransition st st' = ''invalid continuation transition: '' @ continuation_state_text st @ '' -> '' @ continuation_state_text st'"

definition attachApproval ::
    "string \<Rightarrow> string \<Rightarrow> time \<Rightarrow> continuations \<Rightarrow> (string + ContinuationCheckpoint) \<times> continuations" where
  "attachApproval cid approvalId now s =
     (if trim approvalId = [] \<or> 512 < length approvalId then (Inl ''invalid continuation approvalId'', s)
      else case require_checkpoint cid s of
        Inl e \<Rightarrow> (Inl e, s)
      | Inr current \<Rightarrow>
         if ck_state current \<noteq> Awaiting_approval
         then (Inl (invalidTransition (ck_state current) Awaiting_approval), s)
         else if ck_approvalId current = Some approvalId then (Inr current, s)
         else if ck_approvalId current \<noteq> None then (Inl ''continuation approval conflict'', s)
         else (let s' = set_row cid (\<lambda>r. r\<lparr>cn_approval_id := Some approvalId, cn_updated_at := now\<rparr>) s
               in (require_checkpoint cid s', s')))"

text \<open>The latest by the time of its update; among equals the query leaves the choice open.\<close>

definition findResuming :: "string \<Rightarrow> string \<Rightarrow> string option \<Rightarrow> continuations \<Rightarrow> ContinuationCheckpoint option" where
  "findResuming sessionHandle messageId correlationId s =
     (case sort_key (\<lambda>r. - cn_updated_at r) (filter (\<lambda>r. cn_state r = Resuming
              \<and> cc_sessionHandle r = sessionHandle \<and> cc_messageId r = messageId
              \<and> (correlationId = None \<or> Some (cc_correlationId r) = correlationId)) s) of
        [] \<Rightarrow> None | r # _ \<Rightarrow> Some (fromRow r))"

record ContinuationApproval =
  ca_grantId :: string
  ca_grantRevision :: int
  ca_approvedCanonicalFolder :: string
  ca_approvedAccessPreset :: RelationshipAccessPreset
  ca_expectedBoundaryManifestHash :: string

definition markApproved ::
    "string \<Rightarrow> ContinuationApproval \<Rightarrow> time \<Rightarrow> continuations \<Rightarrow> (string + ContinuationCheckpoint) \<times> continuations" where
  "markApproved cid a now s =
     (case require_checkpoint cid s of
        Inl e \<Rightarrow> (Inl e, s)
      | Inr current \<Rightarrow>
         if ck_state current = Approved_pending_activation then
           (if ck_grantId current = Some (ca_grantId a) \<and> ck_grantRevision current = Some (ca_grantRevision a)
               \<and> ck_approvedCanonicalFolder current = Some (ca_approvedCanonicalFolder a)
               \<and> ck_approvedAccessPreset current = Some (ca_approvedAccessPreset a)
               \<and> ck_expectedBoundaryManifestHash current = Some (ca_expectedBoundaryManifestHash a)
            then (Inr current, s) else (Inl ''continuation approval conflict'', s))
         else if ck_state current \<noteq> Awaiting_approval
         then (Inl (invalidTransition (ck_state current) Awaiting_approval), s)
         else (let s' = set_row cid (\<lambda>r. r\<lparr>cn_state := Approved_pending_activation,
                          cn_grant_id := Some (ca_grantId a), cn_grant_revision := Some (ca_grantRevision a),
                          cn_approved_canonical_folder := Some (ca_approvedCanonicalFolder a),
                          cn_approved_access_preset := Some (ca_approvedAccessPreset a),
                          cn_expected_boundary_manifest_hash := Some (ca_expectedBoundaryManifestHash a),
                          cn_updated_at := now\<rparr>) s
               in (require_checkpoint cid s', s')))"

definition transition ::
    "string \<Rightarrow> ContinuationState \<Rightarrow> ContinuationState \<Rightarrow> time \<Rightarrow> continuations
       \<Rightarrow> (string + ContinuationCheckpoint) \<times> continuations" where
  "transition cid st st' now s =
     (case require_checkpoint cid s of
        Inl e \<Rightarrow> (Inl e, s)
      | Inr current \<Rightarrow>
         if ck_state current = st' then (Inr current, s)
         else if ck_state current \<noteq> st then (Inl (invalidTransition (ck_state current) st), s)
         else (let s' = set_row cid (\<lambda>r. r\<lparr>cn_state := st', cn_updated_at := now\<rparr>) s
               in (require_checkpoint cid s', s')))"

definition failTransition ::
    "string \<Rightarrow> ContinuationState list \<Rightarrow> ContinuationState \<Rightarrow> string \<Rightarrow> time \<Rightarrow> continuations
       \<Rightarrow> (string + ContinuationCheckpoint) \<times> continuations" where
  "failTransition cid sts st' errorCode now s =
     (if trim errorCode = [] \<or> 256 < length errorCode then (Inl ''invalid continuation errorCode'', s)
      else case require_checkpoint cid s of
        Inl e \<Rightarrow> (Inl e, s)
      | Inr current \<Rightarrow>
         if ck_state current = st' \<and> ck_errorCode current = Some errorCode then (Inr current, s)
         else if ck_state current \<notin> set sts then (Inl (invalidTransition (ck_state current) st'), s)
         else (let s' = set_row cid (\<lambda>r. r\<lparr>cn_state := st', cn_error_code := Some errorCode, cn_updated_at := now\<rparr>) s
               in (require_checkpoint cid s', s')))"

definition markRebuilding :: "string \<Rightarrow> time \<Rightarrow> continuations \<Rightarrow> (string + ContinuationCheckpoint) \<times> continuations" where
  "markRebuilding cid = transition cid Approved_pending_activation Rebuilding_session"

definition markAttested ::
    "string \<Rightarrow> string \<Rightarrow> time \<Rightarrow> continuations \<Rightarrow> (string + ContinuationCheckpoint) \<times> continuations" where
  "markAttested cid manifest now s =
     (case require_checkpoint cid s of
        Inl e \<Rightarrow> (Inl e, s)
      | Inr current \<Rightarrow>
         if ck_state current = Resuming \<and> ck_boundaryManifestHash current = Some manifest then (Inr current, s)
         else if ck_state current \<noteq> Rebuilding_session
         then (Inl (invalidTransition (ck_state current) Rebuilding_session), s)
         else if ck_expectedBoundaryManifestHash current \<noteq> Some manifest
         then (let s' = set_row cid (\<lambda>r. r\<lparr>cn_state := Activation_failed, cn_boundary_manifest_hash := Some manifest,
                          cn_error_code := Some ''boundary_attestation_mismatch'', cn_updated_at := now\<rparr>) s
               in (require_checkpoint cid s', s'))
         else (let s' = set_row cid (\<lambda>r. r\<lparr>cn_state := Resuming, cn_boundary_manifest_hash := Some manifest,
                          cn_error_code := None, cn_updated_at := now\<rparr>) s
               in (require_checkpoint cid s', s')))"

definition markResuming :: "string \<Rightarrow> time \<Rightarrow> continuations \<Rightarrow> (string + ContinuationCheckpoint) \<times> continuations" where
  "markResuming cid now s =
     (case require_checkpoint cid s of
        Inl e \<Rightarrow> (Inl e, s)
      | Inr current \<Rightarrow> if ck_state current = Resuming then (Inr current, s)
                       else (Inl (invalidTransition (ck_state current) Resuming), s))"

definition markCompleted :: "string \<Rightarrow> time \<Rightarrow> continuations \<Rightarrow> (string + ContinuationCheckpoint) \<times> continuations" where
  "markCompleted cid = transition cid Resuming Completed"

definition markApprovalExpired :: "string \<Rightarrow> time \<Rightarrow> continuations \<Rightarrow> (string + ContinuationCheckpoint) \<times> continuations" where
  "markApprovalExpired cid = transition cid Awaiting_approval Approval_expired"

definition markDenied :: "string \<Rightarrow> time \<Rightarrow> continuations \<Rightarrow> (string + ContinuationCheckpoint) \<times> continuations" where
  "markDenied cid = transition cid Awaiting_approval Cont_denied"

definition markApprovalDeliveryFailed ::
    "string \<Rightarrow> time \<Rightarrow> continuations \<Rightarrow> (string + ContinuationCheckpoint) \<times> continuations" where
  "markApprovalDeliveryFailed cid = transition cid Awaiting_approval Approval_delivery_failed"

definition markActivationFailed ::
    "string \<Rightarrow> string \<Rightarrow> time \<Rightarrow> continuations \<Rightarrow> (string + ContinuationCheckpoint) \<times> continuations" where
  "markActivationFailed cid errorCode =
     failTransition cid [Approved_pending_activation, Rebuilding_session] Activation_failed errorCode"

definition markResumeFailed ::
    "string \<Rightarrow> string \<Rightarrow> time \<Rightarrow> continuations \<Rightarrow> (string + ContinuationCheckpoint) \<times> continuations" where
  "markResumeFailed cid errorCode = failTransition cid [Resuming] Resume_failed errorCode"

section \<open>The machine and the integrity of a row\<close>

inductive may_become :: "ContinuationState \<Rightarrow> ContinuationState \<Rightarrow> bool" where
  approve: "may_become Awaiting_approval Approved_pending_activation"
| deny: "may_become Awaiting_approval Cont_denied"
| expire: "may_become Awaiting_approval Approval_expired"
| undelivered: "may_become Awaiting_approval Approval_delivery_failed"
| rebuild: "may_become Approved_pending_activation Rebuilding_session"
| attest: "may_become Rebuilding_session Resuming"
| complete: "may_become Resuming Completed"
| fail_pending: "may_become Approved_pending_activation Activation_failed"
| fail_rebuild: "may_become Rebuilding_session Activation_failed"
| fail_resume: "may_become Resuming Resume_failed"

inductive_cases may_becomeE: "may_become st st'"

definition ended :: "ContinuationState \<Rightarrow> bool" where
  "ended st = (st \<in> {Completed, Cont_denied, Approval_expired, Approval_delivery_failed, Activation_failed, Resume_failed})"

lemma ended_stuck: "ended st \<Longrightarrow> \<not> may_become st st'"
  by (auto simp: ended_def elim: may_becomeE)

lemma ended_final: "may_become\<^sup>*\<^sup>* st st' \<Longrightarrow> ended st \<Longrightarrow> st' = st"
  by (erule converse_rtranclpE) (simp_all add: ended_stuck)

lemma never_awaiting: "may_become\<^sup>*\<^sup>* st st' \<Longrightarrow> st' = Awaiting_approval \<Longrightarrow> st = Awaiting_approval"
  by (induction rule: rtranclp_induct) (auto elim: may_becomeE)

definition grant_of :: "ContinuationRow \<Rightarrow> string option \<times> int option \<times> string option \<times> RelationshipAccessPreset option \<times> string option" where
  "grant_of r = (cn_grant_id r, cn_grant_revision r, cn_approved_canonical_folder r,
     cn_approved_access_preset r, cn_expected_boundary_manifest_hash r)"

definition request_of :: "ContinuationRow \<Rightarrow> CreateContinuationInput \<times> string \<times> time" where
  "request_of r = (CreateContinuationInput.truncate r, cn_request_hash r, cn_created_at r)"

definition row_becomes :: "ContinuationRow \<Rightarrow> ContinuationRow \<Rightarrow> bool" where
  "row_becomes r r' = (request_of r' = request_of r \<and> may_become\<^sup>*\<^sup>* (cn_state r) (cn_state r')
     \<and> (ended (cn_state r) \<longrightarrow> r' = r)
     \<and> (truthy (cn_approval_id r) \<longrightarrow> cn_approval_id r' = cn_approval_id r)
     \<and> (cn_state r \<noteq> Awaiting_approval \<longrightarrow> grant_of r' = grant_of r))"

definition was_approved :: "ContinuationState \<Rightarrow> bool" where
  "was_approved st = (st \<notin> {Awaiting_approval, Cont_denied, Approval_expired, Approval_delivery_failed})"

definition was_attested :: "ContinuationState \<Rightarrow> bool" where
  "was_attested st = (st \<in> {Resuming, Completed, Resume_failed})"

definition row_ok :: "ContinuationRow \<Rightarrow> bool" where
  "row_ok r = ((was_approved (cn_state r) \<longrightarrow> cn_grant_id r \<noteq> None \<and> cn_grant_revision r \<noteq> None
        \<and> cn_approved_canonical_folder r \<noteq> None \<and> cn_approved_access_preset r \<noteq> None
        \<and> cn_expected_boundary_manifest_hash r \<noteq> None)
     \<and> (was_attested (cn_state r) \<longrightarrow> truthy (cn_boundary_manifest_hash r)
        \<and> cn_expected_boundary_manifest_hash r = cn_boundary_manifest_hash r))"

definition store_ok :: "continuations \<Rightarrow> bool" where
  "store_ok s = (list_all row_ok s \<and> distinct (map cn_continuation_id s) \<and> distinct (map cc_idempotencyKey s))"

abbreviation store_le :: "continuations \<Rightarrow> continuations \<Rightarrow> bool" where
  "store_le \<equiv> evolves cn_continuation_id row_becomes"

lemmas state_sets = ended_def was_approved_def was_attested_def recoverable_state_def

interpretation continuation_rows: row_evolution cn_continuation_id row_becomes
proof
  fix r s t
  show "row_becomes r r" by (simp add: row_becomes_def)
  assume "row_becomes r s" "row_becomes s t"
  then show "row_becomes r t"
    unfolding row_becomes_def by (metis ended_final never_awaiting rtranclp_trans)
qed

section \<open>What every operation keeps\<close>

text \<open>
  The contract of an operation on the store: it keeps the integrity, moves rows along the
  machine only, changes nothing when it throws, and answers with a checkpoint of the store.
\<close>

locale store_operation =
  fixes f :: "time \<Rightarrow> continuations \<Rightarrow> (string + ContinuationCheckpoint) \<times> continuations"
  assumes keeps: "store_ok s \<Longrightarrow> store_ok (snd (f now s))"
    and moves: "store_ok s \<Longrightarrow> store_le s (snd (f now s))"
    and throws: "fst (f now s) = Inl e \<Longrightarrow> snd (f now s) = s"
    and answers: "fst (f now s) = Inr c \<Longrightarrow> c \<in> fromRow ` set (snd (f now s))"
begin

lemma ended_kept:
  assumes "store_ok s" "r \<in> set s" "ended (cn_state r)"
  shows "r \<in> set (snd (f now s))"
  using continuation_rows.row[OF moves[OF assms(1)] assms(2)] assms(3) by (metis row_becomes_def)

lemma found:
  assumes "fst (f now s) = Inr c" "store_ok s"
  shows "find_continuation (ck_continuationId c) (snd (f now s)) = Some c"
proof -
  from answers[OF assms(1)] obtain r where r: "r \<in> set (snd (f now s))" "c = fromRow r" by auto
  have "distinct (map cn_continuation_id (snd (f now s)))" using keeps[OF assms(2)] by (simp add: store_ok_def)
  from find_key_unique[OF this r(1)] r(2) show ?thesis by (simp add: find_continuation_def fromRow_def)
qed

end

text \<open>All operations but the creation look a checkpoint up, then throw, answer it, or rewrite its row.\<close>

definition planned ::
    "string \<Rightarrow> (ContinuationCheckpoint \<Rightarrow> string + (time \<Rightarrow> ContinuationRow \<Rightarrow> ContinuationRow) option)
       \<Rightarrow> time \<Rightarrow> continuations \<Rightarrow> (string + ContinuationCheckpoint) \<times> continuations" where
  "planned cid plan now s =
     (case require_checkpoint cid s of
        Inl e \<Rightarrow> (Inl e, s)
      | Inr current \<Rightarrow>
         (case plan current of
            Inl e \<Rightarrow> (Inl e, s)
          | Inr None \<Rightarrow> (Inr current, s)
          | Inr (Some f) \<Rightarrow> (let s' = set_row cid (f now) s in (require_checkpoint cid s', s'))))"

lemma find_absent: "k \<notin> key ` set t \<Longrightarrow> List.find (\<lambda>r. key r = k) t = None"
  by (auto simp: find_None_iff)

lemma require_Inr: "require_checkpoint cid s = Inr c \<longleftrightarrow> (\<exists>r. List.find (\<lambda>r. cn_continuation_id r = cid) s = Some r \<and> c = fromRow r)"
  by (auto simp: require_checkpoint_def find_continuation_def the_or_def split: option.splits)

lemma find_set_row:
  assumes "\<And>r. cn_continuation_id (f r) = cn_continuation_id r"
  shows "List.find (\<lambda>r. cn_continuation_id r = cid) (set_row cid f s)
    = map_option f (List.find (\<lambda>r. cn_continuation_id r = cid) s)"
  using assms by (induction s) (auto simp: set_row_def)

lemma planned_operation:
  assumes "\<And>c f now r. plan c = Inr (Some f) \<Longrightarrow> cn_continuation_id (f now r) = cn_continuation_id r"
    and "\<And>c f now r. plan c = Inr (Some f) \<Longrightarrow> request_of (f now r) = request_of r"
    and "\<And>f now r. plan (fromRow r) = Inr (Some f) \<Longrightarrow> row_ok r \<Longrightarrow> row_becomes r (f now r) \<and> row_ok (f now r)"
  shows "store_operation (planned cid plan)"
proof
  fix now s e c
  let ?find = "List.find (\<lambda>r. cn_continuation_id r = cid)"
  have cases: "snd (planned cid plan now s) = s \<and> fst (planned cid plan now s) = Inl e'
      \<or> (\<exists>r. ?find s = Some r \<and> snd (planned cid plan now s) = s \<and> fst (planned cid plan now s) = Inr (fromRow r))
      \<or> (\<exists>r f. ?find s = Some r \<and> plan (fromRow r) = Inr (Some f)
           \<and> snd (planned cid plan now s) = set_row cid (f now) s
           \<and> fst (planned cid plan now s) = Inr (fromRow (f now r)))"
    if "\<forall>e. fst (planned cid plan now s) = Inl e \<longrightarrow> e' = e" for e'
  proof (cases "?find s")
    case None
    with that show ?thesis by (simp add: planned_def require_checkpoint_def find_continuation_def the_or_def)
  next
    case (Some r)
    then have req: "require_checkpoint cid s = Inr (fromRow r)" by (simp add: require_Inr)
    show ?thesis
    proof (cases "plan (fromRow r)")
      case (Inl x)
      with req that show ?thesis by (simp add: planned_def)
    next
      case (Inr o')
      show ?thesis
      proof (cases o')
        case None
        with Inr req Some show ?thesis by (simp add: planned_def)
      next
        case (Some f)
        with Inr have p: "plan (fromRow r) = Inr (Some f)" by simp
        have "?find (set_row cid (f now) s) = Some (f now r)"
          using find_set_row[of "f now" cid s] assms(1)[OF p] \<open>?find s = Some r\<close> by simp
        then have "require_checkpoint cid (set_row cid (f now) s) = Inr (fromRow (f now r))"
          by (simp add: require_Inr)
        with p req \<open>?find s = Some r\<close> show ?thesis by (simp add: planned_def Let_def)
      qed
    qed
  qed
  show "fst (planned cid plan now s) = Inl e \<Longrightarrow> snd (planned cid plan now s) = s"
    using cases by auto
  show "fst (planned cid plan now s) = Inr c \<Longrightarrow> c \<in> fromRow ` set (snd (planned cid plan now s))"
  proof -
    assume c: "fst (planned cid plan now s) = Inr c"
    with cases[of e] consider (same) r where "?find s = Some r" "snd (planned cid plan now s) = s" "c = fromRow r"
      | (moved) r f where "?find s = Some r" "snd (planned cid plan now s) = set_row cid (f now) s" "c = fromRow (f now r)"
      by auto
    then show "c \<in> fromRow ` set (snd (planned cid plan now s))"
    proof cases
      case same
      then show ?thesis by (auto dest: find_SomeD)
    next
      case moved
      with update_where_in[of r s "\<lambda>r. cn_continuation_id r = cid" "f now"] show ?thesis
        by (auto simp: set_row_def dest!: find_SomeD)
    qed
  qed
  assume ok: "store_ok s"
  have moved: "store_ok (set_row cid (f now) s) \<and> store_le s (set_row cid (f now) s)"
    if r: "?find s = Some r" and p: "plan (fromRow r) = Inr (Some f)" for r f
  proof -
    have r': "r \<in> set s" "cn_continuation_id r = cid" using find_SomeD[OF r] by auto
    have only: "q = r" if "q \<in> set s" "cn_continuation_id q = cid" for q
      using ok that r' by (auto simp: store_ok_def dest: distinct_key_eq)
    have "row_ok r" using ok r'(1) by (simp add: store_ok_def list_all_iff)
    from assms(3)[OF p this] have fr: "row_becomes r (f now r)" "row_ok (f now r)" by auto
    have key: "cn_continuation_id (f now q) = cn_continuation_id q" for q by (rule assms(1)[OF p])
    have "cc_idempotencyKey (f now q) = cc_idempotencyKey q" for q
      using assms(2)[OF p, of now q] by (simp add: request_of_def CreateContinuationInput.truncate_def)
    then have "map cc_idempotencyKey (set_row cid (f now) s) = map cc_idempotencyKey s"
      by (simp add: set_row_def map_update_where)
    moreover have "map cn_continuation_id (set_row cid (f now) s) = map cn_continuation_id s"
      by (simp add: set_row_def map_update_where key)
    moreover have "list_all row_ok (set_row cid (f now) s)"
      using ok fr(2) only by (auto simp: store_ok_def list_all_iff set_row_def elim!: in_update_where)
    moreover have "store_le s (set_row cid (f now) s)"
    proof -
      have "cn_continuation_id q = cid \<Longrightarrow> q \<in> set s \<Longrightarrow> row_becomes q (f now q)" for q
        using only[of q] fr(1) by simp
      then have all2: "list_all2 (\<lambda>r r'. cn_continuation_id r' = cn_continuation_id r \<and> row_becomes r r') s
          (map (\<lambda>r. if cn_continuation_id r = cid then f now r else r) s)"
        by (simp add: list_all2_conv_all_nth key continuation_rows.R_refl)
      show ?thesis unfolding evolves_def set_row_def update_where_def
        by (rule exI[of _ "map (\<lambda>r. if cn_continuation_id r = cid then f now r else r) s"], rule exI[of _ "[]"])
           (simp add: all2)
    qed
    ultimately show ?thesis using ok by (simp add: store_ok_def)
  qed
  from cases[of "projl (fst (planned cid plan now s))"]
  have "snd (planned cid plan now s) = s \<or> (\<exists>r f. ?find s = Some r \<and> plan (fromRow r) = Inr (Some f)
      \<and> snd (planned cid plan now s) = set_row cid (f now) s)" by auto
  with moved ok continuation_rows.refl
  show "store_ok (snd (planned cid plan now s))" "store_le s (snd (planned cid plan now s))" by metis+
qed

section \<open>The operations keep it\<close>

lemma fromRow_simps [simp]:
  "ck_state (fromRow r) = cn_state r" "ck_continuationId (fromRow r) = cn_continuation_id r"
  "ck_approvalId (fromRow r) = keep_truthy (cn_approval_id r)" "ck_grantId (fromRow r) = keep_truthy (cn_grant_id r)"
  "ck_grantRevision (fromRow r) = cn_grant_revision r"
  "ck_approvedCanonicalFolder (fromRow r) = keep_truthy (cn_approved_canonical_folder r)"
  "ck_approvedAccessPreset (fromRow r) = cn_approved_access_preset r"
  "ck_expectedBoundaryManifestHash (fromRow r) = keep_truthy (cn_expected_boundary_manifest_hash r)"
  "ck_boundaryManifestHash (fromRow r) = keep_truthy (cn_boundary_manifest_hash r)"
  "ck_errorCode (fromRow r) = keep_truthy (cn_error_code r)"
  "cc_messageId (fromRow r) = cc_messageId r" "cc_requestedCapability (fromRow r) = cc_requestedCapability r"
  "cc_idempotencyKey (fromRow r) = cc_idempotencyKey r"
  by (simp_all add: fromRow_def)

lemma one_step: "may_become st st' \<Longrightarrow> may_become\<^sup>*\<^sup>* st st'" ..

lemma request_of_updates [simp]:
  "request_of (r\<lparr>cn_state := st\<rparr>) = request_of r" "request_of (r\<lparr>cn_updated_at := t\<rparr>) = request_of r"
  "request_of (r\<lparr>cn_error_code := e\<rparr>) = request_of r" "request_of (r\<lparr>cn_approval_id := a\<rparr>) = request_of r"
  "request_of (r\<lparr>cn_boundary_manifest_hash := h\<rparr>) = request_of r"
  "request_of (r\<lparr>cn_grant_id := g\<rparr>) = request_of r" "request_of (r\<lparr>cn_grant_revision := n\<rparr>) = request_of r"
  "request_of (r\<lparr>cn_approved_canonical_folder := f\<rparr>) = request_of r"
  "request_of (r\<lparr>cn_approved_access_preset := p\<rparr>) = request_of r"
  "request_of (r\<lparr>cn_expected_boundary_manifest_hash := h\<rparr>) = request_of r"
  by (simp_all add: request_of_def CreateContinuationInput.truncate_def)

lemma grant_of_updates [simp]:
  "grant_of (r\<lparr>cn_state := st\<rparr>) = grant_of r" "grant_of (r\<lparr>cn_updated_at := t\<rparr>) = grant_of r"
  "grant_of (r\<lparr>cn_error_code := e\<rparr>) = grant_of r" "grant_of (r\<lparr>cn_approval_id := a\<rparr>) = grant_of r"
  "grant_of (r\<lparr>cn_boundary_manifest_hash := h\<rparr>) = grant_of r"
  by (simp_all add: grant_of_def)

text \<open>A step along the machine that is neither an approval nor an attestation.\<close>

lemma transition_operation:
  assumes "may_become st st'" "st' \<noteq> Approved_pending_activation" "st' \<noteq> Resuming"
  shows "store_operation (transition cid st st')"
proof -
  let ?plan = "\<lambda>c. if ck_state c = st' then Inr None
     else if ck_state c \<noteq> st then Inl (invalidTransition (ck_state c) st)
     else Inr (Some (\<lambda>now (r :: ContinuationRow). r\<lparr>cn_state := st', cn_updated_at := now\<rparr>))"
  have "transition cid st st' = planned cid ?plan"
    by (simp add: fun_eq_iff transition_def planned_def split: sum.split)
  moreover have "store_operation (planned cid ?plan)"
  proof (rule planned_operation)
    fix f now r
    assume "?plan (fromRow r) = Inr (Some f)" "row_ok r"
    then have f: "f = (\<lambda>now r. r\<lparr>cn_state := st', cn_updated_at := now\<rparr>)" "cn_state r = st"
      by (simp_all split: if_splits)
    have "\<not> ended st" using assms(1) ended_stuck by blast
    with assms f \<open>row_ok r\<close> show "row_becomes r (f now r) \<and> row_ok (f now r)"
      by (auto simp: row_becomes_def row_ok_def state_sets intro!: one_step elim: may_becomeE)
  qed (auto split: if_splits)
  ultimately show ?thesis by simp
qed

lemma failTransition_operation:
  assumes "\<And>st. st \<in> set sts \<Longrightarrow> may_become st st'" "st' = Activation_failed \<or> st' = Resume_failed"
  shows "store_operation (failTransition cid sts st' e)"
proof (cases "trim e = [] \<or> 256 < length e")
  case True
  then have "failTransition cid sts st' e = (\<lambda>now s. (Inl ''invalid continuation errorCode'', s))"
    by (auto simp: fun_eq_iff failTransition_def)
  then show ?thesis by unfold_locales (auto simp: continuation_rows.refl)
next
  case False
  let ?plan = "\<lambda>c. if ck_state c = st' \<and> ck_errorCode c = Some e then Inr None
     else if ck_state c \<notin> set sts then Inl (invalidTransition (ck_state c) st')
     else Inr (Some (\<lambda>now (r :: ContinuationRow). r\<lparr>cn_state := st', cn_error_code := Some e, cn_updated_at := now\<rparr>))"
  have "failTransition cid sts st' e = planned cid ?plan"
    using False by (simp add: fun_eq_iff failTransition_def planned_def split: sum.split)
  moreover have "store_operation (planned cid ?plan)"
  proof (rule planned_operation)
    fix f now r
    assume "?plan (fromRow r) = Inr (Some f)" "row_ok r"
    then have f: "f = (\<lambda>now r. r\<lparr>cn_state := st', cn_error_code := Some e, cn_updated_at := now\<rparr>)" "cn_state r \<in> set sts"
      by (simp_all split: if_splits)
    from assms(1)[OF f(2)] have step: "may_become (cn_state r) st'" .
    then have "\<not> ended (cn_state r)" using ended_stuck by blast
    with step assms(2) f \<open>row_ok r\<close> show "row_becomes r (f now r) \<and> row_ok (f now r)"
      by (auto simp: row_becomes_def row_ok_def state_sets intro!: one_step elim: may_becomeE)
  qed (auto split: if_splits)
  ultimately show ?thesis by simp
qed

lemma markAttested_operation: "store_operation (markAttested cid manifest)"
proof -
  let ?fail = "\<lambda>now (r :: ContinuationRow). r\<lparr>cn_state := Activation_failed, cn_boundary_manifest_hash := Some manifest,
      cn_error_code := Some ''boundary_attestation_mismatch'', cn_updated_at := now\<rparr>"
  let ?go = "\<lambda>now (r :: ContinuationRow). r\<lparr>cn_state := Resuming, cn_boundary_manifest_hash := Some manifest,
      cn_error_code := None, cn_updated_at := now\<rparr>"
  let ?plan = "\<lambda>c. if ck_state c = Resuming \<and> ck_boundaryManifestHash c = Some manifest then Inr None
     else if ck_state c \<noteq> Rebuilding_session then Inl (invalidTransition (ck_state c) Rebuilding_session)
     else if ck_expectedBoundaryManifestHash c \<noteq> Some manifest then Inr (Some ?fail) else Inr (Some ?go)"
  have "markAttested cid manifest = planned cid ?plan"
    by (simp add: fun_eq_iff markAttested_def planned_def Let_def split: sum.split)
  moreover have "store_operation (planned cid ?plan)"
  proof (rule planned_operation)
    fix f now r
    assume plan: "?plan (fromRow r) = Inr (Some f)" and "row_ok r"
    then have st: "cn_state r = Rebuilding_session" by (simp split: if_splits)
    show "row_becomes r (f now r) \<and> row_ok (f now r)"
    proof (cases "keep_truthy (cn_expected_boundary_manifest_hash r) = Some manifest")
      case True
      with plan st have "f = ?go" by simp
      with True st \<open>row_ok r\<close> show ?thesis
        by (auto simp: row_becomes_def row_ok_def state_sets keep_truthy_def truthy_def
            intro!: one_step may_become.attest split: if_splits option.splits)
    next
      case False
      with plan st have "f = ?fail" by simp
      with st \<open>row_ok r\<close> show ?thesis
        by (auto simp: row_becomes_def row_ok_def state_sets intro!: one_step may_become.fail_rebuild)
    qed
  qed (auto split: if_splits)
  ultimately show ?thesis by simp
qed

lemma markApproved_operation: "store_operation (markApproved cid a)"
proof -
  let ?go = "\<lambda>now (r :: ContinuationRow). r\<lparr>cn_state := Approved_pending_activation,
                          cn_grant_id := Some (ca_grantId a), cn_grant_revision := Some (ca_grantRevision a),
                          cn_approved_canonical_folder := Some (ca_approvedCanonicalFolder a),
                          cn_approved_access_preset := Some (ca_approvedAccessPreset a),
                          cn_expected_boundary_manifest_hash := Some (ca_expectedBoundaryManifestHash a),
                          cn_updated_at := now\<rparr>"
  let ?plan = "\<lambda>c. if ck_state c = Approved_pending_activation then
           (if ck_grantId c = Some (ca_grantId a) \<and> ck_grantRevision c = Some (ca_grantRevision a)
               \<and> ck_approvedCanonicalFolder c = Some (ca_approvedCanonicalFolder a)
               \<and> ck_approvedAccessPreset c = Some (ca_approvedAccessPreset a)
               \<and> ck_expectedBoundaryManifestHash c = Some (ca_expectedBoundaryManifestHash a)
            then Inr None else Inl ''continuation approval conflict'')
         else if ck_state c \<noteq> Awaiting_approval
         then Inl (invalidTransition (ck_state c) Awaiting_approval) else Inr (Some ?go)"
  have "markApproved cid a = planned cid ?plan"
    by (simp add: fun_eq_iff markApproved_def planned_def Let_def split: sum.split)
  moreover have "store_operation (planned cid ?plan)"
  proof (rule planned_operation)
    fix f now r
    assume "?plan (fromRow r) = Inr (Some f)"
    then have "f = ?go" "cn_state r = Awaiting_approval" by (simp_all split: if_splits)
    then show "row_becomes r (f now r) \<and> row_ok (f now r)"
      by (auto simp: row_becomes_def row_ok_def state_sets intro!: one_step may_become.approve)
  qed (auto split: if_splits)
  ultimately show ?thesis by simp
qed

lemma attachApproval_operation: "store_operation (attachApproval cid a)"
proof (cases "trim a = [] \<or> 512 < length a")
  case True
  then have "attachApproval cid a = (\<lambda>now s. (Inl ''invalid continuation approvalId'', s))"
    by (auto simp: fun_eq_iff attachApproval_def)
  then show ?thesis by unfold_locales (auto simp: continuation_rows.refl)
next
  case False
  let ?plan = "\<lambda>c. if ck_state c \<noteq> Awaiting_approval then Inl (invalidTransition (ck_state c) Awaiting_approval)
     else if ck_approvalId c = Some a then Inr None
     else if ck_approvalId c \<noteq> None then Inl ''continuation approval conflict''
     else Inr (Some (\<lambda>now (r :: ContinuationRow). r\<lparr>cn_approval_id := Some a, cn_updated_at := now\<rparr>))"
  have "attachApproval cid a = planned cid ?plan"
    using False by (simp add: fun_eq_iff attachApproval_def planned_def Let_def split: sum.split)
  moreover have "store_operation (planned cid ?plan)"
  proof (rule planned_operation)
    fix f now r
    assume "?plan (fromRow r) = Inr (Some f)" "row_ok r"
    then have "f = (\<lambda>now r. r\<lparr>cn_approval_id := Some a, cn_updated_at := now\<rparr>)" "cn_state r = Awaiting_approval"
      "keep_truthy (cn_approval_id r) = None" by (simp_all split: if_splits)
    with \<open>row_ok r\<close> show "row_becomes r (f now r) \<and> row_ok (f now r)"
      by (auto simp: row_becomes_def row_ok_def state_sets keep_truthy_def truthy_def split: if_splits option.splits)
  qed (auto split: if_splits)
  ultimately show ?thesis by simp
qed

lemma create_operation: "store_operation (\<lambda>now. create sha256 fresh now i)"
proof
  fix now s e c
  let ?cid = "''cont_'' @ fresh" and ?f = "create sha256 fresh now i s"
  let ?row = "created_row (sha256 (stringify (input_json i))) ?cid now i"
  have found: "require_checkpoint ?cid (s @ [?row]) = Inr (fromRow ?row)" if "?cid \<notin> cn_continuation_id ` set s"
  proof -
    from that have "List.find (\<lambda>r. cn_continuation_id r = ?cid) s = None" by (rule find_absent)
    then show ?thesis by (simp add: require_Inr find_append created_row_def)
  qed
  have cases: "snd ?f = s \<and> (\<forall>c. fst ?f = Inr c \<longrightarrow> (\<exists>r \<in> set s. c = fromRow r))
      \<or> snd ?f = s @ [?row] \<and> fst ?f = Inr (fromRow ?row) \<and> ?cid \<notin> cn_continuation_id ` set s
        \<and> rowForIdempotencyKey (cc_idempotencyKey i) s = None"
  proof (cases "validateInput i = None \<and> rowForIdempotencyKey (cc_idempotencyKey i) s = None \<and> ?cid \<notin> cn_continuation_id ` set s")
    case True
    then have "?f = (require_checkpoint ?cid (s @ [?row]), s @ [?row])"
      by (simp add: create_def Let_def)
    with True found show ?thesis by simp
  next
    case False
    have "rowForIdempotencyKey (cc_idempotencyKey i) s = Some r \<Longrightarrow> r \<in> set s" for r
      by (auto simp: rowForIdempotencyKey_def dest: find_SomeD)
    with False show ?thesis
      by (cases "validateInput i"; cases "rowForIdempotencyKey (cc_idempotencyKey i) s") (auto simp: create_def Let_def)
  qed
  show "fst ?f = Inl e \<Longrightarrow> snd ?f = s" using cases by auto
  show "fst ?f = Inr c \<Longrightarrow> c \<in> fromRow ` set (snd ?f)" using cases by auto
  assume ok: "store_ok s"
  have "store_ok (s @ [?row])" if "?cid \<notin> cn_continuation_id ` set s" "rowForIdempotencyKey (cc_idempotencyKey i) s = None"
    using ok that by (auto simp: store_ok_def created_row_def row_ok_def state_sets rowForIdempotencyKey_def find_None_iff)
  with cases ok show "store_ok (snd ?f)" by auto
  from cases show "store_le s (snd ?f)" using continuation_rows.refl continuation_rows.append by metis
qed

lemma markResuming_operation: "store_operation (markResuming cid)"
  by unfold_locales (auto simp: markResuming_def require_Inr continuation_rows.refl dest: find_SomeD split: sum.splits if_splits)

text \<open>The checkpoint an operation answers with.\<close>

lemma require_set_row:
  assumes "require_checkpoint cid s = Inr c" "\<And>r. cn_continuation_id (f r) = cn_continuation_id r"
    and "require_checkpoint cid (set_row cid f s) = Inr c'"
  obtains r where "c = fromRow r" "c' = fromRow (f r)"
  using assms by (auto simp: require_Inr find_set_row)

lemma transition_answer:
  assumes "transition cid st st' now s = (Inr c, s')" shows "ck_state c = st'"
proof (cases "require_checkpoint cid s")
  case (Inl e)
  with assms show ?thesis by (simp add: transition_def)
next
  case (Inr c0)
  with assms show ?thesis
    by (auto simp: transition_def Let_def split: if_splits
        elim!: require_set_row[of cid s c0 "\<lambda>r. r\<lparr>cn_state := st', cn_updated_at := now\<rparr>"])
qed

lemma failTransition_answer:
  assumes "failTransition cid sts st' e now s = (Inr c, s')" shows "ck_state c = st'"
proof (cases "require_checkpoint cid s")
  case (Inl x)
  with assms show ?thesis by (simp add: failTransition_def split: if_splits)
next
  case (Inr c0)
  with assms show ?thesis
    by (auto simp: failTransition_def Let_def split: if_splits
        elim!: require_set_row[of cid s c0 "\<lambda>r. r\<lparr>cn_state := st', cn_error_code := Some e, cn_updated_at := now\<rparr>"])
qed

lemma markApproved_answer:
  assumes "markApproved cid a now s = (Inr c, s')"
  shows "ck_state c = Approved_pending_activation
    \<and> ck_approvedCanonicalFolder c = keep_truthy (Some (ca_approvedCanonicalFolder a))
    \<and> ck_approvedAccessPreset c = Some (ca_approvedAccessPreset a)"
proof (cases "require_checkpoint cid s")
  case (Inl e)
  with assms show ?thesis by (simp add: markApproved_def)
next
  case (Inr c0)
  show ?thesis
  proof (cases "ck_state c0 = Approved_pending_activation")
    case True
    with Inr assms have "ck_approvedCanonicalFolder c = Some (ca_approvedCanonicalFolder a)" "c = c0"
      "ck_approvedAccessPreset c = Some (ca_approvedAccessPreset a)" by (simp_all add: markApproved_def split: if_splits)
    moreover from Inr obtain r where "c0 = fromRow r" by (auto simp: require_Inr)
    ultimately show ?thesis using True by (auto simp: keep_truthy_def truthy_def split: if_splits option.splits)
  next
    case False
    let ?f = "\<lambda>r :: ContinuationRow. r\<lparr>cn_state := Approved_pending_activation,
       cn_grant_id := Some (ca_grantId a), cn_grant_revision := Some (ca_grantRevision a),
       cn_approved_canonical_folder := Some (ca_approvedCanonicalFolder a),
       cn_approved_access_preset := Some (ca_approvedAccessPreset a),
       cn_expected_boundary_manifest_hash := Some (ca_expectedBoundaryManifestHash a), cn_updated_at := now\<rparr>"
    from False Inr assms have "require_checkpoint cid (set_row cid ?f s) = Inr c"
      by (auto simp: markApproved_def Let_def split: if_splits)
    from require_set_row[OF Inr _ this] obtain r where "c = fromRow (?f r)" by auto
    then show ?thesis by simp
  qed
qed

interpretation created: store_operation "\<lambda>now. create sha256 fresh now i" for sha256 fresh i
  by (rule create_operation)
interpretation attached: store_operation "attachApproval cid approvalId" for cid approvalId
  by (rule attachApproval_operation)
interpretation approved: store_operation "markApproved cid a" for cid a
  by (rule markApproved_operation)
interpretation rebuilding: store_operation "markRebuilding cid" for cid
  unfolding markRebuilding_def by (rule transition_operation) (auto intro: may_become.intros)
interpretation attested: store_operation "markAttested cid manifest" for cid manifest
  by (rule markAttested_operation)
interpretation resuming: store_operation "markResuming cid" for cid
  by (rule markResuming_operation)
interpretation completed: store_operation "markCompleted cid" for cid
  unfolding markCompleted_def by (rule transition_operation) (auto intro: may_become.intros)
interpretation expired: store_operation "markApprovalExpired cid" for cid
  unfolding markApprovalExpired_def by (rule transition_operation) (auto intro: may_become.intros)
interpretation denied: store_operation "markDenied cid" for cid
  unfolding markDenied_def by (rule transition_operation) (auto intro: may_become.intros)
interpretation undelivered: store_operation "markApprovalDeliveryFailed cid" for cid
  unfolding markApprovalDeliveryFailed_def by (rule transition_operation) (auto intro: may_become.intros)
interpretation activation_failed: store_operation "markActivationFailed cid e" for cid e
  unfolding markActivationFailed_def by (rule failTransition_operation) (auto intro: may_become.intros)
interpretation resume_failed: store_operation "markResumeFailed cid e" for cid e
  unfolding markResumeFailed_def by (rule failTransition_operation) (auto intro: may_become.intros)

section \<open>Runs of the store\<close>

datatype store_op =
    Do_create string time CreateContinuationInput
  | Do_attach string string time
  | Do_approve string ContinuationApproval time
  | Do_rebuild string time
  | Do_attest string string time
  | Do_resume string time
  | Do_complete string time
  | Do_expire string time
  | Do_deny string time
  | Do_undelivered string time
  | Do_fail_activation string string time
  | Do_fail_resume string string time

fun store_step :: "(string \<Rightarrow> string) \<Rightarrow> store_op \<Rightarrow> continuations \<Rightarrow> continuations" where
  "store_step sha256 (Do_create fresh t i) s = snd (create sha256 fresh t i s)"
| "store_step sha256 (Do_attach cid a t) s = snd (attachApproval cid a t s)"
| "store_step sha256 (Do_approve cid a t) s = snd (markApproved cid a t s)"
| "store_step sha256 (Do_rebuild cid t) s = snd (markRebuilding cid t s)"
| "store_step sha256 (Do_attest cid m t) s = snd (markAttested cid m t s)"
| "store_step sha256 (Do_resume cid t) s = snd (markResuming cid t s)"
| "store_step sha256 (Do_complete cid t) s = snd (markCompleted cid t s)"
| "store_step sha256 (Do_expire cid t) s = snd (markApprovalExpired cid t s)"
| "store_step sha256 (Do_deny cid t) s = snd (markDenied cid t s)"
| "store_step sha256 (Do_undelivered cid t) s = snd (markApprovalDeliveryFailed cid t s)"
| "store_step sha256 (Do_fail_activation cid e t) s = snd (markActivationFailed cid e t s)"
| "store_step sha256 (Do_fail_resume cid e t) s = snd (markResumeFailed cid e t s)"

lemmas operations_keep = created.keeps attached.keeps approved.keeps rebuilding.keeps attested.keeps resuming.keeps
  completed.keeps expired.keeps denied.keeps undelivered.keeps activation_failed.keeps resume_failed.keeps

lemmas operations_move = created.moves attached.moves approved.moves rebuilding.moves attested.moves resuming.moves
  completed.moves expired.moves denied.moves undelivered.moves activation_failed.moves resume_failed.moves

lemma store_step_ok: "store_ok s \<Longrightarrow> store_ok (store_step h x s) \<and> store_le s (store_step h x s)"
  by (cases x) (simp_all add: operations_keep operations_move)

lemma store_run: "store_ok s \<Longrightarrow> store_ok (fold (store_step h) xs s) \<and> store_le s (fold (store_step h) xs s)"
proof (induction xs arbitrary: s)
  case Nil
  then show ?case by (simp add: continuation_rows.refl)
next
  case (Cons x xs)
  then show ?case using store_step_ok[of s h x] continuation_rows.trans by fastforce
qed

lemma new_store_ok: "store_ok []" by (simp add: store_ok_def)

text \<open>
  C38: whatever operations run on the store, every checkpoint keeps its
  request, its state moves along the machine, its owner's decision and its grant are not
  replaced; one that ended is never written again; and whoever is past the approval holds a
  complete grant, whoever is resuming or beyond an attested boundary that is the expected one.
\<close>

theorem continuations_follow_machine:
  assumes "s = fold (store_step sha256) before []" "r \<in> set s"
  shows "\<exists>r' \<in> set (fold (store_step sha256) later s). cn_continuation_id r' = cn_continuation_id r
      \<and> request_of r' = request_of r \<and> may_become\<^sup>*\<^sup>* (cn_state r) (cn_state r')
      \<and> (ended (cn_state r) \<longrightarrow> r' = r)
      \<and> (cn_state r \<noteq> Awaiting_approval \<longrightarrow> grant_of r' = grant_of r)
      \<and> (was_approved (cn_state r') \<longrightarrow> cn_grant_id r' \<noteq> None \<and> cn_approved_canonical_folder r' \<noteq> None)
      \<and> (was_attested (cn_state r') \<longrightarrow> truthy (cn_boundary_manifest_hash r')
          \<and> cn_expected_boundary_manifest_hash r' = cn_boundary_manifest_hash r')"
proof -
  have ok: "store_ok s" unfolding assms(1) using store_run[OF new_store_ok] by blast
  from store_run[OF this, of sha256 later] have le: "store_le s (fold (store_step sha256) later s)"
    and ok': "list_all row_ok (fold (store_step sha256) later s)" by (auto simp: store_ok_def)
  from continuation_rows.row[OF le assms(2)] obtain r' where
    r': "r' \<in> set (fold (store_step sha256) later s)" "cn_continuation_id r' = cn_continuation_id r" "row_becomes r r'" .
  moreover have "row_ok r'" using ok' r'(1) by (simp add: list_all_iff)
  ultimately show ?thesis by (auto simp: row_becomes_def row_ok_def)
qed

definition demo_request :: CreateContinuationInput where
  "demo_request = \<lparr>cc_idempotencyKey = ''s1:m1:a1'', cc_correlationId = ''m1'', cc_communicationSessionId = ''s1'',
     cc_messageId = ''m1'', cc_sessionHandle = ''native'', cc_runtimeTurnId = ''turn'', cc_originalMessage = JObj [],
     cc_requestedCapability = \<lparr>rc_toolName = ''Write'', rc_canonicalResource = ''/w/app/x'', rc_summary = ''write x''\<rparr>\<rparr>"

definition demo_approval :: ContinuationApproval where
  "demo_approval = \<lparr>ca_grantId = ''g1'', ca_grantRevision = 1, ca_approvedCanonicalFolder = ''/w/app'',
     ca_approvedAccessPreset = Edit_project, ca_expectedBoundaryManifestHash = ''h1''\<rparr>"

lemma demo_valid: "validateInput demo_request = None"
  by (simp add: validateInput_def demo_request_def oversized_def trim_def js_space_def)

definition demo_row :: ContinuationRow where
  "demo_row = created_row (stringify (input_json demo_request)) ''cont_1'' 10 demo_request"

lemma demo_row_simps [simp]:
  "cn_continuation_id demo_row = ''cont_1''" "cn_state demo_row = Awaiting_approval" "cn_approval_id demo_row = None"
  by (simp_all add: demo_row_def created_row_def)

lemma demo_created: "create id ''1'' 10 demo_request [] = (Inr (fromRow demo_row), [demo_row])"
  by (simp add: create_def demo_valid rowForIdempotencyKey_def Let_def require_checkpoint_def
      find_continuation_def the_or_def flip: demo_row_def)

definition demo_history :: "store_op list" where
  "demo_history = [Do_create ''1'' 10 demo_request, Do_attach ''cont_1'' ''a1'' 20, Do_approve ''cont_1'' demo_approval 30]"

theorem continuations_follow_machine_witness:
  "\<exists>r r'. r \<in> set (fold (store_step id) demo_history [])
     \<and> r' \<in> set (fold (store_step id) [Do_rebuild ''cont_1'' 40, Do_attest ''cont_1'' ''h1'' 50, Do_complete ''cont_1'' 60]
          (fold (store_step id) demo_history []))
     \<and> cn_continuation_id r' = cn_continuation_id r \<and> grant_of r' = grant_of r"
proof -
  obtain r where r: "r \<in> set (fold (store_step id) demo_history [])" "cn_state r \<noteq> Awaiting_approval"
  proof -
    have "map cn_state (fold (store_step id) demo_history []) = [Approved_pending_activation]"
      by (simp add: demo_history_def demo_created attachApproval_def markApproved_def require_checkpoint_def
          find_continuation_def the_or_def set_row_def keep_truthy_def truthy_def trim_def js_space_def)
    then obtain r where "fold (store_step id) demo_history [] = [r]" "cn_state r = Approved_pending_activation"
      by (auto simp: map_eq_Cons_conv)
    with that show thesis by simp
  qed
  from continuations_follow_machine[OF HOL.refl r(1),
      of "[Do_rebuild ''cont_1'' 40, Do_attest ''cont_1'' ''h1'' 50, Do_complete ''cont_1'' 60]"] r
  show ?thesis by blast
qed

text \<open>
  Creating a checkpoint again under its idempotency key, after any operations,
  answers the checkpoint in its present state when the request is the same one and throws when
  the hash of the request differs; neither changes the store.
\<close>

theorem create_once:
  assumes "s = fold (store_step sha256) before []" "fst (create sha256 fresh now i s) = Inr c"
    and "s' = fold (store_step sha256) later (snd (create sha256 fresh now i s))"
    and "cc_idempotencyKey i' = cc_idempotencyKey i" "validateInput i' = None"
  shows "\<exists>c'. find_continuation (ck_continuationId c) s' = Some c'
    \<and> create sha256 fresh' now' i' s' =
      (if sha256 (stringify (input_json i')) = sha256 (stringify (input_json i))
       then Inr c' else Inl ''continuation idempotency conflict'', s')"
proof -
  let ?s = "snd (create sha256 fresh now i s)" and ?hash = "\<lambda>i. sha256 (stringify (input_json i))"
  have ok: "store_ok s" unfolding assms(1) using store_run[OF new_store_ok] by blast
  have ok1: "store_ok ?s" by (rule created.keeps[OF ok])
  have valid: "validateInput i = None"
    using assms(2) by (cases "validateInput i") (simp_all add: create_def)
  obtain r where r: "r \<in> set ?s" "c = fromRow r" "cn_request_hash r = ?hash i" "cc_idempotencyKey r = cc_idempotencyKey i"
  proof (cases "rowForIdempotencyKey (cc_idempotencyKey i) s")
    case None
    let ?cid = "''cont_'' @ fresh"
    have "?cid \<notin> cn_continuation_id ` set s"
      using assms(2) None valid by (auto simp: create_def Let_def split: if_splits)
    moreover from this have "List.find (\<lambda>r. cn_continuation_id r = ?cid) s = None" by (rule find_absent)
    ultimately have "?s = s @ [created_row (?hash i) ?cid now i]" "c = fromRow (created_row (?hash i) ?cid now i)"
      using assms(2) None valid
      by (simp_all add: create_def Let_def require_checkpoint_def the_or_def find_continuation_def find_append created_row_def)
    then show thesis by (intro that[of "created_row (?hash i) ?cid now i"]) (simp_all add: created_row_def)
  next
    case (Some r)
    with assms(2) valid have "?s = s" "c = fromRow r" "cn_request_hash r = ?hash i"
      by (simp_all add: create_def Let_def split: if_splits)
    with that Some show thesis by (auto simp: rowForIdempotencyKey_def dest: find_SomeD)
  qed
  from store_run[OF ok1] have le: "store_le ?s s'" and ok': "store_ok s'" unfolding assms(3) by blast+
  from continuation_rows.row[OF le r(1)] obtain r' where
    r': "r' \<in> set s'" "cn_continuation_id r' = cn_continuation_id r" "row_becomes r r'" .
  from r'(3) have same: "cc_idempotencyKey r' = cc_idempotencyKey i'" "cn_request_hash r' = ?hash i"
    using r(3,4) assms(4) by (auto simp: row_becomes_def request_of_def CreateContinuationInput.truncate_def)
  from ok' r' same have "rowForIdempotencyKey (cc_idempotencyKey i') s' = Some r'"
    unfolding rowForIdempotencyKey_def by (auto simp: store_ok_def intro: find_key_unique)
  moreover have "find_continuation (ck_continuationId c) s' = Some (fromRow r')"
    using ok' r' r(2) by (auto simp: store_ok_def find_continuation_def intro: find_key_unique)
  ultimately show ?thesis
    using assms(5) same(2) by (auto simp: create_def Let_def)
qed

theorem create_once_witness:
  "\<exists>s' c'. s' = fold (store_step id) [Do_deny ''cont_1'' 40] (snd (create id ''1'' 10 demo_request []))
     \<and> find_continuation ''cont_1'' s' = Some c' \<and> create id ''2'' 70 demo_request s' = (Inr c', s')"
proof -
  have "fst (create id ''1'' 10 demo_request []) = Inr (fromRow demo_row)" by (simp add: demo_created)
  from create_once[where before = "[]", OF _ this HOL.refl HOL.refl demo_valid,
      where fresh' = "''2''" and now' = 70 and later = "[Do_deny ''cont_1'' 40]"]
  show ?thesis by simp
qed

end
