(* ===== verification/Approvals.thy ===== *)
theory Approvals
  imports Continuations Relationship_Policy
begin

text \<open>
  Asking the owner (\<^verbatim>\<open>src/shared/tool-approval.ts\<close>, \<^verbatim>\<open>local-tool-approval.ts\<close>) and the request
  for a wider boundary that pauses a tool call until the owner has decided
  (\<^verbatim>\<open>boundary-expansion.ts\<close>, \<^verbatim>\<open>boundary-expansion-request.ts\<close>). The gateway's answers and the
  clock are functions of the number of the poll; waiting is \<open>partial_function\<close>, so a wait
  without end is \<open>None\<close>.
\<close>

section \<open>The owner's answer\<close>

text \<open>A preset the transport may deliver that is none of the two for files is \<open>Chat_only\<close> here.\<close>

record BoundaryActivation =
  ba_grantId :: string
  ba_grantRevision :: int
  ba_canonicalFolder :: string
  ba_accessPreset :: RelationshipAccessPreset
  ba_expectedBoundaryManifestHash :: string

datatype ToolApprovalScope = Scope_once | Scope_session

datatype ApprovalDecision = Decide_allow | Decide_deny

record ToolApprovalState =
  ts_status :: string
  ts_decision :: "ApprovalDecision option"
  ts_scope :: "ToolApprovalScope option"
  ts_activation :: "BoundaryActivation option"

datatype ToolApprovalOutcome =
    Approval_allow ToolApprovalScope "BoundaryActivation option"
  | Approval_deny string

definition max_safe_integer :: int where "max_safe_integer = 2 ^ 53 - 1"

definition validActivation :: "BoundaryActivation option \<Rightarrow> bool" where
  "validActivation v =
     (case v of None \<Rightarrow> False
      | Some a \<Rightarrow> trim (ba_grantId a) \<noteq> [] \<and> length (ba_grantId a) \<le> 512
          \<and> ba_grantRevision a \<le> max_safe_integer \<and> 0 \<le> ba_grantRevision a
          \<and> trim (ba_canonicalFolder a) \<noteq> [] \<and> length (ba_canonicalFolder a) \<le> 4096
          \<and> (ba_accessPreset a = Read_project \<or> ba_accessPreset a = Edit_project)
          \<and> trim (ba_expectedBoundaryManifestHash a) \<noteq> [] \<and> length (ba_expectedBoundaryManifestHash a) \<le> 512)"

definition allowed :: "ToolApprovalScope option \<Rightarrow> BoundaryActivation option \<Rightarrow> bool \<Rightarrow> ToolApprovalOutcome" where
  "allowed scope activation requiresActivation =
     (let verifiedActivation = (if validActivation activation then activation else None)
      in if requiresActivation \<and> verifiedActivation = None
         then Approval_deny ''Aicoo: approval did not include an activatable kernel boundary''
         else Approval_allow (if scope = Some Scope_session then Scope_session else Scope_once) verifiedActivation)"

text \<open>\<open>None\<close> while the approval is pending.\<close>

definition decide_approval :: "ToolApprovalState \<Rightarrow> bool \<Rightarrow> ToolApprovalOutcome option" where
  "decide_approval st requiresActivation =
     (case ts_decision st of
        Some Decide_allow \<Rightarrow> Some (allowed (ts_scope st) (ts_activation st) requiresActivation)
      | Some Decide_deny \<Rightarrow> Some (Approval_deny ''the owner declined this tool call'')
      | None \<Rightarrow>
          if ts_status st = ''pending'' then None
          else if ts_status st = ''auto_allow''
          then Some (allowed (ts_scope st) (ts_activation st) requiresActivation)
          else Some (Approval_deny (''approval ended as '' @ ts_status st)))"

definition denied_because :: "string \<Rightarrow> ToolApprovalOutcome" where
  "denied_because reason = Approval_deny (''Aicoo: '' @ reason)"

text \<open>
  The loop from poll \<open>k\<close> on: \<open>clock k\<close> is the reading of its condition, \<open>polls k\<close> the answer
  of the gateway, \<open>None\<close> when the request failed.
\<close>

partial_function (option) poll_approval ::
    "string \<Rightarrow> bool \<Rightarrow> (nat \<Rightarrow> ToolApprovalState option) \<Rightarrow> (nat \<Rightarrow> time) \<Rightarrow> time \<Rightarrow> nat \<Rightarrow> ToolApprovalOutcome option" where
  "poll_approval toolName requires polls clock deadline k =
     (if \<not> clock k < deadline then Some (denied_because (toolName @ '' was not approved in time''))
      else case polls k of
        None \<Rightarrow> poll_approval toolName requires polls clock deadline (Suc k)
      | Some current \<Rightarrow>
          (case decide_approval current requires of
             Some resolved \<Rightarrow> Some resolved
           | None \<Rightarrow> poll_approval toolName requires polls clock deadline (Suc k)))"

text \<open>
  \<open>requested\<close> is what the first request answered, \<open>created\<close> what the callback threw on it;
  \<open>started\<close> is the reading the deadline is counted from.
\<close>

definition awaitToolApproval ::
    "string \<Rightarrow> bool \<Rightarrow> string + ToolApprovalState \<Rightarrow> string option \<Rightarrow> (nat \<Rightarrow> ToolApprovalState option) \<Rightarrow> (nat \<Rightarrow> time)
       \<Rightarrow> time \<Rightarrow> int \<Rightarrow> ToolApprovalOutcome option" where
  "awaitToolApproval toolName requires requested created polls clock started timeoutMs =
     (case requested of
        Inl e \<Rightarrow> Some (denied_because (''could not ask '' @ toolName @ '' approval: Error: '' @ e))
      | Inr st \<Rightarrow>
         (case created of
            Some e \<Rightarrow> Some (denied_because (''could not ask '' @ toolName @ '' approval: Error: '' @ e))
          | None \<Rightarrow>
             (case decide_approval st requires of
                Some initial \<Rightarrow> Some initial
              | None \<Rightarrow> poll_approval toolName requires polls clock (started + timeoutMs) 0)))"

section \<open>Asking at the terminal\<close>

definition SESSION_SCOPE_TOOLS :: "string list" where
  "SESSION_SCOPE_TOOLS = PRESET_TOOLS Read_project"

definition requestLocalApproval :: "string \<Rightarrow> bool \<Rightarrow> string \<Rightarrow> ToolApprovalState" where
  "requestLocalApproval toolName requiresSessionRebuild prompt =
     (if requiresSessionRebuild
      then \<lparr>ts_status = ''unsupported'', ts_decision = Some Decide_deny, ts_scope = Some Scope_once, ts_activation = None\<rparr>
      else
        (let answer = toLowerCase (trim prompt);
             allowed = (answer \<in> {''y'', ''yes'', ''s'', ''session''});
             requestedSession = (answer \<in> {''s'', ''session''});
             scope = (if requestedSession \<and> toolName \<in> set SESSION_SCOPE_TOOLS then Scope_session else Scope_once)
         in \<lparr>ts_status = (if allowed then ''allow'' else ''deny''),
             ts_decision = Some (if allowed then Decide_allow else Decide_deny),
             ts_scope = Some scope, ts_activation = None\<rparr>))"

definition getLocalApproval :: "(string \<rightharpoonup> ToolApprovalState) \<Rightarrow> string \<Rightarrow> ToolApprovalState" where
  "getLocalApproval states approvalId = or_else (states approvalId)
     \<lparr>ts_status = ''unknown'', ts_decision = Some Decide_deny, ts_scope = Some Scope_once, ts_activation = None\<rparr>"

section \<open>Containment\<close>

definition segments :: "string \<Rightarrow> string list" where
  "segments p = filter (\<lambda>s. s \<noteq> []) (split_slash p)"

fun common_length :: "'a list \<Rightarrow> 'a list \<Rightarrow> nat" where
  "common_length (x # xs) (y # ys) = (if x = y then Suc (common_length xs ys) else 0)"
| "common_length _ _ = 0"

text \<open>\<^verbatim>\<open>relative\<close> of \<^verbatim>\<open>node:path\<close> on resolved paths.\<close>

definition relative_path :: "string \<Rightarrow> string \<Rightarrow> string \<Rightarrow> string" where
  "relative_path cwd source target =
     (let f = segments (resolve cwd source); t = segments (resolve cwd target); k = common_length f t
      in join ''/'' (replicate (length f - k) ''..'' @ drop k t))"

definition contains_path :: "string \<Rightarrow> string \<Rightarrow> string \<Rightarrow> bool" where
  "contains_path cwd folder resource =
     (let path = relative_path cwd (resolve cwd folder) (resolve cwd resource)
      in path = [] \<or> (path \<noteq> ''..'' \<and> \<not> prefix ''../'' path \<and> \<not> isAbsolute path))"

section \<open>A wider boundary\<close>

record BoundaryExpansionInput = CreateContinuationInput +
  bx_attemptId :: string
  bx_requestedAccessPreset :: RelationshipAccessPreset
  bx_approvalToolName :: string

record approval_world =
  aw_sha256 :: "string \<Rightarrow> string"
  aw_fresh :: string
  aw_request :: "string + (string \<times> ToolApprovalState)"
  aw_polls :: "nat \<Rightarrow> ToolApprovalState option"
  aw_clock :: "nat \<Rightarrow> time"
  aw_started :: time
  aw_now :: "nat \<Rightarrow> time"
  aw_cwd :: string
  aw_other :: "continuations \<Rightarrow> continuations"

definition BOUNDARY_APPROVAL_TIMEOUT_MS :: int where
  "BOUNDARY_APPROVAL_TIMEOUT_MS = 30 * 60000"

definition mentions :: "string \<Rightarrow> string \<Rightarrow> bool" where
  "mentions w text = list_ex (\<lambda>i. prefix w (drop i (toLowerCase text))) [0..<Suc (length text)]"

text \<open>
  The wait of one request: the approval is attached to the checkpoint as soon as it exists
  (a throw of the store denies), and the other loops may change the store until it is decided.
\<close>

definition expansion_outcome ::
    "approval_world \<Rightarrow> string \<Rightarrow> string \<Rightarrow> continuations \<Rightarrow> ToolApprovalOutcome option \<times> continuations" where
  "expansion_outcome w toolName cid s =
     (case aw_request w of
        Inl e \<Rightarrow> (awaitToolApproval toolName True (Inl e) None (aw_polls w) (aw_clock w) (aw_started w)
                   BOUNDARY_APPROVAL_TIMEOUT_MS, aw_other w s)
      | Inr (approvalId, st) \<Rightarrow>
         (let r = attachApproval cid approvalId (aw_now w 1) s
          in (awaitToolApproval toolName True (Inr st) (case fst r of Inl e \<Rightarrow> Some e | Inr c \<Rightarrow> None)
                (aw_polls w) (aw_clock w) (aw_started w) BOUNDARY_APPROVAL_TIMEOUT_MS, aw_other w (snd r))))"

definition approval_of :: "BoundaryActivation \<Rightarrow> ContinuationApproval" where
  "approval_of a = \<lparr>ca_grantId = ba_grantId a, ca_grantRevision = ba_grantRevision a,
     ca_approvedCanonicalFolder = ba_canonicalFolder a, ca_approvedAccessPreset = ba_accessPreset a,
     ca_expectedBoundaryManifestHash = ba_expectedBoundaryManifestHash a\<rparr>"

definition settle_expansion ::
    "approval_world \<Rightarrow> BoundaryExpansionInput \<Rightarrow> string \<Rightarrow> ToolApprovalOutcome \<Rightarrow> continuations
       \<Rightarrow> (string + ContinuationCheckpoint) \<times> continuations" where
  "settle_expansion w i cid outcome s =
     (case outcome of
        Approval_deny message \<Rightarrow>
          if mentions ''declined'' message then markDenied cid (aw_now w 2) s
          else if mentions ''expired'' message \<or> mentions ''not approved in time'' message
          then markApprovalExpired cid (aw_now w 2) s
          else markApprovalDeliveryFailed cid (aw_now w 2) s
      | Approval_allow scope None \<Rightarrow> (Inl ''activation is undefined'', s)
      | Approval_allow scope (Some activation) \<Rightarrow>
          (case markApproved cid (approval_of activation) (aw_now w 2) s of
             (Inl e, s) \<Rightarrow> (Inl e, s)
           | (Inr approved, s) \<Rightarrow>
               if \<not> contains_path (aw_cwd w) (ba_canonicalFolder activation)
                      (rc_canonicalResource (cc_requestedCapability i))
                  \<or> (bx_requestedAccessPreset i = Edit_project \<and> ba_accessPreset activation \<noteq> Edit_project)
               then markActivationFailed (ck_continuationId approved)
                      ''approved_boundary_does_not_cover_request'' (aw_now w 3) s
               else (Inr approved, s)))"

definition request_expansion ::
    "approval_world \<Rightarrow> BoundaryExpansionInput \<Rightarrow> continuations
       \<Rightarrow> ((string + ContinuationCheckpoint) \<times> continuations) option" where
  "request_expansion w i s =
     (case create (aw_sha256 w) (aw_fresh w) (aw_now w 0) (CreateContinuationInput.truncate i) s of
        (Inl e, s) \<Rightarrow> Some (Inl e, s)
      | (Inr checkpoint, s) \<Rightarrow>
          if ck_state checkpoint \<noteq> Awaiting_approval then Some (Inr checkpoint, s)
          else (case expansion_outcome w (bx_approvalToolName i) (ck_continuationId checkpoint) s of
                  (None, s) \<Rightarrow> None
                | (Some outcome, s) \<Rightarrow> Some (settle_expansion w i (ck_continuationId checkpoint) outcome s)))"

record ExpansionForTool =
  et_message :: MessageEnvelope
  et_originalMessage :: json
  et_sessionHandle :: string
  et_runtimeTurnId :: string
  et_attemptId :: string
  et_action :: ToolAction
  et_summary :: string

text \<open>Asking on behalf of a tool call; an exception ends as \<open>Some None\<close>: no expansion.\<close>

definition requestBoundaryExpansionForTool ::
    "policy_env \<Rightarrow> approval_world \<Rightarrow> ExpansionForTool \<Rightarrow> continuations
       \<Rightarrow> (ContinuationCheckpoint option \<times> continuations) option" where
  "requestBoundaryExpansionForTool E w i s =
     (let m = et_message i
      in case (me_communicationSessionId m, accessPresetForTool (ta_toolName (et_action i)),
               canonicalToolResourceForApproval E (et_action i) (aw_cwd w)) of
           (Some sid, Some preset, Some resource) \<Rightarrow>
             if sid = [] \<or> resource = [] then Some (None, s)
             else map_option (\<lambda>(r, s). (case r of Inl e \<Rightarrow> None | Inr c \<Rightarrow> Some c, s))
               (request_expansion w
                 \<lparr>cc_idempotencyKey = sid @ '':'' @ me_id m @ '':'' @ et_attemptId i,
                  cc_correlationId = or_else (me_correlationId m) (me_id m), cc_communicationSessionId = sid,
                  cc_messageId = me_id m, cc_sessionHandle = et_sessionHandle i,
                  cc_runtimeTurnId = et_runtimeTurnId i, cc_originalMessage = et_originalMessage i,
                  cc_requestedCapability = \<lparr>rc_toolName = ta_toolName (et_action i),
                    rc_canonicalResource = resource, rc_summary = et_summary i\<rparr>,
                  bx_attemptId = et_attemptId i, bx_requestedAccessPreset = preset,
                  bx_approvalToolName = ta_toolName (et_action i)\<rparr> s)
         | _ \<Rightarrow> Some (None, s))"

section \<open>The answer comes from the owner, and in time\<close>

definition grants_it :: "ToolApprovalState \<Rightarrow> bool" where
  "grants_it st = (ts_decision st = Some Decide_allow \<or> ts_decision st = None \<and> ts_status st = ''auto_allow'')"

lemma decide_allow:
  "decide_approval st requires = Some (Approval_allow scope activation) \<Longrightarrow>
    grants_it st \<and> (requires \<longrightarrow> activation = ts_activation st \<and> validActivation activation)"
  by (auto simp: decide_approval_def grants_it_def allowed_def Let_def
      split: option.splits ApprovalDecision.splits if_splits)

text \<open>A poll that decides: the gateway answered, and the answer settles the matter.\<close>

definition decides :: "(nat \<Rightarrow> ToolApprovalState option) \<Rightarrow> bool \<Rightarrow> nat \<Rightarrow> ToolApprovalOutcome option" where
  "decides polls requires j = Option.bind (polls j) (\<lambda>st. decide_approval st requires)"

lemma poll_step:
  "poll_approval tool requires polls clock deadline k =
     (if deadline \<le> clock k then Some (denied_because (tool @ '' was not approved in time''))
      else case decides polls requires k of
        Some r \<Rightarrow> Some r | None \<Rightarrow> poll_approval tool requires polls clock deadline (Suc k))"
  by (subst poll_approval.simps) (auto simp: decides_def split: option.split)

lemma poll_answered:
  assumes "poll_approval tool requires polls clock deadline k = Some r"
  shows "r = denied_because (tool @ '' was not approved in time'')
    \<or> (\<exists>j. clock j < deadline \<and> decides polls requires j = Some r)"
proof (rule poll_approval.raw_induct[where P = "\<lambda>tool requires polls clock deadline k r.
      r = denied_because (tool @ '' was not approved in time'')
      \<or> (\<exists>j. clock j < deadline \<and> decides polls requires j = Some r)", OF _ assms])
qed (auto simp: decides_def split: if_splits option.splits)

lemma poll_ends:
  "deadline \<le> clock n \<Longrightarrow> k \<le> n \<Longrightarrow> \<exists>r. poll_approval tool requires polls clock deadline k = Some r
    \<and> ((\<forall>j. k \<le> j \<and> j < n \<longrightarrow> decides polls requires j = None) \<longrightarrow>
        r = denied_because (tool @ '' was not approved in time''))"
proof (induction "n - k" arbitrary: k)
  case 0
  then have "k = n" by simp
  with 0 show ?case by (simp add: poll_step[where k = n])
next
  case (Suc m)
  show ?case
  proof (cases "deadline \<le> clock k")
    case True
    then show ?thesis by (simp add: poll_step[where k = k])
  next
    case False
    show ?thesis
    proof (cases "decides polls requires k")
      case (Some r)
      with False Suc show ?thesis by (intro exI[of _ r]) (auto simp: poll_step[where k = k])
    next
      case None
      from Suc have "m = n - Suc k" "Suc k \<le> n" by linarith+
      from Suc.hyps(1)[OF this(1) Suc.prems(1) this(2)] obtain r where
        "poll_approval tool requires polls clock deadline (Suc k) = Some r"
        "(\<forall>j. Suc k \<le> j \<and> j < n \<longrightarrow> decides polls requires j = None) \<longrightarrow>
          r = denied_because (tool @ '' was not approved in time'')" by blast
      with None False show ?thesis by (intro exI[of _ r]) (auto simp: poll_step[where k = k])
    qed
  qed
qed

lemma awaited_allow:
  assumes "awaitToolApproval tool requires requested created polls clock started timeoutMs
      = Some (Approval_allow scope activation)"
  shows "\<exists>st. (requested = Inr st \<or> (\<exists>j. polls j = Some st \<and> clock j < started + timeoutMs)) \<and> created = None
    \<and> grants_it st \<and> (requires \<longrightarrow> activation = ts_activation st \<and> validActivation activation)"
proof (cases requested)
  case (Inl e)
  with assms show ?thesis by (simp add: awaitToolApproval_def denied_because_def)
next
  case (Inr st)
  with assms have c: "created = None"
    by (cases created) (simp_all add: awaitToolApproval_def denied_because_def)
  show ?thesis
  proof (cases "decide_approval st requires")
    case (Some r)
    with assms Inr c have "decide_approval st requires = Some (Approval_allow scope activation)"
      by (simp add: awaitToolApproval_def)
    from decide_allow[OF this] Inr c show ?thesis by blast
  next
    case None
    with assms Inr c have "poll_approval tool requires polls clock (started + timeoutMs) 0
        = Some (Approval_allow scope activation)" by (simp add: awaitToolApproval_def)
    from poll_answered[OF this] obtain j where j: "clock j < started + timeoutMs"
      "decides polls requires j = Some (Approval_allow scope activation)" by (auto simp: denied_because_def)
    then obtain st' where st': "polls j = Some st'" "decide_approval st' requires = Some (Approval_allow scope activation)"
      by (auto simp: decides_def bind_eq_Some_conv)
    from decide_allow[OF st'(2)] st'(1) j(1) c show ?thesis by blast
  qed
qed


definition pending_state :: ToolApprovalState where
  "pending_state = \<lparr>ts_status = ''pending'', ts_decision = None, ts_scope = None, ts_activation = None\<rparr>"

definition allow_state :: ToolApprovalState where
  "allow_state = \<lparr>ts_status = ''allow'', ts_decision = Some Decide_allow, ts_scope = Some Scope_once, ts_activation = None\<rparr>"


text \<open>
  C40: once the clock has reached the deadline the wait is over, however the
  gateway answered or failed in between; when nobody decided, it ends as a denial.
\<close>

theorem approval_wait_ends:
  assumes "started + timeoutMs \<le> clock n"
  shows "\<exists>r. awaitToolApproval tool requires requested created polls clock started timeoutMs = Some r
    \<and> ((\<forall>st. requested = Inr st \<longrightarrow> decide_approval st requires = None) \<and> (\<forall>j<n. decides polls requires j = None)
        \<longrightarrow> (\<exists>message. r = Approval_deny message))"
proof (cases "\<exists>st. requested = Inr st \<and> created = None \<and> decide_approval st requires = None")
  case True
  then obtain st where st: "requested = Inr st" "created = None" "decide_approval st requires = None" by blast
  from poll_ends[of "started + timeoutMs" clock n 0 tool requires polls] assms obtain r where
    "poll_approval tool requires polls clock (started + timeoutMs) 0 = Some r"
    "(\<forall>j<n. decides polls requires j = None) \<longrightarrow> r = denied_because (tool @ '' was not approved in time'')" by auto
  with st show ?thesis by (auto simp: awaitToolApproval_def denied_because_def)
next
  case False
  then show ?thesis
    by (cases requested; cases created; cases "decide_approval (projr requested) requires")
       (auto simp: awaitToolApproval_def denied_because_def)
qed

theorem approval_wait_ends_witness:
  "\<exists>message. awaitToolApproval ''Read'' False (Inr pending_state) None (\<lambda>k. None) (\<lambda>k. int k) 0 5
     = Some (Approval_deny message)"
  using approval_wait_ends[of 0 5 int 5 "''Read''" False "Inr pending_state" None "\<lambda>k. None"]
  by (auto simp: decides_def pending_state_def decide_approval_def)

section \<open>The approved folder covers the request\<close>

lemma split_slash_clean: "s \<in> set (split_slash p) \<Longrightarrow> slash \<notin> set s"
  by (induction p arbitrary: s) (auto split: list.splits if_splits)

lemma segments_abs_path: "segments_ok ss \<Longrightarrow> segments (abs_path ss) = ss"
proof -
  assume ok: "segments_ok ss"
  then have "filter (\<lambda>s. s \<noteq> []) ss = ss" by (auto simp: segments_ok_def list_all_iff filter_id_conv)
  then show ?thesis
    using ok by (cases "ss = []") (simp_all add: segments_def abs_path_def split_join)
qed

text \<open>What normalization leaves: non-empty names without dots that climb.\<close>

definition plain_segments :: "string list \<Rightarrow> bool" where
  "plain_segments ss = (segments_ok ss \<and> ''.'' \<notin> set ss \<and> ''..'' \<notin> set ss)"

lemma push_plain:
  "plain_segments st \<Longrightarrow> slash \<notin> set seg \<Longrightarrow> plain_segments (push_segment False seg st)"
  by (auto simp: push_segment_def plain_segments_def segments_ok_def split: list.splits)

lemma normalized_plain:
  "list_all (\<lambda>s. slash \<notin> set s) ss \<Longrightarrow> plain_segments st \<Longrightarrow> plain_segments (fold (push_segment False) ss st)"
  by (induction ss arbitrary: st) (auto simp: push_plain)

lemma push_of_plain: "plain_segments ss \<Longrightarrow> fold (push_segment False) ss st = rev ss @ st"
  by (induction ss arbitrary: st) (auto simp: push_segment_def plain_segments_def segments_ok_def)

lemma resolve_plain: "\<exists>ss. plain_segments ss \<and> resolve cwd p = abs_path ss"
proof -
  let ?p = "if isAbsolute p then p else if p = [] then cwd else cwd @ ''/'' @ p"
  have "list_all (\<lambda>s. slash \<notin> set s) (split_slash ?p)" by (auto simp: list_all_iff dest: split_slash_clean)
  from normalized_plain[OF this, of "[]"] have "plain_segments (rev (fold (push_segment False) (split_slash ?p) []))"
    by (simp add: plain_segments_def segments_ok_def)
  then show ?thesis unfolding resolve_def normalizeString_def abs_path_def by (metis append_Cons append_Nil)
qed

lemma resolve_abs_path: "plain_segments ss \<Longrightarrow> resolve cwd (abs_path ss) = abs_path ss"
proof -
  assume plain: "plain_segments ss"
  have "fold (push_segment False) (split_slash (abs_path ss)) [] = rev ss"
  proof (cases "ss = []")
    case True
    then show ?thesis by (simp add: abs_path_def push_segment_def)
  next
    case False
    with plain have "split_slash (abs_path ss) = [] # ss"
      by (simp add: abs_path_def split_join plain_segments_def)
    then show ?thesis by (simp add: push_of_plain[OF plain]) (simp add: push_segment_def)
  qed
  then show ?thesis by (simp add: resolve_def isAbsolute_def abs_path_def normalizeString_def)
qed

lemma common_length_prefix: "common_length xs ys = length xs \<longleftrightarrow> prefix xs ys"
  by (induction xs ys rule: common_length.induct) auto

lemma common_length_le: "common_length xs ys \<le> length xs"
  by (induction xs ys rule: common_length.induct) auto

lemma climbing_path:
  assumes "0 < n" shows "join ''/'' (replicate n ''..'' @ ds) = ''..'' \<or> prefix ''../'' (join ''/'' (replicate n ''..'' @ ds))"
proof (cases "replicate (n - 1) ''..'' @ ds = []")
  case True
  with assms have "n = 1" "ds = []" by auto
  then show ?thesis by simp
next
  case False
  have "replicate n ''..'' @ ds = ''..'' # (replicate (n - 1) ''..'' @ ds)" using assms by (cases n) simp_all
  with False show ?thesis by (simp add: join_Cons)
qed

lemma descending_path:
  assumes "plain_segments ds"
  shows "join ''/'' ds \<noteq> ''..'' \<and> \<not> prefix ''../'' (join ''/'' ds) \<and> \<not> isAbsolute (join ''/'' ds)"
proof (cases ds)
  case (Cons d ds')
  have d: "d \<noteq> []" "slash \<notin> set d" "d \<noteq> ''..''" using assms Cons by (auto simp: plain_segments_def segments_ok_def)
  obtain c cs where c: "d = c # cs" using d(1) by (cases d) auto
  have join: "join ''/'' ds = d \<or> (\<exists>r. join ''/'' ds = d @ slash # r)"
    using Cons by (cases ds') auto
  have "\<not> isAbsolute (join ''/'' ds)" using join d c by (auto simp: isAbsolute_def)
  moreover have "\<not> prefix ''../'' (join ''/'' ds)"
  proof
    assume "prefix ''../'' (join ''/'' ds)"
    then obtain zs where zs: "join ''/'' ds = ''..'' @ slash # zs" by (auto simp: prefix_def)
    have head: "takeWhile (\<lambda>c. c \<noteq> slash) (x @ slash # r) = x" if "slash \<notin> set x" for x r
      using that by (induction x) auto
    from zs d(2) have "join ''/'' ds \<noteq> d" by auto
    with join obtain r where "join ''/'' ds = d @ slash # r" by blast
    with zs have "takeWhile (\<lambda>c. c \<noteq> slash) (d @ slash # r) = takeWhile (\<lambda>c. c \<noteq> slash) (''..'' @ slash # zs)" by simp
    then have "d = ''..''" using head[OF d(2)] head[of "''..''" zs] by simp
    with d(3) show False ..
  qed
  moreover have "join ''/'' ds \<noteq> ''..''"
    using join d(3) by (auto simp: append_eq_Cons_conv Cons_eq_append_conv)
  ultimately show ?thesis by blast
qed (simp add: isAbsolute_def)

lemma contains_prefix:
  assumes "plain_segments f" "plain_segments t" "resolve cwd folder = abs_path f" "resolve cwd resource = abs_path t"
  shows "contains_path cwd folder resource = prefix f t"
proof -
  have rel: "relative_path cwd (resolve cwd folder) (resolve cwd resource)
      = join ''/'' (replicate (length f - common_length f t) ''..'' @ drop (common_length f t) t)"
    using assms by (simp add: relative_path_def Let_def resolve_abs_path segments_abs_path plain_segments_def)
  show ?thesis
  proof (cases "prefix f t")
    case True
    then have "common_length f t = length f" by (simp add: common_length_prefix)
    moreover have "plain_segments (drop n t)" for n
      using assms(2) by (auto simp: plain_segments_def segments_ok_def list_all_iff dest: in_set_dropD)
    ultimately show ?thesis using True descending_path[of "drop (length f) t"]
      by (simp add: contains_path_def rel)
  next
    case False
    then have "0 < length f - common_length f t"
      using common_length_le[of f t] common_length_prefix[of f t] by linarith
    from climbing_path[OF this, of "drop (common_length f t) t"] False show ?thesis
      by (auto simp: contains_path_def rel Let_def)
  qed
qed

text \<open>
  The containment test of the approval code, by \<^verbatim>\<open>relative\<close>, and the one
  of the relationship policy, by text prefix, agree on resolved paths, and both mean that the
  components of the folder are the first ones of the resource.
\<close>

theorem contains_is_within:
  "contains_path cwd folder resource = isWithin (resolve cwd folder) (resolve cwd resource)
   \<and> contains_path cwd folder resource = prefix (segments (resolve cwd folder)) (segments (resolve cwd resource))"
proof -
  obtain f t where f: "plain_segments f" "resolve cwd folder = abs_path f"
    and t: "plain_segments t" "resolve cwd resource = abs_path t" using resolve_plain by metis
  then have ok: "segments_ok f" "segments_ok t" by (simp_all add: plain_segments_def)
  have "isWithin (abs_path f) (abs_path t) = prefix f t" by (rule within_is_component_prefix[OF ok])
  with contains_prefix[OF f(1) t(1) f(2) t(2)] f t ok show ?thesis by (simp add: segments_abs_path)
qed

lemma expansion_allow:
  assumes "expansion_outcome w tool cid s = (Some (Approval_allow scope activation), s')"
  shows "validActivation activation"
proof (cases "aw_request w")
  case (Inl e)
  with assms show ?thesis by (auto simp: expansion_outcome_def dest: awaited_allow)
next
  case (Inr r)
  obtain approvalId st where "r = (approvalId, st)" by (cases r)
  with Inr assms obtain created where "awaitToolApproval tool True (Inr st) created (aw_polls w) (aw_clock w)
      (aw_started w) BOUNDARY_APPROVAL_TIMEOUT_MS = Some (Approval_allow scope activation)"
    by (auto simp: expansion_outcome_def Let_def)
  from awaited_allow[OF this] show ?thesis by blast
qed

text \<open>
  A freshly requested expansion that ends as approved carries a folder
  that contains the requested resource and a preset that satisfies the requested one.
\<close>

theorem expansion_covers_request:
  assumes "request_expansion w i s = Some (Inr c, s')" "ck_state c = Approved_pending_activation"
    and "create (aw_sha256 w) (aw_fresh w) (aw_now w 0) (CreateContinuationInput.truncate i) s = (Inr c0, s0)"
    and "ck_state c0 = Awaiting_approval"
  shows "\<exists>folder preset. ck_approvedCanonicalFolder c = Some folder \<and> ck_approvedAccessPreset c = Some preset
    \<and> contains_path (aw_cwd w) folder (rc_canonicalResource (cc_requestedCapability i))
    \<and> accessPresetSatisfies preset (bx_requestedAccessPreset i)"
proof -
  let ?cid = "ck_continuationId c0"
  obtain o' s1 where o': "expansion_outcome w (bx_approvalToolName i) ?cid s0 = (Some o', s1)"
    and settle: "settle_expansion w i ?cid o' s1 = (Inr c, s')"
    using assms(1,3,4) by (auto simp: request_expansion_def split: prod.splits option.splits)
  show ?thesis
  proof (cases o')
    case (Approval_deny message)
    with settle assms(2) have False
      by (auto simp: settle_expansion_def markDenied_def markApprovalExpired_def markApprovalDeliveryFailed_def
          dest!: transition_answer split: if_splits)
    then show ?thesis ..
  next
    case (Approval_allow scope activation)
    from expansion_allow[OF o'[unfolded this]] obtain a where a: "activation = Some a" "validActivation (Some a)"
      by (cases activation) (auto simp: validActivation_def)
    obtain r s2 where r: "markApproved ?cid (approval_of a) (aw_now w 2) s1 = (r, s2)" by (cases "markApproved ?cid (approval_of a) (aw_now w 2) s1")
    with settle Approval_allow a(1) obtain c1 where c1: "r = Inr c1"
      by (cases r) (simp_all add: settle_expansion_def)
    let ?bad = "\<not> contains_path (aw_cwd w) (ba_canonicalFolder a) (rc_canonicalResource (cc_requestedCapability i))
        \<or> (bx_requestedAccessPreset i = Edit_project \<and> ba_accessPreset a \<noteq> Edit_project)"
    have "\<not> ?bad"
    proof
      assume ?bad
      with settle Approval_allow a(1) r c1 have
        "markActivationFailed (ck_continuationId c1) ''approved_boundary_does_not_cover_request'' (aw_now w 3) s2 = (Inr c, s')"
        by (simp add: settle_expansion_def)
      with assms(2) show False by (simp add: markActivationFailed_def failTransition_answer)
    qed
    then have "c = c1" using settle Approval_allow a(1) r c1 by (simp add: settle_expansion_def split: if_splits)
    with r c1 have "ck_approvedCanonicalFolder c = keep_truthy (Some (ba_canonicalFolder a))"
      "ck_approvedAccessPreset c = Some (ba_accessPreset a)"
      by (auto simp: approval_of_def dest!: markApproved_answer)
    moreover have "ba_canonicalFolder a \<noteq> []" "ba_accessPreset a \<noteq> Chat_only" using a(2)
      by (auto simp: validActivation_def trim_def)
    moreover have "accessPresetSatisfies (ba_accessPreset a) (bx_requestedAccessPreset i)"
      using \<open>\<not> ?bad\<close> \<open>ba_accessPreset a \<noteq> Chat_only\<close>
      by (cases "ba_accessPreset a"; cases "bx_requestedAccessPreset i") (simp_all add: accessPresetSatisfies_def)
    ultimately show ?thesis using \<open>\<not> ?bad\<close> by (simp add: keep_truthy_def truthy_def)
  qed
qed

definition demo_activation :: BoundaryActivation where
  "demo_activation = \<lparr>ba_grantId = ''g1'', ba_grantRevision = 1, ba_canonicalFolder = ''/w/app'',
     ba_accessPreset = Edit_project, ba_expectedBoundaryManifestHash = ''h1''\<rparr>"

definition demo_expansion :: BoundaryExpansionInput where
  "demo_expansion = CreateContinuationInput.extend demo_request
     \<lparr>bx_attemptId = ''a1'', bx_requestedAccessPreset = Edit_project, bx_approvalToolName = ''Write''\<rparr>"

definition demo_world :: approval_world where
  "demo_world = \<lparr>aw_sha256 = id, aw_fresh = ''1'',
     aw_request = Inr (''a1'', \<lparr>ts_status = ''pending'', ts_decision = None, ts_scope = None, ts_activation = None\<rparr>),
     aw_polls = (\<lambda>k. Some \<lparr>ts_status = ''allow'', ts_decision = Some Decide_allow, ts_scope = Some Scope_once,
       ts_activation = Some demo_activation\<rparr>),
     aw_clock = (\<lambda>k. 0), aw_started = 0, aw_now = (\<lambda>k. 10), aw_cwd = ''/'', aw_other = id\<rparr>"

lemma demo_expansion_approved:
  "\<exists>c s'. request_expansion demo_world demo_expansion [] = Some (Inr c, s') \<and> ck_state c = Approved_pending_activation"
proof -
  have trunc: "CreateContinuationInput.truncate demo_expansion = demo_request"
    by (simp add: demo_expansion_def CreateContinuationInput.defs demo_request_def)
  have covers: "contains_path ''/'' ''/w/app'' (rc_canonicalResource (cc_requestedCapability demo_expansion))"
    by (simp add: demo_expansion_def CreateContinuationInput.defs demo_request_def) code_simp
  have valid: "validActivation (Some demo_activation)"
    by (simp add: validActivation_def demo_activation_def trim_def js_space_def max_safe_integer_def)
  have preset: "bx_requestedAccessPreset demo_expansion = Edit_project" "bx_approvalToolName demo_expansion = ''Write''"
    by (simp_all add: demo_expansion_def CreateContinuationInput.defs)
  have outcome: "expansion_outcome demo_world ''Write'' ''cont_1'' [demo_row]
      = (Some (Approval_allow Scope_once (Some demo_activation)),
         [demo_row\<lparr>cn_approval_id := Some ''a1'', cn_updated_at := 10\<rparr>])"
    by (simp add: expansion_outcome_def demo_world_def Let_def attachApproval_def require_checkpoint_def find_continuation_def
        the_or_def set_row_def keep_truthy_def truthy_def trim_def js_space_def awaitToolApproval_def decide_approval_def
        poll_step decides_def allowed_def valid BOUNDARY_APPROVAL_TIMEOUT_MS_def)
  show ?thesis
    by (simp add: request_expansion_def trunc demo_world_def demo_created covers preset)
       (simp add: outcome[unfolded demo_world_def] settle_expansion_def markApproved_def require_checkpoint_def find_continuation_def
        the_or_def set_row_def preset approval_of_def covers, simp add: demo_activation_def covers)
qed

theorem expansion_covers_request_witness:
  "\<exists>c s' folder. request_expansion demo_world demo_expansion [] = Some (Inr c, s')
     \<and> ck_approvedCanonicalFolder c = Some folder \<and> contains_path ''/'' folder ''/w/app/x''"
proof -
  obtain c s' where c: "request_expansion demo_world demo_expansion [] = Some (Inr c, s')"
    "ck_state c = Approved_pending_activation" using demo_expansion_approved by blast
  have "create (aw_sha256 demo_world) (aw_fresh demo_world) (aw_now demo_world 0)
      (CreateContinuationInput.truncate demo_expansion) [] = (Inr (fromRow demo_row), [demo_row])"
    using demo_created by (simp add: demo_world_def demo_expansion_def CreateContinuationInput.defs demo_request_def)
  from expansion_covers_request[OF c this] c(1) show ?thesis
    by (auto simp: demo_world_def demo_expansion_def CreateContinuationInput.defs demo_request_def)
qed

end
