(* ===== verification/Recovery.thy ===== *)
theory Recovery
  imports Approvals Telemetry
begin

text \<open>
  The recovery of continuations: \<^verbatim>\<open>src/shared/session-rebuild.ts\<close> rebuilds the session of an
  approved checkpoint and resumes it, \<^verbatim>\<open>src/bridge/continuation-recovery.ts\<close> does so for every
  recoverable checkpoint and settles the approvals a crash left open. The runtime adapter, the
  gateway, the clock and the other loops of the bridge, which may change the shared state during
  an \<^verbatim>\<open>await\<close>, are the functions of a \<open>recovery_world\<close>, indexed by the number of the await.
\<close>

section \<open>The shared state and the world\<close>

record recovery =
  cv_store :: continuations
  cv_inFlight :: "string set"
  cv_resumedThisProcess :: "string set"
  cv_telemetry :: telemetry

datatype runtime_call =
    Get_approval ContinuationCheckpoint
  | Can_activate ContinuationCheckpoint
  | Quiesce ContinuationCheckpoint
  | Rebuild ContinuationCheckpoint
  | Resume ContinuationCheckpoint

text \<open>
  \<open>rw_approvals\<close> and \<open>rw_canActivate\<close> are \<open>None\<close> when the transport is no gateway, the adapter has no
  such method; \<open>rw_protocol\<close> says whether it has the three methods of the rebuild. A rejected
  promise is \<open>None\<close>.
\<close>

record recovery_world =
  rw_sha256 :: "string \<Rightarrow> string"
  rw_cwd :: string
  rw_approvals :: "(nat \<Rightarrow> ToolApprovalState option) option"
  rw_protocol :: bool
  rw_canActivate :: "(nat \<Rightarrow> bool option) option"
  rw_quiesce :: "nat \<Rightarrow> bool"
  rw_rebuild :: "nat \<Rightarrow> string option"
  rw_resume :: "nat \<Rightarrow> string option"
  rw_other :: "nat \<Rightarrow> recovery \<Rightarrow> recovery"
  rw_now :: "nat \<Rightarrow> time"

record recovery_task =
  tk_shared :: recovery
  tk_awaits :: nat
  tk_reads :: nat
  tk_calls :: "runtime_call list"

definition awaited :: "recovery_world \<Rightarrow> runtime_call \<Rightarrow> recovery_task \<Rightarrow> recovery_task" where
  "awaited w c t = t\<lparr>tk_shared := rw_other w (tk_awaits t) (tk_shared t), tk_awaits := Suc (tk_awaits t),
     tk_calls := tk_calls t @ [c]\<rparr>"

definition on_shared :: "(recovery \<Rightarrow> recovery) \<Rightarrow> recovery_task \<Rightarrow> recovery_task" where
  "on_shared f t = t\<lparr>tk_shared := f (tk_shared t)\<rparr>"

definition read_clock :: "recovery_world \<Rightarrow> recovery_task \<Rightarrow> time \<times> recovery_task" where
  "read_clock w t = (rw_now w (tk_reads t), t\<lparr>tk_reads := Suc (tk_reads t)\<rparr>)"

definition on_store ::
    "recovery_world \<Rightarrow> (time \<Rightarrow> continuations \<Rightarrow> (string + ContinuationCheckpoint) \<times> continuations)
       \<Rightarrow> recovery_task \<Rightarrow> (string + ContinuationCheckpoint) \<times> recovery_task" where
  "on_store w f t =
     (let (now, t) = read_clock w t; (r, s) = f now (cv_store (tk_shared t))
      in (r, on_shared (cv_store_update (\<lambda>_. s)) t))"

section \<open>The rebuild of one session\<close>

definition isTerminal :: "ContinuationState \<Rightarrow> bool" where
  "isTerminal st = (st \<in> {Completed, Cont_denied, Approval_expired, Approval_delivery_failed,
     Activation_failed, Resume_failed})"

definition resume_part ::
    "recovery_world \<Rightarrow> string \<Rightarrow> ContinuationCheckpoint \<Rightarrow> recovery_task \<Rightarrow> (string + ContinuationCheckpoint) \<times> recovery_task" where
  "resume_part w cid checkpoint t =
     (let acked = (rw_resume w (tk_awaits t) = Some ''runtime_acked'');
          t = awaited w (Resume checkpoint) t;
          failed = on_store w (markResumeFailed cid ''continuation_injection_failed'')
      in if \<not> acked then failed t
         else (case on_store w (markResuming cid) t of
                 (Inr c, t) \<Rightarrow> (Inr c, t)
               | (Inl e, t) \<Rightarrow> failed t))"

definition rebuild_part ::
    "recovery_world \<Rightarrow> string \<Rightarrow> ContinuationCheckpoint \<Rightarrow> recovery_task \<Rightarrow> (string + ContinuationCheckpoint) \<times> recovery_task" where
  "rebuild_part w cid checkpoint t =
     (let quiet = rw_quiesce w (tk_awaits t); t = awaited w (Quiesce checkpoint) t
      in if \<not> quiet then on_store w (markActivationFailed cid ''session_quiesce_failed'') t
         else (let built = rw_rebuild w (tk_awaits t); t = awaited w (Rebuild checkpoint) t;
                   failed = on_store w (markActivationFailed cid ''session_launch_failed'')
               in case built of
                    None \<Rightarrow> failed t
                  | Some manifest \<Rightarrow>
                      (case on_store w (markAttested cid manifest) t of
                         (Inl e, t) \<Rightarrow> failed t
                       | (Inr c, t) \<Rightarrow> if ck_state c \<noteq> Resuming then (Inr c, t) else resume_part w cid c t)))"

definition execute :: "recovery_world \<Rightarrow> string \<Rightarrow> recovery_task \<Rightarrow> (string + ContinuationCheckpoint) \<times> recovery_task" where
  "execute w cid t =
     (case require_checkpoint cid (cv_store (tk_shared t)) of
        Inl e \<Rightarrow> (Inl e, t)
      | Inr checkpoint \<Rightarrow>
          if isTerminal (ck_state checkpoint) then (Inr checkpoint, t)
          else (case (if ck_state checkpoint = Approved_pending_activation
                      then on_store w (markRebuilding cid) t else (Inr checkpoint, t)) of
                  (Inl e, t) \<Rightarrow> (Inl e, t)
                | (Inr checkpoint, t) \<Rightarrow>
                    if ck_state checkpoint = Rebuilding_session then rebuild_part w cid checkpoint t
                    else if ck_state checkpoint = Resuming then resume_part w cid checkpoint t
                    else (Inr checkpoint, t)))"

section \<open>One pass over the recoverable checkpoints\<close>

definition rebuild_metric ::
    "ContinuationCheckpoint \<Rightarrow> ContinuationCheckpoint \<Rightarrow> int \<Rightarrow> BoundaryTransition" where
  "rebuild_metric checkpoint result latency =
     (let failed = (ck_state result = Activation_failed \<or> ck_state result = Resume_failed)
      in \<lparr>bt_transitionId = ''continuation:'' @ ck_continuationId checkpoint,
          bt_messageId = cc_messageId checkpoint, bt_kind = Post_start_rebuild,
          bt_cause = Approval_boundary_expansion,
          bt_boundaryKey = (case ck_boundaryManifestHash result of Some h \<Rightarrow> h
             | None \<Rightarrow> or_else (ck_expectedBoundaryManifestHash result) (ck_continuationId checkpoint)),
          bt_success = (\<not> failed \<and> ck_state result = Resuming), bt_latencyMs = latency,
          bt_failureCode = (if failed then ck_errorCode result else None)\<rparr>)"

definition rebuild_one ::
    "recovery_world \<Rightarrow> ContinuationCheckpoint \<Rightarrow> recovery_task \<Rightarrow> (string + unit) \<times> recovery_task" where
  "rebuild_one w checkpoint t =
     (let (startedAt, t) = read_clock w t
      in case execute w (ck_continuationId checkpoint) t of
           (Inl e, t) \<Rightarrow> (Inl e, t)
         | (Inr result, t) \<Rightarrow>
             (let t = (if ck_state checkpoint = Resuming then t
                       else let (finishedAt, t) = read_clock w t; (recordedAt, t) = read_clock w t
                            in on_shared (cv_telemetry_update (recordTransition (rw_sha256 w)
                                 (rebuild_metric checkpoint result (finishedAt - startedAt)) recordedAt)) t);
                  t = (if ck_state result = Resuming
                       then on_shared (cv_resumedThisProcess_update (insert (ck_continuationId checkpoint))) t
                       else t)
              in (Inr (), t)))"

definition recover_one ::
    "recovery_world \<Rightarrow> ContinuationCheckpoint \<Rightarrow> recovery_task \<Rightarrow> (string + unit) \<times> recovery_task" where
  "recover_one w checkpoint t =
     (let cid = ck_continuationId checkpoint
      in if cid \<in> cv_inFlight (tk_shared t) \<or> cid \<in> cv_resumedThisProcess (tk_shared t) then (Inr (), t)
         else (let t = on_shared (cv_inFlight_update (insert cid)) t;
                   (r, t) = (case rw_canActivate w of
                       None \<Rightarrow> rebuild_one w checkpoint t
                     | Some can \<Rightarrow>
                         (let answer = can (tk_awaits t); t = awaited w (Can_activate checkpoint) t
                          in case answer of
                               None \<Rightarrow> (Inl ''canActivateContinuation failed'', t)
                             | Some ok \<Rightarrow> if ok then rebuild_one w checkpoint t else (Inr (), t)))
               in (r, on_shared (cv_inFlight_update (\<lambda>I. I - {cid})) t)))"

text \<open>
  \<^verbatim>\<open>Promise.all\<close>: every task runs, and one that rejects makes the whole reject. A task touches
  no checkpoint but its own, so the tasks stand one after the other here; what they do during
  each other's awaits is part of \<open>rw_other\<close>.
\<close>

fun all_tasks ::
    "('a \<Rightarrow> recovery_task \<Rightarrow> (string + unit) \<times> recovery_task) \<Rightarrow> 'a list \<Rightarrow> recovery_task \<Rightarrow> (string + unit) \<times> recovery_task" where
  "all_tasks f [] t = (Inr (), t)"
| "all_tasks f (x # xs) t =
     (let (r, t) = f x t; (r', t) = all_tasks f xs t in (case r of Inl e \<Rightarrow> Inl e | Inr _ \<Rightarrow> r', t))"

section \<open>Approvals left open\<close>

definition activatable :: "BoundaryActivation option \<Rightarrow> bool" where
  "activatable a = (case a of None \<Rightarrow> False
     | Some a \<Rightarrow> trim (ba_grantId a) \<noteq> [] \<and> \<bar>ba_grantRevision a\<bar> \<le> max_safe_integer \<and> 0 \<le> ba_grantRevision a
         \<and> trim (ba_canonicalFolder a) \<noteq> [] \<and> ba_accessPreset a \<in> {Read_project, Edit_project}
         \<and> trim (ba_expectedBoundaryManifestHash a) \<noteq> [])"

definition settle_decision ::
    "recovery_world \<Rightarrow> ContinuationCheckpoint \<Rightarrow> ToolApprovalState \<Rightarrow> recovery_task \<Rightarrow> recovery_task" where
  "settle_decision w checkpoint st t =
     (let cid = ck_continuationId checkpoint
      in if ts_status st = ''pending'' \<and> ts_decision st = None then t
         else if ts_decision st = Some Decide_deny then snd (on_store w (markDenied cid) t)
         else if ts_decision st = Some Decide_allow then
           (if \<not> activatable (ts_activation st)
               \<or> \<not> contains_path (rw_cwd w) (ba_canonicalFolder (the (ts_activation st)))
                     (rc_canonicalResource (cc_requestedCapability checkpoint))
            then snd (on_store w (markApprovalDeliveryFailed cid) t)
            else snd (on_store w (markApproved cid (approval_of (the (ts_activation st)))) t))
         else if ts_status st \<noteq> ''pending'' then snd (on_store w (markApprovalExpired cid) t)
         else t)"

text \<open>A gateway or a store that throws defers the decision.\<close>

definition recover_decision ::
    "recovery_world \<Rightarrow> (nat \<Rightarrow> ToolApprovalState option) \<Rightarrow> ContinuationCheckpoint \<Rightarrow> recovery_task
       \<Rightarrow> (string + unit) \<times> recovery_task" where
  "recover_decision w answers checkpoint t =
     (let answer = answers (tk_awaits t); t = awaited w (Get_approval checkpoint) t
      in (Inr (), case answer of None \<Rightarrow> t | Some st \<Rightarrow> settle_decision w checkpoint st t))"

definition recoverAwaitingDecisions :: "recovery_world \<Rightarrow> recovery_task \<Rightarrow> bool \<times> recovery_task" where
  "recoverAwaitingDecisions w t =
     (case rw_approvals w of
        None \<Rightarrow> (False, t)
      | Some answers \<Rightarrow>
          (let awaiting = listAwaitingDecisions (cv_store (tk_shared t))
           in (awaiting \<noteq> [], snd (all_tasks (recover_decision w answers) awaiting t))))"

definition recover :: "recovery_world \<Rightarrow> recovery_task \<Rightarrow> (string + bool) \<times> recovery_task" where
  "recover w t =
     (let (awaitingWork, t) = recoverAwaitingDecisions w t
      in if \<not> rw_protocol w then (Inr awaitingWork, t)
         else (let recoverable = listRecoverable (cv_store (tk_shared t));
                   (r, t) = all_tasks (recover_one w) recoverable t
               in (map_sum id (\<lambda>_. awaitingWork \<or> recoverable \<noteq> []) r, t)))"

section \<open>The runtime's answer\<close>

datatype runtime_event_type = Turn_started | Reply | Turn_failed_event | Session_closed_event

definition handleRuntimeEvent ::
    "string \<Rightarrow> runtime_event_type \<Rightarrow> string option \<Rightarrow> string option \<Rightarrow> time \<Rightarrow> recovery \<Rightarrow> (string + unit) \<times> recovery" where
  "handleRuntimeEvent sessionHandle ty inReplyTo correlationId now s =
     (if ty \<notin> {Reply, Turn_failed_event} \<or> \<not> truthy inReplyTo then (Inr (), s)
      else case findResuming sessionHandle (the inReplyTo) (keep_truthy correlationId) (cv_store s) of
             None \<Rightarrow> (Inr (), s)
           | Some checkpoint \<Rightarrow>
               (let cid = ck_continuationId checkpoint;
                    s = cv_resumedThisProcess_update (\<lambda>R. R - {cid}) s;
                    (r, store) = (if ty = Reply then markCompleted cid now (cv_store s)
                                  else markResumeFailed cid ''runtime_turn_failed'' now (cv_store s))
                in (map_sum id (\<lambda>_. ()) r, cv_store_update (\<lambda>_. store) s)))"

section \<open>Every step keeps to the machine\<close>

text \<open>A checkpoint as the store held it at some time.\<close>

definition stored_checkpoint :: "ContinuationCheckpoint \<Rightarrow> bool" where
  "stored_checkpoint c = (\<exists>r. row_ok r \<and> c = fromRow r)"

definition call_ok :: "runtime_call \<Rightarrow> bool" where
  "call_ok c = (case c of
       Quiesce k \<Rightarrow> stored_checkpoint k \<and> ck_state k = Rebuilding_session
     | Rebuild k \<Rightarrow> stored_checkpoint k \<and> ck_state k = Rebuilding_session
     | Resume k \<Rightarrow> stored_checkpoint k \<and> ck_state k = Resuming
     | _ \<Rightarrow> True)"

text \<open>What the other loops are relied on for: they use the operations of the store.\<close>

definition lawful :: "recovery_world \<Rightarrow> bool" where
  "lawful w = (\<forall>k s. store_ok (cv_store s) \<longrightarrow>
     store_ok (cv_store (rw_other w k s)) \<and> store_le (cv_store s) (cv_store (rw_other w k s)))"

definition sound :: "recovery_task \<Rightarrow> bool" where
  "sound t = (store_ok (cv_store (tk_shared t)) \<and> list_all call_ok (tk_calls t))"

definition continues :: "recovery_task \<Rightarrow> recovery_task \<Rightarrow> bool" where
  "continues t t' = (sound t \<longrightarrow> sound t' \<and> store_le (cv_store (tk_shared t)) (cv_store (tk_shared t')))"

lemma continues_refl [simp, intro]: "continues t t"
  by (simp add: continues_def continuation_rows.refl)

lemma continues_trans [trans]: "continues t u \<Longrightarrow> continues u v \<Longrightarrow> continues t v"
  unfolding continues_def using continuation_rows.trans by blast

lemma continues_shared:
  "cv_store (tk_shared t') = cv_store (tk_shared t) \<Longrightarrow> tk_calls t' = tk_calls t \<Longrightarrow> continues t t'"
  by (simp add: continues_def sound_def continuation_rows.refl)

lemma awaited_continues: "lawful w \<Longrightarrow> call_ok c \<Longrightarrow> continues t (awaited w c t)"
  by (auto simp: continues_def sound_def lawful_def awaited_def)

lemma continuesI: "(sound t \<Longrightarrow> continues t t') \<Longrightarrow> continues t t'"
  by (simp add: continues_def)

lemma continuesD: "continues t t' \<Longrightarrow> sound t \<Longrightarrow> sound t'"
  by (simp add: continues_def)

context store_operation
begin

lemma on_store_continues: "on_store w f t = (r, t') \<Longrightarrow> continues t t'"
  using keeps moves
  by (auto simp: continues_def sound_def on_store_def read_clock_def on_shared_def Let_def split: prod.splits)
    (metis snd_conv)+

lemma on_store_stored:
  assumes "on_store w f t = (Inr c, t')" "sound t"
  shows "stored_checkpoint c"
proof -
  let ?s = "cv_store (tk_shared t)" and ?now = "rw_now w (tk_reads t)"
  have "fst (f ?now ?s) = Inr c"
    using assms(1) by (auto simp: on_store_def read_clock_def on_shared_def Let_def split: prod.splits)
  with answers keeps assms(2)[unfolded sound_def] show ?thesis
    by (fastforce simp: stored_checkpoint_def store_ok_def list_all_iff)
qed

end

lemma resume_part_continues:
  assumes "lawful w" "stored_checkpoint c" "ck_state c = Resuming" "resume_part w cid c t = (r, t')"
  shows "continues t t'"
proof -
  let ?t1 = "awaited w (Resume c) t"
  have 1: "continues t ?t1" by (rule awaited_continues) (use assms in \<open>simp_all add: call_ok_def\<close>)
  obtain r2 t2 where 2: "on_store w (markResuming cid) ?t1 = (r2, t2)" by fastforce
  have "continues ?t1 t'"
    using assms(4) 2 resuming.on_store_continues[OF 2]
    by (auto simp: resume_part_def Let_def split: if_splits sum.splits
        dest: resume_failed.on_store_continues intro: continues_trans)
  with 1 show ?thesis by (rule continues_trans)
qed

lemma rebuild_part_continues:
  assumes "lawful w" "stored_checkpoint c" "ck_state c = Rebuilding_session" "rebuild_part w cid c t = (r, t')"
  shows "continues t t'"
proof (rule continuesI)
  assume snd: "sound t"
  let ?t1 = "awaited w (Quiesce c) t"
  let ?t2 = "awaited w (Rebuild c) ?t1"
  have 1: "continues t ?t1" by (rule awaited_continues) (use assms in \<open>simp_all add: call_ok_def\<close>)
  have 2: "continues ?t1 ?t2" by (rule awaited_continues) (use assms in \<open>simp_all add: call_ok_def\<close>)
  have 12: "continues t ?t2" by (rule continues_trans[OF 1 2])
  show "continues t t'"
  proof (cases "rw_quiesce w (tk_awaits t)")
    case False
    with assms(4) have "on_store w (markActivationFailed cid ''session_quiesce_failed'') ?t1 = (r, t')"
      by (simp add: rebuild_part_def)
    from activation_failed.on_store_continues[OF this] 1 show ?thesis by (metis continues_trans)
  next
    case quiet: True
    show ?thesis
    proof (cases "rw_rebuild w (tk_awaits ?t1)")
      case None
      with quiet assms(4) have "on_store w (markActivationFailed cid ''session_launch_failed'') ?t2 = (r, t')"
        by (simp add: rebuild_part_def Let_def)
      from activation_failed.on_store_continues[OF this] 12 show ?thesis by (metis continues_trans)
    next
      case (Some m)
      obtain r3 t3 where 3: "on_store w (markAttested cid m) ?t2 = (r3, t3)" by fastforce
      have 13: "continues t t3" using 12 attested.on_store_continues[OF 3] by (rule continues_trans)
      show ?thesis
      proof (cases r3)
        case (Inl e)
        with 3 Some quiet assms(4) have "on_store w (markActivationFailed cid ''session_launch_failed'') t3 = (r, t')"
          by (simp add: rebuild_part_def Let_def)
        from activation_failed.on_store_continues[OF this] 13 show ?thesis by (metis continues_trans)
      next
        case (Inr k)
        have "stored_checkpoint k"
          using attested.on_store_stored[OF 3[unfolded Inr]] continuesD[OF 12 snd] by blast
        moreover have "if ck_state k \<noteq> Resuming then t' = t3 else resume_part w cid k t3 = (r, t')"
          using Inr 3 Some quiet assms(4) by (simp add: rebuild_part_def Let_def split: if_splits)
        ultimately show ?thesis
          using 13 resume_part_continues[OF assms(1)] by (metis continues_trans)
      qed
    qed
  qed
qed

lemma execute_continues:
  assumes "lawful w" "execute w cid t = (r, t')"
  shows "continues t t'"
proof (rule continuesI)
  assume snd: "sound t"
  show "continues t t'"
  proof (cases "require_checkpoint cid (cv_store (tk_shared t))")
    case (Inl e)
    with assms(2) show ?thesis by (simp add: execute_def)
  next
    case (Inr c)
    then have c: "stored_checkpoint c"
      using snd by (auto simp: sound_def store_ok_def list_all_iff stored_checkpoint_def require_Inr dest: find_SomeD)
    let ?st = "if ck_state c = Approved_pending_activation then on_store w (markRebuilding cid) t else (Inr c, t)"
    obtain r1 t1 where 1: "?st = (r1, t1)" by fastforce
    have step: "continues t t1" "\<And>c'. r1 = Inr c' \<Longrightarrow> stored_checkpoint c'"
      using 1 c rebuilding.on_store_continues[of w cid t] rebuilding.on_store_stored[of w cid t] snd
      by (auto split: if_splits)
    show ?thesis
    proof (cases "isTerminal (ck_state c)")
      case True
      with assms(2) Inr show ?thesis by (simp add: execute_def)
    next
      case False
      with assms(2) Inr 1 have *: "(case r1 of Inl e \<Rightarrow> (Inl e, t1) | Inr c' \<Rightarrow>
            if ck_state c' = Rebuilding_session then rebuild_part w cid c' t1
            else if ck_state c' = Resuming then resume_part w cid c' t1 else (Inr c', t1)) = (r, t')"
        by (simp add: execute_def)
      show ?thesis
      proof (cases r1)
        case Inl
        with * step show ?thesis by simp
      next
        case (Inr c')
        with * step(2) have "continues t1 t'"
          using rebuild_part_continues[OF assms(1)] resume_part_continues[OF assms(1)]
          by (auto split: if_splits)
        with step(1) show ?thesis by (rule continues_trans)
      qed
    qed
  qed
qed

lemma rebuild_one_continues:
  assumes "lawful w" "rebuild_one w c t = (r, t')"
  shows "continues t t'"
proof -
  let ?t0 = "snd (read_clock w t)" and ?cid = "ck_continuationId c"
  obtain r1 t1 where 1: "execute w ?cid ?t0 = (r1, t1)" by fastforce
  have "continues t ?t0" by (rule continues_shared) (simp_all add: read_clock_def)
  also have "continues ?t0 t1" by (rule execute_continues[OF assms(1) 1])
  also have "continues t1 t'"
  proof (rule continues_shared)
    show "cv_store (tk_shared t') = cv_store (tk_shared t1)" "tk_calls t' = tk_calls t1"
      using assms(2) 1 by (auto simp: rebuild_one_def read_clock_def on_shared_def Let_def split: sum.splits)
  qed
  finally show ?thesis .
qed

lemma recover_one_continues:
  assumes "lawful w" "recover_one w c t = (r, t')"
  shows "continues t t'"
proof -
  let ?cid = "ck_continuationId c"
  let ?t0 = "on_shared (cv_inFlight_update (insert ?cid)) t"
  let ?m = "case rw_canActivate w of None \<Rightarrow> rebuild_one w c ?t0
     | Some can \<Rightarrow> (let answer = can (tk_awaits ?t0); t = awaited w (Can_activate c) ?t0
                    in case answer of None \<Rightarrow> (Inl ''canActivateContinuation failed'', t)
                         | Some ok \<Rightarrow> if ok then rebuild_one w c t else (Inr (), t))"
  have 0: "continues t ?t0" by (rule continues_shared) (simp_all add: on_shared_def)
  have can: "continues ?t0 (awaited w (Can_activate c) ?t0)"
    by (rule awaited_continues[OF assms(1)]) (simp add: call_ok_def)
  obtain r1 t1 where 1: "?m = (r1, t1)" by fastforce
  have 2: "continues ?t0 t1"
    using 1 can rebuild_one_continues[OF assms(1)] continues_trans
    by (auto simp: Let_def split: option.splits if_splits)
  have "continues t1 (on_shared (cv_inFlight_update (\<lambda>I. I - {?cid})) t1)"
    by (rule continues_shared) (simp_all add: on_shared_def)
  with 0 2 have "continues t (on_shared (cv_inFlight_update (\<lambda>I. I - {?cid})) t1)" by (metis continues_trans)
  moreover have "recover_one w c t = (if ?cid \<in> cv_inFlight (tk_shared t) \<or> ?cid \<in> cv_resumedThisProcess (tk_shared t)
      then (Inr (), t) else case ?m of (r, t) \<Rightarrow> (r, on_shared (cv_inFlight_update (\<lambda>I. I - {?cid})) t))"
    by (simp add: recover_one_def Let_def)
  ultimately show ?thesis
    using assms(2) 1 by (auto split: if_splits)
qed

lemma all_tasks_continue:
  assumes "\<And>x t r t'. f x t = (r, t') \<Longrightarrow> continues t t'"
  shows "all_tasks f xs t = (r, t') \<Longrightarrow> continues t t'"
proof (induction xs arbitrary: t r)
  case (Cons x xs)
  obtain r1 t1 where 1: "f x t = (r1, t1)" by fastforce
  obtain r2 t2 where 2: "all_tasks f xs t1 = (r2, t2)" by fastforce
  from Cons.prems 1 2 have "t' = t2" by simp
  with 2 have "all_tasks f xs t1 = (r2, t')" by simp
  then have "continues t1 t'" by (rule Cons.IH)
  with assms[OF 1] show ?case by (rule continues_trans)
qed simp

lemma settle_decision_continues: "continues t (settle_decision w c st t)"
  unfolding settle_decision_def Let_def
  using denied.on_store_continues undelivered.on_store_continues approved.on_store_continues expired.on_store_continues
  by (smt (verit, del_insts) continues_refl prod.collapse)

lemma recover_decision_continues:
  assumes "lawful w" "recover_decision w answers c t = (r, t')"
  shows "continues t t'"
proof -
  have "continues t (awaited w (Get_approval c) t)"
    by (rule awaited_continues[OF assms(1)]) (simp add: call_ok_def)
  moreover have "continues (awaited w (Get_approval c) t) t'"
    using assms(2) settle_decision_continues by (auto simp: recover_decision_def Let_def split: option.splits)
  ultimately show ?thesis by (rule continues_trans)
qed

lemma recover_continues:
  assumes "lawful w" "recover w t = (r, t')"
  shows "continues t t'"
proof -
  obtain b t1 where 1: "recoverAwaitingDecisions w t = (b, t1)" by fastforce
  have "continues t t1"
  proof (cases "rw_approvals w")
    case None
    with 1 show ?thesis by (simp add: recoverAwaitingDecisions_def)
  next
    case (Some answers)
    with 1 have "all_tasks (recover_decision w answers) (listAwaitingDecisions (cv_store (tk_shared t))) t
        = (fst (all_tasks (recover_decision w answers) (listAwaitingDecisions (cv_store (tk_shared t))) t), t1)"
      by (auto simp: recoverAwaitingDecisions_def Let_def)
    from all_tasks_continue[OF recover_decision_continues[OF assms(1)] this] show ?thesis .
  qed
  moreover have "continues t1 t'"
    using assms(2) 1 all_tasks_continue[of "recover_one w", OF recover_one_continues[OF assms(1)]]
    by (auto simp: recover_def Let_def split: if_splits prod.splits)
  ultimately show ?thesis by (rule continues_trans)
qed

text \<open>
  C14: whatever the adapter, the gateway and the other loops do, a pass of the
  recovery resumes a checkpoint only after its rebuilt boundary was attested as the expected one,
  rebuilds one only with a grant, and moves checkpoints along the machine only.
\<close>

theorem resumed_only_attested:
  assumes "lawful w" "store_ok (cv_store (tk_shared t))" "tk_calls t = []" "recover w t = (r, t')"
  shows "store_ok (cv_store (tk_shared t')) \<and> store_le (cv_store (tk_shared t)) (cv_store (tk_shared t'))
    \<and> (Resume c \<in> set (tk_calls t') \<longrightarrow> ck_state c = Resuming \<and> ck_boundaryManifestHash c \<noteq> None
         \<and> ck_expectedBoundaryManifestHash c = ck_boundaryManifestHash c)
    \<and> (Rebuild c \<in> set (tk_calls t') \<longrightarrow> ck_state c = Rebuilding_session \<and> ck_grantRevision c \<noteq> None
         \<and> ck_approvedAccessPreset c \<noteq> None)"
proof -
  have "sound t" using assms(2,3) by (simp add: sound_def)
  with recover_continues[OF assms(1,4)] have t': "sound t'" "store_le (cv_store (tk_shared t)) (cv_store (tk_shared t'))"
    by (simp_all add: continues_def)
  have calls: "call \<in> set (tk_calls t') \<Longrightarrow> call_ok call" for call
    using t'(1) by (simp add: sound_def list_all_iff)
  have "Resume c \<in> set (tk_calls t') \<Longrightarrow> ck_state c = Resuming \<and> ck_boundaryManifestHash c \<noteq> None
         \<and> ck_expectedBoundaryManifestHash c = ck_boundaryManifestHash c"
    by (drule calls) (auto simp: call_ok_def stored_checkpoint_def row_ok_def was_attested_def keep_truthy_def truthy_def split: option.splits)
  moreover have "Rebuild c \<in> set (tk_calls t') \<Longrightarrow> ck_state c = Rebuilding_session \<and> ck_grantRevision c \<noteq> None
         \<and> ck_approvedAccessPreset c \<noteq> None"
    by (drule calls) (auto simp: call_ok_def stored_checkpoint_def row_ok_def was_approved_def)
  ultimately show ?thesis using t' by (auto simp: sound_def)
qed

definition approved_row :: ContinuationRow where
  "approved_row = demo_row\<lparr>cn_state := Approved_pending_activation, cn_grant_id := Some ''g1'',
     cn_grant_revision := Some 1, cn_approved_canonical_folder := Some ''/w/app'',
     cn_approved_access_preset := Some Edit_project, cn_expected_boundary_manifest_hash := Some ''h1''\<rparr>"

definition quiet_world :: recovery_world where
  "quiet_world = \<lparr>rw_sha256 = id, rw_cwd = ''/w'', rw_approvals = None, rw_protocol = True, rw_canActivate = None,
     rw_quiesce = (\<lambda>_. True), rw_rebuild = (\<lambda>_. Some ''h1''), rw_resume = (\<lambda>_. Some ''runtime_acked''),
     rw_other = (\<lambda>_ s. s), rw_now = int\<rparr>"

definition start_task :: "ContinuationRow list \<Rightarrow> recovery_task" where
  "start_task rows = \<lparr>tk_shared = \<lparr>cv_store = rows, cv_inFlight = {}, cv_resumedThisProcess = {}, cv_telemetry = new_telemetry\<rparr>,
     tk_awaits = 0, tk_reads = 0, tk_calls = []\<rparr>"

lemma quiet_lawful: "lawful quiet_world"
  by (simp add: lawful_def quiet_world_def continuation_rows.refl)

lemma approved_row_simps [simp]:
  "cn_continuation_id approved_row = ''cont_1''" "cn_state approved_row = Approved_pending_activation"
  "cn_expected_boundary_manifest_hash approved_row = Some ''h1''"
  by (simp_all add: approved_row_def)

lemma approved_store_ok: "store_ok [approved_row]"
  by (simp add: store_ok_def row_ok_def approved_row_def was_attested_def)

theorem resumed_only_attested_witness:
  "\<exists>c t'. recover quiet_world (start_task [approved_row]) = (Inr True, t') \<and> Resume c \<in> set (tk_calls t')
     \<and> ck_expectedBoundaryManifestHash c = ck_boundaryManifestHash c"
proof -
  obtain c t' where run: "recover quiet_world (start_task [approved_row]) = (Inr True, t')" "Resume c \<in> set (tk_calls t')"
    by (simp add: recover_def recoverAwaitingDecisions_def quiet_world_def start_task_def listRecoverable_def
        recoverable_state_def recover_one_def rebuild_one_def execute_def on_store_def read_clock_def on_shared_def
        awaited_def rebuild_part_def resume_part_def markRebuilding_def transition_def require_checkpoint_def
        find_continuation_def the_or_def set_row_def markAttested_def markResuming_def isTerminal_def Let_def keep_truthy_def truthy_def)
  from resumed_only_attested[OF quiet_lawful _ _ run(1), of c] run show ?thesis
    by (auto simp: start_task_def approved_store_ok)
qed

section \<open>The outcome of a rebuild\<close>

text \<open>The contract of the protocol: a step that fails ends the continuation under its own code.\<close>

definition rebuild_verdict ::
    "string option \<Rightarrow> bool \<Rightarrow> string option \<Rightarrow> string option \<Rightarrow> ContinuationState \<times> string option" where
  "rebuild_verdict expected quiesced built resumed =
     (if \<not> quiesced then (Activation_failed, Some ''session_quiesce_failed'')
      else if built = None then (Activation_failed, Some ''session_launch_failed'')
      else if built \<noteq> expected then (Activation_failed, Some ''boundary_attestation_mismatch'')
      else if resumed \<noteq> Some ''runtime_acked'' then (Resume_failed, Some ''continuation_injection_failed'')
      else (Resuming, None))"

definition holds_row :: "string \<Rightarrow> recovery_task \<Rightarrow> ContinuationRow \<Rightarrow> bool" where
  "holds_row cid t r = (List.find (\<lambda>r. cn_continuation_id r = cid) (cv_store (tk_shared t)) = Some r)"

lemma holds_awaited: "rw_other w = (\<lambda>_ s. s) \<Longrightarrow> holds_row cid (awaited w c t) r = holds_row cid t r"
  by (simp add: holds_row_def awaited_def)

lemma awaited_awaits [simp]: "tk_awaits (awaited w c t) = Suc (tk_awaits t)"
  by (simp add: awaited_def)

lemma holds_require: "holds_row cid t r \<Longrightarrow> require_checkpoint cid (cv_store (tk_shared t)) = Inr (fromRow r)"
  by (simp add: holds_row_def require_Inr)

text \<open>An operation that rewrites the row of a stored checkpoint answers the rewritten one.\<close>

lemma on_store_row:
  assumes "holds_row cid t r" "\<And>r. cn_continuation_id (f r) = cn_continuation_id r"
    and "g (rw_now w (tk_reads t)) (cv_store (tk_shared t))
       = (require_checkpoint cid (set_row cid f (cv_store (tk_shared t))), set_row cid f (cv_store (tk_shared t)))"
  shows "\<exists>t'. on_store w g t = (Inr (fromRow (f r)), t') \<and> holds_row cid t' (f r) \<and> tk_awaits t' = tk_awaits t"
proof -
  have "List.find (\<lambda>r. cn_continuation_id r = cid) (set_row cid f (cv_store (tk_shared t))) = Some (f r)"
    using assms(1) by (simp add: find_set_row[OF assms(2)] holds_row_def)
  then show ?thesis
    using assms(3) by (simp add: on_store_def read_clock_def on_shared_def holds_row_def require_checkpoint_def
        find_continuation_def the_or_def)
qed

lemma failed_row:
  assumes "holds_row cid t r" "cn_state r \<in> set sts" "st' \<notin> set sts" "trim code \<noteq> []" "length code \<le> 256"
  shows "\<exists>r' t'. on_store w (failTransition cid sts st' code) t = (Inr (fromRow r'), t') \<and> holds_row cid t' r'
    \<and> cn_state r' = st' \<and> cn_error_code r' = Some code"
proof -
  let ?f = "\<lambda>r :: ContinuationRow. r\<lparr>cn_state := st', cn_error_code := Some code, cn_updated_at := rw_now w (tk_reads t)\<rparr>"
  have "failTransition cid sts st' code (rw_now w (tk_reads t)) (cv_store (tk_shared t))
    = (require_checkpoint cid (set_row cid ?f (cv_store (tk_shared t))), set_row cid ?f (cv_store (tk_shared t)))"
    using assms holds_require[OF assms(1)] by (auto simp: failTransition_def Let_def)
  from on_store_row[where f = ?f and g = "failTransition cid sts st' code" and w = w, OF assms(1) _ this] show ?thesis by fastforce
qed

lemma rebuilding_row:
  assumes "holds_row cid t r" "cn_state r = Approved_pending_activation"
  shows "\<exists>r' t'. on_store w (markRebuilding cid) t = (Inr (fromRow r'), t') \<and> holds_row cid t' r'
    \<and> cn_state r' = Rebuilding_session \<and> tk_awaits t' = tk_awaits t
    \<and> cn_expected_boundary_manifest_hash r' = cn_expected_boundary_manifest_hash r"
proof -
  let ?f = "\<lambda>r :: ContinuationRow. r\<lparr>cn_state := Rebuilding_session, cn_updated_at := rw_now w (tk_reads t)\<rparr>"
  have "markRebuilding cid (rw_now w (tk_reads t)) (cv_store (tk_shared t))
    = (require_checkpoint cid (set_row cid ?f (cv_store (tk_shared t))), set_row cid ?f (cv_store (tk_shared t)))"
    using assms holds_require[OF assms(1)] by (simp add: markRebuilding_def transition_def Let_def)
  from on_store_row[where f = ?f and g = "markRebuilding cid" and w = w, OF assms(1) _ this] show ?thesis by fastforce
qed

lemma attested_row:
  assumes "holds_row cid t r" "cn_state r = Rebuilding_session"
  shows "\<exists>r' t'. on_store w (markAttested cid m) t = (Inr (fromRow r'), t') \<and> holds_row cid t' r'
    \<and> tk_awaits t' = tk_awaits t
    \<and> (if keep_truthy (cn_expected_boundary_manifest_hash r) = Some m
       then cn_state r' = Resuming \<and> cn_error_code r' = None
       else cn_state r' = Activation_failed \<and> cn_error_code r' = Some ''boundary_attestation_mismatch'')"
proof -
  let ?ok = "keep_truthy (cn_expected_boundary_manifest_hash r) = Some m"
  let ?f = "\<lambda>r :: ContinuationRow. r\<lparr>cn_state := (if ?ok then Resuming else Activation_failed),
     cn_boundary_manifest_hash := Some m,
     cn_error_code := (if ?ok then None else Some ''boundary_attestation_mismatch''),
     cn_updated_at := rw_now w (tk_reads t)\<rparr>"
  have "markAttested cid m (rw_now w (tk_reads t)) (cv_store (tk_shared t))
    = (require_checkpoint cid (set_row cid ?f (cv_store (tk_shared t))), set_row cid ?f (cv_store (tk_shared t)))"
    using assms holds_require[OF assms(1)] by (simp add: markAttested_def Let_def)
  from on_store_row[where f = ?f and g = "markAttested cid m" and w = w, OF assms(1) _ this] show ?thesis by fastforce
qed

lemma resuming_row:
  assumes "holds_row cid t r" "cn_state r = Resuming"
  shows "\<exists>t'. on_store w (markResuming cid) t = (Inr (fromRow r), t') \<and> holds_row cid t' r"
  using assms holds_require[OF assms(1)]
  by (simp add: on_store_def read_clock_def on_shared_def markResuming_def holds_row_def)

text \<open>
  C15: undisturbed, the rebuild of an approved checkpoint always returns, and its
  checkpoint is then stored with the state and error code of the contract: the first step that
  failed decides, a boundary other than the expected one ends it, and it is resuming exactly
  when all went well.
\<close>

theorem rebuild_outcome:
  assumes "rw_other w = (\<lambda>_ s. s)" "find_continuation cid (cv_store (tk_shared t)) = Some c"
    and "ck_state c = Approved_pending_activation"
  shows "\<exists>c' t'. execute w cid t = (Inr c', t') \<and> find_continuation cid (cv_store (tk_shared t')) = Some c'
    \<and> (ck_state c', ck_errorCode c') = rebuild_verdict (ck_expectedBoundaryManifestHash c)
        (rw_quiesce w (tk_awaits t)) (rw_rebuild w (tk_awaits t + 1)) (rw_resume w (tk_awaits t + 2))"
proof -
  have done_row: ?thesis if "execute w cid t = (Inr (fromRow r'), t')" "holds_row cid t' r'"
      "(cn_state r', keep_truthy (cn_error_code r')) = rebuild_verdict (ck_expectedBoundaryManifestHash c)
        (rw_quiesce w (tk_awaits t)) (rw_rebuild w (tk_awaits t + 1)) (rw_resume w (tk_awaits t + 2))" for r' t'
    using that by (auto simp: holds_row_def find_continuation_def)
  from assms obtain r where r: "holds_row cid t r" "c = fromRow r" "cn_state r = Approved_pending_activation"
    by (auto simp: find_continuation_def holds_row_def)
  from rebuilding_row[OF r(1,3), of w] obtain r1 t1 where 1: "on_store w (markRebuilding cid) t = (Inr (fromRow r1), t1)"
    "holds_row cid t1 r1" "cn_state r1 = Rebuilding_session" "tk_awaits t1 = tk_awaits t"
    "cn_expected_boundary_manifest_hash r1 = cn_expected_boundary_manifest_hash r" by blast
  have run: "execute w cid t = rebuild_part w cid (fromRow r1) t1"
    using r 1 holds_require[OF r(1)] by (simp add: execute_def isTerminal_def)
  let ?t2 = "awaited w (Quiesce (fromRow r1)) t1"
  let ?t3 = "awaited w (Rebuild (fromRow r1)) ?t2"
  have h: "holds_row cid ?t2 r1" "holds_row cid ?t3 r1" using 1(2) holds_awaited[OF assms(1)] by simp_all
  show ?thesis
  proof (cases "rw_quiesce w (tk_awaits t)")
    case False
    obtain r4 t4 where "on_store w (markActivationFailed cid ''session_quiesce_failed'') ?t2 = (Inr (fromRow r4), t4)"
      "holds_row cid t4 r4" "cn_state r4 = Activation_failed" "cn_error_code r4 = Some ''session_quiesce_failed''"
      using failed_row[OF h(1), of "[Approved_pending_activation, Rebuilding_session]" Activation_failed "''session_quiesce_failed''" w] 1(3)
      by (auto simp: markActivationFailed_def trim_def js_space_def)
    with False 1(4) run show ?thesis
      by (intro done_row[of r4 t4]) (simp_all add: rebuild_part_def Let_def rebuild_verdict_def keep_truthy_def truthy_def)
  next
    case quiet: True
    show ?thesis
    proof (cases "rw_rebuild w (tk_awaits t + 1)")
      case None
      obtain r4 t4 where "on_store w (markActivationFailed cid ''session_launch_failed'') ?t3 = (Inr (fromRow r4), t4)"
        "holds_row cid t4 r4" "cn_state r4 = Activation_failed" "cn_error_code r4 = Some ''session_launch_failed''"
        using failed_row[OF h(2), of "[Approved_pending_activation, Rebuilding_session]" Activation_failed "''session_launch_failed''" w] 1(3)
        by (auto simp: markActivationFailed_def trim_def js_space_def)
      with None quiet 1(4) run show ?thesis
        by (intro done_row[of r4 t4]) (simp_all add: rebuild_part_def Let_def rebuild_verdict_def keep_truthy_def truthy_def)
    next
      case (Some m)
      let ?ok = "keep_truthy (cn_expected_boundary_manifest_hash r1) = Some m"
      from attested_row[OF h(2) 1(3), of w m] obtain r4 t4 where 4: "on_store w (markAttested cid m) ?t3 = (Inr (fromRow r4), t4)"
        "holds_row cid t4 r4" "tk_awaits t4 = tk_awaits ?t3" and
        verdict: "if ?ok then cn_state r4 = Resuming \<and> cn_error_code r4 = None
          else cn_state r4 = Activation_failed \<and> cn_error_code r4 = Some ''boundary_attestation_mismatch''" by blast
      have run4: "execute w cid t = (if cn_state r4 \<noteq> Resuming then (Inr (fromRow r4), t4) else resume_part w cid (fromRow r4) t4)"
        using run quiet Some 4 1(4) by (simp add: rebuild_part_def Let_def)
      have expected: "ck_expectedBoundaryManifestHash c = keep_truthy (cn_expected_boundary_manifest_hash r1)"
        using r(2) 1(5) by simp
      show ?thesis
      proof (cases ?ok)
        case False
        with verdict run4 4(2) quiet Some expected show ?thesis
          by (intro done_row[of r4 t4]) (auto simp: rebuild_verdict_def keep_truthy_def truthy_def)
      next
        case True
        with verdict have r4: "cn_state r4 = Resuming" "cn_error_code r4 = None" by simp_all
        let ?t5 = "awaited w (Resume (fromRow r4)) t4"
        have h5: "holds_row cid ?t5 r4" using 4(2) holds_awaited[OF assms(1)] by simp
        show ?thesis
        proof (cases "rw_resume w (tk_awaits t + 2) = Some ''runtime_acked''")
          case acked: True
          from resuming_row[OF h5 r4(1), of w] obtain t6 where "on_store w (markResuming cid) ?t5 = (Inr (fromRow r4), t6)"
            "holds_row cid t6 r4" by blast
          with acked run4 r4 4(3) 1(4) quiet Some expected True show ?thesis
            by (intro done_row[of r4 t6]) (simp_all add: resume_part_def Let_def rebuild_verdict_def keep_truthy_def truthy_def)
        next
          case rejected: False
          obtain r6 t6 where "on_store w (markResumeFailed cid ''continuation_injection_failed'') ?t5 = (Inr (fromRow r6), t6)"
            "holds_row cid t6 r6" "cn_state r6 = Resume_failed" "cn_error_code r6 = Some ''continuation_injection_failed''"
            using failed_row[OF h5, of "[Resuming]" Resume_failed "''continuation_injection_failed''" w] r4(1)
            by (auto simp: markResumeFailed_def trim_def js_space_def)
          with rejected run4 r4 4(3) 1(4) quiet Some expected True show ?thesis
            by (intro done_row[of r6 t6]) (simp_all add: resume_part_def Let_def rebuild_verdict_def keep_truthy_def truthy_def)
        qed
      qed
    qed
  qed
qed

theorem rebuild_outcome_witness:
  "\<exists>c' t'. execute (quiet_world\<lparr>rw_rebuild := (\<lambda>_. Some ''h2'')\<rparr>) ''cont_1'' (start_task [approved_row]) = (Inr c', t')
     \<and> ck_errorCode c' = Some ''boundary_attestation_mismatch''"
  using rebuild_outcome[of "quiet_world\<lparr>rw_rebuild := (\<lambda>_. Some ''h2'')\<rparr>" "''cont_1''" "start_task [approved_row]" "fromRow approved_row"]
  by (auto simp: quiet_world_def start_task_def find_continuation_def rebuild_verdict_def keep_truthy_def truthy_def)

section \<open>Decisions recovered, answers joined\<close>

lemma settle_cases:
  obtains "settle_decision w c st t = t"
    | st' where "settle_decision w c st t = snd (on_store w (transition (ck_continuationId c) Awaiting_approval st') t)"
        "st' \<noteq> Approved_pending_activation"
    | a where "ts_decision st = Some Decide_allow" "ts_activation st = Some a" "activatable (Some a)"
        "contains_path (rw_cwd w) (ba_canonicalFolder a) (rc_canonicalResource (cc_requestedCapability c))"
        "settle_decision w c st t = snd (on_store w (markApproved (ck_continuationId c) (approval_of a)) t)"
proof (cases "ts_decision st")
  case None
  then have "settle_decision w c st t = (if ts_status st = ''pending'' then t
      else snd (on_store w (transition (ck_continuationId c) Awaiting_approval Approval_expired) t))"
    by (simp add: settle_decision_def markApprovalExpired_def)
  with that(1) that(2)[of Approval_expired] show thesis by (auto split: if_splits)
next
  case (Some d)
  show thesis
  proof (cases d)
    case Decide_deny
    with Some that(2)[of Cont_denied] show thesis by (simp add: settle_decision_def markDenied_def)
  next
    case Decide_allow
    show thesis
    proof (cases "activatable (ts_activation st) \<and> contains_path (rw_cwd w) (ba_canonicalFolder (the (ts_activation st)))
        (rc_canonicalResource (cc_requestedCapability c))")
      case True
      then obtain a where "ts_activation st = Some a" by (auto simp: activatable_def split: option.splits)
      with True Some Decide_allow that(3)[of a] show thesis by (simp add: settle_decision_def)
    next
      case False
      with Some Decide_allow that(2)[of Approval_delivery_failed] show thesis
        by (auto simp: settle_decision_def markApprovalDeliveryFailed_def)
    qed
  qed
qed

text \<open>
  A checkpoint that the recovery approves was allowed by the owner, with a
  complete activation whose folder contains the requested resource, and it carries that grant.
\<close>

theorem recovered_approval:
  assumes "store_ok (cv_store (tk_shared t))" "r \<in> set (cv_store (tk_shared t))"
    and "c = fromRow r" "cn_state r = Awaiting_approval"
    and "find_continuation (ck_continuationId c) (cv_store (tk_shared (settle_decision w c st t))) = Some c'"
    and "ck_state c' = Approved_pending_activation"
  shows "\<exists>a. ts_decision st = Some Decide_allow \<and> ts_activation st = Some a \<and> activatable (Some a)
    \<and> contains_path (rw_cwd w) (ba_canonicalFolder a) (rc_canonicalResource (cc_requestedCapability c))
    \<and> ck_approvedCanonicalFolder c' = Some (ba_canonicalFolder a)
    \<and> ck_approvedAccessPreset c' = Some (ba_accessPreset a)"
proof -
  let ?cid = "ck_continuationId c" and ?now = "rw_now w (tk_reads t)" and ?s = "cv_store (tk_shared t)"
  have find: "find_continuation ?cid ?s = Some c"
    using assms(1-3) by (auto simp: store_ok_def find_continuation_def intro: find_key_unique)
  have find_r: "List.find (\<lambda>r. cn_continuation_id r = ?cid) ?s = Some r"
    using assms(1-3) by (auto simp: store_ok_def intro!: find_key_unique)
  have other: False if "settle_decision w c st t = snd (on_store w (transition ?cid Awaiting_approval st' ) t)"
      "st' \<noteq> Approved_pending_activation" for st'
  proof -
    have "require_checkpoint ?cid ?s = Inr c" using find by (simp add: require_checkpoint_def the_or_def)
    with assms(3,4) that(2) have
      "snd (transition ?cid Awaiting_approval st' ?now ?s) = set_row ?cid (\<lambda>r. r\<lparr>cn_state := st', cn_updated_at := ?now\<rparr>) ?s
       \<or> snd (transition ?cid Awaiting_approval st' ?now ?s) = ?s"
      by (simp add: transition_def Let_def)
    with that find_r assms(3-6) show False
      by (auto simp: on_store_def read_clock_def on_shared_def find_continuation_def find_set_row split: prod.splits)
  qed
  show ?thesis
  proof (cases rule: settle_cases[of w c st t])
    case 1
    with find assms(5) have "c' = c" by simp
    with assms(3,4,6) show ?thesis by simp
  next
    case 2
    with other show ?thesis by blast
  next
    case (3 a)
    have req: "require_checkpoint ?cid ?s = Inr c" using find by (simp add: require_checkpoint_def the_or_def)
    obtain x s' where m: "markApproved ?cid (approval_of a) ?now ?s = (x, s')" by fastforce
    have s': "cv_store (tk_shared (settle_decision w c st t)) = s'"
      using 3(5) m by (simp add: on_store_def read_clock_def on_shared_def)
    have x: "x = require_checkpoint ?cid s'"
      using m req assms(3,4) by (auto simp: markApproved_def Let_def)
    then have "x = Inr c'" using assms(5) s' by (simp add: require_checkpoint_def the_or_def)
    from markApproved_answer[OF m[unfolded this]] have
      "ck_approvedCanonicalFolder c' = keep_truthy (Some (ba_canonicalFolder a))"
      "ck_approvedAccessPreset c' = Some (ba_accessPreset a)" by (simp_all add: approval_of_def)
    moreover have "ba_canonicalFolder a \<noteq> []" using 3(3) by (auto simp: activatable_def trim_def)
    ultimately show ?thesis using 3 by (auto simp: keep_truthy_def truthy_def)
  qed
qed

text \<open>
  An event of the runtime never makes the recovery throw; a reply, or the
  failure of the turn, ends exactly one checkpoint, a resuming one of that session and message,
  and any other event changes none.
\<close>

theorem runtime_answer_settles:
  assumes "store_ok (cv_store s)" "handleRuntimeEvent handle ty inReplyTo correlationId now s = (r, s')"
  shows "r = Inr () \<and> (cv_store s' = cv_store s \<or>
    (\<exists>row \<in> set (cv_store s). truthy inReplyTo \<and> cn_state row = Resuming \<and> cc_sessionHandle row = handle
      \<and> Some (cc_messageId row) = inReplyTo \<and> ty \<in> {Reply, Turn_failed_event}
      \<and> (\<forall>row' \<in> set (cv_store s'). row' \<in> set (cv_store s) \<or> cn_continuation_id row' = cn_continuation_id row
           \<and> cn_state row' = (if ty = Reply then Completed else Resume_failed))
      \<and> cn_continuation_id row \<notin> cv_resumedThisProcess s'))"
proof (cases "ty \<notin> {Reply, Turn_failed_event} \<or> \<not> truthy inReplyTo
    \<or> findResuming handle (the inReplyTo) (keep_truthy correlationId) (cv_store s) = None")
  case True
  with assms(2) show ?thesis by (auto simp: handleRuntimeEvent_def split: if_splits)
next
  case False
  then obtain c where c: "findResuming handle (the inReplyTo) (keep_truthy correlationId) (cv_store s) = Some c"
    and ty: "ty \<in> {Reply, Turn_failed_event}" "truthy inReplyTo" by auto
  let ?rows = "sort_key (\<lambda>r. - cn_updated_at r) (filter (\<lambda>r. cn_state r = Resuming \<and> cc_sessionHandle r = handle
      \<and> cc_messageId r = the inReplyTo \<and> (keep_truthy correlationId = None \<or> Some (cc_correlationId r) = keep_truthy correlationId))
      (cv_store s))"
  from c obtain row rest where rows: "?rows = row # rest" "c = fromRow row"
    by (auto simp: findResuming_def split: list.splits)
  then have "row \<in> set ?rows" by simp
  then have row: "row \<in> set (cv_store s)" "cn_state row = Resuming" "cc_sessionHandle row = handle"
    "cc_messageId row = the inReplyTo" by simp_all
  let ?cid = "cn_continuation_id row" and ?st = "if ty = Reply then Completed else Resume_failed"
  have req: "require_checkpoint ?cid (cv_store s) = Inr (fromRow row)"
    using assms(1) row(1) by (auto simp: require_Inr store_ok_def intro!: exI[of _ row] find_key_unique)
  define f where "f = (\<lambda>r :: ContinuationRow. if ty = Reply then r\<lparr>cn_state := Completed, cn_updated_at := now\<rparr>
     else r\<lparr>cn_state := Resume_failed, cn_error_code := Some ''runtime_turn_failed'', cn_updated_at := now\<rparr>)"
  have id: "cn_continuation_id (f r) = cn_continuation_id r" "cn_state (f r) = ?st" for r by (simp_all add: f_def)
  have found: "List.find (\<lambda>r. cn_continuation_id r = ?cid) (set_row ?cid f (cv_store s)) = Some (f row)"
    using req by (simp add: find_set_row[OF id(1)] require_Inr)
      (metis assms(1) find_key_unique option.simps(9) row(1) store_ok_def)
  then have req': "require_checkpoint ?cid (set_row ?cid f (cv_store s)) = Inr (fromRow (f row))"
    by (simp add: require_Inr)
  have run: "(if ty = Reply then markCompleted ?cid now (cv_store s)
       else markResumeFailed ?cid ''runtime_turn_failed'' now (cv_store s))
     = (Inr (fromRow (f row)), set_row ?cid f (cv_store s))"
  proof (cases "ty = Reply")
    case True
    then have "f = (\<lambda>r. r\<lparr>cn_state := Completed, cn_updated_at := now\<rparr>)" by (auto simp: f_def)
    with True req row(2) req' show ?thesis by (simp add: markCompleted_def transition_def Let_def)
  next
    case False
    then have "f = (\<lambda>r. r\<lparr>cn_state := Resume_failed, cn_error_code := Some ''runtime_turn_failed'', cn_updated_at := now\<rparr>)"
      by (auto simp: f_def)
    with False req row(2) req' show ?thesis
      by (simp add: markResumeFailed_def failTransition_def Let_def trim_def js_space_def)
  qed
  have "handleRuntimeEvent handle ty inReplyTo correlationId now s
    = (Inr (), cv_store_update (\<lambda>_. set_row ?cid f (cv_store s)) (cv_resumedThisProcess_update (\<lambda>R. R - {?cid}) s))"
    using ty c rows(2) run by (cases "ty = Reply") (auto simp: handleRuntimeEvent_def Let_def)
  with assms(2) have r: "r = Inr ()"
    and s': "s' = cv_store_update (\<lambda>_. set_row ?cid f (cv_store s)) (cv_resumedThisProcess_update (\<lambda>R. R - {?cid}) s)" by simp_all
  have "\<forall>row' \<in> set (cv_store s'). row' \<in> set (cv_store s) \<or> cn_continuation_id row' = ?cid \<and> cn_state row' = ?st"
    using id by (auto simp: s' set_row_def update_where_def)
  with r s' row ty show ?thesis
    by (intro conjI disjI2 bexI[of _ row]) (auto simp: truthy_def split: option.splits)
qed

definition awaiting_row :: ContinuationRow where
  "awaiting_row = demo_row\<lparr>cn_approval_id := Some ''a1''\<rparr>"

definition demo_decision :: "RelationshipAccessPreset \<Rightarrow> ToolApprovalState" where
  "demo_decision preset = \<lparr>ts_status = ''allow'', ts_decision = Some Decide_allow, ts_scope = None,
     ts_activation = Some \<lparr>ba_grantId = ''g1'', ba_grantRevision = 1, ba_canonicalFolder = ''/w/app'', ba_accessPreset = preset,
       ba_expectedBoundaryManifestHash = ''h1''\<rparr>\<rparr>"

lemma awaiting_store_ok: "store_ok [awaiting_row]"
  by (simp add: store_ok_def row_ok_def awaiting_row_def was_approved_def was_attested_def)

lemma awaiting_row_simps [simp]:
  "cn_continuation_id awaiting_row = ''cont_1''" "cn_state awaiting_row = Awaiting_approval"
  "rc_canonicalResource (cc_requestedCapability awaiting_row) = ''/w/app/x''"
  "rc_toolName (cc_requestedCapability awaiting_row) = ''Write''"
  by (simp_all add: awaiting_row_def demo_row_def created_row_def demo_request_def)

lemma demo_settled:
  assumes "preset \<in> {Read_project, Edit_project}"
  obtains c' where "find_continuation ''cont_1'' (cv_store (tk_shared (settle_decision quiet_world (fromRow awaiting_row)
      (demo_decision preset) (start_task [awaiting_row])))) = Some c'"
    "ck_state c' = Approved_pending_activation" "ck_approvedAccessPreset c' = Some preset"
proof -
  have "contains_path ''/w'' ''/w/app'' ''/w/app/x''" by code_simp
  moreover have "activatable (ts_activation (demo_decision preset))"
    using assms by (auto simp: activatable_def demo_decision_def max_safe_integer_def trim_def js_space_def)
  ultimately show thesis
    using that by (simp add: settle_decision_def demo_decision_def quiet_world_def start_task_def on_store_def read_clock_def
        on_shared_def markApproved_def require_checkpoint_def find_continuation_def the_or_def set_row_def Let_def approval_of_def)
qed

theorem recovered_approval_witness:
  "\<exists>c' a. find_continuation ''cont_1'' (cv_store (tk_shared (settle_decision quiet_world (fromRow awaiting_row)
      (demo_decision Edit_project) (start_task [awaiting_row])))) = Some c'
     \<and> ck_approvedCanonicalFolder c' = Some (ba_canonicalFolder a) \<and> activatable (Some a)"
proof -
  obtain c' where c': "find_continuation ''cont_1'' (cv_store (tk_shared (settle_decision quiet_world (fromRow awaiting_row)
      (demo_decision Edit_project) (start_task [awaiting_row])))) = Some c'"
    "ck_state c' = Approved_pending_activation" by (rule demo_settled[of Edit_project]) simp
  from recovered_approval[of "start_task [awaiting_row]" awaiting_row, OF _ _ HOL.refl, where st = "demo_decision Edit_project" and w = quiet_world] c'
  show ?thesis by (auto simp: start_task_def awaiting_store_ok)
qed

text \<open>
  The recovery tests the folder but not the preset: a request to write is approved on a grant
  to read only, which the coordinator of the request would refuse.
\<close>

lemma recovered_read_for_write:
  "\<exists>c'. find_continuation ''cont_1'' (cv_store (tk_shared (settle_decision quiet_world (fromRow awaiting_row)
      (demo_decision Read_project) (start_task [awaiting_row])))) = Some c'
     \<and> rc_toolName (cc_requestedCapability awaiting_row) = ''Write''
     \<and> ck_state c' = Approved_pending_activation \<and> ck_approvedAccessPreset c' = Some Read_project"
  by (rule demo_settled[of Read_project]) auto

text \<open>An answer \<^verbatim>\<open>auto_allow\<close> without a decision allows the waiting request, and expires the recovered one.\<close>

lemma auto_allow_recovered_as_expired:
  "find_continuation ''cont_1'' (cv_store (tk_shared (settle_decision quiet_world (fromRow awaiting_row)
      ((demo_decision Edit_project)\<lparr>ts_status := ''auto_allow'', ts_decision := None\<rparr>) (start_task [awaiting_row]))))
     = Some (fromRow (awaiting_row\<lparr>cn_state := Approval_expired, cn_updated_at := 0\<rparr>))
   \<and> decide_approval ((demo_decision Edit_project)\<lparr>ts_status := ''auto_allow'', ts_decision := None\<rparr>) True
     = Some (Approval_allow Scope_once (ts_activation (demo_decision Edit_project)))"
  by (simp add: settle_decision_def demo_decision_def quiet_world_def start_task_def on_store_def read_clock_def on_shared_def
      markApprovalExpired_def transition_def require_checkpoint_def find_continuation_def the_or_def set_row_def Let_def
      decide_approval_def allowed_def validActivation_def max_safe_integer_def trim_def js_space_def)

definition resuming_demo :: ContinuationRow where
  "resuming_demo = approved_row\<lparr>cn_state := Resuming, cn_boundary_manifest_hash := Some ''h1''\<rparr>"

lemma resuming_demo_ok: "store_ok [resuming_demo]"
  by (simp add: store_ok_def row_ok_def resuming_demo_def approved_row_def truthy_def)

theorem runtime_answer_settles_witness:
  "\<exists>s'. handleRuntimeEvent ''native'' Reply (Some ''m1'') None 9 (tk_shared (start_task [resuming_demo])) = (Inr (), s')
     \<and> map cn_state (cv_store s') = [Completed]"
proof -
  obtain r s' where run: "handleRuntimeEvent ''native'' Reply (Some ''m1'') None 9 (tk_shared (start_task [resuming_demo])) = (r, s')"
    by fastforce
  from runtime_answer_settles[OF _ run] have "r = Inr ()" by (simp add: start_task_def resuming_demo_ok)
  moreover have "map cn_state (cv_store s') = [Completed]"
    using run by (auto simp: handleRuntimeEvent_def start_task_def findResuming_def resuming_demo_def approved_row_def demo_row_def
        created_row_def demo_request_def markCompleted_def transition_def require_checkpoint_def find_continuation_def
        the_or_def set_row_def Let_def truthy_def keep_truthy_def)
  ultimately show ?thesis using run by auto
qed

text \<open>
  A reply that completes the checkpoint while the recovery still awaits its injection: the
  successful rebuild is then reported as a rejection, and its metric is not recorded.
\<close>

lemma reply_during_resume_rejects:
  "\<exists>e t'. recover (quiet_world\<lparr>rw_other := (\<lambda>k s. if k = 2 then snd (handleRuntimeEvent ''native'' Reply (Some ''m1'') None 9 s) else s)\<rparr>)
      (start_task [approved_row]) = (Inl e, t')
    \<and> map cn_state (cv_store (tk_shared t')) = [Completed] \<and> metric_transitions (cv_telemetry (tk_shared t')) = []"
  by (simp add: recover_def recoverAwaitingDecisions_def quiet_world_def start_task_def listRecoverable_def
        recoverable_state_def recover_one_def rebuild_one_def execute_def on_store_def read_clock_def on_shared_def
        awaited_def rebuild_part_def resume_part_def markRebuilding_def transition_def require_checkpoint_def
        find_continuation_def the_or_def set_row_def markAttested_def markResuming_def isTerminal_def Let_def keep_truthy_def truthy_def
        handleRuntimeEvent_def findResuming_def approved_row_def demo_row_def created_row_def demo_request_def markCompleted_def
        markResumeFailed_def failTransition_def trim_def js_space_def new_telemetry_def)

end
