(* ===== verification/Bridge_World.thy ===== *)
theory Bridge_World
  imports Injector Supervision Relationship_Policy Recovery
begin

text \<open>
  The state of the bridge process (\<^verbatim>\<open>src/bridge/bridge.ts\<close>, class \<^verbatim>\<open>RuntimeBridge\<close>) and the
  world it runs in. A handler is a function on a \<open>bridge_task\<close>: the shared state, and the calls it
  made so far. A call to the transport or the adapter is an \<^verbatim>\<open>await\<close>: the world answers it by
  its number, and the other loops of the bridge, \<open>bw_other\<close>, may change the shared state meanwhile.
\<close>

section \<open>Errors and answers\<close>

text \<open>An \<^verbatim>\<open>ApiError\<close> with its status and code, or any other error with its text.\<close>

datatype thrown = Api_error nat string | Other_error string

fun error_text :: "thrown \<Rightarrow> string" where
  "error_text (Api_error status code) = code"
| "error_text (Other_error message) = message"

definition terminal_error :: "nat list \<Rightarrow> thrown \<Rightarrow> bool" where
  "terminal_error retryable e = (case e of
       Api_error status _ \<Rightarrow> 400 \<le> status \<and> status < 500 \<and> status \<notin> set retryable
     | Other_error _ \<Rightarrow> False)"

text \<open>
  The answers of the control plane to a delegation: sent; to be approved as a collaboration;
  or waiting for a communication grant or a folder approval of a session.
\<close>

datatype DelegationResponse =
    Resp_delegated string "string option" string string
  | Resp_collaboration_requested string "string option"
  | Resp_grant_requested string "string option" string

text \<open>\<open>Recovered\<close> with the source of the new token, \<open>Unrecovered\<close> with the reason.\<close>

datatype AuthenticationRecovery = Recovered string | Unrecovered string

record LocalDelegation =
  ld_target :: RequestTarget
  ld_task :: Task
  ld_context :: "json option"
  ld_sessionHandle :: string
  ld_clientMessageId :: string
  ld_correlationId :: "string option"
  ld_requestedTtlMinutes :: "int option"

record McpAcknowledgement =
  ma_policyIds :: "string list"
  ma_revision :: int

datatype bridge_call =
    Ack_device string
  | Release_session string
  | Prepare_session string string
  | Delegate_task LocalDelegation
  | Attest_boundary string string int string RelationshipAccessPreset
  | Ack_trusted string int string "string option"
  | Recover_continuations
  | Invalidate_sessions string string
  | Ack_mcp McpAcknowledgement
  | Report_uses string int "TrustedToolPolicyUse list"
  | Before_egress string string string
  | Send_reply OutboundReply
  | Send_heartbeat
  | Recover_authentication
  | Set_default_route string
  | Update_session string SessionState bool
  | Register_session string SessionState bool

section \<open>The process\<close>

record bridge =
  br_spool :: spool
  br_recovery :: recovery
  br_serverToNative :: "string \<rightharpoonup> string"
  br_pendingDefaultRoute :: "string option"
  br_publishedDefaultRoute :: "string option"
  br_mcpAcks :: "(string \<times> McpAcknowledgement) list"
  br_policyFile :: stored
  br_trustedFile :: stored
  br_watchdog :: HeartbeatWatchdog
  br_budget :: AuthenticationFailureBudget
  br_aborted :: bool

text \<open>\<open>bo_parse\<close> is \<^verbatim>\<open>JSON.parse\<close>, \<open>bo_iso\<close> the normalised text of \<^verbatim>\<open>new Date(text)\<close>, if it is valid.\<close>

record bridge_options =
  bo_endpointId :: string
  bo_bridgeInstanceId :: string
  bo_runtime :: string
  bo_relationshipPolicyFile :: "string option"
  bo_trustedToolPolicyFile :: "string option"
  bo_ownerPrincipalId :: "string option"
  bo_ownerDeviceId :: "string option"
  bo_env :: policy_env
  bo_parse :: "string \<Rightarrow> json option"
  bo_iso :: "string \<Rightarrow> string option"

record bridge_world =
  bw_fails :: "nat \<Rightarrow> thrown option"
  bw_delegation :: "nat \<Rightarrow> DelegationResponse"
  bw_attested :: "nat \<Rightarrow> string option"
  bw_accepted :: "nat \<Rightarrow> int"
  bw_authentication :: "nat \<Rightarrow> AuthenticationRecovery"
  bw_registered :: "nat \<Rightarrow> string"
  bw_recovery :: "nat \<Rightarrow> recovery_world"
  bw_reformatted :: "nat \<Rightarrow> bool"
  bw_other :: "nat \<Rightarrow> bridge \<Rightarrow> bridge"
  bw_now :: "nat \<Rightarrow> time"
  bw_iso_now :: "nat \<Rightarrow> string"
  bw_fresh :: "nat \<Rightarrow> string"

record bridge_task =
  bk_state :: bridge
  bk_awaits :: nat
  bk_reads :: nat
  bk_calls :: "bridge_call list"

text \<open>A call: whether it was rejected, and the task afterwards.\<close>

definition invoke :: "bridge_world \<Rightarrow> bridge_call \<Rightarrow> bridge_task \<Rightarrow> thrown option \<times> bridge_task" where
  "invoke w c t = (bw_fails w (bk_awaits t),
     t\<lparr>bk_state := bw_other w (bk_awaits t) (bk_state t), bk_awaits := Suc (bk_awaits t), bk_calls := bk_calls t @ [c]\<rparr>)"

definition on_bridge :: "(bridge \<Rightarrow> bridge) \<Rightarrow> bridge_task \<Rightarrow> bridge_task" where
  "on_bridge f t = t\<lparr>bk_state := f (bk_state t)\<rparr>"

abbreviation spool_of :: "bridge_task \<Rightarrow> spool" where
  "spool_of t \<equiv> br_spool (bk_state t)"

definition to_spool :: "(spool \<Rightarrow> spool) \<Rightarrow> bridge_task \<Rightarrow> bridge_task" where
  "to_spool f = on_bridge (br_spool_update f)"

text \<open>An access of the clock or of the random source; the next one is another.\<close>

definition read_time :: "(nat \<Rightarrow> 'a) \<Rightarrow> bridge_task \<Rightarrow> 'a \<times> bridge_task" where
  "read_time clock t = (clock (bk_reads t), t\<lparr>bk_reads := Suc (bk_reads t)\<rparr>)"

text \<open>Steps one after the other, and steps until one throws.\<close>

fun throwing :: "('a \<Rightarrow> bridge_task \<Rightarrow> thrown option \<times> bridge_task) \<Rightarrow> 'a list \<Rightarrow> bridge_task \<Rightarrow> thrown option \<times> bridge_task" where
  "throwing f [] t = (None, t)"
| "throwing f (x # xs) t = (case f x t of (Some e, t) \<Rightarrow> (Some e, t) | (None, t) \<Rightarrow> throwing f xs t)"

lemma invoke_simps [simp]:
  "fst (invoke w c t) = bw_fails w (bk_awaits t)"
  "bk_state (snd (invoke w c t)) = bw_other w (bk_awaits t) (bk_state t)"
  "bk_calls (snd (invoke w c t)) = bk_calls t @ [c]"
  "bk_awaits (snd (invoke w c t)) = Suc (bk_awaits t)"
  "bk_reads (snd (invoke w c t)) = bk_reads t"
  by (simp_all add: invoke_def)

lemma on_bridge_simps [simp]:
  "bk_state (on_bridge f t) = f (bk_state t)" "bk_calls (on_bridge f t) = bk_calls t"
  "bk_awaits (on_bridge f t) = bk_awaits t" "bk_reads (on_bridge f t) = bk_reads t"
  by (simp_all add: on_bridge_def)

lemma to_spool_simps [simp]:
  "bk_state (to_spool f t) = br_spool_update f (bk_state t)" "bk_calls (to_spool f t) = bk_calls t"
  "bk_awaits (to_spool f t) = bk_awaits t" "bk_reads (to_spool f t) = bk_reads t"
  by (simp_all add: to_spool_def)

lemma read_time_simps [simp]:
  "fst (read_time clock t) = clock (bk_reads t)"
  "bk_state (snd (read_time clock t)) = bk_state t" "bk_calls (snd (read_time clock t)) = bk_calls t"
  "bk_awaits (snd (read_time clock t)) = bk_awaits t" "bk_reads (snd (read_time clock t)) = Suc (bk_reads t)"
  by (simp_all add: read_time_def)

section \<open>Members of event data\<close>

definition member :: "(string \<times> json) list \<Rightarrow> string \<Rightarrow> json option" where
  "member data key = map_of data key"

definition stringField :: "(string \<times> json) list \<Rightarrow> string \<Rightarrow> string option" where
  "stringField data key = (case member data key of
       Some (JStr v) \<Rightarrow> if trim v = [] then None else Some (trim v)
     | _ \<Rightarrow> None)"

definition numberField :: "(string \<times> json) list \<Rightarrow> string \<Rightarrow> int option" where
  "numberField data key = (case member data key of
       Some (JNum n) \<Rightarrow> if \<bar>n\<bar> \<le> max_safe_integer \<and> 0 \<le> n then Some n else None
     | _ \<Rightarrow> None)"

definition recordField :: "(string \<times> json) list \<Rightarrow> string \<Rightarrow> (string \<times> json) list option" where
  "recordField data key = (case member data key of Some (JObj kvs) \<Rightarrow> Some kvs | _ \<Rightarrow> None)"

text \<open>\<^verbatim>\<open>String(value)\<close>, and \<^verbatim>\<open>String(data.key ?? "")\<close> of a member.\<close>

fun js_string :: "json \<Rightarrow> string" where
  "js_string JNull = ''null''"
| "js_string (JBool b) = (if b then ''true'' else ''false'')"
| "js_string (JNum n) = dec_int n"
| "js_string (JStr s) = s"
| "js_string (JArr xs) = join '','' (map (\<lambda>x. if x = JNull then [] else js_string x) xs)"
| "js_string (JObj kvs) = ''[object Object]''"

definition string_member :: "(string \<times> json) list \<Rightarrow> string \<Rightarrow> string" where
  "string_member data key = (case member data key of None \<Rightarrow> [] | Some JNull \<Rightarrow> [] | Some v \<Rightarrow> js_string v)"

definition text_member :: "(string \<times> json) list \<Rightarrow> string \<Rightarrow> string option" where
  "text_member data key = (case member data key of Some (JStr v) \<Rightarrow> Some v | _ \<Rightarrow> None)"

lemma stringField_clean: "stringField data key = Some v \<Longrightarrow> v \<noteq> []"
  by (auto simp: stringField_def split: option.splits json.splits if_splits)

end
