(* ===== verification/Bridge_Delegations.thy ===== *)
theory Bridge_Delegations
  imports Bridge_World
begin

text \<open>
  Delegations of the bridge (\<^verbatim>\<open>src/bridge/bridge.ts\<close>): a task delegated to another agent is
  recorded in the spool with the answer of the control plane, and one that waits for a grant is
  sent again until it is delegated, fails or expires.
\<close>

section \<open>Recording an answer\<close>

record DelegationRecord =
  dr_target :: RequestTarget
  dr_task :: Task
  dr_context :: "json option"
  dr_sessionHandle :: string
  dr_expiresAt :: time
  dr_requestedTtlMinutes :: "int option"

definition keep_ttl :: "int option \<Rightarrow> int option" where
  "keep_ttl ttl = (if ttl = Some 0 then None else ttl)"

definition stored_delegation ::
    "DelegationRecord \<Rightarrow> string \<Rightarrow> string option \<Rightarrow> string option \<Rightarrow> string option \<Rightarrow> PendingDelegationStatus \<Rightarrow> StoreDelegation" where
  "stored_delegation i clientMessageId correlationId sid messageId st =
     \<lparr>sd_clientMessageId = clientMessageId, sd_target = dr_target i, sd_task = dr_task i, sd_context = dr_context i,
      sd_sessionHandle = dr_sessionHandle i, sd_correlationId = keep_truthy correlationId,
      sd_requestedTtlMinutes = keep_ttl (dr_requestedTtlMinutes i), sd_communicationSessionId = sid,
      sd_messageId = messageId, sd_status = st, sd_expiresAt = dr_expiresAt i\<rparr>"

definition recordDelegationResult ::
    "bridge_world \<Rightarrow> DelegationResponse \<Rightarrow> DelegationRecord \<Rightarrow> bridge_task \<Rightarrow> bridge_task" where
  "recordDelegationResult w result i t =
     (let (now, t) = read_time (bw_now w) t
      in case result of
           Resp_delegated cid correlationId sid messageId \<Rightarrow>
             (let t = to_spool (storePendingDelegation
                        (stored_delegation i cid correlationId (Some sid) (Some messageId) Pd_delegated) now) t;
                  (now, t) = read_time (bw_now w) t
              in to_spool (markDelegationDelegated cid messageId sid now) t)
         | Resp_collaboration_requested cid correlationId \<Rightarrow>
             to_spool (storePendingDelegation (stored_delegation i cid correlationId None None Pd_grant_requested) now) t
         | Resp_grant_requested cid correlationId sid \<Rightarrow>
             to_spool (storePendingDelegation (stored_delegation i cid correlationId (Some sid) None Pd_grant_requested) now) t)"

section \<open>Requests and retries\<close>

record RuntimeDelegation = LocalDelegation +
  rd_timeoutMs :: "int option"

definition requestRuntimeDelegation ::
    "bridge_world \<Rightarrow> RuntimeDelegation \<Rightarrow> bridge_task \<Rightarrow> (thrown + DelegationResponse) \<times> bridge_task" where
  "requestRuntimeDelegation w i t =
     (let (now, t) = read_time (bw_now w) t; expiresAt = now + or_else (rd_timeoutMs i) (30 * 60000);
          result = bw_delegation w (bk_awaits t);
          (failed, t) = invoke w (Delegate_task
            \<lparr>ld_target = ld_target i, ld_task = ld_task i, ld_context = ld_context i,
             ld_sessionHandle = ld_sessionHandle i, ld_clientMessageId = ld_clientMessageId i,
             ld_correlationId = keep_truthy (ld_correlationId i),
             ld_requestedTtlMinutes = keep_ttl (ld_requestedTtlMinutes i)\<rparr>) t
      in case failed of
           Some e \<Rightarrow> (Inl e, t)
         | None \<Rightarrow> (Inr result, recordDelegationResult w result
             \<lparr>dr_target = ld_target i, dr_task = ld_task i, dr_context = ld_context i,
              dr_sessionHandle = ld_sessionHandle i, dr_expiresAt = expiresAt,
              dr_requestedTtlMinutes = ld_requestedTtlMinutes i\<rparr> t))"

definition delegation_of :: "PendingDelegation \<Rightarrow> LocalDelegation" where
  "delegation_of p = \<lparr>ld_target = pd_target p, ld_task = pd_task p, ld_context = pd_context p,
     ld_sessionHandle = pd_sessionHandle p, ld_clientMessageId = pd_clientMessageId p,
     ld_correlationId = pd_correlationId p, ld_requestedTtlMinutes = pd_requestedTtlMinutes p\<rparr>"

definition record_of :: "PendingDelegation \<Rightarrow> DelegationRecord" where
  "record_of p = \<lparr>dr_target = pd_target p, dr_task = pd_task p, dr_context = pd_context p,
     dr_sessionHandle = pd_sessionHandle p, dr_expiresAt = pd_expiresAt p,
     dr_requestedTtlMinutes = pd_requestedTtlMinutes p\<rparr>"

definition delegation_failed :: "bridge_world \<Rightarrow> PendingDelegation \<Rightarrow> bool \<Rightarrow> string \<Rightarrow> bridge_task \<Rightarrow> bridge_task" where
  "delegation_failed w p final message t =
     (let (now, t) = read_time (bw_now w) t
      in if final \<and> pd_communicationSessionId p \<noteq> None
         then to_spool (markDelegationsFailed (the (pd_communicationSessionId p)) message now) t
         else to_spool (markDelegationAttempt (pd_clientMessageId p) (Some message) now) t)"

definition retry_delegation :: "bridge_world \<Rightarrow> PendingDelegation \<Rightarrow> bridge_task \<Rightarrow> bridge_task" where
  "retry_delegation w p t =
     (let (now, t) = read_time (bw_now w) t
      in if pd_expiresAt p \<le> now then delegation_failed w p True ''delegation_timeout'' t
         else (let result = bw_delegation w (bk_awaits t); (failed, t) = invoke w (Delegate_task (delegation_of p)) t
               in case failed of
                    None \<Rightarrow> recordDelegationResult w result (record_of p) t
                  | Some e \<Rightarrow> delegation_failed w p (terminal_error [408, 409, 429] e) (error_text e) t))"

definition retryPendingDelegations :: "bridge_world \<Rightarrow> string option \<Rightarrow> bridge_task \<Rightarrow> bridge_task" where
  "retryPendingDelegations w sid t = fold (retry_delegation w) (listPendingDelegations sid (spool_of t)) t"

end
