(* ===== verification/Bridge_Policies.thy ===== *)
theory Bridge_Policies
  imports Bridge_World
begin

text \<open>
  Policies that reach the bridge as events (\<^verbatim>\<open>src/bridge/bridge.ts\<close>): trusted tool policies
  that are granted or revoked, relationship policies, the acknowledgements of both, and the
  reports of uses. A handler that throws logs and leaves it at that.
\<close>

section \<open>Trusted tool policies\<close>

record TrustedUpdate =
  tr_file :: string
  tr_policyId :: string
  tr_ownerPrincipalId :: string
  tr_ownerDeviceId :: string
  tr_requesterPrincipalId :: string
  tr_requesterDeviceId :: string
  tr_folder :: string
  tr_accessPreset :: RelationshipAccessPreset
  tr_scope :: TrustedToolPolicyScope
  tr_createdFrom :: PolicyOrigin
  tr_createdBy :: string
  tr_createdAt :: "string option"
  tr_bridgeInstanceId :: "string option"
  tr_revision :: int

text \<open>The members of the event; \<open>None\<close> when the update is ignored.\<close>

definition trusted_update :: "bridge_options \<Rightarrow> (string \<times> json) list \<Rightarrow> TrustedUpdate option" where
  "trusted_update O' data = do {
     f \<leftarrow> bo_trustedToolPolicyFile O';
     pid \<leftarrow> stringField data ''policyId'';
     op \<leftarrow> stringField data ''ownerPrincipalId'';
     od \<leftarrow> stringField data ''ownerDeviceId'';
     rp \<leftarrow> stringField data ''requesterPrincipalId'';
     rd \<leftarrow> stringField data ''requesterDeviceId'';
     folder \<leftarrow> stringField data ''canonicalFolder'';
     preset \<leftarrow> Option.bind (stringField data ''accessPreset'')
       (\<lambda>v. if isFileAccessPreset v then map_of RELATIONSHIP_ACCESS_PRESETS v else None);
     revision \<leftarrow> numberField data ''revision'';
     origin \<leftarrow> Option.bind (stringField data ''createdFrom'')
       (\<lambda>v. if v = ''settings'' then Some From_settings else if v = ''approval_prompt'' then Some From_approval_prompt else None);
     by' \<leftarrow> stringField data ''createdBy'';
     scope \<leftarrow> Option.bind (stringField data ''scope'') (map_of scope_table);
     if f = [] \<or> Some op \<noteq> bo_ownerPrincipalId O' \<or> Some od \<noteq> bo_ownerDeviceId O'
        \<or> (scope = Bridge_run \<and> stringField data ''bridgeInstanceId'' \<noteq> Some (bo_bridgeInstanceId O')) then None
     else Some \<lparr>tr_file = f, tr_policyId = pid, tr_ownerPrincipalId = op, tr_ownerDeviceId = od,
       tr_requesterPrincipalId = rp, tr_requesterDeviceId = rd, tr_folder = folder, tr_accessPreset = preset,
       tr_scope = scope, tr_createdFrom = origin, tr_createdBy = by', tr_createdAt = stringField data ''createdAt'',
       tr_bridgeInstanceId = stringField data ''bridgeInstanceId'', tr_revision = revision\<rparr>
   }"

text \<open>
  A time that is no date throws when the new policy is written, and only then: an update that
  finds its grant in the file does not read it.
\<close>

definition upsert_trusted ::
    "bridge_options \<Rightarrow> string \<Rightarrow> string \<Rightarrow> TrustedUpdate \<Rightarrow> stored \<Rightarrow> (string + TrustedToolPolicy) \<times> stored" where
  "upsert_trusted O' now fresh i file =
     (let createdAt = Option.bind (tr_createdAt i) (bo_iso O');
          (r, file') = upsertTrustedToolPolicy (pe_datetime (bo_env O')) (pe_fs (bo_env O')) now fresh
            \<lparr>ui_policyId = Some (tr_policyId i), ui_ownerPrincipalId = tr_ownerPrincipalId i,
             ui_ownerDeviceId = tr_ownerDeviceId i, ui_requesterPrincipalId = tr_requesterPrincipalId i,
             ui_requesterDeviceId = tr_requesterDeviceId i, ui_folder = tr_folder i,
             ui_accessPreset = tr_accessPreset i, ui_scope = tr_scope i,
             ui_bridgeInstanceId = (if tr_scope i = Bridge_run then tr_bridgeInstanceId i else None),
             ui_createdFrom = tr_createdFrom i, ui_createdBy = tr_createdBy i, ui_createdAt = createdAt,
             ui_serverRevision = Some (tr_revision i)\<rparr> file
      in if tr_createdAt i \<noteq> None \<and> createdAt = None \<and> file' \<noteq> file then (Inl ''Invalid time value'', file)
         else (r, file'))"

definition recover_continuations :: "bridge_world \<Rightarrow> bridge_task \<Rightarrow> thrown option \<times> bridge_task" where
  "recover_continuations w t =
     (let n = bk_awaits t;
          (r, k) = recover (bw_recovery w n) \<lparr>tk_shared = br_recovery (bk_state t), tk_awaits = 0, tk_reads = 0, tk_calls = []\<rparr>;
          (_, t) = invoke w Recover_continuations (on_bridge (br_recovery_update (\<lambda>_. tk_shared k)) t)
      in (case r of Inl e \<Rightarrow> Some (Other_error e) | Inr _ \<Rightarrow> None, t))"

definition attest_and_acknowledge ::
    "bridge_world \<Rightarrow> TrustedUpdate \<Rightarrow> TrustedToolPolicy \<Rightarrow> string option \<Rightarrow> bridge_task \<Rightarrow> thrown option \<times> bridge_task" where
  "attest_and_acknowledge w i policy continuationId t =
     (let n = bk_awaits t;
          (failed, t) = (case continuationId of
              None \<Rightarrow> (None, t)
            | Some cid \<Rightarrow> invoke w (Attest_boundary cid (tr_policyId i) (tr_revision i) (tp_canonicalFolder policy) (tr_accessPreset i)) t);
          hash = (case continuationId of None \<Rightarrow> None | Some _ \<Rightarrow> bw_attested w n)
      in case failed of
           Some e \<Rightarrow> (Some e, t)
         | None \<Rightarrow>
             if continuationId \<noteq> None \<and> \<not> truthy hash
             then (Some (Other_error ''approved boundary could not be attested for its paused continuation''), t)
             else (let (failed, t) = invoke w (Ack_trusted (tr_policyId i) (tr_revision i) (tp_canonicalFolder policy) hash) t
                   in case failed of Some e \<Rightarrow> (Some e, t) | None \<Rightarrow> recover_continuations w t))"

definition applyTrustedToolPolicyUpdate ::
    "bridge_options \<Rightarrow> bridge_world \<Rightarrow> (string \<times> json) list \<Rightarrow> bridge_task \<Rightarrow> bridge_task" where
  "applyTrustedToolPolicyUpdate O' w data t =
     (case trusted_update O' data of
        None \<Rightarrow> t
      | Some i \<Rightarrow>
          (let (now, t) = read_time (bw_iso_now w) t; (fresh, t) = read_time (bw_fresh w) t;
               (r, file) = upsert_trusted O' now fresh i (br_trustedFile (bk_state t));
               t = on_bridge (br_trustedFile_update (\<lambda>_. file)) t
           in case r of
                Inl e \<Rightarrow> t
              | Inr policy \<Rightarrow> snd (attest_and_acknowledge w i policy
                  (Option.bind (recordField data ''boundaryExpansion'') (\<lambda>x. stringField x ''continuationId'')) t)))"

definition applyTrustedToolPolicyRevocation ::
    "bridge_options \<Rightarrow> bridge_world \<Rightarrow> (string \<times> json) list \<Rightarrow> bridge_task \<Rightarrow> bridge_task" where
  "applyTrustedToolPolicyRevocation O' w data t =
     (let revokedBy = (case stringField data ''revokedBy'' of Some v \<Rightarrow> Some v | None \<Rightarrow> bo_ownerPrincipalId O')
      in case (stringField data ''policyId'', numberField data ''revision'') of
           (Some policyId, Some revision) \<Rightarrow>
             if \<not> truthy (bo_trustedToolPolicyFile O') \<or> \<not> truthy revokedBy then t
             else (let (now, t) = read_time (bw_iso_now w) t
                   in on_bridge (br_trustedFile_update (\<lambda>file. snd (revokeTrustedToolPolicy (pe_datetime (bo_env O')) now
                        policyId (the revokedBy) (Some revision) file))) t)
         | _ \<Rightarrow> t)"

section \<open>Relationship policies\<close>

definition accepted_acks :: "bridge_world \<Rightarrow> bridge_task \<Rightarrow> string \<Rightarrow> McpAcknowledgement \<Rightarrow> bridge_task" where
  "accepted_acks w t key ack =
     (let (failed, t) = invoke w (Ack_mcp ack) t
      in if failed = None then on_bridge (br_mcpAcks_update (filter (\<lambda>(k, _). k \<noteq> key))) t else t)"

definition flushRelationshipMcpAcknowledgements :: "bridge_world \<Rightarrow> bridge_task \<Rightarrow> bridge_task" where
  "flushRelationshipMcpAcknowledgements w t =
     fold (\<lambda>(key, ack) t. accepted_acks w t key ack) (br_mcpAcks (bk_state t)) t"

text \<open>\<^verbatim>\<open>Map.set\<close>: a key keeps its place.\<close>

definition pending_ack :: "string \<Rightarrow> McpAcknowledgement \<Rightarrow> (string \<times> McpAcknowledgement) list \<Rightarrow> (string \<times> McpAcknowledgement) list" where
  "pending_ack key ack = upsert fst (\<lambda>_. (key, ack)) (key, ack)"

definition string_list :: "json option \<Rightarrow> string list option" where
  "string_list v = (case v of
       Some (JArr xs) \<Rightarrow> if list_all (\<lambda>x. case x of JStr s \<Rightarrow> trim s \<noteq> [] | _ \<Rightarrow> False) xs
         then Some (map (\<lambda>x. case x of JStr s \<Rightarrow> trim s | _ \<Rightarrow> []) xs) else None
     | _ \<Rightarrow> None)"

record RelationshipUpdate =
  rl_principalId :: string
  rl_deviceId :: string
  rl_preset :: "RelationshipAccessPreset option"
  rl_folder :: "string option"
  rl_tools :: "string list option"
  rl_mcpServers :: "json option"
  rl_mcpPolicyIds :: "string list option"
  rl_revision :: "int option"

definition either_field :: "(string \<times> json) list \<Rightarrow> string \<Rightarrow> string \<Rightarrow> string option" where
  "either_field data a b = (case stringField data a of Some v \<Rightarrow> Some v | None \<Rightarrow> stringField data b)"

definition relationship_update :: "bridge_options \<Rightarrow> (string \<times> json) list \<Rightarrow> RelationshipUpdate option" where
  "relationship_update O' data =
     (let preset = either_field data ''access'' ''preset'';
          instance' = stringField data ''bridgeInstanceId'';
          mcpPolicyIds = Option.bind (string_list (member data ''mcpPolicyIds''))
            (\<lambda>ids. if length ids \<le> 16 then Some ids else None);
          hasPolicyIds = (member data ''mcpPolicyIds'' \<noteq> None);
          tools = string_list (member data ''tools'');
          hasTools = (member data ''tools'' \<noteq> None);
          revision = numberField data ''revision'';
          valid = (case preset of None \<Rightarrow> False | Some v \<Rightarrow> isRelationshipAccessPreset v)
      in if instance' \<noteq> None \<and> instance' \<noteq> Some (bo_bridgeInstanceId O') then None
         else case (either_field data ''requesterPrincipalId'' ''principalId'', either_field data ''requesterDeviceId'' ''deviceId'') of
           (Some p, Some d) \<Rightarrow>
             if hasPolicyIds \<and> mcpPolicyIds = None \<or> hasPolicyIds \<and> revision = None \<or> hasTools \<and> tools = None
                \<or> preset \<noteq> None \<and> \<not> valid \<or> \<not> hasTools \<and> member data ''mcpServers'' = None \<and> \<not> valid then None
             else Some \<lparr>rl_principalId = p, rl_deviceId = d,
               rl_preset = Option.bind preset (map_of RELATIONSHIP_ACCESS_PRESETS),
               rl_folder = either_field data ''folderPath'' ''folder'', rl_tools = tools,
               rl_mcpServers = member data ''mcpServers'', rl_mcpPolicyIds = mcpPolicyIds, rl_revision = revision\<rparr>
         | _ \<Rightarrow> None)"

definition write_tools ::
    "bridge_options \<Rightarrow> string \<Rightarrow> RelationshipUpdate \<Rightarrow> stored \<Rightarrow> (string + unit) \<times> stored" where
  "write_tools O' file i content =
     (case rl_tools i of
        Some tools \<Rightarrow> map_prod (map_sum id (\<lambda>_. ())) id (upsertRelationshipPolicy (bo_env O')
          \<lparr>ur_file = file, ur_principalId = rl_principalId i, ur_deviceId = rl_deviceId i, ur_tools = tools,
           ur_folders = (case rl_folder i of None \<Rightarrow> [] | Some f \<Rightarrow> [f]), ur_mcpServers = None\<rparr> content)
      | None \<Rightarrow>
         (case rl_preset i of
            Some preset \<Rightarrow> map_prod (map_sum id (\<lambda>_. ())) id (upsertRelationshipPreset (bo_env O') file
              (rl_principalId i) (rl_deviceId i) preset (rl_folder i) content)
          | None \<Rightarrow> (Inr (), content)))"

definition write_grants ::
    "bridge_options \<Rightarrow> string \<Rightarrow> RelationshipUpdate \<Rightarrow> RemoteMcpGrant list option \<Rightarrow> stored \<Rightarrow> (string + unit) \<times> stored" where
  "write_grants O' file i grants content =
     (case grants of
        None \<Rightarrow> (Inr (), content)
      | Some gs \<Rightarrow> map_prod (map_sum id (\<lambda>_. ())) id (setRelationshipMcpGrants (bo_env O') file
          (rl_principalId i) (rl_deviceId i) (grants_json gs) content))"

text \<open>
  The writes of an update: every part is parsed before the first one. Beside the result, whether
  the text of the file changed: its content did, or it was laid out differently before.
\<close>

definition write_update ::
    "bridge_options \<Rightarrow> string \<Rightarrow> RelationshipUpdate \<Rightarrow> stored \<Rightarrow> (string + bool) \<times> stored" where
  "write_update O' file i content =
     (let grants = (case rl_mcpServers i of None \<Rightarrow> Some None
            | Some j \<Rightarrow> map_option Some (parseRemoteMcpGrants (pe_url (bo_env O')) (pe_le (bo_env O')) j))
      in case grants of
           None \<Rightarrow> (Inl ''Invalid MCP grants'', content)
         | Some grants \<Rightarrow>
            (case write_tools O' file i content of
               (Inl e, content') \<Rightarrow> (Inl e, content')
             | (Inr _, content') \<Rightarrow>
                (case write_grants O' file i grants content' of
                   (Inl e, content'') \<Rightarrow> (Inl e, content'')
                 | (Inr _, content'') \<Rightarrow> (Inr (content'' \<noteq> content), content''))))"

definition ack_key :: "McpAcknowledgement \<Rightarrow> string" where
  "ack_key a = dec_int (ma_revision a) @ '':'' @ join '','' (ma_policyIds a)"

definition applyRelationshipPolicyUpdate ::
    "bridge_options \<Rightarrow> bridge_world \<Rightarrow> (string \<times> json) list \<Rightarrow> bridge_task \<Rightarrow> bridge_task" where
  "applyRelationshipPolicyUpdate O' w data t =
     (case (keep_truthy (bo_relationshipPolicyFile O'), relationship_update O' data) of
        (Some file, Some i) \<Rightarrow>
          (let (r, content) = write_update O' file i (br_policyFile (bk_state t));
               (reformatted, t) = read_time (bw_reformatted w) t;
               t = on_bridge (br_policyFile_update (\<lambda>_. content)) t
           in case r of
                Inl e \<Rightarrow> t
              | Inr changed \<Rightarrow>
                 (let (failed, t) = (if changed \<or> reformatted
                        then invoke w (Invalidate_sessions (rl_principalId i) (rl_deviceId i)) t else (None, t))
                  in case failed of
                       Some e \<Rightarrow> t
                     | None \<Rightarrow>
                        (case (rl_mcpServers i, rl_mcpPolicyIds i, rl_revision i) of
                           (Some _, Some policyIds, Some revision) \<Rightarrow>
                             if policyIds = [] then t
                             else (let ack = \<lparr>ma_policyIds = policyIds, ma_revision = revision\<rparr>
                                   in flushRelationshipMcpAcknowledgements w
                                        (on_bridge (br_mcpAcks_update (pending_ack (ack_key ack) ack)) t))
                         | _ \<Rightarrow> t)))
      | _ \<Rightarrow> t)"

section \<open>Reports of uses\<close>

definition policy_not_found :: "thrown \<Rightarrow> bool" where
  "policy_not_found e = (e = Api_error 404 ''policy_not_found'')"

definition report_one ::
    "bridge_options \<Rightarrow> bridge_world \<Rightarrow> TrustedToolPolicy \<times> int \<times> TrustedToolPolicyUse list \<Rightarrow> bridge_task
       \<Rightarrow> thrown option \<times> bridge_task" where
  "report_one O' w pending t =
     (let (policy, serverRevision, uses) = pending; n = bk_awaits t;
          (failed, t) = invoke w (Report_uses (tp_policyId policy) serverRevision uses) t;
          datetime = pe_datetime (bo_env O');
          settle = (\<lambda>f. let (r, file) = f (br_trustedFile (bk_state t))
             in (case r of Inl e \<Rightarrow> Some (Other_error e) | Inr _ \<Rightarrow> None, on_bridge (br_trustedFile_update (\<lambda>_. file)) t))
      in case failed of
           None \<Rightarrow> settle (markTrustedToolPolicyUsesReported datetime (tp_policyId policy) (bw_accepted w n))
         | Some e \<Rightarrow> if policy_not_found e
             then settle (invalidateTrustedToolPolicy datetime (tp_policyId policy) ''Hosted policy no longer exists'')
             else (Some e, t))"

definition flushTrustedToolUsageReports :: "bridge_options \<Rightarrow> bridge_world \<Rightarrow> bridge_task \<Rightarrow> bridge_task" where
  "flushTrustedToolUsageReports O' w t =
     (if \<not> truthy (bo_trustedToolPolicyFile O') \<or> \<not> truthy (bo_ownerPrincipalId O') \<or> \<not> truthy (bo_ownerDeviceId O') then t
      else case pendingTrustedToolPolicyUses (pe_datetime (bo_env O')) (the (bo_ownerPrincipalId O'))
                  (the (bo_ownerDeviceId O')) 100 (br_trustedFile (bk_state t)) of
             Inl e \<Rightarrow> t
           | Inr pending \<Rightarrow> snd (throwing (report_one O' w) pending t))"

end
