(* ===== verification/Bridge_Events.thy ===== *)
theory Bridge_Events
  imports Bridge_Delegations Bridge_Policies
begin

text \<open>
  The event stream of the bridge (\<^verbatim>\<open>src/bridge/bridge.ts\<close>): \<open>handleEvent\<close> and its branches, one
  connection of the stream, and what the loop does when it ends or fails.
\<close>

section \<open>One event\<close>

definition data_of :: "RuntimeEvent \<Rightarrow> (string \<times> json) list" where
  "data_of ev = (case rv_data ev of Object_data kvs \<Rightarrow> kvs | Dispatch_data _ _ \<Rightarrow> [])"

definition eligible_task :: "bridge \<Rightarrow> bool \<Rightarrow> SpoolMessage \<Rightarrow> time \<Rightarrow> telemetry \<Rightarrow> telemetry" where
  "eligible_task b inserted m now =
     (if inserted \<and> me_kind (sm_envelope m) = Task_invite
      then recordEligibleTask (sm_messageId m) (or_else (br_serverToNative b (sm_sessionHandle m)) (sm_sessionHandle m))
             (or_else (me_correlationId (sm_envelope m)) (sm_messageId m)) now
      else id)"

definition dispatch_event :: "bridge_options \<Rightarrow> bridge_world \<Rightarrow> RuntimeEvent \<Rightarrow> bridge_task \<Rightarrow> thrown option \<times> bridge_task" where
  "dispatch_event O' w ev t =
     (let envelope = (case rv_data ev of Dispatch_data e _ \<Rightarrow> e | Object_data _ \<Rightarrow> None)
      in if Option.bind envelope (\<lambda>e. mt_endpointId (me_target e)) \<noteq> Some (bo_endpointId O')
         then (Some (Other_error ''Received an event for a different endpoint''), t)
         else
      (case storeDispatch ev (spool_of t) of
         (None, s) \<Rightarrow> (Some (Other_error ''Invalid message.dispatch event''), to_spool (\<lambda>_. s) t)
       | (Some (inserted, m), s) \<Rightarrow>
           (let t = to_spool (\<lambda>_. s) t; (now, t) = read_time (bw_now w) t;
                t = on_bridge (\<lambda>b. br_recovery_update (cv_telemetry_update (eligible_task b inserted m now)) b) t;
                (now, t) = read_time (bw_now w) t
            in if me_expiresAt (sm_envelope m) \<le> now then (None, t)
               else (let (failed, t) = invoke w (Ack_device (sm_messageId m)) t
                     in (None, if failed = None then to_spool (markDeviceAcked (sm_messageId m)) t else t)))))"

definition prefer_route :: "(string \<times> json) list \<Rightarrow> bridge \<Rightarrow> bridge" where
  "prefer_route data b =
     (case keep_truthy (text_member data ''sessionHandle'') of
        Some h \<Rightarrow> if br_serverToNative b h \<noteq> None then b\<lparr>br_pendingDefaultRoute := Some h\<rparr> else b
      | None \<Rightarrow> b)"

definition ended_event ::
    "bridge_world \<Rightarrow> string \<Rightarrow> string \<Rightarrow> (string \<times> json) list \<Rightarrow> bridge_task \<Rightarrow> thrown option \<times> bridge_task" where
  "ended_event w reason status data t =
     (let sid = string_member data ''communicationSessionId''
      in if sid = [] then (None, t)
         else (case invoke w (Release_session sid) (to_spool (blockCommunicationSession sid reason status) t) of
                 (Some e, t) \<Rightarrow> (Some e, t)
               | (None, t) \<Rightarrow>
                   (let t = on_bridge (prefer_route data) t; (now, t) = read_time (bw_now w) t
                    in (None, to_spool (markDelegationsFailed sid reason now) t))))"

text \<open>A timestamp of event data is the instant it denotes, a number here.\<close>

definition time_member :: "(string \<times> json) list \<Rightarrow> string \<Rightarrow> time option" where
  "time_member data key = (case member data key of Some (JNum n) \<Rightarrow> Some n | _ \<Rightarrow> None)"

definition activated_event ::
    "bridge_world \<Rightarrow> (string \<times> json) list \<Rightarrow> bridge_task \<Rightarrow> thrown option \<times> bridge_task" where
  "activated_event w data t =
     (let sid = string_member data ''communicationSessionId'';
          t = (if sid \<noteq> [] then to_spool (setGrant sid ''active'' (time_member data ''grantExpiresAt'')) t else t);
          native = Option.bind (keep_truthy (text_member data ''sessionHandle'')) (br_serverToNative (bk_state t));
          (failed, t) = (if truthy native \<and> sid \<noteq> [] then invoke w (Prepare_session (the native) sid) t else (None, t))
      in case failed of
           Some e \<Rightarrow> (Some e, t)
         | None \<Rightarrow> (None, if sid \<noteq> [] then retryPendingDelegations w (Some sid) t else t))"

definition collaboration_event ::
    "bridge_world \<Rightarrow> string \<Rightarrow> (string \<times> json) list \<Rightarrow> bridge_task \<Rightarrow> thrown option \<times> bridge_task" where
  "collaboration_event w reason data t =
     (case stringField data ''collaborationId'' of
        None \<Rightarrow> (None, t)
      | Some cid \<Rightarrow>
          (let (sids, s) = blockCollaboration cid reason (spool_of t)
           in throwing (\<lambda>sid. invoke w (Release_session sid)) sids (to_spool (\<lambda>_. s) t)))"

definition handleEvent :: "bridge_options \<Rightarrow> bridge_world \<Rightarrow> RuntimeEvent \<Rightarrow> bridge_task \<Rightarrow> thrown option \<times> bridge_task" where
  "handleEvent O' w ev t =
     (case rv_type ev of
        Message_dispatch \<Rightarrow> dispatch_event O' w ev t
      | Comm_revoked_event \<Rightarrow> ended_event w ''communication_session_revoked'' ''revoked'' (data_of ev) t
      | Comm_expired_event \<Rightarrow> ended_event w ''communication_session_expired'' ''expired'' (data_of ev) t
      | Comm_activated_event \<Rightarrow> activated_event w (data_of ev) t
      | Collaboration_completed \<Rightarrow> collaboration_event w ''collaboration_completed'' (data_of ev) t
      | Collaboration_revoked \<Rightarrow> collaboration_event w ''collaboration_revoked'' (data_of ev) t
      | Collaboration_expired \<Rightarrow> collaboration_event w ''collaboration_expired'' (data_of ev) t
      | Relationship_policy_update \<Rightarrow> (None, applyRelationshipPolicyUpdate O' w (data_of ev) t)
      | Trusted_tool_policy_upserted \<Rightarrow> (None, applyTrustedToolPolicyUpdate O' w (data_of ev) t)
      | Trusted_tool_policy_revoked \<Rightarrow> (None, applyTrustedToolPolicyRevocation O' w (data_of ev) t)
      | _ \<Rightarrow> (None, t))"

section \<open>One connection of the stream\<close>

text \<open>An event that throws is logged, and the cursor advances past it like past any other.\<close>

definition event_step :: "bridge_options \<Rightarrow> bridge_world \<Rightarrow> string \<Rightarrow> RuntimeEvent \<Rightarrow> bridge_task \<Rightarrow> bridge_task" where
  "event_step O' w serverKey ev t =
     to_spool (saveCursor serverKey (dec_nat (rv_cursor ev))) (snd (handleEvent O' w ev t))"

definition events_pass :: "bridge_options \<Rightarrow> bridge_world \<Rightarrow> string \<Rightarrow> RuntimeEvent list \<Rightarrow> bridge_task \<Rightarrow> bridge_task" where
  "events_pass O' w serverKey evs t = fold (event_step O' w serverKey) evs t"

definition recordUnrecoverableAuthenticationFailure :: "bridge_world \<Rightarrow> bridge_task \<Rightarrow> bridge_task" where
  "recordUnrecoverableAuthenticationFailure w t =
     (let (now, t) = read_time (bw_now w) t; (d, budget) = recordFailure now (br_budget (bk_state t));
          t = on_bridge (br_budget_update (\<lambda>_. budget)) t
      in if ad_fatal d then on_bridge (br_aborted_update (\<lambda>_. True)) t else t)"

definition unauthorized :: "thrown \<Rightarrow> bool" where
  "unauthorized e = (case e of Api_error status _ \<Rightarrow> status = 401 | Other_error _ \<Rightarrow> False)"

text \<open>
  The loop's own variables, the next delay and the failures in a row; a pass ends by waiting,
  by reconnecting at once, or, when the recovery of the authentication itself rejects, with the loop.
\<close>

record reconnect =
  rn_delayMs :: int
  rn_failures :: nat

datatype stream_outcome = Wait int bool | At_once | Stopped

definition retry_later :: "reconnect \<Rightarrow> stream_outcome \<times> reconnect" where
  "retry_later r = (Wait (rn_delayMs r) (shouldLogReconnect (rn_failures r + 1)),
     \<lparr>rn_delayMs = reconnect_delay (rn_delayMs r), rn_failures = rn_failures r + 1\<rparr>)"

text \<open>The events one connection delivered, and the error it failed with, if any.\<close>

definition event_stream_pass ::
    "bridge_options \<Rightarrow> bridge_world \<Rightarrow> string \<Rightarrow> RuntimeEvent list \<times> thrown option \<Rightarrow> reconnect \<Rightarrow> bridge_task
       \<Rightarrow> (stream_outcome \<times> reconnect) \<times> bridge_task" where
  "event_stream_pass O' w serverKey connection r t =
     (let (evs, failed) = connection;
          t = events_pass O' w serverKey evs t;
          r = (if evs = [] then r else \<lparr>rn_delayMs = 50, rn_failures = 0\<rparr>)
      in if br_aborted (bk_state t) then ((Stopped, r), t)
         else if failed \<noteq> None \<and> unauthorized (the failed) then
           (let n = bk_awaits t; (rejected, t) = invoke w Recover_authentication t
            in if rejected \<noteq> None then ((Stopped, r), t)
               else (case bw_authentication w n of
                   Recovered source \<Rightarrow>
                     ((At_once, \<lparr>rn_delayMs = 50, rn_failures = 0\<rparr>), on_bridge (br_budget_update recordRecovery) t)
                 | Unrecovered reason \<Rightarrow> (retry_later r, recordUnrecoverableAuthenticationFailure w t)))
         else (retry_later r, t))"

end
