(* ===== verification/Bridge_Replies.thy ===== *)
theory Bridge_Replies
  imports Bridge_World
begin

text \<open>
  Replies of the local runtime (\<^verbatim>\<open>src/bridge/bridge.ts\<close>): an answer of a session becomes a
  stored reply before the adapter's cursor moves on, and stored replies are sent in order.
\<close>

section \<open>Replies of a collaboration\<close>

definition reply_outcomes :: "(string \<times> CollaborationTurnOutcome) list" where
  "reply_outcomes = [(''respond'', Respond), (''needs_owner'', Needs_owner),
     (''propose_complete'', Propose_complete), (''failed'', Turn_failed)]"

definition reply_turn ::
    "string \<Rightarrow> string \<Rightarrow> bool \<Rightarrow> CollaborationTurnOutcome \<Rightarrow> CollaborationTurnInput" where
  "reply_turn runtimeEventId parentTurnId expectsReply outcome =
     \<lparr>ct_clientTurnId = ''runtime-turn:'' @ runtimeEventId, ct_parentTurnId = Some parentTurnId,
      ct_type = (if expectsReply then Turn_question else Turn_response), ct_expectsReply = expectsReply,
      ct_outcome = Some outcome\<rparr>"

definition parseCollaborationRuntimeReply ::
    "(string \<Rightarrow> json option) \<Rightarrow> string \<Rightarrow> string \<Rightarrow> string \<Rightarrow> string \<times> CollaborationTurnInput" where
  "parseCollaborationRuntimeReply parse rawText runtimeEventId parentTurnId =
     (let fallback = (rawText, reply_turn runtimeEventId parentTurnId False Respond)
      in case parse (trim rawText) of
           Some (JObj kvs) \<Rightarrow>
             (case (map_of kvs ''text'', Option.bind (text_member kvs ''outcome'') (map_of reply_outcomes)) of
                (Some (JStr text), Some outcome) \<Rightarrow>
                  (text, reply_turn runtimeEventId parentTurnId
                    (outcome \<in> {Respond, Propose_complete} \<and> map_of kvs ''expectsReply'' = Some (JBool True)) outcome)
              | _ \<Rightarrow> fallback)
         | _ \<Rightarrow> fallback)"

section \<open>Events of a session of the adapter\<close>

record RuntimeSessionEvent =
  rs_type :: runtime_event_type
  rs_inReplyTo :: "string option"
  rs_correlationId :: "string option"
  rs_payload :: "(string \<times> json) list option"
  rs_cursor :: "string option"

definition recovery_event ::
    "bridge_world \<Rightarrow> string \<Rightarrow> RuntimeSessionEvent \<Rightarrow> bridge_task \<Rightarrow> thrown option \<times> bridge_task" where
  "recovery_event w nativeHandle ev t =
     (let (now, t) = read_time (bw_now w) t;
          (r, k) = handleRuntimeEvent nativeHandle (rs_type ev) (rs_inReplyTo ev) (rs_correlationId ev) now (br_recovery (bk_state t))
      in (case r of Inl e \<Rightarrow> Some (Other_error e) | Inr _ \<Rightarrow> None, on_bridge (br_recovery_update (\<lambda>_. k)) t))"

definition expects_answer :: "MessageEnvelope \<Rightarrow> bool" where
  "expects_answer env = (\<not> truthy (me_replyTo env)
     \<or> (case me_collaborationTurn env of None \<Rightarrow> False | Some turn \<Rightarrow> ct_expectsReply turn))"

definition runtime_event_id :: "bridge_world \<Rightarrow> string \<Rightarrow> RuntimeSessionEvent \<Rightarrow> bridge_task \<Rightarrow> string \<times> bridge_task" where
  "runtime_event_id w nativeHandle ev t =
     (case text_member (or_else (rs_payload ev) []) ''runtimeEventId'' of
        Some v \<Rightarrow> (v, t)
      | None \<Rightarrow> (case rs_cursor ev of
            Some c \<Rightarrow> (nativeHandle @ '':'' @ c, t)
          | None \<Rightarrow> (let (fresh, t) = read_time (bw_fresh w) t in (nativeHandle @ '':runtime_event_'' @ fresh, t))))"

definition reply_text :: "RuntimeSessionEvent \<Rightarrow> string" where
  "reply_text ev = (let payload = or_else (rs_payload ev) []
     in or_else (text_member payload ''text'') (stringify (JObj payload)))"

definition answer_message ::
    "bridge_options \<Rightarrow> bridge_world \<Rightarrow> string \<Rightarrow> string \<Rightarrow> RuntimeSessionEvent \<Rightarrow> SpoolMessage \<Rightarrow> bridge_task
       \<Rightarrow> thrown option \<times> bridge_task" where
  "answer_message O' w nativeHandle serverHandle ev original t =
     (let (runtimeEventId, t) = runtime_event_id w nativeHandle ev t;
          env = sm_envelope original;
          reply = map_option (\<lambda>turn. parseCollaborationRuntimeReply (bo_parse O') (reply_text ev) runtimeEventId (ct_turnId turn))
                    (me_collaborationTurn env);
          text = (case reply of None \<Rightarrow> reply_text ev | Some (text, _) \<Rightarrow> text);
          correlationId = or_else (rs_correlationId ev) (or_else (me_correlationId env) (sm_messageId original))
      in case invoke w (Before_egress text (sm_messageId original) correlationId) t of
           (Some e, t) \<Rightarrow> (Some e, t)
         | (None, t) \<Rightarrow>
             recovery_event w nativeHandle ev
               (to_spool (storeOutboundReply runtimeEventId (sm_communicationSessionId original)
                  (''runtime-reply:'' @ serverHandle @ '':'' @ runtimeEventId)
                  [(''text'', JStr text), (''source'', JStr (bo_runtime O'))] (sm_messageId original) correlationId
                  (map_option snd reply)) t))"

definition adapter_event ::
    "bridge_options \<Rightarrow> bridge_world \<Rightarrow> string \<Rightarrow> string \<Rightarrow> RuntimeSessionEvent \<Rightarrow> bridge_task \<Rightarrow> thrown option \<times> bridge_task" where
  "adapter_event O' w nativeHandle serverHandle ev t =
     (let (failed, t) =
        (if rs_type ev = Turn_failed_event then recovery_event w nativeHandle ev t
         else if rs_type ev = Reply \<and> truthy (rs_inReplyTo ev) then
           (case getMessage (the (rs_inReplyTo ev)) (spool_of t) of
              None \<Rightarrow> (None, t)
            | Some original \<Rightarrow>
                if expects_answer (sm_envelope original)
                then answer_message O' w nativeHandle serverHandle ev original t else (None, t))
         else (None, t))
      in (failed, if failed = None \<and> truthy (rs_cursor ev)
                  then to_spool (saveAdapterCursor nativeHandle (the (rs_cursor ev))) t else t))"

text \<open>One subscription: it ends with the events, or where one throws or the bridge is stopped.\<close>

fun adapter_pass ::
    "bridge_options \<Rightarrow> bridge_world \<Rightarrow> string \<Rightarrow> string \<Rightarrow> RuntimeSessionEvent list \<Rightarrow> bridge_task \<Rightarrow> thrown option \<times> bridge_task" where
  "adapter_pass O' w nativeHandle serverHandle [] t = (None, t)"
| "adapter_pass O' w nativeHandle serverHandle (ev # evs) t =
     (if br_aborted (bk_state t) then (None, t)
      else case adapter_event O' w nativeHandle serverHandle ev t of
             (Some e, t) \<Rightarrow> (Some e, t)
           | (None, t) \<Rightarrow> adapter_pass O' w nativeHandle serverHandle evs t)"

section \<open>Sending\<close>

fun send_replies :: "bridge_world \<Rightarrow> OutboundReply list \<Rightarrow> bridge_task \<Rightarrow> bridge_task" where
  "send_replies w [] t = t"
| "send_replies w (reply # replies) t =
     (let (failed, t) = invoke w (Send_reply reply) t
      in case failed of
           None \<Rightarrow> send_replies w replies (to_spool (markOutboundSent (or_eventId reply)) t)
         | Some e \<Rightarrow>
             (let terminal = terminal_error [408, 429] e;
                  t = to_spool (markOutboundAttempt (or_eventId reply) (error_text e) terminal) t
              in if terminal then send_replies w replies t else t))"

definition outbound_pass :: "bridge_world \<Rightarrow> bridge_task \<Rightarrow> bool \<times> bridge_task" where
  "outbound_pass w t =
     (let replies = listPendingOutboundReplies (spool_of t) in (replies \<noteq> [], send_replies w replies t))"

end
