(* ===== verification/Bridge_Loops.thy ===== *)
theory Bridge_Loops
  imports Bridge_Events Bridge_Replies
begin

text \<open>
  The start of the bridge and its heartbeat (\<^verbatim>\<open>src/bridge/bridge.ts\<close>): the sessions of the
  adapter and the stored mappings are reconciled with the control plane, and every beat reports
  the health, flushes acknowledgements and publishes the default route.
\<close>

section \<open>Reconciling the sessions\<close>

record SessionDescriptor =
  se_sessionHandle :: string
  se_label :: string
  se_state :: SessionState
  se_allowInbound :: bool

definition drop_stale :: "bridge_world \<Rightarrow> string set \<Rightarrow> MappingRow \<Rightarrow> bridge_task \<Rightarrow> bridge_task" where
  "drop_stale w active m t =
     (if mp_native_handle m \<in> active then t
      else to_spool (deleteSessionMapping (mp_native_handle m))
             (snd (invoke w (Update_session (mp_server_handle m) Closed False) t)))"

definition bind_session :: "bridge_world \<Rightarrow> SessionDescriptor \<Rightarrow> bridge_task \<Rightarrow> thrown option \<times> bridge_task" where
  "bind_session w d t =
     (let existing = keep_truthy (map_option fst (getSessionMapping (se_sessionHandle d) (spool_of t)));
          (kept, t) = (case existing of
              None \<Rightarrow> (None, t)
            | Some h \<Rightarrow> (let (failed, t) = invoke w (Update_session h (se_state d) (se_allowInbound d)) t
                        in (if failed = None then Some h else None, t)));
          known = (\<lambda>h. br_serverToNative_update (\<lambda>m. m(h \<mapsto> se_sessionHandle d)))
      in case kept of
           Some h \<Rightarrow> (None, on_bridge (known h) t)
         | None \<Rightarrow>
             (let n = bk_awaits t;
                  (failed, t) = invoke w (Register_session (se_label d)
                    (if se_state d = Closed then Idle else se_state d)
                    (se_allowInbound d \<and> se_state d \<noteq> Closed)) t
              in case failed of
                   Some e \<Rightarrow> (Some e, t)
                 | None \<Rightarrow> (None, on_bridge (known (bw_registered w n))
                     (to_spool (saveSessionMapping (se_sessionHandle d) (bw_registered w n) (se_label d)) t))))"

definition reconcile_sessions :: "bridge_world \<Rightarrow> SessionDescriptor list \<Rightarrow> bridge_task \<Rightarrow> thrown option \<times> bridge_task" where
  "reconcile_sessions w sessions t =
     throwing (bind_session w) sessions
       (fold (drop_stale w (se_sessionHandle ` set sessions)) (listSessionMappings (spool_of t)) t)"

text \<open>The part of \<^verbatim>\<open>start\<close> after the registration of the endpoint.\<close>

definition start_bridge ::
    "bridge_options \<Rightarrow> bridge_world \<Rightarrow> string \<Rightarrow> SessionDescriptor list \<Rightarrow> bridge_task \<Rightarrow> thrown option \<times> bridge_task" where
  "start_bridge O' w principalId sessions t =
     (let t = to_spool (setIdentity ''serverKey'' (bo_endpointId O') \<circ> setIdentity ''principalId'' principalId
                \<circ> setIdentity ''endpointId'' (bo_endpointId O')) t
      in case reconcile_sessions w sessions t of
           (Some e, t) \<Rightarrow> (Some e, t)
         | (None, t) \<Rightarrow>
             (case recover_continuations w t of
                (Some e, t) \<Rightarrow> (Some e, t)
              | (None, t) \<Rightarrow>
                  (None, on_bridge (\<lambda>b. b\<lparr>br_pendingDefaultRoute :=
                     (case listSessionMappings (br_spool b) of [] \<Rightarrow> None | m # _ \<Rightarrow> Some (mp_server_handle m))\<rparr>) t)))"

section \<open>The heartbeat\<close>

datatype notice = Log_healthy | Log_degraded | Log_unhealthy

fun error_string :: "thrown \<Rightarrow> string" where
  "error_string (Api_error status code) = ''Error: API request failed ('' @ dec_nat status @ '' '' @ code @ '')''"
| "error_string (Other_error message) = message"

definition publish_route :: "bridge_options \<Rightarrow> bridge_world \<Rightarrow> bridge_task \<Rightarrow> bridge_task" where
  "publish_route O' w t =
     (case keep_truthy (br_pendingDefaultRoute (bk_state t)) of
        None \<Rightarrow> t
      | Some handle \<Rightarrow>
          if br_aborted (bk_state t) then t
          else (let (failed, t) = invoke w (Set_default_route handle) t
                in if failed = None
                   then on_bridge (\<lambda>b. b\<lparr>br_publishedDefaultRoute := Some handle, br_pendingDefaultRoute := None\<rparr>) t
                   else t))"

text \<open>
  What a beat tells the operator: \<open>reported\<close> is the loop's own variable \<^verbatim>\<open>unhealthyReported\<close>.
\<close>

definition beat_notices :: "BridgeHealthStatus \<Rightarrow> bool \<Rightarrow> bool \<Rightarrow> notice list \<times> bool" where
  "beat_notices status succeeded reported =
     (if succeeded then
        (if status = H_healthy \<and> reported then ([Log_healthy], False)
         else if status = H_degraded then ([Log_degraded], reported) else ([], reported))
      else if status = H_unhealthy \<and> \<not> reported then ([Log_unhealthy], True) else ([], reported))"

text \<open>\<open>None\<close> when the recovery of the authentication rejects, which ends the loop.\<close>

definition recover_authentication :: "bridge_world \<Rightarrow> bridge_task \<Rightarrow> bool \<times> bridge_task" where
  "recover_authentication w t =
     (let n = bk_awaits t; (rejected, t) = invoke w Recover_authentication t
      in if rejected \<noteq> None then (False, t)
         else (True, case bw_authentication w n of
                 Recovered _ \<Rightarrow> on_bridge (br_budget_update recordRecovery) t
               | Unrecovered _ \<Rightarrow> recordUnrecoverableAuthenticationFailure w t))"

definition heartbeat_pass ::
    "bridge_options \<Rightarrow> bridge_world \<Rightarrow> int \<Rightarrow> bool \<Rightarrow> bridge_task \<Rightarrow> ((notice list \<times> bool) option) \<times> bridge_task" where
  "heartbeat_pass O' w lag reported t =
     (let (failed, t) = invoke w Send_heartbeat t
      in case failed of
           None \<Rightarrow>
             (let (now, t) = read_time (bw_now w) t;
                  t = on_bridge (br_watchdog_update (recordSuccess now lag) \<circ> br_budget_update recordRecovery) t
              in (Some (beat_notices (bh_status (hw_state (br_watchdog (bk_state t)))) True reported),
                  publish_route O' w (flushRelationshipMcpAcknowledgements w t)))
         | Some e \<Rightarrow>
             (let authenticationFailure = unauthorized e;
                  (going, t) = (if authenticationFailure then recover_authentication w t else (True, t))
              in if \<not> going then (None, t)
                 else
                   (let (now, t) = read_time (bw_now w) t;
                        t = on_bridge (br_watchdog_update (recordHeartbeatFailure now (error_string e) lag)) t;
                        report = beat_notices (bh_status (hw_state (br_watchdog (bk_state t)))) False reported
                    in (Some report, if authenticationFailure then t
                          else publish_route O' w (flushRelationshipMcpAcknowledgements w t)))))"

end
