(* ===== verification/Bridge_Behaviour.thy ===== *)
theory Bridge_Behaviour
  imports Bridge_Loops
begin

text \<open>
  What the bridge guarantees (\<^verbatim>\<open>src/bridge/bridge.ts\<close>). A relation between tasks that survives
  every call and every operation of the event handlers on the spool survives the handlers
  (\<open>event_frame\<close>); the stream's cursor is one instance, the growing list of calls another.
\<close>

section \<open>What every handler keeps\<close>

text \<open>The operations of the event handlers on the spool.\<close>

inductive event_op :: "(spool \<Rightarrow> spool) \<Rightarrow> bool" where
  stored: "event_op (\<lambda>s. snd (storeDispatch ev s))"
| acked: "event_op (markDeviceAcked m)"
| blocked: "event_op (blockCommunicationSession sid reason st)"
| granted: "event_op (setGrant sid st e)"
| collaboration: "event_op (\<lambda>s. snd (blockCollaboration cid reason s))"
| delegated: "event_op (storePendingDelegation d now)"
| attempted: "event_op (markDelegationAttempt cid e now)"
| sent: "event_op (markDelegationDelegated cid m sid now)"
| failed: "event_op (markDelegationsFailed sid m now)"

locale event_frame =
  fixes w :: bridge_world and R :: "bridge_task \<Rightarrow> bridge_task \<Rightarrow> bool"
  assumes refl: "R t t"
    and trans: "R t u \<Longrightarrow> R u v \<Longrightarrow> R t v"
    and called: "R t (snd (invoke w c t))"
    and spool: "event_op f \<Longrightarrow> R t (to_spool f t)"
    and rest: "br_spool (g (bk_state t)) = br_spool (bk_state t) \<Longrightarrow> R t (on_bridge g t)"
    and later: "R t (t\<lparr>bk_reads := n\<rparr>)"
begin

lemma ticked: "R t (snd (read_time clock t))"
  by (simp add: read_time_def later)

lemma read_time_spool: "event_op f \<Longrightarrow> R t (to_spool f (snd (read_time clock t)))"
  by (rule trans[OF ticked spool])

lemma read_time_rest: "br_spool (g (bk_state t)) = br_spool (bk_state t) \<Longrightarrow> R t (on_bridge g (snd (read_time clock t)))"
  by (rule trans[OF ticked rest]) simp

lemma throwing: "(\<And>x t. R t (snd (f x t))) \<Longrightarrow> R t (snd (throwing f xs t))"
proof (induction xs arbitrary: t)
  case Nil
  then show ?case by (simp add: refl)
next
  case (Cons x xs)
  have "R t (snd (f x t))" by (rule Cons.prems)
  then show ?case
    using Cons.IH[OF Cons.prems] trans by (cases "f x t"; cases "fst (f x t)") auto
qed

lemma folded: "(\<And>x t. R t (f x t)) \<Longrightarrow> R t (fold f xs t)"
proof (induction xs arbitrary: t)
  case Nil
  then show ?case by (simp add: refl)
next
  case (Cons x xs)
  then show ?case using trans[OF Cons.prems(1)[where x = x and t = t]] by simp
qed

lemma recordDelegationResult: "R t (recordDelegationResult w result i t)"
proof (cases result)
  case (Resp_delegated cid correlationId sid messageId)
  let ?t1 = "to_spool (storePendingDelegation (stored_delegation i cid correlationId (Some sid) (Some messageId) Pd_delegated)
        (bw_now w (bk_reads t))) (snd (read_time (bw_now w) t))"
  have "R t ?t1" by (rule read_time_spool[OF event_op.delegated])
  moreover have "R ?t1 (to_spool (markDelegationDelegated cid messageId sid (bw_now w (Suc (bk_reads t)))) (snd (read_time (bw_now w) ?t1)))"
    by (rule read_time_spool[OF event_op.sent])
  ultimately show ?thesis
    using Resp_delegated trans by (simp add: recordDelegationResult_def Let_def case_prod_unfold)
next
  case Resp_collaboration_requested
  then show ?thesis
    by (simp add: recordDelegationResult_def Let_def case_prod_unfold)
      (rule read_time_spool[OF event_op.delegated])
next
  case Resp_grant_requested
  then show ?thesis
    by (simp add: recordDelegationResult_def Let_def case_prod_unfold)
      (rule read_time_spool[OF event_op.delegated])
qed

lemma delegation_failed: "R t (delegation_failed w p final message t)"
  by (simp add: delegation_failed_def Let_def case_prod_unfold)
    (auto intro: read_time_spool event_op.intros)

lemma retry_delegation: "R t (retry_delegation w p t)"
proof -
  let ?t1 = "snd (read_time (bw_now w) t)"
  let ?t2 = "snd (invoke w (Delegate_task (delegation_of p)) ?t1)"
  have "R t ?t2" by (rule trans[OF ticked called])
  moreover have "R t (delegation_failed w p True message ?t1)" for message
    using trans[OF ticked delegation_failed] .
  ultimately show ?thesis
    using trans[OF _ recordDelegationResult] trans[OF _ delegation_failed]
    by (auto simp: retry_delegation_def Let_def case_prod_unfold split: option.split)
qed

lemma retryPendingDelegations: "R t (retryPendingDelegations w sid t)"
  unfolding retryPendingDelegations_def by (rule folded) (rule retry_delegation)

lemma recover_continuations: "R t (snd (recover_continuations w t))"
  unfolding recover_continuations_def Let_def case_prod_unfold snd_conv
  by (rule trans[OF rest called]) simp

lemma attest_and_acknowledge: "R t (snd (attest_and_acknowledge w i policy cid t))"
proof -
  define t1 where "t1 = (case cid of None \<Rightarrow> t | Some c \<Rightarrow> snd (invoke w
     (Attest_boundary c (tr_policyId i) (tr_revision i) (tp_canonicalFolder policy) (tr_accessPreset i)) t))"
  have t1: "R t t1" by (auto simp: t1_def refl called split: option.split)
  have t2: "R t (snd (invoke w c t1))" for c by (rule trans[OF t1 called])
  have t3: "R t (snd (recover_continuations w (snd (invoke w c t1))))" for c
    by (rule trans[OF t2 recover_continuations])
  show ?thesis
    using t1 t2 t3 by (cases cid) (auto simp: attest_and_acknowledge_def Let_def case_prod_unfold t1_def split: option.split)
qed

lemma applyTrustedToolPolicyUpdate: "R t (applyTrustedToolPolicyUpdate O' w data t)"
proof (cases "trusted_update O' data")
  case None
  then show ?thesis by (simp add: applyTrustedToolPolicyUpdate_def refl)
next
  case (Some i)
  have set: "R t (on_bridge (br_trustedFile_update f) (snd (read_time c1 (snd (read_time c2 t)))))" for f and c1 :: "nat \<Rightarrow> string" and c2 :: "nat \<Rightarrow> string"
    by (rule trans[OF ticked read_time_rest]) simp
  show ?thesis
    using Some set trans[OF set attest_and_acknowledge]
    by (auto simp: applyTrustedToolPolicyUpdate_def Let_def case_prod_unfold split: sum.split)
qed

lemma applyTrustedToolPolicyRevocation: "R t (applyTrustedToolPolicyRevocation O' w data t)"
  by (auto simp: applyTrustedToolPolicyRevocation_def Let_def case_prod_unfold refl split: option.split
      intro!: read_time_rest)

lemma accepted_acks: "R t (accepted_acks w t key ack)"
  unfolding accepted_acks_def Let_def case_prod_unfold
  using called trans[OF called rest] by simp

lemma flush_acks: "R t (flushRelationshipMcpAcknowledgements w t)"
  unfolding flushRelationshipMcpAcknowledgements_def by (rule folded) (simp add: case_prod_unfold accepted_acks)

lemma applyRelationshipPolicyUpdate: "R t (applyRelationshipPolicyUpdate O' w data t)"
proof (cases "keep_truthy (bo_relationshipPolicyFile O') = None \<or> relationship_update O' data = None")
  case True
  then show ?thesis by (auto simp: applyRelationshipPolicyUpdate_def refl split: option.split)
next
  case False
  then obtain path i where i: "keep_truthy (bo_relationshipPolicyFile O') = Some path" "relationship_update O' data = Some i" by auto
  let ?w = "write_update O' path i (br_policyFile (bk_state t))"
  define t1 where "t1 = on_bridge (br_policyFile_update (\<lambda>_. snd ?w)) (snd (read_time (bw_reformatted w) t))"
  have t1: "R t t1" unfolding t1_def by (rule read_time_rest) simp
  define t2 where "t2 = snd (invoke w (Invalidate_sessions (rl_principalId i) (rl_deviceId i)) t1)"
  have t2: "R t t2" unfolding t2_def by (rule trans[OF t1 called])
  have flush: "R t (flushRelationshipMcpAcknowledgements w (on_bridge (br_mcpAcks_update f) u))" if "R t u" for f u
    by (rule trans[OF trans[OF that rest] flush_acks]) simp
  show ?thesis
  proof (cases "fst ?w")
    case (Inl e)
    with i t1 show ?thesis by (simp add: applyRelationshipPolicyUpdate_def Let_def case_prod_unfold t1_def)
  next
    case (Inr changed)
    let ?inv = "changed \<or> bw_reformatted w (bk_reads t)"
    let ?t = "if ?inv then t2 else t1" and ?failed = "if ?inv then bw_fails w (bk_awaits t1) else None"
    have "applyRelationshipPolicyUpdate O' w data t = (case ?failed of Some e \<Rightarrow> ?t | None \<Rightarrow>
        (case (rl_mcpServers i, rl_mcpPolicyIds i, rl_revision i) of
           (Some _, Some policyIds, Some revision) \<Rightarrow>
             if policyIds = [] then ?t
             else (let ack = \<lparr>ma_policyIds = policyIds, ma_revision = revision\<rparr>
                   in flushRelationshipMcpAcknowledgements w (on_bridge (br_mcpAcks_update (pending_ack (ack_key ack) ack)) ?t))
         | _ \<Rightarrow> ?t))"
      using i Inr by (auto simp: applyRelationshipPolicyUpdate_def Let_def case_prod_unfold t1_def t2_def split: option.split)
    moreover have "R t ?t" using t1 t2 by simp
    ultimately show ?thesis
      using flush[OF \<open>R t ?t\<close>]
      by (cases "?failed"; cases "rl_mcpServers i"; cases "rl_mcpPolicyIds i"; cases "rl_revision i") (simp_all add: Let_def)
  qed
qed

lemma dispatch_event: "R t (snd (dispatch_event O' w ev t))"
proof -
  let ?s = "snd (storeDispatch ev (spool_of t))"
  have store: "R t (to_spool (\<lambda>_. ?s) t)"
  proof -
    have "to_spool (\<lambda>_. ?s) t = to_spool (\<lambda>s. snd (storeDispatch ev s)) t" by (simp add: to_spool_def on_bridge_def)
    then show ?thesis using spool[OF event_op.stored] by metis
  qed
  show ?thesis
  proof (cases "fst (storeDispatch ev (spool_of t))")
    case None
    with store show ?thesis by (auto simp: dispatch_event_def Let_def case_prod_unfold refl split: prod.split)
  next
    case (Some im)
    define t1 where "t1 = on_bridge (\<lambda>b. br_recovery_update (cv_telemetry_update
       (eligible_task b (fst im) (snd im) (bw_now w (bk_reads t)))) b) (snd (read_time (bw_now w) (to_spool (\<lambda>_. ?s) t)))"
    have t1: "R t t1" unfolding t1_def by (rule trans[OF store read_time_rest]) simp
    let ?t2 = "snd (read_time (bw_now w) t1)"
    have t2: "R t ?t2" by (rule trans[OF t1 ticked])
    have t3: "R t (snd (invoke w c ?t2))" for c by (rule trans[OF t2 called])
    have t4: "R t (to_spool (markDeviceAcked m) (snd (invoke w c ?t2)))" for c m
      by (rule trans[OF t3 spool[OF event_op.acked]])
    show ?thesis
    proof (cases "storeDispatch ev (spool_of t)")
      case (Pair r s)
      with Some have "r = Some (fst im, snd im)" "?s = s" by simp_all
      with Pair t2 t3 t4 show ?thesis
        by (auto simp: dispatch_event_def Let_def case_prod_unfold refl t1_def)
    qed
  qed
qed

lemma ended_event: "R t (snd (ended_event w reason st data t))"
proof -
  let ?sid = "string_member data ''communicationSessionId''"
  let ?t1 = "to_spool (blockCommunicationSession ?sid reason st) t"
  let ?t2 = "snd (invoke w (Release_session ?sid) ?t1)"
  let ?t3 = "on_bridge (prefer_route data) ?t2"
  have t2: "R t ?t2" by (rule trans[OF spool[OF event_op.blocked] called])
  have "br_spool (prefer_route data b) = br_spool b" for b by (simp add: prefer_route_def split: option.split)
  then have "R t ?t3" by (intro trans[OF t2] rest)
  then have "R t (to_spool (markDelegationsFailed ?sid reason (bw_now w (bk_reads ?t3))) (snd (read_time (bw_now w) ?t3)))"
    by (rule trans[OF _ read_time_spool[OF event_op.failed]])
  with t2 show ?thesis
    by (auto simp: ended_event_def Let_def case_prod_unfold refl invoke_def split: option.split)
qed

lemma activated_event: "R t (snd (activated_event w data t))"
proof -
  let ?sid = "string_member data ''communicationSessionId''"
  define t1 where "t1 = (if ?sid \<noteq> [] then to_spool (setGrant ?sid ''active'' (time_member data ''grantExpiresAt'')) t else t)"
  have t1: "R t t1" by (simp add: t1_def refl spool event_op.granted)
  have t2: "R t (snd (invoke w c t1))" for c by (rule trans[OF t1 called])
  have t3: "R t (retryPendingDelegations w s u)" if "R t u" for s u by (rule trans[OF that retryPendingDelegations])
  let ?native = "Option.bind (keep_truthy (text_member data ''sessionHandle'')) (br_serverToNative (bk_state t1))"
  define p where "p = (if truthy ?native \<and> ?sid \<noteq> [] then invoke w (Prepare_session (the ?native) ?sid) t1 else (None, t1))"
  have p: "R t (snd p)" using t1 t2 by (simp add: p_def)
  have "activated_event w data t = (case fst p of Some e \<Rightarrow> (Some e, snd p)
      | None \<Rightarrow> (None, if ?sid \<noteq> [] then retryPendingDelegations w (Some ?sid) (snd p) else snd p))"
    unfolding activated_event_def Let_def case_prod_unfold t1_def[symmetric] p_def[symmetric] ..
  then show ?thesis
    using p t3[OF p] by (auto split: option.split)
qed

lemma collaboration_event: "R t (snd (collaboration_event w reason data t))"
proof (cases "stringField data ''collaborationId''")
  case None
  then show ?thesis by (simp add: collaboration_event_def refl)
next
  case (Some cid)
  let ?s = "snd (blockCollaboration cid reason (spool_of t))"
  have "to_spool (\<lambda>_. ?s) t = to_spool (\<lambda>s. snd (blockCollaboration cid reason s)) t" by (simp add: to_spool_def on_bridge_def)
  then have "R t (to_spool (\<lambda>_. ?s) t)" using spool[OF event_op.collaboration] by metis
  moreover have "R u (snd (throwing (\<lambda>sid. invoke w (Release_session sid)) sids u))" for sids u
    by (rule throwing) (rule called)
  ultimately show ?thesis
    using Some trans by (simp add: collaboration_event_def Let_def case_prod_unfold)
qed

lemma handleEvent: "R t (snd (handleEvent O' w ev t))"
  by (simp add: handleEvent_def refl dispatch_event ended_event activated_event collaboration_event
      applyRelationshipPolicyUpdate applyTrustedToolPolicyUpdate applyTrustedToolPolicyRevocation
      split: RuntimeEventType.split)

end

interpretation calls_grow: event_frame w "\<lambda>t t'. prefix (bk_calls t) (bk_calls t')" for w
  by unfold_locales (auto intro: prefix_order.trans)

section \<open>The cursor of the stream\<close>

definition cursor_le :: "bridge_task \<Rightarrow> bridge_task \<Rightarrow> bool" where
  "cursor_le t t' = (\<forall>k. seq_at k (cursors (spool_of t)) \<le> seq_at k (cursors (spool_of t')))"

text \<open>What the other loops are relied on for: none turns a cursor back.\<close>

definition never_rewinds :: "bridge_world \<Rightarrow> bool" where
  "never_rewinds w = (\<forall>n b k. seq_at k (cursors (br_spool b)) \<le> seq_at k (cursors (br_spool (bw_other w n b))))"

lemma event_op_cursors: "event_op f \<Longrightarrow> cursors (f s) = cursors s"
proof (induction rule: event_op.induct)
  case (stored ev)
  then show ?case by (auto simp: storeDispatch_def Let_def split: EventData.split option.split)
next
  case (collaboration cid reason)
  have "cursors (fold (block_with_replies reason) xs s) = cursors s" for xs
    by (induction xs arbitrary: s)
      (simp_all add: block_with_replies_def blockCommunicationSession_def setGrant_def Let_def)
  then show ?case by (simp add: blockCollaboration_def Let_def)
qed (simp_all add: markDeviceAcked_def blockCommunicationSession_def setGrant_def storePendingDelegation_def
    markDelegationAttempt_def markDelegationDelegated_def markDelegationsFailed_def Let_def)

lemma cursor_frame: "never_rewinds w \<Longrightarrow> event_frame w cursor_le"
  by unfold_locales (auto simp: cursor_le_def never_rewinds_def event_op_cursors intro: order_trans)

lemma event_step_cursor:
  assumes "never_rewinds w"
  shows "cursor_le t (event_step O' w serverKey ev t)"
    and "int (rv_cursor ev) \<le> seq_at serverKey (cursors (spool_of (event_step O' w serverKey ev t)))"
proof -
  let ?t = "snd (handleEvent O' w ev t)" and ?n = "or_else (parse_int (dec_nat (rv_cursor ev))) 0"
  have n: "?n = int (rv_cursor ev)" by (simp add: parse_dec_nat)
  have at: "seq_at k (cursors (spool_of (event_step O' w serverKey ev t)))
    = (if k = serverKey then (case List.find (\<lambda>r. fst r = k) (cursors (spool_of ?t)) of None \<Rightarrow> ?n | Some r \<Rightarrow> max (snd r) ?n)
       else seq_at k (cursors (spool_of ?t)))" for k
    by (simp add: event_step_def saveCursor_def seq_at_advance)
  show "int (rv_cursor ev) \<le> seq_at serverKey (cursors (spool_of (event_step O' w serverKey ev t)))"
    unfolding at n by (auto split: option.split)
  have "cursor_le t ?t" by (rule event_frame.handleEvent[OF cursor_frame[OF assms]])
  moreover have "cursor_le ?t (event_step O' w serverKey ev t)"
    unfolding cursor_le_def at n by (auto simp: seq_at_def split: option.split)
  ultimately show "cursor_le t (event_step O' w serverKey ev t)"
    unfolding cursor_le_def by (meson order_trans)
qed

text \<open>
  C16: whatever the events contain and whichever of their handlers throw, after
  a connection the stored cursor is past every event it delivered: none of them is asked for
  again, and none stops the ones behind it.
\<close>

theorem bad_event_never_stalls:
  assumes "never_rewinds w" "ev \<in> set evs"
  shows "int (rv_cursor ev) \<le> seq_at serverKey (cursors (spool_of (events_pass O' w serverKey evs t)))"
proof -
  have le: "cursor_le u (events_pass O' w serverKey es u)" for es u
  proof (induction es arbitrary: u)
    case Nil
    then show ?case by (simp add: events_pass_def cursor_le_def)
  next
    case (Cons e es)
    from event_step_cursor(1)[OF assms(1), of u O' serverKey e] Cons[of "event_step O' w serverKey e u"] show ?case
      by (simp add: events_pass_def cursor_le_def) (meson order_trans)
  qed
  from assms(2) obtain xs ys where "evs = xs @ ev # ys" by (meson split_list)
  then have "events_pass O' w serverKey evs t
    = events_pass O' w serverKey ys (event_step O' w serverKey ev (events_pass O' w serverKey xs t))"
    by (simp add: events_pass_def)
  with le[of _ ys] event_step_cursor(2)[OF assms(1)] show ?thesis
    unfolding cursor_le_def by (metis order_trans)
qed

section \<open>A bridge for examples\<close>

definition demo_env :: policy_env where
  "demo_env = \<lparr>pe_fs = \<lparr>fs_realpath = (\<lambda>p. Real p), fs_cwd = ''/home'', fs_home = ''/home''\<rparr>, pe_url = (\<lambda>_. None), pe_le = (\<le>), pe_datetime = (\<lambda>_. True)\<rparr>"

definition demo_options :: bridge_options where
  "demo_options = \<lparr>bo_endpointId = ''ep'', bo_bridgeInstanceId = ''b1'', bo_runtime = ''codex'',
     bo_relationshipPolicyFile = Some ''/p/rel.json'', bo_trustedToolPolicyFile = Some ''/p/trusted.json'',
     bo_ownerPrincipalId = Some ''owner'', bo_ownerDeviceId = Some ''dev'', bo_env = demo_env,
     bo_parse = (\<lambda>_. None), bo_iso = (\<lambda>t. Some t)\<rparr>"

definition demo_bridge :: bridge where
  "demo_bridge = \<lparr>br_spool = new_spool, br_recovery = tk_shared (start_task []), br_serverToNative = [''s1'' \<mapsto> ''n1''],
     br_pendingDefaultRoute = None, br_publishedDefaultRoute = None, br_mcpAcks = [], br_policyFile = Absent,
     br_trustedFile = Absent, br_watchdog = projr (new_heartbeat_watchdog 10000 60000 3 0),
     br_budget = new_budget 300000, br_aborted = False\<rparr>"

definition quiet_bridge :: bridge_world where
  "quiet_bridge = \<lparr>bw_fails = (\<lambda>_. None), bw_delegation = (\<lambda>_. Resp_collaboration_requested ''c1'' None),
     bw_attested = (\<lambda>_. None), bw_accepted = (\<lambda>_. 0), bw_authentication = (\<lambda>_. Unrecovered ''none''),
     bw_registered = (\<lambda>n. ''srv_'' @ dec_nat n), bw_recovery = (\<lambda>_. quiet_world), bw_reformatted = (\<lambda>_. False),
     bw_other = (\<lambda>_ b. b), bw_now = int, bw_iso_now = (\<lambda>_. ''2026-01-01T00:00:00.000Z''), bw_fresh = dec_nat\<rparr>"

definition bridge_start :: "bridge \<Rightarrow> bridge_task" where
  "bridge_start b = \<lparr>bk_state = b, bk_awaits = 0, bk_reads = 0, bk_calls = []\<rparr>"

definition demo_event :: "nat \<Rightarrow> RuntimeEventType \<Rightarrow> (string \<times> json) list \<Rightarrow> RuntimeEvent" where
  "demo_event n ty data = \<lparr>rv_cursor = n, rv_type = ty, rv_endpointId = ''ep'', rv_createdAt = 0, rv_data = Object_data data\<rparr>"

lemma quiet_never_rewinds: "never_rewinds quiet_bridge"
  by (simp add: never_rewinds_def quiet_bridge_def)

theorem bad_event_never_stalls_witness:
  "fst (handleEvent demo_options quiet_bridge (demo_event 7 Message_dispatch []) (bridge_start demo_bridge)) \<noteq> None
   \<and> 7 \<le> seq_at ''ep'' (cursors (spool_of (events_pass demo_options quiet_bridge ''ep''
        [demo_event 7 Message_dispatch []] (bridge_start demo_bridge))))"
proof -
  have "demo_event 7 Message_dispatch [] \<in> set [demo_event 7 Message_dispatch []]" by simp
  from bad_event_never_stalls[OF quiet_never_rewinds this, of "''ep''" demo_options "bridge_start demo_bridge"]
  have "7 \<le> seq_at ''ep'' (cursors (spool_of (events_pass demo_options quiet_bridge ''ep''
        [demo_event 7 Message_dispatch []] (bridge_start demo_bridge))))" by (simp add: demo_event_def)
  then show ?thesis
    by (simp add: handleEvent_def demo_event_def dispatch_event_def)
qed

section \<open>Dispatches and ended sessions\<close>

text \<open>
  An event that dispatches a message the spool already has changes no
  message, except that one not yet acknowledged by the device may become so; no attempt, reply or
  delegation changes, and it does not count as a task again.
\<close>

theorem redelivery_is_harmless:
  assumes "bw_other w = (\<lambda>_ b. b)" "rv_type ev = Message_dispatch" "rv_data ev = Dispatch_data (Some env) deliveryId"
    and "me_id env \<in> sp_message_id ` set (spool_messages (spool_of t))"
  shows "let s = spool_of t; s' = spool_of (snd (handleEvent O' w ev t))
    in spool_messages s' \<in> {spool_messages s, spool_messages (markDeviceAcked (me_id env) s)}
       \<and> injection_attempts s' = injection_attempts s \<and> outbound_replies s' = outbound_replies s
       \<and> pending_delegations s' = pending_delegations s
       \<and> br_recovery (bk_state (snd (handleEvent O' w ev t))) = br_recovery (bk_state t)"
proof -
  obtain r s1 where store: "storeDispatch ev (spool_of t) = (r, s1)" by fastforce
  have s1: "s1 = spool_of t" "\<forall>i m. r = Some (i, m) \<longrightarrow> \<not> i \<and> sm_messageId m = me_id env"
    using store assms(3,4)
    by (auto simp: storeDispatch_def Let_def insert_or_ignore_def received_row_def getMessage_def mapSpool_def
        dest!: find_SomeD split: if_splits)
  show ?thesis
  proof (cases r)
    case None
    with store s1 show ?thesis
      by (simp add: handleEvent_def assms(2) dispatch_event_def Let_def assms(3) to_spool_def on_bridge_def)
  next
    case (Some im)
    then obtain m where im: "im = (False, m)" "sm_messageId m = me_id env" using s1(2) by (cases im) auto
    have none: "eligible_task b False m now = id" for b now by (simp add: eligible_task_def)
    let ?w = "markDeviceAcked (me_id env) (spool_of t)"
    have "injection_attempts ?w = injection_attempts (spool_of t)" "outbound_replies ?w = outbound_replies (spool_of t)"
      "pending_delegations ?w = pending_delegations (spool_of t)" by (simp_all add: markDeviceAcked_def)
    with store s1 Some im none show ?thesis
      by (simp add: handleEvent_def assms(1,2) dispatch_event_def Let_def assms(3) case_prod_unfold)
  qed
qed


definition demo_envelope :: MessageEnvelope where
  "demo_envelope = \<lparr>me_id = ''m1'', me_clientMessageId = ''x'', me_communicationSessionId = Some ''c1'',
     me_collaborationId = None, me_collaborationTurn = None, me_senderPrincipalId = ''alice'', me_senderDeviceId = None,
     me_target = \<lparr>mt_kind = Runtime_session, mt_principalId = ''bob'', mt_endpointId = Some ''ep'', mt_sessionHandle = Some ''s1''\<rparr>,
     me_kind = Task_invite, me_payload = [], me_replyTo = None, me_correlationId = None, me_sequence = 1,
     me_createdAt = 0, me_expiresAt = 1000\<rparr>"

definition demo_pending :: "string \<Rightarrow> string option \<Rightarrow> PendingDelegation" where
  "demo_pending cid sid = \<lparr>pd_clientMessageId = cid, pd_target = \<lparr>qt_kind = Runtime_session, qt_principalId = ''carol'', qt_targetOfferId = None\<rparr>,
     pd_task = Task_text ''look'', pd_context = None, pd_sessionHandle = ''s1'', pd_correlationId = None,
     pd_requestedTtlMinutes = None, pd_communicationSessionId = sid, pd_messageId = None,
     pd_status = Pd_grant_requested, pd_attemptCount = 0, pd_lastError = None, pd_createdAt = 0, pd_updatedAt = 0,
     pd_expiresAt = 1000\<rparr>"

definition stored_demo :: bridge where
  "stored_demo = demo_bridge\<lparr>br_spool := new_spool\<lparr>spool_messages :=
     [received_row demo_envelope ''d1'' ''c1'' ''s1''],
     pending_delegations := [demo_pending ''p1'' (Some ''c1'')]\<rparr>\<rparr>"

definition demo_dispatch :: RuntimeEvent where
  "demo_dispatch = \<lparr>rv_cursor = 1, rv_type = Message_dispatch, rv_endpointId = ''ep'', rv_createdAt = 0,
     rv_data = Dispatch_data (Some demo_envelope) (Some ''d1'')\<rparr>"

theorem redelivery_is_harmless_witness:
  "map sp_message_id (spool_messages (spool_of (snd (handleEvent demo_options quiet_bridge demo_dispatch
      (bridge_start stored_demo))))) = [''m1'']"
proof -
  have "me_id demo_envelope \<in> sp_message_id ` set (spool_messages (spool_of (bridge_start stored_demo)))"
    by (simp add: stored_demo_def bridge_start_def received_row_def)
  from redelivery_is_harmless[where w = quiet_bridge and ev = demo_dispatch and O' = demo_options, OF _ _ _ this]
  show ?thesis
    by (auto simp: Let_def quiet_bridge_def demo_dispatch_def stored_demo_def bridge_start_def received_row_def
        demo_envelope_def markDeviceAcked_def)
qed


end
