(* ===== verification/Bridge_Promises.thy ===== *)
theory Bridge_Promises
  imports Bridge_Behaviour
begin

text \<open>
  Further guarantees of the bridge: what delegations, policies, replies, sessions and
  heartbeats do on every path (\<^verbatim>\<open>src/bridge/bridge.ts\<close>).
\<close>

section \<open>Delegations\<close>

lemma recordDelegationResult_calls: "bk_calls (recordDelegationResult w result i t) = bk_calls t"
  by (simp add: recordDelegationResult_def Let_def case_prod_unfold split: DelegationResponse.split)

lemma delegation_failed_calls: "bk_calls (delegation_failed w p final message t) = bk_calls t"
  by (simp add: delegation_failed_def Let_def case_prod_unfold)

lemma upsert_key: "(\<And>q. key (f q) = key q) \<Longrightarrow> key r = k \<Longrightarrow> k \<in> key ` set (upsert key f r t)"
  by (auto simp: upsert_def image_update_where)

lemma image_upsert: "(\<And>q. key (f q) = key q) \<Longrightarrow> key ` set (upsert key f r t) = insert (key r) (key ` set t)"
  by (auto simp: upsert_def image_update_where)

lemma stored_delegation_key:
  "sd_clientMessageId d \<in> pd_clientMessageId ` set (pending_delegations (storePendingDelegation d now s))"
  unfolding storePendingDelegation_def by simp (rule upsert_key; simp)

lemma retry_delegation_calls:
  "bk_calls (retry_delegation w p t) = bk_calls t
     @ (if pd_expiresAt p \<le> bw_now w (bk_reads t) then [] else [Delegate_task (delegation_of p)])"
  by (auto simp: retry_delegation_def Let_def case_prod_unfold delegation_failed_calls recordDelegationResult_calls
      split: option.split)

text \<open>
  A pass over the pending delegations sends each of them at most once, in
  their order, and none whose time is over when its turn comes.
\<close>

theorem expired_never_dispatched:
  "\<exists>sent. bk_calls (retryPendingDelegations w sid t) = bk_calls t @ sent
     \<and> subseq sent (map (\<lambda>p. Delegate_task (delegation_of p))
         (filter (\<lambda>p. \<exists>k. bw_now w k < pd_expiresAt p) (listPendingDelegations sid (spool_of t))))"
proof -
  have "\<exists>sent. bk_calls (fold (retry_delegation w) ps u) = bk_calls u @ sent
     \<and> subseq sent (map (\<lambda>p. Delegate_task (delegation_of p)) (filter (\<lambda>p. \<exists>k. bw_now w k < pd_expiresAt p) ps))" for ps u
  proof (induction ps arbitrary: u)
    case (Cons p ps)
    obtain sent where sent: "bk_calls (fold (retry_delegation w) (p # ps) u) = bk_calls (retry_delegation w p u) @ sent"
      "subseq sent (map (\<lambda>p. Delegate_task (delegation_of p)) (filter (\<lambda>p. \<exists>k. bw_now w k < pd_expiresAt p) ps))"
      using Cons.IH[of "retry_delegation w p u"] by auto
    show ?case
    proof (cases "pd_expiresAt p \<le> bw_now w (bk_reads u)")
      case True
      with sent show ?thesis by (auto simp: retry_delegation_calls)
    next
      case False
      then have "\<exists>k. bw_now w k < pd_expiresAt p" by (auto simp: not_le)
      with False sent show ?thesis by (auto simp: retry_delegation_calls)
    qed
  qed simp
  then show ?thesis unfolding retryPendingDelegations_def .
qed

text \<open>
  A delegation that the control plane accepted is recorded with its message and
  session, and is not pending any more: no later pass sends it again.
\<close>

theorem delegated_once:
  assumes "bw_other w = (\<lambda>_ b. b)" "bw_fails w (bk_awaits t) = None"
    and "bw_delegation w (bk_awaits t) = Resp_delegated (pd_clientMessageId p) correlationId sid messageId"
    and "bw_now w (bk_reads t) < pd_expiresAt p"
  shows "let s' = spool_of (retry_delegation w p t)
    in (\<forall>q \<in> set (listPendingDelegations x s'). pd_clientMessageId q \<noteq> pd_clientMessageId p)
     \<and> (\<exists>r \<in> set (pending_delegations s'). pd_clientMessageId r = pd_clientMessageId p \<and> pd_status r = Pd_delegated
          \<and> pd_messageId r = Some messageId \<and> pd_communicationSessionId r = Some sid)"
proof -
  let ?cid = "pd_clientMessageId p" and ?now = "bw_now w (Suc (Suc (bk_reads t)))"
  obtain s1 where s': "spool_of (retry_delegation w p t) = markDelegationDelegated ?cid messageId sid ?now s1"
    and s1: "?cid \<in> pd_clientMessageId ` set (pending_delegations s1)"
  proof -
    let ?d = "stored_delegation (record_of p) ?cid correlationId (Some sid) (Some messageId) Pd_delegated"
    have "spool_of (retry_delegation w p t)
      = markDelegationDelegated ?cid messageId sid ?now (storePendingDelegation ?d (bw_now w (Suc (bk_reads t))) (spool_of t))"
      using assms by (simp add: retry_delegation_def Let_def case_prod_unfold recordDelegationResult_def)
    moreover have "?cid \<in> pd_clientMessageId ` set (pending_delegations (storePendingDelegation ?d now' s))" for now' s
      using stored_delegation_key[of ?d] by (simp add: stored_delegation_def)
    ultimately show thesis using that by blast
  qed
  let ?s' = "spool_of (retry_delegation w p t)"
  have rows: "pending_delegations ?s' = map (\<lambda>r. if pd_clientMessageId r = ?cid
      then r\<lparr>pd_status := Pd_delegated, pd_messageId := Some messageId, pd_communicationSessionId := Some sid,
             pd_lastError := None, pd_updatedAt := ?now\<rparr> else r) (pending_delegations s1)"
    unfolding s' by (simp add: markDelegationDelegated_def update_where_def)
  have "\<forall>r \<in> set (pending_delegations ?s'). pd_clientMessageId r = ?cid \<longrightarrow> pd_status r = Pd_delegated
      \<and> pd_messageId r = Some messageId \<and> pd_communicationSessionId r = Some sid"
    unfolding rows set_map by (intro ballI impI, erule imageE) (simp split: if_splits)
  moreover have "?cid \<in> pd_clientMessageId ` set (pending_delegations ?s')"
    using s1 unfolding rows set_map image_image by (simp add: if_distrib image_iff cong: if_cong)
  ultimately show ?thesis
    unfolding Let_def by (force simp: listPendingDelegations_def mapPendingDelegation_def)
qed

theorem delegated_once_witness:
  "let w = quiet_bridge\<lparr>bw_delegation := (\<lambda>_. Resp_delegated ''p1'' None ''c1'' ''m9'')\<rparr>; t = bridge_start stored_demo
   in listPendingDelegations None (spool_of t) \<noteq> []
      \<and> (\<forall>q \<in> set (listPendingDelegations None (spool_of (retry_delegation w (demo_pending ''p1'' (Some ''c1'')) t))).
           pd_clientMessageId q \<noteq> ''p1'')"
  using delegated_once[of "quiet_bridge\<lparr>bw_delegation := (\<lambda>_. Resp_delegated ''p1'' None ''c1'' ''m9'')\<rparr>"
      "bridge_start stored_demo" "demo_pending ''p1'' (Some ''c1'')" None "''c1''" "''m9''" None]
  by (simp add: Let_def quiet_bridge_def bridge_start_def demo_pending_def stored_demo_def listPendingDelegations_def)

text \<open>One delegation that timed out fails all that wait for the same session, the later ones too.\<close>

lemma timeout_fails_siblings:
  "let late = (demo_pending ''p2'' (Some ''c1''))\<lparr>pd_expiresAt := 5000\<rparr>;
       t = bridge_start (stored_demo\<lparr>br_spool := new_spool\<lparr>pending_delegations := [demo_pending ''p1'' (Some ''c1''), late]\<rparr>\<rparr>);
       w = quiet_bridge\<lparr>bw_now := (\<lambda>_. 2000)\<rparr>
   in map pd_status (pending_delegations (spool_of (retry_delegation w (demo_pending ''p1'' (Some ''c1'')) t))) = [Pd_failed, Pd_failed]"
  by (simp add: Let_def retry_delegation_def delegation_failed_def case_prod_unfold quiet_bridge_def bridge_start_def
      demo_pending_def stored_demo_def markDelegationsFailed_def update_where_def)

text \<open>One that timed out without a session stays pending, and every pass finds it again.\<close>

lemma expired_without_session_stays:
  "let p = demo_pending ''p1'' None; t = bridge_start (stored_demo\<lparr>br_spool := new_spool\<lparr>pending_delegations := [p]\<rparr>\<rparr>);
       w = quiet_bridge\<lparr>bw_now := (\<lambda>_. 2000)\<rparr>
   in map pd_clientMessageId (listPendingDelegations None (spool_of (retry_delegation w p t))) = [''p1'']"
  by (simp add: Let_def retry_delegation_def delegation_failed_def case_prod_unfold quiet_bridge_def bridge_start_def
      demo_pending_def stored_demo_def markDelegationAttempt_def update_where_def listPendingDelegations_def mapPendingDelegation_def)

text \<open>When the adapter fails to release a revoked session, its delegations stay pending.\<close>

lemma unreleased_session_keeps_delegations:
  "let w = quiet_bridge\<lparr>bw_fails := (\<lambda>_. Some (Other_error ''busy''))\<rparr>;
       t' = snd (handleEvent demo_options w (demo_event 2 Comm_revoked_event [(''communicationSessionId'', JStr ''c1'')])
              (bridge_start stored_demo))
   in map pd_clientMessageId (listPendingDelegations (Some ''c1'') (spool_of t')) = [''p1'']"
  by (simp add: Let_def handleEvent_def demo_event_def ended_event_def data_of_def string_member_def member_def invoke_def
      quiet_bridge_def stored_demo_def bridge_start_def blockCommunicationSession_def setGrant_def listPendingDelegations_def
      demo_pending_def mapPendingDelegation_def)

section \<open>Replies\<close>

text \<open>
  A pass sends the pending replies in the order they were stored, each once, and
  stops at the first that fails in a way that may pass; a reply refused for good does not hold
  back the ones behind it.
\<close>

theorem replies_in_order:
  "\<exists>k \<le> length (listPendingOutboundReplies (spool_of t)).
     bk_calls (snd (outbound_pass w t)) = bk_calls t @ map Send_reply (take k (listPendingOutboundReplies (spool_of t)))
     \<and> (k < length (listPendingOutboundReplies (spool_of t)) \<longrightarrow>
          0 < k \<and> (\<exists>e. bw_fails w (bk_awaits t + k - 1) = Some e \<and> \<not> terminal_error [408, 429] e))
     \<and> (\<forall>j. j + 1 < k \<longrightarrow> (\<forall>e. bw_fails w (bk_awaits t + j) = Some e \<longrightarrow> terminal_error [408, 429] e))"
proof -
  let ?ok = "\<lambda>n. \<forall>e. bw_fails w n = Some e \<longrightarrow> terminal_error [408, 429] e"
  have "\<exists>k \<le> length rs. bk_calls (send_replies w rs u) = bk_calls u @ map Send_reply (take k rs)
     \<and> (k < length rs \<longrightarrow> 0 < k \<and> \<not> ?ok (bk_awaits u + k - 1)) \<and> (\<forall>j. j + 1 < k \<longrightarrow> ?ok (bk_awaits u + j))" for rs u
  proof (induction rs arbitrary: u)
    case Nil
    then show ?case by simp
  next
    case (Cons r rs)
    show ?case
    proof (cases "?ok (bk_awaits u)")
      case True
      define v where "v = (let v = snd (invoke w (Send_reply r) u) in case bw_fails w (bk_awaits u) of
          None \<Rightarrow> to_spool (markOutboundSent (or_eventId r)) v
        | Some e \<Rightarrow> to_spool (markOutboundAttempt (or_eventId r) (error_text e) True) v)"
      have v: "send_replies w (r # rs) u = send_replies w rs v" "bk_calls v = bk_calls u @ [Send_reply r]"
        "bk_awaits v = Suc (bk_awaits u)"
        using True by (auto simp: v_def Let_def case_prod_unfold split: option.split)
      obtain k where k: "k \<le> length rs" "bk_calls (send_replies w rs v) = bk_calls v @ map Send_reply (take k rs)"
        "k < length rs \<longrightarrow> 0 < k \<and> \<not> ?ok (bk_awaits v + k - 1)" "\<forall>j. j + 1 < k \<longrightarrow> ?ok (bk_awaits v + j)"
        using Cons.IH[of v] by blast
      have "?ok (bk_awaits u + j)" if "j + 1 < Suc k" for j
        using that True k(4) v(3) by (cases j) auto
      with k v show ?thesis by (intro exI[of _ "Suc k"]) auto
    next
      case False
      then obtain e where "bw_fails w (bk_awaits u) = Some e" "\<not> terminal_error [408, 429] e" by blast
      then have "bk_calls (send_replies w (r # rs) u) = bk_calls u @ map Send_reply (take 1 (r # rs))"
        by (simp add: case_prod_unfold Let_def)
      with False show ?thesis by (intro exI[of _ 1]) auto
    qed
  qed
  from this[of "listPendingOutboundReplies (spool_of t)" t] show ?thesis
    by (simp add: outbound_pass_def Let_def)
qed

definition replying_bridge :: bridge where
  "replying_bridge = demo_bridge\<lparr>br_spool := storeOutboundReply ''e2'' ''c1'' ''x2'' [] ''m1'' ''m1'' None
     (storeOutboundReply ''e1'' ''c1'' ''x1'' [] ''m1'' ''m1'' None new_spool)\<rparr>"

theorem replies_in_order_witness:
  "bk_calls (snd (outbound_pass quiet_bridge (bridge_start replying_bridge)))
     = map Send_reply (listPendingOutboundReplies (spool_of (bridge_start replying_bridge)))
   \<and> map or_eventId (listPendingOutboundReplies (spool_of (bridge_start replying_bridge))) = [''e1'', ''e2'']"
proof -
  have "bw_fails quiet_bridge n = None" "bk_calls (bridge_start b) = []" for n b
    by (simp_all add: quiet_bridge_def bridge_start_def)
  with replies_in_order[of "bridge_start replying_bridge" quiet_bridge] show ?thesis
    by (auto simp: le_less bridge_start_def replying_bridge_def listPendingOutboundReplies_def storeOutboundReply_def
        insert_or_ignore_def new_spool_def mapOutbound_def)
qed

text \<open>
  C20: the turn of a collaboration reply is always well-formed: it answers the
  turn it was asked in, under an id of its own event, as a question exactly when it expects an
  answer; and it does so exactly when the runtime said so in an object with a text and an outcome
  that lets the conversation go on. Anything else is passed on as the text of a final response.
\<close>

theorem collaboration_reply_typed:
  "(let (text, turn) = parseCollaborationRuntimeReply parse rawText eventId parentTurnId
    in ct_parentTurnId turn = Some parentTurnId \<and> ct_clientTurnId turn = ''runtime-turn:'' @ eventId
     \<and> ct_type turn = (if ct_expectsReply turn then Turn_question else Turn_response)
     \<and> ct_expectsReply turn = (\<exists>kvs. parse (trim rawText) = Some (JObj kvs) \<and> map_of kvs ''text'' = Some (JStr text)
          \<and> (map_of kvs ''outcome'' = Some (JStr ''respond'') \<or> map_of kvs ''outcome'' = Some (JStr ''propose_complete''))
          \<and> map_of kvs ''expectsReply'' = Some (JBool True))
     \<and> (text = rawText \<and> ct_outcome turn = Some Respond
        \<or> (\<exists>kvs outcome. parse (trim rawText) = Some (JObj kvs) \<and> map_of kvs ''text'' = Some (JStr text)
             \<and> map_of kvs ''outcome'' = Some (JStr outcome) \<and> map_of reply_outcomes outcome = ct_outcome turn)))"
proof -
  have outcomes: "map_of reply_outcomes v = Some Respond \<longleftrightarrow> v = ''respond''"
    "map_of reply_outcomes v = Some Propose_complete \<longleftrightarrow> v = ''propose_complete''" for v
    by (auto simp: reply_outcomes_def)
  have member: "Option.bind (text_member kvs ''outcome'') (map_of reply_outcomes) = Some x
    \<longleftrightarrow> (\<exists>v. map_of kvs ''outcome'' = Some (JStr v) \<and> map_of reply_outcomes v = Some x)" for kvs x
    by (auto simp: text_member_def member_def split: option.splits json.splits)
  let ?says = "\<lambda>kvs body v x. parse (trim rawText) = Some (JObj kvs) \<and> map_of kvs ''text'' = Some (JStr body)
        \<and> map_of kvs ''outcome'' = Some (JStr v) \<and> map_of reply_outcomes v = Some x"
  have fallback: "parseCollaborationRuntimeReply parse rawText eventId parentTurnId
      = (rawText, reply_turn eventId parentTurnId False Respond)" if none: "\<nexists>kvs body v x. ?says kvs body v x"
  proof (cases "\<exists>kvs body x. parse (trim rawText) = Some (JObj kvs) \<and> map_of kvs ''text'' = Some (JStr body)
      \<and> Option.bind (text_member kvs ''outcome'') (map_of reply_outcomes) = Some x")
    case True
    with none member show ?thesis by blast
  next
    case False
    then show ?thesis
      by (auto simp: parseCollaborationRuntimeReply_def Let_def split: option.split json.split)
  qed
  consider (parsed) kvs body outcome v where "parse (trim rawText) = Some (JObj kvs)" "map_of kvs ''text'' = Some (JStr body)"
      "map_of kvs ''outcome'' = Some (JStr v)" "map_of reply_outcomes v = Some outcome"
    | (other) "parseCollaborationRuntimeReply parse rawText eventId parentTurnId
        = (rawText, reply_turn eventId parentTurnId False Respond)"
      "\<nexists>kvs body v x. ?says kvs body v x"
    using fallback by metis
  then show ?thesis
  proof cases
    case parsed
    then have bind: "Option.bind (text_member kvs ''outcome'') (map_of reply_outcomes) = Some outcome" using member by blast
    have "parseCollaborationRuntimeReply parse rawText eventId parentTurnId = (body, reply_turn eventId parentTurnId
        (outcome \<in> {Respond, Propose_complete} \<and> map_of kvs ''expectsReply'' = Some (JBool True)) outcome)"
      using parsed(1,2) bind by (simp add: parseCollaborationRuntimeReply_def)
    moreover have "outcome = Respond \<longleftrightarrow> v = ''respond''" "outcome = Propose_complete \<longleftrightarrow> v = ''propose_complete''"
      using parsed(4) outcomes[of v] by (metis option.inject)+
    ultimately show ?thesis using parsed by (simp add: reply_turn_def)
  next
    case other
    have "\<not> (\<exists>kvs. parse (trim rawText) = Some (JObj kvs) \<and> map_of kvs ''text'' = Some (JStr rawText)
          \<and> (map_of kvs ''outcome'' = Some (JStr ''respond'') \<or> map_of kvs ''outcome'' = Some (JStr ''propose_complete''))
          \<and> map_of kvs ''expectsReply'' = Some (JBool True))"
      using other(2) outcomes by blast
    with other(1) show ?thesis by (simp add: reply_turn_def)
  qed
qed

text \<open>
  C19: when the event of a reply that is awaited was handled without an
  error, the reply is in the spool; when it was not, the adapter's cursor stays where it was, so
  the event is delivered again; and an event delivered again stores no second reply.
\<close>

theorem reply_stored_before_cursor:
  assumes "\<forall>n b. adapter_cursors (br_spool (bw_other w n b)) = adapter_cursors (br_spool b)"
    and "rs_type ev = Reply" "truthy (rs_inReplyTo ev)"
    and "getMessage (the (rs_inReplyTo ev)) (spool_of t) = Some original" "expects_answer (sm_envelope original)"
    and "text_member (or_else (rs_payload ev) []) ''runtimeEventId'' = Some eventId"
    and "adapter_event O' w nativeHandle serverHandle ev t = (r, t')"
  shows "(case r of
       None \<Rightarrow> eventId \<in> ob_event_id ` set (outbound_replies (spool_of t'))
     | Some e \<Rightarrow> adapter_cursors (spool_of t') = adapter_cursors (spool_of t))
    \<and> (eventId \<in> ob_event_id ` set (outbound_replies (spool_of t)) \<and> bw_other w = (\<lambda>_ b. b)
        \<longrightarrow> outbound_replies (spool_of t') = outbound_replies (spool_of t))"
proof -
  define egress where "egress = (\<lambda>text correlationId. invoke w (Before_egress text (sm_messageId original) correlationId) t)"
  define store where "store = (\<lambda>text correlationId turn. to_spool (storeOutboundReply eventId (sm_communicationSessionId original)
      (''runtime-reply:'' @ serverHandle @ '':'' @ eventId) [(''text'', JStr text), (''source'', JStr (bo_runtime O'))]
      (sm_messageId original) correlationId turn))"
  let ?reply = "map_option (\<lambda>turn. parseCollaborationRuntimeReply (bo_parse O') (reply_text ev) eventId (ct_turnId turn))
      (me_collaborationTurn (sm_envelope original))"
  define body where "body = (case ?reply of None \<Rightarrow> reply_text ev | Some (text, _) \<Rightarrow> text)"
  define correlationId where "correlationId = or_else (rs_correlationId ev)
      (or_else (me_correlationId (sm_envelope original)) (sm_messageId original))"
  define turn where "turn = map_option snd ?reply"
  have answer: "answer_message O' w nativeHandle serverHandle ev original t
      = (case egress body correlationId of (Some e, t) \<Rightarrow> (Some e, t)
         | (None, t) \<Rightarrow> recovery_event w nativeHandle ev (store body correlationId turn t))"
    using assms(6)
    by (simp only: answer_message_def runtime_event_id_def Let_def egress_def store_def body_def correlationId_def turn_def
        option.case prod.case)
  have event: "adapter_event O' w nativeHandle serverHandle ev t
    = (let (failed, t) = answer_message O' w nativeHandle serverHandle ev original t
       in (failed, if failed = None \<and> truthy (rs_cursor ev)
            then to_spool (saveAdapterCursor nativeHandle (the (rs_cursor ev))) t else t))"
    using assms(2-5) by (simp add: adapter_event_def)
  have recovery: "spool_of (snd (recovery_event w nativeHandle ev u)) = spool_of u" for u
    by (simp add: recovery_event_def Let_def case_prod_unfold)
  have replies: "outbound_replies (saveAdapterCursor h c s) = outbound_replies s" for h c s
    by (simp add: saveAdapterCursor_def)
  let ?u = "snd (egress body correlationId)"
  have u: "adapter_cursors (spool_of ?u) = adapter_cursors (spool_of t)"
    "bw_other w = (\<lambda>_ b. b) \<Longrightarrow> spool_of ?u = spool_of t"
    using assms(1) by (simp_all add: egress_def)
  let ?v = "store body correlationId turn ?u"
  have v: "eventId \<in> ob_event_id ` set (outbound_replies (spool_of ?v))"
    "adapter_cursors (spool_of ?v) = adapter_cursors (spool_of ?u)"
    "eventId \<in> ob_event_id ` set (outbound_replies (spool_of ?u)) \<Longrightarrow> outbound_replies (spool_of ?v) = outbound_replies (spool_of ?u)"
    by (auto simp: store_def storeOutboundReply_def insert_or_ignore_def)
  show ?thesis
  proof (cases "fst (egress body correlationId)")
    case (Some e)
    then have "answer_message O' w nativeHandle serverHandle ev original t = (Some e, ?u)"
      unfolding answer by (simp add: case_prod_unfold)
    with event assms(7) have "r = Some e" "t' = ?u" by simp_all
    with u show ?thesis by simp
  next
    case None
    then have "answer_message O' w nativeHandle serverHandle ev original t = recovery_event w nativeHandle ev ?v"
      unfolding answer by (simp add: case_prod_unfold)
    with event assms(7) have r: "r = fst (recovery_event w nativeHandle ev ?v)"
      and t': "t' = (if r = None \<and> truthy (rs_cursor ev)
          then to_spool (saveAdapterCursor nativeHandle (the (rs_cursor ev))) (snd (recovery_event w nativeHandle ev ?v))
          else snd (recovery_event w nativeHandle ev ?v))"
      by (simp_all add: Let_def case_prod_unfold)
    have "outbound_replies (spool_of t') = outbound_replies (spool_of ?v)"
      by (simp add: t' recovery replies)
    moreover have "adapter_cursors (spool_of t') = adapter_cursors (spool_of t)" if "r \<noteq> None"
      using that by (auto simp: t' recovery v(2) u(1))
    ultimately show ?thesis using u v by (auto split: option.split)
  qed
qed

definition demo_reply :: RuntimeSessionEvent where
  "demo_reply = \<lparr>rs_type = Reply, rs_inReplyTo = Some ''m1'', rs_correlationId = None,
     rs_payload = Some [(''text'', JStr ''done''), (''runtimeEventId'', JStr ''e1'')], rs_cursor = Some ''4''\<rparr>"

theorem reply_stored_before_cursor_witness:
  "map ob_event_id (outbound_replies (spool_of (snd (adapter_event demo_options quiet_bridge ''n1'' ''s1'' demo_reply
      (bridge_start stored_demo))))) = [''e1'']"
proof -
  obtain r t' where run: "adapter_event demo_options quiet_bridge ''n1'' ''s1'' demo_reply (bridge_start stored_demo) = (r, t')"
    by fastforce
  have get: "\<exists>original. getMessage ''m1'' (spool_of (bridge_start stored_demo)) = Some original \<and> expects_answer (sm_envelope original)"
    by (simp add: getMessage_def bridge_start_def stored_demo_def received_row_def demo_envelope_def mapSpool_def expects_answer_def)
  have "r = None" "length (outbound_replies (spool_of t')) = 1"
    using run by (auto simp: adapter_event_def demo_reply_def getMessage_def bridge_start_def stored_demo_def received_row_def
        demo_envelope_def mapSpool_def expects_answer_def answer_message_def runtime_event_id_def text_member_def member_def
        Let_def case_prod_unfold invoke_def quiet_bridge_def recovery_event_def handleRuntimeEvent_def findResuming_def demo_bridge_def
        start_task_def storeOutboundReply_def insert_or_ignore_def new_spool_def saveAdapterCursor_def to_spool_def on_bridge_def read_time_def)
  moreover from get obtain original where "getMessage ''m1'' (spool_of (bridge_start stored_demo)) = Some original"
    "expects_answer (sm_envelope original)" by blast
  then have "r = None \<Longrightarrow> ''e1'' \<in> ob_event_id ` set (outbound_replies (spool_of t'))"
    using reply_stored_before_cursor[OF _ _ _ _ _ _ run, of original "''e1''"]
    by (simp add: quiet_bridge_def demo_reply_def text_member_def member_def)
  ultimately show ?thesis using run by (auto simp: length_Suc_conv)
qed

section \<open>Policies\<close>

lemma upsert_grants:
  assumes "upsertTrustedToolPolicy datetime fs now fresh i file = (Inr p, file')" "ui_policyId i = Some pid" "pid \<noteq> []"
  shows "tp_policyId p = pid \<and> tp_status p = Policy_active"
  using assms
  by (auto simp: upsertTrustedToolPolicy_def Let_def same_grant_def granted_policy_def
      dest!: find_SomeD split: if_splits sum.splits option.splits)


definition demo_grant :: "(string \<times> json) list" where
  "demo_grant = [(''policyId'', JStr ''p1''), (''ownerPrincipalId'', JStr ''owner''), (''ownerDeviceId'', JStr ''dev''),
     (''requesterPrincipalId'', JStr ''alice''), (''requesterDeviceId'', JStr ''laptop''), (''canonicalFolder'', JStr ''/w/app''),
     (''accessPreset'', JStr ''read-project''), (''scope'', JStr ''persistent''), (''createdFrom'', JStr ''settings''),
     (''createdBy'', JStr ''owner''), (''revision'', JNum 3)]"


text \<open>
  An update of a relationship whose tool-server grants are malformed
  changes neither the policy nor the pending acknowledgements, and calls nobody: its folders
  and tools are not applied either.
\<close>

theorem malformed_grants_apply_nothing:
  assumes "member data ''mcpServers'' = Some grants"
    and "parseRemoteMcpGrants (pe_url (bo_env O')) (pe_le (bo_env O')) grants = None"
  shows "bk_state (applyRelationshipPolicyUpdate O' w data t) = bk_state t
    \<and> bk_calls (applyRelationshipPolicyUpdate O' w data t) = bk_calls t"
proof (cases "keep_truthy (bo_relationshipPolicyFile O') = None \<or> relationship_update O' data = None")
  case True
  then show ?thesis by (auto simp: applyRelationshipPolicyUpdate_def split: option.split)
next
  case False
  then obtain path i where i: "keep_truthy (bo_relationshipPolicyFile O') = Some path" "relationship_update O' data = Some i" by auto
  then have "rl_mcpServers i = Some grants"
    using assms(1) by (auto simp: relationship_update_def Let_def split: if_splits option.splits)
  with i assms(2) show ?thesis
    by (simp add: applyRelationshipPolicyUpdate_def write_update_def Let_def case_prod_unfold on_bridge_def read_time_def)
qed

definition demo_relationship_update :: "json \<Rightarrow> (string \<times> json) list" where
  "demo_relationship_update grants = [(''principalId'', JStr ''alice''), (''deviceId'', JStr ''laptop''),
     (''preset'', JStr ''read-project''), (''folder'', JStr ''/w/app''), (''mcpServers'', grants)]"

theorem malformed_grants_apply_nothing_witness:
  "br_policyFile (bk_state (applyRelationshipPolicyUpdate demo_options quiet_bridge (demo_relationship_update (JBool True))
      (bridge_start demo_bridge))) = Absent
   \<and> br_policyFile (bk_state (applyRelationshipPolicyUpdate demo_options quiet_bridge (demo_relationship_update (JArr []))
      (bridge_start demo_bridge))) \<noteq> Absent"
proof -
  have "parseRemoteMcpGrants (pe_url (bo_env demo_options)) (pe_le (bo_env demo_options)) (JBool True) = None" by code_simp
  moreover have "member (demo_relationship_update (JBool True)) ''mcpServers'' = Some (JBool True)" by code_simp
  ultimately have "bk_state (applyRelationshipPolicyUpdate demo_options quiet_bridge (demo_relationship_update (JBool True))
      (bridge_start demo_bridge)) = bk_state (bridge_start demo_bridge)"
    using malformed_grants_apply_nothing by blast
  moreover have "br_policyFile (bk_state (applyRelationshipPolicyUpdate demo_options quiet_bridge (demo_relationship_update (JArr []))
      (bridge_start demo_bridge))) \<noteq> Absent" by code_simp
  ultimately show ?thesis by (simp add: bridge_start_def demo_bridge_def)
qed

section \<open>Sessions and heartbeats\<close>

lemma saved_mapping:
  "mp_native_handle ` set (session_mappings (saveSessionMapping n h l s)) = insert n (mp_native_handle ` set (session_mappings s))"
  unfolding saveSessionMapping_def by (simp add: image_upsert)

text \<open>
  After a start the stored mappings are those of the sessions the adapter has,
  and every session it no longer has was reported as closed.
\<close>

theorem sessions_reconciled:
  assumes "\<forall>n b. session_mappings (br_spool (bw_other w n b)) = session_mappings (br_spool b)"
    and "reconcile_sessions w sessions t = (None, t')"
  shows "mp_native_handle ` set (session_mappings (spool_of t')) = se_sessionHandle ` set sessions
    \<and> (\<forall>m \<in> set (session_mappings (spool_of t)). mp_native_handle m \<notin> se_sessionHandle ` set sessions
         \<longrightarrow> Update_session (mp_server_handle m) Closed False \<in> set (bk_calls t'))"
proof -
  let ?A = "se_sessionHandle ` set sessions" and ?maps = "\<lambda>t. session_mappings (spool_of t)"
  let ?N = "\<lambda>t. mp_native_handle ` set (?maps t)"
  have drop: "?N (fold (drop_stale w ?A) ms u) = ?N u - {n \<in> mp_native_handle ` set ms. n \<notin> ?A}
      \<and> set (bk_calls u) \<subseteq> set (bk_calls (fold (drop_stale w ?A) ms u))
      \<and> (\<forall>m \<in> set ms. mp_native_handle m \<notin> ?A
           \<longrightarrow> Update_session (mp_server_handle m) Closed False \<in> set (bk_calls (fold (drop_stale w ?A) ms u)))" for ms u
  proof (induction ms arbitrary: u)
    case (Cons m ms)
    let ?u = "drop_stale w ?A m u"
    have "?N ?u = ?N u - {n. n = mp_native_handle m \<and> n \<notin> ?A}"
      using assms(1) by (auto simp: drop_stale_def deleteSessionMapping_def)
    moreover have "set (bk_calls u) \<subseteq> set (bk_calls ?u)"
      "mp_native_handle m \<notin> ?A \<Longrightarrow> Update_session (mp_server_handle m) Closed False \<in> set (bk_calls ?u)"
      by (auto simp: drop_stale_def)
    ultimately show ?case using Cons[of ?u] by auto
  qed simp
  have bind: "?N v = insert (se_sessionHandle d) (?N u) \<and> set (bk_calls u) \<subseteq> set (bk_calls v)"
    if "bind_session w d u = (None, v)" for d u v
  proof -
    let ?h = "keep_truthy (map_option fst (getSessionMapping (se_sessionHandle d) (spool_of u)))"
    let ?kept = "snd (invoke w (Update_session (the ?h) (se_state d) (se_allowInbound d)) u)"
    define x where "x = (if ?h = None then u else ?kept)"
    have x: "?maps x = ?maps u" "set (bk_calls u) \<subseteq> set (bk_calls x)" using assms(1) by (auto simp: x_def)
    show ?thesis
    proof (cases "?h \<noteq> None \<and> bw_fails w (bk_awaits u) = None")
      case True
      then have "se_sessionHandle d \<in> ?N u"
        by (auto simp: getSessionMapping_def keep_truthy_def image_iff dest!: find_SomeD split: if_splits)
          (metis (mono_tags))
      moreover have "?maps v = ?maps x" "bk_calls v = bk_calls x"
        using that True by (auto simp: bind_session_def Let_def case_prod_unfold x_def)
      ultimately show ?thesis using x by (simp add: insert_absorb)
    next
      case False
      let ?y = "snd (invoke w (Register_session (se_label d) (if se_state d = Closed then Idle else se_state d)
          (se_allowInbound d \<and> se_state d \<noteq> Closed)) x)"
      have "spool_of v = saveSessionMapping (se_sessionHandle d) (bw_registered w (bk_awaits x)) (se_label d) (spool_of ?y)"
        "bk_calls v = bk_calls ?y"
        using that False by (auto simp: bind_session_def Let_def case_prod_unfold x_def split: option.splits)
      moreover have "?maps ?y = ?maps u" using x(1) assms(1) by simp
      ultimately show ?thesis using x(2) by (auto simp: saved_mapping simp del: invoke_simps(2))
    qed
  qed
  have all: "?N v = ?N u \<union> se_sessionHandle ` set ds \<and> set (bk_calls u) \<subseteq> set (bk_calls v)"
    if "throwing (bind_session w) ds u = (None, v)" for ds u v
    using that
  proof (induction ds arbitrary: u)
    case (Cons d ds)
    then obtain u1 where u1: "bind_session w d u = (None, u1)" "throwing (bind_session w) ds u1 = (None, v)"
      by (auto split: prod.splits option.splits)
    from bind[OF u1(1)] Cons.IH[OF u1(2)] show ?case by auto
  qed simp
  let ?ms = "listSessionMappings (spool_of t)"
  have ms: "set ?ms = set (?maps t)" by (simp add: listSessionMappings_def)
  from all[OF assms(2)[unfolded reconcile_sessions_def]] drop[of ?ms t] ms show ?thesis by auto
qed

theorem sessions_reconciled_witness:
  "let sessions = [\<lparr>se_sessionHandle = ''n2'', se_label = ''main'', se_state = Idle, se_allowInbound = True\<rparr>];
       t = bridge_start (demo_bridge\<lparr>br_spool := saveSessionMapping ''n1'' ''s1'' ''old'' new_spool\<rparr>);
       (r, t') = reconcile_sessions quiet_bridge sessions t
   in r = None \<and> mp_native_handle ` set (session_mappings (spool_of t')) = {''n2''}
      \<and> Update_session ''s1'' Closed False \<in> set (bk_calls t')"
proof -
  let ?sessions = "[\<lparr>se_sessionHandle = ''n2'', se_label = ''main'', se_state = Idle, se_allowInbound = True\<rparr>]"
  let ?t = "bridge_start (demo_bridge\<lparr>br_spool := saveSessionMapping ''n1'' ''s1'' ''old'' new_spool\<rparr>)"
  obtain r t' where run: "reconcile_sessions quiet_bridge ?sessions ?t = (r, t')" by fastforce
  then have "fst (reconcile_sessions quiet_bridge ?sessions ?t) = r" by simp
  moreover have "fst (reconcile_sessions quiet_bridge ?sessions ?t) = None"
    by (simp add: reconcile_sessions_def bind_session_def Let_def case_prod_unfold quiet_bridge_def split: option.split)
  ultimately have "r = None" by simp
  moreover have "session_mappings (spool_of ?t) = [\<lparr>mp_native_handle = ''n1'', mp_server_handle = ''s1'', mp_label = ''old''\<rparr>]"
    by (simp add: bridge_start_def saveSessionMapping_def new_spool_def upsert_def)
  ultimately show ?thesis
    using sessions_reconciled[of quiet_bridge ?sessions ?t t'] run
    by (simp add: Let_def quiet_bridge_def)
qed

text \<open>The notices of a run of heartbeats, and what alternating means; a degraded beat is neither.\<close>

fun heartbeats :: "bridge_options \<Rightarrow> bridge_world \<Rightarrow> int list \<Rightarrow> bool \<Rightarrow> bridge_task \<Rightarrow> notice list" where
  "heartbeats O' w [] reported t = []"
| "heartbeats O' w (lag # lags) reported t =
     (case heartbeat_pass O' w lag reported t of
        (None, t) \<Rightarrow> []
      | (Some (notices, reported), t) \<Rightarrow> notices @ heartbeats O' w lags reported t)"

fun alternates :: "bool \<Rightarrow> notice list \<Rightarrow> bool" where
  "alternates reported [] = True"
| "alternates reported (Log_degraded # ns) = alternates reported ns"
| "alternates reported (Log_unhealthy # ns) = (\<not> reported \<and> alternates True ns)"
| "alternates reported (Log_healthy # ns) = (reported \<and> alternates False ns)"

text \<open>
  However heartbeats fail and succeed, the operator is told that the
  bridge is unhealthy once, then that it is healthy again, and so on in turn.
\<close>

theorem health_notices_alternate: "alternates reported (heartbeats O' w lags reported t)"
proof (induction lags arbitrary: reported t)
  case (Cons lag lags)
  show ?case
  proof (cases "heartbeat_pass O' w lag reported t")
    case (Pair r t1)
    show ?thesis
    proof (cases r)
      case None
      with Pair show ?thesis by simp
    next
      case (Some nr)
      then obtain status succeeded where "nr = beat_notices status succeeded reported"
        using Pair by (auto simp: heartbeat_pass_def Let_def case_prod_unfold split: option.splits if_splits)
      with Pair Some Cons show ?thesis
        by (auto simp: beat_notices_def case_prod_unfold)
    qed
  qed
qed simp

end
