(* ===== verification/Safe_Git.thy ===== *)
theory Safe_Git
  imports Approvals
begin

text \<open>
  The few git commands a peer may run (\<^verbatim>\<open>src/security/safe-git.ts\<close>): the reading of a command
  line, the operations built from it, and how they are run or written as a shell command.
  The file system and the git program answer as a \<open>git_world\<close>; the platform is POSIX.
\<close>

section \<open>Operations\<close>

datatype GitToolName = GitStatus | GitDiff | GitLog | GitAdd | GitCommit

fun git_tool_text :: "GitToolName \<Rightarrow> string" where
  "git_tool_text GitStatus = ''GitStatus''"
| "git_tool_text GitDiff = ''GitDiff''"
| "git_tool_text GitLog = ''GitLog''"
| "git_tool_text GitAdd = ''GitAdd''"
| "git_tool_text GitCommit = ''GitCommit''"

record SafeGitOperation =
  sg_toolName :: GitToolName
  sg_repository :: string
  sg_args :: "string list"
  sg_summary :: string

definition operation :: "GitToolName \<Rightarrow> string \<Rightarrow> string list \<Rightarrow> SafeGitOperation" where
  "operation toolName repository args =
     \<lparr>sg_toolName = toolName, sg_repository = repository, sg_args = args,
      sg_summary = git_tool_text toolName @ '' '' @ repository\<rparr>"

definition isGitToolName :: "string \<Rightarrow> bool" where
  "isGitToolName v = (v \<in> {''GitStatus'', ''GitDiff'', ''GitLog'', ''GitAdd'', ''GitCommit''})"

section \<open>Words of a command line\<close>

abbreviation single_quote :: char where "single_quote \<equiv> CHR 0x27"
abbreviation double_quote :: char where "double_quote \<equiv> CHR 0x22"
abbreviation backslash :: char where "backslash \<equiv> CHR 0x5C"

definition FORBIDDEN_SHELL_CHARACTERS :: "char set" where
  "FORBIDDEN_SHELL_CHARACTERS =
     {CHR 0x0A, CHR 0x0D, CHR '';'', CHR ''&'', CHR ''|'', CHR ''<'', CHR ''>'', CHR 0x60, CHR ''$''}"

record scanner =
  sc_tokens :: "string list"
  sc_token :: string
  sc_quote :: "char option"
  sc_escaped :: bool
  sc_started :: bool

definition scan_char :: "char \<Rightarrow> scanner \<Rightarrow> scanner" where
  "scan_char c s =
     (if sc_escaped s then s\<lparr>sc_token := sc_token s @ [c], sc_escaped := False, sc_started := True\<rparr>
      else if c = backslash \<and> sc_quote s \<noteq> Some single_quote then s\<lparr>sc_escaped := True, sc_started := True\<rparr>
      else case sc_quote s of
        Some q \<Rightarrow> (if c = q then s\<lparr>sc_quote := None, sc_started := True\<rparr>
                   else s\<lparr>sc_token := sc_token s @ [c], sc_started := True\<rparr>)
      | None \<Rightarrow>
          if c = single_quote \<or> c = double_quote then s\<lparr>sc_quote := Some c, sc_started := True\<rparr>
          else if js_space c
          then (if sc_started s then s\<lparr>sc_tokens := sc_tokens s @ [sc_token s], sc_token := [], sc_started := False\<rparr> else s)
          else s\<lparr>sc_token := sc_token s @ [c], sc_started := True\<rparr>)"

definition new_scanner :: scanner where
  "new_scanner = \<lparr>sc_tokens = [], sc_token = [], sc_quote = None, sc_escaped = False, sc_started = False\<rparr>"

definition tokenize :: "string \<Rightarrow> string list option" where
  "tokenize command =
     (let s = fold scan_char (trim command) new_scanner
      in if sc_escaped s \<or> sc_quote s \<noteq> None then None
         else Some (sc_tokens s @ (if sc_started s then [sc_token s] else [])))"

section \<open>What may be asked\<close>

definition isStatusArgument :: "string \<Rightarrow> bool" where
  "isStatusArgument v = (v \<in> {''--short'', ''--branch'', ''-b'', ''--porcelain'', ''--porcelain=v1'', ''--porcelain=v2'',
     ''--untracked-files=no'', ''--untracked-files=normal'', ''--untracked-files=all''})"

text \<open>\<^verbatim>\<open>/^\.\.(?:[\\/]|$)/\<close>.\<close>

definition climbs :: "string \<Rightarrow> bool" where
  "climbs v = (v = ''..'' \<or> prefix ''../'' v \<or> prefix (''..'' @ [backslash]) v)"

definition isSafeRelativePath :: "string \<Rightarrow> bool" where
  "isSafeRelativePath v = (v \<noteq> [] \<and> \<not> isAbsolute v \<and> \<not> climbs v \<and> \<not> prefix ''-'' v)"

fun safe_diff_arguments :: "bool \<Rightarrow> string list \<Rightarrow> bool" where
  "safe_diff_arguments paths [] = True"
| "safe_diff_arguments paths (v # vs) =
     (if paths then isSafeRelativePath v \<and> safe_diff_arguments True vs
      else if v = ''--'' then safe_diff_arguments True vs
      else v \<in> {''--staged'', ''--cached'', ''--stat'', ''--name-only'', ''--name-status''}
           \<and> safe_diff_arguments False vs)"

definition isSafeDiffArguments :: "string list \<Rightarrow> bool" where
  "isSafeDiffArguments args = safe_diff_arguments False args"

text \<open>\<^verbatim>\<open>\d{1,3}\<close>.\<close>

definition short_number :: "string \<Rightarrow> bool" where
  "short_number s = (1 \<le> length s \<and> length s \<le> 3 \<and> list_all is_digit s)"

definition max_count_option :: "string \<Rightarrow> bool" where
  "max_count_option v = (prefix ''--max-count='' v \<and> short_number (drop (length ''--max-count='') v))"

fun isSafeLogArguments :: "string list \<Rightarrow> bool" where
  "isSafeLogArguments [] = True"
| "isSafeLogArguments (v # vs) =
     (if v \<in> {''--oneline'', ''--decorate'', ''--stat''} then isSafeLogArguments vs
      else if max_count_option v then isSafeLogArguments vs
      else case vs of n # ws \<Rightarrow> v = ''-n'' \<and> short_number n \<and> isSafeLogArguments ws | [] \<Rightarrow> False)"

definition after_marker :: "string list \<Rightarrow> string list" where
  "after_marker args = (case args of a # r \<Rightarrow> if a = ''--'' then r else args | [] \<Rightarrow> [])"

definition isSafeAddArguments :: "string list \<Rightarrow> bool" where
  "isSafeAddArguments args = (after_marker args \<noteq> [] \<and> list_all isSafeRelativePath (after_marker args))"

definition git_subcommand :: "string \<Rightarrow> string list \<Rightarrow> SafeGitOperation option" where
  "git_subcommand repository words =
     (case words of
        [] \<Rightarrow> None
      | subcommand # rest \<Rightarrow>
          if subcommand = ''status'' \<and> list_all isStatusArgument rest
          then Some (operation GitStatus repository (''status'' # rest))
          else if subcommand = ''diff'' \<and> isSafeDiffArguments rest
          then Some (operation GitDiff repository ([''diff'', ''--no-ext-diff'', ''--no-textconv''] @ rest))
          else if subcommand = ''log'' \<and> isSafeLogArguments rest
          then Some (operation GitLog repository (''log'' # rest))
          else if subcommand = ''add'' \<and> isSafeAddArguments rest
          then Some (operation GitAdd repository ([''add'', ''--''] @ after_marker rest))
          else case rest of
            [flag, message] \<Rightarrow>
              if subcommand = ''commit'' \<and> flag = ''-m'' \<and> trim message \<noteq> []
              then Some (operation GitCommit repository [''commit'', ''--no-verify'', ''--no-gpg-sign'', ''-m'', message])
              else None
          | _ \<Rightarrow> None)"

definition parseSafeGitCommand :: "string \<Rightarrow> string \<Rightarrow> SafeGitOperation option" where
  "parseSafeGitCommand command cwd =
     (if trim command = [] \<or> list_ex (\<lambda>c. c \<in> FORBIDDEN_SHELL_CHARACTERS) command then None
      else case tokenize command of
        None \<Rightarrow> None
      | Some [] \<Rightarrow> None
      | Some (program # words) \<Rightarrow>
          if program \<noteq> ''git'' then None
          else case words of
            flag # rest \<Rightarrow>
              if flag = ''-C''
              then (case rest of
                      [] \<Rightarrow> None
                    | requested # words \<Rightarrow>
                        if requested = [] then None
                        else git_subcommand (if isAbsolute requested then requested else resolve cwd requested) words)
              else git_subcommand cwd words
          | [] \<Rightarrow> None)"

record SafeGitInput =
  gi_toolName :: GitToolName
  gi_repository :: string
  gi_staged :: bool
  gi_paths :: "string list option"
  gi_maxCount :: "int option"
  gi_message :: "string option"

definition cleanPaths :: "string list option \<Rightarrow> string list option" where
  "cleanPaths paths =
     (case paths of
        None \<Rightarrow> Some []
      | Some ps \<Rightarrow>
         (let clean = filter (\<lambda>p. p \<noteq> []) (map trim ps)
          in if length clean = length ps \<and> list_all isSafeRelativePath clean then Some clean else None))"

definition safeGitOperation :: "SafeGitInput \<Rightarrow> SafeGitOperation option" where
  "safeGitOperation input =
     (let repository = gi_repository input in
      case gi_toolName input of
        GitStatus \<Rightarrow> Some (operation GitStatus repository [''status'', ''--short'', ''--branch''])
      | GitDiff \<Rightarrow>
         (case cleanPaths (gi_paths input) of
            None \<Rightarrow> None
          | Some paths \<Rightarrow> Some (operation GitDiff repository
              ([''diff'', ''--no-ext-diff'', ''--no-textconv'']
               @ (if gi_staged input then [''--staged''] else [])
               @ (if paths = [] then [] else ''--'' # paths))))
      | GitLog \<Rightarrow>
         (let maxCount = min (max (or_else (gi_maxCount input) 20) 1) 100
          in Some (operation GitLog repository
               [''log'', ''--no-ext-diff'', ''--no-textconv'', ''--oneline'', ''--max-count='' @ dec_int maxCount]))
      | GitAdd \<Rightarrow>
         (case cleanPaths (gi_paths input) of
            None \<Rightarrow> None
          | Some paths \<Rightarrow> if paths = [] then None else Some (operation GitAdd repository ([''add'', ''--''] @ paths)))
      | GitCommit \<Rightarrow>
         (case map_option trim (gi_message input) of
            None \<Rightarrow> None
          | Some message \<Rightarrow>
              if message = [] \<or> 500 < length message \<or> CHR 0x0A \<in> set message \<or> CHR 0x0D \<in> set message then None
              else Some (operation GitCommit repository [''commit'', ''--no-verify'', ''--no-gpg-sign'', ''-m'', message])))"

section \<open>Running them\<close>

datatype file_mode = Regular bool | Not_regular

text \<open>
  \<open>gw_mode\<close> is \<^verbatim>\<open>lstatSync\<close>: a regular file, with whether it is executable, or something else;
  \<open>None\<close> when it throws. \<open>gw_run k\<close> is the output of the \<open>k\<close>th git process, or its failure.
\<close>

record git_world =
  gw_realpath :: "string \<Rightarrow> realpath_result"
  gw_cwd :: string
  gw_mode :: "string \<Rightarrow> file_mode option"
  gw_run :: "nat \<Rightarrow> string + string"

definition canonical_repository :: "git_world \<Rightarrow> string \<Rightarrow> string + string" where
  "canonical_repository w p = (case gw_realpath w (resolve (gw_cwd w) p) of Real r \<Rightarrow> Inr r | _ \<Rightarrow> Inl ''realpath'')"

definition outside_repository :: "git_world \<Rightarrow> string \<Rightarrow> string \<Rightarrow> bool" where
  "outside_repository w repository p =
     (p \<noteq> ''.'' \<and>
      (let rel = relative_path (gw_cwd w) repository (resolve repository p)
       in rel = [] \<or> rel = ''..'' \<or> prefix ''../'' rel \<or> isAbsolute rel))"

fun marked_paths :: "string list \<Rightarrow> string list" where
  "marked_paths [] = []"
| "marked_paths (a # as) = (if a = ''--'' then as else marked_paths as)"

definition validatePathArguments :: "git_world \<Rightarrow> string \<Rightarrow> SafeGitOperation \<Rightarrow> string + unit" where
  "validatePathArguments w repository op =
     (if list_ex (outside_repository w repository) (marked_paths (sg_args op))
      then Inl ''Git path is outside the approved repository'' else Inr ())"

definition safeFileMode :: "git_world \<Rightarrow> string \<Rightarrow> string \<Rightarrow> string + string" where
  "safeFileMode w repository p =
     (case gw_mode w (resolve repository p) of
        Some (Regular executable) \<Rightarrow> Inr (if executable then ''100755'' else ''100644'')
      | Some Not_regular \<Rightarrow> Inl ''GitAdd supports regular files only''
      | None \<Rightarrow> Inl ''lstat'')"

definition secureGitPrefix :: "string \<Rightarrow> string list" where
  "secureGitPrefix repository =
     [''-c'', ''core.hooksPath=/dev/null'', ''-c'', ''core.fsmonitor=false'', ''-c'', ''core.pager=cat'',
      ''-c'', ''diff.external='', ''-C'', repository]"

definition gitEnvironment :: "GitToolName \<Rightarrow> (string \<times> string) list" where
  "gitEnvironment toolName =
     [(''GIT_CONFIG_NOSYSTEM'', ''1''), (''GIT_CONFIG_GLOBAL'', ''/dev/null''),
      (''GIT_OPTIONAL_LOCKS'', if toolName \<in> {GitStatus, GitDiff, GitLog} then ''0'' else ''1''),
      (''GIT_TERMINAL_PROMPT'', ''0'')]"

text \<open>The git processes started so far, each with its arguments and environment.\<close>

type_synonym git_runs = "(string list \<times> (string \<times> string) list) list"

definition run_git :: "git_world \<Rightarrow> string list \<Rightarrow> GitToolName \<Rightarrow> git_runs \<Rightarrow> (string + string) \<times> git_runs" where
  "run_git w args toolName runs = (gw_run w (length runs), runs @ [(args, gitEnvironment toolName)])"

fun stageFilesWithoutFilters :: "git_world \<Rightarrow> string \<Rightarrow> string list \<Rightarrow> git_runs \<Rightarrow> (string + string) \<times> git_runs" where
  "stageFilesWithoutFilters w repository [] runs = (Inr [], runs)"
| "stageFilesWithoutFilters w repository (p # ps) runs =
     (case safeFileMode w repository p of
        Inl e \<Rightarrow> (Inl e, runs)
      | Inr mode \<Rightarrow>
         (case run_git w (secureGitPrefix repository @ [''hash-object'', ''-w'', ''--no-filters'', ''--'', p]) GitAdd runs of
            (Inl e, runs) \<Rightarrow> (Inl e, runs)
          | (Inr output, runs) \<Rightarrow>
             (case run_git w (secureGitPrefix repository
                 @ [''update-index'', ''--add'', ''--cacheinfo'', mode @ '','' @ trim output @ '','' @ p]) GitAdd runs of
                (Inl e, runs) \<Rightarrow> (Inl e, runs)
              | (Inr _, runs) \<Rightarrow> stageFilesWithoutFilters w repository ps runs)))"

definition executeSafeGit :: "git_world \<Rightarrow> SafeGitOperation \<Rightarrow> (string + string) \<times> git_runs" where
  "executeSafeGit w op =
     (case canonical_repository w (sg_repository op) of
        Inl e \<Rightarrow> (Inl e, [])
      | Inr repository \<Rightarrow>
         (case validatePathArguments w repository op of
            Inl e \<Rightarrow> (Inl e, [])
          | Inr _ \<Rightarrow>
              if sg_toolName op = GitAdd then stageFilesWithoutFilters w repository (drop 2 (sg_args op)) []
              else (case run_git w (secureGitPrefix repository @ sg_args op) (sg_toolName op) [] of
                      (Inl e, runs) \<Rightarrow> (Inl e, runs)
                    | (Inr output, runs) \<Rightarrow> (Inr (take 128000 output), runs))))"

section \<open>As a shell command\<close>

definition shellQuote :: "string \<Rightarrow> string" where
  "shellQuote v = single_quote
     # concat (map (\<lambda>c. if c = single_quote then [single_quote, double_quote, single_quote, double_quote, single_quote] else [c]) v)
     @ [single_quote]"

definition shellEnvironment :: string where
  "shellEnvironment = join '' '' (map (\<lambda>(name, v). name @ ''='' @ shellQuote v)
     [(''GIT_CONFIG_NOSYSTEM'', ''1''), (''GIT_CONFIG_GLOBAL'', ''/dev/null''), (''GIT_TERMINAL_PROMPT'', ''0'')])"

definition gitShell :: "string \<Rightarrow> string list \<Rightarrow> string" where
  "gitShell repository args =
     shellEnvironment @ '' '' @ join '' '' (map shellQuote (''git'' # secureGitPrefix repository @ args))"

definition stage_command :: "string \<Rightarrow> string \<Rightarrow> string \<Rightarrow> string" where
  "stage_command repository mode p =
     ''oid=$('' @ gitShell repository [''hash-object'', ''-w'', ''--no-filters'', ''--'', p] @ '') && ''
     @ shellEnvironment @ '' ''
     @ join '' '' (map shellQuote (''git'' # secureGitPrefix repository @ [''update-index'', ''--add'', ''--cacheinfo'', mode]))
     @ '' '' @ [double_quote] @ ''$oid'' @ [double_quote] @ '' '' @ shellQuote p"

definition safeGitShellInput :: "git_world \<Rightarrow> SafeGitOperation \<Rightarrow> string + string" where
  "safeGitShellInput w op =
     (case canonical_repository w (sg_repository op) of
        Inl e \<Rightarrow> Inl e
      | Inr repository \<Rightarrow>
         (case validatePathArguments w repository op of
            Inl e \<Rightarrow> Inl e
          | Inr _ \<Rightarrow>
              if sg_toolName op = GitAdd
              then (case traverse (\<lambda>p. case safeFileMode w repository p of
                        Inl e \<Rightarrow> Inl e | Inr mode \<Rightarrow> Inr (stage_command repository mode p)) (drop 2 (sg_args op)) of
                      Inl e \<Rightarrow> Inl e
                    | Inr commands \<Rightarrow> Inr (join '' && '' (map (\<lambda>c. ''('' @ c @ '')'') commands)))
              else Inr (gitShell repository (sg_args op))))"

section \<open>The words of a quoted line\<close>

definition between_words :: "scanner \<Rightarrow> bool" where
  "between_words s = (sc_quote s = None \<and> \<not> sc_escaped s)"

text \<open>A text that the scanner reads as the letters \<open>v\<close> of the word it is in.\<close>

definition scans :: "string \<Rightarrow> string \<Rightarrow> bool" where
  "scans x v = (\<forall>s. between_words s \<longrightarrow> fold scan_char x s = s\<lparr>sc_token := sc_token s @ v, sc_started := True\<rparr>)"

lemma between_words_letters [simp]:
  "between_words (s\<lparr>sc_token := t, sc_started := b\<rparr>) = between_words s"
  by (simp add: between_words_def)

lemma scans_append: "scans x v \<Longrightarrow> scans y u \<Longrightarrow> scans (x @ y) (v @ u)"
  by (simp add: scans_def)

lemma scans_letter:
  assumes "c \<noteq> backslash" "c \<noteq> single_quote" "c \<noteq> double_quote" "\<not> js_space c"
  shows "scans [c] [c]"
  using assms by (simp add: scans_def between_words_def scan_char_def)

lemma scans_letters:
  assumes "v \<noteq> []" "\<forall>c \<in> set v. c \<noteq> backslash \<and> c \<noteq> single_quote \<and> c \<noteq> double_quote \<and> \<not> js_space c"
  shows "scans v v"
  using assms
proof (induction v)
  case (Cons c v)
  then show ?case
    using scans_letter[of c] scans_append[of "[c]" "[c]" v v] by (cases "v = []") auto
qed simp

lemma quoted_letters:
  "sc_quote s = Some single_quote \<Longrightarrow> \<not> sc_escaped s \<Longrightarrow> sc_started s \<Longrightarrow>
   fold scan_char (concat (map (\<lambda>c. if c = single_quote
       then [single_quote, double_quote, single_quote, double_quote, single_quote] else [c]) v)) s
     = s\<lparr>sc_token := sc_token s @ v\<rparr>"
  by (induction v arbitrary: s) (simp_all add: scan_char_def)

lemma scans_shellQuote: "scans (shellQuote v) v"
proof (unfold scans_def, intro allI impI)
  fix s assume "between_words s"
  then have "scan_char single_quote s = s\<lparr>sc_quote := Some single_quote, sc_started := True\<rparr>" "sc_quote s = None" "\<not> sc_escaped s"
    by (simp_all add: between_words_def scan_char_def)
  then show "fold scan_char (shellQuote v) s = s\<lparr>sc_token := sc_token s @ v, sc_started := True\<rparr>"
    by (simp add: shellQuote_def quoted_letters) (simp add: scan_char_def)
qed

lemma scan_line:
  assumes "list_all2 scans xs vs" "xs \<noteq> []" "between_words s" "sc_token s = []" "\<not> sc_started s"
  shows "fold scan_char (join '' '' xs) s
    = s\<lparr>sc_tokens := sc_tokens s @ butlast vs, sc_token := last vs, sc_started := True\<rparr>"
  using assms
proof (induction xs arbitrary: vs s)
  case (Cons x xs)
  then obtain v us where vs: "vs = v # us" "scans x v" "list_all2 scans xs us" by (auto simp: list_all2_Cons1)
  have x: "fold scan_char x s = s\<lparr>sc_token := v, sc_started := True\<rparr>"
    using vs(2) Cons.prems(3,4) by (simp add: scans_def)
  show ?case
  proof (cases "xs = []")
    case False
    let ?s = "s\<lparr>sc_tokens := sc_tokens s @ [v], sc_token := [], sc_started := False\<rparr>"
    have "scan_char CHR '' '' (s\<lparr>sc_token := v, sc_started := True\<rparr>) = ?s"
      using Cons.prems(3) by (simp add: scan_char_def between_words_def js_space_def)
    moreover have "fold scan_char (join '' '' xs) ?s
      = ?s\<lparr>sc_tokens := sc_tokens ?s @ butlast us, sc_token := last us, sc_started := True\<rparr>"
      using Cons.IH[OF vs(3) False, of ?s] Cons.prems(3) by (simp add: between_words_def)
    moreover have "us \<noteq> []" using vs(3) False by auto
    ultimately show ?thesis using False by (simp add: join_Cons x vs(1))
  qed (use vs x in simp)
qed simp

lemma trim_plain:
  assumes "s \<noteq> []" "\<not> js_space (hd s)" "\<not> js_space (last s)"
  shows "trim s = s"
proof -
  have "dropWhile js_space s = s" using assms by (cases s) auto
  moreover have "dropWhile js_space (rev s) = rev s" using assms by (cases "rev s") (auto simp: hd_rev[symmetric])
  ultimately show ?thesis by (simp add: trim_def)
qed

lemma tokenize_line:
  assumes "list_all2 scans xs vs" "xs \<noteq> []" "\<not> js_space (hd (join '' '' xs))" "\<not> js_space (last (join '' '' xs))"
    and "join '' '' xs \<noteq> []"
  shows "tokenize (join '' '' xs) = Some vs"
proof -
  have "vs \<noteq> []" using assms(1,2) by auto
  then show ?thesis
    using scan_line[OF assms(1,2), of new_scanner] assms(3-5)
    by (simp add: tokenize_def trim_plain between_words_def new_scanner_def Let_def)
qed

lemma last_join: "xs \<noteq> [] \<Longrightarrow> last xs \<noteq> [] \<Longrightarrow> join sep xs \<noteq> [] \<and> last (join sep xs) = last (last xs)"
  by (induction sep xs rule: join.induct) (auto split: if_splits)

lemma hd_join: "xs \<noteq> [] \<Longrightarrow> hd xs \<noteq> [] \<Longrightarrow> hd (join sep xs) = hd (hd xs)"
  by (induction sep xs rule: join.induct) auto

lemma join_Nil_iff: "xs \<noteq> [] \<Longrightarrow> hd xs \<noteq> [] \<Longrightarrow> join sep xs \<noteq> []"
  by (induction sep xs rule: join.induct) auto

lemma shellQuote_ends: "shellQuote v \<noteq> []" "hd (shellQuote v) = single_quote" "last (shellQuote v) = single_quote"
  by (simp_all add: shellQuote_def)

lemma scans_quoted_words: "list_all2 scans (map shellQuote ws) ws"
  by (simp add: list.rel_map list_all2_refl scans_shellQuote)

text \<open>
  Whatever the words are - empty, with quotes, blanks or signs the shell
  would expand -, a line of quoted words is read as exactly these words.
\<close>

theorem quoted_words_read_back: "tokenize (join '' '' (map shellQuote ws)) = Some ws"
proof (cases "ws = []")
  case True
  then show ?thesis by (simp add: tokenize_def trim_def new_scanner_def Let_def)
next
  case False
  then show ?thesis
    by (intro tokenize_line scans_quoted_words)
       (simp_all add: hd_join last_join join_Nil_iff hd_map last_map shellQuote_ends js_space_def)
qed

text \<open>The environment and the arguments of the git process that a shell command starts.\<close>

definition shell_environment_words :: "string list" where
  "shell_environment_words = [''GIT_CONFIG_NOSYSTEM=1'', ''GIT_CONFIG_GLOBAL=/dev/null'', ''GIT_TERMINAL_PROMPT=0'']"

lemma scans_assignment:
  assumes "name \<noteq> []" "\<forall>c \<in> set name. c \<noteq> backslash \<and> c \<noteq> single_quote \<and> c \<noteq> double_quote \<and> \<not> js_space c"
  shows "scans (name @ shellQuote v) (name @ v)"
  by (intro scans_append scans_shellQuote scans_letters assms)

lemma tokenize_quoted_tail:
  assumes "list_all2 scans es us" "es \<noteq> []" "hd es \<noteq> []" "\<not> js_space (hd (hd es))" "ws \<noteq> []"
  shows "tokenize (join '' '' (es @ map shellQuote ws)) = Some (us @ ws)"
proof (rule tokenize_line)
  show "list_all2 scans (es @ map shellQuote ws) (us @ ws)"
    by (intro list_all2_appendI assms(1) scans_quoted_words)
  show "\<not> js_space (hd (join '' '' (es @ map shellQuote ws)))" using assms(2-4) by (simp add: hd_join)
  have "last (es @ map shellQuote ws) = shellQuote (last ws)" using assms(5) by (simp add: last_map)
  then show "\<not> js_space (last (join '' '' (es @ map shellQuote ws)))"
    using last_join[of "es @ map shellQuote ws" "'' ''"] assms(2) shellQuote_ends by (simp add: js_space_def)
  show "join '' '' (es @ map shellQuote ws) \<noteq> []" using assms(2,3) by (simp add: join_Nil_iff)
qed (use assms in simp)

lemma gitShell_words:
  "tokenize (gitShell repository args) = Some (shell_environment_words @ ''git'' # secureGitPrefix repository @ args)"
proof -
  let ?names = "[''GIT_CONFIG_NOSYSTEM='', ''GIT_CONFIG_GLOBAL='', ''GIT_TERMINAL_PROMPT='']"
  let ?env = "map2 (\<lambda>name v. name @ shellQuote v) ?names [''1'', ''/dev/null'', ''0'']"
  have line: "gitShell repository args = join '' '' (?env @ map shellQuote (''git'' # secureGitPrefix repository @ args))"
    by (subst join_append) (simp_all add: gitShell_def shellEnvironment_def)
  have assignment: "scans (name @ shellQuote v) (name @ v)" if "name \<in> set ?names" for name v
    using that by (intro scans_assignment) (auto simp: js_space_def)
  have "list_all2 scans ?env shell_environment_words"
    using assignment[of "''GIT_CONFIG_NOSYSTEM=''" "''1''"] assignment[of "''GIT_CONFIG_GLOBAL=''" "''/dev/null''"]
      assignment[of "''GIT_TERMINAL_PROMPT=''" "''0''"] by (simp add: shell_environment_words_def)
  from tokenize_quoted_tail[OF this, of "''git'' # secureGitPrefix repository @ args"] show ?thesis
    unfolding line by (simp add: js_space_def)
qed

text \<open>
  The shell command written for an operation other than \<^verbatim>\<open>git add\<close> is read,
  word by word, as the very git process that executing the operation starts, under the
  settings that keep the repository's hooks, monitors, pagers and external diffs from running;
  and whether there is such a command is decided as the execution decides it.
\<close>

theorem shell_runs_same_git:
  assumes "sg_toolName op \<noteq> GitAdd"
  shows "case safeGitShellInput w op of
      Inl e \<Rightarrow> executeSafeGit w op = (Inl e, [])
    | Inr command \<Rightarrow> \<exists>repository. canonical_repository w (sg_repository op) = Inr repository
        \<and> tokenize command = Some (shell_environment_words @ ''git'' # secureGitPrefix repository @ sg_args op)
        \<and> snd (executeSafeGit w op) = [(secureGitPrefix repository @ sg_args op, gitEnvironment (sg_toolName op))]"
  using assms
  by (auto simp: safeGitShellInput_def executeSafeGit_def run_git_def gitShell_words split: sum.split)

section \<open>What an operation may reach\<close>

text \<open>
  The shape of an operation: the subcommand of its tool, options from a fixed list, then paths
  behind \<^verbatim>\<open>--\<close> that are relative and do not climb; or, for a commit, its message.
\<close>

definition log_options :: "string list \<Rightarrow> bool" where
  "log_options args = list_all (\<lambda>v. v \<in> {''--no-ext-diff'', ''--no-textconv'', ''--oneline'', ''--decorate'', ''--stat'', ''-n''}
     \<or> max_count_option v \<or> short_number v) args"

definition diff_options :: "string list \<Rightarrow> bool" where
  "diff_options args = list_all (\<lambda>v. v \<in> {''--no-ext-diff'', ''--no-textconv'', ''--staged'', ''--cached'', ''--stat'', ''--name-only'', ''--name-status''}) args"

definition git_ok :: "SafeGitOperation \<Rightarrow> bool" where
  "git_ok op = (case sg_toolName op of
       GitStatus \<Rightarrow> (\<exists>options. sg_args op = ''status'' # options \<and> list_all isStatusArgument options)
     | GitDiff \<Rightarrow> (\<exists>options paths. sg_args op = [''diff'', ''--no-ext-diff'', ''--no-textconv''] @ options @ paths
          \<and> diff_options options \<and> (paths = [] \<or> (\<exists>ps. paths = ''--'' # ps \<and> list_all isSafeRelativePath ps)))
     | GitLog \<Rightarrow> (\<exists>options. sg_args op = ''log'' # options \<and> log_options options)
     | GitAdd \<Rightarrow> (\<exists>paths. sg_args op = [''add'', ''--''] @ paths \<and> paths \<noteq> [] \<and> list_all isSafeRelativePath paths)
     | GitCommit \<Rightarrow> (\<exists>message. sg_args op = [''commit'', ''--no-verify'', ''--no-gpg-sign'', ''-m'', message] \<and> trim message \<noteq> []))"

lemma diff_shape:
  "safe_diff_arguments paths args \<Longrightarrow>
   if paths then list_all isSafeRelativePath args
   else \<exists>options ps. args = options @ ps \<and> diff_options options \<and> (ps = [] \<or> (\<exists>qs. ps = ''--'' # qs \<and> list_all isSafeRelativePath qs))"
proof (induction paths args rule: safe_diff_arguments.induct)
  case (2 paths v vs)
  show ?case
  proof (cases "paths \<or> v = ''--''")
    case True
    then consider "paths" | "\<not> paths" "v = ''--''" by blast
    then show ?thesis
    proof cases
      case 2
      with "2.IH" "2.prems" have "list_all isSafeRelativePath vs" by auto
      with 2 show ?thesis by (simp add: diff_options_def) (rule exI[of _ "[]"], simp)
    qed (use "2.IH" "2.prems" in simp)
  next
    case False
    with 2 obtain options ps where "vs = options @ ps" "diff_options options"
      "ps = [] \<or> (\<exists>qs. ps = ''--'' # qs \<and> list_all isSafeRelativePath qs)" by auto
    with False 2(4) show ?thesis
      by (intro if_not_P[THEN iffD2] exI[of _ "v # options"] exI[of _ ps]) (auto simp: diff_options_def)
  qed
qed (simp add: diff_options_def)

lemma log_shape: "isSafeLogArguments args \<Longrightarrow> log_options args"
  by (induction args rule: isSafeLogArguments.induct) (auto simp: log_options_def split: if_splits list.splits)

lemma add_shape: "isSafeAddArguments args \<Longrightarrow> after_marker args \<noteq> [] \<and> list_all isSafeRelativePath (after_marker args)"
  by (simp add: isSafeAddArguments_def)

lemma git_ok_operation:
  "list_all isStatusArgument options \<Longrightarrow> git_ok (operation GitStatus r (''status'' # options))"
  "isSafeDiffArguments rest \<Longrightarrow> git_ok (operation GitDiff r ([''diff'', ''--no-ext-diff'', ''--no-textconv''] @ rest))"
  "log_options options \<Longrightarrow> git_ok (operation GitLog r (''log'' # options))"
  "paths \<noteq> [] \<Longrightarrow> list_all isSafeRelativePath paths \<Longrightarrow> git_ok (operation GitAdd r ([''add'', ''--''] @ paths))"
  "trim message \<noteq> [] \<Longrightarrow> git_ok (operation GitCommit r [''commit'', ''--no-verify'', ''--no-gpg-sign'', ''-m'', message])"
  using diff_shape[of False rest] by (simp_all add: git_ok_def operation_def isSafeDiffArguments_def)

lemma git_ok_diff:
  "diff_options options \<Longrightarrow> paths = [] \<or> (\<exists>ps. paths = ''--'' # ps \<and> list_all isSafeRelativePath ps) \<Longrightarrow>
   git_ok (operation GitDiff r ([''diff'', ''--no-ext-diff'', ''--no-textconv''] @ options @ paths))"
  by (auto simp: git_ok_def operation_def)

lemma some_of_five:
  assumes "(if a then Some x else if b then Some y else if c then Some z else if d then Some u else r) = Some v"
    and "a \<Longrightarrow> P x" "b \<Longrightarrow> P y" "c \<Longrightarrow> P z" "d \<Longrightarrow> P u" "r = Some v \<Longrightarrow> P v"
  shows "P v"
  using assms by (cases a; cases b; cases c; cases d) simp_all

lemma operation_repository [simp]: "sg_repository (operation tool r args) = r"
  by (simp add: operation_def)

lemma git_subcommand_ok:
  assumes "git_subcommand repository words = Some op"
  shows "git_ok op \<and> sg_repository op = repository"
proof (cases words)
  case (Cons subcommand rest)
  show ?thesis
  proof (rule some_of_five[OF assms[unfolded git_subcommand_def Cons list.case]])
    assume "(case rest of [flag, message] \<Rightarrow>
           if subcommand = ''commit'' \<and> flag = ''-m'' \<and> trim message \<noteq> []
           then Some (operation GitCommit repository [''commit'', ''--no-verify'', ''--no-gpg-sign'', ''-m'', message])
           else None | _ \<Rightarrow> None) = Some op"
    then obtain message where "trim message \<noteq> []"
      "op = operation GitCommit repository [''commit'', ''--no-verify'', ''--no-gpg-sign'', ''-m'', message]"
      by (auto split: list.split_asm if_split_asm)
    then show ?thesis by (simp add: git_ok_operation(5))
  qed (use git_ok_operation(1,2)[of rest] git_ok_operation(3)[OF log_shape] git_ok_operation(4) add_shape in auto)
qed (use assms in \<open>simp add: git_subcommand_def\<close>)

lemma parseSafeGitCommand_ok: "parseSafeGitCommand command cwd = Some op \<Longrightarrow> git_ok op"
  by (auto simp: parseSafeGitCommand_def split: if_split_asm option.split_asm list.split_asm dest!: git_subcommand_ok)

lemma digit_of: "d < 10 \<Longrightarrow> is_digit (char_of (48 + d :: nat))"
  by (simp add: is_digit_def)

lemma short_number_dec:
  assumes "n < 1000" shows "short_number (dec_nat n)"
proof -
  have one: "dec_nat d = [char_of (48 + d)]" if "d < 10" for d using that by (simp add: dec_nat.simps)
  have two: "length (dec_nat d) \<le> 2 \<and> dec_nat d \<noteq> [] \<and> list_all is_digit (dec_nat d)" if "d < 100" for d
  proof (cases "d < 10")
    case False
    then have "dec_nat d = dec_nat (d div 10) @ [char_of (48 + d mod 10)]" by (subst dec_nat.simps) simp
    moreover have "d div 10 < 10" "d mod 10 < 10" using that by auto
    ultimately show ?thesis by (simp add: one digit_of)
  qed (simp add: one digit_of)
  show ?thesis
  proof (cases "n < 10")
    case False
    then have "dec_nat n = dec_nat (n div 10) @ [char_of (48 + n mod 10)]" by (subst dec_nat.simps) simp
    moreover have "n div 10 < 100" "n mod 10 < 10" using assms by auto
    ultimately show ?thesis using two[of "n div 10"] by (simp add: short_number_def digit_of)
  qed (simp add: one digit_of short_number_def)
qed

lemma short_number_int: "0 \<le> i \<Longrightarrow> i < 1000 \<Longrightarrow> short_number (dec_int i)"
  by (simp add: dec_int_def short_number_dec nat_less_iff)

lemma safeGitOperation_ok: "safeGitOperation input = Some op \<Longrightarrow> git_ok op"
proof (cases "gi_toolName input")
  case GitLog
  assume "safeGitOperation input = Some op"
  moreover have "short_number (dec_int (min (max m 1) 100))" for m
    by (rule short_number_int) auto
  ultimately show ?thesis using GitLog
    by (auto simp: safeGitOperation_def git_ok_def operation_def log_options_def max_count_option_def Let_def)
next
  case GitDiff
  assume "safeGitOperation input = Some op"
  with GitDiff obtain paths where paths: "cleanPaths (gi_paths input) = Some paths"
    "op = operation GitDiff (gi_repository input) ([''diff'', ''--no-ext-diff'', ''--no-textconv'']
       @ (if gi_staged input then [''--staged''] else []) @ (if paths = [] then [] else ''--'' # paths))"
    by (auto simp: safeGitOperation_def Let_def split: option.split_asm)
  then have "list_all isSafeRelativePath paths" by (auto simp: cleanPaths_def Let_def split: option.split_asm if_split_asm)
  with paths(2) show ?thesis
    by (simp only:) (rule git_ok_diff, simp_all add: diff_options_def)
next
  case GitAdd
  assume "safeGitOperation input = Some op"
  with GitAdd show ?thesis
    by (auto simp: safeGitOperation_def cleanPaths_def Let_def intro!: git_ok_operation(4)[simplified] split: option.split_asm if_split_asm)
next
  case GitCommit
  assume "safeGitOperation input = Some op"
  with GitCommit obtain message where "gi_message input = Some message" "trim message \<noteq> []"
    "op = operation GitCommit (gi_repository input) [''commit'', ''--no-verify'', ''--no-gpg-sign'', ''-m'', trim message]"
    by (cases "gi_message input") (auto simp: safeGitOperation_def Let_def split: if_split_asm)
  moreover have "trim (trim message) = trim message" for message by simp
  ultimately show ?thesis by (simp add: git_ok_operation)
qed (auto simp: safeGitOperation_def git_ok_def operation_def isStatusArgument_def Let_def)

text \<open>The options that may occur, beside the bounded \<^verbatim>\<open>--max-count=\<close>.\<close>

definition GIT_OPTIONS :: "string list" where
  "GIT_OPTIONS =
     [''--short'', ''--branch'', ''-b'', ''--porcelain'', ''--porcelain=v1'', ''--porcelain=v2'', ''--untracked-files=no'',
      ''--untracked-files=normal'', ''--untracked-files=all'', ''--no-ext-diff'', ''--no-textconv'', ''--staged'', ''--cached'',
      ''--stat'', ''--name-only'', ''--name-status'', ''--oneline'', ''--decorate'', ''-n'', ''--no-verify'',
      ''--no-gpg-sign'', ''-m'', ''--'']"

lemma not_all_member: "list_all P xs \<Longrightarrow> \<not> P x \<Longrightarrow> x \<notin> set xs"
  by (auto simp: list_all_iff)

definition harmless_option :: "string \<Rightarrow> bool" where
  "harmless_option a = (prefix ''-'' a \<longrightarrow> a \<in> set GIT_OPTIONS \<or> max_count_option a)"

lemma harmless_words:
  "short_number v \<Longrightarrow> harmless_option v"
  "isStatusArgument v \<Longrightarrow> harmless_option v"
  "isSafeRelativePath v \<Longrightarrow> harmless_option v"
  "v \<in> set GIT_OPTIONS \<Longrightarrow> harmless_option v"
  "max_count_option v \<Longrightarrow> harmless_option v"
  "\<not> prefix ''-'' v \<Longrightarrow> harmless_option v"
proof -
  show "short_number v \<Longrightarrow> harmless_option v"
    by (cases v) (auto simp: harmless_option_def short_number_def is_digit_def)
  have "{''--short'', ''--branch'', ''-b'', ''--porcelain'', ''--porcelain=v1'', ''--porcelain=v2'', ''--untracked-files=no'',
     ''--untracked-files=normal'', ''--untracked-files=all''} \<subseteq> set GIT_OPTIONS" by (simp add: GIT_OPTIONS_def)
  then show "isStatusArgument v \<Longrightarrow> harmless_option v"
    unfolding isStatusArgument_def harmless_option_def by (meson subsetD)
qed (simp_all add: harmless_option_def isSafeRelativePath_def)

lemma harmless_options:
  "log_options vs \<Longrightarrow> list_all harmless_option vs"
  "diff_options vs \<Longrightarrow> list_all harmless_option vs"
  "list_all isStatusArgument vs \<Longrightarrow> list_all harmless_option vs"
  "list_all isSafeRelativePath vs \<Longrightarrow> list_all harmless_option vs"
proof -
  have fixed: "{''--no-ext-diff'', ''--no-textconv'', ''--oneline'', ''--decorate'', ''--stat'', ''-n'',
      ''--staged'', ''--cached'', ''--name-only'', ''--name-status''} \<subseteq> set GIT_OPTIONS" by (simp add: GIT_OPTIONS_def)
  have harmless: "v \<in> A \<Longrightarrow> A \<subseteq> set GIT_OPTIONS \<Longrightarrow> harmless_option v" for v A by (meson harmless_words(4) subsetD)
  show "log_options vs \<Longrightarrow> list_all harmless_option vs" unfolding log_options_def
    by (erule list.pred_mono_strong, elim disjE) (erule harmless, use fixed in simp, (erule harmless_words)+)
  show "diff_options vs \<Longrightarrow> list_all harmless_option vs" unfolding diff_options_def
    by (erule list.pred_mono_strong, erule harmless) (use fixed in simp)
qed (auto simp: list_all_iff intro: harmless_words)

lemma unmarked_options:
  "log_options vs \<Longrightarrow> marked_paths (x # vs) = (if x = ''--'' then vs else [])"
  "diff_options vs \<Longrightarrow> ''--'' \<notin> set vs"
  "list_all isStatusArgument vs \<Longrightarrow> ''--'' \<notin> set vs"
proof -
  have unmarked: "''--'' \<notin> set xs \<Longrightarrow> marked_paths xs = []" for xs by (induction xs) auto
  show "log_options vs \<Longrightarrow> marked_paths (x # vs) = (if x = ''--'' then vs else [])"
    using not_all_member[of _ vs "''--''"] unmarked[of vs]
    by (auto simp: log_options_def max_count_option_def short_number_def is_digit_def)
  show "diff_options vs \<Longrightarrow> ''--'' \<notin> set vs" unfolding diff_options_def by (erule not_all_member) simp
  show "list_all isStatusArgument vs \<Longrightarrow> ''--'' \<notin> set vs" by (erule not_all_member) (simp add: isStatusArgument_def)
qed

lemma marked_paths_after: "''--'' \<notin> set xs \<Longrightarrow> marked_paths (xs @ ''--'' # ps) = ps"
  by (induction xs) auto

lemma marked_paths_none: "''--'' \<notin> set xs \<Longrightarrow> marked_paths xs = []"
  by (induction xs) auto

lemma git_ok_confined:
  assumes "git_ok op" "sg_toolName op \<noteq> GitCommit"
  shows "list_all harmless_option (sg_args op) \<and> list_all isSafeRelativePath (marked_paths (sg_args op))"
proof (cases "sg_toolName op")
  case GitStatus
  with assms obtain vs where "sg_args op = ''status'' # vs" "list_all isStatusArgument vs" by (auto simp: git_ok_def)
  then show ?thesis
    using harmless_options(3)[of vs] unmarked_options(3)[of vs] by (simp add: marked_paths_none harmless_words(6))
next
  case GitDiff
  with assms obtain vs paths where shape: "sg_args op = [''diff'', ''--no-ext-diff'', ''--no-textconv''] @ vs @ paths"
    "diff_options vs" "paths = [] \<or> (\<exists>ps. paths = ''--'' # ps \<and> list_all isSafeRelativePath ps)"
    by (auto simp: git_ok_def)
  have "list_all harmless_option paths" using shape(3) harmless_options(4)
    by (auto simp: harmless_words(4) GIT_OPTIONS_def)
  moreover have "list_all isSafeRelativePath (marked_paths (sg_args op))"
    using shape(1,3) unmarked_options(2)[OF shape(2)] by (auto simp: marked_paths_after marked_paths_none)
  ultimately show ?thesis using harmless_options(2)[OF shape(2)]
    by (simp add: shape(1) harmless_words(6)) (simp add: harmless_words(4) GIT_OPTIONS_def)
next
  case GitLog
  with assms obtain vs where "sg_args op = ''log'' # vs" "log_options vs" by (auto simp: git_ok_def)
  then show ?thesis
    using harmless_options(1)[of vs] unmarked_options(1)[of vs "''log''"] by (simp add: harmless_words(6))
next
  case GitAdd
  with assms obtain paths where "sg_args op = [''add'', ''--''] @ paths" "list_all isSafeRelativePath paths"
    by (auto simp: git_ok_def)
  then show ?thesis using harmless_options(4)[of paths]
    by (simp add: harmless_words(6)) (simp add: harmless_words(4) GIT_OPTIONS_def)
qed (use assms in simp)



section \<open>Inside the repository\<close>

lemma resolve_idem: "resolve cwd (resolve cwd' p) = resolve cwd' p"
  using resolve_plain[of cwd' p] by (auto simp: resolve_abs_path)

lemma relative_path_resolved: "relative_path cwd (resolve cwd p) (resolve cwd q) = relative_path cwd p q"
  by (simp add: relative_path_def resolve_idem)

lemma resolve_dot: "isAbsolute r \<Longrightarrow> resolve r ''.'' = resolve cwd r"
proof -
  assume r: "isAbsolute r"
  have "split_slash (r @ ''/.'') = split_slash r @ [''.'']" using split_slash_append[of r "''.''"] by simp
  with r show ?thesis by (simp add: resolve_def isAbsolute_def normalizeString_def push_segment_def)
qed

lemma inside_repository:
  assumes "isAbsolute repository" "\<not> outside_repository w repository p"
  shows "isWithin (resolve (gw_cwd w) repository) (resolve repository p)"
proof (cases "p = ''.''")
  case True
  with resolve_dot[OF assms(1)] show ?thesis by simp
next
  case False
  let ?cwd = "gw_cwd w"
  obtain f t where f: "plain_segments f" "resolve ?cwd repository = abs_path f"
    and t: "plain_segments t" "resolve repository p = abs_path t" using resolve_plain by metis
  have "contains_path ?cwd repository (resolve repository p)"
    using assms(2) False unfolding contains_path_def outside_repository_def Let_def relative_path_resolved by blast
  then have "prefix f t" using contains_prefix[OF f(1) t(1) f(2)] t by (simp add: resolve_abs_path)
  with f t show ?thesis using within_is_component_prefix[of f t] by (simp add: plain_segments_def)
qed

text \<open>
  C24: no git process is started, and no shell command written, for an operation
  unless every path it names lies, dots resolved, inside the repository whose real path the
  file system gave.
\<close>

theorem git_paths_inside:
  assumes "\<forall>p r. gw_realpath w (resolve (gw_cwd w) p) = Real r \<longrightarrow> isAbsolute r"
    and "snd (executeSafeGit w op) \<noteq> [] \<or> safeGitShellInput w op = Inr command"
  shows "\<exists>repository. gw_realpath w (resolve (gw_cwd w) (sg_repository op)) = Real repository
    \<and> (\<forall>p \<in> set (marked_paths (sg_args op)). isWithin (resolve (gw_cwd w) repository) (resolve repository p))"
proof (cases "gw_realpath w (resolve (gw_cwd w) (sg_repository op))")
  case (Real repository)
  with assms(2) have "list_all (\<lambda>p. \<not> outside_repository w repository p) (marked_paths (sg_args op))"
    by (auto simp: executeSafeGit_def safeGitShellInput_def canonical_repository_def validatePathArguments_def
        list_all_iff list_ex_iff split: if_split_asm)
  with Real assms(1) show ?thesis by (auto simp: list_all_iff intro: inside_repository)
qed (use assms(2) in \<open>auto simp: executeSafeGit_def safeGitShellInput_def canonical_repository_def\<close>)

definition demo_git :: git_world where
  "demo_git = \<lparr>gw_realpath = Real, gw_cwd = ''/w'', gw_mode = (\<lambda>_. Some (Regular False)), gw_run = (\<lambda>_. Inr ''out'')\<rparr>"

theorem git_paths_inside_witness:
  "let op = operation GitAdd ''/w/app'' [''add'', ''--'', ''src/../README''];
       op' = operation GitAdd ''/w/app'' [''add'', ''--'', ''src/../../other'']
   in length (snd (executeSafeGit demo_git op)) = 2 \<and> isWithin ''/w/app'' ''/w/app/README''
      \<and> executeSafeGit demo_git op' = (Inl ''Git path is outside the approved repository'', [])"
proof -
  let ?op = "operation GitAdd ''/w/app'' [''add'', ''--'', ''src/../README'']"
  have absolute: "\<forall>p r. gw_realpath demo_git (resolve (gw_cwd demo_git) p) = Real r \<longrightarrow> isAbsolute r"
    by (simp add: demo_git_def resolve_def isAbsolute_def)
  have run: "length (snd (executeSafeGit demo_git ?op)) = 2"
    "executeSafeGit demo_git (operation GitAdd ''/w/app'' [''add'', ''--'', ''src/../../other''])
       = (Inl ''Git path is outside the approved repository'', [])" by code_simp+
  have paths: "gw_realpath demo_git (resolve (gw_cwd demo_git) ''/w/app'') = Real ''/w/app''"
    "resolve (gw_cwd demo_git) ''/w/app'' = ''/w/app''" "resolve ''/w/app'' ''src/../README'' = ''/w/app/README''" by code_simp+
  from run(1) have "snd (executeSafeGit demo_git ?op) \<noteq> []" by auto
  from git_paths_inside[OF absolute disjI1[OF this]] run paths show ?thesis by (simp add: operation_def)
qed

theorem shell_runs_same_git_witness:
  "let op = operation GitLog ''/w/app'' [''log'', ''--oneline'']
   in \<exists>command. safeGitShellInput demo_git op = Inr command
      \<and> tokenize command = Some (shell_environment_words @ ''git'' # secureGitPrefix ''/w/app'' @ [''log'', ''--oneline''])
      \<and> snd (executeSafeGit demo_git op) = [(secureGitPrefix ''/w/app'' @ [''log'', ''--oneline''], gitEnvironment GitLog)]"
proof -
  let ?op = "operation GitLog ''/w/app'' [''log'', ''--oneline'']"
  have repository: "canonical_repository demo_git (sg_repository ?op) = Inr ''/w/app''" by code_simp
  have other: "sg_toolName ?op \<noteq> GitAdd" by (simp add: operation_def)
  have "isl (safeGitShellInput demo_git ?op) = False" by code_simp
  then obtain command where "safeGitShellInput demo_git ?op = Inr command"
    by (cases "safeGitShellInput demo_git ?op") auto
  with shell_runs_same_git[OF other, of demo_git] repository show ?thesis by (simp add: operation_def)
qed

end
