(* ===== verification/Codex_Profile.thy ===== *)
theory Codex_Profile
  imports Relationship_Policy
begin

text \<open>
  The permission profile a Codex session runs under
  (\<^verbatim>\<open>src/adapters/codex/permission-profile.ts\<close>): the text of its configuration, the folders and
  programs it opens, and the private home it is written to. The host - file system, tool
  chain, environment - is a \<open>profile_host\<close>; what is done to the file system is a list of
  \<open>file_effect\<close>s. Paths are POSIX paths.
\<close>

section \<open>Host and input\<close>

datatype dir_entry = Plain_file | Symbolic_link | Other_entry | Directory "(string \<times> dir_entry) list"

record profile_host =
  ph_exists :: "string \<Rightarrow> bool"
  ph_realpath :: "string \<Rightarrow> string option"
  ph_xcode_select :: "string option"
  ph_otool :: "string \<Rightarrow> string option"
  ph_platform :: string
  ph_PATH :: "string option"
  ph_CODEX_HOME :: "string option"
  ph_homedir :: string
  ph_tree :: "string \<Rightarrow> dir_entry option"
  ph_sha256 :: "string \<Rightarrow> string"
  ph_url :: "string \<Rightarrow> URL option"
  ph_le :: "string \<Rightarrow> string \<Rightarrow> bool"

record CodexPermissionProfileInput =
  cp_preset :: RelationshipAccessPreset
  cp_folders :: "string list"
  cp_writableFolders :: "string list option"
  cp_profileName :: "string option"
  cp_authFile :: "string option"
  cp_mcpServers :: json
  cp_platform :: "string option"
  cp_developerDirectory :: "string option"
  cp_runtimeTempDirectory :: "string option"
  cp_runtimeExecutable :: "string option"
  cp_commandExecutables :: "string list option"
  cp_commandSearchPath :: "string option"
  cp_isolateRuntime :: bool
  cp_includeOwnerSkills :: bool
  cp_ownerSkillRoots :: "string list option"
  cp_runtimeSkillsDirectory :: "string option"

definition CODEX_PROFILE_NAME :: string where "CODEX_PROFILE_NAME = ''aicoo-c2c''"

definition PROJECT_COMMAND_EXECUTABLES :: "string list" where
  "PROJECT_COMMAND_EXECUTABLES =
     [''node'', ''npm'', ''npx'', ''pnpm'', ''pnpx'', ''yarn'', ''yarnpkg'', ''bun'', ''deno'']"

definition platform_of :: "profile_host \<Rightarrow> CodexPermissionProfileInput \<Rightarrow> string" where
  "platform_of H input = or_else (cp_platform input) (ph_platform H)"

definition nullDevice :: "string \<Rightarrow> string" where
  "nullDevice platform = (if platform = ''win32'' then ''NUL'' else ''/dev/null'')"

section \<open>Texts\<close>

abbreviation quotation :: char where "quotation \<equiv> CHR 0x22"

text \<open>This \<^verbatim>\<open>tomlString\<close> escapes backslashes and quotation marks only.\<close>

definition toml_escape :: "char \<Rightarrow> string" where
  "toml_escape c = (if c = CHR 0x5C then [CHR 0x5C, CHR 0x5C] else if c = quotation then [CHR 0x5C, quotation] else [c])"

definition tomlString :: "string \<Rightarrow> string" where
  "tomlString v = quotation # concat (map toml_escape v) @ [quotation]"

fun split_on :: "char \<Rightarrow> string \<Rightarrow> string list" where
  "split_on d [] = [[]]"
| "split_on d (c # cs) = (if c = d then [] # split_on d cs
     else (case split_on d cs of s # ss \<Rightarrow> (c # s) # ss | [] \<Rightarrow> [[c]]))"

section \<open>Programs\<close>

definition resolveRuntimeExecutablePaths :: "profile_host \<Rightarrow> string option \<Rightarrow> string list" where
  "resolveRuntimeExecutablePaths H executable =
     (case executable of
        None \<Rightarrow> []
      | Some e \<Rightarrow>
         (let configured = trim e in
          if configured = [] \<or> \<not> ph_exists H configured then []
          else case ph_realpath H configured of
            Some target \<Rightarrow> js_set [dirname configured, configured, dirname target, target]
          | None \<Rightarrow> [dirname configured, configured]))"

text \<open>\<^verbatim>\<open>/^(\/\S+)\s+\(/\<close> on a trimmed line of \<^verbatim>\<open>otool\<close>.\<close>

definition dependency_of :: "string \<Rightarrow> string option" where
  "dependency_of line =
     (let l = trim line; word = takeWhile (\<lambda>c. \<not> js_space c) l; rest = dropWhile js_space (drop (length word) l)
      in if isAbsolute word \<and> 2 \<le> length word \<and> length word < length l \<and> prefix ''('' rest then Some word else None)"

definition system_library :: "string \<Rightarrow> bool" where
  "system_library d = (prefix ''/usr/lib/'' d \<or> prefix ''/System/Library/'' d)"

definition library_paths :: "profile_host \<Rightarrow> string \<Rightarrow> string list" where
  "library_paths H d =
     [dirname (dirname (dirname d)), dirname (dirname d), dirname d, d]
     @ (let formulaRoot = dirname (dirname d) in
        if prefix ''openssl@'' (basename formulaRoot)
        then [path_join [dirname (dirname formulaRoot), ''etc'', basename formulaRoot]] else [])
     @ (if \<not> ph_exists H d then [] else case ph_realpath H d of
          None \<Rightarrow> [] | Some target \<Rightarrow> [dirname (dirname target), dirname target, target])"

definition library_targets :: "profile_host \<Rightarrow> string \<Rightarrow> string list" where
  "library_targets H d = (if \<not> ph_exists H d then [] else case ph_realpath H d of None \<Rightarrow> [] | Some target \<Rightarrow> [target])"

definition dependencies :: "string \<Rightarrow> string list" where
  "dependencies output =
     filter (\<lambda>d. \<not> system_library d) (List.map_filter dependency_of (tl (split_on (CHR 0x0A) output)))"

text \<open>The loop over the pending binaries; at most 64 are visited.\<close>

function mac_libraries :: "profile_host \<Rightarrow> string list \<Rightarrow> string list \<Rightarrow> string list \<Rightarrow> string list" where
  "mac_libraries H [] visited paths = paths"
| "mac_libraries H (binary # pending) visited paths =
     (if 64 \<le> length visited then paths
      else if binary \<in> set visited then mac_libraries H pending visited paths
      else case ph_otool H binary of
        None \<Rightarrow> mac_libraries H pending (binary # visited) paths
      | Some output \<Rightarrow>
          mac_libraries H (pending @ concat (map (library_targets H) (dependencies output))) (binary # visited)
            (paths @ concat (map (library_paths H) (dependencies output))))"
  by pat_completeness auto
termination
  by (relation "measures [\<lambda>(H, pending, visited, paths). 64 - length visited, \<lambda>(H, pending, visited, paths). length pending]") auto

definition macDynamicLibraryPaths :: "profile_host \<Rightarrow> string \<Rightarrow> string list" where
  "macDynamicLibraryPaths H executable = js_set (mac_libraries H [executable] [] [])"

fun nearest_package_root :: "profile_host \<Rightarrow> nat \<Rightarrow> string \<Rightarrow> string option" where
  "nearest_package_root H 0 current = None"
| "nearest_package_root H (Suc n) current =
     (if current = root_of current then None
      else if ph_exists H (path_join [current, ''package.json'']) then Some current
      else nearest_package_root H n (dirname current))"

definition nearestPackageRoot :: "profile_host \<Rightarrow> string \<Rightarrow> string option" where
  "nearestPackageRoot H target = nearest_package_root H 6 (dirname target)"

definition node_paths :: "profile_host \<Rightarrow> string \<Rightarrow> string \<Rightarrow> string \<Rightarrow> string list" where
  "node_paths H platform configured target =
     (if toLowerCase (basename configured) \<in> {''node'', ''node.exe''} \<and> basename (dirname target) = ''bin''
      then dirname (dirname target) # (if platform = ''darwin'' then macDynamicLibraryPaths H target else [])
      else [])"

definition command_paths :: "profile_host \<Rightarrow> string \<Rightarrow> string \<Rightarrow> string list" where
  "command_paths H platform executable =
     (if trim executable = [] \<or> \<not> ph_exists H executable then []
      else (let configured = trim executable in
        [dirname configured, configured]
        @ (case ph_realpath H configured of
             None \<Rightarrow> []
           | Some target \<Rightarrow> [dirname target, target] @ node_paths H platform configured target
               @ (case nearestPackageRoot H target of None \<Rightarrow> [] | Some r \<Rightarrow> [r]))))"

definition resolveCommandExecutablePaths :: "profile_host \<Rightarrow> string list \<Rightarrow> string \<Rightarrow> string list" where
  "resolveCommandExecutablePaths H executables platform = js_set (concat (map (command_paths H platform) executables))"

definition found_command :: "profile_host \<Rightarrow> string list \<Rightarrow> string \<Rightarrow> string \<Rightarrow> string option" where
  "found_command H endings directory name =
     List.find (ph_exists H) (map (\<lambda>ending. path_join [directory, name @ ending]) endings)"

definition discoverCommandExecutables :: "profile_host \<Rightarrow> string option \<Rightarrow> string \<Rightarrow> string list" where
  "discoverCommandExecutables H pathValue platform =
     (case pathValue of
        None \<Rightarrow> []
      | Some p \<Rightarrow>
          if trim p = [] then []
          else (let delimiter = (if platform = ''win32'' then CHR '';'' else CHR '':'');
                    endings = (if platform = ''win32'' then [''.cmd'', ''.bat'', ''.exe'', []] else [[]]);
                    directories = filter (\<lambda>d. d \<noteq> []) (map trim (split_on delimiter p))
                in js_set (concat (map (\<lambda>directory.
                     List.map_filter (found_command H endings directory) PROJECT_COMMAND_EXECUTABLES) directories))))"

definition resolveDeveloperDirectory :: "profile_host \<Rightarrow> CodexPermissionProfileInput \<Rightarrow> string option" where
  "resolveDeveloperDirectory H input =
     (if platform_of H input \<noteq> ''darwin'' then None
      else case cp_developerDirectory input of
        Some d \<Rightarrow> keep_truthy (Some (trim d))
      | None \<Rightarrow>
         (case map_option trim (ph_xcode_select H) of
            None \<Rightarrow> None
          | Some selected \<Rightarrow> if selected = [] \<or> \<not> ph_exists H selected then None else ph_realpath H selected))"

definition shellEnvironmentValues ::
    "profile_host \<Rightarrow> CodexPermissionProfileInput \<Rightarrow> string \<Rightarrow> string \<Rightarrow> string option \<Rightarrow> (string \<times> string) list" where
  "shellEnvironmentValues H input runtimeTempDirectory gitConfigGlobal developerDirectory =
     [(''TMPDIR'', runtimeTempDirectory), (''NPM_CONFIG_CACHE'', path_join [runtimeTempDirectory, ''npm-cache'']),
      (''NPM_CONFIG_USERCONFIG'', gitConfigGlobal), (''GIT_CONFIG_GLOBAL'', gitConfigGlobal), (''GIT_CONFIG_NOSYSTEM'', ''1'')]
     @ (case keep_truthy developerDirectory of
          None \<Rightarrow> []
        | Some d \<Rightarrow>
            if platform_of H input \<noteq> ''darwin'' then []
            else (let developerBin = path_join [d, ''usr'', ''bin''];
                      existingPath = or_else (cp_commandSearchPath input) (or_else (ph_PATH H) []);
                      entries = filter (\<lambda>e. e \<noteq> [] \<and> e \<noteq> developerBin) (split_on (CHR '':'') existingPath)
                  in [(''DEVELOPER_DIR'', d), (''PATH'', join '':'' (developerBin # entries))]))"

section \<open>The profile\<close>

definition profile_folders :: "CodexPermissionProfileInput \<Rightarrow> string list" where
  "profile_folders input =
     (if cp_preset input = Chat_only then [] else filter (\<lambda>f. trim f \<noteq> []) (js_set (cp_folders input)))"

definition profile_writable :: "CodexPermissionProfileInput \<Rightarrow> string list" where
  "profile_writable input =
     (let folders = profile_folders input;
          requested = or_else (cp_writableFolders input) (if cp_preset input = Edit_project then folders else [])
      in filter (\<lambda>f. f \<in> set folders) (js_set requested))"

definition workspaceAccess :: "CodexPermissionProfileInput \<Rightarrow> string" where
  "workspaceAccess input = (if length (profile_writable input) = length (profile_folders input) then ''write'' else ''read'')"

text \<open>The entries of the file system section: a path or a name of Codex, and the access to it.\<close>

definition filesystem_entries :: "profile_host \<Rightarrow> CodexPermissionProfileInput \<Rightarrow> (string \<times> string) list" where
  "filesystem_entries H input =
     (let folders = profile_folders input;
          developerDirectory = (if folders = [] then None else keep_truthy (resolveDeveloperDirectory H input));
          runtimeTempDirectory = (if folders = [] then None else keep_truthy (cp_runtimeTempDirectory input));
          readable = map (\<lambda>p. (p, ''read''));
          listed = (\<lambda>x. case x of None \<Rightarrow> [] | Some d \<Rightarrow> [d])
      in [('':root'', ''deny''), ('':minimal'', ''read'')]
         @ readable (listed developerDirectory)
         @ readable (resolveRuntimeExecutablePaths H (cp_runtimeExecutable input))
         @ readable (if folders = [] then []
             else resolveCommandExecutablePaths H (or_else (cp_commandExecutables input) []) (platform_of H input))
         @ map (\<lambda>p. (p, ''write'')) (listed runtimeTempDirectory)
         @ readable (listed (keep_truthy (cp_runtimeSkillsDirectory input)))
         @ map (\<lambda>p. (p, ''write'')) (profile_writable input))"

definition setting :: "string \<Rightarrow> string \<Rightarrow> string" where
  "setting key v = key @ '' = '' @ v"

definition environment_exclusions :: "RemoteMcpGrant list \<Rightarrow> string list" where
  "environment_exclusions mcpServers = js_set
     ([''*TOKEN*'', ''*SECRET*'', ''*PASSWORD*'', ''*PASSWD*'', ''*API_KEY*'', ''*PRIVATE_KEY*'', ''DATABASE_URL'']
      @ List.map_filter (\<lambda>s. keep_truthy (mg_bearerTokenEnvVar s)) mcpServers)"

definition preamble_lines :: "profile_host \<Rightarrow> CodexPermissionProfileInput \<Rightarrow> RemoteMcpGrant list \<Rightarrow> string \<Rightarrow> string list" where
  "preamble_lines H input mcpServers name =
     [setting ''default_permissions'' (tomlString name), setting ''mcp_oauth_credentials_store'' (tomlString ''file''), [],
      ''[features]'', ''plugins = false'', ''apps = false'', ''remote_plugin = false'', ''hooks = false'', [],
      ''[history]'', setting ''persistence'' (tomlString ''none''), [],
      ''[memories]'', ''disable_on_external_context = true'', [],
      ''[shell_environment_policy]'', setting ''inherit'' (tomlString ''core''),
      setting ''exclude'' (''['' @ join '', '' (map tomlString (environment_exclusions mcpServers)) @ '']'')]
     @ (case (if profile_folders input = [] then None else keep_truthy (cp_runtimeTempDirectory input)) of
          None \<Rightarrow> []
        | Some tmp \<Rightarrow>
            [setting ''set'' (''{ '' @ join '', '' (map (\<lambda>(k, v). setting k (tomlString v))
               (shellEnvironmentValues H input tmp (nullDevice (platform_of H input)) (resolveDeveloperDirectory H input))) @ '' }'')])
     @ [[]]"

definition permission_lines :: "profile_host \<Rightarrow> CodexPermissionProfileInput \<Rightarrow> string \<Rightarrow> string list" where
  "permission_lines H input name =
     (let folders = profile_folders input;
          base = (if profile_writable input = [] then '':read-only'' else '':workspace'')
      in [''[permissions.'' @ name @ '']'',
          setting ''description'' (quotation # ''Aicoo c2c relationship ('' @ preset_text (cp_preset input) @ '')'' @ [quotation]),
          setting ''extends'' (quotation # base @ [quotation]), []]
         @ (if folders = [] then []
            else [''[permissions.'' @ name @ ''.workspace_roots]''] @ map (\<lambda>f. setting (tomlString f) ''true'') folders @ [[]])
         @ [''[permissions.'' @ name @ ''.filesystem]'']
         @ map (\<lambda>(p, access). setting (tomlString p) (tomlString access)) (filesystem_entries H input) @ [[]]
         @ (if folders = [] then []
            else [''[permissions.'' @ name @ ''.filesystem.'' @ [quotation] @ '':workspace_roots'' @ [quotation] @ '']'',
                  setting (tomlString ''.'') (quotation # workspaceAccess input @ [quotation]), []])
         @ [''[permissions.'' @ name @ ''.network]'', ''enabled = false'', []])"

text \<open>\<open>Inl\<close> when the tool-server grants are refused; \<open>Inr None\<close> when there is no profile.\<close>

definition renderCodexPermissionProfile :: "profile_host \<Rightarrow> CodexPermissionProfileInput \<Rightarrow> string + string option" where
  "renderCodexPermissionProfile H input =
     (case parseRemoteMcpGrants (ph_url H) (ph_le H) (cp_mcpServers input) of
        None \<Rightarrow> Inl ''Invalid MCP grants''
      | Some mcpServers \<Rightarrow>
          if profile_folders input = [] \<and> mcpServers = [] \<and> \<not> cp_isolateRuntime input then Inr None
          else (let name = or_else (cp_profileName input) CODEX_PROFILE_NAME;
                    mcpConfig = renderCodexRemoteMcpGrants (ph_url H) (ph_le H) (grants_json mcpServers)
                in if mcpConfig = None then Inl ''Invalid MCP grants''
                   else Inr (Some (join [CHR 0x0A]
                     (preamble_lines H input mcpServers name @ permission_lines H input name
                      @ (case keep_truthy mcpConfig of None \<Rightarrow> [] | Some c \<Rightarrow> [c, []]))))))"

section \<open>The private home\<close>

datatype file_effect =
    Make_directory string
  | Change_mode string nat
  | Write_file string string nat
  | Copy_file string string
  | Remove_tree string

text \<open>Modes are decimal: 384 is \<^verbatim>\<open>0o600\<close>, 448 is \<^verbatim>\<open>0o700\<close>. Only skill directories are taken over, and no symbolic link is followed.\<close>

definition is_directory :: "dir_entry \<Rightarrow> bool" where
  "is_directory e = (case e of Directory es \<Rightarrow> True | _ \<Rightarrow> False)"

fun discover_skills :: "nat \<Rightarrow> string \<Rightarrow> dir_entry \<Rightarrow> string list"
  and discover_in :: "nat \<Rightarrow> string \<Rightarrow> (string \<times> dir_entry) list \<Rightarrow> string list" where
  "discover_skills depth root (Directory es) =
     (if 10 < depth then []
      else if map_of es ''SKILL.md'' = Some Plain_file then [root]
      else discover_in depth root es)"
| "discover_skills depth root e = []"
| "discover_in depth root [] = []"
| "discover_in depth root ((name, e) # es) =
     (if is_directory e \<and> name \<noteq> ''.git'' \<and> name \<noteq> ''node_modules''
      then discover_skills (Suc depth) (path_join [root, name]) e else []) @ discover_in depth root es"

definition discoverSkillDirectories :: "profile_host \<Rightarrow> string \<Rightarrow> string list" where
  "discoverSkillDirectories H root = (case ph_tree H root of None \<Rightarrow> [] | Some e \<Rightarrow> discover_skills 0 root e)"

fun copySkillTree :: "string \<Rightarrow> string \<Rightarrow> dir_entry \<Rightarrow> file_effect list"
  and copy_entries :: "string \<Rightarrow> string \<Rightarrow> (string \<times> dir_entry) list \<Rightarrow> file_effect list" where
  "copySkillTree source target (Directory es) = Make_directory target # copy_entries source target es"
| "copySkillTree source target Plain_file = [Copy_file source target]"
| "copySkillTree source target e = []"
| "copy_entries source target [] = []"
| "copy_entries source target ((name, e) # es) =
     copySkillTree (path_join [source, name]) (path_join [target, name]) e @ copy_entries source target es"

definition skill_slug :: "string \<Rightarrow> string" where
  "skill_slug source =
     (let slug = map (\<lambda>c. if alnum c \<or> c = CHR ''_'' \<or> c = CHR ''-'' then c else CHR ''-'') (basename source)
      in if slug = [] then ''skill'' else slug)"

definition copied_skill :: "profile_host \<Rightarrow> string \<Rightarrow> string \<Rightarrow> file_effect list" where
  "copied_skill H targetRoot source =
     (case ph_tree H source of
        None \<Rightarrow> []
      | Some e \<Rightarrow> copySkillTree source
          (path_join [targetRoot, skill_slug source @ ''-'' @ take 10 (ph_sha256 H source)]) e)"

definition owner_codex_home :: "profile_host \<Rightarrow> string" where
  "owner_codex_home H = or_else (keep_truthy (map_option trim (ph_CODEX_HOME H))) (path_join [ph_homedir H, ''.codex''])"

definition importOwnerSkills :: "profile_host \<Rightarrow> string \<Rightarrow> string list option \<Rightarrow> string option \<times> file_effect list" where
  "importOwnerSkills H directory configuredRoots =
     (let home = owner_codex_home H;
          roots = or_else configuredRoots
            [path_join [home, ''skills''], path_join [ph_homedir H, ''.agents'', ''skills''], path_join [home, ''plugins'', ''cache'']];
          skills = sort (js_set (concat (map (discoverSkillDirectories H) roots)));
          targetRoot = path_join [directory, ''skills'']
      in if skills = [] then (None, [])
         else (Some targetRoot, [Remove_tree targetRoot, Make_directory targetRoot]
                 @ concat (map (copied_skill H targetRoot) skills)))"

record PreparedCodexProfile =
  pc_codexHome :: string
  pc_profileName :: string
  pc_workspaceRoots :: "string list"
  pc_environment :: "(string \<times> string) list option"

definition login_effects :: "profile_host \<Rightarrow> string \<Rightarrow> CodexPermissionProfileInput \<Rightarrow> file_effect list" where
  "login_effects H directory input =
     (let authFile = or_else (cp_authFile input) (path_join [owner_codex_home H, ''auth.json'']);
          own = path_join [directory, ''auth.json'']
      in if ph_exists H authFile \<and> authFile \<noteq> own then [Copy_file authFile own, Change_mode own 384] else [])"

definition hasProjectAccess :: "CodexPermissionProfileInput \<Rightarrow> bool" where
  "hasProjectAccess input = (cp_preset input \<noteq> Chat_only \<and> list_ex (\<lambda>f. trim f \<noteq> []) (cp_folders input))"

definition writeCodexPermissionProfile ::
    "profile_host \<Rightarrow> string \<Rightarrow> CodexPermissionProfileInput \<Rightarrow> (string + PreparedCodexProfile option) \<times> file_effect list" where
  "writeCodexPermissionProfile H directory input =
     (let access = hasProjectAccess input;
          tmp = (if access then Some (path_join [directory, ''tmp'']) else None);
          platform = platform_of H input;
          developerDirectory = (if access then resolveDeveloperDirectory H input else None);
          commandExecutables = (if access then or_else (cp_commandExecutables input)
             (discoverCommandExecutables H (if cp_commandSearchPath input = None then ph_PATH H else cp_commandSearchPath input) platform)
             else []);
          (skills, imported) = (if cp_includeOwnerSkills input
             then importOwnerSkills H directory (cp_ownerSkillRoots input) else (None, []));
          made = [Make_directory directory, Change_mode directory 448]
             @ (case tmp of None \<Rightarrow> [] | Some t \<Rightarrow> [Make_directory t, Change_mode t 448]) @ imported;
          full = input\<lparr>cp_platform := Some platform, cp_commandExecutables := Some commandExecutables,
             cp_developerDirectory := (if truthy developerDirectory then developerDirectory else cp_developerDirectory input),
             cp_runtimeTempDirectory := (if truthy tmp then tmp else cp_runtimeTempDirectory input),
             cp_runtimeSkillsDirectory := (if truthy skills then skills else cp_runtimeSkillsDirectory input)\<rparr>
      in case renderCodexPermissionProfile H full of
           Inl e \<Rightarrow> (Inl e, made)
         | Inr None \<Rightarrow> (Inr None, made)
         | Inr (Some profile) \<Rightarrow>
             (Inr (Some \<lparr>pc_codexHome = directory, pc_profileName = or_else (cp_profileName input) CODEX_PROFILE_NAME,
                pc_workspaceRoots = js_set (cp_folders input),
                pc_environment = map_option (\<lambda>t. shellEnvironmentValues H input t (nullDevice platform) developerDirectory) tmp\<rparr>),
              made @ [Write_file (path_join [directory, ''config.toml'']) profile 384] @ login_effects H directory input))"

section \<open>What the profile opens\<close>

lemma writable_granted: "set (profile_writable input) \<subseteq> set (profile_folders input)"
  by (auto simp: profile_writable_def Let_def)

lemma writable_all_iff:
  "length (profile_writable input) = length (profile_folders input)
   \<longleftrightarrow> set (profile_writable input) = set (profile_folders input)"
proof -
  have "distinct (profile_writable input)" "distinct (profile_folders input)"
    by (simp_all add: profile_writable_def profile_folders_def Let_def)
  then show ?thesis
    by (metis card_seteq distinct_card List.finite_set order_refl writable_granted)
qed

lemma write_entry:
  assumes "(p, ''write'') \<in> set (filesystem_entries H input)"
  shows "p \<in> set (profile_writable input) \<or> profile_folders input \<noteq> [] \<and> cp_runtimeTempDirectory input = Some p"
proof -
  have temporary: "Some p = keep_truthy x \<Longrightarrow> x = Some p" for x by (cases x) (auto split: if_splits)
  show ?thesis
    using assms by (auto simp: filesystem_entries_def Let_def dest: temporary split: option.splits if_splits)
qed

text \<open>
  C25: the profile denies the root of the file system first of all; what it
  opens for writing is its own scratch directory and granted folders, those named as writable
  or, if none are named, all of them under \<^verbatim>\<open>edit-project\<close> and none otherwise; the workspace as
  a whole is writable exactly when every granted folder is; and without project access nothing is.
\<close>

theorem profile_opens_granted_only:
  "hd (filesystem_entries H input) = ('':root'', ''deny'')
    \<and> (\<forall>(p, access) \<in> set (filesystem_entries H input). access = ''write'' \<longrightarrow>
         cp_preset input \<noteq> Chat_only
         \<and> (cp_runtimeTempDirectory input = Some p
            \<or> p \<in> set (cp_folders input)
              \<and> (case cp_writableFolders input of Some ws \<Rightarrow> p \<in> set ws | None \<Rightarrow> cp_preset input = Edit_project)))
    \<and> (workspaceAccess input = ''write'' \<longleftrightarrow> set (profile_folders input) \<subseteq> set (profile_writable input))"
proof -
  have granted: "p \<in> set (cp_folders input) \<and> cp_preset input \<noteq> Chat_only
      \<and> (case cp_writableFolders input of Some ws \<Rightarrow> p \<in> set ws | None \<Rightarrow> cp_preset input = Edit_project)"
    if "p \<in> set (profile_writable input)" for p
    using that by (cases "cp_writableFolders input") (auto simp: profile_writable_def profile_folders_def Let_def split: if_splits)
  have folders: "profile_folders input \<noteq> [] \<Longrightarrow> cp_preset input \<noteq> Chat_only" by (auto simp: profile_folders_def)
  have "hd (filesystem_entries H input) = ('':root'', ''deny'')" by (simp add: filesystem_entries_def Let_def)
  moreover have "cp_preset input \<noteq> Chat_only
         \<and> (cp_runtimeTempDirectory input = Some p
            \<or> p \<in> set (cp_folders input)
              \<and> (case cp_writableFolders input of Some ws \<Rightarrow> p \<in> set ws | None \<Rightarrow> cp_preset input = Edit_project))"
    if "(p, ''write'') \<in> set (filesystem_entries H input)" for p
    using write_entry[OF that] granted[of p] folders by blast
  moreover have "workspaceAccess input = ''write'' \<longleftrightarrow> set (profile_folders input) \<subseteq> set (profile_writable input)"
    using writable_all_iff[of input] writable_granted[of input] by (auto simp: workspaceAccess_def)
  ultimately show ?thesis by blast
qed

definition demo_host :: profile_host where
  "demo_host = \<lparr>ph_exists = (\<lambda>p. p = ''/opt/codex''), ph_realpath = Some, ph_xcode_select = None, ph_otool = (\<lambda>_. None),
     ph_platform = ''linux'', ph_PATH = None, ph_CODEX_HOME = None, ph_homedir = ''/home/o'', ph_tree = (\<lambda>_. None),
     ph_sha256 = id, ph_url = (\<lambda>_. None), ph_le = (\<le>)\<rparr>"

definition demo_profile :: CodexPermissionProfileInput where
  "demo_profile = \<lparr>cp_preset = Edit_project, cp_folders = [''/w/app'', ''/w/doc''], cp_writableFolders = Some [''/w/app'', ''/etc''],
     cp_profileName = None, cp_authFile = None, cp_mcpServers = JArr [], cp_platform = None, cp_developerDirectory = None,
     cp_runtimeTempDirectory = Some ''/p/tmp'', cp_runtimeExecutable = Some ''/opt/codex'', cp_commandExecutables = None,
     cp_commandSearchPath = None, cp_isolateRuntime = False, cp_includeOwnerSkills = False, cp_ownerSkillRoots = None,
     cp_runtimeSkillsDirectory = None\<rparr>"

theorem profile_opens_granted_only_witness:
  "filesystem_entries demo_host demo_profile =
     [('':root'', ''deny''), ('':minimal'', ''read''), (''/opt'', ''read''), (''/opt/codex'', ''read''),
      (''/p/tmp'', ''write''), (''/w/app'', ''write'')]
   \<and> ''/w/app'' \<in> set (cp_folders demo_profile) \<and> workspaceAccess demo_profile \<noteq> ''write''"
proof -
  have run: "filesystem_entries demo_host demo_profile =
     [('':root'', ''deny''), ('':minimal'', ''read''), (''/opt'', ''read''), (''/opt/codex'', ''read''),
      (''/p/tmp'', ''write''), (''/w/app'', ''write'')]" by code_simp
  with profile_opens_granted_only[of demo_host demo_profile] have "''/w/app'' \<in> set (cp_folders demo_profile)"
    by (simp add: demo_profile_def)
  moreover have "workspaceAccess demo_profile \<noteq> ''write''" by code_simp
  ultimately show ?thesis using run by blast
qed

text \<open>
  How a TOML reader takes a basic string, from behind its opening quotation mark: what it
  says and what follows it. Control characters do not belong there.
\<close>

definition control :: "char \<Rightarrow> bool" where
  "control c = ((of_char c :: nat) < 32 \<and> c \<noteq> CHR 0x09 \<or> c = CHR 0x7F)"

fun read_basic :: "string \<Rightarrow> (string \<times> string) option" where
  "read_basic [] = None"
| "read_basic (c # cs) =
     (if c = quotation then Some ([], cs)
      else if c = CHR 0x5C then
        (case cs of d # ds \<Rightarrow> if d = quotation \<or> d = CHR 0x5C then map_option (apfst (Cons d)) (read_basic ds) else None
         | [] \<Rightarrow> None)
      else if control c then None
      else map_option (apfst (Cons c)) (read_basic cs))"

text \<open>
  A text written into the profile is read as exactly that text, and what
  follows it stays untouched, whatever quotation marks and backslashes it has; a text with a
  control character makes the profile unreadable. No folder name can add a permission.
\<close>

theorem toml_value_closed:
  "read_basic (tl (tomlString v) @ rest) = (if list_ex control v then None else Some (v, rest))"
proof -
  have "read_basic (concat (map toml_escape v) @ quotation # rest) = (if list_ex control v then None else Some (v, rest))"
    by (induction v) (auto simp: toml_escape_def control_def)
  then show ?thesis by (simp add: tomlString_def)
qed

end
