(* ===== verification/Capabilities.thy ===== *)
theory Capabilities
  imports Approvals
begin

text \<open>
  What a remote agent's session is told, asked and shown: the manifest of a boundary
  (\<^verbatim>\<open>src/shared/boundary-manifest.ts\<close>), requests for a capability (\<^verbatim>\<open>capability-request.ts\<close>),
  the message a continuation resumes with (\<^verbatim>\<open>continuation-message.ts\<close>), the hardening of shell
  commands and the redaction of tool output (\<^verbatim>\<open>src/security/full-capability-security.ts\<close>), and the
  platforms that can confine a session (\<^verbatim>\<open>runtime-platform-readiness.ts\<close>).
\<close>

section \<open>The manifest of a boundary\<close>

datatype GovernedRuntime = Governed_claude_code | Governed_codex

fun runtime_text :: "GovernedRuntime \<Rightarrow> string" where
  "runtime_text Governed_claude_code = ''claude-code''"
| "runtime_text Governed_codex = ''codex''"

record BoundaryManifestInput =
  bi_runtime :: GovernedRuntime
  bi_adapterVersion :: string
  bi_bridgeInstanceId :: string
  bi_requesterPrincipalId :: string
  bi_requesterDeviceId :: string
  bi_grantId :: string
  bi_grantRevision :: int
  bi_preset :: RelationshipAccessPreset
  bi_folders :: "string list"
  bi_writableFolders :: "string list"

definition manifest_folders :: "BoundaryManifestInput \<Rightarrow> string list" where
  "manifest_folders i = sort (js_set (bi_folders i))"

definition manifest_writable :: "BoundaryManifestInput \<Rightarrow> string list" where
  "manifest_writable i = sort (filter (\<lambda>f. f \<in> set (manifest_folders i)) (js_set (bi_writableFolders i)))"

definition manifest_json :: "BoundaryManifestInput \<Rightarrow> json" where
  "manifest_json i = JObj
     [(''version'', JNum 1), (''runtime'', JStr (runtime_text (bi_runtime i))),
      (''adapterVersion'', JStr (bi_adapterVersion i)), (''bridgeInstanceId'', JStr (bi_bridgeInstanceId i)),
      (''requesterPrincipalId'', JStr (bi_requesterPrincipalId i)), (''requesterDeviceId'', JStr (bi_requesterDeviceId i)),
      (''grantId'', JStr (bi_grantId i)), (''grantRevision'', JNum (bi_grantRevision i)),
      (''preset'', JStr (preset_text (bi_preset i))), (''folders'', JArr (map JStr (manifest_folders i))),
      (''writableFolders'', JArr (map JStr (manifest_writable i))), (''network'', JStr ''deny'')]"

definition createBoundaryManifest :: "(string \<Rightarrow> string) \<Rightarrow> BoundaryManifestInput \<Rightarrow> json \<times> string" where
  "createBoundaryManifest sha256 i = (manifest_json i, sha256 (stringify (manifest_json i)))"

section \<open>Requests for a capability\<close>

record CapabilityRequestArguments =
  cq_capability :: string
  cq_reason :: string

definition CAPABILITY_REQUEST_TOOL_NAME :: string where
  "CAPABILITY_REQUEST_TOOL_NAME = ''request_capability''"

text \<open>\<^verbatim>\<open>/^[a-z0-9][a-z0-9._:-]{0,199}$/\<close>.\<close>

definition CAPABILITY_ID :: "string \<Rightarrow> bool" where
  "CAPABILITY_ID s =
     (let letter = (\<lambda>c. in_chars CHR ''a'' CHR ''z'' c \<or> is_digit c)
      in s \<noteq> [] \<and> length s \<le> 200 \<and> letter (hd s)
         \<and> list_all (\<lambda>c. letter c \<or> c \<in> {CHR ''.'', CHR ''_'', CHR '':'', CHR ''-''}) (tl s))"

definition trimmed_member :: "(string \<times> json) list \<Rightarrow> string \<Rightarrow> string" where
  "trimmed_member kvs key = (case map_of kvs key of Some (JStr s) \<Rightarrow> trim s | _ \<Rightarrow> [])"

definition parseCapabilityRequest :: "json \<Rightarrow> CapabilityRequestArguments option" where
  "parseCapabilityRequest value =
     (case value of
        JObj kvs \<Rightarrow>
          (let capability = trimmed_member kvs ''capability''; reason = trimmed_member kvs ''reason''
           in if \<not> CAPABILITY_ID capability \<or> length reason < 1 \<or> 500 < length reason then None
              else Some \<lparr>cq_capability = capability, cq_reason = reason\<rparr>)
      | _ \<Rightarrow> None)"

definition capabilityRequestSummary :: "CapabilityRequestArguments \<Rightarrow> string" where
  "capabilityRequestSummary i = ''Request '' @ cq_capability i @ '': '' @ cq_reason i"

definition approvedCapabilityRequestText :: "string \<Rightarrow> string" where
  "approvedCapabilityRequestText capability =
     ''The owner approved the request for '' @ capability @ '', but it is not active yet. ''
     @ ''The owner must configure and grant the exact capability. Aicoo will rebuild the affected session ''
     @ ''when that grant arrives; do not retry until the tool is exposed.''"

definition capabilityCatalogue :: "RemoteMcpGrant list \<Rightarrow> string" where
  "capabilityCatalogue grants = join [CHR 0x0A]
     ([''Requestable capability catalogue:'', ''- local.read'', ''- local.write'', ''- process.exec'', ''- network.fetch'',
       ''- network.search'', ''- agent.delegate'', ''- skill.invoke'']
      @ concat (map (\<lambda>g. map (\<lambda>tool. ''- mcp.'' @ mg_name g @ ''.'' @ tool) (mg_enabledTools g)) grants)
      @ [''If an integration is not listed, call request_capability with mcp.<service>.<tool>.'',
         ''That asks the owner; it does not execute or activate the capability.'',
         ''Use it only after Aicoo rebuilds the session and exposes the exact tool.''])"

section \<open>The message of a continuation\<close>

text \<open>
  The stored original message is read by \<open>decode\<close>, which fails when one of the members the code
  tests for is missing.
\<close>

definition continued_task :: "ContinuationCheckpoint \<Rightarrow> string list \<Rightarrow> string \<Rightarrow> string \<Rightarrow> json option \<Rightarrow> json" where
  "continued_task c selectors grantId folder original =
     (let record = (case original of
            Some (JObj kvs) \<Rightarrow> kvs
          | Some (JStr s) \<Rightarrow> [(''text'', JStr s)]
          | _ \<Rightarrow> [(''text'', JStr ''Resume the original task'')]);
          revision = (case ck_grantRevision c of None \<Rightarrow> [] | Some r \<Rightarrow> [(''grantRevision'', JNum r)])
      in JObj (AList.update ''continuation'' (JObj
             ([(''continuationId'', JStr (ck_continuationId c)), (''grantId'', JStr grantId)] @ revision
              @ [(''boundaryRebuild'', JBool True), (''completedSideEffects'', JArr [])]))
          (AList.update ''projectAccessIds'' (JArr (map JStr (sort (js_set (selectors @ [grantId, folder]))))) record)))"

definition continuationInboundMessage ::
    "(json \<Rightarrow> MessageEnvelope option) \<Rightarrow> ContinuationCheckpoint \<Rightarrow> string + MessageEnvelope" where
  "continuationInboundMessage decode c =
     (case decode (cc_originalMessage c) of
        None \<Rightarrow> Inl ''continuation original message is invalid''
      | Some original \<Rightarrow>
          if me_communicationSessionId original \<noteq> Some (cc_communicationSessionId c)
          then Inl ''continuation original message has a different communication session''
          else case keep_truthy (ck_approvedCanonicalFolder c) of
            None \<Rightarrow> Inl ''continuation has no approved folder''
          | Some folder \<Rightarrow>
             (case keep_truthy (ck_grantId c) of
                None \<Rightarrow> Inl ''continuation has no approved grant''
              | Some grantId \<Rightarrow>
                  Inr (original\<lparr>me_correlationId := Some (cc_correlationId c), me_kind := Task_invite,
                    me_payload := AList.update ''task'' (continued_task c (projectAccessSelectors (Some original)) grantId folder
                      (map_of (me_payload original) ''task'')) (me_payload original)\<rparr>)))"

section \<open>Shell commands\<close>

definition MAX_BASH_COMMAND_CHARS :: nat where "MAX_BASH_COMMAND_CHARS = 32768"
definition MAX_BASH_TIMEOUT_MS :: int where "MAX_BASH_TIMEOUT_MS = 120000"
definition MIN_BASH_TIMEOUT_MS :: int where "MIN_BASH_TIMEOUT_MS = 1000"

text \<open>\<open>Inl\<close> is the denial; a timeout is a whole number of milliseconds.\<close>

definition hardenBashInput :: "(string \<times> json) list \<Rightarrow> string + (string \<times> json) list" where
  "hardenBashInput input =
     (case map_of input ''command'' of
        Some (JStr command) \<Rightarrow>
          if trim command = [] \<or> MAX_BASH_COMMAND_CHARS < length command \<or> CHR 0x00 \<in> set command
          then Inl ''Aicoo rejected an invalid shell command''
          else (let requestedTimeout = (case map_of input ''timeout'' of Some (JNum n) \<Rightarrow> n | _ \<Rightarrow> MAX_BASH_TIMEOUT_MS)
                in Inr (AList.update ''dangerouslyDisableSandbox'' (JBool False)
                     (AList.update ''timeout'' (JNum (min MAX_BASH_TIMEOUT_MS (max MIN_BASH_TIMEOUT_MS requestedTimeout)))
                       (AList.update ''command'' (JStr command) input))))
      | _ \<Rightarrow> Inl ''Aicoo rejected an invalid shell command'')"

section \<open>Redaction\<close>

text \<open>A name in which one of the words stands between underscores or ends, in any case.\<close>

definition names_word :: "string list \<Rightarrow> string \<Rightarrow> bool" where
  "names_word ws name = list_ex (occurs (\<lambda>c. c \<noteq> CHR ''_'') (toLowerCase name)) ws"

definition CREDENTIAL_ENV_NAME :: "string \<Rightarrow> bool" where
  "CREDENTIAL_ENV_NAME = names_word
     [''api_key'', ''apikey'', ''token'', ''secret'', ''password'', ''passwd'', ''credential'', ''credentials'',
      ''private_key'', ''privatekey'', ''database_url'', ''auth'']"

definition SECRET_FIELD_NAME :: "string \<Rightarrow> bool" where
  "SECRET_FIELD_NAME = names_word
     [''access_token'', ''accesstoken'', ''refresh_token'', ''refreshtoken'', ''api_key'', ''apikey'', ''secret'', ''password'',
      ''passwd'', ''private_key'', ''privatekey'', ''authorization'']"

type_synonym environment = "(string \<times> string option) list"

definition credentialEnvironmentRules :: "environment \<Rightarrow> string list" where
  "credentialEnvironmentRules environment = sort (filter CREDENTIAL_ENV_NAME (map fst environment))"

definition REDACTED :: string where "REDACTED = ''[REDACTED]''"

text \<open>
  \<^verbatim>\<open>TOKEN_PATTERN\<close>: a prefix, then at least twelve letters, digits, \<^verbatim>\<open>_\<close> and \<^verbatim>\<open>-\<close> up to the last
  one that is no \<^verbatim>\<open>-\<close>, since the match ends at a word boundary. The length of a match here.
\<close>

definition token_char :: "char \<Rightarrow> bool" where
  "token_char c = (word_char c \<or> c = CHR ''-'')"

definition token_prefixes :: "string list" where
  "token_prefixes = [''ghp_'', ''gho_'', ''ghu_'', ''ghs_'', ''ghr_'', ''sk-'', ''aicoo_dev_'', ''aicoo_live_'']"

definition token_run :: "string \<Rightarrow> string" where
  "token_run s = rev (dropWhile (\<lambda>c. c = CHR ''-'') (rev (takeWhile token_char s)))"

definition token_length :: "string \<Rightarrow> nat" where
  "token_length s =
     (case List.find (\<lambda>p. prefix p s) token_prefixes of
        None \<Rightarrow> 0
      | Some p \<Rightarrow> (let n = length (token_run (drop (length p) s)) in if 12 \<le> n then length p + n else 0))"

text \<open>Every match is replaced; \<open>inside\<close> says that a word character comes just before.\<close>

function redact_tokens :: "bool \<Rightarrow> string \<Rightarrow> string" where
  "redact_tokens inside [] = []"
| "redact_tokens inside (c # cs) =
     (let n = token_length (c # cs)
      in if \<not> inside \<and> 0 < n then REDACTED @ redact_tokens True (drop n (c # cs))
         else c # redact_tokens (word_char c) cs)"
  by pat_completeness auto
termination by (relation "measure (\<lambda>(inside, s). length s)") auto

text \<open>\<^verbatim>\<open>text.split(secret).join("[REDACTED]")\<close>, for a secret that is not empty.\<close>

function replace_all :: "string \<Rightarrow> string \<Rightarrow> string" where
  "replace_all secret [] = []"
| "replace_all secret (c # cs) =
     (if secret \<noteq> [] \<and> prefix secret (c # cs) then REDACTED @ replace_all secret (drop (length secret) (c # cs))
      else c # replace_all secret cs)"
  by pat_completeness auto
termination by (relation "measure (\<lambda>(secret, s). length s)") auto

definition redactString :: "string list \<Rightarrow> string \<Rightarrow> string" where
  "redactString knownSecrets value = fold replace_all knownSecrets (redact_tokens False value)"

fun redactValue :: "string list \<Rightarrow> nat \<Rightarrow> json \<Rightarrow> json"
  and redact_items :: "string list \<Rightarrow> nat \<Rightarrow> json list \<Rightarrow> json list"
  and redact_members :: "string list \<Rightarrow> nat \<Rightarrow> (string \<times> json) list \<Rightarrow> (string \<times> json) list" where
  "redactValue secrets depth (JStr s) = JStr (redactString secrets s)"
| "redactValue secrets depth (JArr js) = (if 20 \<le> depth then JStr REDACTED else JArr (redact_items secrets depth js))"
| "redactValue secrets depth (JObj kvs) = (if 20 \<le> depth then JStr REDACTED else JObj (redact_members secrets depth kvs))"
| "redactValue secrets depth v = v"
| "redact_items secrets depth [] = []"
| "redact_items secrets depth (j # js) = redactValue secrets (Suc depth) j # redact_items secrets depth js"
| "redact_members secrets depth [] = []"
| "redact_members secrets depth ((key, j) # kvs) =
     (key, if SECRET_FIELD_NAME key then JStr REDACTED else redactValue secrets (Suc depth) j)
     # redact_members secrets depth kvs"

definition known_secrets :: "environment \<Rightarrow> string list" where
  "known_secrets environment = rev (sort_key length (rev
     (List.map_filter (\<lambda>(name, v). case v of
          Some s \<Rightarrow> if CREDENTIAL_ENV_NAME name \<and> 8 \<le> length s then Some s else None | None \<Rightarrow> None) environment)))"

definition redactToolOutput :: "environment \<Rightarrow> json \<Rightarrow> json" where
  "redactToolOutput environment output = redactValue (known_secrets environment) 0 output"

section \<open>Platforms\<close>

definition contains_text :: "string \<Rightarrow> string \<Rightarrow> bool" where
  "contains_text w text = list_ex (\<lambda>i. prefix w (drop i text)) [0..<Suc (length text)]"

text \<open>\<open>None\<close> is ready, \<open>Some\<close> the reason why not.\<close>

definition evaluateRuntimePlatformReadiness :: "GovernedRuntime \<Rightarrow> string \<Rightarrow> string \<Rightarrow> string option" where
  "evaluateRuntimePlatformReadiness runtime platform osRelease =
     (if runtime = Governed_codex then None
      else if platform = ''win32''
      then Some ''Claude Code full-agent requires macOS, Linux, or WSL2; native Windows sandboxing is unavailable''
      else if platform = ''linux'' \<and> contains_text ''microsoft'' (toLowerCase osRelease)
          \<and> \<not> contains_text ''wsl2'' (toLowerCase osRelease)
      then Some ''Claude Code full-agent requires WSL2; WSL1 sandboxing is unavailable''
      else if platform = ''darwin'' \<or> platform = ''linux'' then None
      else Some (''Claude Code full-agent sandboxing is unavailable on '' @ platform))"

section \<open>A redacted text has no secret\<close>

text \<open>Secrets that the mark of a redaction cannot be part of.\<close>

definition plain_secret :: "string \<Rightarrow> bool" where
  "plain_secret a = (a \<noteq> [] \<and> CHR ''['' \<notin> set a \<and> CHR '']'' \<notin> set a \<and> \<not> sublist a ''REDACTED'')"

lemma plain_secret_mark:
  assumes "plain_secret a" "sublist a (REDACTED @ rest)"
  shows "sublist a rest"
proof -
  have mark: "REDACTED @ rest = CHR ''['' # ''REDACTED'' @ CHR '']'' # rest" by (simp add: REDACTED_def)
  have open_: "\<not> prefix a (CHR ''['' # t)" and close_: "\<not> prefix a (CHR '']'' # t)" for t
    using assms(1) by (cases a; auto simp: plain_secret_def)+
  from assms(2) have "sublist a (''REDACTED'' @ CHR '']'' # rest)"
    unfolding mark sublist_Cons_right using open_ by blast
  then consider "sublist a ''REDACTED''" | "sublist a (CHR '']'' # rest)"
    | xs ys where "a = xs @ ys" "suffix xs ''REDACTED''" "prefix ys (CHR '']'' # rest)"
    unfolding sublist_append by blast
  then show ?thesis
  proof cases
    case 3
    with assms(1) have "ys = []" by (cases ys) (auto simp: plain_secret_def)
    with 3 assms(1) show ?thesis by (auto simp: plain_secret_def dest: suffix_imp_sublist)
  qed (use assms(1) close_ in \<open>auto simp: plain_secret_def sublist_Cons_right\<close>)
qed

declare replace_all.simps(2) [simp del]

lemma replace_all_hit:
  "b \<noteq> [] \<and> prefix b (c # cs) \<Longrightarrow> replace_all b (c # cs) = REDACTED @ replace_all b (drop (length b) (c # cs))"
  by (subst replace_all.simps(2)) simp

lemma replace_all_miss: "\<not> (b \<noteq> [] \<and> prefix b (c # cs)) \<Longrightarrow> replace_all b (c # cs) = c # replace_all b cs"
  by (subst replace_all.simps(2)) auto

lemma prefix_replace_all:
  "CHR ''['' \<notin> set a \<Longrightarrow> prefix a (replace_all b t) \<Longrightarrow> prefix a t"
proof (induction b t arbitrary: a rule: replace_all.induct)
  case (2 b c cs)
  show ?case
  proof (cases "b \<noteq> [] \<and> prefix b (c # cs)")
    case True
    with 2(3,4) show ?thesis by (cases a) (auto simp: REDACTED_def replace_all_hit)
  next
    case False
    with 2(2)[OF False, of "tl a"] 2(3,4) show ?thesis by (cases a) (auto simp: replace_all_miss)
  qed
qed simp

lemma sublist_of_drop: "sublist a (drop n t) \<Longrightarrow> sublist a t"
  by (meson sublist_order.order_trans sublist_drop)

lemma replace_all_keeps:
  "plain_secret a \<Longrightarrow> sublist a (replace_all b t) \<Longrightarrow> sublist a t"
proof (induction b t rule: replace_all.induct)
  case (2 b c cs)
  show ?case
  proof (cases "b \<noteq> [] \<and> prefix b (c # cs)")
    case True
    with 2(4) have "sublist a (REDACTED @ replace_all b (drop (length b) (c # cs)))" by (simp add: replace_all_hit)
    from 2(1)[OF True 2(3) plain_secret_mark[OF 2(3) this]] show ?thesis by (rule sublist_of_drop)
  next
    case False
    with 2(4) consider "prefix a (replace_all b (c # cs))" | "sublist a (replace_all b cs)"
      unfolding replace_all_miss[OF False] sublist_Cons_right by blast
    then show ?thesis
    proof cases
      case 1
      with 2(3) have "prefix a (c # cs)" using prefix_replace_all[OF _ 1] by (simp add: plain_secret_def)
      then show ?thesis by (rule prefix_imp_sublist)
    next
      case 2
      with "2.IH"(2)[OF False "2.prems"(1)] show ?thesis by (simp add: sublist_Cons_right)
    qed
  qed
qed simp

lemma replace_all_removes: "plain_secret a \<Longrightarrow> \<not> sublist a (replace_all a t)"
proof (induction a t rule: replace_all.induct)
  case (2 a c cs)
  show ?case
  proof (cases "a \<noteq> [] \<and> prefix a (c # cs)")
    case True
    with 2(1)[OF True 2(3)] show ?thesis using plain_secret_mark[OF 2(3)] by (auto simp: replace_all_hit)
  next
    case False
    have "\<not> prefix a (replace_all a (c # cs))"
      using prefix_replace_all[of a a "c # cs"] False 2(3) by (auto simp: plain_secret_def)
    with 2(2)[OF False 2(3)] show ?thesis unfolding replace_all_miss[OF False] sublist_Cons_right by blast
  qed
qed (simp add: plain_secret_def)

lemma redactString_removes:
  assumes "plain_secret a" "a \<in> set secrets" shows "\<not> sublist a (redactString secrets t)"
proof -
  have keep: "\<not> sublist a u \<Longrightarrow> \<not> sublist a (fold replace_all ss u)" for ss u
    by (induction ss arbitrary: u) (use replace_all_keeps[OF assms(1)] in auto)
  have "\<not> sublist a (fold replace_all secrets u)" for u
    using assms(2)
  proof (induction secrets arbitrary: u)
    case (Cons s ss)
    then show ?case using keep[OF replace_all_removes[OF assms(1)]] by auto
  qed simp
  then show ?thesis by (simp add: redactString_def)
qed

text \<open>The strings of a value; the names of members are not among them.\<close>

fun leaf_strings :: "json \<Rightarrow> string list"
  and item_strings :: "json list \<Rightarrow> string list"
  and member_strings :: "(string \<times> json) list \<Rightarrow> string list" where
  "leaf_strings (JStr s) = [s]"
| "leaf_strings (JArr js) = item_strings js"
| "leaf_strings (JObj kvs) = member_strings kvs"
| "leaf_strings v = []"
| "item_strings [] = []"
| "item_strings (j # js) = leaf_strings j @ item_strings js"
| "member_strings [] = []"
| "member_strings ((key, j) # kvs) = leaf_strings j @ member_strings kvs"

lemma redacted_mark: "plain_secret a \<Longrightarrow> \<not> sublist a REDACTED"
  using plain_secret_mark[of a "[]"] by (auto simp: plain_secret_def)

lemma redacted_strings:
  "plain_secret a \<Longrightarrow> a \<in> set secrets \<Longrightarrow> s \<in> set (leaf_strings (redactValue secrets depth v)) \<Longrightarrow> \<not> sublist a s"
  "plain_secret a \<Longrightarrow> a \<in> set secrets \<Longrightarrow> s \<in> set (item_strings (redact_items secrets depth js)) \<Longrightarrow> \<not> sublist a s"
  "plain_secret a \<Longrightarrow> a \<in> set secrets \<Longrightarrow> s \<in> set (member_strings (redact_members secrets depth kvs)) \<Longrightarrow> \<not> sublist a s"
  by (induction secrets depth v and secrets depth js and secrets depth kvs
        rule: redactValue_redact_items_redact_members.induct)
     (auto simp: redacted_mark redactString_removes split: if_splits)



section \<open>Hardened commands and resumed messages\<close>

text \<open>
  C27: a shell command that passes keeps its text and its other settings, never
  leaves the sandbox, and runs between one second and two minutes; a command that is missing,
  blank, too long or has a zero character never passes.
\<close>

theorem hardened_command:
  assumes "hardenBashInput input = Inr out"
  shows "(\<exists>command n. map_of input ''command'' = Some (JStr command) \<and> map_of out ''command'' = Some (JStr command)
      \<and> trim command \<noteq> [] \<and> length command \<le> MAX_BASH_COMMAND_CHARS \<and> CHR 0x00 \<notin> set command
      \<and> map_of out ''timeout'' = Some (JNum n) \<and> MIN_BASH_TIMEOUT_MS \<le> n \<and> n \<le> MAX_BASH_TIMEOUT_MS
      \<and> (\<forall>k. map_of input ''timeout'' = Some (JNum k) \<and> MIN_BASH_TIMEOUT_MS \<le> k \<and> k \<le> MAX_BASH_TIMEOUT_MS \<longrightarrow> n = k))
    \<and> map_of out ''dangerouslyDisableSandbox'' = Some (JBool False)
    \<and> (\<forall>k. k \<notin> {''command'', ''timeout'', ''dangerouslyDisableSandbox''} \<longrightarrow> map_of out k = map_of input k)"
proof -
  obtain command where command: "map_of input ''command'' = Some (JStr command)" "trim command \<noteq> []"
    "length command \<le> MAX_BASH_COMMAND_CHARS" "CHR 0x00 \<notin> set command"
    using assms by (auto simp: hardenBashInput_def split: option.split_asm json.split_asm if_split_asm)
  define n where "n = min MAX_BASH_TIMEOUT_MS (max MIN_BASH_TIMEOUT_MS
     (case map_of input ''timeout'' of Some (JNum n) \<Rightarrow> n | _ \<Rightarrow> MAX_BASH_TIMEOUT_MS))"
  have out: "out = AList.update ''dangerouslyDisableSandbox'' (JBool False)
      (AList.update ''timeout'' (JNum n) (AList.update ''command'' (JStr command) input))"
    using assms command by (simp add: hardenBashInput_def n_def Let_def)
  have "MIN_BASH_TIMEOUT_MS \<le> n" "n \<le> MAX_BASH_TIMEOUT_MS"
    by (simp_all add: n_def MIN_BASH_TIMEOUT_MS_def MAX_BASH_TIMEOUT_MS_def)
  moreover have "n = k" if "map_of input ''timeout'' = Some (JNum k)" "MIN_BASH_TIMEOUT_MS \<le> k" "k \<le> MAX_BASH_TIMEOUT_MS" for k
    using that by (simp add: n_def)
  ultimately show ?thesis
    using command by (auto simp: out update_conv')
qed

theorem hardened_command_witness:
  "let input = [(''command'', JStr ''make test''), (''timeout'', JNum 600000), (''dangerouslyDisableSandbox'', JBool True)];
       out = [(''command'', JStr ''make test''), (''timeout'', JNum 120000), (''dangerouslyDisableSandbox'', JBool False)]
   in hardenBashInput input = Inr out \<and> map_of out ''dangerouslyDisableSandbox'' = Some (JBool False)"
proof -
  have run: "hardenBashInput [(''command'', JStr ''make test''), (''timeout'', JNum 600000), (''dangerouslyDisableSandbox'', JBool True)]
     = Inr [(''command'', JStr ''make test''), (''timeout'', JNum 120000), (''dangerouslyDisableSandbox'', JBool False)]"
    by (simp add: hardenBashInput_def trim_def js_space_def MAX_BASH_COMMAND_CHARS_def MAX_BASH_TIMEOUT_MS_def MIN_BASH_TIMEOUT_MS_def)
  with hardened_command[OF run] show ?thesis by (simp add: Let_def)
qed

definition selector_ok :: "string \<Rightarrow> bool" where
  "selector_ok s = (trim s \<noteq> [] \<and> length s \<le> 1024)"

lemma z_array_selectors:
  "z_array selector_text (map JStr ss) = (if list_all selector_ok ss then Some (map trim ss) else None)"
  by (induction ss) (auto simp: selector_text_def selector_ok_def)

lemma map_of_update_same: "map_of (AList.update k v kvs) k = Some v"
  by (simp add: update_conv)

lemma map_of_update_other: "k' \<noteq> k \<Longrightarrow> map_of (AList.update k v kvs) k' = map_of kvs k'"
  by (simp add: update_conv)

lemma task_selectors:
  "task_of message = Some (JObj kvs) \<Longrightarrow> map_of kvs ''projectAccessIds'' = Some (JArr js) \<Longrightarrow>
   projectAccessSelectors message = (if js = [] \<or> 16 < length js then [invalid_selection]
     else case z_array selector_text js of None \<Rightarrow> [invalid_selection] | Some ss \<Rightarrow> sort (js_set ss))"
  by (simp add: projectAccessSelectors_def)

lemma resumed_selectors:
  assumes "continuationInboundMessage decode c = Inr m" "decode (cc_originalMessage c) = Some original"
    and "ck_grantId c = Some grantId" "ck_approvedCanonicalFolder c = Some folder"
    and "requested = sort (js_set (projectAccessSelectors (Some original) @ [grantId, folder]))"
  shows "projectAccessSelectors (Some m) = (if list_all selector_ok requested \<and> length requested \<le> 16
    then sort (js_set (map trim requested)) else [invalid_selection])"
proof -
  have m: "task_of (Some m) = Some (continued_task c (projectAccessSelectors (Some original)) grantId folder
      (map_of (me_payload original) ''task''))"
    using assms(1-4) by (auto simp: continuationInboundMessage_def task_of_def map_of_update_same split: if_split_asm)
  obtain kvs where kvs: "continued_task c (projectAccessSelectors (Some original)) grantId folder (map_of (me_payload original) ''task'')
      = JObj kvs" "map_of kvs ''projectAccessIds'' = Some (JArr (map JStr requested))"
    by (simp add: continued_task_def Let_def map_of_update_same map_of_update_other assms(5))
  have "grantId \<in> set requested" by (simp add: assms(5))
  then have "requested \<noteq> []" by auto
  with task_selectors[OF _ kvs(2), of "Some m"] m kvs(1) show ?thesis by (auto simp: z_array_selectors)
qed

text \<open>
  The message a continuation resumes with is the original task of
  the same sender, device and session, with the granted policy and folder added to its
  selection; when one of the selectors is unusable, or they are more than sixteen, it
  selects nothing that exists.
\<close>

theorem resumed_message_selects_grant:
  assumes "continuationInboundMessage decode c = Inr m"
  shows "\<exists>original grantId folder. decode (cc_originalMessage c) = Some original \<and> ck_grantId c = Some grantId
    \<and> ck_approvedCanonicalFolder c = Some folder
    \<and> me_id m = me_id original \<and> me_senderPrincipalId m = me_senderPrincipalId original
    \<and> me_senderDeviceId m = me_senderDeviceId original \<and> me_communicationSessionId m = Some (cc_communicationSessionId c)
    \<and> (let requested = sort (js_set (projectAccessSelectors (Some original) @ [grantId, folder]))
       in projectAccessSelectors (Some m) = (if list_all selector_ok requested \<and> length requested \<le> 16
            then sort (js_set (map trim requested)) else [invalid_selection]))"
proof -
  from assms obtain original grantId folder where parts: "decode (cc_originalMessage c) = Some original"
    "ck_grantId c = Some grantId" "ck_approvedCanonicalFolder c = Some folder"
    and same: "me_id m = me_id original" "me_senderPrincipalId m = me_senderPrincipalId original"
      "me_senderDeviceId m = me_senderDeviceId original" "me_communicationSessionId m = Some (cc_communicationSessionId c)"
    by (auto simp: continuationInboundMessage_def keep_truthy_Some_iff split: option.split_asm if_split_asm)
  with resumed_selectors[OF assms parts HOL.refl] show ?thesis unfolding Let_def by blast
qed

text \<open>An approved folder whose path is longer than a selector may be is never selected.\<close>

lemma long_folder_never_selected:
  assumes "continuationInboundMessage decode c = Inr m" "ck_approvedCanonicalFolder c = Some folder" "1024 < length folder"
  shows "projectAccessSelectors (Some m) = [invalid_selection]"
proof -
  obtain original grantId where "decode (cc_originalMessage c) = Some original" "ck_grantId c = Some grantId"
    using assms(1) by (auto simp: continuationInboundMessage_def keep_truthy_Some_iff split: option.split_asm if_split_asm)
  from resumed_selectors[OF assms(1) this assms(2) HOL.refl] assms(3) show ?thesis
    by (auto simp: list_all_iff selector_ok_def)
qed

definition demo_original :: MessageEnvelope where
  "demo_original = \<lparr>me_id = ''m1'', me_clientMessageId = ''c1'', me_communicationSessionId = Some ''s1'',
     me_collaborationId = None, me_collaborationTurn = None, me_senderPrincipalId = ''alice'',
     me_senderDeviceId = Some ''laptop'',
     me_target = \<lparr>mt_kind = Runtime_session, mt_principalId = ''bob'', mt_endpointId = None, mt_sessionHandle = None\<rparr>,
     me_kind = Task_invite, me_payload = [(''task'', JStr ''fix it'')], me_replyTo = None, me_correlationId = None,
     me_sequence = 1, me_createdAt = 0, me_expiresAt = 0\<rparr>"

definition demo_checkpoint :: ContinuationCheckpoint where
  "demo_checkpoint = (fromRow demo_row)\<lparr>ck_grantId := Some ''g1'', ck_grantRevision := Some 1,
     ck_approvedCanonicalFolder := Some ''/w/app''\<rparr>"

theorem resumed_message_selects_grant_witness:
  "\<exists>m. continuationInboundMessage (\<lambda>_. Some demo_original) demo_checkpoint = Inr m
     \<and> projectAccessSelectors (Some m) = [''/w/app'', ''g1''] \<and> me_senderPrincipalId m = ''alice''"
proof -
  have "isl (continuationInboundMessage (\<lambda>_. Some demo_original) demo_checkpoint) = False" by code_simp
  then obtain m where m: "continuationInboundMessage (\<lambda>_. Some demo_original) demo_checkpoint = Inr m"
    by (cases "continuationInboundMessage (\<lambda>_. Some demo_original) demo_checkpoint") auto
  have selectors: "projectAccessSelectors (Some demo_original) = []"
    by (simp add: projectAccessSelectors_def task_of_def demo_original_def)
  have requested: "sort (js_set [''g1'', ''/w/app'']) = [''/w/app'', ''g1'']" "js_set [''g1'', ''/w/app''] = [''g1'', ''/w/app'']" by code_simp+
  have checks: "list_all selector_ok [''/w/app'', ''g1'']" "map trim [''/w/app'', ''g1''] = [''/w/app'', ''g1'']"
    "sort (js_set [''/w/app'', ''g1'']) = [''/w/app'', ''g1'']" by code_simp+
  have ids: "ck_grantId demo_checkpoint = Some ''g1''" "ck_approvedCanonicalFolder demo_checkpoint = Some ''/w/app''"
    by (simp_all add: demo_checkpoint_def)
  from resumed_message_selects_grant[OF m] ids selectors requested checks m show ?thesis
    by (simp add: demo_original_def Let_def)
qed

end
