(* ===== verification/Codex_Protocol.thy ===== *)
theory Codex_Protocol
  imports Codex_Profile Capabilities
begin

text \<open>
  How the bridge speaks with a Codex process: the queue between its output and the adapter
  (\<^verbatim>\<open>src/adapters/claude-code/message-queue.ts\<close>), the arguments of \<^verbatim>\<open>codex exec\<close>
  (\<^verbatim>\<open>src/adapters/codex/driver.ts\<close>), the translation of the \<^verbatim>\<open>app-server\<close> protocol
  (\<^verbatim>\<open>app-server-protocol.ts\<close>), one turn of an \<^verbatim>\<open>app-server\<close> process (\<^verbatim>\<open>app-server-driver.ts\<close>)
  and the probes of the sandboxes (\<^verbatim>\<open>sandbox-probe.ts\<close> of both adapters). A parsed line of the
  process is a \<open>json\<close>; what the process is sent is a list of messages.
\<close>

section \<open>The queue\<close>

text \<open>
  Readers are served in order, so a number stands for those that wait; \<open>q_read\<close> is what readers
  got, \<open>q_ended\<close> how many were told the end.
\<close>

record 'a message_queue =
  q_items :: "'a list"
  q_waiters :: nat
  q_read :: "'a list"
  q_ended :: nat
  q_closed :: bool

definition new_queue :: "'a message_queue" where
  "new_queue = \<lparr>q_items = [], q_waiters = 0, q_read = [], q_ended = 0, q_closed = False\<rparr>"

text \<open>The push, refused on a closed queue.\<close>

definition queue_push :: "'a \<Rightarrow> 'a message_queue \<Rightarrow> bool \<times> 'a message_queue" where
  "queue_push v q =
     (if q_closed q then (False, q)
      else if q_waiters q \<noteq> 0 then (True, q\<lparr>q_waiters := q_waiters q - 1, q_read := q_read q @ [v]\<rparr>)
      else (True, q\<lparr>q_items := q_items q @ [v]\<rparr>))"

definition queue_close :: "'a message_queue \<Rightarrow> 'a message_queue" where
  "queue_close q =
     (if q_closed q then q
      else q\<lparr>q_closed := True, q_items := [], q_waiters := 0, q_ended := q_ended q + q_waiters q\<rparr>)"

definition queue_next :: "'a message_queue \<Rightarrow> 'a message_queue" where
  "queue_next q =
     (case q_items q of
        v # rest \<Rightarrow> q\<lparr>q_items := rest, q_read := q_read q @ [v]\<rparr>
      | [] \<Rightarrow> if q_closed q then q\<lparr>q_ended := q_ended q + 1\<rparr> else q\<lparr>q_waiters := q_waiters q + 1\<rparr>)"

section \<open>Events and questions of Codex\<close>

type_synonym CodexThreadItem = "(string \<times> json) list"

text \<open>The last is whatever else the process writes; nothing looks at it.\<close>

datatype CodexThreadEvent =
    Thread_started string
  | Turn_started
  | Item_started CodexThreadItem
  | Item_updated CodexThreadItem
  | Item_completed CodexThreadItem
  | Turn_completed
  | Turn_failed_with "string option"
  | Error_event "string option" bool
  | Other_event json

datatype CodexApprovalKind = Kind_command | Kind_file_change | Kind_permissions

definition APPROVAL_METHODS :: "(string \<times> CodexApprovalKind) list" where
  "APPROVAL_METHODS =
     [(''item/commandExecution/requestApproval'', Kind_command), (''item/fileChange/requestApproval'', Kind_file_change),
      (''item/permissions/requestApproval'', Kind_permissions)]"

record CodexApprovalRequest =
  ar_kind :: CodexApprovalKind
  ar_summary :: string
  ar_command :: "string option"
  ar_cwd :: "string option"
  ar_reason :: "string option"
  ar_paths :: "string list option"

datatype CodexApprovalDecision = Accept | Accept_for_session | Decline

fun decision_text :: "CodexApprovalDecision \<Rightarrow> string" where
  "decision_text Accept = ''accept''"
| "decision_text Accept_for_session = ''acceptForSession''"
| "decision_text Decline = ''decline''"

definition members_of :: "json \<Rightarrow> (string \<times> json) list" where
  "members_of j = (case j of JObj kvs \<Rightarrow> kvs | _ \<Rightarrow> [])"

definition member_text :: "(string \<times> json) list \<Rightarrow> string \<Rightarrow> string option" where
  "member_text kvs key = (case map_of kvs key of Some (JStr s) \<Rightarrow> Some s | _ \<Rightarrow> None)"

definition fileChangePaths :: "(string \<times> json) list \<Rightarrow> string list" where
  "fileChangePaths params =
     (case (case map_of params ''changes'' of Some JNull \<Rightarrow> map_of params ''fileChanges''
              | None \<Rightarrow> map_of params ''fileChanges'' | found \<Rightarrow> found) of
        Some (JArr js) \<Rightarrow> List.map_filter (\<lambda>c. member_text (members_of c) ''path'') js
      | Some (JObj kvs) \<Rightarrow> js_set (map fst kvs)
      | _ \<Rightarrow> [])"

definition summarizeApproval :: "CodexApprovalKind \<Rightarrow> (string \<times> json) list \<Rightarrow> string option \<Rightarrow> string" where
  "summarizeApproval kind params command =
     (case kind of
        Kind_command \<Rightarrow> (if truthy command then ''Run: '' @ the command else ''Run a shell command'')
      | Kind_file_change \<Rightarrow>
          (let paths = fileChangePaths params
           in if paths \<noteq> [] then ''Modify: '' @ join '', '' paths else ''Modify files'')
      | Kind_permissions \<Rightarrow> ''Widen this session'' @ [CHR 0x27] @ ''s sandbox permissions'')"

definition classifyApproval :: "string \<Rightarrow> json \<Rightarrow> CodexApprovalRequest option" where
  "classifyApproval method params =
     map_option (\<lambda>kind.
        let p = members_of params;
            command = member_text p ''command'';
            paths = (if kind = Kind_file_change then fileChangePaths p else [])
        in \<lparr>ar_kind = kind, ar_summary = summarizeApproval kind p command, ar_command = keep_truthy command,
            ar_cwd = keep_truthy (member_text p ''cwd''), ar_reason = keep_truthy (member_text p ''reason''),
            ar_paths = (if paths \<noteq> [] then Some paths else None)\<rparr>)
       (map_of APPROVAL_METHODS method)"

definition approvalResponse :: "CodexApprovalRequest \<Rightarrow> CodexApprovalDecision \<Rightarrow> json" where
  "approvalResponse request decision =
     (if ar_kind request = Kind_permissions
      then JObj [(''permissions'', JObj []), (''scope'', JStr ''turn'')]
      else JObj [(''decision'', JStr (decision_text decision))])"

definition UNKNOWN_APPROVAL_RESPONSE :: json where
  "UNKNOWN_APPROVAL_RESPONSE = JObj [(''decision'', JStr ''decline'')]"

definition snake_char :: "char \<Rightarrow> string" where
  "snake_char c = (if in_chars CHR ''A'' CHR ''Z'' c then [CHR ''_'', lower c] else [c])"

definition normalizeItemType :: "json option \<Rightarrow> string option" where
  "normalizeItemType type = (case type of Some (JStr s) \<Rightarrow> Some (concat (map snake_char s)) | _ \<Rightarrow> None)"

text \<open>An item that is an array has its elements as members, and no type.\<close>

definition normalizeItem :: "json option \<Rightarrow> CodexThreadItem" where
  "normalizeItem item =
     (case item of
        Some (JObj source) \<Rightarrow>
          (case keep_truthy (normalizeItemType (map_of source ''type'')) of
             Some type \<Rightarrow> AList.update ''type'' (JStr type) source | None \<Rightarrow> source)
      | Some (JArr js) \<Rightarrow> map (\<lambda>i. (dec_nat i, js ! i)) [0..<length js]
      | _ \<Rightarrow> [])"

definition turnFailureMessage :: "(string \<times> json) list \<Rightarrow> string" where
  "turnFailureMessage params =
     (case map_of params ''error'' of
        Some (JStr e) \<Rightarrow> e
      | Some (JObj kvs) \<Rightarrow> or_else (member_text kvs ''message'') ''codex turn failed''
      | _ \<Rightarrow> ''codex turn failed'')"

definition mapNotification :: "string \<Rightarrow> json \<Rightarrow> CodexThreadEvent option" where
  "mapNotification method params =
     (let p = members_of params
      in if method = ''thread/started'' then map_option Thread_started (member_text p ''threadId'')
         else if method = ''turn/started'' then Some Turn_started
         else if method = ''item/started'' then Some (Item_started (normalizeItem (map_of p ''item'')))
         else if method = ''item/updated'' then Some (Item_updated (normalizeItem (map_of p ''item'')))
         else if method = ''item/completed'' then Some (Item_completed (normalizeItem (map_of p ''item'')))
         else if method = ''turn/completed'' then Some Turn_completed
         else if method = ''turn/failed'' then Some (Turn_failed_with (Some (turnFailureMessage p)))
         else None)"

definition isTerminalNotification :: "string \<Rightarrow> bool" where
  "isTerminalNotification method = (method = ''turn/completed'' \<or> method = ''turn/failed'')"

section \<open>Starting a process\<close>

text \<open>
  \<^verbatim>\<open>onApproval\<close> and \<^verbatim>\<open>onDynamicToolCall\<close> are what they answer, \<open>Inl\<close> of an exception's text or the
  answer; \<open>None\<close> when there is no such route.
\<close>

record CodexTurnStartInput =
  si_prompt :: string
  si_cwd :: string
  si_resumeThreadId :: "string option"
  si_writableRoots :: "string list option"
  si_permissionProfile :: "PreparedCodexProfile option"
  si_codexPath :: "string option"
  si_model :: "string option"
  si_onApproval :: "(CodexApprovalRequest \<Rightarrow> string + CodexApprovalDecision) option"
  si_dynamicTools :: "json list"
  si_onDynamicToolCall :: "(json \<Rightarrow> string + bool \<times> string) option"
  si_turnTimeoutMs :: "int option"

definition requiresWindowsShell :: "string \<Rightarrow> string \<Rightarrow> bool" where
  "requiresWindowsShell command platform =
     (platform = ''win32'' \<and> (suffix ''.cmd'' (toLowerCase command) \<or> suffix ''.bat'' (toLowerCase command)))"

definition buildCodexSpawnCommand :: "string \<Rightarrow> string list \<Rightarrow> string \<Rightarrow> string option \<Rightarrow> string \<times> string list" where
  "buildCodexSpawnCommand command args platform comSpec =
     (if \<not> requiresWindowsShell command platform then (command, args)
      else (or_else comSpec ''cmd.exe'', [''/d'', ''/s'', ''/c'', command] @ args))"

definition string_list_json :: "string list \<Rightarrow> string" where
  "string_list_json ss = stringify (JArr (map JStr ss))"

definition sandbox_flags :: "CodexTurnStartInput \<Rightarrow> string list" where
  "sandbox_flags input =
     (let writableRoots = or_else (si_writableRoots input) []
      in case si_permissionProfile input of
           Some profile \<Rightarrow> [''-c'', ''permission_profile='' @ stringify (JStr (pc_profileName profile))]
         | None \<Rightarrow>
             [''-c'', ''sandbox_mode='' @ stringify (JStr (if writableRoots \<noteq> [] then ''workspace-write'' else ''read-only''))]
             @ (if writableRoots \<noteq> []
                then [''-c'', ''sandbox_workspace_write.writable_roots='' @ string_list_json writableRoots] else []))"

definition buildArgs :: "CodexTurnStartInput \<Rightarrow> string list" where
  "buildArgs input =
     (let isolation = [''--json'', ''--skip-git-repo-check'']
            @ (if si_permissionProfile input = None then [''--ignore-user-config''] else [])
            @ [''--ignore-rules''] @ sandbox_flags input
            @ [''-c'', ''project_doc_max_bytes=0'', ''-c'', ''tools.web_search=false'']
            @ (case keep_truthy (si_model input) of Some m \<Rightarrow> [''-m'', m] | None \<Rightarrow> [])
      in case keep_truthy (si_resumeThreadId input) of
           Some thread \<Rightarrow> [''exec'', ''resume'', thread] @ isolation @ [''-'']
         | None \<Rightarrow> ''exec'' # isolation @ [''-C'', si_cwd input, ''-''])"

text \<open>The environment of the process: that of the bridge, with the settings of the profile over it.\<close>

definition spawn_environment :: "(string \<times> string) list \<Rightarrow> CodexTurnStartInput \<Rightarrow> (string \<times> string) list" where
  "spawn_environment environment input =
     (case si_permissionProfile input of
        None \<Rightarrow> environment
      | Some profile \<Rightarrow> AList.update ''CODEX_HOME'' (pc_codexHome profile)
          (fold (\<lambda>(k, v). AList.update k v) (or_else (pc_environment profile) []) environment))"

section \<open>A turn of \<^verbatim>\<open>codex exec\<close>\<close>

text \<open>A line is the event it parses to, \<open>None\<close> when it does not.\<close>

record exec_turn =
  xt_events :: "CodexThreadEvent message_queue"
  xt_stderrTail :: string
  xt_sawTerminalEvent :: bool
  xt_closed :: bool
  xt_killed :: bool

definition new_exec_turn :: exec_turn where
  "new_exec_turn = \<lparr>xt_events = new_queue, xt_stderrTail = [], xt_sawTerminalEvent = False, xt_closed = False, xt_killed = False\<rparr>"

definition last_chars :: "nat \<Rightarrow> string \<Rightarrow> string" where
  "last_chars n s = drop (length s - n) s"

definition exec_push :: "CodexThreadEvent \<Rightarrow> exec_turn \<Rightarrow> exec_turn" where
  "exec_push e = xt_events_update (\<lambda>q. snd (queue_push e q))"

definition ends_turn :: "CodexThreadEvent \<Rightarrow> bool" where
  "ends_turn e = (case e of Turn_completed \<Rightarrow> True | Turn_failed_with _ \<Rightarrow> True | _ \<Rightarrow> False)"

definition exec_line :: "CodexThreadEvent option \<Rightarrow> exec_turn \<Rightarrow> exec_turn" where
  "exec_line line t =
     (case line of None \<Rightarrow> t
      | Some e \<Rightarrow> exec_push e (t\<lparr>xt_sawTerminalEvent := xt_sawTerminalEvent t \<or> ends_turn e\<rparr>))"

definition exec_stderr :: "string \<Rightarrow> exec_turn \<Rightarrow> exec_turn" where
  "exec_stderr data t = t\<lparr>xt_stderrTail := last_chars 2000 (xt_stderrTail t @ data)\<rparr>"

definition exec_spawn_failed :: "string \<Rightarrow> exec_turn \<Rightarrow> exec_turn" where
  "exec_spawn_failed e t =
     xt_events_update queue_close (exec_push (Error_event (Some (''codex spawn failed: '' @ e)) True) t)"

definition exit_text :: "int option \<Rightarrow> string \<Rightarrow> string" where
  "exit_text code stderrTail =
     (case code of None \<Rightarrow> ''null'' | Some c \<Rightarrow> dec_int c) @ '': ''
     @ (if trim stderrTail \<noteq> [] then trim stderrTail else ''no stderr output'')"

definition exec_exited :: "int option \<Rightarrow> exec_turn \<Rightarrow> exec_turn" where
  "exec_exited code t = xt_events_update queue_close
     (if \<not> xt_closed t \<and> code \<noteq> Some 0 \<and> \<not> xt_sawTerminalEvent t
      then exec_push (Error_event (Some (''codex exited with code '' @ exit_text code (xt_stderrTail t))) True) t else t)"

definition exec_close :: "exec_turn \<Rightarrow> exec_turn" where
  "exec_close t =
     (if xt_closed t then t
      else t\<lparr>xt_closed := True, xt_killed := True, xt_events := queue_close (xt_events t)\<rparr>)"

section \<open>A turn of the \<^verbatim>\<open>app-server\<close>\<close>

text \<open>
  The requests of the driver are made one after the other, each in a stage of \<^verbatim>\<open>#run\<close>;
  \<open>st_finish_after\<close> counts the unread items up to the terminal event, behind which the queue is
  closed and the process ended.
\<close>

datatype run_stage = Await_initialize | Await_thread | Await_turn

record server_turn =
  st_nextId :: nat
  st_pending :: "(nat \<times> run_stage) list"
  st_written :: "json list"
  st_events :: "CodexThreadEvent message_queue"
  st_stderrTail :: string
  st_sawTerminal :: bool
  st_closed :: bool
  st_killed :: bool
  st_timer :: bool
  st_finish_after :: "nat option"

definition server_write :: "json \<Rightarrow> server_turn \<Rightarrow> server_turn" where
  "server_write message t = (if st_closed t then t else t\<lparr>st_written := st_written t @ [message]\<rparr>)"

definition server_request :: "run_stage \<Rightarrow> string \<Rightarrow> json \<Rightarrow> server_turn \<Rightarrow> server_turn" where
  "server_request stage method params t =
     server_write (JObj [(''jsonrpc'', JStr ''2.0''), (''id'', JNum (int (st_nextId t))), (''method'', JStr method), (''params'', params)])
       (t\<lparr>st_nextId := st_nextId t + 1, st_pending := st_pending t @ [(st_nextId t, stage)]\<rparr>)"

definition server_notify :: "string \<Rightarrow> json \<Rightarrow> server_turn \<Rightarrow> server_turn" where
  "server_notify method params =
     server_write (JObj [(''jsonrpc'', JStr ''2.0''), (''method'', JStr method), (''params'', params)])"

definition server_response :: "json \<Rightarrow> json \<Rightarrow> json" where
  "server_response i result = JObj [(''jsonrpc'', JStr ''2.0''), (''id'', i), (''result'', result)]"

definition server_push :: "CodexThreadEvent \<Rightarrow> server_turn \<Rightarrow> server_turn" where
  "server_push e = st_events_update (\<lambda>q. snd (queue_push e q))"

definition sandboxPolicy :: "CodexTurnStartInput \<Rightarrow> json" where
  "sandboxPolicy input =
     (let writableRoots = or_else (si_writableRoots input) []
      in if writableRoots \<noteq> []
         then JObj [(''type'', JStr ''workspaceWrite''), (''writableRoots'', JArr (map JStr writableRoots)), (''networkAccess'', JBool False)]
         else JObj [(''type'', JStr ''readOnly''), (''networkAccess'', JBool False)])"

definition readThreadId :: "json option \<Rightarrow> string option" where
  "readThreadId result =
     (let record = (case result of Some j \<Rightarrow> members_of j | None \<Rightarrow> [])
      in case member_text record ''threadId'' of
           Some i \<Rightarrow> Some i
         | None \<Rightarrow> (case map_of record ''thread'' of Some thread \<Rightarrow> member_text (members_of thread) ''id'' | None \<Rightarrow> None))"

definition thread_request :: "CodexTurnStartInput \<Rightarrow> string \<times> json" where
  "thread_request input =
     (case keep_truthy (si_resumeThreadId input) of
        Some thread \<Rightarrow> (''thread/resume'', JObj [(''threadId'', JStr thread)])
      | None \<Rightarrow> (''thread/start'', JObj ([(''cwd'', JStr (si_cwd input))]
          @ (if si_dynamicTools input \<noteq> [] then [(''dynamicTools'', JArr (si_dynamicTools input))] else [])
          @ [(''approvalPolicy'', JStr ''untrusted'')]
          @ (case si_permissionProfile input of
               Some profile \<Rightarrow> [(''permissions'', JStr (pc_profileName profile)),
                 (''runtimeWorkspaceRoots'', JArr (map JStr (pc_workspaceRoots profile)))]
             | None \<Rightarrow> [(''sandboxPolicy'', sandboxPolicy input)]))))"

definition new_server_turn :: server_turn where
  "new_server_turn = server_request Await_initialize ''initialize''
     (JObj [(''clientInfo'', JObj [(''name'', JStr ''aicoo-local-agent''), (''version'', JStr ''0.3.1''),
          (''title'', JStr ''Aicoo Local Agent'')]),
        (''capabilities'', JObj [(''experimentalApi'', JBool True)])])
     \<lparr>st_nextId = 1, st_pending = [], st_written = [], st_events = new_queue, st_stderrTail = [],
      st_sawTerminal = False, st_closed = False, st_killed = False, st_timer = False, st_finish_after = None\<rparr>"

definition run_failed :: "string \<Rightarrow> server_turn \<Rightarrow> server_turn" where
  "run_failed e t =
     (if st_closed t then t
      else st_events_update queue_close
        (server_push (Error_event (Some (''codex app-server turn failed: Error: '' @ e)) True) t))"

text \<open>What \<^verbatim>\<open>#run\<close> does when its request is answered.\<close>

definition run_continues :: "CodexTurnStartInput \<Rightarrow> run_stage \<Rightarrow> json option \<Rightarrow> server_turn \<Rightarrow> server_turn" where
  "run_continues input stage result t =
     (case stage of
        Await_initialize \<Rightarrow>
          (let (method, params) = thread_request input
           in server_request Await_thread method params (server_notify ''initialized'' (JObj []) t))
      | Await_thread \<Rightarrow>
          (case keep_truthy (readThreadId result) of
             None \<Rightarrow> run_failed ''codex app-server did not return a thread id'' t
           | Some thread \<Rightarrow> server_request Await_turn ''turn/start''
               (JObj [(''threadId'', JStr thread),
                  (''input'', JArr [JObj [(''type'', JStr ''text''), (''text'', JStr (si_prompt input))]])])
               (server_push (Thread_started thread) t))
      | Await_turn \<Rightarrow> t\<lparr>st_timer := st_timer t \<or> si_turnTimeoutMs input \<noteq> None\<rparr>)"

definition json_truthy :: "json option \<Rightarrow> bool" where
  "json_truthy v = (v \<notin> {None, Some JNull, Some (JBool False), Some (JNum 0), Some (JStr [])})"

definition server_answered :: "CodexTurnStartInput \<Rightarrow> json \<Rightarrow> (string \<times> json) list \<Rightarrow> server_turn \<Rightarrow> server_turn" where
  "server_answered input i message t =
     (case List.find (\<lambda>(n, _). i = JNum (int n)) (st_pending t) of
        None \<Rightarrow> t
      | Some (n, stage) \<Rightarrow>
          (let t = t\<lparr>st_pending := filter (\<lambda>(m, _). m \<noteq> n) (st_pending t)\<rparr>
           in if json_truthy (map_of message ''error'')
              then run_failed (stringify (the (map_of message ''error''))) t
              else run_continues input stage (map_of message ''result'') t))"

definition dynamicToolResponse :: "bool \<Rightarrow> string \<Rightarrow> json" where
  "dynamicToolResponse success text = JObj [(''success'', JBool success),
     (''contentItems'', JArr [JObj [(''type'', JStr ''inputText''), (''text'', JStr text)]])]"

text \<open>The answer to a request of the server; routes that throw refuse.\<close>

definition answerServerRequest :: "CodexTurnStartInput \<Rightarrow> string \<Rightarrow> json \<Rightarrow> json" where
  "answerServerRequest input method params =
     (if method = ''item/tool/call''
      then (case si_onDynamicToolCall input of
              None \<Rightarrow> dynamicToolResponse False ''Aicoo capability request route is unavailable''
            | Some route \<Rightarrow> (case route params of
                Inl _ \<Rightarrow> dynamicToolResponse False ''Aicoo capability request failed''
              | Inr (success, answer) \<Rightarrow> dynamicToolResponse success answer))
      else if \<not> suffix ''requestApproval'' method then JObj []
      else case classifyApproval method params of
        None \<Rightarrow> UNKNOWN_APPROVAL_RESPONSE
      | Some request \<Rightarrow>
         (case si_onApproval input of
            None \<Rightarrow> approvalResponse request Decline
          | Some route \<Rightarrow> approvalResponse request (case route request of Inl _ \<Rightarrow> Decline | Inr decision \<Rightarrow> decision)))"

definition server_ended :: "CodexThreadEvent \<Rightarrow> server_turn \<Rightarrow> server_turn" where
  "server_ended e t =
     (let t = t\<lparr>st_sawTerminal := True, st_timer := False\<rparr>; waited = q_waiters (st_events t) \<noteq> 0 \<or> q_closed (st_events t);
          t' = server_push e t
      in if waited then t'\<lparr>st_events := queue_close (st_events t'), st_killed := True\<rparr>
         else if st_finish_after t = None then t'\<lparr>st_finish_after := Some (length (q_items (st_events t')))\<rparr> else t')"

text \<open>
  A line of output, parsed. Whatever is no object has no members; but for \<^verbatim>\<open>null\<close>, of which
  the source reads a member: that throws, and is \<open>None\<close>. Methods are texts.
\<close>

definition server_line :: "CodexTurnStartInput \<Rightarrow> json option \<Rightarrow> server_turn \<Rightarrow> server_turn option" where
  "server_line input line t =
     (case line of
        None \<Rightarrow> Some t
      | Some JNull \<Rightarrow> None
      | Some j \<Rightarrow>
         (let message = members_of j; params = or_else (map_of message ''params'') JNull
          in case (map_of message ''id'', member_text message ''method'') of
               (Some i, None) \<Rightarrow> Some (server_answered input i message t)
             | (Some i, Some method) \<Rightarrow>
                 (if method = [] then Some t
                  else Some (server_write (server_response i (answerServerRequest input method params)) t))
             | (None, None) \<Rightarrow> Some t
             | (None, Some method) \<Rightarrow> Some
                 (case mapNotification method params of
                    None \<Rightarrow> t
                  | Some e \<Rightarrow> if isTerminalNotification method then server_ended e t else server_push e t)))"

definition server_next :: "server_turn \<Rightarrow> server_turn" where
  "server_next t =
     (let t' = t\<lparr>st_events := queue_next (st_events t)\<rparr>
      in case st_finish_after t of
           None \<Rightarrow> t'
         | Some n \<Rightarrow> if n \<le> 1 then t'\<lparr>st_finish_after := None, st_events := queue_close (st_events t'), st_killed := True\<rparr>
                    else t'\<lparr>st_finish_after := Some (n - 1)\<rparr>)"

definition server_stderr :: "string \<Rightarrow> server_turn \<Rightarrow> server_turn" where
  "server_stderr data t = t\<lparr>st_stderrTail := last_chars 2000 (st_stderrTail t @ data)\<rparr>"

definition server_spawn_failed :: "string \<Rightarrow> server_turn \<Rightarrow> server_turn" where
  "server_spawn_failed e t = st_events_update queue_close
     (server_push (Error_event (Some (''codex app-server spawn failed: '' @ e)) True) t)"

definition server_exited :: "int option \<Rightarrow> server_turn \<Rightarrow> server_turn" where
  "server_exited code t =
     (let t' = (if \<not> st_closed t \<and> \<not> st_sawTerminal t
            then server_push (Error_event (Some (''codex app-server exited with code '' @ exit_text code (st_stderrTail t))) True) t
            else t)
      in t'\<lparr>st_timer := False, st_pending := [], st_events := queue_close (st_events t')\<rparr>)"

definition server_timeout :: "CodexTurnStartInput \<Rightarrow> server_turn \<Rightarrow> server_turn" where
  "server_timeout input t =
     (if \<not> st_timer t \<or> st_closed t \<or> st_sawTerminal t then t
      else (let t' = server_push (Error_event (Some (''codex app-server execution timeout after ''
                 @ dec_int (or_else (si_turnTimeoutMs input) 0) @ ''ms'')) True) (t\<lparr>st_sawTerminal := True, st_timer := False\<rparr>)
            in t'\<lparr>st_events := queue_close (st_events t'), st_killed := True\<rparr>))"

definition server_close :: "server_turn \<Rightarrow> server_turn" where
  "server_close t =
     (if st_closed t then t
      else t\<lparr>st_closed := True, st_timer := False, st_killed := True, st_events := queue_close (st_events t)\<rparr>)"

section \<open>Probing the sandbox\<close>

definition verifyClaudeFullAgentSandbox ::
    "string \<Rightarrow> (string \<Rightarrow> string option) \<Rightarrow> (string \<Rightarrow> string list \<Rightarrow> int option \<times> string) \<Rightarrow> string + unit" where
  "verifyClaudeFullAgentSandbox platform findExecutable run =
     (if platform = ''darwin'' then Inr ()
      else if platform \<noteq> ''linux'' then Inl (''Claude Code governed sandbox is unavailable on '' @ platform)
      else case keep_truthy (findExecutable ''bwrap'') of
        None \<Rightarrow> Inl ''Claude Code full-agent requires bubblewrap (bwrap) on Linux and WSL2''
      | Some bwrap \<Rightarrow>
         (case keep_truthy (findExecutable ''socat'') of
            None \<Rightarrow> Inl ''Claude Code full-agent requires socat on Linux and WSL2''
          | Some _ \<Rightarrow>
             (let (status, stderr) = run bwrap [''--ro-bind'', ''/'', ''/'', ''--dev'', ''/dev'', ''--proc'', ''/proc'', ''--'', ''/bin/true'']
              in if status \<noteq> Some 0
                 then Inl (''Claude Code full-agent sandbox probe failed: ''
                   @ (if trim stderr \<noteq> [] then trim stderr else ''exit '' @ (case status of None \<Rightarrow> ''null'' | Some c \<Rightarrow> dec_int c)))
                 else Inr ())))"

definition PROBE_PREFIX :: string where "PROBE_PREFIX = ''AICOO_CODEX_SANDBOX_PROBE:''"

text \<open>The text behind the last mark of a probe, when there is one.\<close>

fun after_last :: "string \<Rightarrow> string \<Rightarrow> string option" where
  "after_last mark [] = (if mark = [] then Some [] else None)"
| "after_last mark (c # cs) =
     (case after_last mark cs of
        Some rest \<Rightarrow> Some rest
      | None \<Rightarrow> if prefix mark (c # cs) then Some (drop (length mark) (c # cs)) else None)"

definition probe_profile :: "string \<Rightarrow> string \<Rightarrow> string \<Rightarrow> CodexPermissionProfileInput" where
  "probe_profile root platform probeCommand =
     \<lparr>cp_preset = Edit_project, cp_folders = [path_join [root, ''project'']],
      cp_writableFolders = Some [path_join [root, ''project'']], cp_profileName = None,
      cp_authFile = Some (path_join [root, ''missing-auth.json'']), cp_mcpServers = JArr [],
      cp_platform = Some platform, cp_developerDirectory = None, cp_runtimeTempDirectory = None,
      cp_runtimeExecutable = Some probeCommand, cp_commandExecutables = None, cp_commandSearchPath = None,
      cp_isolateRuntime = False, cp_includeOwnerSkills = False, cp_ownerSkillRoots = None, cp_runtimeSkillsDirectory = None\<rparr>"

text \<open>
  On POSIX systems: \<open>root\<close> is the directory made for the probe, \<open>script\<close> the text of its shell
  script, \<open>run\<close> the process, \<open>parse\<close> the reading of what it reports.
\<close>

definition verifyCodexFullAgentSandbox ::
    "profile_host \<Rightarrow> string \<Rightarrow> string \<Rightarrow> string \<Rightarrow> string
       \<Rightarrow> (string \<times> string list \<Rightarrow> PreparedCodexProfile \<Rightarrow> int option \<times> string \<times> string) \<Rightarrow> (string \<Rightarrow> json option) \<Rightarrow> string + unit" where
  "verifyCodexFullAgentSandbox H codexPath platform root script run parse =
     (case fst (writeCodexPermissionProfile H (path_join [root, ''codex-home'']) (probe_profile root platform ''/bin/sh'')) of
        Inl e \<Rightarrow> Inl e
      | Inr None \<Rightarrow> Inl ''Codex governed sandbox probe could not create a permission profile''
      | Inr (Some profile) \<Rightarrow>
         (let args = [''sandbox'', ''-P'', pc_profileName profile, ''-C'', path_join [root, ''project''], ''--'', ''/bin/sh'',
                ''-c'', script, ''aicoo-sandbox-probe'', path_join [path_join [root, ''project''], ''inside-write.txt''],
                path_join [root, ''outside-secret.txt''], path_join [root, ''outside-write.txt'']];
              (status, stdout, stderr) = run (buildCodexSpawnCommand codexPath args platform None) profile
          in if status \<noteq> Some 0
             then Inl (''Codex governed sandbox probe failed: ''
               @ (if trim stderr \<noteq> [] then trim stderr else ''exit '' @ (case status of None \<Rightarrow> ''null'' | Some c \<Rightarrow> dec_int c)))
             else case after_last PROBE_PREFIX stdout of
               None \<Rightarrow> Inl ''Codex governed sandbox probe returned no attestation''
             | Some report \<Rightarrow>
                (case parse report of
                   None \<Rightarrow> Inl ''the report of the probe is not JSON''
                 | Some r \<Rightarrow>
                    (let member = (\<lambda>k. json_truthy (map_of (members_of r) k))
                     in if \<not> member ''insideWrite'' \<or> member ''outsideRead'' \<or> member ''outsideWrite''
                        then Inl ''Codex governed sandbox probe could not enforce the project boundary''
                        else Inr ()))))"

section \<open>What the reader of a turn gets\<close>

datatype 'a queue_op = Queue_push 'a | Queue_next | Queue_close

text \<open>A run of the queue, with the items whose push was not refused.\<close>

fun queue_run :: "'a queue_op list \<Rightarrow> 'a list \<times> 'a message_queue \<Rightarrow> 'a list \<times> 'a message_queue" where
  "queue_run [] s = s"
| "queue_run (Queue_push v # ops) (accepted, q) =
     (let (ok, q') = queue_push v q in queue_run ops (if ok then accepted @ [v] else accepted, q'))"
| "queue_run (Queue_next # ops) (accepted, q) = queue_run ops (accepted, queue_next q)"
| "queue_run (Queue_close # ops) (accepted, q) = queue_run ops (accepted, queue_close q)"

definition queue_ok :: "'a list \<times> 'a message_queue \<Rightarrow> bool" where
  "queue_ok = (\<lambda>(accepted, q). prefix (q_read q) accepted \<and> (q_closed q \<or> q_read q @ q_items q = accepted)
     \<and> (q_items q = [] \<or> q_waiters q = 0 \<and> \<not> q_closed q))"

lemma queue_ops_ok:
  assumes "queue_ok (accepted, q)"
  shows "queue_push v q = (ok, q') \<Longrightarrow> queue_ok (if ok then accepted @ [v] else accepted, q')"
    and "queue_ok (accepted, queue_next q)" and "queue_ok (accepted, queue_close q)"
  using assms by (auto simp: queue_ok_def queue_push_def queue_next_def queue_close_def split: if_splits list.split)

lemma queue_run_ok: "queue_ok s \<Longrightarrow> queue_ok (queue_run ops s)"
proof (induction ops s rule: queue_run.induct)
  case (2 v ops accepted q)
  obtain ok q' where push: "queue_push v q = (ok, q')" by fastforce
  have "queue_ok (if ok then accepted @ [v] else accepted, q')" by (rule queue_ops_ok(1)[OF 2(2) push])
  with 2(1) push show ?case by (cases ok) simp_all
qed (simp_all add: queue_ops_ok)

text \<open>
  Whatever is pushed, read and closed, and when, the readers get the accepted
  items in order, each once, and no item waits while a reader does; on a queue that is
  not closed, what was accepted was read or waits.
\<close>

theorem queue_in_order:
  "let (accepted, q) = queue_run ops ([], new_queue)
   in prefix (q_read q) accepted \<and> (q_closed q \<or> q_read q @ q_items q = accepted) \<and> (q_items q = [] \<or> q_waiters q = 0)"
proof -
  have "queue_ok ([], new_queue)" by (simp add: queue_ok_def new_queue_def)
  from queue_run_ok[OF this, of ops] show ?thesis
    by (cases "queue_run ops ([], new_queue)") (auto simp: queue_ok_def)
qed

section \<open>Every question is answered, and refused unless somebody allowed it\<close>


definition demo_turn_input :: CodexTurnStartInput where
  "demo_turn_input = \<lparr>si_prompt = ''hello'', si_cwd = ''/w/app'', si_resumeThreadId = None, si_writableRoots = None,
     si_permissionProfile = None, si_codexPath = None, si_model = None,
     si_onApproval = Some (\<lambda>r. if ar_paths r = Some [''/w/app/a''] then Inr Accept else Inl ''no gateway''),
     si_dynamicTools = [], si_onDynamicToolCall = None, si_turnTimeoutMs = None\<rparr>"


section \<open>The order of a turn\<close>

text \<open>Whatever the process, the reader, the clock and the adapter do.\<close>

inductive server_step :: "CodexTurnStartInput \<Rightarrow> server_turn \<Rightarrow> server_turn \<Rightarrow> bool" for input where
  step_line: "server_line input line t = Some t' \<Longrightarrow> server_step input t t'"
| step_next: "server_step input t (server_next t)"
| step_stderr: "server_step input t (server_stderr data t)"
| step_spawn_failed: "server_step input t (server_spawn_failed e t)"
| step_exited: "server_step input t (server_exited code t)"
| step_timeout: "server_step input t (server_timeout input t)"
| step_close: "server_step input t (server_close t)"

definition own_methods :: "server_turn \<Rightarrow> string list" where
  "own_methods t = List.map_filter (\<lambda>j. member_text (members_of j) ''method'') (st_written t)"

definition turn_protocol :: "CodexTurnStartInput \<Rightarrow> string list" where
  "turn_protocol input = [''initialize'', ''initialized'', fst (thread_request input), ''turn/start'']"

fun stage_position :: "run_stage \<Rightarrow> nat" where
  "stage_position Await_initialize = 1"
| "stage_position Await_thread = 3"
| "stage_position Await_turn = 4"

definition protocol_ok :: "CodexTurnStartInput \<Rightarrow> server_turn \<Rightarrow> bool" where
  "protocol_ok input t = (\<exists>n. own_methods t = take n (turn_protocol input)
     \<and> (st_pending t = [] \<or> (\<exists>i stage. st_pending t = [(i, stage)] \<and> i < st_nextId t \<and> (st_closed t \<or> n = stage_position stage))))"

lemma same_protocol:
  "protocol_ok input t \<Longrightarrow> st_written t' = st_written t \<Longrightarrow> st_nextId t' = st_nextId t
    \<Longrightarrow> st_pending t' = st_pending t \<or> st_pending t' = [] \<Longrightarrow> (st_closed t \<Longrightarrow> st_closed t') \<Longrightarrow> protocol_ok input t'"
  by (auto simp: protocol_ok_def own_methods_def)

lemma server_push_simps [simp]:
  "st_written (server_push e t) = st_written t" "st_pending (server_push e t) = st_pending t"
  "st_nextId (server_push e t) = st_nextId t" "st_closed (server_push e t) = st_closed t"
  "st_killed (server_push e t) = st_killed t" "st_timer (server_push e t) = st_timer t"
  by (simp_all add: server_push_def)

lemma run_failed_simps [simp]:
  "st_written (run_failed e t) = st_written t" "st_pending (run_failed e t) = st_pending t"
  "st_nextId (run_failed e t) = st_nextId t" "st_closed (run_failed e t) = st_closed t"
  by (simp_all add: run_failed_def)

lemma own_methods_write:
  "own_methods (server_write j t) =
    (if st_closed t then own_methods t else own_methods t @ (case member_text (members_of j) ''method'' of None \<Rightarrow> [] | Some m \<Rightarrow> [m]))"
  by (auto simp: own_methods_def server_write_def List.map_filter_def split: option.split)

lemma server_write_simps [simp]:
  "st_pending (server_write j t) = st_pending t" "st_nextId (server_write j t) = st_nextId t"
  "st_closed (server_write j t) = st_closed t"
  by (simp_all add: server_write_def)

lemma own_methods_cong: "st_written t' = st_written t \<Longrightarrow> own_methods t' = own_methods t"
  by (simp add: own_methods_def)

lemma server_request_simps [simp]:
  "st_pending (server_request stage m p t) = st_pending t @ [(st_nextId t, stage)]"
  "st_nextId (server_request stage m p t) = st_nextId t + 1" "st_closed (server_request stage m p t) = st_closed t"
  "own_methods (server_request stage m p t) = (if st_closed t then own_methods t else own_methods t @ [m])"
  by (simp_all add: server_request_def own_methods_write member_text_def members_of_def
      own_methods_cong[of "t\<lparr>st_nextId := Suc (st_nextId t), st_pending := st_pending t @ [(st_nextId t, stage)]\<rparr>" t])

lemma server_notify_simps [simp]:
  "st_pending (server_notify m p t) = st_pending t" "st_nextId (server_notify m p t) = st_nextId t"
  "st_closed (server_notify m p t) = st_closed t"
  "own_methods (server_notify m p t) = (if st_closed t then own_methods t else own_methods t @ [m])"
  by (simp_all add: server_notify_def own_methods_write member_text_def members_of_def)

lemma run_continues_ok:
  assumes "own_methods t = take n (turn_protocol input)" "st_pending t = []" "st_closed t \<or> n = stage_position stage"
  shows "protocol_ok input (run_continues input stage result t)"
proof (cases stage)
  case Await_initialize
  have "own_methods (run_continues input stage result t) = take (if st_closed t then n else 3) (turn_protocol input)"
    using assms Await_initialize by (auto simp: run_continues_def turn_protocol_def split: prod.split)
  with assms Await_initialize show ?thesis
    unfolding protocol_ok_def by (intro exI[of _ "if st_closed t then n else 3"]) (auto simp: run_continues_def split: prod.split)
next
  case Await_thread
  then show ?thesis
  proof (cases "keep_truthy (readThreadId result)")
    case None
    with assms Await_thread show ?thesis
      by (auto simp: protocol_ok_def run_continues_def own_methods_cong[of "run_failed _ t" t])
  next
    case (Some thread)
    have "own_methods (run_continues input stage result t) = take (if st_closed t then n else 4) (turn_protocol input)"
      using assms Await_thread Some own_methods_cong[of "server_push (Thread_started thread) t" t]
      by (auto simp: run_continues_def turn_protocol_def)
    with assms Await_thread Some show ?thesis
      unfolding protocol_ok_def by (intro exI[of _ "if st_closed t then n else 4"]) (auto simp: run_continues_def)
  qed
next
  case Await_turn
  with assms show ?thesis by (auto simp: protocol_ok_def run_continues_def own_methods_def)
qed

lemma server_answered_ok: "protocol_ok input t \<Longrightarrow> protocol_ok input (server_answered input i message t)"
proof -
  assume ok: "protocol_ok input t"
  then obtain n where n: "own_methods t = take n (turn_protocol input)"
    "st_pending t = [] \<or> (\<exists>i stage. st_pending t = [(i, stage)] \<and> i < st_nextId t \<and> (st_closed t \<or> n = stage_position stage))"
    by (auto simp: protocol_ok_def)
  show ?thesis
  proof (cases "List.find (\<lambda>(n, _). i = JNum (int n)) (st_pending t)")
    case None
    with ok show ?thesis by (simp add: server_answered_def)
  next
    case (Some found)
    with n obtain k stage where p: "st_pending t = [(k, stage)]" "st_closed t \<or> n = stage_position stage" "found = (k, stage)"
      by (auto split: if_splits)
    let ?t = "t\<lparr>st_pending := []\<rparr>"
    have methods: "own_methods ?t = take n (turn_protocol input)" using n by (simp add: own_methods_def)
    have "protocol_ok input (run_continues input stage result ?t)" for result
      by (rule run_continues_ok[OF methods]) (use p in simp_all)
    moreover have "protocol_ok input (run_failed e ?t)" for e
      using methods by (auto simp: protocol_ok_def own_methods_cong[of "run_failed e ?t" ?t])
    ultimately show ?thesis unfolding server_answered_def Some p(3) using p(1) by (simp add: Let_def)
  qed
qed

lemma server_line_ok:
  assumes "server_line input line t = Some t'" "protocol_ok input t"
  shows "protocol_ok input t'"
proof -
  have answered: "protocol_ok input (server_write (server_response i r) t)" for i r
  proof -
    have "own_methods (server_write (server_response i r) t) = own_methods t"
      by (simp add: own_methods_write server_response_def member_text_def members_of_def)
    with assms(2) show ?thesis by (auto simp: protocol_ok_def)
  qed
  have quiet: "protocol_ok input (server_push e t)" "protocol_ok input (server_ended e t)" for e
    by (rule same_protocol[OF assms(2)]; simp add: server_ended_def Let_def)+
  show ?thesis
    using assms server_answered_ok[OF assms(2)] answered quiet
    by (auto simp: server_line_def Let_def split: option.splits json.splits if_splits)
qed

lemma server_step_ok: "server_step input t t' \<Longrightarrow> protocol_ok input t \<Longrightarrow> protocol_ok input t'"
proof (induction rule: server_step.induct)
  case (step_line line t t')
  then show ?case using server_line_ok by blast
qed (rule same_protocol; auto simp: server_next_def server_stderr_def server_spawn_failed_def server_exited_def
      server_timeout_def server_close_def Let_def split: option.split)+

text \<open>
  Whatever the process answers and whenever, the driver's own messages are
  an initial part of: initialise, confirm, start or resume the thread, start the turn, in
  that order and each once; and at most one of its requests is open.
\<close>

theorem turn_follows_protocol:
  assumes "(server_step input)\<^sup>*\<^sup>* new_server_turn t"
  shows "prefix (own_methods t) [''initialize'', ''initialized'', fst (thread_request input), ''turn/start'']
    \<and> length (st_pending t) \<le> 1"
proof -
  have "own_methods new_server_turn = [''initialize'']" unfolding new_server_turn_def server_request_simps
    by (simp add: own_methods_def List.map_filter_def)
  moreover have "st_pending new_server_turn = [(1, Await_initialize)]" "st_nextId new_server_turn = 2"
    unfolding new_server_turn_def server_request_simps by simp_all
  ultimately have "protocol_ok input new_server_turn"
    unfolding protocol_ok_def by (intro exI[of _ "1 :: nat"]) (simp add: turn_protocol_def)
  with assms have "protocol_ok input t"
    by (induction rule: rtranclp_induct) (auto intro: server_step_ok)
  then show ?thesis by (auto simp: protocol_ok_def turn_protocol_def take_is_prefix)
qed

theorem turn_follows_protocol_witness:
  "\<exists>t. (server_step demo_turn_input)\<^sup>*\<^sup>* new_server_turn t \<and> own_methods t = [''initialize'', ''initialized'', ''thread/start'']
     \<and> prefix (own_methods t) [''initialize'', ''initialized'', ''thread/start'', ''turn/start'']"
proof -
  let ?line = "JObj [(''id'', JNum 1), (''result'', JObj [])]"
  let ?t = "the (server_line demo_turn_input (Some ?line) new_server_turn)"
  have "server_line demo_turn_input (Some ?line) new_server_turn \<noteq> None" by (simp add: server_line_def Let_def members_of_def member_text_def)
  then have "server_step demo_turn_input new_server_turn ?t" by (intro step_line[of _ "Some ?line"]) auto
  then have run: "(server_step demo_turn_input)\<^sup>*\<^sup>* new_server_turn ?t" by blast
  have "own_methods ?t = [''initialize'', ''initialized'', ''thread/start'']" "fst (thread_request demo_turn_input) = ''thread/start''"
    by code_simp+
  with turn_follows_protocol[OF run] run show ?thesis by auto
qed

end
