(* ===== verification/Tool_Decisions.thy ===== *)
theory Tool_Decisions
  imports Approvals Safe_Git Capabilities Codex_Protocol
begin

text \<open>
  What an adapter answers when the agent it drives wants to use a tool on behalf of a peer:
  \<^verbatim>\<open>resolveToolDecision\<close> of \<^verbatim>\<open>src/adapters/claude-code/claude-code-adapter.ts\<close> and the approval
  and capability routes of \<^verbatim>\<open>src/adapters/codex/codex-adapter.ts\<close>. The policy files and the store
  of continuations are the state; the owner's answers, git and the other loops of the process
  are the \<open>tool_world\<close>. A wait for the owner that never ends is \<open>None\<close>.
\<close>

section \<open>What both adapters rest on\<close>

record adapter_config =
  ad_cwd :: string
  ad_relationshipPolicyFile :: "string option"
  ad_policyOptions :: RelationshipPolicyOptions
  ad_fullCapability :: bool
  ad_approvalGateway :: bool
  ad_continuationStore :: bool

record tool_state =
  tl_policy :: stored
  tl_trusted :: stored
  tl_store :: continuations

record tool_world =
  tw_env :: policy_env
  tw_git :: git_world
  tw_approvals :: approval_world
  tw_requested :: "string + ToolApprovalState"
  tw_polls :: "nat \<Rightarrow> ToolApprovalState option"
  tw_clock :: "nat \<Rightarrow> time"
  tw_started :: time
  tw_now :: string
  tw_meanwhile :: "tool_state \<Rightarrow> tool_state"

definition codex_policy :: "policy_env \<Rightarrow> adapter_config \<Rightarrow> stored \<Rightarrow> stored \<Rightarrow> string + RelationshipPolicy" where
  "codex_policy E cfg content trusted =
     (case keep_truthy (ad_relationshipPolicyFile cfg) of
        None \<Rightarrow> Inl ''Relationship policy is not configured''
      | Some file \<Rightarrow> fromFile E file (ad_cwd cfg) (ad_policyOptions cfg) content trusted)"

text \<open>The adapter of Claude takes a policy that cannot be loaded as none.\<close>

definition claude_policy :: "policy_env \<Rightarrow> adapter_config \<Rightarrow> stored \<Rightarrow> stored \<Rightarrow> RelationshipPolicy option" where
  "claude_policy E cfg content trusted =
     (case keep_truthy (ad_relationshipPolicyFile cfg) of
        None \<Rightarrow> None
      | Some file \<Rightarrow>
         (case fromFile E file (ad_cwd cfg) (ad_policyOptions cfg) content trusted of
            Inl _ \<Rightarrow> None | Inr policy \<Rightarrow> Some policy))"

definition DEFAULT_TIMEOUT_MS :: int where "DEFAULT_TIMEOUT_MS = 5 * 60000"

definition ask_owner :: "tool_world \<Rightarrow> string \<Rightarrow> tool_state \<Rightarrow> ToolApprovalOutcome option \<times> tool_state" where
  "ask_owner w toolName s =
     (awaitToolApproval toolName False (tw_requested w) None (tw_polls w) (tw_clock w) (tw_started w) DEFAULT_TIMEOUT_MS,
      tw_meanwhile w s)"

text \<open>A wider boundary for an action that the present one does not cover, when it can be asked for.\<close>

definition expand_boundary ::
    "tool_world \<Rightarrow> string \<Rightarrow> ExpansionForTool \<Rightarrow> tool_state \<Rightarrow> (ContinuationCheckpoint option \<times> tool_state) option" where
  "expand_boundary w cwd i s =
     map_option (\<lambda>(c, store). (c, s\<lparr>tl_store := store\<rparr>))
       (requestBoundaryExpansionForTool (tw_env w) ((tw_approvals w)\<lparr>aw_cwd := cwd\<rparr>) i (tl_store s))"

section \<open>Claude\<close>

text \<open>What the gate of a launched session knows: the turn it works on and the boundary it was given.\<close>

record claude_gate =
  kt_sessionHandle :: string
  kt_active :: "(MessageEnvelope \<times> string) option"
  kt_original :: json
  kt_sandboxAccess :: "ProjectAccess option"
  kt_grantedMcpTools :: "string list"
  kt_additionalDirectories :: "string list"

definition FULL_READ_TOOLS :: "string list" where
  "FULL_READ_TOOLS = [''WebFetch'', ''WebSearch'']"

definition named_target :: "string \<Rightarrow> (string \<times> json) list \<Rightarrow> string \<Rightarrow> string option" where
  "named_target toolName input field =
     (case map_of input field of
        Some (JStr value) \<Rightarrow> if trim value \<noteq> [] then Some (take 500 (toolName @ '' '' @ trim value)) else None
      | _ \<Rightarrow> None)"

definition summarizeToolInput :: "string \<Rightarrow> (string \<times> json) list \<Rightarrow> string" where
  "summarizeToolInput toolName input =
     (case List.map_filter (named_target toolName input)
             [''file_path'', ''path'', ''notebook_path'', ''command'', ''pattern''] of
        summary # _ \<Rightarrow> summary
      | [] \<Rightarrow> take 500 (toolName @ '' '' @ stringify (JObj input)))"

record tool_call =
  tc_git :: "SafeGitOperation option"
  tc_action :: ToolAction

text \<open>The call the policy is asked about: git commands as their operation, shell commands hardened.\<close>

definition called_tool :: "adapter_config \<Rightarrow> string \<Rightarrow> (string \<times> json) list \<Rightarrow> string + tool_call" where
  "called_tool cfg toolName input =
     (case (if toolName = ''Bash'' then (case map_of input ''command'' of
              Some (JStr command) \<Rightarrow> parseSafeGitCommand command (ad_cwd cfg) | _ \<Rightarrow> None) else None) of
        Some op \<Rightarrow> Inr \<lparr>tc_git = Some op,
          tc_action = \<lparr>ta_toolName = git_tool_text (sg_toolName op), ta_input = [(''repository'', JStr (sg_repository op))]\<rparr>\<rparr>
      | None \<Rightarrow>
          if toolName \<noteq> ''Bash'' then Inr \<lparr>tc_git = None, tc_action = \<lparr>ta_toolName = toolName, ta_input = input\<rparr>\<rparr>
          else if \<not> ad_fullCapability cfg
          then Inl ''Aicoo only permits constrained Git commands; raw shell is disabled''
          else map_sum id (\<lambda>i. \<lparr>tc_git = None, tc_action = \<lparr>ta_toolName = ''Bash'', ta_input = i\<rparr>\<rparr>) (hardenBashInput input))"

text \<open>\<open>Inl\<close> is an action outside the boundary, \<open>Inr None\<close> a tool that takes no path.\<close>

definition within_boundary ::
    "policy_env \<Rightarrow> RelationshipPolicy \<Rightarrow> MessageEnvelope option \<Rightarrow> ProjectAccess option \<Rightarrow> ToolAction
       \<Rightarrow> ToolAction + (string \<times> json) list option" where
  "within_boundary E policy message access action =
     (if \<not> supported_tool (ta_toolName action) then Inr None
      else case authorizeBoundary E policy action message of
        Deny _ _ \<Rightarrow> Inl action
      | Allow updatedInput \<Rightarrow>
          (let inside = action\<lparr>ta_input := updatedInput\<rparr>
           in if projectAccessAllowsAction access inside then Inr (Some updatedInput) else Inl inside))"

text \<open>The denial of a tool without a path: MCP tools by grant, all others by the session's preset.\<close>

definition unpathed_denial :: "claude_gate \<Rightarrow> string \<Rightarrow> string option" where
  "unpathed_denial t toolName =
     (if prefix ''mcp__'' toolName
      then (if toolName \<in> set (kt_grantedMcpTools t) then None
            else Some (''MCP tool '' @ toolName @ '' is not granted to this peer''))
      else (let required = (if toolName \<in> set FULL_READ_TOOLS then Read_project else Edit_project)
            in case kt_sandboxAccess t of
                 Some a \<Rightarrow> (if pa_status a = Access_selected \<and> accessPresetSatisfies (pa_preset a) required then None
                           else Some (toolName @ '' requires an active '' @ preset_text required @ '' project boundary''))
               | None \<Rightarrow> Some (toolName @ '' requires an active '' @ preset_text required @ '' project boundary'')))"

definition call_summary :: "string \<Rightarrow> (string \<times> json) list \<Rightarrow> tool_call \<Rightarrow> string" where
  "call_summary toolName input call =
     (case tc_git call of Some op \<Rightarrow> sg_summary op | None \<Rightarrow> summarizeToolInput toolName input)"

text \<open>Outside the boundary: the owner may be asked for a wider one, the call is denied all the same.\<close>

definition outside_boundary ::
    "adapter_config \<Rightarrow> tool_world \<Rightarrow> claude_gate \<Rightarrow> string \<Rightarrow> string \<Rightarrow> ToolAction \<Rightarrow> tool_state
       \<Rightarrow> (ToolPermissionDecision \<times> tool_state) option" where
  "outside_boundary cfg w t attemptId summary action s =
     map_option (\<lambda>(expansion, s). (deny
         (if map_option ck_state expansion = Some Approved_pending_activation
          then ''The folder was approved. Aicoo is rebuilding the session and will resume the task.''
          else ''This request is outside the active session boundary. Select or grant the folder before starting the task.''), s))
       (case kt_active t of
          Some (message, turnId) \<Rightarrow>
            (if ad_continuationStore cfg \<and> ad_approvalGateway cfg
             then expand_boundary w (case kt_additionalDirectories t of d # _ \<Rightarrow> d | [] \<Rightarrow> ad_cwd cfg)
                    \<lparr>et_message = message, et_originalMessage = kt_original t, et_sessionHandle = kt_sessionHandle t,
                     et_runtimeTurnId = turnId, et_attemptId = attemptId, et_action = action, et_summary = summary\<rparr> s
             else Some (None, s))
        | None \<Rightarrow> Some (None, s))"

text \<open>Approved: the use is recorded, and a git command becomes the one that is safe to run.\<close>

definition approved_call ::
    "tool_world \<Rightarrow> RelationshipPolicy \<Rightarrow> MessageEnvelope option \<Rightarrow> tool_call \<Rightarrow> (string \<times> json) list option \<Rightarrow> tool_state
       \<Rightarrow> ToolPermissionDecision \<times> tool_state" where
  "approved_call w policy message call inside s =
     (case accessFor (tw_env w) (tw_now w) policy message True (tl_trusted s) of
        (Inl _, trusted) \<Rightarrow> (deny ''Aicoo relationship policy could not be loaded'', s\<lparr>tl_trusted := trusted\<rparr>)
      | (Inr _, trusted) \<Rightarrow>
         ((case tc_git call of
             None \<Rightarrow> Allow (or_else inside (ta_input (tc_action call)))
           | Some op \<Rightarrow>
              (let repository = (case Option.bind inside (\<lambda>i. map_of i ''repository'') of
                      Some (JStr r) \<Rightarrow> r | _ \<Rightarrow> sg_repository op)
               in case safeGitShellInput (tw_git w) (op\<lparr>sg_repository := repository\<rparr>) of
                    Inl _ \<Rightarrow> deny ''Aicoo relationship policy could not be loaded''
                  | Inr command \<Rightarrow> Allow [(''command'', JStr command)])), s\<lparr>tl_trusted := trusted\<rparr>))"

definition resolveToolDecision ::
    "adapter_config \<Rightarrow> tool_world \<Rightarrow> claude_gate \<Rightarrow> string \<Rightarrow> (string \<times> json) list \<Rightarrow> string \<Rightarrow> tool_state
       \<Rightarrow> (ToolPermissionDecision \<times> tool_state) option" where
  "resolveToolDecision cfg w t toolName input attemptId s =
     (let message = map_option fst (kt_active t)
      in if \<not> truthy (ad_relationshipPolicyFile cfg)
         then Some (deny (''Aicoo managed session denies tool '' @ toolName @ '': no relationship policy is configured''), s)
         else case claude_policy (tw_env w) cfg (tl_policy s) (tl_trusted s) of
           None \<Rightarrow> Some (deny ''Aicoo relationship policy is unavailable'', s)
         | Some policy \<Rightarrow>
         (case called_tool cfg toolName input of
            Inl denial \<Rightarrow> Some (deny denial, s)
          | Inr call \<Rightarrow>
         (let tool = ta_toolName (tc_action call); summary = call_summary toolName input call
          in case within_boundary (tw_env w) policy message (kt_sandboxAccess t) (tc_action call) of
            Inl action \<Rightarrow> outside_boundary cfg w t attemptId summary action s
          | Inr inside \<Rightarrow>
         (case (if inside = None then unpathed_denial t tool else None) of
            Some denial \<Rightarrow> Some (deny denial, s)
          | None \<Rightarrow>
              if \<not> ad_approvalGateway cfg \<or> \<not> truthy (Option.bind message me_communicationSessionId)
              then Some (deny (''Aicoo approval service is unavailable for '' @ toolName), s)
              else (case ask_owner w tool s of
                      (None, s) \<Rightarrow> None
                    | (Some (Approval_deny denial), s) \<Rightarrow> Some (deny denial, s)
                    | (Some (Approval_allow _ _), s) \<Rightarrow> Some (approved_call w policy message call inside s))))))"

section \<open>Codex\<close>

text \<open>What the approval route of a turn knows.\<close>

record codex_gate =
  kx_message :: MessageEnvelope
  kx_original :: json
  kx_sessionHandle :: string
  kx_runtimeTurnId :: string
  kx_turnCwd :: string
  kx_sessionAccess :: "ProjectAccess option"

text \<open>\<^verbatim>\<open>request.summary.replace(/^Run:\s*/, "")\<close>.\<close>

definition requested_command :: "CodexApprovalRequest \<Rightarrow> string" where
  "requested_command request =
     (case ar_command request of
        Some command \<Rightarrow> command
      | None \<Rightarrow> if prefix ''Run:'' (ar_summary request) then dropWhile js_space (drop 4 (ar_summary request)) else ar_summary request)"

definition raw_shell_tool :: "ProjectAccess option \<Rightarrow> string" where
  "raw_shell_tool access = (if map_option pa_preset access = Some Read_project then ''Read'' else ''Edit'')"

text \<open>The actions a request stands for; none when it cannot be told.\<close>

definition requested_actions :: "codex_gate \<Rightarrow> CodexApprovalRequest \<Rightarrow> SafeGitOperation option \<Rightarrow> ToolAction list" where
  "requested_actions t request git =
     (let edit = (\<lambda>p. \<lparr>ta_toolName = ''Edit'', ta_input = [(''file_path'', JStr p)]\<rparr>)
      in case git of
           Some op \<Rightarrow> [\<lparr>ta_toolName = git_tool_text (sg_toolName op), ta_input = [(''repository'', JStr (sg_repository op))]\<rparr>]
         | None \<Rightarrow>
            (case ar_kind request of
               Kind_command \<Rightarrow> [\<lparr>ta_toolName = raw_shell_tool (kx_sessionAccess t),
                  ta_input = [(''file_path'', JStr (or_else (ar_cwd request) (kx_turnCwd t)))]\<rparr>]
             | Kind_file_change \<Rightarrow>
                 (if or_else (ar_paths request) [] \<noteq> [] then map edit (the (ar_paths request))
                  else if map_option pa_preset (kx_sessionAccess t) = Some Edit_project then [edit (kx_turnCwd t)] else [])
             | Kind_permissions \<Rightarrow> []))"

text \<open>The first action outside the boundary, as it was asked or with its canonical path.\<close>

fun outside_action ::
    "policy_env \<Rightarrow> RelationshipPolicy \<Rightarrow> MessageEnvelope \<Rightarrow> ProjectAccess option \<Rightarrow> ToolAction list \<Rightarrow> ToolAction option" where
  "outside_action E policy message access [] = None"
| "outside_action E policy message access (action # actions) =
     (case authorizeBoundary E policy action (Some message) of
        Deny _ _ \<Rightarrow> Some action
      | Allow updatedInput \<Rightarrow>
          if projectAccessAllowsAction access (action\<lparr>ta_input := updatedInput\<rparr>)
          then outside_action E policy message access actions else Some (action\<lparr>ta_input := updatedInput\<rparr>))"

definition approval_tool_name :: "codex_gate \<Rightarrow> CodexApprovalRequest \<Rightarrow> SafeGitOperation option \<Rightarrow> string" where
  "approval_tool_name t request git =
     (case git of
        Some op \<Rightarrow> git_tool_text (sg_toolName op)
      | None \<Rightarrow> if ar_kind request = Kind_command
               then (if raw_shell_tool (kx_sessionAccess t) = ''Read'' then ''Read'' else ''Bash'')
               else if ar_kind request = Kind_file_change then ''Edit'' else ''Permissions'')"

text \<open>
  A declined request; \<open>expandable\<close> is the action for which the owner may be asked for a wider
  boundary. \<open>attemptId\<close> is the hash of the turn and the request.
\<close>

definition declined_outside ::
    "adapter_config \<Rightarrow> tool_world \<Rightarrow> codex_gate \<Rightarrow> CodexApprovalRequest \<Rightarrow> SafeGitOperation option \<Rightarrow> string \<Rightarrow> ToolAction option
       \<Rightarrow> tool_state \<Rightarrow> (CodexApprovalDecision \<times> tool_state) option" where
  "declined_outside cfg w t request git attemptId expandable s =
     (case expandable of
        Some action \<Rightarrow>
          (if ad_continuationStore cfg
           then map_option (\<lambda>(_, s). (Decline, s)) (expand_boundary w (kx_turnCwd t)
                  \<lparr>et_message = kx_message t, et_originalMessage = kx_original t, et_sessionHandle = kx_sessionHandle t,
                   et_runtimeTurnId = kx_runtimeTurnId t, et_attemptId = attemptId, et_action = action,
                   et_summary = (case git of Some op \<Rightarrow> sg_summary op | None \<Rightarrow> ar_summary request)\<rparr> s)
           else Some (Decline, s))
      | None \<Rightarrow> Some (Decline, s))"

definition codex_outcome :: "ToolApprovalOutcome \<Rightarrow> CodexApprovalDecision" where
  "codex_outcome outcome =
     (case outcome of Approval_allow Scope_session _ \<Rightarrow> Accept_for_session | Approval_allow Scope_once _ \<Rightarrow> Accept
      | Approval_deny _ \<Rightarrow> Decline)"

definition answer_request ::
    "adapter_config \<Rightarrow> tool_world \<Rightarrow> codex_gate \<Rightarrow> CodexApprovalRequest \<Rightarrow> SafeGitOperation option \<Rightarrow> string \<Rightarrow> tool_state
       \<Rightarrow> (CodexApprovalDecision \<times> tool_state) option" where
  "answer_request cfg w t request git attemptId s =
     (let rawShell = (ar_kind request = Kind_command \<and> git = None); actions = requested_actions t request git
      in case codex_policy (tw_env w) cfg (tl_policy s) (tl_trusted s) of
           Inl _ \<Rightarrow> Some (Decline, s)
         | Inr policy \<Rightarrow>
            (case outside_action (tw_env w) policy (kx_message t) (kx_sessionAccess t) actions of
               Some action \<Rightarrow> declined_outside cfg w t request git attemptId (if rawShell then None else Some action) s
             | None \<Rightarrow>
                 if actions = [] then Some (Decline, s)
                 else if rawShell \<and> raw_shell_tool (kx_sessionAccess t) = ''Read'' then Some (Accept, s)
                 else (case ask_owner w (approval_tool_name t request git) s of
                         (None, s) \<Rightarrow> None
                       | (Some outcome, s) \<Rightarrow> Some (codex_outcome outcome, s))))"

text \<open>The route: there is none without a gateway or a communication session.\<close>

definition approvalRoute ::
    "adapter_config \<Rightarrow> tool_world \<Rightarrow> codex_gate \<Rightarrow> (CodexApprovalRequest \<Rightarrow> string \<Rightarrow> tool_state
       \<Rightarrow> (CodexApprovalDecision \<times> tool_state) option) option" where
  "approvalRoute cfg w t =
     (if \<not> ad_approvalGateway cfg \<or> \<not> truthy (me_communicationSessionId (kx_message t)) then None
      else Some (\<lambda>request attemptId s.
        if ar_kind request = Kind_permissions then Some (Decline, s)
        else
          (let git = (if ar_kind request = Kind_command then parseSafeGitCommand (requested_command request) (ad_cwd cfg) else None)
           in if ar_kind request = Kind_command \<and> git = None \<and> \<not> ad_fullCapability cfg then Some (Decline, s)
              else if ar_kind request = Kind_command \<and> git = None
                      \<and> isl (hardenBashInput [(''command'', JStr (requested_command request))]) then Some (Decline, s)
              else answer_request cfg w t request git attemptId s)))"

text \<open>The tool with which the peer's agent asks for a capability.\<close>

definition dynamic_tool_call ::
    "adapter_config \<Rightarrow> tool_world \<Rightarrow> MessageEnvelope \<Rightarrow> json \<Rightarrow> tool_state \<Rightarrow> ((bool \<times> string) \<times> tool_state) option" where
  "dynamic_tool_call cfg w message call s =
     (let tool = or_else (member_text (members_of call) ''tool'') []
      in if map_of (members_of call) ''namespace'' \<noteq> Some JNull \<or> tool \<noteq> CAPABILITY_REQUEST_TOOL_NAME
         then Some ((False, ''Unknown Aicoo dynamic tool: '' @ tool), s)
         else case parseCapabilityRequest (or_else (map_of (members_of call) ''arguments'') JNull) of
           None \<Rightarrow> Some ((False, ''Invalid capability request''), s)
         | Some request \<Rightarrow>
             if \<not> ad_approvalGateway cfg \<or> \<not> truthy (me_communicationSessionId message)
             then Some ((False, ''Aicoo owner approval is unavailable''), s)
             else (case ask_owner w CAPABILITY_REQUEST_TOOL_NAME s of
                     (None, s) \<Rightarrow> None
                   | (Some (Approval_allow _ _), s) \<Rightarrow> Some ((True, approvedCapabilityRequestText (cq_capability request)), s)
                   | (Some (Approval_deny denial), s) \<Rightarrow> Some ((False, denial), s)))"

definition capabilityRequestRoute ::
    "adapter_config \<Rightarrow> bool \<Rightarrow> tool_world \<Rightarrow> MessageEnvelope
       \<Rightarrow> (json \<Rightarrow> tool_state \<Rightarrow> ((bool \<times> string) \<times> tool_state) option) option" where
  "capabilityRequestRoute cfg supportsDynamicTools w message =
     (if \<not> ad_fullCapability cfg \<and> \<not> supportsDynamicTools then None else Some (dynamic_tool_call cfg w message))"

end
