(* ===== verification/Tool_Guarantees.thy ===== *)
theory Tool_Guarantees
  imports Tool_Decisions Policy_Guarantees
begin

text \<open>
  What an agent may do with tools on behalf of a peer, whichever adapter drives it: every call
  that is let through lies in the policy's boundary, in the boundary the session was started
  with, and was approved by the owner - but for read-only shell commands of Codex.
\<close>

section \<open>The boundary of a call\<close>

definition owner_agreed :: "tool_world \<Rightarrow> bool" where
  "owner_agreed w = (\<exists>st. grants_it st \<and> (tw_requested w = Inr st
     \<or> (\<exists>j. tw_polls w j = Some st \<and> tw_clock w j < tw_started w + DEFAULT_TIMEOUT_MS)))"

lemma asked_owner: "ask_owner w tool s = (Some (Approval_allow scope activation), s') \<Longrightarrow> owner_agreed w"
  unfolding ask_owner_def owner_agreed_def by (auto dest!: awaited_allow)

text \<open>
  An action inside both boundaries: one canonical path, no policy file and not dangerous, in a
  folder the session was given, writable when the tool writes; the rest of the input unchanged.
\<close>

definition confined :: "policy_env \<Rightarrow> RelationshipPolicy \<Rightarrow> ProjectAccess option \<Rightarrow> ToolAction \<Rightarrow> (string \<times> json) list \<Rightarrow> bool" where
  "confined E policy access action updated = (\<exists>a key c q. access = Some a \<and> pa_status a = Access_selected
     \<and> map_of PATH_INPUTS (ta_toolName action) = Some key \<and> updated = AList.update key (JStr c) (ta_input action)
     \<and> canonicalPath (real_of E) q = Some c \<and> c \<noteq> rp_policyFile policy \<and> dangerousPathDecision (ta_toolName action) c = None
     \<and> (\<exists>f \<in> set (if ta_toolName action \<in> set WRITE_TOOLS then pa_writableFolders a else pa_folders a). isWithin f c))"

lemma both_boundaries:
  assumes "authorizeBoundary E policy action message = Allow updated"
    and "projectAccessAllowsAction access (action\<lparr>ta_input := updated\<rparr>)"
  shows "confined E policy access action updated"
proof -
  let ?tool = "ta_toolName action"
  obtain u where "decide E policy action message False = (Allow updated, u)"
    using assms(1) by (metis authorizeBoundary_def prod.collapse)
  from authorize_step_Allow[OF decide_Allow[OF this]] obtain key c q where
    path: "map_of PATH_INPUTS ?tool = Some key" "updated = AList.update key (JStr c) (ta_input action)"
      "canonicalPath (real_of E) q = Some c" "c \<noteq> rp_policyFile policy" "dangerousPathDecision ?tool c = None" by metis
  have paths: "path_values (action\<lparr>ta_input := updated\<rparr>) = (if trim c \<noteq> [] then [(key, c)] else [])"
    using path(1,2) by (simp add: path_values_def update_conv')
  with assms(2) paths obtain a where "access = Some a" "pa_status a = Access_selected"
    "\<exists>f \<in> set (if ?tool \<in> set WRITE_TOOLS then pa_writableFolders a else pa_folders a). isWithin f c"
    by (auto simp: projectAccessAllowsAction_def list_ex_iff split: option.splits if_splits)
  with path show ?thesis unfolding confined_def by blast
qed

section \<open>Claude\<close>

lemma git_supported: "supported_tool (git_tool_text g)"
  by (cases g) (simp_all add: supported_tool_def PATH_INPUTS_def)

text \<open>
  C28: a tool call of Claude is let through only for an active message of a
  communication session, under a policy that could be loaded, after the owner agreed in
  time. A call with a path is confined to the folders of the session and goes on with the
  canonical path; a git command is replaced by the safe one; a shell command runs hardened and
  on the wider surface only; any other tool needs its exact grant or the session's preset.
\<close>

theorem claude_allows_only:
  assumes "resolveToolDecision cfg w t tool input attemptId s = Some (Allow updated, s')"
  shows "\<exists>policy message turnId call. claude_policy (tw_env w) cfg (tl_policy s) (tl_trusted s) = Some policy
    \<and> kt_active t = Some (message, turnId) \<and> truthy (me_communicationSessionId message)
    \<and> ad_approvalGateway cfg \<and> owner_agreed w \<and> called_tool cfg tool input = Inr call
    \<and> (if supported_tool (ta_toolName (tc_action call))
       then \<exists>inside. confined (tw_env w) policy (kt_sandboxAccess t) (tc_action call) inside
              \<and> (tc_git call = None \<longrightarrow> updated = inside)
       else if prefix ''mcp__'' (ta_toolName (tc_action call))
       then ta_toolName (tc_action call) \<in> set (kt_grantedMcpTools t) \<and> updated = ta_input (tc_action call)
       else (\<exists>a. kt_sandboxAccess t = Some a \<and> pa_status a = Access_selected
              \<and> accessPresetSatisfies (pa_preset a) (if tool \<in> set FULL_READ_TOOLS then Read_project else Edit_project))
            \<and> updated = ta_input (tc_action call))
    \<and> (\<forall>op. tc_git call = Some op \<longrightarrow> (\<exists>repository command. updated = [(''command'', JStr command)]
         \<and> safeGitShellInput (tw_git w) (op\<lparr>sg_repository := repository\<rparr>) = Inr command))
    \<and> (tool = ''Bash'' \<and> tc_git call = None \<longrightarrow> ad_fullCapability cfg \<and> hardenBashInput input = Inr updated)"
proof -
  let ?message = "map_option fst (kt_active t)"
  from assms obtain policy call inside scope activation s1 where
    policy: "claude_policy (tw_env w) cfg (tl_policy s) (tl_trusted s) = Some policy"
    and call: "called_tool cfg tool input = Inr call"
    and within: "within_boundary (tw_env w) policy ?message (kt_sandboxAccess t) (tc_action call) = Inr inside"
    and unpathed: "inside = None \<longrightarrow> unpathed_denial t (ta_toolName (tc_action call)) = None"
    and gateway: "ad_approvalGateway cfg" "truthy (Option.bind ?message me_communicationSessionId)"
    and asked: "ask_owner w (ta_toolName (tc_action call)) s = (Some (Approval_allow scope activation), s1)"
    and approved: "approved_call w policy ?message call inside s1 = (Allow updated, s')"
    by (auto simp: resolveToolDecision_def outside_boundary_def deny_def Let_def
        split: if_splits option.splits sum.splits prod.splits ToolApprovalOutcome.splits)
  from gateway(2) obtain message turnId where active: "kt_active t = Some (message, turnId)"
    "truthy (me_communicationSessionId message)" by (cases "kt_active t") auto
  have called: "(tc_git call = None \<longrightarrow> tc_action call = \<lparr>ta_toolName = tool, ta_input = ta_input (tc_action call)\<rparr>)
      \<and> (\<forall>op. tc_git call = Some op \<longrightarrow> supported_tool (ta_toolName (tc_action call)))
      \<and> (tool = ''Bash'' \<and> tc_git call = None \<longrightarrow> ad_fullCapability cfg \<and> hardenBashInput input = Inr (ta_input (tc_action call)))"
    using call by (auto simp: called_tool_def map_sum_def split: option.splits if_splits sum.splits json.splits)
       (simp add: git_supported)
  have git: "\<exists>repository command. updated = [(''command'', JStr command)]
         \<and> safeGitShellInput (tw_git w) (op\<lparr>sg_repository := repository\<rparr>) = Inr command" if "tc_git call = Some op" for op
    using approved that by (auto simp: approved_call_def deny_def Let_def split: prod.splits sum.splits)
  have plain: "tc_git call = None \<Longrightarrow> updated = or_else inside (ta_input (tc_action call))"
    using approved by (auto simp: approved_call_def deny_def split: prod.splits sum.splits)
  have surface: "if supported_tool (ta_toolName (tc_action call))
       then \<exists>inside. confined (tw_env w) policy (kt_sandboxAccess t) (tc_action call) inside \<and> (tc_git call = None \<longrightarrow> updated = inside)
       else if prefix ''mcp__'' (ta_toolName (tc_action call))
       then ta_toolName (tc_action call) \<in> set (kt_grantedMcpTools t) \<and> updated = ta_input (tc_action call)
       else (\<exists>a. kt_sandboxAccess t = Some a \<and> pa_status a = Access_selected
              \<and> accessPresetSatisfies (pa_preset a) (if tool \<in> set FULL_READ_TOOLS then Read_project else Edit_project))
            \<and> updated = ta_input (tc_action call)"
  proof (cases "supported_tool (ta_toolName (tc_action call))")
    case True
    with within obtain i where "inside = Some i" "authorizeBoundary (tw_env w) policy (tc_action call) ?message = Allow i"
      "projectAccessAllowsAction (kt_sandboxAccess t) (tc_action call\<lparr>ta_input := i\<rparr>)"
      by (auto simp: within_boundary_def Let_def split: ToolPermissionDecision.splits if_splits)
    with both_boundaries[of "tw_env w" policy "tc_action call" ?message i] plain True show ?thesis by (auto simp: or_else_def)
  next
    case False
    with within have "inside = None" by (simp add: within_boundary_def)
    with False called unpathed plain show ?thesis
      by (cases "tc_git call") (auto simp: or_else_def unpathed_denial_def Let_def split: if_splits option.splits,
          (metis ToolAction.select_convs(1))+)
  qed
  have shell: "tool = ''Bash'' \<and> tc_git call = None \<longrightarrow> ad_fullCapability cfg \<and> hardenBashInput input = Inr updated"
  proof
    assume bash: "tool = ''Bash'' \<and> tc_git call = None"
    with called have "ta_toolName (tc_action call) = ''Bash''" by (metis ToolAction.select_convs(1))
    then have "\<not> supported_tool (ta_toolName (tc_action call))" by (simp add: supported_tool_def PATH_INPUTS_def)
    with surface have "updated = ta_input (tc_action call)" by (simp split: if_splits)
    with bash called show "ad_fullCapability cfg \<and> hardenBashInput input = Inr updated" by simp
  qed
  show ?thesis
    using policy active gateway(1) asked_owner[OF asked] call surface git shell
    by (intro exI[of _ policy] exI[of _ message] exI[of _ turnId] exI[of _ call]) simp
qed

section \<open>Codex\<close>

lemma no_outside:
  "outside_action E policy message access actions = None \<Longrightarrow> action \<in> set actions
    \<Longrightarrow> \<exists>inside. confined E policy access action inside"
  by (induction actions) (auto dest: both_boundaries split: ToolPermissionDecision.splits if_splits)


section \<open>Calls of a session of Alice's\<close>

declare poll_approval.simps [code]

definition alices_files :: tool_state where
  "alices_files = \<lparr>tl_policy = writePolicyDocument [\<lparr>re_principalId = ''alice'', re_deviceId = ''laptop'',
        re_tools = [''Edit'', ''GitLog'', ''Read'', ''Write''], re_folders = [''/w/app''], re_mcpServers = None\<rparr>],
     tl_trusted = Absent, tl_store = []\<rparr>"

definition bobs_config :: adapter_config where
  "bobs_config = \<lparr>ad_cwd = ''/home/bob'', ad_relationshipPolicyFile = Some ''/home/bob/.aicoo/relationships.json'',
     ad_policyOptions = \<lparr>po_trustedToolPolicyFile = None, po_ownerPrincipalId = None, po_ownerDeviceId = None,
       po_bridgeInstanceId = None\<rparr>,
     ad_fullCapability = True, ad_approvalGateway = True, ad_continuationStore = False\<rparr>"

definition agreeing_owner :: tool_world where
  "agreeing_owner = \<lparr>tw_env = plain_env, tw_git = demo_git, tw_approvals = demo_world, tw_requested = Inr allow_state,
     tw_polls = (\<lambda>_. Some allow_state), tw_clock = int, tw_started = 0, tw_now = ''now'', tw_meanwhile = id\<rparr>"

definition edit_access :: ProjectAccess where
  "edit_access = \<lparr>pa_status = Access_selected, pa_preset = Edit_project, pa_folders = [''/w/app''],
     pa_writableFolders = [''/w/app''], pa_selectionSource = None, pa_requestedProject = None, pa_requestedProjects = None,
     pa_selectedPolicyIds = None, pa_selectedFolderPaths = None\<rparr>"

definition alices_gate :: claude_gate where
  "alices_gate = \<lparr>kt_sessionHandle = ''claude-managed-1'', kt_active = Some (from_alice, ''turn1''), kt_original = JNull,
     kt_sandboxAccess = Some edit_access, kt_grantedMcpTools = [], kt_additionalDirectories = [''/w/app'']\<rparr>"

definition alices_turn :: "RelationshipAccessPreset \<Rightarrow> codex_gate" where
  "alices_turn preset = \<lparr>kx_message = from_alice, kx_original = JNull, kx_sessionHandle = ''codex-managed-1'',
     kx_runtimeTurnId = ''turn1'', kx_turnCwd = ''/w/app'', kx_sessionAccess = Some (edit_access\<lparr>pa_preset := preset\<rparr>)\<rparr>"

theorem claude_allows_only_witness:
  "let call = (\<lambda>tool input. map_option fst (resolveToolDecision bobs_config agreeing_owner alices_gate tool input ''a1'' alices_files))
   in call ''Write'' [(''file_path'', JStr ''/w/app/a.ts'')] = Some (Allow [(''file_path'', JStr ''/w/app/a.ts'')])
      \<and> owner_agreed agreeing_owner
      \<and> call ''Write'' [(''file_path'', JStr ''/w/other/a.ts'')] = Some (deny
       ''This request is outside the active session boundary. Select or grant the folder before starting the task.'')"
proof -
  let ?call = "\<lambda>input. resolveToolDecision bobs_config agreeing_owner alices_gate ''Write'' input ''a1'' alices_files"
  have run: "map_option fst (?call [(''file_path'', JStr ''/w/app/a.ts'')]) = Some (Allow [(''file_path'', JStr ''/w/app/a.ts'')])"
    "map_option fst (?call [(''file_path'', JStr ''/w/other/a.ts'')]) = Some (deny
       ''This request is outside the active session boundary. Select or grant the folder before starting the task.'')"
    by code_simp+
  from run(1) obtain s' where
    "?call [(''file_path'', JStr ''/w/app/a.ts'')] = Some (Allow [(''file_path'', JStr ''/w/app/a.ts'')], s')" by auto
  from claude_allows_only[OF this] have "owner_agreed agreeing_owner" by blast
  with run show ?thesis unfolding Let_def by blast
qed


text \<open>
  A command request that does not say its command is judged by its summary, the words
  \<^verbatim>\<open>Run a shell command\<close>: in a session that may only read it is accepted without asking anyone.
\<close>

theorem unnamed_command_accepted:
  "\<exists>route request s'. classifyApproval ''item/commandExecution/requestApproval'' (JObj []) = Some request
     \<and> approvalRoute bobs_config agreeing_owner (alices_turn Read_project) = Some route
     \<and> route request ''a1'' alices_files = Some (Accept, s')"
proof -
  let ?request = "the (classifyApproval ''item/commandExecution/requestApproval'' (JObj []))"
  let ?route = "approvalRoute bobs_config agreeing_owner (alices_turn Read_project)"
  have "classifyApproval ''item/commandExecution/requestApproval'' (JObj []) \<noteq> None" "?route \<noteq> None"
    "map_option fst (the ?route ?request ''a1'' alices_files) = Some Accept" by code_simp+
  then show ?thesis by auto
qed

end
