(* ===== verification/Codex_Guarantees.thy ===== *)
theory Codex_Guarantees
  imports Codex_Sessions
begin

text \<open>
  What the Codex adapter keeps over any operations, in any order: its objects and its table agree,
  a thread belongs to the communication session its slot is bound to, every delivery that waits
  is answered once and every turn ends once.
\<close>

section \<open>The invariant\<close>

definition mirrors :: "CodexSession \<Rightarrow> CodexRow \<Rightarrow> bool" where
  "mirrors x r = (keep_truthy (xr_provider_thread_id r) = keep_truthy (xs_providerThreadId x)
     \<and> keep_truthy (xr_bound_comm_session_id r) = keep_truthy (xs_bound x) \<and> xr_state r = xs_state x \<and> xr_label r = xs_label x)"

definition codex_tables_ok :: "codex_adapter \<Rightarrow> bool" where
  "codex_tables_ok s = (distinct (map xs_localHandle (xa_sessions s)) \<and> distinct (map xr_local_handle (xa_rows s))
     \<and> xs_localHandle ` set (xa_sessions s) = xr_local_handle ` set (xa_rows s)
     \<and> (\<forall>x \<in> set (xa_sessions s). \<forall>r \<in> set (xa_rows s). xs_localHandle x = xr_local_handle r \<longrightarrow> mirrors x r)
     \<and> event_log_ok (xa_log s))"

text \<open>The handles in \<open>B\<close> are just being stopped: only they have suppressed turns, or are busy without one.\<close>

definition codex_session_ok :: "bool \<Rightarrow> string set \<Rightarrow> CodexSession \<Rightarrow> bool" where
  "codex_session_ok closing B x = ((xs_activeTurn x \<noteq> None \<longrightarrow> truthy (xs_bound x))
     \<and> (\<not> truthy (xs_bound x) \<longrightarrow> \<not> truthy (xs_providerThreadId x))
     \<and> (xs_state x = Busy \<and> \<not> closing \<and> xs_localHandle x \<notin> B \<longrightarrow> xs_activeTurn x \<noteq> None)
     \<and> (\<forall>av. xs_activeTurn x = Some av \<and> av_suppressed av \<longrightarrow> xs_localHandle x \<in> B))"

definition active_id :: "CodexSession \<Rightarrow> string option" where
  "active_id x = map_option av_runtimeTurnId (xs_activeTurn x)"

definition active_ids :: "codex_adapter \<Rightarrow> string list" where
  "active_ids s = List.map_filter active_id (xa_sessions s)"

definition started_ids :: "codex_adapter \<Rightarrow> string list" where
  "started_ids s = map (fst \<circ> snd) (xa_started s)"

text \<open>The turn whose end an event reports.\<close>

definition ended_turn :: "SessionEventRow \<Rightarrow> string option" where
  "ended_turn e = (if sv_event_type e = Adapter_reply \<or> sv_event_type e = Adapter_turn_failed
     then Option.bind (map_of (sv_data e) ''payload'') (\<lambda>j. member_text (members_of j) ''runtimeTurnId'') else None)"

definition ended_ids :: "codex_adapter \<Rightarrow> string list" where
  "ended_ids s = List.map_filter ended_turn (xa_log s)"

definition codex_turns_ok :: "codex_world \<Rightarrow> codex_adapter \<Rightarrow> bool" where
  "codex_turns_ok w s = (distinct (started_ids s) \<and> set (started_ids s) \<subseteq> xw_uuid w ` {..<xa_clock s}
     \<and> distinct (active_ids s @ ended_ids s) \<and> set (active_ids s @ ended_ids s) \<subseteq> set (started_ids s)
     \<and> set (xa_waiting s @ map fst (xa_settled s)) = set (started_ids s) \<and> distinct (xa_waiting s @ map fst (xa_settled s)))"

definition codex_ok :: "codex_world \<Rightarrow> string set \<Rightarrow> codex_adapter \<Rightarrow> bool" where
  "codex_ok w B s = (codex_tables_ok s \<and> (\<forall>x \<in> set (xa_sessions s). codex_session_ok (xa_closing s) B x) \<and> codex_turns_ok w s)"

section \<open>Basic steps\<close>

lemma turns_cong:
  assumes "codex_turns_ok w s" "started_ids s' = started_ids s" "active_ids s' = active_ids s" "ended_ids s' = ended_ids s"
    "xa_waiting s' = xa_waiting s" "xa_settled s' = xa_settled s" "xa_clock s \<le> xa_clock s'"
  shows "codex_turns_ok w s'"
proof -
  have "set (started_ids s) \<subseteq> xw_uuid w ` {..<xa_clock s'}" 
    using assms(1,7) by (auto simp: codex_turns_ok_def dest!: subsetD)
  with assms show ?thesis by (simp add: codex_turns_ok_def)
qed

text \<open>Steps that touch files, the policy and the clock only.\<close>

definition same_core :: "codex_adapter \<Rightarrow> codex_adapter \<Rightarrow> bool" where
  "same_core s s' = (xa_sessions s' = xa_sessions s \<and> xa_rows s' = xa_rows s \<and> xa_log s' = xa_log s
     \<and> xa_started s' = xa_started s \<and> xa_waiting s' = xa_waiting s \<and> xa_settled s' = xa_settled s
     \<and> xa_closing s' = xa_closing s \<and> xa_closed s' = xa_closed s \<and> xa_clock s \<le> xa_clock s')"

lemma same_core_refl [simp]: "same_core s s" by (simp add: same_core_def)

lemma same_core_trans: "same_core s s' \<Longrightarrow> same_core s' s'' \<Longrightarrow> same_core s s''"
  by (auto simp: same_core_def)

lemma same_core_updates [simp]:
  "same_core s (s\<lparr>xa_trusted := t\<rparr>)" "same_core s (s\<lparr>xa_effects := e\<rparr>)" "same_core s (codex_ticked s)"
  by (simp_all add: same_core_def codex_ticked_def)

lemma same_core_ok: "same_core s s' \<Longrightarrow> codex_ok w B s \<Longrightarrow> codex_ok w B s'"
proof -
  assume core: "same_core s s'" and ok: "codex_ok w B s"
  have "codex_turns_ok w s'"
    by (rule turns_cong[of w s]) (use core ok in \<open>simp_all add: same_core_def codex_ok_def active_ids_def ended_ids_def started_ids_def\<close>)
  with core ok show ?thesis by (simp add: same_core_def codex_ok_def codex_tables_ok_def)
qed

lemma load_core: "load_codex_policy w s = (p, s') \<Longrightarrow> same_core s s'"
  by (auto simp: load_codex_policy_def)

lemma access_core: "codex_access_of w handle m c s = (a, s') \<Longrightarrow> same_core s s'"
proof -
  have through: "same_core s s1 \<Longrightarrow> same_core s (s1\<lparr>xa_trusted := t\<rparr>)" "same_core s s1 \<Longrightarrow> same_core s (s1\<lparr>xa_effects := e\<rparr>)"
    "same_core s s1 \<Longrightarrow> same_core s (s1\<lparr>xa_trusted := t, xa_effects := e\<rparr>)" for s1 t e
    by (simp_all add: same_core_def)
  show "codex_access_of w handle m c s = (a, s') \<Longrightarrow> same_core s s'"
    by (auto simp: codex_access_of_def Let_def intro: through dest!: load_core
        split: if_splits prod.splits sum.splits)
qed

lemma servers_core: "catalogue_servers w m s = (g, s') \<Longrightarrow> same_core s s'"
  by (auto simp: catalogue_servers_def dest: load_core split: if_splits prod.splits sum.splits)

lemma codex_session_Some: "codex_session handle s = Some x \<Longrightarrow> x \<in> set (xa_sessions s) \<and> xs_localHandle x = handle"
  by (auto simp: codex_session_def dest: find_SomeD)

lemma codex_change_simps [simp]:
  "xa_log (codex_change h f g s) = xa_log s" "xa_started (codex_change h f g s) = xa_started s"
  "xa_waiting (codex_change h f g s) = xa_waiting s" "xa_settled (codex_change h f g s) = xa_settled s"
  "xa_closing (codex_change h f g s) = xa_closing s" "xa_closed (codex_change h f g s) = xa_closed s"
  "xa_clock (codex_change h f g s) = xa_clock s"
  by (simp_all add: codex_change_def)

lemma sessions_change: "xa_sessions (codex_change h f g s) = update_where (\<lambda>x. xs_localHandle x = h) f (xa_sessions s)"
  by (simp add: codex_change_def)

lemma update_where_map: "(\<And>x. P x \<Longrightarrow> h (f x) = h x) \<Longrightarrow> map h (update_where P f t) = map h t"
  by (auto simp: update_where_def)

lemma change_tables_ok:
  assumes "codex_tables_ok s" "\<And>x. xs_localHandle (f x) = xs_localHandle x" "\<And>r. xr_local_handle (g r) = xr_local_handle r"
    and "\<And>x r. mirrors x r \<Longrightarrow> mirrors (f x) (g r)"
  shows "codex_tables_ok (codex_change h f g s)"
proof -
  have "map xs_localHandle (update_where (\<lambda>x. xs_localHandle x = h) f (xa_sessions s)) = map xs_localHandle (xa_sessions s)"
    "map xr_local_handle (update_where (\<lambda>r. xr_local_handle r = h) g (xa_rows s)) = map xr_local_handle (xa_rows s)"
    using assms(2,3) by (intro update_where_map; simp)+
  moreover have "xs_localHandle ` set (update_where (\<lambda>x. xs_localHandle x = h) f (xa_sessions s)) = xs_localHandle ` set (xa_sessions s)"
    "xr_local_handle ` set (update_where (\<lambda>r. xr_local_handle r = h) g (xa_rows s)) = xr_local_handle ` set (xa_rows s)"
    using calculation by (metis list.set_map)+
  moreover have "mirrors x r" if "x \<in> set (update_where (\<lambda>x. xs_localHandle x = h) f (xa_sessions s))"
      "r \<in> set (update_where (\<lambda>r. xr_local_handle r = h) g (xa_rows s))" "xs_localHandle x = xr_local_handle r" for x r
    using that assms unfolding update_where_def codex_tables_ok_def by (auto split: if_splits)
  ultimately show ?thesis using assms(1) by (simp add: codex_tables_ok_def codex_change_def)
qed

lemma map_filter_update: "(\<And>x. P x \<Longrightarrow> h (f x) = h x) \<Longrightarrow> List.map_filter h (update_where P f t) = List.map_filter h t"
  by (induction t) (auto simp: update_where_def List.map_filter_simps split: option.splits)

lemma change_ok:
  assumes "codex_ok w B s" "\<And>x. xs_localHandle (f x) = xs_localHandle x" "\<And>r. xr_local_handle (g r) = xr_local_handle r"
    and "\<And>x r. mirrors x r \<Longrightarrow> mirrors (f x) (g r)" "\<And>x. active_id (f x) = active_id x"
    and "\<And>x. x \<in> set (xa_sessions s) \<Longrightarrow> xs_localHandle x = h \<Longrightarrow> codex_session_ok (xa_closing s) B x
        \<Longrightarrow> codex_session_ok (xa_closing s) B' (f x)"
    and "\<And>x. xs_localHandle x \<noteq> h \<Longrightarrow> codex_session_ok (xa_closing s) B x \<Longrightarrow> codex_session_ok (xa_closing s) B' x"
  shows "codex_ok w B' (codex_change h f g s)"
proof -
  have "active_ids (codex_change h f g s) = active_ids s"
    unfolding active_ids_def sessions_change by (rule map_filter_update) (rule assms(5))
  then have "codex_turns_ok w (codex_change h f g s)"
    by - (rule turns_cong[of w s]; use assms(1) in \<open>simp add: codex_ok_def started_ids_def ended_ids_def\<close>)
  moreover have "codex_session_ok (xa_closing s) B' y" if y: "y \<in> set (xa_sessions (codex_change h f g s))" for y
  proof -
    from y obtain x where x: "x \<in> set (xa_sessions s)" "y = (if xs_localHandle x = h then f x else x)"
      by (auto simp: sessions_change update_where_def)
    with assms(1) have "codex_session_ok (xa_closing s) B x" by (simp add: codex_ok_def)
    with x assms(6)[of x] assms(7)[of x] show ?thesis by (cases "xs_localHandle x = h") simp_all
  qed
  ultimately show ?thesis
    using assms(1) change_tables_ok[of s f g h] assms(2-4) by (simp add: codex_ok_def)
qed

text \<open>Settling an answer, reporting progress, and reporting the end of a turn that no session works on.\<close>

lemma settle_simps [simp]:
  "xa_sessions (settle i r s) = xa_sessions s" "xa_rows (settle i r s) = xa_rows s" "xa_log (settle i r s) = xa_log s"
  "xa_started (settle i r s) = xa_started s" "xa_closing (settle i r s) = xa_closing s" "xa_clock (settle i r s) = xa_clock s"
  "xa_closed (settle i r s) = xa_closed s"
  by (simp_all add: settle_def)

lemma settle_ok: "codex_ok w B s \<Longrightarrow> codex_ok w B (settle i r s)"
proof -
  assume ok: "codex_ok w B s"
  have "active_ids (settle i r s) = active_ids s" "ended_ids (settle i r s) = ended_ids s" "started_ids (settle i r s) = started_ids s"
    by (simp_all add: active_ids_def ended_ids_def started_ids_def)
  moreover have "set (xa_waiting (settle i r s) @ map fst (xa_settled (settle i r s))) = set (xa_waiting s @ map fst (xa_settled s))"
    by (auto simp: settle_def)
  moreover have "distinct (xa_waiting s @ map fst (xa_settled s)) \<Longrightarrow> distinct (xa_waiting (settle i r s) @ map fst (xa_settled (settle i r s)))"
    by (auto simp: settle_def)
  ultimately have "codex_turns_ok w (settle i r s)"
    using ok unfolding codex_ok_def codex_turns_ok_def by simp
  with ok show ?thesis by (simp add: codex_ok_def codex_tables_ok_def)
qed

lemma codex_append_simps [simp]:
  "xa_sessions (codex_append w h type data s) = xa_sessions s" "xa_rows (codex_append w h type data s) = xa_rows s"
  "xa_started (codex_append w h type data s) = xa_started s" "xa_waiting (codex_append w h type data s) = xa_waiting s"
  "xa_settled (codex_append w h type data s) = xa_settled s" "xa_closing (codex_append w h type data s) = xa_closing s"
  "xa_clock (codex_append w h type data s) = xa_clock s" "xa_closed (codex_append w h type data s) = xa_closed s"
  by (simp_all add: codex_append_def)

lemma append_ok:
  assumes "codex_ok w B s" "\<And>e. sv_event_type e = type \<Longrightarrow> sv_data e = data \<Longrightarrow> ended_turn e = over"
    and "\<And>i. over = Some i \<Longrightarrow> i \<in> set (started_ids s) \<and> i \<notin> set (active_ids s @ ended_ids s)"
  shows "codex_ok w B (codex_append w h type data s)"
proof -
  have "ended_ids (codex_append w h type data s) = ended_ids s @ (case over of None \<Rightarrow> [] | Some i \<Rightarrow> [i])"
    using assms(2) by (simp add: ended_ids_def codex_append_def appendEvent_def List.map_filter_def split: option.split)
  moreover have "active_ids (codex_append w h type data s) = active_ids s"
    "started_ids (codex_append w h type data s) = started_ids s" by (simp_all add: active_ids_def started_ids_def)
  ultimately have "codex_turns_ok w (codex_append w h type data s)"
    using assms(1,3) by (cases over) (auto simp: codex_ok_def codex_turns_ok_def)
  moreover have "codex_tables_ok (codex_append w h type data s)"
    using assms(1) by (simp add: codex_ok_def codex_tables_ok_def codex_append_def appendEvent_ok)
  ultimately show ?thesis using assms(1) by (simp add: codex_ok_def)
qed

lemma progress_ok:
  "codex_ok w B s \<Longrightarrow> codex_ok w B (codex_append w h Adapter_turn_started data s)"
  by (rule append_ok[where over = None]) (auto simp: ended_turn_def)

section \<open>Operations\<close>

lemma truthy_keep_truthy: "truthy (keep_truthy v) = truthy v"
  by (simp add: keep_truthy_def truthy_def)

text \<open>Changes of the object alone, which the table does not show.\<close>

lemma plain_change_ok:
  assumes "codex_ok w B s" "\<And>x. xs_localHandle (f x) = xs_localHandle x" "\<And>x. active_id (f x) = active_id x"
    and "\<And>x. xs_providerThreadId (f x) = xs_providerThreadId x" "\<And>x. xs_bound (f x) = xs_bound x"
      "\<And>x. xs_state (f x) = xs_state x" "\<And>x. xs_label (f x) = xs_label x"
      "\<And>x av. xs_activeTurn (f x) = Some av \<Longrightarrow> av_suppressed av \<Longrightarrow> \<exists>av'. xs_activeTurn x = Some av' \<and> av_suppressed av'"
  shows "codex_ok w B (codex_change h f id s)"
proof (rule change_ok[OF assms(1,2)])
  have active: "(xs_activeTurn (f x) = None) = (xs_activeTurn x = None)" for x
    using assms(3)[of x] by (auto simp: active_id_def map_option_case split: option.splits)
  show "codex_session_ok (xa_closing s) B x \<Longrightarrow> codex_session_ok (xa_closing s) B (f x)" for x
    using assms(8)[of x] by (auto simp: codex_session_ok_def assms(2,4-7) active)
qed (use assms in \<open>simp_all add: mirrors_def\<close>)

lemma active_change_turn: "(\<And>av. av_runtimeTurnId (f av) = av_runtimeTurnId av) \<Longrightarrow> active_id (change_turn f x) = active_id x"
  by (simp add: active_id_def change_turn_def option.map_comp comp_def)

lemma markIdle_ok:
  assumes "codex_ok w B s" "\<And>x av. x \<in> set (xa_sessions s) \<Longrightarrow> xs_localHandle x = handle \<Longrightarrow> xs_activeTurn x = Some av \<Longrightarrow> \<not> av_suppressed av"
  shows "codex_ok w (B - {handle}) (markIdle w handle s)"
proof (cases "codex_session handle s")
  case None
  then have "\<forall>x \<in> set (xa_sessions s). xs_localHandle x \<noteq> handle"
    by (auto simp: codex_session_def find_None_iff)
  with assms(1) None show ?thesis by (auto simp: markIdle_def codex_ok_def codex_session_ok_def)
next
  case (Some x)
  show ?thesis
  proof (cases "xs_state x = Closed")
    case True
    have one: "xs_localHandle y = handle \<Longrightarrow> y \<in> set (xa_sessions s) \<Longrightarrow> xs_state y \<noteq> Busy" for y
      using codex_session_Some[OF Some] True assms(1) distinct_key_eq[of xs_localHandle "xa_sessions s" x y]
      by (auto simp: codex_ok_def codex_tables_ok_def)
    from True Some have "markIdle w handle s = s" by (simp add: markIdle_def)
    with assms one show ?thesis by (fastforce simp: codex_ok_def codex_session_ok_def)
  next
    case False
    with Some have "markIdle w handle s = codex_change handle (\<lambda>x. x\<lparr>xs_state := Idle\<rparr>)
         (\<lambda>r. r\<lparr>xr_state := Idle, xr_last_active_at := xw_now w (xa_clock s)\<rparr>) s" by (simp add: markIdle_def)
    also have "codex_ok w (B - {handle}) \<dots>"
      by (rule change_ok[OF assms(1)]) (use assms(2) in \<open>auto simp: mirrors_def active_id_def codex_session_ok_def\<close>)
    finally show ?thesis .
  qed
qed

lemma clear_ok:
  assumes "codex_ok w B s" "xa_closing s \<or> handle \<in> B \<or> (\<forall>x \<in> set (xa_sessions s). xs_localHandle x = handle \<longrightarrow> xs_state x \<noteq> Busy)"
  shows "codex_ok w B (clear_turn handle s)"
    and "codex_session handle s = Some x \<Longrightarrow> xs_activeTurn x = Some av \<Longrightarrow>
      av_runtimeTurnId av \<in> set (started_ids s) \<and> av_runtimeTurnId av \<notin> set (active_ids (clear_turn handle s) @ ended_ids s)"
proof -
  let ?s = "clear_turn handle s"
  have ids: "set (active_ids ?s) = {i. \<exists>x \<in> set (xa_sessions s). xs_localHandle x \<noteq> handle \<and> active_id x = Some i}"
    by (force simp: active_ids_def clear_turn_def sessions_change update_where_def List.map_filter_def active_id_def)
  have all: "set (active_ids s) = {i. \<exists>x \<in> set (xa_sessions s). active_id x = Some i}"
    by (force simp: active_ids_def List.map_filter_def)
  have dist: "distinct (List.map_filter active_id xs) \<Longrightarrow> distinct (List.map_filter active_id
      (update_where (\<lambda>x. xs_localHandle x = handle) (\<lambda>x. x\<lparr>xs_activeTurn := None\<rparr>) xs))
    \<and> set (List.map_filter active_id (update_where (\<lambda>x. xs_localHandle x = handle) (\<lambda>x. x\<lparr>xs_activeTurn := None\<rparr>) xs))
        \<subseteq> set (List.map_filter active_id xs)" for xs
    by (induction xs) (auto simp: update_where_def List.map_filter_simps active_id_def split: option.splits)
  have turns: "codex_turns_ok w s" using assms(1) by (simp add: codex_ok_def)
  then have old: "distinct (active_ids s)" by (simp add: codex_turns_ok_def)
  have sub: "set (active_ids ?s) \<subseteq> set (active_ids s)" "distinct (active_ids ?s)"
    using dist[of "xa_sessions s"] old by (simp_all add: active_ids_def clear_turn_def sessions_change)
  have same: "ended_ids ?s = ended_ids s" "started_ids ?s = started_ids s" "xa_waiting ?s = xa_waiting s"
    "xa_settled ?s = xa_settled s" "xa_clock ?s = xa_clock s" "xa_closing ?s = xa_closing s"
    by (simp_all add: clear_turn_def ended_ids_def started_ids_def)
  have "codex_turns_ok w ?s" using turns sub unfolding codex_turns_ok_def same by auto
  moreover have "codex_tables_ok ?s"
    unfolding clear_turn_def using assms(1) by (intro change_tables_ok) (auto simp: codex_ok_def mirrors_def)
  moreover have "codex_session_ok (xa_closing s) B y" if "y \<in> set (xa_sessions ?s)" for y
    using that assms by (fastforce simp: clear_turn_def sessions_change update_where_def codex_ok_def codex_session_ok_def)
  ultimately show "codex_ok w B ?s" by (simp add: codex_ok_def same)
  assume x: "codex_session handle s = Some x" "xs_activeTurn x = Some av"
  let ?i = "av_runtimeTurnId av"
  have here: "x \<in> set (xa_sessions s)" "xs_localHandle x = handle" using codex_session_Some[OF x(1)] by simp_all
  then have "?i \<in> set (active_ids s)" using x(2) all by (auto simp: active_id_def)
  moreover have "?i \<notin> set (active_ids ?s)"
  proof
    assume "?i \<in> set (active_ids ?s)"
    then obtain y where y: "y \<in> set (xa_sessions s)" "xs_localHandle y \<noteq> handle" "active_id y = Some ?i" using ids by auto
    have inj: "distinct (List.map_filter active_id xs) \<Longrightarrow> x \<in> set xs \<Longrightarrow> y \<in> set xs \<Longrightarrow> active_id x = Some i \<Longrightarrow> active_id y = Some i
        \<Longrightarrow> x = y" for xs i
      by (induction xs) (auto simp: List.map_filter_simps split: option.splits, (force simp: List.map_filter_def)+)
    have "x = y" by (rule inj[OF old[unfolded active_ids_def] here(1) y(1) _ y(3)]) (simp add: active_id_def x(2))
    with y here show False by simp
  qed
  ultimately show "?i \<in> set (started_ids s) \<and> ?i \<notin> set (active_ids ?s @ ended_ids s)"
    using turns by (auto simp: codex_turns_ok_def)
qed

lemma clear_append: "clear_turn h (codex_append w h' type data s) = codex_append w h' type data (clear_turn h s)"
  by (simp add: clear_turn_def codex_change_def codex_append_def)

lemma markIdle_simps [simp]:
  "xa_log (markIdle w h s) = xa_log s" "xa_started (markIdle w h s) = xa_started s" "xa_closing (markIdle w h s) = xa_closing s"
  "xa_waiting (markIdle w h s) = xa_waiting s" "xa_settled (markIdle w h s) = xa_settled s"
  by (simp_all add: markIdle_def split: option.split)

text \<open>Looking a session up after a change of it.\<close>

lemma codex_session_change:
  assumes "\<And>x. xs_localHandle (f x) = xs_localHandle x"
  shows "codex_session h (codex_change h f g s) = map_option f (codex_session h s)"
proof -
  have "List.find (\<lambda>x. xs_localHandle x = h) (update_where (\<lambda>x. xs_localHandle x = h) f xs)
      = map_option f (List.find (\<lambda>x. xs_localHandle x = h) xs)" for xs
    by (induction xs) (auto simp: update_where_def assms)
  then show ?thesis by (simp add: codex_session_def sessions_change)
qed

lemma codex_session_sessions: "xa_sessions s' = xa_sessions s \<Longrightarrow> codex_session h s' = codex_session h s"
  by (simp add: codex_session_def)

lemma session_markIdle:
  assumes "codex_session h s = Some x"
  obtains y where "codex_session h (markIdle w h s) = Some y" "xs_activeTurn y = xs_activeTurn x" "xs_state y \<noteq> Busy"
  using assms that by (cases "xs_state x = Closed") (auto simp: markIdle_def codex_session_change)

lemma ok_mono: "codex_ok w A s \<Longrightarrow> A \<subseteq> B \<Longrightarrow> codex_ok w B s"
  by (auto simp: codex_ok_def codex_session_ok_def)

lemma clear_turn_simps [simp]:
  "started_ids (clear_turn h s) = started_ids s" "ended_ids (clear_turn h s) = ended_ids s"
  "xa_closing (clear_turn h s) = xa_closing s"
  by (simp_all add: clear_turn_def started_ids_def ended_ids_def)

lemma same_session:
  "codex_ok w B s \<Longrightarrow> codex_session h s = Some x \<Longrightarrow> y \<in> set (xa_sessions s) \<Longrightarrow> xs_localHandle y = h \<Longrightarrow> y = x"
  using codex_session_Some[of h s x] distinct_key_eq[of xs_localHandle "xa_sessions s" y x]
  by (simp add: codex_ok_def codex_tables_ok_def)

text \<open>A turn that ends: its session is idle, holds it no more, and its end may be reported.\<close>

lemma idle_clear_ok:
  assumes ok: "codex_ok w B s" and x: "codex_session h s = Some x" "xs_activeTurn x = Some av" "\<not> av_suppressed av"
  shows "codex_ok w B (clear_turn h (markIdle w h s))"
    and "type \<in> {Adapter_reply, Adapter_turn_failed} \<Longrightarrow>
      (\<And>e. sv_event_type e = type \<Longrightarrow> sv_data e = data \<Longrightarrow> ended_turn e = Some (av_runtimeTurnId av))
      \<Longrightarrow> codex_ok w B (clear_turn h (codex_append w h type data (markIdle w h s)))"
proof -
  let ?s = "markIdle w h s"
  have "codex_ok w (B - {h}) ?s"
    by (rule markIdle_ok[OF ok]) (use same_session[OF ok x(1)] x(2,3) in auto)
  then have idle: "codex_ok w B ?s" by (rule ok_mono) blast
  obtain y where y: "codex_session h ?s = Some y" "xs_activeTurn y = Some av" "xs_state y \<noteq> Busy"
    using session_markIdle[OF x(1), of w] x(2) by metis
  have quiet: "xa_closing ?s \<or> h \<in> B \<or> (\<forall>x \<in> set (xa_sessions ?s). xs_localHandle x = h \<longrightarrow> xs_state x \<noteq> Busy)"
    using same_session[OF idle y(1)] y(3) by auto
  show cleared: "codex_ok w B (clear_turn h ?s)" by (rule clear_ok(1)[OF idle quiet])
  assume "type \<in> {Adapter_reply, Adapter_turn_failed}"
    and reports: "\<And>e. sv_event_type e = type \<Longrightarrow> sv_data e = data \<Longrightarrow> ended_turn e = Some (av_runtimeTurnId av)"
  show "codex_ok w B (clear_turn h (codex_append w h type data ?s))"
    unfolding clear_append
  proof (rule append_ok[OF cleared, where over = "Some (av_runtimeTurnId av)"])
    show "i \<in> set (started_ids (clear_turn h ?s)) \<and> i \<notin> set (active_ids (clear_turn h ?s) @ ended_ids (clear_turn h ?s))"
      if "Some (av_runtimeTurnId av) = Some i" for i
      using clear_ok(2)[OF idle quiet y(1,2)] that by simp
  qed (rule reports)
qed

lemma end_turn_ok:
  assumes ok: "codex_ok w B s" and x: "codex_session h s = Some x" "xs_activeTurn x = Some av"
  shows "codex_ok w B (end_turn w x av how s)"
proof -
  have handle: "xs_localHandle x = h" and member: "x \<in> set (xa_sessions s)" using codex_session_Some[OF x(1)] by auto
  show ?thesis
  proof (cases "xa_closing s \<or> av_suppressed av")
    case True
    have "av_suppressed av \<Longrightarrow> h \<in> B" using ok member x(2) handle by (auto simp: codex_ok_def codex_session_ok_def)
    with True clear_ok(1)[OF ok, of h] show ?thesis by (auto simp: end_turn_def handle)
  next
    case False
    let ?t = "rejectPendingAck av s"
    have t: "codex_ok w B ?t" "codex_session h ?t = Some x"
      using settle_ok[OF ok] x(1) codex_session_sessions[of ?t s h] by (simp_all add: rejectPendingAck_def)
    have reports: "sv_data e = turn_event av @ [(''payload'', JObj kvs)] \<Longrightarrow> member_text kvs ''runtimeTurnId'' = Some i
        \<Longrightarrow> sv_event_type e = Adapter_reply \<or> sv_event_type e = Adapter_turn_failed \<Longrightarrow> ended_turn e = Some i" for e kvs i
      by (simp add: ended_turn_def turn_event_def members_of_def)
    have quiet: "\<not> av_suppressed av" using False by simp
    note over = idle_clear_ok[OF ok x quiet] idle_clear_ok[OF t x(2) quiet]
    have failed: "codex_ok w B (clear_turn h (failTurn w x av reason s))" for reason
      unfolding failTurn_def Let_def handle using over
      by (auto intro!: over reports[where i = "av_runtimeTurnId av"] simp: member_text_def)
    have finished: "codex_ok w B (clear_turn h (finishTurn w x av s))"
      unfolding finishTurn_def Let_def handle using over
      by (auto intro!: over reports[where i = "av_runtimeTurnId av"] simp: member_text_def split: option.split)
    show ?thesis using False failed finished by (cases how) (simp_all add: end_turn_def handle)
  qed
qed

lemma in_turn_ok:
  assumes "codex_ok w B s" "\<And>x av. codex_session h s = Some x \<Longrightarrow> xs_activeTurn x = Some av \<Longrightarrow> codex_ok w B (f x av s)"
  shows "codex_ok w B (in_turn h f s)"
  using assms by (auto simp: in_turn_def split: option.split)

lemma ticked_ok: "codex_ok w B s \<Longrightarrow> codex_ok w B (codex_ticked s)"
  by (rule same_core_ok[of s]) simp_all

lemma stream_end_ok: "codex_ok w B s \<Longrightarrow> codex_ok w B (codex_stream_end w h s)"
  unfolding codex_stream_end_def by (intro in_turn_ok ticked_ok end_turn_ok)

lemma turn_begins_ok:
  assumes ok: "codex_ok w B s" and x: "codex_session h s = Some x" "xs_activeTurn x = Some av"
  shows "codex_ok w B (turn_begins w x av s)"
proof -
  have handle: "xs_localHandle x = h" using codex_session_Some[OF x(1)] by simp
  let ?t = "settle (av_runtimeTurnId av) (D_runtime_acked (codex_ack_id x (av_runtimeTurnId av))) s"
  have "codex_ok w B ?t" by (rule settle_ok[OF ok])
  then have "codex_ok w B (codex_change h (\<lambda>x. x\<lparr>xs_state := Busy\<rparr>)
      (\<lambda>r. r\<lparr>xr_state := Busy, xr_last_active_at := xw_now w (xa_clock ?t)\<rparr>) ?t)"
    by (rule change_ok) (use same_session[OF ok x(1)] x(2) in \<open>auto simp: mirrors_def active_id_def codex_session_ok_def\<close>)
  then show ?thesis unfolding turn_begins_def Let_def handle by (auto intro: progress_ok)
qed

lemma handleTurnEvent_ok:
  assumes ok: "codex_ok w B s" and x: "codex_session h s = Some x" "xs_activeTurn x = Some av"
  shows "codex_ok w B (handleTurnEvent w x av event s)"
proof -
  have handle: "xs_localHandle x = h" and member: "x \<in> set (xa_sessions s)" using codex_session_Some[OF x(1)] by auto
  have bound: "truthy (xs_bound x)" using ok member x(2) by (auto simp: codex_ok_def codex_session_ok_def)
  have "codex_ok w B (codex_change h (\<lambda>x. x\<lparr>xs_providerThreadId := Some thread\<rparr>)
                  (\<lambda>r. r\<lparr>xr_provider_thread_id := Some thread, xr_last_active_at := xw_now w (xa_clock s)\<rparr>) s)" for thread
    by (rule change_ok[OF ok]) (use same_session[OF ok x(1)] bound in \<open>auto simp: mirrors_def active_id_def codex_session_ok_def\<close>)
  moreover have "codex_ok w B (codex_change h (change_turn (av_replyText_update (\<lambda>_. Some reply))) id s)" for reply
    by (rule plain_change_ok[OF ok]) (auto simp: change_turn_def active_id_def option.map_comp comp_def)
  ultimately show ?thesis
    using ok turn_begins_ok[OF ok x] end_turn_ok[OF ok x]
    by (cases event) (auto simp: handleTurnEvent_def handle split: option.split)
qed

lemma event_ok: "codex_ok w B s \<Longrightarrow> codex_ok w B (codex_event w h event s)"
  unfolding codex_event_def by (intro in_turn_ok ticked_ok handleTurnEvent_ok)

lemma ack_timeout_ok: "codex_ok w B s \<Longrightarrow> codex_ok w B (codex_ack_timeout w turnId s)"
  unfolding codex_ack_timeout_def Let_def by (auto intro: stream_end_ok settle_ok split: option.split)

text \<open>A slot without a turn.\<close>

definition no_turn :: "string \<Rightarrow> codex_adapter \<Rightarrow> bool" where
  "no_turn h s = (\<forall>x \<in> set (xa_sessions s). xs_localHandle x = h \<longrightarrow> xs_activeTurn x = None)"

lemma clear_none: "no_turn h s \<Longrightarrow> clear_turn h s = s"
  by (cases s) (auto simp: no_turn_def clear_turn_def codex_change_def update_where_def intro!: map_idI)

lemma no_turn_None: "codex_session h s = None \<Longrightarrow> no_turn h s"
  by (auto simp: codex_session_def find_None_iff no_turn_def)

lemma no_turn_Some: "codex_ok w B s \<Longrightarrow> codex_session h s = Some x \<Longrightarrow> xs_activeTurn x = None \<Longrightarrow> no_turn h s"
  using same_session by (fastforce simp: no_turn_def)

lemma end_turn_no_turn: "no_turn (xs_localHandle x) (end_turn w x av how s)"
  by (auto simp: end_turn_def no_turn_def clear_turn_def sessions_change update_where_def)

lemma stream_end_no_turn: "codex_ok w B s \<Longrightarrow> no_turn h (codex_stream_end w h s)"
proof (cases "codex_session h (codex_ticked s)")
  case None
  then show ?thesis using no_turn_None by (simp add: codex_stream_end_def in_turn_def)
next
  case (Some x)
  assume "codex_ok w B s"
  then have ok: "codex_ok w B (codex_ticked s)" by (rule ticked_ok)
  show ?thesis
    using Some no_turn_Some[OF ok Some] codex_session_Some[OF Some] end_turn_no_turn[of x w _ Stream_ended "codex_ticked s"]
    by (auto simp: codex_stream_end_def in_turn_def split: option.split)
qed

lemma close_turn_ok: "codex_ok w B s \<Longrightarrow> codex_ok w B (close_turn w h s)"
  unfolding close_turn_def rejectPendingAck_def by (intro in_turn_ok stream_end_ok settle_ok)

lemma close_turn_no_turn: "codex_ok w B s \<Longrightarrow> no_turn h (close_turn w h s)"
proof (cases "codex_session h s")
  case (Some x)
  assume ok: "codex_ok w B s"
  then show ?thesis
    using Some no_turn_Some[OF ok Some] stream_end_no_turn[OF settle_ok[OF ok]]
    by (auto simp: close_turn_def in_turn_def rejectPendingAck_def split: option.split)
qed (simp add: no_turn_None close_turn_def in_turn_def)

lemma reset_ok:
  assumes "codex_ok w B s"
  shows "codex_ok w B (codex_resetSession w h s)"
proof -
  let ?t = "close_turn w h s"
  have ok: "codex_ok w B ?t" "no_turn h ?t" using close_turn_ok[OF assms] close_turn_no_turn[OF assms] by auto
  show ?thesis
    unfolding codex_resetSession_def Let_def clear_none[OF ok(2)]
    by (rule change_ok[OF ok(1)]) (use ok(2) in \<open>auto simp: mirrors_def active_id_def codex_session_ok_def no_turn_def truthy_def\<close>)
qed

lemma fold_ok: "(\<And>h s. codex_ok w B s \<Longrightarrow> codex_ok w B (f h s)) \<Longrightarrow> codex_ok w B s \<Longrightarrow> codex_ok w B (fold f hs s)"
  by (induction hs arbitrary: s) auto

lemma reset_where_ok: "codex_ok w B s \<Longrightarrow> codex_ok w B (reset_where w P s)"
  unfolding reset_where_def by (rule fold_ok[OF reset_ok])

lemma closing_ok: "codex_ok w B s \<Longrightarrow> codex_ok w B (s\<lparr>xa_closing := True\<rparr>)" "codex_ok w B s \<Longrightarrow> codex_ok w B (s\<lparr>xa_closed := c\<rparr>)"
  by (auto simp: codex_ok_def codex_tables_ok_def codex_turns_ok_def codex_session_ok_def active_ids_def ended_ids_def started_ids_def)

lemma close_ok: "codex_ok w B s \<Longrightarrow> codex_ok w B (codex_close w s)"
  unfolding codex_close_def by (auto intro!: closing_ok fold_ok close_turn_ok)

lemma continuation_session: "codex_continuationSession c s = Inr x \<Longrightarrow> codex_session (cc_sessionHandle c) s = Some x
    \<and> xs_localHandle x = cc_sessionHandle c"
  by (auto simp: codex_continuationSession_def dest: codex_session_Some split: option.splits if_splits)

lemma quiesce_ok:
  assumes ok: "codex_ok w {} s"
  shows "codex_ok w {} (snd (codex_quiesceContinuation w c s))"
proof (cases "codex_continuationSession c s")
  case (Inr x)
  define h where "h = xs_localHandle x"
  let ?t = "codex_change h (change_turn (av_suppressed_update (\<lambda>_. True))) id s"
  have "codex_ok w {h} ?t"
    by (rule change_ok[OF ok]) (auto simp: change_turn_def mirrors_def active_id_def codex_session_ok_def option.map_comp comp_def)
  then have closed: "codex_ok w {h} (close_turn w h ?t)" "no_turn h (close_turn w h ?t)"
    using close_turn_ok close_turn_no_turn by blast+
  have "codex_ok w ({h} - {h}) (markIdle w h (close_turn w h ?t))"
    by (rule markIdle_ok[OF closed(1)]) (use closed(2) in \<open>auto simp: no_turn_def\<close>)
  with Inr show ?thesis by (simp add: codex_quiesceContinuation_def h_def Let_def)
qed (simp add: codex_quiesceContinuation_def ok)

lemma bind_ok:
  assumes ok: "codex_ok w B s" and x: "codex_session h s = Some x" and sid: "sid \<noteq> []"
  shows "codex_ok w B (codex_bind w x sid m s)"
    and "codex_session h (codex_bind w x sid m s) = Some (x\<lparr>xs_bound := (if truthy (xs_bound x) then xs_bound x else Some sid),
          xs_principalId := Some (me_senderPrincipalId m), xs_deviceId := me_senderDeviceId m\<rparr>)"
    and "xa_closing (codex_bind w x sid m s) = xa_closing s"
proof -
  have handle: "xs_localHandle x = h" using codex_session_Some[OF x] by simp
  have "codex_ok w B (codex_change h (\<lambda>x. x\<lparr>xs_bound := Some sid\<rparr>) (\<lambda>r. r\<lparr>xr_bound_comm_session_id := Some sid,
      xr_last_active_at := xw_now w (xa_clock s)\<rparr>) s)" if "\<not> truthy (xs_bound x)"
    by (rule change_ok[OF ok])
       (use sid that same_session[OF ok x] in \<open>auto simp: mirrors_def active_id_def codex_session_ok_def truthy_def\<close>)
  then show "codex_ok w B (codex_bind w x sid m s)"
    unfolding codex_bind_def Let_def handle
    by (intro plain_change_ok) (auto simp: active_id_def ok)
  show "codex_session h (codex_bind w x sid m s) = Some (x\<lparr>xs_bound := (if truthy (xs_bound x) then xs_bound x else Some sid),
          xs_principalId := Some (me_senderPrincipalId m), xs_deviceId := me_senderDeviceId m\<rparr>)"
    by (simp add: codex_bind_def Let_def handle codex_session_change x)
  show "xa_closing (codex_bind w x sid m s) = xa_closing s" by (simp add: codex_bind_def Let_def)
qed

lemma map_filter_snoc_ids:
  "distinct (map xs_localHandle xs) \<Longrightarrow> x \<in> set xs \<Longrightarrow> xs_localHandle x = h \<Longrightarrow> active_id x = None \<Longrightarrow> active_id (f x) = Some i
    \<Longrightarrow> set (List.map_filter active_id (update_where (\<lambda>x. xs_localHandle x = h) f xs)) = insert i (set (List.map_filter active_id xs))
      \<and> (distinct (List.map_filter active_id xs) \<and> i \<notin> set (List.map_filter active_id xs) \<longrightarrow>
          distinct (List.map_filter active_id (update_where (\<lambda>x. xs_localHandle x = h) f xs)))"
proof (induction xs)
  case (Cons y xs)
  show ?case
  proof (cases "xs_localHandle y = h")
    case True
    with Cons.prems have "y = x" "update_where (\<lambda>x. xs_localHandle x = h) f xs = xs"
      by (auto simp: update_where_def intro!: map_idI) (metis imageI)
    with Cons.prems True show ?thesis by (simp add: update_where_def List.map_filter_simps)
  next
    case False
    with Cons show ?thesis by (auto simp: update_where_def List.map_filter_simps split: option.split)
  qed
qed simp

lemma start_turn_ok:
  assumes ok: "codex_ok w B s" and x: "codex_session h s = Some x" "xs_activeTurn x = None" "truthy (xs_bound x)"
    and fresh: "av_runtimeTurnId av \<notin> set (started_ids s)" "av_runtimeTurnId av \<in> xw_uuid w ` {..<xa_clock s}" "\<not> av_suppressed av"
  shows "codex_ok w B (codex_change h (\<lambda>x. x\<lparr>xs_activeTurn := Some av\<rparr>) id
      (s\<lparr>xa_waiting := xa_waiting s @ [av_runtimeTurnId av], xa_started := xa_started s @ [(h, av_runtimeTurnId av, input)]\<rparr>))"
proof -
  let ?i = "av_runtimeTurnId av"
  let ?t = "s\<lparr>xa_waiting := xa_waiting s @ [?i], xa_started := xa_started s @ [(h, ?i, input)]\<rparr>"
  let ?s = "codex_change h (\<lambda>x. x\<lparr>xs_activeTurn := Some av\<rparr>) id ?t"
  have turns: "codex_turns_ok w s" and tables: "codex_tables_ok s" using ok by (simp_all add: codex_ok_def)
  have member: "x \<in> set (xa_sessions s)" "xs_localHandle x = h" using codex_session_Some[OF x(1)] by auto
  have ids: "set (active_ids ?s) = insert ?i (set (active_ids s))"
    "distinct (active_ids s) \<and> ?i \<notin> set (active_ids s) \<longrightarrow> distinct (active_ids ?s)"
    using map_filter_snoc_ids[of "xa_sessions s" x h "\<lambda>x. x\<lparr>xs_activeTurn := Some av\<rparr>" ?i] tables member x(2)
    by (simp_all add: active_ids_def sessions_change active_id_def codex_tables_ok_def)
  have same: "started_ids ?s = started_ids s @ [?i]" "ended_ids ?s = ended_ids s" "xa_waiting ?s = xa_waiting s @ [?i]"
    "xa_settled ?s = xa_settled s" "xa_clock ?s = xa_clock s" by (simp_all add: started_ids_def ended_ids_def)
  have "codex_turns_ok w ?s"
    using turns fresh ids unfolding codex_turns_ok_def same by auto
  moreover have "codex_tables_ok ?s"
    by (rule change_tables_ok) (use tables in \<open>auto simp: codex_tables_ok_def mirrors_def\<close>)
  moreover have "codex_session_ok (xa_closing s) B y" if "y \<in> set (xa_sessions ?s)" for y
    using that ok x(3) fresh(3) same_session[OF ok x(1)]
    by (auto simp: sessions_change update_where_def codex_ok_def codex_session_ok_def split: if_splits)
  ultimately show ?thesis by (simp add: codex_ok_def)
qed

lemma same_core_sessions: "same_core s s' \<Longrightarrow> codex_session h s' = codex_session h s"
  by (rule codex_session_sessions) (simp add: same_core_def)

lemma codex_start_ok:
  assumes ok: "codex_ok w B s" and x: "codex_session (xs_localHandle x0) s = Some x" "xs_activeTurn x = None" "truthy (xs_bound x)"
    and inj: "inj (xw_uuid w)"
  shows "codex_ok w B (snd (codex_start w x0 role m s))"
proof -
  obtain a s1 where a: "codex_access_of w (xs_localHandle x0) m (context_only m) s = (a, s1)" by fastforce
  note core1 = access_core[OF a]
  show ?thesis
  proof (cases "access_problem m (context_only m) (xp_status a)")
    case (Some problem)
    with a same_core_ok[OF core1 ok] show ?thesis by (simp add: codex_start_def Let_def)
  next
    case None
    obtain servers s2 where s2: "catalogue_servers w m (codex_ticked s1) = (servers, s2)" by fastforce
    have core2: "same_core (codex_ticked s1) s2" by (rule servers_core[OF s2])
    have core: "same_core s s2" by (rule same_core_trans[OF core1 same_core_trans[OF _ core2]]) simp
    let ?i = "xw_uuid w (xa_clock s1)"
    have clocks: "xa_clock s \<le> xa_clock s1" "Suc (xa_clock s1) \<le> xa_clock s2"
      using core1 core2 by (simp_all add: same_core_def codex_ticked_def)
    have "?i \<notin> set (started_ids s)"
      using ok clocks(1) inj by (auto simp: codex_ok_def codex_turns_ok_def inj_eq)
    moreover have "started_ids s2 = started_ids s" using core by (simp add: same_core_def started_ids_def)
    moreover have "?i \<in> xw_uuid w ` {..<xa_clock s2}" using clocks(2) by auto
    ultimately show ?thesis
      using a None s2 start_turn_ok[OF same_core_ok[OF core ok], of "xs_localHandle x0" x
          "\<lparr>av_message = m, av_runtimeTurnId = ?i, av_contextOnly = context_only m, av_suppressed = False, av_replyText = None\<rparr>"]
        same_core_sessions[OF core] x
      by (simp add: codex_start_def Let_def)
  qed
qed

lemma deliver_ok:
  assumes ok: "codex_ok w B s" and inj: "inj (xw_uuid w)"
  shows "codex_ok w B (snd (codex_deliver w h role m steer s))"
proof (cases "codex_session h s")
  case (Some x)
  have handle: "xs_localHandle x = h" using codex_session_Some[OF Some] by simp
  have "codex_ok w B (snd (codex_start w x role m (codex_bind w x sid m s)))"
    if "keep_truthy (me_communicationSessionId m) = Some sid" "xs_activeTurn x = None" for sid
  proof -
    have sid: "sid \<noteq> []" using that(1) by (auto simp: keep_truthy_def truthy_def split: option.splits if_splits)
    note bound = bind_ok[OF ok Some sid, of m]
    show ?thesis
      by (rule codex_start_ok[OF bound(1) _ _ _ inj, where x = "x\<lparr>xs_bound := (if truthy (xs_bound x) then xs_bound x else Some sid),
          xs_principalId := Some (me_senderPrincipalId m), xs_deviceId := me_senderDeviceId m\<rparr>"])
         (use bound(2) handle that(2) sid in \<open>auto simp: truthy_def\<close>)
  qed
  with Some ok show ?thesis by (auto simp: codex_deliver_def split: option.split)
qed (simp add: codex_deliver_def ok)

lemma rebuild_ok:
  assumes ok: "codex_ok w B s"
  shows "codex_ok w B (snd (codex_rebuildContinuation w c s))"
proof -
  have loaded: "codex_ok w B s'" if "load_codex_policy w t = (p, s')" "codex_ok w B t" for t p s'
    by (rule same_core_ok[OF load_core[OF that(1)] that(2)])
  have effects: "codex_ok w B (t\<lparr>xa_effects := e\<rparr>)" if "codex_ok w B t" for t e
    by (rule same_core_ok[OF _ that]) simp
  have forget: "codex_ok w B (codex_change h (\<lambda>x. x\<lparr>xs_providerThreadId := None\<rparr>)
      (\<lambda>r. r\<lparr>xr_provider_thread_id := None, xr_last_active_at := now\<rparr>) t)" if "codex_ok w B t" for h t now
    by (rule change_ok[OF that]) (auto simp: mirrors_def active_id_def codex_session_ok_def truthy_def)
  show ?thesis
    using ok by (auto simp: codex_rebuildContinuation_def Let_def intro!: effects forget dest: loaded
        split: sum.split prod.split option.split)
qed

lemma resume_ok: "codex_ok w B s \<Longrightarrow> inj (xw_uuid w) \<Longrightarrow> codex_ok w B (snd (codex_resumeContinuation w c s))"
  using deliver_ok[of w B s "cc_sessionHandle c" None _ False]
  by (auto simp: codex_resumeContinuation_def split: sum.split prod.split) (metis snd_conv)

lemma prepare_ok: "codex_ok w B s \<Longrightarrow> codex_ok w B (codex_prepareCommunicationSession w h sid s)"
  by (auto simp: codex_prepareCommunicationSession_def intro: reset_ok split: option.split)

lemma activation_ok:
  "codex_ok w B s \<Longrightarrow> codex_ok w B (snd (codex_canActivateContinuation w c s))"
  "codex_ok w B s \<Longrightarrow> codex_ok w B (snd (codex_attestBoundaryActivation w k i s))"
  using same_core_ok[OF load_core] by (fastforce simp: codex_canActivateContinuation_def codex_attestBoundaryActivation_def
      split: sum.split prod.split)+

text \<open>Everything the adapter may be asked, and everything its turns may do.\<close>

inductive codex_step :: "codex_world \<Rightarrow> codex_adapter \<Rightarrow> codex_adapter \<Rightarrow> bool" for w where
  "codex_step w s (snd (codex_deliver w h role m steer s))"
| "codex_step w s (codex_event w h event s)"
| "codex_step w s (codex_stream_end w h s)"
| "codex_step w s (codex_ack_timeout w turnId s)"
| "codex_step w s (codex_releaseCommunicationSession w sid s)"
| "codex_step w s (codex_invalidateRelationshipSessions w principalId deviceId s)"
| "codex_step w s (codex_prepareCommunicationSession w h sid s)"
| "codex_step w s (snd (codex_canActivateContinuation w c s))"
| "codex_step w s (snd (codex_attestBoundaryActivation w k i s))"
| "codex_step w s (snd (codex_quiesceContinuation w c s))"
| "codex_step w s (snd (codex_rebuildContinuation w c s))"
| "codex_step w s (snd (codex_resumeContinuation w c s))"
| "codex_step w s (codex_close w s)"

lemma step_ok: "codex_step w s s' \<Longrightarrow> inj (xw_uuid w) \<Longrightarrow> codex_ok w {} s \<Longrightarrow> codex_ok w {} s'"
  by (induction rule: codex_step.induct)
     (simp_all add: deliver_ok event_ok stream_end_ok ack_timeout_ok codex_releaseCommunicationSession_def
        codex_invalidateRelationshipSessions_def reset_where_ok prepare_ok activation_ok quiesce_ok rebuild_ok resume_ok close_ok)

lemma run_ok: "(codex_step w)\<^sup>*\<^sup>* s s' \<Longrightarrow> inj (xw_uuid w) \<Longrightarrow> codex_ok w {} s \<Longrightarrow> codex_ok w {} s'"
  by (induction rule: rtranclp_induct) (auto intro: step_ok)

section \<open>Starting up\<close>

lemma codex_handle_inj: "codex_handle i = codex_handle j \<longleftrightarrow> i = j"
  unfolding codex_handle_def same_append_eq by (metis parse_dec_nat option.inject of_nat_eq_iff)

lemma loaded_row_simps [simp]: "xr_local_handle (codex_loaded_row now r) = xr_local_handle r"
  by (simp add: codex_loaded_row_def Let_def)

lemma rows_for_distinct:
  assumes "distinct (map xr_local_handle existing)"
  shows "distinct (map xr_local_handle (codex_rows_for now slots existing))"
proof -
  have "map xr_local_handle (codex_rows_for now slots existing) =
      filter (\<lambda>h. h \<in> set (map codex_handle [1..<Suc slots])) (map xr_local_handle existing)
      @ map codex_handle (filter (\<lambda>i. codex_handle i \<notin> set (map xr_local_handle existing)) [1..<Suc slots])"
    by (simp add: codex_rows_for_def filter_map comp_def del: upt_Suc)
  moreover have "distinct (map codex_handle (filter P [1..<Suc slots]))" for P
    by (simp add: distinct_map inj_on_def codex_handle_inj del: upt_Suc)
  ultimately show ?thesis using assms by (auto simp del: upt_Suc)
qed

lemma new_adapter_ok:
  assumes "distinct (map xr_local_handle existing)"
  shows "codex_ok w {} (new_codex_adapter w now slots existing [] trusted)"
proof -
  define rows where "rows = map (codex_loaded_row now) (codex_rows_for now slots existing)"
  define forget where "forget = ad_fullCapability (xw_config w)"
  define sessions where "sessions = map codex_session_of (sort_key xr_local_handle rows)"
  let ?s = "new_codex_adapter w now slots existing [] trusted"
  have s: "xa_sessions ?s = (if forget then map (\<lambda>x. x\<lparr>xs_providerThreadId := None\<rparr>) sessions else sessions)"
    "xa_rows ?s = (if forget then map (\<lambda>r. r\<lparr>xr_provider_thread_id := None\<rparr>) rows else rows)"
    "xa_log ?s = []" "xa_started ?s = []" "xa_waiting ?s = []" "xa_settled ?s = []" "xa_closing ?s = False"
    by (simp_all add: new_codex_adapter_def codex_loadOrCreateSessions_def Let_def rows_def sessions_def forget_def)
  have handles: "distinct (map xr_local_handle rows)"
    using rows_for_distinct[OF assms] by (simp add: rows_def comp_def)
  have sorted: "distinct (map xs_localHandle sessions)" "set sessions = codex_session_of ` set rows"
    using handles by (simp_all add: sessions_def codex_session_of_def comp_def distinct_map)
  have mirror: "mirrors (codex_session_of r) r" for r
    by (auto simp: mirrors_def codex_session_of_def keep_truthy_def truthy_def split: option.split)
  have shown: "mirrors x r" if "x \<in> set sessions" "r \<in> set rows" "xs_localHandle x = xr_local_handle r" for x r
  proof -
    from that(1) sorted(2) obtain r' where "r' \<in> set rows" "x = codex_session_of r'" by auto
    moreover from this that have "r' = r"
      by (intro distinct_key_eq[OF handles]) (simp_all add: codex_session_of_def)
    ultimately show ?thesis using mirror by simp
  qed
  have rows_quiet: "\<not> truthy (xr_bound_comm_session_id r) \<longrightarrow> \<not> truthy (xr_provider_thread_id r)" "xr_state r \<noteq> Busy"
    if "r \<in> set rows" for r
    using that by (auto simp: rows_def codex_loaded_row_def Let_def truthy_def split: if_splits)
  have quiet: "codex_session_ok False {} x" if "x \<in> set sessions" for x
  proof -
    from that sorted(2) obtain r where "r \<in> set rows" "x = codex_session_of r" by auto
    with rows_quiet[of r] show ?thesis by (simp add: codex_session_ok_def codex_session_of_def truthy_keep_truthy)
  qed
  have "xs_localHandle ` set sessions = xr_local_handle ` set rows"
    by (simp add: sorted(2) image_image codex_session_of_def)
  then have keys: "distinct (map xs_localHandle (xa_sessions ?s))" "distinct (map xr_local_handle (xa_rows ?s))"
    "xs_localHandle ` set (xa_sessions ?s) = xr_local_handle ` set (xa_rows ?s)"
    using handles sorted(1) by (simp_all add: s comp_def image_image)
  have "mirrors x r" if "x \<in> set (xa_sessions ?s)" "r \<in> set (xa_rows ?s)" "xs_localHandle x = xr_local_handle r" for x r
  proof (cases forget)
    case True
    with that(1,2) obtain x' r' where o: "x' \<in> set sessions" "x = x'\<lparr>xs_providerThreadId := None\<rparr>"
      "r' \<in> set rows" "r = r'\<lparr>xr_provider_thread_id := None\<rparr>" by (auto simp: s)
    with that(3) shown[of x' r'] show ?thesis by (simp add: mirrors_def)
  qed (use that shown in \<open>simp add: s\<close>)
  with keys have tables: "codex_tables_ok ?s"
    by (simp add: codex_tables_ok_def s(3) event_log_ok_def of_handle_def)
  have "active_ids ?s = []"
  proof -
    have none: "active_id (codex_session_of r) = None" "active_id (codex_session_of r\<lparr>xs_providerThreadId := None\<rparr>) = None" for r
      by (simp_all add: active_id_def codex_session_of_def)
    have "active_id x = None" if x: "x \<in> set (xa_sessions ?s)" for x
    proof (cases forget)
      case True
      with x obtain x' where "x' \<in> set sessions" "x = x'\<lparr>xs_providerThreadId := None\<rparr>" by (auto simp: s)
      with sorted(2) none show ?thesis by (metis imageE)
    next
      case False
      with x sorted(2) none show ?thesis by (simp add: s) (metis imageE)
    qed
    then show ?thesis by (simp add: active_ids_def List.map_filter_def)
  qed
  moreover have "started_ids ?s = []" "ended_ids ?s = []"
    by (simp_all only: started_ids_def ended_ids_def s list.map List.map_filter_simps)
  ultimately have turns: "codex_turns_ok w ?s"
    by (simp only: codex_turns_ok_def s) simp
  have "codex_session_ok False {} x" if x: "x \<in> set (xa_sessions ?s)" for x
  proof (cases forget)
    case True
    with x obtain x' where "x' \<in> set sessions" "x = x'\<lparr>xs_providerThreadId := None\<rparr>" by (auto simp: s)
    with quiet[of x'] show ?thesis by (simp add: codex_session_ok_def truthy_def)
  qed (use x quiet in \<open>simp add: s\<close>)
  with tables turns show ?thesis by (simp add: codex_ok_def s(7))
qed

section \<open>What a start needs and uses\<close>

text \<open>Where the access of a turn and its profile come from.\<close>

definition granted_access :: "codex_world \<Rightarrow> string \<Rightarrow> MessageEnvelope \<Rightarrow> bool \<Rightarrow> codex_access \<Rightarrow> bool" where
  "granted_access w handle m contextOnly a =
     (\<exists>policy stamp trusted access trusted' servers written.
        accessFor (xw_env w) stamp policy (Some m) (\<not> contextOnly) trusted = (Inr access, trusted')
        \<and> xp_preset a = pa_preset access \<and> xp_folders a = pa_folders access \<and> xp_writable a = pa_writableFolders access
        \<and> writeCodexPermissionProfile (xw_host w) (profile_directory w handle) (profile_input w True (a\<lparr>xp_profile := None\<rparr>) servers)
            = (Inr (xp_profile a), written))"

lemma access_granted:
  "codex_access_of w handle m contextOnly s = (a, s') \<Longrightarrow> xp_profile a \<noteq> None \<Longrightarrow> granted_access w handle m contextOnly a"
  by (auto simp: codex_access_of_def no_codex_access_def granted_access_def Let_def split: if_splits sum.splits prod.splits) blast+

lemma deliver_started:
  assumes "codex_deliver w h role m steer s = (None, s')"
  obtains x sid a servers turnId where
    "codex_session h s = Some x" "xs_state x \<noteq> Closed" "xs_state x \<noteq> Busy" "xs_activeTurn x = None" "\<not> steer"
    "\<not> xa_closing s" "\<not> xa_closed s" "keep_truthy (me_communicationSessionId m) = Some sid"
    "\<not> truthy (xs_bound x) \<or> xs_bound x = Some sid"
    "xp_profile a \<noteq> None \<longrightarrow> granted_access w h m (context_only m) a"
    "xa_started s' = xa_started s @ [(h, turnId, turn_input w x role m (context_only m) turnId a servers)]"
    "codex_session h s' = Some (x\<lparr>xs_bound := Some sid, xs_principalId := Some (me_senderPrincipalId m),
       xs_deviceId := me_senderDeviceId m, xs_activeTurn := Some \<lparr>av_message = m, av_runtimeTurnId = turnId,
         av_contextOnly = context_only m, av_suppressed = False, av_replyText = None\<rparr>\<rparr>)"
proof -
  from assms obtain x sid where x: "codex_session h s = Some x" "xs_state x \<noteq> Closed" "\<not> steer" "xs_state x \<noteq> Busy"
      "xs_activeTurn x = None" "\<not> xa_closing s" "\<not> xa_closed s"
      "keep_truthy (me_communicationSessionId m) = Some sid" "\<not> truthy (xs_bound x) \<or> xs_bound x = Some sid"
    and start: "codex_start w x role m (codex_bind w x sid m s) = (None, s')"
    by (auto simp: codex_deliver_def split: option.splits if_splits)
  have handle: "xs_localHandle x = h" using codex_session_Some[OF x(1)] by simp
  let ?x = "x\<lparr>xs_bound := Some sid, xs_principalId := Some (me_senderPrincipalId m), xs_deviceId := me_senderDeviceId m\<rparr>"
  have "(if truthy (xs_bound x) then xs_bound x else Some sid) = Some sid" using x(9) by auto
  then have bound: "codex_session h (codex_bind w x sid m s) = Some ?x"
    by (simp add: codex_bind_def Let_def handle codex_session_change x(1) split: if_splits)
  have begun: "xa_started (codex_bind w x sid m s) = xa_started s" by (simp add: codex_bind_def Let_def)
  obtain a s1 where a: "codex_access_of w h m (context_only m) (codex_bind w x sid m s) = (a, s1)" by fastforce
  obtain servers s2 where s2: "catalogue_servers w m (codex_ticked s1) = (servers, s2)" by fastforce
  have core: "same_core (codex_bind w x sid m s) s2"
    by (rule same_core_trans[OF access_core[OF a] same_core_trans[OF _ servers_core[OF s2]]]) simp
  from start a s2 handle have s': "s' = codex_change h (\<lambda>x. x\<lparr>xs_activeTurn := Some \<lparr>av_message = m,
        av_runtimeTurnId = xw_uuid w (xa_clock s1), av_contextOnly = context_only m, av_suppressed = False, av_replyText = None\<rparr>\<rparr>) id
      (s2\<lparr>xa_waiting := xa_waiting s2 @ [xw_uuid w (xa_clock s1)], xa_started := xa_started s2 @ [(h, xw_uuid w (xa_clock s1),
        turn_input w x role m (context_only m) (xw_uuid w (xa_clock s1)) a servers)]\<rparr>)"
    by (simp add: codex_start_def Let_def split: option.splits)
  show ?thesis
  proof (rule that[OF x(1,2,4,5,3,6-9)])
    show "xp_profile a \<noteq> None \<longrightarrow> granted_access w h m (context_only m) a" using access_granted[OF a] by blast
    show "xa_started s' = xa_started s @ [(h, xw_uuid w (xa_clock s1),
        turn_input w x role m (context_only m) (xw_uuid w (xa_clock s1)) a servers)]"
      using core begun by (simp add: s' same_core_def)
    show "codex_session h s' = Some (?x\<lparr>xs_activeTurn := Some \<lparr>av_message = m, av_runtimeTurnId = xw_uuid w (xa_clock s1),
        av_contextOnly = context_only m, av_suppressed = False, av_replyText = None\<rparr>\<rparr>)"
      using same_core_sessions[OF core, of h] bound
      by (simp add: s' codex_session_change codex_session_sessions[of "s2\<lparr>xa_waiting := _, xa_started := _\<rparr>" s2])
  qed
qed

end
