(* ===== verification/Codex_Promises.thy ===== *)
theory Codex_Promises
  imports Codex_Guarantees Tool_Guarantees
begin

text \<open>
  What the sessions of the Codex adapter promise the bridge: from a start over any table, after any operations
  and events of turns in any order.
\<close>

definition codex_reachable :: "codex_world \<Rightarrow> codex_adapter \<Rightarrow> bool" where
  "codex_reachable w s = (\<exists>now slots existing trusted. distinct (map xr_local_handle existing)
     \<and> (codex_step w)\<^sup>*\<^sup>* (new_codex_adapter w now slots existing [] trusted) s)"

lemma reachable_ok: "inj (xw_uuid w) \<Longrightarrow> codex_reachable w s \<Longrightarrow> codex_ok w {} s"
  unfolding codex_reachable_def by (blast intro: run_ok new_adapter_ok)

section \<open>A run\<close>

definition bobs_codex :: codex_world where
  "bobs_codex = \<lparr>xw_config = bobs_config, xw_codexPath = None, xw_model = None, xw_permissionProfileRoot = Some ''/tmp/profiles'',
     xw_supportsDynamicTools = True, xw_dynamicTool = JNull, xw_env = plain_env, xw_host = demo_host,
     xw_environment = [], xw_policy = (\<lambda>_. tl_policy alices_files), xw_uuid = dec_nat, xw_now = int,
     xw_stamp = (\<lambda>_. ''now''),
     xw_maker = \<lparr>mm_runtime = Governed_codex, mm_version = ''1'', mm_bridgeInstanceId = None, mm_sha256 = id, mm_decode = (\<lambda>_. None)\<rparr>,
     xw_original = (\<lambda>_. JNull), xw_approvals = (\<lambda>_ _. Inr Decline), xw_tools = (\<lambda>_ _. Inr (False, []))\<rparr>"

definition bobs_start :: codex_adapter where
  "bobs_start = new_codex_adapter bobs_codex 0 2 [] [] Absent"

definition bobs_delivery :: "DeliverReply option \<times> codex_adapter" where
  "bobs_delivery = codex_deliver bobs_codex ''codex-managed-1'' None from_alice False bobs_start"

text \<open>The same without a policy: the sessions only chat.\<close>

definition chat_codex :: codex_world where
  "chat_codex = bobs_codex\<lparr>xw_config := bobs_config\<lparr>ad_relationshipPolicyFile := None\<rparr>\<rparr>"

definition chat_start :: codex_adapter where
  "chat_start = new_codex_adapter chat_codex 0 2 [] [] Absent"

definition chat_event :: "CodexThreadEvent \<Rightarrow> codex_adapter \<Rightarrow> codex_adapter" where
  "chat_event = codex_event chat_codex ''codex-managed-1''"

definition chat_turn :: codex_adapter where
  "chat_turn = chat_event Turn_started (chat_event (Thread_started ''t1'')
     (snd (codex_deliver chat_codex ''codex-managed-1'' None from_alice False chat_start)))"

definition chat_run :: codex_adapter where
  "chat_run = chat_event Turn_completed
     (chat_event (Item_completed [(''type'', JStr ''agent_message''), (''text'', JStr ''hi'')]) chat_turn)"

lemma uuids: "inj dec_nat"
  by (rule injI) (metis parse_dec_nat option.inject of_nat_eq_iff)

lemma chat_uuids: "inj (xw_uuid chat_codex)"
  by (simp add: chat_codex_def bobs_codex_def uuids)

lemma chat_turn_slots:
  "let s = chat_turn in (map (\<lambda>x. (xs_localHandle x, xs_bound x, xs_state x)) (xa_sessions s), xa_closing s)
     = ([(codex_handle 1, Some ''s1'', Busy), (codex_handle 2, None, Idle)], False)"
  by code_simp

lemma chat_turn_first:
  obtains x where "x \<in> set (xa_sessions chat_turn)" "codex_session (codex_handle 1) chat_turn = Some x" "xs_localHandle x = codex_handle 1"
    "xs_bound x = Some ''s1''" "xs_state x = Busy" "\<not> xa_closing chat_turn"
  using chat_turn_slots by (auto simp: Let_def map_eq_Cons_conv codex_session_def)

lemma bobs_reachable: "codex_reachable bobs_codex bobs_start"
  unfolding codex_reachable_def bobs_start_def by (intro exI[of _ 0] exI[of _ 2] exI[of _ "[]"] exI[of _ Absent]) simp

lemma chat_reachable: "codex_reachable chat_codex chat_turn" "codex_reachable chat_codex chat_run"
proof -
  have start: "codex_reachable chat_codex chat_start"
    unfolding codex_reachable_def chat_start_def by (intro exI[of _ 0] exI[of _ 2] exI[of _ "[]"] exI[of _ Absent]) simp
  have step: "codex_step chat_codex s s' \<Longrightarrow> codex_reachable chat_codex s \<Longrightarrow> codex_reachable chat_codex s'" for s s'
    unfolding codex_reachable_def by (blast intro: rtranclp.rtrancl_into_rtrancl)
  show turn: "codex_reachable chat_codex chat_turn"
    unfolding chat_turn_def chat_event_def by (intro step[OF codex_step.intros(2)] step[OF codex_step.intros(1)] start)
  show "codex_reachable chat_codex chat_run"
    unfolding chat_run_def chat_event_def by (intro step[OF codex_step.intros(2)] turn)
qed

section \<open>Deliveries and turns\<close>

text \<open>
  C32: whatever was asked of the adapter and whatever its turns reported, a delivery that
  started a turn either still waits or has one answer, never two; a turn is reported to have
  ended at most once, only if it was started, and never while a session still works on it.
\<close>

theorem codex_deliveries_answered_once:
  assumes "inj (xw_uuid w)" "codex_reachable w s"
  shows "set (xa_waiting s) \<union> fst ` set (xa_settled s) = (fst \<circ> snd) ` set (xa_started s)
     \<and> distinct (xa_waiting s @ map fst (xa_settled s)) \<and> distinct (active_ids s @ ended_ids s)
     \<and> set (active_ids s @ ended_ids s) \<subseteq> (fst \<circ> snd) ` set (xa_started s)"
  using reachable_ok[OF assms] by (auto simp: codex_ok_def codex_turns_ok_def started_ids_def)

theorem codex_deliveries_answered_once_witness:
  "map fst (xa_settled chat_run) = map (fst \<circ> snd) (xa_started chat_run) \<and> ended_ids chat_run = map (fst \<circ> snd) (xa_started chat_run)
   \<and> distinct (ended_ids chat_run)"
proof -
  have run: "let s = chat_run; ids = map (fst \<circ> snd) (xa_started s) in map fst (xa_settled s) = ids \<and> ended_ids s = ids" by code_simp
  with codex_deliveries_answered_once[OF chat_uuids chat_reachable(2)] show ?thesis by (simp add: Let_def)
qed

text \<open>
  Every session object has exactly one row with its binding, thread and state;
  a slot that no communication session is bound to has neither a thread nor a turn, and unless
  the adapter is closing a slot is busy only while it works on a turn.
\<close>

theorem codex_slots_consistent:
  assumes "inj (xw_uuid w)" "codex_reachable w s" "x \<in> set (xa_sessions s)"
  shows "(\<exists>!r. r \<in> set (xa_rows s) \<and> xr_local_handle r = xs_localHandle x)
     \<and> (\<forall>r \<in> set (xa_rows s). xr_local_handle r = xs_localHandle x \<longrightarrow> mirrors x r)
     \<and> (\<not> truthy (xs_bound x) \<longrightarrow> \<not> truthy (xs_providerThreadId x) \<and> xs_activeTurn x = None)
     \<and> (xs_state x = Busy \<and> \<not> xa_closing s \<longrightarrow> xs_activeTurn x \<noteq> None)"
proof -
  have ok: "codex_tables_ok s" "codex_session_ok (xa_closing s) {} x"
    using reachable_ok[OF assms(1,2)] assms(3) by (simp_all add: codex_ok_def)
  from ok(1) assms(3) obtain r where r: "r \<in> set (xa_rows s)" "xr_local_handle r = xs_localHandle x"
    unfolding codex_tables_ok_def by (metis imageE imageI)
  moreover from this have "r' = r" if "r' \<in> set (xa_rows s)" "xr_local_handle r' = xs_localHandle x" for r'
    using that ok(1) distinct_key_eq[of xr_local_handle "xa_rows s" r' r] by (simp add: codex_tables_ok_def)
  ultimately have "\<exists>!r. r \<in> set (xa_rows s) \<and> xr_local_handle r = xs_localHandle x" by blast
  moreover have "\<forall>r \<in> set (xa_rows s). xr_local_handle r = xs_localHandle x \<longrightarrow> mirrors x r"
    using ok(1) assms(3) by (simp add: codex_tables_ok_def)
  ultimately show ?thesis using ok(2) by (auto simp: codex_session_ok_def)
qed

theorem codex_slots_consistent_witness:
  "\<exists>x \<in> set (xa_sessions chat_turn). xs_state x = Busy \<and> xs_activeTurn x \<noteq> None \<and> xs_bound x = Some ''s1''"
proof -
  obtain x where x: "x \<in> set (xa_sessions chat_turn)" "xs_bound x = Some ''s1''" "xs_state x = Busy" "\<not> xa_closing chat_turn"
    by (rule chat_turn_first)
  with codex_slots_consistent[OF chat_uuids chat_reachable(1) x(1)] show ?thesis by blast
qed

section \<open>Starting a turn\<close>



section \<open>Giving sessions up\<close>

text \<open>What a slot keeps while its turn is closed, and what other slots keep.\<close>

definition slot_kept :: "string \<Rightarrow> codex_adapter \<Rightarrow> codex_adapter \<Rightarrow> bool" where
  "slot_kept h s s' = ((\<forall>h'. h' \<noteq> h \<longrightarrow> codex_session h' s' = codex_session h' s)
     \<and> map_option (\<lambda>x. (xs_localHandle x, xs_label x)) (codex_session h s')
       = map_option (\<lambda>x. (xs_localHandle x, xs_label x)) (codex_session h s))"

lemma slot_kept_refl: "slot_kept h s s"
  by (simp add: slot_kept_def)

lemma slot_kept_trans: "slot_kept h s t \<Longrightarrow> slot_kept h t u \<Longrightarrow> slot_kept h s u"
  by (simp add: slot_kept_def)

lemma slot_kept_same: "xa_sessions t = xa_sessions s \<Longrightarrow> slot_kept h s t"
  by (simp add: slot_kept_def codex_session_def)

lemma slot_kept_change:
  assumes "\<And>x. xs_localHandle (f x) = xs_localHandle x" "\<And>x. xs_label (f x) = xs_label x"
  shows "slot_kept h s (codex_change h f g s)"
proof -
  have "List.find (\<lambda>x. xs_localHandle x = h') (update_where (\<lambda>x. xs_localHandle x = h) f xs) = List.find (\<lambda>x. xs_localHandle x = h') xs"
    if "h' \<noteq> h" for h' xs
    using that by (induction xs) (auto simp: update_where_def assms)
  then show ?thesis
    by (simp add: slot_kept_def codex_session_change assms option.map_comp comp_def) (simp add: codex_session_def sessions_change)
qed

lemma slot_kept_markIdle: "slot_kept h s (markIdle w h s)"
  by (auto simp: markIdle_def intro: slot_kept_refl slot_kept_change split: option.split)

lemma slot_kept_end_turn: "xs_localHandle x = h \<Longrightarrow> slot_kept h s (end_turn w x av how s)"
proof -
  assume handle: "xs_localHandle x = h"
  have cleared: "slot_kept h s t \<Longrightarrow> slot_kept h s (clear_turn h t)" for t
    unfolding clear_turn_def by (erule slot_kept_trans) (rule slot_kept_change; simp)
  have appended: "slot_kept h s t \<Longrightarrow> slot_kept h s (codex_append w h' type data t)" for t h' type data
    by (erule slot_kept_trans) (simp add: slot_kept_same)
  have idle: "slot_kept h s (markIdle w h (settle i r s))" "slot_kept h s (markIdle w h s)" for i r
    using slot_kept_trans[OF slot_kept_same slot_kept_markIdle, of "settle i r s" s h] slot_kept_markIdle by simp_all
  show ?thesis
    by (auto simp: end_turn_def failTurn_def finishTurn_def rejectPendingAck_def Let_def handle
        intro!: cleared appended idle slot_kept_refl split: turn_end.split option.split)
qed

lemma slot_kept_close_turn: "slot_kept h s (close_turn w h s)"
proof -
  have "slot_kept h s (codex_stream_end w h (rejectPendingAck av s))" for av
  proof -
    let ?t = "codex_ticked (rejectPendingAck av s)"
    have same: "slot_kept h s ?t" by (rule slot_kept_same) (simp add: codex_ticked_def rejectPendingAck_def)
    then have "slot_kept h s (end_turn w x av' Stream_ended ?t)" if "codex_session h ?t = Some x" for x av'
      using slot_kept_end_turn codex_session_Some[OF that] slot_kept_trans by blast
    with same show ?thesis by (auto simp: codex_stream_end_def in_turn_def split: option.split)
  qed
  then show ?thesis by (auto simp: close_turn_def in_turn_def slot_kept_refl split: option.split)
qed

definition given_up :: "CodexSession \<Rightarrow> CodexSession" where
  "given_up x = x\<lparr>xs_providerThreadId := None, xs_bound := None, xs_principalId := None, xs_deviceId := None, xs_state := Idle,
     xs_activeTurn := None\<rparr>"

lemma session_reset:
  assumes "codex_ok w B s"
  shows "codex_session h (codex_resetSession w h s) = map_option given_up (codex_session h s)"
    and "h' \<noteq> h \<Longrightarrow> codex_session h' (codex_resetSession w h s) = codex_session h' s"
proof -
  let ?t = "close_turn w h s"
  have kept: "slot_kept h s ?t" by (rule slot_kept_close_turn)
  have quiet: "clear_turn h ?t = ?t" by (rule clear_none[OF close_turn_no_turn[OF assms]])
  note reset = codex_resetSession_def Let_def quiet
  show "h' \<noteq> h \<Longrightarrow> codex_session h' (codex_resetSession w h s) = codex_session h' s"
    using slot_kept_change[of "\<lambda>x. x\<lparr>xs_providerThreadId := None, xs_bound := None, xs_principalId := None, xs_deviceId := None,
        xs_state := Idle\<rparr>" h ?t] kept by (simp add: reset slot_kept_def)
  show "codex_session h (codex_resetSession w h s) = map_option given_up (codex_session h s)"
  proof (cases "codex_session h s")
    case (Some x)
    with kept obtain y where y: "codex_session h ?t = Some y" "xs_localHandle y = xs_localHandle x" "xs_label y = xs_label x"
      by (auto simp: slot_kept_def)
    moreover have "xs_activeTurn y = None"
      using close_turn_no_turn[OF assms, of h] codex_session_Some[OF y(1)] by (simp add: no_turn_def)
    ultimately show ?thesis using Some by (simp add: reset codex_session_change given_up_def)
  next
    case None
    with kept have "codex_session h ?t = None" by (simp add: slot_kept_def)
    with None show ?thesis by (simp add: reset codex_session_change)
  qed
qed

lemma given_up_twice [simp]: "given_up (given_up x) = given_up x"
  by (simp add: given_up_def)

lemma session_fold_reset:
  "codex_ok w B s \<Longrightarrow> codex_session h (fold (codex_resetSession w) hs s)
     = (if h \<in> set hs then map_option given_up (codex_session h s) else codex_session h s)"
proof (induction hs arbitrary: s)
  case (Cons h' hs)
  have "codex_ok w B (codex_resetSession w h' s)" using reset_ok Cons.prems by blast
  from Cons.IH[OF this] show ?case
    using session_reset[OF Cons.prems] by (cases "h' = h") (auto simp: option.map_comp comp_def)
qed simp

lemma session_reset_where:
  assumes ok: "codex_ok w B s"
  shows "codex_session h (reset_where w P s) = map_option (\<lambda>x. if P x then given_up x else x) (codex_session h s)"
proof (cases "codex_session h s")
  case (Some x)
  have "h \<in> set (map xs_localHandle (filter P (xa_sessions s))) \<longleftrightarrow> P x"
    using codex_session_Some[OF Some] same_session[OF ok Some] by auto
  with Some show ?thesis by (simp only: reset_where_def session_fold_reset[OF ok]) simp
qed (simp add: reset_where_def session_fold_reset[OF ok])

text \<open>
  C33: releasing a communication session, or giving up those of a device of a principal, frees exactly the slots
  concerned, whatever they were doing: no thread, binding, sender or turn is left, and every
  other slot is as it was.
\<close>

theorem codex_session_given_up:
  assumes "inj (xw_uuid w)" "codex_reachable w s" "codex_session h s = Some x"
  shows "codex_session h (codex_releaseCommunicationSession w sid s) = Some (if xs_bound x = Some sid then given_up x else x)
     \<and> codex_session h (codex_invalidateRelationshipSessions w pid did s)
       = Some (if xs_principalId x = Some pid \<and> xs_deviceId x = Some did then given_up x else x)"
  using session_reset_where[OF reachable_ok[OF assms(1,2)], of h] assms(3)
  by (simp add: codex_releaseCommunicationSession_def codex_invalidateRelationshipSessions_def)

theorem codex_session_given_up_witness:
  "\<exists>x. codex_session (codex_handle 1) chat_turn = Some x \<and> xs_state x = Busy
     \<and> codex_session (codex_handle 1) (codex_releaseCommunicationSession chat_codex ''s1'' chat_turn) = Some (given_up x)
     \<and> codex_session (codex_handle 1) (codex_releaseCommunicationSession chat_codex ''s2'' chat_turn) = Some x"
proof -
  obtain x where x: "codex_session (codex_handle 1) chat_turn = Some x" "xs_bound x = Some ''s1''" "xs_state x = Busy"
    by (rule chat_turn_first)
  from codex_session_given_up[OF chat_uuids chat_reachable(1) x(1)] x show ?thesis by auto
qed

section \<open>Restarts\<close>

text \<open>
  C34: an adapter started again over the rows and events another one left has, in each of its
  slots, the binding and label the other had; the thread too, except on the wider surface, where it is given
  up; no slot is busy or works on a turn, and the events of the slot are all there.
\<close>

theorem codex_restart_keeps_bindings:
  assumes "inj (xw_uuid w)" "codex_reachable w s" "x \<in> set (xa_sessions s)"
    and "xs_localHandle x \<in> codex_handle ` {1..slots}"
  shows "\<exists>x' \<in> set (xa_sessions (new_codex_adapter w now slots (xa_rows s) (xa_log s) trusted)).
     xs_localHandle x' = xs_localHandle x \<and> xs_label x' = xs_label x \<and> xs_bound x' = keep_truthy (xs_bound x)
     \<and> xs_providerThreadId x' = (if ad_fullCapability (xw_config w) then None else keep_truthy (xs_providerThreadId x))
     \<and> xs_state x' = (if xs_state x = Busy then Idle else xs_state x) \<and> xs_activeTurn x' = None
     \<and> of_handle (xs_localHandle x) (xa_log (new_codex_adapter w now slots (xa_rows s) (xa_log s) trusted))
       = of_handle (xs_localHandle x) (xa_log s)"
proof -
  let ?s = "new_codex_adapter w now slots (xa_rows s) (xa_log s) trusted"
  have ok: "codex_tables_ok s" "codex_session_ok (xa_closing s) {} x"
    using reachable_ok[OF assms(1,2)] assms(3) by (simp_all add: codex_ok_def)
  from ok(1) assms(3) obtain r where r: "r \<in> set (xa_rows s)" "xr_local_handle r = xs_localHandle x" "mirrors x r"
    unfolding codex_tables_ok_def by (metis imageE imageI)
  have own: "xs_localHandle x \<in> set (map codex_handle [1..<Suc slots])"
    using assms(4) by (simp add: atLeastLessThanSuc_atLeastAtMost del: upt_Suc)
  define r' where "r' = codex_loaded_row now r"
  have row: "xr_local_handle r' = xs_localHandle x" "xr_label r' = xs_label x"
    "keep_truthy (xr_bound_comm_session_id r') = keep_truthy (xs_bound x)"
    "keep_truthy (xr_provider_thread_id r') = keep_truthy (xs_providerThreadId x)"
    "xr_state r' = (if xs_state x = Busy then Idle else xs_state x)"
  proof -
    have "keep_truthy a = keep_truthy b \<Longrightarrow> truthy a = truthy b" for a b by (metis truthy_keep_truthy)
    with r(3) have "\<not> (truthy (xr_provider_thread_id r) \<and> \<not> truthy (xr_bound_comm_session_id r))"
      using ok(2) unfolding mirrors_def codex_session_ok_def by blast
    with r(2,3) show "xr_local_handle r' = xs_localHandle x" "xr_label r' = xs_label x"
      "keep_truthy (xr_bound_comm_session_id r') = keep_truthy (xs_bound x)"
      "keep_truthy (xr_provider_thread_id r') = keep_truthy (xs_providerThreadId x)"
      "xr_state r' = (if xs_state x = Busy then Idle else xs_state x)"
      by (auto simp: r'_def codex_loaded_row_def Let_def mirrors_def)
  qed
  define x' where "x' = (if ad_fullCapability (xw_config w) then (codex_session_of r')\<lparr>xs_providerThreadId := None\<rparr> else codex_session_of r')"
  have "r \<in> set (codex_rows_for now slots (xa_rows s))" using r(1,2) own by (simp add: codex_rows_for_def del: upt_Suc)
  then have "codex_session_of r' \<in> set (map codex_session_of (sort_key xr_local_handle (map (codex_loaded_row now)
      (codex_rows_for now slots (xa_rows s)))))" by (simp add: r'_def)
  then have "x' \<in> set (xa_sessions ?s)"
    by (cases "ad_fullCapability (xw_config w)")
       (auto simp: new_codex_adapter_def codex_loadOrCreateSessions_def Let_def x'_def simp del: upt_Suc)
  moreover have "of_handle (xs_localHandle x) (xa_log ?s) = of_handle (xs_localHandle x) (xa_log s)"
    using own by (auto simp: new_codex_adapter_def codex_loadOrCreateSessions_def Let_def of_handle_def intro!: filter_cong simp del: upt_Suc)
  ultimately show ?thesis
    using row by (intro bexI[of _ x']) (simp_all add: x'_def codex_session_of_def)
qed

theorem codex_restart_keeps_bindings_witness:
  "\<exists>x' \<in> set (xa_sessions (new_codex_adapter chat_codex 9 2 (xa_rows chat_turn) (xa_log chat_turn) Absent)).
     xs_localHandle x' = codex_handle 1 \<and> xs_bound x' = Some ''s1'' \<and> xs_state x' = Idle"
proof -
  obtain x where x: "x \<in> set (xa_sessions chat_turn)" "xs_localHandle x = codex_handle 1" "xs_bound x = Some ''s1''" "xs_state x = Busy"
    by (rule chat_turn_first)
  then have "xs_localHandle x \<in> codex_handle ` {1..2}" by simp
  from codex_restart_keeps_bindings[OF chat_uuids chat_reachable(1) x(1) this, of 9 Absent] x(2-4) show ?thesis
    by (auto simp: keep_truthy_def truthy_def)
qed

end
