(* ===== verification/Spec2Isabelle.thy ===== *)
theory Spec2Isabelle
  imports Guarantees Bridge_Guarantees Supervision Policy_Guarantees Telemetry Bridge_Promises
    Safe_Git Codex_Profile Tool_Guarantees Codex_Promises Claude_Launch
begin

text \<open>
  A verification of the core of \<^verbatim>\<open>aicoo-local-agent\<close>: two people's coding agents exchange
  messages through a control plane, which grants time-limited communication sessions, and
  through a bridge on each device, which receives messages, keeps them in a durable spool
  and injects them into the local agent's runtime.

  \<^bold>\<open>The control plane\<close> (\<^verbatim>\<open>src/src/control-plane\<close>) is a state \<open>cp\<close>, one list of rows per
  table of \<^verbatim>\<open>db.ts\<close>, with the clock, the random identifiers and the hash as functions of
  the state. The theories follow its files:
  \<^item> \<open>Contracts\<close>: the types of \<^verbatim>\<open>shared/contracts.ts\<close>, reason codes, time;
  \<^item> \<open>Db\<close>: tables, \<^verbatim>\<open>nowIso\<close>, \<^verbatim>\<open>id\<close>, \<^verbatim>\<open>stableHash\<close>, \<^verbatim>\<open>openDb\<close>;
  \<^item> \<open>Events\<close>: the event log, the audit trail, bearer tokens;
  \<^item> \<open>Endpoints\<close>, \<open>Offers\<close>, \<open>Comms\<close>, \<open>Messages\<close>, \<open>Delegations\<close>: one theory per service,
    one function per method, state passed explicitly, a \<open>ServiceResult\<close> for the answer and
    \<open>None\<close> for an exception of the source;
  \<^item> \<open>App\<close>: schemas, routes, handlers; \<open>handle r s\<close> answers request \<open>r\<close> in state \<open>s\<close>.

  \<open>Evolution\<close> says how each table may evolve (\<open>cp_le\<close>) and that every operation stays
  within it; \<open>Schema\<close> states the integrity of the database (\<open>db_ok\<close>) and \<open>Integrity\<close> that
  every operation keeps it; \<open>Guarantees\<close> holds the properties over runs of requests and
  \<open>Scenario\<close> the states its examples are evaluated in.

  \<^bold>\<open>The bridge\<close> (\<^verbatim>\<open>src/src/bridge\<close>): \<open>Spool\<close> models \<^verbatim>\<open>spool.ts\<close>, \<open>Injector\<close> models
  \<^verbatim>\<open>injector.ts\<close> against a \<open>world\<close> of answers (control plane, runtime, hooks, the bridge's
  other loops), \<open>Bridge_Guarantees\<close> holds their properties.

  \<^bold>\<open>Supervision\<close> of the bridge process: \<open>Supervision\<close> models \<^verbatim>\<open>health.ts\<close>,
  \<^verbatim>\<open>idle-backoff.ts\<close>, \<^verbatim>\<open>auth-failure-budget.ts\<close>, \<^verbatim>\<open>resource-monitor.ts\<close> and
  \<^verbatim>\<open>process-watchdog.ts\<close> as functions on the times and samples their timers see; the
  contract \<open>latch\<close> (report once, at the first moment a condition holds) is proved once for
  all three reporters.

  \<^bold>\<open>The security policies\<close> (\<^verbatim>\<open>src/src/security\<close>): \<open>Zod\<close> holds the schema combinators,
  \<open>Paths\<close> the paths of \<^verbatim>\<open>node:path\<close> and the resolution of symbolic links over a given
  \<^verbatim>\<open>realpath\<close>, \<open>Access\<close>, \<open>Mcp_Grants\<close>, \<open>Trusted_Tools\<close> and \<open>Relationship_Policy\<close> the files of
  the corresponding names; a policy file is its content (\<open>stored\<close>). \<open>Policy_Guarantees\<close> shows
  what an authorised action may touch and what the policy files keep over any operations.

  \<^bold>\<open>Continuations, approvals and rollout\<close> (\<^verbatim>\<open>src/src/shared\<close>): \<open>Continuations\<close> models the
  durable store of \<^verbatim>\<open>continuation-store.ts\<close>, whose operations are all instances of one contract
  (\<open>store_operation\<close>: a row only moves along \<open>may_become\<close>); \<open>Approvals\<close> the wait for an owner's
  answer (\<^verbatim>\<open>tool-approval.ts\<close>, \<^verbatim>\<open>local-tool-approval.ts\<close>) as a \<open>partial_function\<close> over the answers
  and clock readings of each poll, and the expansion of a boundary (\<^verbatim>\<open>boundary-expansion.ts\<close>,
  \<^verbatim>\<open>boundary-expansion-request.ts\<close>) on top of it; \<open>Telemetry\<close> the metrics of
  \<^verbatim>\<open>boundary-telemetry.ts\<close> and the gates of \<^verbatim>\<open>capability-rollout.ts\<close> that read them.

  \<^bold>\<open>Recovery after a restart\<close>: \<open>Recovery\<close> models \<^verbatim>\<open>continuation-recovery.ts\<close> and
  \<^verbatim>\<open>session-rebuild.ts\<close>. What is awaited (gateway, rebuild, resume) is answered by a
  \<open>recovery_world\<close>, which also says what the concurrent loops did to the store meanwhile;
  \<open>lawful\<close> is what is relied on: they use the operations of the store only.

  \<^bold>\<open>The bridge process\<close> (\<^verbatim>\<open>src/src/bridge/bridge.ts\<close>): \<open>Bridge_World\<close> holds its state \<open>bridge\<close>
  (spool, continuations, policy files, routes, watchdog), the calls it makes and the
  \<open>bridge_world\<close> that answers them, the other loops running at each call.
  \<open>Bridge_Delegations\<close> models the retry of pending delegations, \<open>Bridge_Policies\<close> the
  application of policy events and their acknowledgements, \<open>Bridge_Events\<close> \<^verbatim>\<open>handleEvent\<close> and the
  event stream with its reconnections, \<open>Bridge_Replies\<close> the runtime's events and the outbound
  replies, \<open>Bridge_Loops\<close> the start and the heartbeat. \<open>Bridge_Behaviour\<close> states what a handler
  keeps as the contract \<open>event_frame\<close>, which yields that calls are only added and that the
  stored cursor only advances; \<open>Bridge_Promises\<close> says when the bridge sends and acknowledges.
  Handlers that the source runs side by side in a \<^verbatim>\<open>Promise.all\<close> run in order, a map that the
  source iterates while others change it is iterated as it was, and the texts of times in event
  data are the numbers they stand for.

  \<^bold>\<open>What a peer's agent may do on the device\<close>: \<open>Safe_Git\<close> models \<^verbatim>\<open>safe-git.ts\<close>, the reading of
  a peer's git command, its execution over a given file system and git, and the shell command
  written for it; \<open>Codex_Profile\<close> \<^verbatim>\<open>codex/permission-profile.ts\<close>, the sandbox profile of a Codex
  process as text and the files written beside it; \<open>Capabilities\<close> the boundary manifest, the
  requests for wider capabilities, the message a continuation resumes with, the hardening of
  shell commands and the redaction of credentials (\<^verbatim>\<open>boundary-manifest.ts\<close>,
  \<^verbatim>\<open>capability-request.ts\<close>, \<^verbatim>\<open>continuation-message.ts\<close>, \<^verbatim>\<open>full-capability-security.ts\<close>,
  \<^verbatim>\<open>runtime-platform-readiness.ts\<close>).

  \<^bold>\<open>The adapters\<close> (\<^verbatim>\<open>src/src/adapters\<close>): \<open>Codex_Protocol\<close> models the message queue, the arguments
  and events of \<^verbatim>\<open>codex exec\<close>, a turn of the \<^verbatim>\<open>app-server\<close> line by line, and the probes of both
  sandboxes; \<open>Tool_Decisions\<close> what both adapters answer when their agent wants to use a tool, and
  \<open>Tool_Guarantees\<close> what they never allow; \<open>Runtime_Sessions\<close> what both share: the durable log of
  session events, the attestation and the rebuild of a boundary, the words around a message;
  \<open>Codex_Sessions\<close> the sessions and turns of \<^verbatim>\<open>codex-adapter.ts\<close>. \<open>Codex_Guarantees\<close> has their
  invariant \<open>codex_ok\<close> and that every operation (\<open>codex_step\<close>) keeps it, \<open>Codex_Promises\<close> what follows
  for deliveries, turns, releases and restarts; \<open>Claude_Launch\<close> the sandbox, prompts, tool servers and hooks
  the Claude adapter starts its agent with.

  \<^bold>\<open>Conventions.\<close> Times are milliseconds as integers: ISO texts of one fixed form compare as
  their times do. Strings are byte strings. Random identifiers do not collide (\<open>inj random\<close>
  where a property needs it). \<^verbatim>\<open>SELECT\<close> without \<^verbatim>\<open>ORDER BY\<close> answers in the order of insertion.
  Every function is total but the wait for an approval, which is proved to end; no fuel is used.

  \<^bold>\<open>Not modelled.\<close> Process start-up, command line, HTTP clients, the waiting and pinging of
  the event stream, the sessions of the Claude adapter around its SDK, and the direct-message
  agent (\<^verbatim>\<open>src/dm-agent\<close>): they are input and output around external programs.
\<close>

end
